(* ===== verification/Prelude.thy ===== *)
theory Prelude
  imports
    Complex_Main
    "HOL-Library.AList"
    "HOL-Library.Sublist"
    "HOL-Library.Char_ord"
    "HOL-Library.List_Lexorder"
begin

text \<open>
  Shared vocabulary of the development: Python strings (ASCII), dictionaries as association
  lists in insertion order, JSON values, and computations that raise exceptions while they
  extend a trace of external calls (\<open>ret\<close>, \<open>throw\<close>, \<open>bind_io\<close>,
  \<open>catch_io\<close>), with a weakest-precondition calculus and the two trace judgements
  (\<open>emits\<close>, \<open>guarded_from\<close>) the component theories use.
\<close>

section \<open>Collections of facts\<close>

named_theorems wp_simps \<open>weakest preconditions of the program combinators\<close>
named_theorems emits_rules \<open>introduction rules for the events a computation may perform\<close>

section \<open>Python strings\<close>

definition startswith :: "string \<Rightarrow> string \<Rightarrow> bool" where
  "startswith s p \<longleftrightarrow> take (length p) s = p"

text \<open>\<open>sub in s\<close>\<close>

definition contains :: "string \<Rightarrow> string \<Rightarrow> bool" where
  "contains s sub = list_ex (\<lambda>n. startswith (drop n s) sub) [0..<length s + 1]"

definition removeprefix :: "string \<Rightarrow> string \<Rightarrow> string" where
  "removeprefix s p = (if startswith s p then drop (length p) s else s)"

definition lower_char :: "char \<Rightarrow> char" where
  "lower_char c = (let n = (of_char c :: nat) in if 65 \<le> n \<and> n \<le> 90 then char_of (n + 32) else c)"

definition upper_char :: "char \<Rightarrow> char" where
  "upper_char c = (let n = (of_char c :: nat) in if 97 \<le> n \<and> n \<le> 122 then char_of (n - 32) else c)"

definition lower :: "string \<Rightarrow> string" where
  "lower s = map lower_char s"

definition upper :: "string \<Rightarrow> string" where
  "upper s = map upper_char s"

text \<open>The characters \<open>str.strip()\<close> removes, in the Latin-1 range.\<close>

definition is_space :: "char \<Rightarrow> bool" where
  "is_space c = (let n = (of_char c :: nat)
     in (9 \<le> n \<and> n \<le> 13) \<or> (28 \<le> n \<and> n \<le> 32) \<or> n = 133 \<or> n = 160)"

definition lstrip_if :: "(char \<Rightarrow> bool) \<Rightarrow> string \<Rightarrow> string" where
  "lstrip_if p s = dropWhile p s"

definition rstrip_if :: "(char \<Rightarrow> bool) \<Rightarrow> string \<Rightarrow> string" where
  "rstrip_if p s = rev (dropWhile p (rev s))"

definition strip :: "string \<Rightarrow> string" where
  "strip s = rstrip_if is_space (lstrip_if is_space s)"

fun split_on :: "char \<Rightarrow> string \<Rightarrow> string list" where
  "split_on sep [] = [[]]"
| "split_on sep (c # cs) =
     (if c = sep then [] # split_on sep cs
      else (case split_on sep cs of [] \<Rightarrow> [[c]] | w # ws \<Rightarrow> (c # w) # ws))"

text \<open>\<open>str.partition\<close> on one character: the part before, whether the separator was found,
  and the part after.\<close>

fun partition_at :: "char \<Rightarrow> string \<Rightarrow> string \<times> bool \<times> string" where
  "partition_at sep [] = ([], False, [])"
| "partition_at sep (c # cs) =
     (if c = sep then ([], True, cs)
      else (case partition_at sep cs of (a, f, b) \<Rightarrow> (c # a, f, b)))"

fun join :: "string \<Rightarrow> string list \<Rightarrow> string" where
  "join sep [] = []"
| "join sep [w] = w"
| "join sep (w # ws) = w @ sep @ join sep ws"

definition digit_char :: "nat \<Rightarrow> char" where
  "digit_char d = char_of (48 + d)"

fun str_of_nat :: "nat \<Rightarrow> string" where
  "str_of_nat n = (if n < 10 then [digit_char n] else str_of_nat (n div 10) @ [digit_char (n mod 10)])"

declare str_of_nat.simps [simp del]

definition str_of_int :: "int \<Rightarrow> string" where
  "str_of_int i = (if i < 0 then ''-'' @ str_of_nat (nat (- i)) else str_of_nat (nat i))"

text \<open>\<open>repr\<close> of a string, for the messages that print one: single quotes unless the text has
  a single quote and no double quote; backslash, the quote and control characters escaped.\<close>

definition hex_char :: "nat \<Rightarrow> char" where
  "hex_char d = (if d < 10 then char_of (48 + d) else char_of (87 + d))"

definition repr_char :: "char \<Rightarrow> char \<Rightarrow> string" where
  "repr_char q c = (let n = (of_char c :: nat) in
     if c = q \<or> n = 92 then [char_of (92::nat), c]
     else if n = 9 then [char_of (92::nat), CHR ''t'']
     else if n = 10 then [char_of (92::nat), CHR ''n'']
     else if n = 13 then [char_of (92::nat), CHR ''r'']
     else if n < 32 \<or> n = 127 then [char_of (92::nat), CHR ''x'', hex_char (n div 16), hex_char (n mod 16)]
     else [c])"

definition py_repr :: "string \<Rightarrow> string" where
  "py_repr s = (let sq = char_of (39::nat); dq = char_of (34::nat);
     q = (if sq \<in> set s \<and> dq \<notin> set s then dq else sq)
     in q # concat (map (repr_char q) s) @ [q])"

text \<open>Truthiness of an optional string, and Python's \<open>a or b\<close> on it.\<close>

definition truthy :: "string option \<Rightarrow> bool" where
  "truthy v \<longleftrightarrow> (case v of None \<Rightarrow> False | Some s \<Rightarrow> s \<noteq> [])"

definition or_str :: "string option \<Rightarrow> string option \<Rightarrow> string option" where
  "or_str a b = (if truthy a then a else b)"

definition str_or :: "string option \<Rightarrow> string \<Rightarrow> string" where
  "str_or a d = (case a of Some s \<Rightarrow> (if s \<noteq> [] then s else d) | None \<Rightarrow> d)"

lemma truthy_simps [simp]:
  "truthy None = False" "truthy (Some s) = (s \<noteq> [])"
  by (simp_all add: truthy_def)

lemma str_or_simps [simp]:
  "str_or None d = d" "str_or (Some []) d = d" "str_or (Some (c # cs)) d = c # cs"
  by (simp_all add: str_or_def)

lemma str_or_nonempty: "d \<noteq> [] \<Longrightarrow> str_or a d \<noteq> []"
  by (simp add: str_or_def split: option.split)

lemma startswith_append [simp]: "startswith (p @ s) p"
  by (simp add: startswith_def)

lemma removeprefix_append [simp]: "removeprefix (p @ s) p = s"
  by (simp add: removeprefix_def)

lemma startswith_iff_prefix: "startswith s p \<longleftrightarrow> prefix p s"
  by (metis append_eq_conv_conj prefix_def startswith_def take_is_prefix)

lemma split_on_nonempty [simp]: "split_on sep s \<noteq> []"
  by (cases s) (auto split: list.split)

lemma join_split_on: "join [sep] (split_on sep s) = s"
proof (induction s)
  case (Cons c cs)
  obtain w ws where "split_on sep cs = w # ws" by (cases "split_on sep cs") auto
  with Cons show ?case by (cases ws) auto
qed simp

lemma split_on_no_sep: "w \<in> set (split_on sep s) \<Longrightarrow> sep \<notin> set w"
proof (induction s arbitrary: w)
  case (Cons c cs)
  obtain v vs where "split_on sep cs = v # vs" by (cases "split_on sep cs") auto
  with Cons show ?case by (auto split: if_splits)
qed simp

lemma split_on_id: "sep \<notin> set s \<Longrightarrow> split_on sep s = [s]"
  by (induction s) auto

section \<open>JSON values and dictionaries\<close>

text \<open>The values Python's \<open>dict[str, Any]\<close> holds here. A dictionary keeps insertion order and
  \<^const>\<open>AList.update\<close> is item assignment: in place for a key that is present, at the end for a
  new one.\<close>

datatype json =
    JNull
  | JBool bool
  | JInt int
  | JFloat rat
  | JStr string
  | JList "json list"
  | JObj "(string \<times> json) list"

type_synonym dict = "(string \<times> json) list"

definition setdefault :: "'k \<Rightarrow> 'v \<Rightarrow> ('k \<times> 'v) list \<Rightarrow> ('k \<times> 'v) list" where
  "setdefault k v d = (case map_of d k of None \<Rightarrow> AList.update k v d | Some _ \<Rightarrow> d)"

fun merge_dict :: "('k \<times> 'v) list \<Rightarrow> ('k \<times> 'v) list \<Rightarrow> ('k \<times> 'v) list" where
  "merge_dict d [] = d"
| "merge_dict d ((k, v) # ps) = merge_dict (AList.update k v d) ps"

definition jget :: "dict \<Rightarrow> string \<Rightarrow> json" where
  "jget d k = (case map_of d k of Some v \<Rightarrow> v | None \<Rightarrow> JNull)"

definition jget_or :: "dict \<Rightarrow> string \<Rightarrow> json \<Rightarrow> json" where
  "jget_or d k v = (case map_of d k of Some w \<Rightarrow> w | None \<Rightarrow> v)"

fun jtruthy :: "json \<Rightarrow> bool" where
  "jtruthy JNull = False"
| "jtruthy (JBool b) = b"
| "jtruthy (JInt i) = (i \<noteq> 0)"
| "jtruthy (JFloat r) = (r \<noteq> 0)"
| "jtruthy (JStr s) = (s \<noteq> [])"
| "jtruthy (JList xs) = (xs \<noteq> [])"
| "jtruthy (JObj d) = (d \<noteq> [])"

definition jopt :: "string option \<Rightarrow> json" where
  "jopt v = (case v of None \<Rightarrow> JNull | Some s \<Rightarrow> JStr s)"

definition jstrs :: "string list \<Rightarrow> json" where
  "jstrs xs = JList (map JStr xs)"

lemma setdefault_lookup:
  "map_of (setdefault k v d) x = (if x = k then Some (case map_of d k of Some w \<Rightarrow> w | None \<Rightarrow> v)
     else map_of d x)"
  by (auto simp: setdefault_def update_conv split: option.split)

lemma jtruthy_JStr_neq [simp]: "jtruthy v \<Longrightarrow> v \<noteq> JNull"
  by auto

section \<open>Exceptions\<close>

text \<open>The exceptions the modelled code raises or catches. \<open>ClientError\<close> (code, message) and
  \<open>BotoCoreError\<close> come from the AWS SDK, \<open>HTTPError\<close> and \<open>HTTPStatusError\<close> from the HTTP
  client, \<open>HTTPException\<close> (status, detail) is what a route answers with. The predicates
  below follow the class hierarchy: an \<open>except\<close> clause catches the subclasses too.\<close>

record http_response =
  rs_status :: int
  rs_json :: "json option"
  rs_text :: string

datatype exn =
    HTTPException int json
  | ClientError string string
  | BotoCoreError string
  | HTTPError string
  | HTTPStatusError http_response
  | RuntimeError string
  | SchemaMigrationError string
  | ValueError string
  | ValidationError string
  | RenderValidationError string
  | KeyError string
  | InvalidTokenError string
  | ExpiredSignatureError string
  | TypeError string
  | AttributeError string
  | TimeoutExpired string
  | IndexError string

fun is_ClientError :: "exn \<Rightarrow> bool" where
  "is_ClientError (ClientError _ _) = True"
| "is_ClientError _ = False"

fun is_BotoCoreError :: "exn \<Rightarrow> bool" where
  "is_BotoCoreError (BotoCoreError _) = True"
| "is_BotoCoreError _ = False"

fun is_HTTPError :: "exn \<Rightarrow> bool" where
  "is_HTTPError (HTTPError _) = True"
| "is_HTTPError (HTTPStatusError _) = True"
| "is_HTTPError _ = False"

fun is_RuntimeError :: "exn \<Rightarrow> bool" where
  "is_RuntimeError (RuntimeError _) = True"
| "is_RuntimeError (SchemaMigrationError _) = True"
| "is_RuntimeError _ = False"

fun is_HTTPException :: "exn \<Rightarrow> bool" where
  "is_HTTPException (HTTPException _ _) = True"
| "is_HTTPException _ = False"

fun is_RenderValidationError :: "exn \<Rightarrow> bool" where
  "is_RenderValidationError (RenderValidationError _) = True"
| "is_RenderValidationError _ = False"

section \<open>Computations: exceptions over a trace\<close>

text \<open>A computation reads the trace of the external calls made so far (the answers of the
  environment may depend on it), extends it, and returns a value (\<open>Inr\<close>) or raises
  (\<open>Inl\<close>).\<close>

type_synonym ('ev, 'x, 'a) io = "'ev list \<Rightarrow> ('x + 'a) \<times> 'ev list"

definition ret :: "'a \<Rightarrow> ('ev, 'x, 'a) io" where
  "ret a = (\<lambda>h. (Inr a, h))"

definition throw :: "'x \<Rightarrow> ('ev, 'x, 'a) io" where
  "throw x = (\<lambda>h. (Inl x, h))"

definition bind_io :: "('ev, 'x, 'a) io \<Rightarrow> ('a \<Rightarrow> ('ev, 'x, 'b) io) \<Rightarrow> ('ev, 'x, 'b) io" where
  "bind_io m k = (\<lambda>h. case m h of (Inl x, h') \<Rightarrow> (Inl x, h') | (Inr a, h') \<Rightarrow> k a h')"

definition catch_io :: "('ev, 'x, 'a) io \<Rightarrow> ('x \<Rightarrow> ('ev, 'x, 'a) io) \<Rightarrow> ('ev, 'x, 'a) io" where
  "catch_io m f = (\<lambda>h. case m h of (Inl x, h') \<Rightarrow> f x h' | (Inr a, h') \<Rightarrow> (Inr a, h'))"

definition seq_io :: "('ev, 'x, 'a) io \<Rightarrow> ('ev, 'x, 'b) io \<Rightarrow> ('ev, 'x, 'b) io" where
  "seq_io m n = bind_io m (\<lambda>_. n)"

definition lift_res :: "'x + 'a \<Rightarrow> ('ev, 'x, 'a) io" where
  "lift_res r = (\<lambda>h. (r, h))"

text \<open>\<open>for\<close> loops: one that only performs effects, and one that collects the results.\<close>

fun for_io :: "('a \<Rightarrow> ('ev, 'x, unit) io) \<Rightarrow> 'a list \<Rightarrow> ('ev, 'x, unit) io" where
  "for_io f [] = ret ()"
| "for_io f (x # xs) = seq_io (f x) (for_io f xs)"

fun map_io :: "('a \<Rightarrow> ('ev, 'x, 'b) io) \<Rightarrow> 'a list \<Rightarrow> ('ev, 'x, 'b list) io" where
  "map_io f [] = ret []"
| "map_io f (x # xs) = bind_io (f x) (\<lambda>y. bind_io (map_io f xs) (\<lambda>ys. ret (y # ys)))"

text \<open>A loop that threads an accumulator.\<close>

fun fold_io :: "('a \<Rightarrow> 'b \<Rightarrow> ('ev, 'x, 'b) io) \<Rightarrow> 'a list \<Rightarrow> 'b \<Rightarrow> ('ev, 'x, 'b) io" where
  "fold_io f [] b = ret b"
| "fold_io f (x # xs) b = bind_io (f x b) (fold_io f xs)"

lemma run_simps [simp]:
  "ret a h = (Inr a, h)"
  "throw x h = (Inl x, h)"
  "lift_res r h = (r, h)"
  by (simp_all add: ret_def throw_def lift_res_def)

lemma bind_io_simps [simp]:
  "bind_io (ret a) k = k a"
  "bind_io (throw x) k = throw x"
  "catch_io (ret a) f = ret a"
  "catch_io (throw x) f = f x"
  "seq_io (ret a) n = n"
  "seq_io (throw x) n = throw x"
  by (simp_all add: bind_io_def catch_io_def seq_io_def ret_def throw_def)

text \<open>Successful runs, for inversion.\<close>

named_theorems run_ok \<open>when a computation returns normally\<close>

lemma bind_io_ok [run_ok]:
  "bind_io m k h = (Inr b, h') \<longleftrightarrow> (\<exists>a h1. m h = (Inr a, h1) \<and> k a h1 = (Inr b, h'))"
  by (auto simp: bind_io_def split: prod.split sum.split)

lemma seq_io_ok [run_ok]:
  "seq_io m n h = (Inr b, h') \<longleftrightarrow> (\<exists>a h1. m h = (Inr a, h1) \<and> n h1 = (Inr b, h'))"
  by (simp add: seq_io_def run_ok)

lemma catch_throw_ok [run_ok]: "catch_io m (\<lambda>x. throw (f x)) h = (Inr a, h') \<longleftrightarrow> m h = (Inr a, h')"
  by (auto simp: catch_io_def split: prod.split sum.split)

lemma case_sum_run [run_ok]:
  "(case r of Inl x \<Rightarrow> f x | Inr a \<Rightarrow> k a) h = s \<longleftrightarrow> (\<exists>x. r = Inl x \<and> f x h = s) \<or> (\<exists>a. r = Inr a \<and> k a h = s)"
  by (cases r) auto

lemma case_option_run [run_ok]:
  "(case v of None \<Rightarrow> m | Some a \<Rightarrow> k a) h = s \<longleftrightarrow> (v = None \<and> m h = s) \<or> (\<exists>a. v = Some a \<and> k a h = s)"
  by (cases v) auto

lemma bind_io_assoc: "bind_io (bind_io m k) f = bind_io m (\<lambda>a. bind_io (k a) f)"
  by (auto simp: bind_io_def fun_eq_iff split: prod.split sum.split)

lemma snd_bind_cong: "(\<And>a h. snd (k a h) = snd (k' a h)) \<Longrightarrow> snd (bind_io m k h) = snd (bind_io m k' h)"
  by (auto simp: bind_io_def split: prod.split sum.split)

lemma snd_bind_ret [simp]: "snd (bind_io m (\<lambda>a. ret (f a)) h) = snd (m h)"
  by (auto simp: bind_io_def split: prod.split sum.split)

lemma map_sum_id_Inr [simp]: "map_sum f id r = Inr b \<longleftrightarrow> r = Inr b"
  by (cases r) auto

lemma map_sum_Inr_iff: "map_sum f g r = Inr b \<longleftrightarrow> (\<exists>a. r = Inr a \<and> b = g a)"
  by (cases r) auto

lemma map_sum_Inl_iff: "map_sum f g r = Inl x \<longleftrightarrow> (\<exists>y. r = Inl y \<and> x = f y)"
  by (cases r) auto

subsection \<open>Weakest preconditions\<close>

definition wp :: "('ev, 'x, 'a) io \<Rightarrow> ('a \<Rightarrow> 'ev list \<Rightarrow> bool) \<Rightarrow> ('x \<Rightarrow> 'ev list \<Rightarrow> bool) \<Rightarrow> 'ev list \<Rightarrow> bool" where
  "wp m Q R h \<longleftrightarrow> (case m h of (Inl x, h') \<Rightarrow> R x h' | (Inr a, h') \<Rightarrow> Q a h')"

lemma wp_ret [wp_simps]: "wp (ret a) Q R h = Q a h"
  by (simp add: wp_def)

lemma wp_throw [wp_simps]: "wp (throw x) Q R h = R x h"
  by (simp add: wp_def)

lemma wp_lift_res [wp_simps]:
  "wp (lift_res r) Q R h = (case r of Inl x \<Rightarrow> R x h | Inr a \<Rightarrow> Q a h)"
  by (simp add: wp_def)

lemma wp_Pair [wp_simps]:
  "wp (Pair r) Q R h = (case r of Inl x \<Rightarrow> R x h | Inr a \<Rightarrow> Q a h)"
  by (simp add: wp_def)

lemma wp_bind [wp_simps]: "wp (bind_io m k) Q R h = wp m (\<lambda>a. wp (k a) Q R) R h"
  by (auto simp: wp_def bind_io_def split: prod.split sum.split)

lemma wp_seq [wp_simps]: "wp (seq_io m n) Q R h = wp m (\<lambda>_. wp n Q R) R h"
  by (simp add: seq_io_def wp_bind)

lemma wp_catch [wp_simps]: "wp (catch_io m f) Q R h = wp m Q (\<lambda>x. wp (f x) Q R) h"
  by (auto simp: wp_def catch_io_def split: prod.split sum.split)

lemma wp_if [wp_simps]: "wp (if b then m else n) Q R h = (if b then wp m Q R h else wp n Q R h)"
  by simp

lemma wp_mono:
  assumes "wp m Q R h" and "\<And>a h'. Q a h' \<Longrightarrow> Q' a h'" and "\<And>x h'. R x h' \<Longrightarrow> R' x h'"
  shows "wp m Q' R' h"
  using assms by (auto simp: wp_def split: prod.splits sum.splits)

lemma wp_fold_io:
  assumes "I b h" "\<And>x b h. x \<in> set xs \<Longrightarrow> I b h \<Longrightarrow> wp (f x b) I R h"
  shows "wp (fold_io f xs b) I R h"
  using assms
proof (induction xs arbitrary: b h)
  case (Cons x xs)
  have "wp (f x b) I R h" using Cons.prems by simp
  then have "wp (f x b) (\<lambda>b'. wp (fold_io f xs b') I R) R h"
    by (rule wp_mono) (use Cons in auto)
  then show ?case by (simp add: wp_simps)
qed (simp add: wp_simps)

lemma wp_run: "wp m Q R h \<Longrightarrow> m h = (Inr a, h') \<Longrightarrow> Q a h'"
  by (simp add: wp_def)

lemma wp_raised: "wp m Q R h \<Longrightarrow> m h = (Inl x, h') \<Longrightarrow> R x h'"
  by (simp add: wp_def)

lemma wp_of_run:
  assumes "\<And>a h'. m h = (Inr a, h') \<Longrightarrow> Q a h'" and "\<And>x h'. m h = (Inl x, h') \<Longrightarrow> R x h'"
  shows "wp m Q R h"
  using assms by (auto simp: wp_def split: prod.split sum.split)

subsection \<open>The events a computation performs\<close>

text \<open>\<open>emits P m\<close>: whatever \<open>m\<close> does, it only appends events that satisfy \<open>P\<close>.\<close>

definition emits :: "('ev \<Rightarrow> bool) \<Rightarrow> ('ev, 'x, 'a) io \<Rightarrow> bool" where
  "emits P m \<longleftrightarrow> (\<forall>h. \<exists>es. snd (m h) = h @ es \<and> list_all P es)"

lemma emitsD:
  assumes "emits P m" "m h = (r, h')"
  obtains es where "h' = h @ es" "list_all P es"
  using assms unfolding emits_def by (metis snd_conv)

lemma emits_ret [emits_rules]: "emits P (ret a)"
  by (simp add: emits_def)

lemma emits_throw [emits_rules]: "emits P (throw x)"
  by (simp add: emits_def)

lemma emits_lift_res [emits_rules]: "emits P (lift_res r)"
  by (simp add: emits_def)

lemma emits_bind [emits_rules]:
  assumes "emits P m" and "\<And>a. emits P (k a)"
  shows "emits P (bind_io m k)"
  unfolding emits_def
proof
  fix h
  obtain r h1 where m: "m h = (r, h1)" by (cases "m h")
  with assms(1) obtain es where es: "h1 = h @ es" "list_all P es" by (rule emitsD)
  show "\<exists>es. snd (bind_io m k h) = h @ es \<and> list_all P es"
  proof (cases r)
    case (Inl x)
    with m es show ?thesis by (auto simp: bind_io_def)
  next
    case (Inr a)
    obtain r2 h2 where k: "k a h1 = (r2, h2)" by (cases "k a h1")
    with assms(2) obtain es2 where "h2 = h1 @ es2" "list_all P es2" by (rule emitsD)
    with Inr m es k show ?thesis by (auto simp: bind_io_def)
  qed
qed

lemma emits_seq [emits_rules]: "emits P m \<Longrightarrow> emits P n \<Longrightarrow> emits P (seq_io m n)"
  by (simp add: seq_io_def emits_bind)

lemma emits_catch [emits_rules]:
  assumes "emits P m" and "\<And>x. emits P (f x)"
  shows "emits P (catch_io m f)"
  unfolding emits_def
proof
  fix h
  obtain r h1 where m: "m h = (r, h1)" by (cases "m h")
  with assms(1) obtain es where es: "h1 = h @ es" "list_all P es" by (rule emitsD)
  show "\<exists>es. snd (catch_io m f h) = h @ es \<and> list_all P es"
  proof (cases r)
    case (Inl x)
    obtain r2 h2 where f: "f x h1 = (r2, h2)" by (cases "f x h1")
    with assms(2) obtain es2 where "h2 = h1 @ es2" "list_all P es2" by (rule emitsD)
    with Inl m es f show ?thesis by (auto simp: catch_io_def)
  next
    case (Inr a)
    with m es show ?thesis by (auto simp: catch_io_def)
  qed
qed

lemma emits_if [emits_rules]:
  "(b \<Longrightarrow> emits P m) \<Longrightarrow> (\<not> b \<Longrightarrow> emits P n) \<Longrightarrow> emits P (if b then m else n)"
  by simp

lemma emits_option [emits_rules]:
  "(v = None \<Longrightarrow> emits P m) \<Longrightarrow> (\<And>a. v = Some a \<Longrightarrow> emits P (k a)) \<Longrightarrow>
     emits P (case v of None \<Rightarrow> m | Some a \<Rightarrow> k a)"
  by (cases v) auto

lemma emits_sum [emits_rules]:
  "(\<And>a. v = Inl a \<Longrightarrow> emits P (f a)) \<Longrightarrow> (\<And>b. v = Inr b \<Longrightarrow> emits P (g b)) \<Longrightarrow>
     emits P (case v of Inl a \<Rightarrow> f a | Inr b \<Rightarrow> g b)"
  by (cases v) auto

lemma emits_prod [emits_rules]: "(\<And>a b. emits P (f a b)) \<Longrightarrow> emits P (case v of (a, b) \<Rightarrow> f a b)"
  by (cases v) auto

lemma emits_let [emits_rules]: "emits P (f v) \<Longrightarrow> emits P (let x = v in f x)"
  by simp

lemma emits_for [emits_rules]: "(\<And>x. emits P (f x)) \<Longrightarrow> emits P (for_io f xs)"
  by (induction xs) (auto intro: emits_rules)

lemma emits_map [emits_rules]: "(\<And>x. emits P (f x)) \<Longrightarrow> emits P (map_io f xs)"
  by (induction xs) (auto intro: emits_rules)

lemma emits_fold [emits_rules]: "(\<And>x b. emits P (f x b)) \<Longrightarrow> emits P (fold_io f xs b)"
  by (induction xs arbitrary: b) (auto intro: emits_rules)

lemma emits_weaken: "emits P m \<Longrightarrow> (\<And>e. P e \<Longrightarrow> Q e) \<Longrightarrow> emits Q m"
  unfolding emits_def by (metis (mono_tags, lifting) list.pred_mono_strong)

text \<open>\<open>guarded_from G W m h\<close>: started with history \<open>h\<close>, every event of kind \<open>W\<close> that \<open>m\<close>
  performs happens when the history satisfies \<open>G\<close>.\<close>

definition guarded_from :: "('ev list \<Rightarrow> bool) \<Rightarrow> ('ev \<Rightarrow> bool) \<Rightarrow> ('ev, 'x, 'a) io \<Rightarrow> 'ev list \<Rightarrow> bool" where
  "guarded_from G W m h \<longleftrightarrow> (\<exists>es. snd (m h) = h @ es \<and>
     (\<forall>pre e post. es = pre @ e # post \<longrightarrow> W e \<longrightarrow> G (h @ pre)))"

lemma split_event:
  assumes "es @ es2 = pre @ e # post"
  obtains us where "es = pre @ e # us" | ys where "pre = es @ ys" "es2 = ys @ e # post"
  using assms that by (auto simp: append_eq_append_conv2 append_eq_Cons_conv)

lemma guarded_from_quiet: "emits (\<lambda>e. \<not> W e) m \<Longrightarrow> guarded_from G W m h"
  unfolding emits_def guarded_from_def by (fastforce simp: list_all_iff)

lemma guarded_from_open:
  assumes "G h" "\<And>xs ys. G xs \<Longrightarrow> G (xs @ ys)" "emits (\<lambda>_. True) m"
  shows "guarded_from G W m h"
  using assms unfolding emits_def guarded_from_def by blast

lemma guarded_from_bind:
  assumes first: "guarded_from G W m h"
    and rest: "wp m (\<lambda>a h'. guarded_from G W (k a) h') (\<lambda>_ _. True) h"
  shows "guarded_from G W (bind_io m k) h"
proof -
  obtain r h1 where m: "m h = (r, h1)" by (cases "m h")
  with first obtain es where es: "h1 = h @ es"
    and g1: "\<And>pre e post. es = pre @ e # post \<Longrightarrow> W e \<Longrightarrow> G (h @ pre)"
    unfolding guarded_from_def by auto
  show ?thesis
  proof (cases r)
    case (Inl x)
    with m es g1 show ?thesis by (auto simp: guarded_from_def bind_io_def)
  next
    case (Inr a)
    with rest m have "guarded_from G W (k a) h1" by (simp add: wp_def)
    then obtain es2 where es2: "snd (k a h1) = h1 @ es2"
      and g2: "\<And>pre e post. es2 = pre @ e # post \<Longrightarrow> W e \<Longrightarrow> G (h1 @ pre)"
      unfolding guarded_from_def by blast
    have "G (h @ pre)" if eq: "es @ es2 = pre @ e # post" and "W e" for pre e post
    proof (rule split_event [OF eq])
      show "G (h @ pre)" if "es = pre @ e # us" for us using g1 [OF that \<open>W e\<close>] .
      show "G (h @ pre)" if "pre = es @ ys" "es2 = ys @ e # post" for ys
        using g2 [OF that(2) \<open>W e\<close>] that(1) es by simp
    qed
    with Inr m es es2 show ?thesis by (auto simp: guarded_from_def bind_io_def)
  qed
qed

lemma guarded_from_seq:
  "guarded_from G W m h \<Longrightarrow> wp m (\<lambda>_ h'. guarded_from G W n h') (\<lambda>_ _. True) h \<Longrightarrow> guarded_from G W (seq_io m n) h"
  unfolding seq_io_def by (rule guarded_from_bind)

lemma guarded_from_run:
  assumes "guarded_from G W m []" "m [] = (r, pre @ e # post)" "W e"
  shows "G pre"
  using assms unfolding guarded_from_def by auto

lemma wp_append:
  assumes "emits P m" "\<And>r es. list_all P es \<Longrightarrow> Q r (h @ es)" "\<And>x es. list_all P es \<Longrightarrow> R x (h @ es)"
  shows "wp m Q R h"
  by (rule wp_of_run) (use assms in \<open>auto elim!: emitsD\<close>)

text \<open>Reifying an exception.\<close>

definition try_io :: "('ev, 'x, 'a) io \<Rightarrow> ('ev, 'y, 'x + 'a) io" where
  "try_io m = (\<lambda>h. case m h of (r, h') \<Rightarrow> (Inr r, h'))"

lemma wp_try [wp_simps]: "wp (try_io m) Q R h = wp m (\<lambda>a. Q (Inr a)) (\<lambda>x. Q (Inl x)) h"
  by (auto simp: wp_def try_io_def split: prod.split sum.split)

lemma emits_try [emits_rules]: "emits P m \<Longrightarrow> emits P (try_io m)"
  by (auto simp: emits_def try_io_def split: prod.split) (metis snd_conv)

lemma try_io_run [run_ok]: "try_io m h = (Inr r, h') \<longleftrightarrow> m h = (r, h')"
  by (auto simp: try_io_def split: prod.split)

text \<open>Adding to one entry of a dictionary of numbers adds to their sum.\<close>

lemma update_sum:
  fixes g :: "('k \<times> rat) list"
  assumes "distinct (map fst g)"
  shows "sum_list (map snd (AList.update k ((case map_of g k of Some q \<Rightarrow> q | None \<Rightarrow> 0) + x) g)) = sum_list (map snd g) + x"
  using assms
proof (induction g)
  case (Cons p g)
  then show ?case by (cases p) auto
qed simp

text \<open>A loop over programs that never raise.\<close>

lemma map_io_total:
  assumes "\<And>x h. \<exists>r h'. f x h = (Inr r, h')"
  shows "\<exists>rs h'. map_io f xs h = (Inr rs, h') \<and> length rs = length xs"
proof (induction xs arbitrary: h)
  case (Cons x xs)
  obtain r h1 where "f x h = (Inr r, h1)" using assms by blast
  with Cons.IH [of h1] show ?case by (auto simp: bind_io_def ret_def)
qed (simp add: ret_def)

end
