(* ===== verification/Settings.thy ===== *)
theory Settings
  imports Prelude
begin

text \<open>
  Model of \<open>libs/common/sovereign/settings.py\<close>: the settings object as a record built from the
  process environment, the secure-by-default switches that depend on the environment name, the
  resolution of managed secrets, and the start-up gates \<open>get_settings\<close> and
  \<open>assert_secure_posture\<close>. Python's \<open>int()\<close> and \<open>float()\<close> on strings and the secrets
  backend are arguments.
\<close>

section \<open>The settings record\<close>

record settings =
  cfg_env :: string
  cfg_aws_region :: string
  cfg_dynamodb_endpoint :: "string option"
  cfg_s3_endpoint :: "string option"
  cfg_s3_access_key :: string
  cfg_s3_secret_key :: string
  cfg_config_bucket :: string
  cfg_clickhouse_host :: string
  cfg_clickhouse_port :: int
  cfg_clickhouse_database :: string
  cfg_control_plane_url :: string
  cfg_audit_service_url :: string
  cfg_metering_service_url :: string
  cfg_opa_url :: string
  cfg_opa_decision_path :: string
  cfg_broker_username :: string
  cfg_broker_password :: string
  cfg_dev_bearer_token :: string
  cfg_shared_bearer_auth_enabled :: bool
  cfg_broker_trust_basic_auth :: bool
  cfg_strict_secrets :: bool
  cfg_dev_jwt_secret :: string
  cfg_oidc_issuer_url :: string
  cfg_oidc_audience :: string
  cfg_require_oidc :: bool
  cfg_oidc_jwks_cache_ttl_seconds :: rat
  cfg_oidc_jwks_stale_grace_seconds :: rat
  cfg_service_name :: string
  cfg_rate_limit_rps :: rat
  cfg_rate_limit_burst :: rat
  cfg_reconcile_interval_seconds :: rat
  cfg_reconcile_batch_limit :: int
  cfg_audit_spool_path :: string
  cfg_audit_retention_days :: int
  cfg_siem_webhook_url :: string
  cfg_siem_webhook_token :: string
  cfg_siem_webhook_timeout_seconds :: rat
  cfg_audit_signature_key_id :: string
  cfg_audit_signing_private_key_pem :: string
  cfg_require_audit_signing :: bool
  cfg_secrets_provider :: string
  cfg_secrets_prefix :: string
  cfg_secrets_ttl_seconds :: int
  cfg_vault_addr :: string
  cfg_vault_token :: string
  cfg_vault_kv_mount :: string
  cfg_require_managed_secrets :: bool
  cfg_workload_identity_enabled :: bool
  cfg_allowed_workload_identities :: string
  cfg_mtls_required :: bool
  cfg_workload_identity :: string
  cfg_mesh_sds_enabled :: bool
  cfg_mesh_sds_socket_path :: string
  cfg_mesh_mtls_strict :: bool
  cfg_portal_origins :: string

section \<open>Environment switches\<close>

definition env_bool :: "(string \<rightharpoonup> string) \<Rightarrow> string \<Rightarrow> bool \<Rightarrow> bool" where
  "env_bool environ name dflt = (case environ name of None \<Rightarrow> dflt
     | Some v \<Rightarrow> lower v \<in> {''1'', ''true'', ''yes''})"

definition getenv :: "(string \<rightharpoonup> string) \<Rightarrow> string \<Rightarrow> string \<Rightarrow> string" where
  "getenv environ name dflt = (case environ name of None \<Rightarrow> dflt | Some v \<Rightarrow> v)"

definition DEV_ENVIRONMENTS :: "string set" where
  "DEV_ENVIRONMENTS = {''dev'', ''development'', ''local'', ''test'', ''testing'', ''ci''}"

definition is_development :: "string \<Rightarrow> bool" where
  "is_development e \<longleftrightarrow> lower e \<in> DEV_ENVIRONMENTS"

definition requires_real_secrets :: "string \<Rightarrow> bool" where
  "requires_real_secrets e \<longleftrightarrow> \<not> is_development e"

definition default_broker_trust_basic_auth :: "string \<Rightarrow> bool" where
  "default_broker_trust_basic_auth e \<longleftrightarrow> \<not> requires_real_secrets e"

definition default_strict_secrets :: "string \<Rightarrow> bool" where
  "default_strict_secrets e \<longleftrightarrow> requires_real_secrets e"

definition default_shared_bearer_auth_enabled :: "string \<Rightarrow> bool" where
  "default_shared_bearer_auth_enabled e \<longleftrightarrow> \<not> requires_real_secrets e"

definition default_require_oidc :: "string \<Rightarrow> bool" where
  "default_require_oidc e \<longleftrightarrow> requires_real_secrets e"

definition default_require_managed_secrets :: "string \<Rightarrow> bool" where
  "default_require_managed_secrets e \<longleftrightarrow> requires_real_secrets e"

definition default_workload_identity_enabled :: "string \<Rightarrow> bool" where
  "default_workload_identity_enabled e \<longleftrightarrow> requires_real_secrets e"

definition default_mtls_required :: "string \<Rightarrow> bool" where
  "default_mtls_required e \<longleftrightarrow> requires_real_secrets e"

definition default_require_audit_signing :: "string \<Rightarrow> bool" where
  "default_require_audit_signing e \<longleftrightarrow> requires_real_secrets e"

text \<open>The class body of \<open>Settings\<close>, evaluated on a process environment. \<open>pint\<close> and
  \<open>pfloat\<close> are \<open>int()\<close> and \<open>float()\<close>; \<open>None\<close> is the \<open>ValueError\<close> they raise.\<close>

definition Settings_of ::
  "(string \<Rightarrow> int option) \<Rightarrow> (string \<Rightarrow> rat option) \<Rightarrow> (string \<rightharpoonup> string) \<Rightarrow> settings option" where
  "Settings_of pint pfloat environ =
    (let e = getenv environ ''ENV'' ''dev'';
         str = getenv environ;
         flag = env_bool environ
     in case (pint (str ''CLICKHOUSE_PORT'' ''8123''), pint (str ''RECONCILE_BATCH_LIMIT'' ''200''),
              pint (str ''AUDIT_RETENTION_DAYS'' ''730''), pint (str ''SECRETS_TTL_SECONDS'' ''0'')) of
       (Some ch_port, Some batch, Some retention, Some sec_ttl) \<Rightarrow>
         (case (pfloat (str ''OIDC_JWKS_CACHE_TTL_SECONDS'' ''3600''),
                pfloat (str ''OIDC_JWKS_STALE_GRACE_SECONDS'' ''900''),
                pfloat (str ''RATE_LIMIT_RPS'' ''50''), pfloat (str ''RATE_LIMIT_BURST'' ''100''),
                pfloat (str ''RECONCILE_INTERVAL_SECONDS'' ''0''),
                pfloat (str ''SIEM_WEBHOOK_TIMEOUT_SECONDS'' ''2'')) of
            (Some jwks_ttl, Some jwks_grace, Some rps, Some burst, Some interval, Some siem_to) \<Rightarrow>
              Some \<lparr>
                cfg_env = e,
                cfg_aws_region = str ''AWS_REGION'' ''us-east-1'',
                cfg_dynamodb_endpoint = environ ''DYNAMODB_ENDPOINT'',
                cfg_s3_endpoint = environ ''S3_ENDPOINT'',
                cfg_s3_access_key = str ''S3_ACCESS_KEY'' ''minioadmin'',
                cfg_s3_secret_key = str ''S3_SECRET_KEY'' ''minioadmin'',
                cfg_config_bucket = str ''CONFIG_BUCKET'' ''sovereign-configs'',
                cfg_clickhouse_host = str ''CLICKHOUSE_HOST'' ''localhost'',
                cfg_clickhouse_port = ch_port,
                cfg_clickhouse_database = str ''CLICKHOUSE_DATABASE'' ''sovereign'',
                cfg_control_plane_url = str ''CONTROL_PLANE_URL'' ''http://localhost:8090'',
                cfg_audit_service_url = str ''AUDIT_SERVICE_URL'' ''http://localhost:8086'',
                cfg_metering_service_url = str ''METERING_SERVICE_URL'' ''http://localhost:8087'',
                cfg_opa_url = str ''OPA_URL'' ''http://localhost:8181'',
                cfg_opa_decision_path = str ''OPA_DECISION_PATH'' ''v1/data/sovereign/decision'',
                cfg_broker_username = str ''BROKER_USERNAME'' ''broker'',
                cfg_broker_password = str ''BROKER_PASSWORD'' ''broker'',
                cfg_dev_bearer_token = str ''DEV_BEARER_TOKEN'' ''dev-token'',
                cfg_shared_bearer_auth_enabled =
                  flag ''SHARED_BEARER_AUTH_ENABLED'' (default_shared_bearer_auth_enabled e),
                cfg_broker_trust_basic_auth =
                  flag ''BROKER_TRUST_BASIC_AUTH'' (default_broker_trust_basic_auth e),
                cfg_strict_secrets = flag ''STRICT_SECRETS'' (default_strict_secrets e),
                cfg_dev_jwt_secret =
                  str ''DEV_JWT_SECRET'' ''dev-jwt-secret-replace-me-with-a-real-one'',
                cfg_oidc_issuer_url = str ''OIDC_ISSUER_URL'' [],
                cfg_oidc_audience = str ''OIDC_AUDIENCE'' [],
                cfg_require_oidc = flag ''REQUIRE_OIDC'' (default_require_oidc e),
                cfg_oidc_jwks_cache_ttl_seconds = jwks_ttl,
                cfg_oidc_jwks_stale_grace_seconds = jwks_grace,
                cfg_service_name = str ''SERVICE_NAME'' ''unknown'',
                cfg_rate_limit_rps = rps,
                cfg_rate_limit_burst = burst,
                cfg_reconcile_interval_seconds = interval,
                cfg_reconcile_batch_limit = batch,
                cfg_audit_spool_path = str ''AUDIT_SPOOL_PATH'' [],
                cfg_audit_retention_days = retention,
                cfg_siem_webhook_url = str ''SIEM_WEBHOOK_URL'' [],
                cfg_siem_webhook_token = str ''SIEM_WEBHOOK_TOKEN'' [],
                cfg_siem_webhook_timeout_seconds = siem_to,
                cfg_audit_signature_key_id = str ''AUDIT_SIGNATURE_KEY_ID'' [],
                cfg_audit_signing_private_key_pem = str ''AUDIT_SIGNING_PRIVATE_KEY_PEM'' [],
                cfg_require_audit_signing =
                  flag ''REQUIRE_AUDIT_SIGNING'' (default_require_audit_signing e),
                cfg_secrets_provider = str ''SECRETS_PROVIDER'' ''env'',
                cfg_secrets_prefix = str ''SECRETS_PREFIX'' [],
                cfg_secrets_ttl_seconds = sec_ttl,
                cfg_vault_addr = str ''VAULT_ADDR'' [],
                cfg_vault_token = str ''VAULT_TOKEN'' [],
                cfg_vault_kv_mount = str ''VAULT_KV_MOUNT'' ''secret'',
                cfg_require_managed_secrets =
                  flag ''REQUIRE_MANAGED_SECRETS'' (default_require_managed_secrets e),
                cfg_workload_identity_enabled =
                  flag ''WORKLOAD_IDENTITY_ENABLED'' (default_workload_identity_enabled e),
                cfg_allowed_workload_identities = str ''ALLOWED_WORKLOAD_IDENTITIES'' [],
                cfg_mtls_required = flag ''MTLS_REQUIRED'' (default_mtls_required e),
                cfg_workload_identity = str ''WORKLOAD_IDENTITY'' [],
                cfg_mesh_sds_enabled = flag ''MESH_SDS_ENABLED'' False,
                cfg_mesh_sds_socket_path = str ''MESH_SDS_SOCKET_PATH'' ''/run/spire/sockets/agent.sock'',
                cfg_mesh_mtls_strict = flag ''MESH_MTLS_STRICT'' False,
                cfg_portal_origins = str ''PORTAL_ORIGINS''
                  ''http://localhost:5173,http://localhost:4173,http://localhost:8088''
              \<rparr>
          | _ \<Rightarrow> None)
     | _ \<Rightarrow> None)"

definition asserted_workload_identity :: "settings \<Rightarrow> string" where
  "asserted_workload_identity s = (if cfg_workload_identity s \<noteq> [] then cfg_workload_identity s
     else ''spiffe://sovereign/'' @ cfg_service_name s)"

definition mesh_trust_domain :: "settings \<Rightarrow> string" where
  "mesh_trust_domain s = (let identity = asserted_workload_identity s in
     if startswith identity ''spiffe://''
     then (let d = fst (partition_at (CHR ''/'') (removeprefix identity ''spiffe://''))
           in if d \<noteq> [] then d else ''sovereign'')
     else ''sovereign'')"

section \<open>Managed secrets\<close>

definition DEV_SENTINELS :: "(string \<times> (settings \<Rightarrow> string) \<times> string) list" where
  "DEV_SENTINELS =
    [(''dev_bearer_token'', cfg_dev_bearer_token, ''dev-token''),
     (''dev_jwt_secret'', cfg_dev_jwt_secret, ''dev-jwt-secret-replace-me-with-a-real-one''),
     (''broker_password'', cfg_broker_password, ''broker''),
     (''s3_secret_key'', cfg_s3_secret_key, ''minioadmin'')]"

definition live_sentinels :: "settings \<Rightarrow> string list" where
  "live_sentinels s = [k. (k, field, v) \<leftarrow> DEV_SENTINELS, field s = v]"

definition MANAGED_SECRET_FIELDS :: "((string \<Rightarrow> settings \<Rightarrow> settings) \<times> string) list" where
  "MANAGED_SECRET_FIELDS =
    [(\<lambda>v s. s\<lparr>cfg_dev_bearer_token := v\<rparr>, ''service-bearer-token''),
     (\<lambda>v s. s\<lparr>cfg_broker_password := v\<rparr>, ''broker-password''),
     (\<lambda>v s. s\<lparr>cfg_s3_access_key := v\<rparr>, ''s3-access-key''),
     (\<lambda>v s. s\<lparr>cfg_s3_secret_key := v\<rparr>, ''s3-secret-key''),
     (\<lambda>v s. s\<lparr>cfg_dev_jwt_secret := v\<rparr>, ''jwt-signing-secret''),
     (\<lambda>v s. s\<lparr>cfg_audit_signing_private_key_pem := v\<rparr>, ''audit-signing-private-key''),
     (\<lambda>v s. s\<lparr>cfg_siem_webhook_token := v\<rparr>, ''siem-webhook-token'')]"

definition secrets_kind :: "settings \<Rightarrow> string" where
  "secrets_kind s = lower (if cfg_secrets_provider s \<noteq> [] then cfg_secrets_provider s else ''env'')"

text \<open>\<open>get_optional\<close> is the provider's lookup by logical name; \<open>provider_for\<close> builds the provider
  and raises for an unknown kind.\<close>

definition set_managed :: "(string \<Rightarrow> string option) \<Rightarrow> settings \<Rightarrow> settings" where
  "set_managed get_optional s =
     fold (\<lambda>(setter, name) s. case get_optional name of None \<Rightarrow> s | Some v \<Rightarrow> setter v s)
       MANAGED_SECRET_FIELDS s"

definition resolve_managed_secrets ::
  "(settings \<Rightarrow> exn + (string \<Rightarrow> string option)) \<Rightarrow> settings \<Rightarrow> exn + settings" where
  "resolve_managed_secrets provider_for s =
     (if secrets_kind s \<in> {''env'', []} then Inr s
      else case provider_for s of Inl x \<Rightarrow> Inl x
        | Inr get_optional \<Rightarrow> Inr (set_managed get_optional s))"

section \<open>Start-up gates\<close>

definition refuse :: "settings \<Rightarrow> string \<Rightarrow> exn" where
  "refuse s why = RuntimeError
     (''refusing to start in a managed environment (ENV='' @ cfg_env s @ '') '' @ why)"

definition get_settings ::
  "(settings \<Rightarrow> exn + (string \<Rightarrow> string option)) \<Rightarrow> settings \<Rightarrow> exn + settings" where
  "get_settings provider_for s0 =
    (case resolve_managed_secrets provider_for s0 of Inl x \<Rightarrow> Inl x | Inr s \<Rightarrow>
      if \<not> requires_real_secrets (cfg_env s) then Inr s
      else if live_sentinels s \<noteq> [] \<and> cfg_strict_secrets s
        then Inl (refuse s (''with dev sentinels active: '' @ join '', '' (live_sentinels s)))
      else if cfg_require_oidc s \<and> (cfg_oidc_issuer_url s = [] \<or> cfg_oidc_audience s = [])
        then Inl (refuse s ''without OIDC_ISSUER_URL and OIDC_AUDIENCE'')
      else if cfg_require_managed_secrets s \<and> secrets_kind s = ''env''
        then Inl (refuse s ''with env-only secrets provider'')
      else if cfg_require_audit_signing s \<and>
          (cfg_audit_signature_key_id s = [] \<or> cfg_audit_signing_private_key_pem s = [])
        then Inl (refuse s ''without audit signing key material'')
      else if cfg_broker_trust_basic_auth s
        then Inl (refuse s (''with the Basic-auth RBAC bypass enabled; set '' @
          ''BROKER_TRUST_BASIC_AUTH=false''))
      else Inr s)"

definition assert_secure_posture :: "settings \<Rightarrow> exn + unit" where
  "assert_secure_posture s =
    (if \<not> requires_real_secrets (cfg_env s) then Inr ()
     else if cfg_shared_bearer_auth_enabled s
       then Inl (RuntimeError (''FATAL: shared bearer auth is enabled in a managed environment '' @
         ''(ENV='' @ cfg_env s @ ''). Set SHARED_BEARER_AUTH_ENABLED=false and use OIDC '' @
         ''or workload identity.''))
     else if \<not> (cfg_require_oidc s \<or> cfg_mtls_required s)
       then Inl (RuntimeError (''FATAL: no strong auth (OIDC or mTLS) configured for a managed '' @
         ''environment (ENV='' @ cfg_env s @ '').''))
     else Inr ())"

section \<open>Lemmas\<close>

lemma set_managed_frame [simp]:
  "cfg_env (set_managed g s) = cfg_env s"
  "cfg_secrets_provider (set_managed g s) = cfg_secrets_provider s"
  "cfg_broker_trust_basic_auth (set_managed g s) = cfg_broker_trust_basic_auth s"
  "cfg_shared_bearer_auth_enabled (set_managed g s) = cfg_shared_bearer_auth_enabled s"
  by (simp_all add: set_managed_def MANAGED_SECRET_FIELDS_def split: option.split)

lemma resolve_managed_env:
  "resolve_managed_secrets pf s0 = Inr s \<Longrightarrow> cfg_env s = cfg_env s0"
  by (auto simp: resolve_managed_secrets_def split: if_splits sum.splits)

lemma live_sentinels_empty_iff:
  "live_sentinels s = [] \<longleftrightarrow> cfg_dev_bearer_token s \<noteq> ''dev-token'' \<and>
     cfg_dev_jwt_secret s \<noteq> ''dev-jwt-secret-replace-me-with-a-real-one'' \<and>
     cfg_broker_password s \<noteq> ''broker'' \<and> cfg_s3_secret_key s \<noteq> ''minioadmin''"
  by (auto simp: live_sentinels_def DEV_SENTINELS_def)

lemma get_settings_dev:
  "secrets_kind s = ''env'' \<Longrightarrow> is_development (cfg_env s) \<Longrightarrow> get_settings pf s = Inr s"
  by (simp add: get_settings_def resolve_managed_secrets_def requires_real_secrets_def)

end
