(* ===== verification/Environment.thy ===== *)
theory Environment
  imports Settings
begin

text \<open>
  The code the platform calls and does not contain: DynamoDB, S3, the HTTP peers (policy engine,
  control plane, audit and metering services), command-line tools, token verification, the clock,
  random identifiers, and pydantic's conversion of JSON leaves. All of it is one record of
  functions, an argument of the definitions that use it; it also carries the settings and the trace
  id of the request being handled. A function may look at the trace of the
  calls made so far, so any behaviour of the outside, failures included, is an instance.
  \<open>table_view\<close> reads the contents of a table off a trace; the named hypotheses at the end say
  what the documentation of these services promises.
\<close>

section \<open>Requests, items and events\<close>

record http_request =
  rq_method :: string
  rq_url :: string
  rq_headers :: "(string \<times> string) list"
  rq_body :: json

text \<open>A row: its key (partition key, then sort key when there is one), its other string
  attributes, and the \<open>payload\<close> attribute. A payload is the text of a JSON value, another text,
  not a text at all, or absent.\<close>

datatype payload = PText json | PBadText string | POther | PAbsent

record item =
  it_key :: "string list"
  it_attrs :: "(string \<times> string) list"
  it_payload :: payload

text \<open>A key condition on one partition, on the table or on a secondary index, with the sort-key
  range and the page size.\<close>

datatype sort_range = AnyRange | Between string string | AtLeast string | Below string

record ddb_query =
  dq_index :: "string option"
  dq_hash :: string
  dq_range :: sort_range
  dq_limit :: "int option"
  dq_forward :: bool

record ddb_scan =
  sc_limit :: "int option"
  sc_filter :: "(string \<times> string) option"

datatype aws_error = AwsClient string string | AwsBoto string

fun aws_exn :: "aws_error \<Rightarrow> exn" where
  "aws_exn (AwsClient c m) = ClientError c m"
| "aws_exn (AwsBoto m) = BotoCoreError m"

type_synonym cli_result = "int \<times> string \<times> string"

datatype event =
    EvGet string "string list" "aws_error + item option"
  | EvPut string item "aws_error + unit"
  | EvDelete string "string list" "aws_error + unit"
  | EvQuery string ddb_query "aws_error + item list"
  | EvScan string ddb_scan "aws_error + item list"
  | EvHttp http_request "string + http_response"
  | EvS3Put string string string string "aws_error + unit"
  | EvS3Get string string "aws_error + string"
  | EvS3List string string "string list list \<times> aws_error option"
  | EvS3Delete string string "aws_error + unit"
  | EvRun "string list" "string + cli_result"

text \<open>A \<open>datetime\<close> is represented by its \<open>isoformat()\<close> text.\<close>

type_synonym datetime = string

type_synonym 'a prog = "(event, exn, 'a) io"

section \<open>The environment\<close>

record env =
  env_settings :: settings
  env_trace_id :: "string option"
  env_now :: "event list \<Rightarrow> string"
  env_token_hex :: "event list \<Rightarrow> nat \<Rightarrow> string"
  env_get_item :: "event list \<Rightarrow> string \<Rightarrow> string list \<Rightarrow> aws_error + item option"
  env_put_item :: "event list \<Rightarrow> string \<Rightarrow> item \<Rightarrow> aws_error + unit"
  env_delete_item :: "event list \<Rightarrow> string \<Rightarrow> string list \<Rightarrow> aws_error + unit"
  env_query :: "event list \<Rightarrow> string \<Rightarrow> ddb_query \<Rightarrow> aws_error + item list"
  env_scan :: "event list \<Rightarrow> string \<Rightarrow> ddb_scan \<Rightarrow> aws_error + item list"
  env_http :: "event list \<Rightarrow> http_request \<Rightarrow> string + http_response"
  env_s3_put :: "event list \<Rightarrow> string \<Rightarrow> string \<Rightarrow> string \<Rightarrow> string \<Rightarrow> aws_error + unit"
  env_s3_get :: "event list \<Rightarrow> string \<Rightarrow> string \<Rightarrow> aws_error + string"
  env_s3_list :: "event list \<Rightarrow> string \<Rightarrow> string \<Rightarrow> string list list \<times> aws_error option"
  env_s3_delete :: "event list \<Rightarrow> string \<Rightarrow> string \<Rightarrow> aws_error + unit"
  env_which :: "string \<Rightarrow> bool"
  env_run :: "event list \<Rightarrow> string list \<Rightarrow> string + cli_result"
  env_oidc_verify :: "event list \<Rightarrow> string \<Rightarrow> string \<Rightarrow> string \<Rightarrow> exn + dict"
  env_jwt_decode :: "string \<Rightarrow> string \<Rightarrow> exn + dict"
  env_str_exn :: "exn \<Rightarrow> string"
  env_str_json :: "json \<Rightarrow> string"
  env_json_dumps :: "json \<Rightarrow> string"
  env_pyd_int :: "json \<Rightarrow> int option"
  env_pyd_float :: "json \<Rightarrow> rat option"
  env_pyd_str :: "json \<Rightarrow> string option"
  env_pyd_bool :: "json \<Rightarrow> bool option"
  env_pyd_datetime :: "json \<Rightarrow> datetime option"
  env_dump_datetime :: "datetime \<Rightarrow> string"

abbreviation cfg :: "env \<Rightarrow> settings" where
  "cfg \<equiv> env_settings"

section \<open>External calls\<close>

definition now_io :: "env \<Rightarrow> string prog" where
  "now_io E = (\<lambda>h. (Inr (env_now E h), h))"

definition token_hex_io :: "env \<Rightarrow> nat \<Rightarrow> string prog" where
  "token_hex_io E n = (\<lambda>h. (Inr (env_token_hex E h n), h))"

definition get_item :: "env \<Rightarrow> string \<Rightarrow> string list \<Rightarrow> item option prog" where
  "get_item E t k = (\<lambda>h. let r = env_get_item E h t k
     in (map_sum aws_exn id r, h @ [EvGet t k r]))"

definition put_item :: "env \<Rightarrow> string \<Rightarrow> item \<Rightarrow> unit prog" where
  "put_item E t i = (\<lambda>h. let r = env_put_item E h t i
     in (map_sum aws_exn id r, h @ [EvPut t i r]))"

definition delete_item :: "env \<Rightarrow> string \<Rightarrow> string list \<Rightarrow> unit prog" where
  "delete_item E t k = (\<lambda>h. let r = env_delete_item E h t k
     in (map_sum aws_exn id r, h @ [EvDelete t k r]))"

definition query_items :: "env \<Rightarrow> string \<Rightarrow> ddb_query \<Rightarrow> item list prog" where
  "query_items E t q = (\<lambda>h. let r = env_query E h t q
     in (map_sum aws_exn id r, h @ [EvQuery t q r]))"

definition scan_items :: "env \<Rightarrow> string \<Rightarrow> ddb_scan \<Rightarrow> item list prog" where
  "scan_items E t q = (\<lambda>h. let r = env_scan E h t q
     in (map_sum aws_exn id r, h @ [EvScan t q r]))"

definition http_io :: "env \<Rightarrow> http_request \<Rightarrow> http_response prog" where
  "http_io E rq = (\<lambda>h. let r = env_http E h rq
     in (map_sum HTTPError id r, h @ [EvHttp rq r]))"

definition s3_put :: "env \<Rightarrow> string \<Rightarrow> string \<Rightarrow> string \<Rightarrow> string \<Rightarrow> unit prog" where
  "s3_put E b k body ct = (\<lambda>h. let r = env_s3_put E h b k body ct
     in (map_sum aws_exn id r, h @ [EvS3Put b k body ct r]))"

definition s3_get :: "env \<Rightarrow> string \<Rightarrow> string \<Rightarrow> string prog" where
  "s3_get E b k = (\<lambda>h. let r = env_s3_get E h b k
     in (map_sum aws_exn id r, h @ [EvS3Get b k r]))"

text \<open>A paginated listing: the pages it yields, and the error that ended it, if any.\<close>

definition s3_list :: "env \<Rightarrow> string \<Rightarrow> string \<Rightarrow> (string list list \<times> aws_error option) prog" where
  "s3_list E b p = (\<lambda>h. let r = env_s3_list E h b p in (Inr r, h @ [EvS3List b p r]))"

definition s3_delete :: "env \<Rightarrow> string \<Rightarrow> string \<Rightarrow> unit prog" where
  "s3_delete E b k = (\<lambda>h. let r = env_s3_delete E h b k
     in (map_sum aws_exn id r, h @ [EvS3Delete b k r]))"

definition run_cli :: "env \<Rightarrow> string list \<Rightarrow> cli_result prog" where
  "run_cli E cmd = (\<lambda>h. let r = env_run E h cmd
     in (map_sum TimeoutExpired id r, h @ [EvRun cmd r]))"

definition oidc_verify_io :: "env \<Rightarrow> string \<Rightarrow> string \<Rightarrow> string \<Rightarrow> dict prog" where
  "oidc_verify_io E iss aud tok = (\<lambda>h. (env_oidc_verify E h iss aud tok, h))"

lemmas call_defs = get_item_def put_item_def delete_item_def query_items_def scan_items_def
  http_io_def s3_put_def s3_get_def s3_list_def s3_delete_def run_cli_def now_io_def
  token_hex_io_def oidc_verify_io_def

definition json_loads :: "payload \<Rightarrow> exn + json" where
  "json_loads p = (case p of PText j \<Rightarrow> Inr j
     | PBadText s \<Rightarrow> Inl (ValueError s)
     | POther \<Rightarrow> Inl (TypeError ''the JSON object must be str, bytes or bytearray'')
     | PAbsent \<Rightarrow> Inl (KeyError ''payload''))"

definition is_text :: "payload \<Rightarrow> bool" where
  "is_text p \<longleftrightarrow> (case p of PText _ \<Rightarrow> True | PBadText _ \<Rightarrow> True | _ \<Rightarrow> False)"

lemma is_text_PText [simp]: "is_text (PText j)"
  by (simp add: is_text_def)

lemma json_loads_PText [simp]: "json_loads (PText j) = Inr j"
  by (simp add: json_loads_def)

section \<open>Rules for the external calls\<close>

lemma wp_now [wp_simps]: "wp (now_io E) Q R h = Q (env_now E h) h"
  by (simp add: wp_def call_defs)

lemma wp_token [wp_simps]: "wp (token_hex_io E n) Q R h = Q (env_token_hex E h n) h"
  by (simp add: wp_def call_defs)

lemma wp_get_item [wp_simps]:
  "wp (get_item E t k) Q R h = (case env_get_item E h t k of
     Inl x \<Rightarrow> R (aws_exn x) (h @ [EvGet t k (Inl x)]) | Inr v \<Rightarrow> Q v (h @ [EvGet t k (Inr v)]))"
  by (simp add: wp_def call_defs Let_def split: sum.split)

lemma wp_put_item [wp_simps]:
  "wp (put_item E t i) Q R h = (case env_put_item E h t i of
     Inl x \<Rightarrow> R (aws_exn x) (h @ [EvPut t i (Inl x)]) | Inr v \<Rightarrow> Q v (h @ [EvPut t i (Inr v)]))"
  by (simp add: wp_def call_defs Let_def split: sum.split)

lemma wp_delete_item [wp_simps]:
  "wp (delete_item E t k) Q R h = (case env_delete_item E h t k of
     Inl x \<Rightarrow> R (aws_exn x) (h @ [EvDelete t k (Inl x)]) | Inr v \<Rightarrow> Q v (h @ [EvDelete t k (Inr v)]))"
  by (simp add: wp_def call_defs Let_def split: sum.split)

lemma wp_query_items [wp_simps]:
  "wp (query_items E t q) Q R h = (case env_query E h t q of
     Inl x \<Rightarrow> R (aws_exn x) (h @ [EvQuery t q (Inl x)]) | Inr v \<Rightarrow> Q v (h @ [EvQuery t q (Inr v)]))"
  by (simp add: wp_def call_defs Let_def split: sum.split)

lemma wp_scan_items [wp_simps]:
  "wp (scan_items E t s) Q R h = (case env_scan E h t s of
     Inl x \<Rightarrow> R (aws_exn x) (h @ [EvScan t s (Inl x)]) | Inr v \<Rightarrow> Q v (h @ [EvScan t s (Inr v)]))"
  by (simp add: wp_def call_defs Let_def split: sum.split)

lemma wp_s3_put [wp_simps]:
  "wp (s3_put E b k body ct) Q R h = (case env_s3_put E h b k body ct of
     Inl x \<Rightarrow> R (aws_exn x) (h @ [EvS3Put b k body ct (Inl x)]) | Inr v \<Rightarrow> Q v (h @ [EvS3Put b k body ct (Inr v)]))"
  by (simp add: wp_def call_defs Let_def split: sum.split)

lemma wp_s3_get [wp_simps]:
  "wp (s3_get E b k) Q R h = (case env_s3_get E h b k of
     Inl x \<Rightarrow> R (aws_exn x) (h @ [EvS3Get b k (Inl x)]) | Inr v \<Rightarrow> Q v (h @ [EvS3Get b k (Inr v)]))"
  by (simp add: wp_def call_defs Let_def split: sum.split)

lemma wp_s3_list [wp_simps]:
  "wp (s3_list E b p) Q R h = Q (env_s3_list E h b p) (h @ [EvS3List b p (env_s3_list E h b p)])"
  by (simp add: wp_def call_defs Let_def)

lemma wp_s3_delete [wp_simps]:
  "wp (s3_delete E b k) Q R h = (case env_s3_delete E h b k of
     Inl x \<Rightarrow> R (aws_exn x) (h @ [EvS3Delete b k (Inl x)]) | Inr v \<Rightarrow> Q v (h @ [EvS3Delete b k (Inr v)]))"
  by (simp add: wp_def call_defs Let_def split: sum.split)

lemma wp_http_io [wp_simps]:
  "wp (http_io E rq) Q R h = (case env_http E h rq of
     Inl m \<Rightarrow> R (HTTPError m) (h @ [EvHttp rq (Inl m)]) | Inr v \<Rightarrow> Q v (h @ [EvHttp rq (Inr v)]))"
  by (simp add: wp_def call_defs Let_def split: sum.split)

lemma wp_run_cli [wp_simps]:
  "wp (run_cli E cmd) Q R h = (case env_run E h cmd of
     Inl m \<Rightarrow> R (TimeoutExpired m) (h @ [EvRun cmd (Inl m)]) | Inr v \<Rightarrow> Q v (h @ [EvRun cmd (Inr v)]))"
  by (simp add: wp_def call_defs Let_def split: sum.split)

lemma wp_oidc_verify [wp_simps]:
  "wp (oidc_verify_io E iss aud tok) Q R h =
     (case env_oidc_verify E h iss aud tok of Inl x \<Rightarrow> R x h | Inr v \<Rightarrow> Q v h)"
  by (simp add: wp_def call_defs split: sum.split)

lemma emits_now [emits_rules]: "emits P (now_io E)"
  and emits_token [emits_rules]: "emits P (token_hex_io E n)"
  and emits_oidc [emits_rules]: "emits P (oidc_verify_io E iss aud tok)"
  by (simp_all add: emits_def call_defs)

lemma emits_get_item [emits_rules]: "(\<And>r. P (EvGet t k r)) \<Longrightarrow> emits P (get_item E t k)"
  by (simp add: emits_def call_defs Let_def)

lemma emits_put_item [emits_rules]: "(\<And>r. P (EvPut t i r)) \<Longrightarrow> emits P (put_item E t i)"
  by (simp add: emits_def call_defs Let_def)

lemma emits_delete_item [emits_rules]: "(\<And>r. P (EvDelete t k r)) \<Longrightarrow> emits P (delete_item E t k)"
  by (simp add: emits_def call_defs Let_def)

lemma emits_query_items [emits_rules]: "(\<And>r. P (EvQuery t q r)) \<Longrightarrow> emits P (query_items E t q)"
  by (simp add: emits_def call_defs Let_def)

lemma emits_scan_items [emits_rules]: "(\<And>r. P (EvScan t s r)) \<Longrightarrow> emits P (scan_items E t s)"
  by (simp add: emits_def call_defs Let_def)

lemma emits_http_io [emits_rules]: "(\<And>r. P (EvHttp rq r)) \<Longrightarrow> emits P (http_io E rq)"
  by (simp add: emits_def call_defs Let_def)

lemma emits_s3_put [emits_rules]: "(\<And>r. P (EvS3Put b k body ct r)) \<Longrightarrow> emits P (s3_put E b k body ct)"
  by (simp add: emits_def call_defs Let_def)

lemma emits_s3_get [emits_rules]: "(\<And>r. P (EvS3Get b k r)) \<Longrightarrow> emits P (s3_get E b k)"
  by (simp add: emits_def call_defs Let_def)

lemma emits_s3_list [emits_rules]: "(\<And>r. P (EvS3List b p r)) \<Longrightarrow> emits P (s3_list E b p)"
  by (simp add: emits_def call_defs Let_def)

lemma emits_s3_delete [emits_rules]: "(\<And>r. P (EvS3Delete b k r)) \<Longrightarrow> emits P (s3_delete E b k)"
  by (simp add: emits_def call_defs Let_def)

lemma emits_run_cli [emits_rules]: "(\<And>r. P (EvRun cmd r)) \<Longrightarrow> emits P (run_cli E cmd)"
  by (simp add: emits_def call_defs Let_def)

lemma call_ok [run_ok]:
  "put_item E t i h = (Inr u, h') \<longleftrightarrow> env_put_item E h t i = Inr u \<and> h' = h @ [EvPut t i (Inr u)]"
  "delete_item E t k h = (Inr u, h') \<longleftrightarrow> env_delete_item E h t k = Inr u \<and> h' = h @ [EvDelete t k (Inr u)]"
  "get_item E t k h = (Inr v, h') \<longleftrightarrow> env_get_item E h t k = Inr v \<and> h' = h @ [EvGet t k (Inr v)]"
  "query_items E t q h = (Inr is, h') \<longleftrightarrow> env_query E h t q = Inr is \<and> h' = h @ [EvQuery t q (Inr is)]"
  "scan_items E t sc h = (Inr is, h') \<longleftrightarrow> env_scan E h t sc = Inr is \<and> h' = h @ [EvScan t sc (Inr is)]"
  "http_io E rq h = (Inr rs, h') \<longleftrightarrow> env_http E h rq = Inr rs \<and> h' = h @ [EvHttp rq (Inr rs)]"
  "now_io E h = (Inr now, h') \<longleftrightarrow> now = env_now E h \<and> h' = h"
  "token_hex_io E n h = (Inr tok, h') \<longleftrightarrow> tok = env_token_hex E h n \<and> h' = h"
  by (auto simp: call_defs Let_def)

section \<open>Table contents read off a trace\<close>

type_synonym contents = "string \<Rightarrow> (string list \<rightharpoonup> item)"

fun apply_event :: "event \<Rightarrow> contents \<Rightarrow> contents" where
  "apply_event (EvPut t i (Inr ())) c = c(t := (c t)(it_key i \<mapsto> i))"
| "apply_event (EvDelete t k (Inr ())) c = c(t := (c t)(k := None))"
| "apply_event _ c = c"

definition table_view :: "contents \<Rightarrow> event list \<Rightarrow> contents" where
  "table_view c0 h = fold apply_event h c0"

lemma table_view_Nil [simp]: "table_view c0 [] = c0"
  by (simp add: table_view_def)

lemma table_view_append [simp]: "table_view c0 (h @ es) = table_view (table_view c0 h) es"
  by (simp add: table_view_def)

lemma table_view_Cons [simp]: "table_view c0 (e # es) = table_view (apply_event e c0) es"
  by (simp add: table_view_def)

text \<open>An event that does not write table \<open>t\<close> leaves it alone.\<close>

fun writes_table :: "string \<Rightarrow> event \<Rightarrow> bool" where
  "writes_table t (EvPut t' _ _) = (t' = t)"
| "writes_table t (EvDelete t' _ _) = (t' = t)"
| "writes_table t _ = False"

lemma apply_event_frame: "\<not> writes_table t e \<Longrightarrow> apply_event e c t = c t"
  by (cases "(e, c)" rule: apply_event.cases) auto

lemma table_view_frame: "list_all (\<lambda>e. \<not> writes_table t e) es \<Longrightarrow> table_view c es t = c t"
  by (induction es arbitrary: c) (auto simp: apply_event_frame)

section \<open>Documented behaviour of the services\<close>

text \<open>DynamoDB reads return what was written (strongly consistent reads on the key).\<close>

definition ddb_reads_back :: "env \<Rightarrow> contents \<Rightarrow> bool" where
  "ddb_reads_back E c0 \<longleftrightarrow>
     (\<forall>h t k v. env_get_item E h t k = Inr v \<longrightarrow> v = table_view c0 h t k)"

text \<open>Pydantic keeps a JSON leaf that already has the declared type, and reads back the text it
  writes for a \<open>datetime\<close>.\<close>

definition pydantic_exact :: "env \<Rightarrow> bool" where
  "pydantic_exact E \<longleftrightarrow> (\<forall>i. env_pyd_int E (JInt i) = Some i) \<and>
     (\<forall>r. env_pyd_float E (JFloat r) = Some r) \<and>
     (\<forall>s. env_pyd_str E (JStr s) = Some s) \<and> (\<forall>b. env_pyd_bool E (JBool b) = Some b) \<and>
     (\<forall>t. env_pyd_datetime E (JStr (env_dump_datetime E t)) = Some t)"

lemma pydantic_exactD:
  assumes "pydantic_exact E"
  shows "env_pyd_int E (JInt i) = Some i" "env_pyd_float E (JFloat r) = Some r"
    "env_pyd_str E (JStr s) = Some s" "env_pyd_bool E (JBool b) = Some b"
    "env_pyd_datetime E (JStr (env_dump_datetime E t)) = Some t"
  using assms by (simp_all add: pydantic_exact_def)

end
