(* ===== verification/Models.thy ===== *)
theory Models
  imports Environment "HOL-Library.Monad_Syntax"
begin

text \<open>
  Model of \<open>libs/common/sovereign/models.py\<close>: the enumerations and model classes as datatypes and
  records, with what pydantic derives from a class declaration written out for the two models that
  are persisted (\<open>ServiceInstance\<close>, \<open>Binding\<close>): \<open>model_dump_json\<close> as \<open>dump_\<dots>\<close> (fields in
  declaration order) and \<open>model_validate\<close> as \<open>validate_\<dots>\<close> (required fields, defaults, field
  validators; \<open>None\<close> is a \<open>ValidationError\<close>). The conversion of a JSON leaf is pydantic's own
  and comes from the environment. The main lemma is that validation reads back what was dumped.
\<close>

section \<open>Enumerations\<close>

datatype InstanceStatus = provisioning | status_succeeded | status_failed | deprovisioning

fun InstanceStatus_value :: "InstanceStatus \<Rightarrow> string" where
  "InstanceStatus_value provisioning = ''provisioning''"
| "InstanceStatus_value status_succeeded = ''succeeded''"
| "InstanceStatus_value status_failed = ''failed''"
| "InstanceStatus_value deprovisioning = ''deprovisioning''"

datatype DriftStatus = unknown | in_sync | drifted | reconciling

fun DriftStatus_value :: "DriftStatus \<Rightarrow> string" where
  "DriftStatus_value unknown = ''unknown''"
| "DriftStatus_value in_sync = ''in_sync''"
| "DriftStatus_value drifted = ''drifted''"
| "DriftStatus_value reconciling = ''reconciling''"

datatype OperationState = in_progress | op_succeeded | op_failed

fun OperationState_value :: "OperationState \<Rightarrow> string" where
  "OperationState_value in_progress = ''in progress''"
| "OperationState_value op_succeeded = ''succeeded''"
| "OperationState_value op_failed = ''failed''"

definition enum_of :: "('a \<Rightarrow> string) \<Rightarrow> 'a list \<Rightarrow> json \<Rightarrow> 'a option" where
  "enum_of val all j = (case j of JStr s \<Rightarrow> find (\<lambda>c. val c = s) all | _ \<Rightarrow> None)"

abbreviation "dec_status \<equiv> enum_of InstanceStatus_value
  [provisioning, status_succeeded, status_failed, deprovisioning]"
abbreviation "dec_drift \<equiv> enum_of DriftStatus_value [unknown, in_sync, drifted, reconciling]"
abbreviation "dec_opstate \<equiv> enum_of OperationState_value [in_progress, op_succeeded, op_failed]"

lemma enum_round_trips [simp]:
  "dec_status (JStr (InstanceStatus_value s)) = Some s"
  "dec_drift (JStr (DriftStatus_value d)) = Some d"
  "dec_opstate (JStr (OperationState_value p)) = Some p"
  by (cases s; simp add: enum_of_def) (cases d; simp add: enum_of_def; cases p; simp add: enum_of_def)+

section \<open>Model classes\<close>

record Listener =
  ln_name :: string
  ln_port :: int
  ln_protocol :: string

record Route =
  rt_host :: string
  rt_prefix :: string
  rt_cluster :: string

record Cluster =
  cl_name :: string
  cl_endpoints :: "string list"

record LbParameters =
  lb_region :: string
  lb_listeners :: "Listener list"
  lb_routes :: "Route list"
  lb_clusters :: "Cluster list"
  lb_mtls_enabled :: bool
  lb_sidecar_mode :: bool
  lb_tags :: "(string \<times> string) list"

record ServiceInstance =
  si_schema_version :: int
  si_instance_id :: string
  si_service_id :: string
  si_plan_id :: string
  si_organization_guid :: "string option"
  si_space_guid :: "string option"
  si_parameters :: LbParameters
  si_status :: InstanceStatus
  si_version :: int
  si_applied_version :: "int option"
  si_operation_id :: "string option"
  si_operation_type :: "string option"
  si_operation_state :: "OperationState option"
  si_operation_reason :: string
  si_failed_step_kind :: "string option"
  si_apply_outputs :: dict
  si_drift_status :: DriftStatus
  si_reconcile_attempts :: int
  si_last_reconciled_at :: "string option"
  si_created_at :: string
  si_updated_at :: string

record Binding =
  bd_schema_version :: int
  bd_binding_id :: string
  bd_instance_id :: string
  bd_app_guid :: "string option"
  bd_credentials :: "(string \<times> string) list"
  bd_created_at :: string

record ProvisionRequest =
  pr_service_id :: string
  pr_plan_id :: string
  pr_organization_guid :: "string option"
  pr_space_guid :: "string option"
  pr_parameters :: LbParameters

record UpdateRequest =
  ur_service_id :: "string option"
  ur_plan_id :: "string option"
  ur_parameters :: "LbParameters option"

record BindRequest =
  br_service_id :: "string option"
  br_plan_id :: "string option"
  br_app_guid :: "string option"

record AuditEvent =
  ae_ts :: datetime
  ae_tenant_id :: string
  ae_actor :: string
  ae_action :: string
  ae_resource :: string
  ae_decision :: string
  ae_metadata :: dict
  ae_previous_hash :: "string option"
  ae_event_hash :: "string option"
  ae_signature_key_id :: "string option"
  ae_signature :: "string option"

record PolicyDecision =
  pd_allow :: bool
  pd_reason :: string
  pd_obligations :: "string list"
  pd_denies :: "string list"
  pd_matched_layers :: "string list"

record Usage =
  us_ts :: datetime
  us_tenant_id :: string
  us_resource_id :: string
  us_resource_type :: string
  us_quantity :: rat
  us_unit :: string
  us_metadata :: dict

section \<open>Serialisation\<close>

definition dump_listener :: "Listener \<Rightarrow> json" where
  "dump_listener l = JObj [(''name'', JStr (ln_name l)), (''port'', JInt (ln_port l)),
     (''protocol'', JStr (ln_protocol l))]"

definition dump_route :: "Route \<Rightarrow> json" where
  "dump_route r = JObj [(''host'', JStr (rt_host r)), (''prefix'', JStr (rt_prefix r)),
     (''cluster'', JStr (rt_cluster r))]"

definition dump_cluster :: "Cluster \<Rightarrow> json" where
  "dump_cluster c = JObj [(''name'', JStr (cl_name c)), (''endpoints'', jstrs (cl_endpoints c))]"

definition dump_tags :: "(string \<times> string) list \<Rightarrow> json" where
  "dump_tags ts = JObj (map (\<lambda>(k, v). (k, JStr v)) ts)"

definition dump_params :: "LbParameters \<Rightarrow> dict" where
  "dump_params p =
    [(''region'', JStr (lb_region p)),
     (''listeners'', JList (map dump_listener (lb_listeners p))),
     (''routes'', JList (map dump_route (lb_routes p))),
     (''clusters'', JList (map dump_cluster (lb_clusters p))),
     (''mtls_enabled'', JBool (lb_mtls_enabled p)),
     (''sidecar_mode'', JBool (lb_sidecar_mode p)),
     (''tags'', dump_tags (lb_tags p))]"

definition jopt_int :: "int option \<Rightarrow> json" where
  "jopt_int v = (case v of None \<Rightarrow> JNull | Some i \<Rightarrow> JInt i)"

definition dump_instance :: "ServiceInstance \<Rightarrow> dict" where
  "dump_instance i =
    [(''schema_version'', JInt (si_schema_version i)),
     (''instance_id'', JStr (si_instance_id i)),
     (''service_id'', JStr (si_service_id i)),
     (''plan_id'', JStr (si_plan_id i)),
     (''organization_guid'', jopt (si_organization_guid i)),
     (''space_guid'', jopt (si_space_guid i)),
     (''parameters'', JObj (dump_params (si_parameters i))),
     (''status'', JStr (InstanceStatus_value (si_status i))),
     (''version'', JInt (si_version i)),
     (''applied_version'', jopt_int (si_applied_version i)),
     (''operation_id'', jopt (si_operation_id i)),
     (''operation_type'', jopt (si_operation_type i)),
     (''operation_state'', jopt (map_option OperationState_value (si_operation_state i))),
     (''operation_reason'', JStr (si_operation_reason i)),
     (''failed_step_kind'', jopt (si_failed_step_kind i)),
     (''apply_outputs'', JObj (si_apply_outputs i)),
     (''drift_status'', JStr (DriftStatus_value (si_drift_status i))),
     (''reconcile_attempts'', JInt (si_reconcile_attempts i)),
     (''last_reconciled_at'', jopt (si_last_reconciled_at i)),
     (''created_at'', JStr (si_created_at i)),
     (''updated_at'', JStr (si_updated_at i))]"

definition dump_binding :: "Binding \<Rightarrow> dict" where
  "dump_binding b =
    [(''schema_version'', JInt (bd_schema_version b)),
     (''binding_id'', JStr (bd_binding_id b)),
     (''instance_id'', JStr (bd_instance_id b)),
     (''app_guid'', jopt (bd_app_guid b)),
     (''credentials'', dump_tags (bd_credentials b)),
     (''created_at'', JStr (bd_created_at b))]"

definition dump_event :: "env \<Rightarrow> AuditEvent \<Rightarrow> dict" where
  "dump_event E e =
    [(''ts'', JStr (env_dump_datetime E (ae_ts e))), (''tenant_id'', JStr (ae_tenant_id e)),
     (''actor'', JStr (ae_actor e)), (''action'', JStr (ae_action e)),
     (''resource'', JStr (ae_resource e)), (''decision'', JStr (ae_decision e)),
     (''metadata'', JObj (ae_metadata e)), (''previous_hash'', jopt (ae_previous_hash e)),
     (''event_hash'', jopt (ae_event_hash e)),
     (''signature_key_id'', jopt (ae_signature_key_id e)), (''signature'', jopt (ae_signature e))]"

definition dump_usage :: "env \<Rightarrow> Usage \<Rightarrow> dict" where
  "dump_usage E u =
    [(''ts'', JStr (env_dump_datetime E (us_ts u))), (''tenant_id'', JStr (us_tenant_id u)),
     (''resource_id'', JStr (us_resource_id u)), (''resource_type'', JStr (us_resource_type u)),
     (''quantity'', JFloat (us_quantity u)), (''unit'', JStr (us_unit u)),
     (''metadata'', JObj (us_metadata u))]"

section \<open>Validation\<close>

definition dec_field :: "dict \<Rightarrow> string \<Rightarrow> (json \<Rightarrow> 'a option) \<Rightarrow> 'a option \<Rightarrow> 'a option" where
  "dec_field d k dec dflt = (case map_of d k of None \<Rightarrow> dflt | Some v \<Rightarrow> dec v)"

definition dec_opt :: "(json \<Rightarrow> 'a option) \<Rightarrow> json \<Rightarrow> 'a option option" where
  "dec_opt dec v = (case v of JNull \<Rightarrow> Some None | _ \<Rightarrow> map_option Some (dec v))"

definition dec_list :: "(json \<Rightarrow> 'a option) \<Rightarrow> json \<Rightarrow> 'a list option" where
  "dec_list dec v = (case v of JList xs \<Rightarrow> those (map dec xs) | _ \<Rightarrow> None)"

definition dec_obj :: "json \<Rightarrow> dict option" where
  "dec_obj v = (case v of JObj d \<Rightarrow> Some d | _ \<Rightarrow> None)"

definition dec_str_dict :: "env \<Rightarrow> json \<Rightarrow> (string \<times> string) list option" where
  "dec_str_dict E v = (case v of
     JObj d \<Rightarrow> those (map (\<lambda>(k, w). map_option (Pair k) (env_pyd_str E w)) d) | _ \<Rightarrow> None)"

definition validate_listener :: "env \<Rightarrow> json \<Rightarrow> Listener option" where
  "validate_listener E v = do {
     d \<leftarrow> dec_obj v;
     name \<leftarrow> dec_field d ''name'' (env_pyd_str E) None;
     port \<leftarrow> dec_field d ''port'' (env_pyd_int E) None;
     protocol \<leftarrow> dec_field d ''protocol'' (env_pyd_str E) (Some ''HTTP'');
     (if 1 \<le> port \<and> port \<le> 65535 then Some () else None);
     Some \<lparr>ln_name = name, ln_port = port, ln_protocol = protocol\<rparr> }"

definition validate_route :: "env \<Rightarrow> json \<Rightarrow> Route option" where
  "validate_route E v = do {
     d \<leftarrow> dec_obj v;
     host \<leftarrow> dec_field d ''host'' (env_pyd_str E) None;
     prefix \<leftarrow> dec_field d ''prefix'' (env_pyd_str E) (Some ''/'');
     cluster \<leftarrow> dec_field d ''cluster'' (env_pyd_str E) None;
     Some \<lparr>rt_host = host, rt_prefix = prefix, rt_cluster = cluster\<rparr> }"

definition validate_cluster :: "env \<Rightarrow> json \<Rightarrow> Cluster option" where
  "validate_cluster E v = do {
     d \<leftarrow> dec_obj v;
     name \<leftarrow> dec_field d ''name'' (env_pyd_str E) None;
     endpoints \<leftarrow> dec_field d ''endpoints'' (dec_list (env_pyd_str E)) None;
     (if endpoints \<noteq> [] then Some () else None);
     Some \<lparr>cl_name = name, cl_endpoints = endpoints\<rparr> }"

definition default_listeners :: "Listener list" where
  "default_listeners = [\<lparr>ln_name = ''http'', ln_port = 8080, ln_protocol = ''HTTP''\<rparr>]"

definition validate_params :: "env \<Rightarrow> json \<Rightarrow> LbParameters option" where
  "validate_params E v = do {
     d \<leftarrow> dec_obj v;
     region \<leftarrow> dec_field d ''region'' (env_pyd_str E) (Some ''us-east-1'');
     listeners \<leftarrow> dec_field d ''listeners'' (dec_list (validate_listener E)) (Some default_listeners);
     routes \<leftarrow> dec_field d ''routes'' (dec_list (validate_route E)) (Some []);
     clusters \<leftarrow> dec_field d ''clusters'' (dec_list (validate_cluster E)) (Some []);
     mtls \<leftarrow> dec_field d ''mtls_enabled'' (env_pyd_bool E) (Some False);
     sidecar \<leftarrow> dec_field d ''sidecar_mode'' (env_pyd_bool E) (Some False);
     tags \<leftarrow> dec_field d ''tags'' (dec_str_dict E) (Some []);
     Some \<lparr>lb_region = region, lb_listeners = listeners, lb_routes = routes, lb_clusters = clusters,
       lb_mtls_enabled = mtls, lb_sidecar_mode = sidecar, lb_tags = tags\<rparr> }"

text \<open>\<open>now\<close> is the value of the two timestamp default factories.\<close>

definition validate_instance :: "env \<Rightarrow> string \<Rightarrow> dict \<Rightarrow> ServiceInstance option" where
  "validate_instance E now d = do {
     sv \<leftarrow> dec_field d ''schema_version'' (env_pyd_int E) (Some 1);
     iid \<leftarrow> dec_field d ''instance_id'' (env_pyd_str E) None;
     sid \<leftarrow> dec_field d ''service_id'' (env_pyd_str E) None;
     pid \<leftarrow> dec_field d ''plan_id'' (env_pyd_str E) None;
     org \<leftarrow> dec_field d ''organization_guid'' (dec_opt (env_pyd_str E)) (Some None);
     spc \<leftarrow> dec_field d ''space_guid'' (dec_opt (env_pyd_str E)) (Some None);
     prm \<leftarrow> dec_field d ''parameters'' (validate_params E) None;
     st \<leftarrow> dec_field d ''status'' dec_status (Some provisioning);
     ver \<leftarrow> dec_field d ''version'' (env_pyd_int E) (Some 1);
     app \<leftarrow> dec_field d ''applied_version'' (dec_opt (env_pyd_int E)) (Some None);
     oid \<leftarrow> dec_field d ''operation_id'' (dec_opt (env_pyd_str E)) (Some None);
     oty \<leftarrow> dec_field d ''operation_type'' (dec_opt (env_pyd_str E)) (Some None);
     ost \<leftarrow> dec_field d ''operation_state'' (dec_opt dec_opstate) (Some None);
     ors \<leftarrow> dec_field d ''operation_reason'' (env_pyd_str E) (Some []);
     fsk \<leftarrow> dec_field d ''failed_step_kind'' (dec_opt (env_pyd_str E)) (Some None);
     out \<leftarrow> dec_field d ''apply_outputs'' dec_obj (Some []);
     dr \<leftarrow> dec_field d ''drift_status'' dec_drift (Some unknown);
     ra \<leftarrow> dec_field d ''reconcile_attempts'' (env_pyd_int E) (Some 0);
     lr \<leftarrow> dec_field d ''last_reconciled_at'' (dec_opt (env_pyd_str E)) (Some None);
     cr \<leftarrow> dec_field d ''created_at'' (env_pyd_str E) (Some now);
     up \<leftarrow> dec_field d ''updated_at'' (env_pyd_str E) (Some now);
     Some \<lparr>si_schema_version = sv, si_instance_id = iid, si_service_id = sid, si_plan_id = pid,
       si_organization_guid = org, si_space_guid = spc, si_parameters = prm, si_status = st,
       si_version = ver, si_applied_version = app, si_operation_id = oid, si_operation_type = oty,
       si_operation_state = ost, si_operation_reason = ors, si_failed_step_kind = fsk,
       si_apply_outputs = out, si_drift_status = dr, si_reconcile_attempts = ra,
       si_last_reconciled_at = lr, si_created_at = cr, si_updated_at = up\<rparr> }"

definition validate_binding :: "env \<Rightarrow> string \<Rightarrow> dict \<Rightarrow> Binding option" where
  "validate_binding E now d = do {
     sv \<leftarrow> dec_field d ''schema_version'' (env_pyd_int E) (Some 1);
     bid \<leftarrow> dec_field d ''binding_id'' (env_pyd_str E) None;
     iid \<leftarrow> dec_field d ''instance_id'' (env_pyd_str E) None;
     app \<leftarrow> dec_field d ''app_guid'' (dec_opt (env_pyd_str E)) (Some None);
     cred \<leftarrow> dec_field d ''credentials'' (dec_str_dict E) None;
     cr \<leftarrow> dec_field d ''created_at'' (env_pyd_str E) (Some now);
     Some \<lparr>bd_schema_version = sv, bd_binding_id = bid, bd_instance_id = iid, bd_app_guid = app,
       bd_credentials = cred, bd_created_at = cr\<rparr> }"

definition validate_usage :: "env \<Rightarrow> string \<Rightarrow> dict \<Rightarrow> Usage option" where
  "validate_usage E now d = do {
     ts \<leftarrow> dec_field d ''ts'' (env_pyd_datetime E) (Some now);
     tid \<leftarrow> dec_field d ''tenant_id'' (env_pyd_str E) None;
     rid \<leftarrow> dec_field d ''resource_id'' (env_pyd_str E) None;
     rty \<leftarrow> dec_field d ''resource_type'' (env_pyd_str E) None;
     qty \<leftarrow> dec_field d ''quantity'' (env_pyd_float E) None;
     unit \<leftarrow> dec_field d ''unit'' (env_pyd_str E) None;
     md \<leftarrow> dec_field d ''metadata'' dec_obj (Some []);
     (if 0 \<le> qty then Some () else None);
     Some \<lparr>us_ts = ts, us_tenant_id = tid, us_resource_id = rid, us_resource_type = rty,
       us_quantity = qty, us_unit = unit, us_metadata = md\<rparr> }"

text \<open>The instance a provision request creates: \<open>ServiceInstance(instance_id=..., **req)\<close>.\<close>

definition new_instance :: "string \<Rightarrow> string \<Rightarrow> ProvisionRequest \<Rightarrow> ServiceInstance" where
  "new_instance now iid req = \<lparr>si_schema_version = 1, si_instance_id = iid,
     si_service_id = pr_service_id req, si_plan_id = pr_plan_id req,
     si_organization_guid = pr_organization_guid req, si_space_guid = pr_space_guid req,
     si_parameters = pr_parameters req, si_status = provisioning, si_version = 1,
     si_applied_version = None, si_operation_id = None, si_operation_type = None,
     si_operation_state = None, si_operation_reason = [], si_failed_step_kind = None,
     si_apply_outputs = [], si_drift_status = unknown, si_reconcile_attempts = 0,
     si_last_reconciled_at = None, si_created_at = now, si_updated_at = now\<rparr>"

section \<open>Reading back what was written\<close>

text \<open>The constraints the field validators put on parameters.\<close>

definition wf_params :: "LbParameters \<Rightarrow> bool" where
  "wf_params p \<longleftrightarrow> list_all (\<lambda>l. 1 \<le> ln_port l \<and> ln_port l \<le> 65535) (lb_listeners p) \<and>
     list_all (\<lambda>c. cl_endpoints c \<noteq> []) (lb_clusters p)"

lemma those_map_inverse: "(\<And>x. x \<in> set xs \<Longrightarrow> dec (enc x) = Some x) \<Longrightarrow> those (map dec (map enc xs)) = Some xs"
  by (induction xs) auto

lemma dec_list_inverse:
  "(\<And>x. x \<in> set xs \<Longrightarrow> dec (enc x) = Some x) \<Longrightarrow> dec_list dec (JList (map enc xs)) = Some xs"
  using those_map_inverse [of xs dec enc] by (simp add: dec_list_def)

lemma dec_opt_simps [simp]:
  "dec_opt dec JNull = Some None" "dec_opt dec (JStr s) = map_option Some (dec (JStr s))"
  "dec_opt dec (JInt i) = map_option Some (dec (JInt i))"
  by (simp_all add: dec_opt_def)

lemma dec_opt_op: "dec_opt dec_opstate (jopt (map_option OperationState_value v)) = Some v"
  by (cases v) (simp_all add: jopt_def)

lemma dec_opt_str: "pydantic_exact E \<Longrightarrow> dec_opt (env_pyd_str E) (jopt v) = Some v"
  by (cases v) (simp_all add: jopt_def pydantic_exactD)

lemma dec_opt_int: "pydantic_exact E \<Longrightarrow> dec_opt (env_pyd_int E) (jopt_int v) = Some v"
  by (cases v) (simp_all add: jopt_int_def pydantic_exactD)

lemma dec_str_dict_dump:
  assumes "pydantic_exact E"
  shows "dec_str_dict E (dump_tags ts) = Some ts"
  unfolding dec_str_dict_def dump_tags_def json.case
  by (induction ts) (auto simp: pydantic_exactD [OF assms])

lemma dec_strs: "pydantic_exact E \<Longrightarrow> dec_list (env_pyd_str E) (jstrs xs) = Some xs"
  unfolding jstrs_def by (rule dec_list_inverse) (simp add: pydantic_exactD)

lemmas pydantic_dec = pydantic_exactD dec_opt_str dec_opt_int dec_opt_op dec_str_dict_dump dec_strs

lemma validate_listener_dump:
  "pydantic_exact E \<Longrightarrow> 1 \<le> ln_port l \<Longrightarrow> ln_port l \<le> 65535 \<Longrightarrow>
     validate_listener E (dump_listener l) = Some l"
  by (simp add: validate_listener_def dump_listener_def dec_obj_def dec_field_def pydantic_dec)

lemma validate_route_dump: "pydantic_exact E \<Longrightarrow> validate_route E (dump_route r) = Some r"
  by (simp add: validate_route_def dump_route_def dec_obj_def dec_field_def pydantic_dec)

lemma validate_cluster_dump:
  "pydantic_exact E \<Longrightarrow> cl_endpoints c \<noteq> [] \<Longrightarrow> validate_cluster E (dump_cluster c) = Some c"
  by (simp add: validate_cluster_def dump_cluster_def dec_obj_def dec_field_def pydantic_dec)

lemma validate_params_dump:
  assumes "pydantic_exact E" "wf_params p"
  shows "validate_params E (JObj (dump_params p)) = Some p"
proof -
  have "dec_list (validate_listener E) (JList (map dump_listener (lb_listeners p))) = Some (lb_listeners p)"
    using assms by (intro dec_list_inverse) (simp add: wf_params_def list_all_iff validate_listener_dump)
  moreover have "dec_list (validate_cluster E) (JList (map dump_cluster (lb_clusters p))) = Some (lb_clusters p)"
    using assms by (intro dec_list_inverse) (simp add: wf_params_def list_all_iff validate_cluster_dump)
  moreover have "dec_list (validate_route E) (JList (map dump_route (lb_routes p))) = Some (lb_routes p)"
    using assms by (intro dec_list_inverse) (simp add: validate_route_dump)
  ultimately show ?thesis
    using assms(1) by (simp add: validate_params_def dump_params_def dec_obj_def dec_field_def pydantic_dec)
qed

lemma validate_instance_dump:
  assumes "pydantic_exact E" "wf_params (si_parameters i)"
  shows "validate_instance E now (dump_instance i) = Some i"
  using validate_params_dump [OF assms] assms(1)
  by (simp add: validate_instance_def dump_instance_def dec_field_def dec_obj_def pydantic_dec)

lemma validate_binding_dump:
  "pydantic_exact E \<Longrightarrow> validate_binding E now (dump_binding b) = Some b"
  by (simp add: validate_binding_def dump_binding_def dec_field_def pydantic_dec)

lemma validate_usage_dump:
  "pydantic_exact E \<Longrightarrow> 0 \<le> us_quantity u \<Longrightarrow> validate_usage E now (dump_usage E u) = Some u"
  by (simp add: validate_usage_def dump_usage_def dec_field_def dec_obj_def pydantic_dec)

end
