(* ===== verification/Stores.thy ===== *)
theory Stores
  imports Models Migrations
begin

text \<open>
  Model of \<open>libs/common/sovereign/store.py\<close> (instances and bindings) and
  \<open>libs/common/sovereign/usage_store.py\<close>, and the interface every DynamoDB-backed store of the
  platform offers, the locale \<open>record_store\<close>: what a read returns after a write, and that other
  keys keep their rows. The tenancy, quota and catalog theories interpret it for their stores.
\<close>

section \<open>The interface of a store\<close>

text \<open>\<open>stored E h a\<close> is the record as written (a store may stamp it), \<open>ok\<close> the constraints of the
  model class, \<open>decode\<close> what a read makes of a row.\<close>

locale record_store =
  fixes tbl :: string
    and ekey :: "'k \<Rightarrow> string list"
    and key :: "'a \<Rightarrow> 'k"
    and ok :: "'a \<Rightarrow> bool"
    and stored :: "env \<Rightarrow> event list \<Rightarrow> 'a \<Rightarrow> 'a"
    and decode :: "env \<Rightarrow> string \<Rightarrow> item \<Rightarrow> exn + 'a"
    and put :: "env \<Rightarrow> 'a \<Rightarrow> 'b prog"
    and get :: "env \<Rightarrow> 'k \<Rightarrow> 'a option prog"
    and del :: "env \<Rightarrow> 'k \<Rightarrow> unit prog"
  assumes put_law: "put E a h = (Inr b, h') \<Longrightarrow> \<exists>i. h' = h @ [EvPut tbl i (Inr ())] \<and> it_key i = ekey (key a) \<and>
      is_text (it_payload i) \<and>
      (ok a \<longrightarrow> pydantic_exact E \<longrightarrow> (\<forall>now. decode E now i = Inr (stored E h a)))"
    and get_law: "env_get_item E h tbl (ekey k) = Inr v \<Longrightarrow>
      (case v of None \<Rightarrow> fst (get E k h) = Inr None
       | Some i \<Rightarrow> is_text (it_payload i) \<longrightarrow>
           (\<forall>a. decode E (env_now E (h @ [EvGet tbl (ekey k) (Inr v)])) i = Inr a \<longrightarrow>
              fst (get E k h) = Inr (Some a)))"
    and get_quiet: "emits (\<lambda>e. \<not> writes_table t e) (get E k)"
    and del_law: "del E k h = (Inr u, h') \<Longrightarrow> h' = h @ [EvDelete tbl (ekey k) (Inr ())]"
begin

lemma put_view:
  assumes "put E a h = (Inr b, h')"
  obtains i where "table_view c0 h' = (table_view c0 h)(tbl := (table_view c0 h tbl)(ekey (key a) \<mapsto> i))"
    "is_text (it_payload i)"
    "ok a \<Longrightarrow> pydantic_exact E \<Longrightarrow> decode E now i = Inr (stored E h a)"
  using put_law [OF assms] by auto

lemma get_of_view:
  assumes "ddb_reads_back E c0" "env_get_item E h tbl (ekey k) = Inr v" "table_view c0 h tbl (ekey k) = w"
  shows "(w = None \<longrightarrow> fst (get E k h) = Inr None) \<and>
    (\<forall>i a. w = Some i \<longrightarrow> is_text (it_payload i) \<longrightarrow> (\<forall>now. decode E now i = Inr a) \<longrightarrow>
       fst (get E k h) = Inr (Some a))"
proof -
  from assms have "v = w" by (simp add: ddb_reads_back_def)
  with get_law [OF assms(2)] show ?thesis by auto
qed

lemma get_after_put:
  assumes db: "ddb_reads_back E c0" and px: "pydantic_exact E" and "ok a"
    and p: "put E a h = (Inr b, h1)" and quiet: "list_all (\<lambda>e. \<not> writes_table tbl e) es"
    and r: "env_get_item E (h1 @ es) tbl (ekey (key a)) = Inr v"
  shows "fst (get E (key a) (h1 @ es)) = Inr (Some (stored E h a))"
proof -
  from put_law [OF p] obtain i where i: "h1 = h @ [EvPut tbl i (Inr ())]" "it_key i = ekey (key a)"
      "is_text (it_payload i)" and dec: "\<And>now. decode E now i = Inr (stored E h a)"
    using px \<open>ok a\<close> by auto
  have "table_view c0 (h1 @ es) tbl (ekey (key a)) = Some i"
    using i quiet by (simp add: table_view_frame)
  with get_of_view [OF db r this] i(3) dec show ?thesis by auto
qed

lemma get_after_del:
  assumes db: "ddb_reads_back E c0" and d: "del E k h = (Inr u, h1)"
    and quiet: "list_all (\<lambda>e. \<not> writes_table tbl e) es"
    and r: "env_get_item E (h1 @ es) tbl (ekey k) = Inr v"
  shows "fst (get E k (h1 @ es)) = Inr None"
proof -
  have "table_view c0 (h1 @ es) tbl (ekey k) = None"
    using del_law [OF d] quiet by (simp add: table_view_frame)
  with get_of_view [OF db r this] show ?thesis by simp
qed

lemma put_frame:
  assumes "put E a h = (Inr b, h')" "(t, k) \<noteq> (tbl, ekey (key a))"
  shows "table_view c0 h' t k = table_view c0 h t k"
  using put_law [OF assms(1)] assms(2) by auto

end

section \<open>Rows\<close>

definition validated :: "string \<Rightarrow> 'a option \<Rightarrow> exn + 'a" where
  "validated cls v = (case v of Some a \<Rightarrow> Inr a | None \<Rightarrow> Inl (ValidationError cls))"

lemma validated_Some [simp]: "validated cls (Some a) = Inr a"
  by (simp add: validated_def)

text \<open>\<open>M.model_validate(json.loads(payload))\<close>\<close>

definition validate_payload :: "string \<Rightarrow> (dict \<Rightarrow> 'a option) \<Rightarrow> payload \<Rightarrow> exn + 'a" where
  "validate_payload cls val p = (case json_loads p of Inl x \<Rightarrow> Inl x
     | Inr (JObj d) \<Rightarrow> validated cls (val d) | Inr _ \<Rightarrow> Inl (ValidationError cls))"

lemma validate_payload_PText [simp]:
  "validate_payload cls val (PText (JObj d)) = validated cls (val d)"
  by (simp add: validate_payload_def)

text \<open>The loops over query results: rows whose payload is not a text are skipped, the first
  payload that does not validate raises.\<close>

fun decode_rows :: "(item \<Rightarrow> exn + 'a) \<Rightarrow> item list \<Rightarrow> exn + 'a list" where
  "decode_rows dec [] = Inr []"
| "decode_rows dec (i # is) =
     (if is_text (it_payload i) then
        (case dec i of Inl x \<Rightarrow> Inl x
         | Inr a \<Rightarrow> map_sum id (Cons a) (decode_rows dec is))
      else decode_rows dec is)"

text \<open>\<open>except ClientError as exc: raise RuntimeError(f"... {exc}")\<close>\<close>

definition client_error_as_runtime :: "env \<Rightarrow> string \<Rightarrow> 'a prog \<Rightarrow> 'a prog" where
  "client_error_as_runtime E msg m = catch_io m (\<lambda>x.
     if is_ClientError x then throw (RuntimeError (msg @ env_str_exn E x)) else throw x)"

lemma emits_client_error [emits_rules]: "emits P m \<Longrightarrow> emits P (client_error_as_runtime E msg m)"
  unfolding client_error_as_runtime_def by (intro emits_rules)

text \<open>\<open>get\<close> of the payload stores: an absent row, or one whose payload is not a text, is \<open>None\<close>.\<close>

definition get_row :: "env \<Rightarrow> string \<Rightarrow> string list \<Rightarrow> (string \<Rightarrow> item \<Rightarrow> exn + 'a) \<Rightarrow> 'a option prog" where
  "get_row E t k dec = bind_io (get_item E t k) (\<lambda>item. case item of
     None \<Rightarrow> ret None
   | Some i \<Rightarrow> if \<not> is_text (it_payload i) then ret None
       else bind_io (now_io E) (\<lambda>now. bind_io (lift_res (dec now i)) (\<lambda>a. ret (Some a))))"

lemma get_row_run:
  assumes "env_get_item E h t k = Inr v"
  shows "case v of None \<Rightarrow> fst (get_row E t k dec h) = Inr None
    | Some i \<Rightarrow> is_text (it_payload i) \<longrightarrow>
       (\<forall>a. dec (env_now E (h @ [EvGet t k (Inr v)])) i = Inr a \<longrightarrow> fst (get_row E t k dec h) = Inr (Some a))"
  using assms by (auto simp: get_row_def bind_io_def now_io_def get_item_def split: option.split)

lemma emits_get_row [emits_rules]: "(\<And>r. P (EvGet t k r)) \<Longrightarrow> emits P (get_row E t k dec)"
  unfolding get_row_def by (intro emits_rules) auto

text \<open>The stores whose rows are a key and the dumped record.\<close>

locale payload_store =
  fixes tbl :: string
    and ekey :: "'k \<Rightarrow> string list"
    and key :: "'a \<Rightarrow> 'k"
    and dump :: "env \<Rightarrow> 'a \<Rightarrow> dict"
    and decode :: "env \<Rightarrow> string \<Rightarrow> item \<Rightarrow> exn + 'a"
    and put :: "env \<Rightarrow> 'a \<Rightarrow> unit prog"
    and get :: "env \<Rightarrow> 'k \<Rightarrow> 'a option prog"
    and del :: "env \<Rightarrow> 'k \<Rightarrow> unit prog"
  assumes put_eq: "put E a = put_item E tbl
      \<lparr>it_key = ekey (key a), it_attrs = [], it_payload = PText (JObj (dump E a))\<rparr>"
    and get_eq: "get E k = get_row E tbl (ekey k) (decode E)"
    and del_eq: "del E k = delete_item E tbl (ekey k)"
    and decode_dump: "pydantic_exact E \<Longrightarrow> it_payload i = PText (JObj (dump E a)) \<Longrightarrow> decode E now i = Inr a"

sublocale payload_store \<subseteq> record_store tbl ekey key "\<lambda>_. True" "\<lambda>_ _ a. a" decode put get del
proof unfold_locales
  show "emits (\<lambda>e. \<not> writes_table t e) (get E k)" for E t k
    unfolding get_eq by (intro emits_rules) auto
  show "case v of None \<Rightarrow> fst (get E k h) = Inr None
      | Some i \<Rightarrow> is_text (it_payload i) \<longrightarrow> (\<forall>a. decode E (env_now E (h @ [EvGet tbl (ekey k) (Inr v)])) i = Inr a
          \<longrightarrow> fst (get E k h) = Inr (Some a))"
    if "env_get_item E h tbl (ekey k) = Inr v" for E h k v
    unfolding get_eq by (rule get_row_run [OF that])
qed (auto simp: put_eq del_eq decode_dump run_ok)

section \<open>Instances\<close>

definition ORG_INDEX :: string where
  "ORG_INDEX = ''organization_guid-index''"

abbreviation "INSTANCES \<equiv> ''sovereign_instances''"
abbreviation "BINDINGS \<equiv> ''sovereign_bindings''"

definition decode_instance :: "env \<Rightarrow> string \<Rightarrow> item \<Rightarrow> exn + ServiceInstance" where
  "decode_instance E now i = (case json_loads (it_payload i) of Inl x \<Rightarrow> Inl x
     | Inr j \<Rightarrow> (case migrate_payload j ''instance'' of Inl x \<Rightarrow> Inl x
         | Inr d \<Rightarrow> validated ''ServiceInstance'' (validate_instance E now d)))"

definition get_instance :: "env \<Rightarrow> string \<Rightarrow> ServiceInstance option prog" where
  "get_instance E iid = catch_io
     (bind_io (get_item E INSTANCES [iid]) (\<lambda>item. case item of
        None \<Rightarrow> ret None
      | Some i \<Rightarrow> bind_io (now_io E) (\<lambda>now.
          bind_io (lift_res (decode_instance E now i)) (\<lambda>inst. ret (Some inst)))))
     (\<lambda>x. if is_ClientError x then ret None else throw x)"

definition instance_item :: "ServiceInstance \<Rightarrow> item" where
  "instance_item inst = \<lparr>it_key = [si_instance_id inst],
     it_attrs = (case si_organization_guid inst of
        Some (c # cs) \<Rightarrow> [(''organization_guid'', c # cs)] | _ \<Rightarrow> []),
     it_payload = PText (JObj (dump_instance inst))\<rparr>"

text \<open>The caller's object is stamped in place, so the stamped instance is the result.\<close>

definition put_instance :: "env \<Rightarrow> ServiceInstance \<Rightarrow> ServiceInstance prog" where
  "put_instance E inst = bind_io (now_io E) (\<lambda>now.
     let inst' = inst\<lparr>si_updated_at := now\<rparr>
     in seq_io (put_item E INSTANCES (instance_item inst')) (ret inst'))"

definition delete_instance :: "env \<Rightarrow> string \<Rightarrow> unit prog" where
  "delete_instance E iid = delete_item E INSTANCES [iid]"

fun collect_instances :: "(item \<Rightarrow> exn + ServiceInstance) \<Rightarrow> string option \<Rightarrow> int \<Rightarrow>
    ServiceInstance list \<Rightarrow> item list \<Rightarrow> exn + ServiceInstance list" where
  "collect_instances dec org limit items [] = Inr items"
| "collect_instances dec org limit items (row # rows) =
     (if \<not> is_text (it_payload row) then collect_instances dec org limit items rows
      else (case dec row of Inl x \<Rightarrow> Inl x
        | Inr inst \<Rightarrow>
            if org \<noteq> None \<and> si_organization_guid inst \<noteq> org
            then collect_instances dec org limit items rows
            else if limit \<le> int (length (items @ [inst])) then Inr (items @ [inst])
            else collect_instances dec org limit (items @ [inst]) rows))"

definition list_instances :: "env \<Rightarrow> string option \<Rightarrow> int \<Rightarrow> ServiceInstance list prog" where
  "list_instances E org limit = (let page_limit = min (max limit 1) 1000;
       scan = scan_items E INSTANCES \<lparr>sc_limit = Some page_limit, sc_filter = None\<rparr>;
       first = (case org of
          Some g \<Rightarrow> query_items E INSTANCES \<lparr>dq_index = Some ORG_INDEX, dq_hash = g,
            dq_range = AnyRange, dq_limit = Some page_limit, dq_forward = True\<rparr>
        | None \<Rightarrow> scan);
       response = catch_io (bind_io first (\<lambda>rows. ret (Some rows))) (\<lambda>x. case x of
          ClientError code _ \<Rightarrow>
            if org = None \<or> code \<notin> {''ValidationException'', ''ResourceNotFoundException''}
            then ret None
            else catch_io (bind_io scan (\<lambda>rows. ret (Some rows)))
                   (\<lambda>y. if is_ClientError y then ret None else throw y)
        | _ \<Rightarrow> throw x)
     in bind_io response (\<lambda>rows. case rows of None \<Rightarrow> ret []
        | Some rs \<Rightarrow> bind_io (now_io E) (\<lambda>now.
            lift_res (collect_instances (decode_instance E now) org limit [] rs))))"

section \<open>Bindings\<close>

definition decode_binding :: "env \<Rightarrow> string \<Rightarrow> item \<Rightarrow> exn + Binding" where
  "decode_binding E now i = (case json_loads (it_payload i) of Inl x \<Rightarrow> Inl x
     | Inr j \<Rightarrow> (case migrate_payload j ''binding'' of Inl x \<Rightarrow> Inl x
         | Inr d \<Rightarrow> validated ''Binding'' (validate_binding E now d)))"

definition put_binding :: "env \<Rightarrow> Binding \<Rightarrow> unit prog" where
  "put_binding E b = put_item E BINDINGS \<lparr>it_key = [bd_binding_id b], it_attrs = [],
     it_payload = PText (JObj (dump_binding b))\<rparr>"

definition get_binding :: "env \<Rightarrow> string \<Rightarrow> Binding option prog" where
  "get_binding E bid = bind_io (get_item E BINDINGS [bid]) (\<lambda>item. case item of
     None \<Rightarrow> ret None
   | Some i \<Rightarrow> bind_io (now_io E) (\<lambda>now.
       bind_io (lift_res (decode_binding E now i)) (\<lambda>b. ret (Some b))))"

definition delete_binding :: "env \<Rightarrow> string \<Rightarrow> unit prog" where
  "delete_binding E bid = delete_item E BINDINGS [bid]"

section \<open>Usage records\<close>

abbreviation "USAGE_TABLE \<equiv> ''sovereign_usage''"

definition event_id :: "env \<Rightarrow> Usage \<Rightarrow> string prog" where
  "event_id E u = bind_io (token_hex_io E 4) (\<lambda>suffix.
     ret (us_ts u @ ''#'' @ us_resource_id u @ ''#'' @ suffix))"

definition record_usage :: "env \<Rightarrow> Usage \<Rightarrow> string prog" where
  "record_usage E u = bind_io (event_id E u) (\<lambda>eid.
     seq_io (put_item E USAGE_TABLE \<lparr>it_key = [us_tenant_id u, eid], it_attrs = [],
       it_payload = PText (JObj (dump_usage E u))\<rparr>) (ret eid))"

definition usage_range :: "datetime option \<Rightarrow> datetime option \<Rightarrow> sort_range" where
  "usage_range since until = (case (since, until) of
     (Some lo, Some hi) \<Rightarrow> Between lo hi | (Some lo, None) \<Rightarrow> AtLeast lo
   | (None, Some hi) \<Rightarrow> Below hi | (None, None) \<Rightarrow> AnyRange)"

definition query_usage :: "env \<Rightarrow> string \<Rightarrow> datetime option \<Rightarrow> datetime option \<Rightarrow> string option \<Rightarrow>
    string option \<Rightarrow> int \<Rightarrow> Usage list prog" where
  "query_usage E tid since until rid rtype limit =
     bind_io (client_error_as_runtime E ''usage query failed: '' (query_items E USAGE_TABLE
       \<lparr>dq_index = None, dq_hash = tid, dq_range = usage_range since until,
        dq_limit = Some (min (max limit 1) 1000), dq_forward = False\<rparr>)) (\<lambda>rows.
     bind_io (now_io E) (\<lambda>now.
     bind_io (lift_res (decode_rows
       (\<lambda>i. validate_payload ''Usage'' (validate_usage E now) (it_payload i)) rows)) (\<lambda>us.
     ret (filter (\<lambda>u. (rid = None \<or> Some (us_resource_id u) = rid) \<and>
       (rtype = None \<or> Some (us_resource_type u) = rtype)) us))))"

section \<open>The stores keep the interface\<close>

definition ok_instance :: "ServiceInstance \<Rightarrow> bool" where
  "ok_instance i \<longleftrightarrow> wf_params (si_parameters i) \<and> si_schema_version i = 1"

lemma update_present: "map_of d k = Some v \<Longrightarrow> AList.update k v d = d"
  by (induction d) (auto split: if_splits)

lemma decode_instance_item:
  assumes "pydantic_exact E" "ok_instance i"
  shows "decode_instance E now (instance_item i) = Inr i"
proof -
  have "migrate_payload (JObj (dump_instance i)) ''instance'' = Inr (dump_instance i)"
    using assms(2) by (subst migrate_payload_current)
      (simp_all add: dump_instance_def jget_or_def ok_instance_def)
  with assms show ?thesis
    by (simp add: decode_instance_def instance_item_def validate_instance_dump ok_instance_def)
qed

interpretation instances: record_store INSTANCES "\<lambda>k. [k]" si_instance_id ok_instance
  "\<lambda>E h i. i\<lparr>si_updated_at := env_now E h\<rparr>" decode_instance put_instance get_instance delete_instance
proof unfold_locales
  fix E :: env and a b :: ServiceInstance and h h'
  let ?i = "instance_item (a\<lparr>si_updated_at := env_now E h\<rparr>)"
  assume "put_instance E a h = (Inr b, h')"
  then have "h' = h @ [EvPut INSTANCES ?i (Inr ())]"
    by (auto simp: put_instance_def run_ok Let_def)
  then show "\<exists>i. h' = h @ [EvPut INSTANCES i (Inr ())] \<and> it_key i = [si_instance_id a] \<and>
      is_text (it_payload i) \<and> (ok_instance a \<longrightarrow> pydantic_exact E \<longrightarrow>
        (\<forall>now. decode_instance E now i = Inr (a\<lparr>si_updated_at := env_now E h\<rparr>)))"
    by (intro exI [of _ ?i]) (auto simp: decode_instance_item ok_instance_def, simp_all add: instance_item_def)
next
  show "emits (\<lambda>e. \<not> writes_table t e) (get_instance E k)" for E t k
    unfolding get_instance_def by (intro emits_rules) auto
qed (auto simp: get_instance_def delete_instance_def run_ok bind_io_def catch_io_def now_io_def get_item_def Let_def
    split: option.split)

lemma decode_binding_dump:
  assumes "pydantic_exact E" "bd_schema_version b = 1" "it_payload i = PText (JObj (dump_binding b))"
  shows "decode_binding E now i = Inr b"
proof -
  have "migrate_payload (JObj (dump_binding b)) ''binding'' = Inr (dump_binding b)"
    using assms(2) by (subst migrate_payload_current) (simp_all add: dump_binding_def jget_or_def)
  with assms show ?thesis by (simp add: decode_binding_def validate_binding_dump)
qed

interpretation bindings: record_store BINDINGS "\<lambda>k. [k]" bd_binding_id "\<lambda>b. bd_schema_version b = 1"
  "\<lambda>E h b. b" decode_binding put_binding get_binding delete_binding
proof unfold_locales
  show "emits (\<lambda>e. \<not> writes_table t e) (get_binding E k)" for E t k
    unfolding get_binding_def by (intro emits_rules) auto
qed (auto simp: put_binding_def get_binding_def delete_binding_def decode_binding_dump run_ok
      bind_io_def now_io_def get_item_def Let_def split: option.split)

text \<open>A read that meets a client error reports an absent instance.\<close>

lemma get_instance_client_error:
  assumes "env_get_item E h INSTANCES [iid] = Inl (AwsClient c m)"
  shows "fst (get_instance E iid h) = Inr None"
  using assms by (simp add: get_instance_def bind_io_def catch_io_def call_defs Let_def)

section \<open>Listing\<close>

lemma collect_instances_sound:
  assumes "collect_instances dec org limit items rows = Inr out"
  shows "\<exists>more. out = items @ more \<and> (\<forall>i\<in>set more. org \<noteq> None \<longrightarrow> si_organization_guid i = org) \<and>
    (\<forall>i\<in>set more. \<exists>r\<in>set rows. dec r = Inr i)"
  using assms
proof (induction dec org limit items rows rule: collect_instances.induct)
  case (2 dec org limit items row rows)
  then show ?case by (fastforce split: if_splits sum.splits)
qed simp

lemma collect_instances_limit:
  "collect_instances dec org limit items rows = Inr out \<Longrightarrow> int (length items) < max limit 1 \<Longrightarrow>
     int (length out) \<le> max limit 1"
  by (induction dec org limit items rows rule: collect_instances.induct)
     (auto split: if_splits sum.splits)

lemma list_instances_sound:
  assumes "list_instances E org limit h = (Inr out, h')"
  shows "int (length out) \<le> max limit 1 \<and> (\<forall>i\<in>set out. org \<noteq> None \<longrightarrow> si_organization_guid i = org)"
proof -
  have "out = [] \<or> (\<exists>dec rows. collect_instances dec org limit [] rows = Inr out)"
    using assms by (auto simp: list_instances_def Let_def run_ok split: option.splits)
  then show ?thesis
    using collect_instances_limit [of _ org limit "[]" _ out] collect_instances_sound [of _ org limit "[]" _ out]
    by auto
qed

end
