(* ===== verification/Tenancy.thy ===== *)
theory Tenancy
  imports Stores
begin

text \<open>
  Model of \<open>libs/common/sovereign/tenancy/models.py\<close>, \<open>tenant_store.py\<close> and \<open>role_store.py\<close>:
  tenants, roles, the role-to-actions table and the two stores. The walks over the tenant tree
  terminate on every table contents, cycles included; the ancestor walk computes exactly the
  transitive parents and the descendant walk exactly the transitive children, each once.
\<close>

section \<open>Models\<close>

datatype TenantLevel = agency | bureau | office | program

fun TenantLevel_value :: "TenantLevel \<Rightarrow> string" where
  "TenantLevel_value agency = ''agency''"
| "TenantLevel_value bureau = ''bureau''"
| "TenantLevel_value office = ''office''"
| "TenantLevel_value program = ''program''"

record Tenant =
  tn_tenant_id :: string
  tn_name :: string
  tn_level :: TenantLevel
  tn_parent_id :: "string option"
  tn_description :: string
  tn_metadata :: dict
  tn_created_at :: datetime

datatype Role = platform_admin | agency_admin | bureau_admin | program_team | auditor

fun Role_value :: "Role \<Rightarrow> string" where
  "Role_value platform_admin = ''platform-admin''"
| "Role_value agency_admin = ''agency-admin''"
| "Role_value bureau_admin = ''bureau-admin''"
| "Role_value program_team = ''program-team''"
| "Role_value auditor = ''auditor''"

definition all_roles :: "Role list" where
  "all_roles = [platform_admin, agency_admin, bureau_admin, program_team, auditor]"

abbreviation "ACTION_PROVISION \<equiv> ''provision''"
abbreviation "ACTION_DEPROVISION \<equiv> ''deprovision''"
abbreviation "ACTION_UPDATE \<equiv> ''update''"
abbreviation "ACTION_BIND \<equiv> ''bind''"
abbreviation "ACTION_READ \<equiv> ''read''"
abbreviation "ACTION_READ_AUDIT \<equiv> ''read-audit''"
abbreviation "ACTION_MANAGE_TENANT \<equiv> ''manage-tenant''"
abbreviation "ACTION_MANAGE_ROLES \<equiv> ''manage-roles''"
abbreviation "ACTION_MANAGE_QUOTAS \<equiv> ''manage-quotas''"

fun DEFAULT_ROLE_ACTIONS :: "Role \<Rightarrow> string set" where
  "DEFAULT_ROLE_ACTIONS platform_admin = {ACTION_PROVISION, ACTION_DEPROVISION, ACTION_UPDATE,
     ACTION_BIND, ACTION_READ, ACTION_READ_AUDIT, ACTION_MANAGE_TENANT, ACTION_MANAGE_ROLES,
     ACTION_MANAGE_QUOTAS}"
| "DEFAULT_ROLE_ACTIONS agency_admin = {ACTION_PROVISION, ACTION_DEPROVISION, ACTION_UPDATE,
     ACTION_BIND, ACTION_READ, ACTION_READ_AUDIT, ACTION_MANAGE_TENANT, ACTION_MANAGE_ROLES,
     ACTION_MANAGE_QUOTAS}"
| "DEFAULT_ROLE_ACTIONS bureau_admin = {ACTION_PROVISION, ACTION_DEPROVISION, ACTION_UPDATE,
     ACTION_BIND, ACTION_READ, ACTION_READ_AUDIT, ACTION_MANAGE_ROLES, ACTION_MANAGE_QUOTAS}"
| "DEFAULT_ROLE_ACTIONS program_team = {ACTION_PROVISION, ACTION_DEPROVISION, ACTION_UPDATE,
     ACTION_BIND, ACTION_READ}"
| "DEFAULT_ROLE_ACTIONS auditor = {ACTION_READ, ACTION_READ_AUDIT}"

record RoleBinding =
  rb_principal :: string
  rb_tenant_id :: string
  rb_role :: Role
  rb_granted_at :: datetime
  rb_granted_by :: string
  rb_metadata :: dict

abbreviation "dec_level \<equiv> enum_of TenantLevel_value [agency, bureau, office, program]"
abbreviation "dec_role \<equiv> enum_of Role_value all_roles"

lemma dec_level_value [simp]: "dec_level (JStr (TenantLevel_value l)) = Some l"
  by (cases l) (simp_all add: enum_of_def)

lemma dec_role_value [simp]: "dec_role (JStr (Role_value r)) = Some r"
  by (cases r) (simp_all add: enum_of_def all_roles_def)

definition dump_tenant :: "env \<Rightarrow> Tenant \<Rightarrow> dict" where
  "dump_tenant E t = [(''tenant_id'', JStr (tn_tenant_id t)), (''name'', JStr (tn_name t)),
     (''level'', JStr (TenantLevel_value (tn_level t))), (''parent_id'', jopt (tn_parent_id t)),
     (''description'', JStr (tn_description t)), (''metadata'', JObj (tn_metadata t)),
     (''created_at'', JStr (env_dump_datetime E (tn_created_at t)))]"

definition validate_tenant :: "env \<Rightarrow> string \<Rightarrow> dict \<Rightarrow> Tenant option" where
  "validate_tenant E now d = do {
     tid \<leftarrow> dec_field d ''tenant_id'' (env_pyd_str E) None;
     name \<leftarrow> dec_field d ''name'' (env_pyd_str E) None;
     level \<leftarrow> dec_field d ''level'' dec_level None;
     parent \<leftarrow> dec_field d ''parent_id'' (dec_opt (env_pyd_str E)) (Some None);
     descr \<leftarrow> dec_field d ''description'' (env_pyd_str E) (Some []);
     md \<leftarrow> dec_field d ''metadata'' dec_obj (Some []);
     cr \<leftarrow> dec_field d ''created_at'' (env_pyd_datetime E) (Some now);
     Some \<lparr>tn_tenant_id = tid, tn_name = name, tn_level = level, tn_parent_id = parent,
       tn_description = descr, tn_metadata = md, tn_created_at = cr\<rparr> }"

definition dump_role_binding :: "env \<Rightarrow> RoleBinding \<Rightarrow> dict" where
  "dump_role_binding E b = [(''principal'', JStr (rb_principal b)),
     (''tenant_id'', JStr (rb_tenant_id b)), (''role'', JStr (Role_value (rb_role b))),
     (''granted_at'', JStr (env_dump_datetime E (rb_granted_at b))),
     (''granted_by'', JStr (rb_granted_by b)), (''metadata'', JObj (rb_metadata b))]"

definition validate_role_binding :: "env \<Rightarrow> string \<Rightarrow> dict \<Rightarrow> RoleBinding option" where
  "validate_role_binding E now d = do {
     p \<leftarrow> dec_field d ''principal'' (env_pyd_str E) None;
     tid \<leftarrow> dec_field d ''tenant_id'' (env_pyd_str E) None;
     role \<leftarrow> dec_field d ''role'' dec_role None;
     ga \<leftarrow> dec_field d ''granted_at'' (env_pyd_datetime E) (Some now);
     gb \<leftarrow> dec_field d ''granted_by'' (env_pyd_str E) (Some ''system'');
     md \<leftarrow> dec_field d ''metadata'' dec_obj (Some []);
     Some \<lparr>rb_principal = p, rb_tenant_id = tid, rb_role = role, rb_granted_at = ga,
       rb_granted_by = gb, rb_metadata = md\<rparr> }"

lemma validate_tenant_dump: "pydantic_exact E \<Longrightarrow> validate_tenant E now (dump_tenant E t) = Some t"
  by (simp add: validate_tenant_def dump_tenant_def dec_field_def dec_obj_def pydantic_dec)

lemma validate_role_binding_dump:
  "pydantic_exact E \<Longrightarrow> validate_role_binding E now (dump_role_binding E b) = Some b"
  by (simp add: validate_role_binding_def dump_role_binding_def dec_field_def dec_obj_def pydantic_dec)

section \<open>The tenant store\<close>

abbreviation "TENANT_TABLE \<equiv> ''sovereign_tenants''"
abbreviation "ROLE_BINDING_TABLE \<equiv> ''sovereign_role_bindings''"

definition decode_tenant :: "env \<Rightarrow> string \<Rightarrow> item \<Rightarrow> exn + Tenant" where
  "decode_tenant E now i = validate_payload ''Tenant'' (validate_tenant E now) (it_payload i)"

definition put_tenant :: "env \<Rightarrow> Tenant \<Rightarrow> unit prog" where
  "put_tenant E t = put_item E TENANT_TABLE \<lparr>it_key = [tn_tenant_id t], it_attrs = [],
     it_payload = PText (JObj (dump_tenant E t))\<rparr>"

definition get_tenant :: "env \<Rightarrow> string \<Rightarrow> Tenant option prog" where
  "get_tenant E tid = get_row E TENANT_TABLE [tid] (decode_tenant E)"

definition delete_tenant :: "env \<Rightarrow> string \<Rightarrow> unit prog" where
  "delete_tenant E tid = delete_item E TENANT_TABLE [tid]"

definition list_all_tenants :: "env \<Rightarrow> Tenant list prog" where
  "list_all_tenants E = bind_io (client_error_as_runtime E ''tenant scan failed: ''
       (scan_items E TENANT_TABLE \<lparr>sc_limit = None, sc_filter = None\<rparr>)) (\<lambda>rows.
     bind_io (now_io E) (\<lambda>now. lift_res (decode_rows (decode_tenant E now) rows)))"

definition children_of :: "Tenant list \<Rightarrow> string \<Rightarrow> Tenant list" where
  "children_of ts tid = filter (\<lambda>t. tn_parent_id t = Some tid) ts"

definition get_children :: "env \<Rightarrow> string \<Rightarrow> Tenant list prog" where
  "get_children E tid = bind_io (list_all_tenants E) (\<lambda>ts. ret (children_of ts tid))"

text \<open>\<open>{t.tenant_id: t for t in ...}\<close>\<close>

definition tenants_by_id :: "Tenant list \<Rightarrow> (string \<times> Tenant) list" where
  "tenants_by_id ts = fold (\<lambda>t m. AList.update (tn_tenant_id t) t m) ts []"

function ancestors_walk :: "(string \<times> Tenant) list \<Rightarrow> string list \<Rightarrow> Tenant \<Rightarrow> Tenant list \<Rightarrow> Tenant list" where
  "ancestors_walk m seen current ancestors =
     (case tn_parent_id current of
        None \<Rightarrow> ancestors
      | Some p \<Rightarrow>
          if p = [] \<or> p \<in> set seen then ancestors
          else (case map_of m p of
             None \<Rightarrow> ancestors
           | Some parent \<Rightarrow> ancestors_walk m (p # seen) parent (ancestors @ [parent])))"
  by pat_completeness auto
termination
proof (relation "measure (\<lambda>(m, seen, _, _). card (fst ` set m - set seen))", goal_cases)
  case (2 m seen current ancestors p parent)
  then have "p \<in> fst ` set m" "p \<notin> set seen" by (auto simp: map_of_eq_Some_iff dest: map_of_SomeD intro: rev_image_eqI)
  then have "fst ` set m - set (p # seen) \<subset> fst ` set m - set seen" by auto
  then show ?case by (simp add: psubset_card_mono)
qed simp

declare ancestors_walk.simps [simp del]

definition ancestors_of :: "Tenant list \<Rightarrow> string \<Rightarrow> Tenant list" where
  "ancestors_of ts tid = (let m = tenants_by_id ts in case map_of m tid of
     None \<Rightarrow> [] | Some t \<Rightarrow> ancestors_walk m [] t [])"

definition get_ancestors :: "env \<Rightarrow> string \<Rightarrow> Tenant list prog" where
  "get_ancestors E tid = bind_io (list_all_tenants E) (\<lambda>ts. ret (ancestors_of ts tid))"

text \<open>\<open>children_by_parent.get(p, [])\<close>: the key is only set for a non-empty parent id.\<close>

definition children_by_parent :: "Tenant list \<Rightarrow> string \<Rightarrow> Tenant list" where
  "children_by_parent ts p = filter (\<lambda>t. tn_parent_id t = Some p \<and> p \<noteq> []) ts"

function descendants_walk :: "Tenant list \<Rightarrow> Tenant list \<Rightarrow> string list \<Rightarrow> Tenant list \<Rightarrow> Tenant list" where
  "descendants_walk ts stack seen out =
     (if stack = [] then out
      else let node = last stack; stack' = butlast stack in
        if tn_tenant_id node \<in> set seen then descendants_walk ts stack' seen out
        else descendants_walk ts (stack' @ children_by_parent ts (tn_tenant_id node))
               (tn_tenant_id node # seen) (out @ [node]))"
  by pat_completeness auto
termination
proof (relation "inv_image (less_than <*lex*> less_than) (\<lambda>(ts, stack, seen, _).
    (card (tn_tenant_id ` (set ts \<union> set stack) - set seen), length stack))", goal_cases)
  case (2 ts stack seen out node stack')
  have "tn_tenant_id ` (set ts \<union> set stack') - set seen \<subseteq> tn_tenant_id ` (set ts \<union> set stack) - set seen"
    using 2 by (auto dest: in_set_butlastD)
  then have "card (tn_tenant_id ` (set ts \<union> set stack') - set seen)
      \<le> card (tn_tenant_id ` (set ts \<union> set stack) - set seen)"
    by (intro card_mono) auto
  with 2 show ?case by (auto simp: le_less)
next
  case (3 ts stack seen out node stack')
  have "set (stack' @ children_by_parent ts (tn_tenant_id node)) \<subseteq> set ts \<union> set stack"
    using 3 by (auto simp: children_by_parent_def dest: in_set_butlastD)
  moreover have "node \<in> set stack" using 3 by simp
  ultimately have "tn_tenant_id ` (set ts \<union> set (stack' @ children_by_parent ts (tn_tenant_id node))) -
      set (tn_tenant_id node # seen) \<subset> tn_tenant_id ` (set ts \<union> set stack) - set seen"
    using 3 by auto
  then show ?case by (simp add: psubset_card_mono del: set_append)
qed auto

declare descendants_walk.simps [simp del]

definition descendants_of :: "Tenant list \<Rightarrow> string \<Rightarrow> Tenant list" where
  "descendants_of ts tid = descendants_walk ts (children_by_parent ts tid) [] []"

definition get_descendants :: "env \<Rightarrow> string \<Rightarrow> Tenant list prog" where
  "get_descendants E tid = bind_io (list_all_tenants E) (\<lambda>ts. ret (descendants_of ts tid))"

definition is_ancestor_of :: "env \<Rightarrow> string \<Rightarrow> string \<Rightarrow> bool prog" where
  "is_ancestor_of E anc desc = bind_io (get_ancestors E desc) (\<lambda>as.
     ret (list_ex (\<lambda>a. tn_tenant_id a = anc) as))"

definition tenant_path :: "env \<Rightarrow> string \<Rightarrow> Tenant list prog" where
  "tenant_path E tid = bind_io (get_tenant E tid) (\<lambda>target. case target of
     None \<Rightarrow> ret []
   | Some t \<Rightarrow> bind_io (get_ancestors E tid) (\<lambda>as. ret (rev as @ [t])))"

section \<open>The role store\<close>

definition decode_role_binding :: "env \<Rightarrow> string \<Rightarrow> item \<Rightarrow> exn + RoleBinding" where
  "decode_role_binding E now i =
     validate_payload ''RoleBinding'' (validate_role_binding E now) (it_payload i)"

definition put_role :: "env \<Rightarrow> RoleBinding \<Rightarrow> unit prog" where
  "put_role E b = put_item E ROLE_BINDING_TABLE \<lparr>it_key = [rb_principal b, rb_tenant_id b],
     it_attrs = [], it_payload = PText (JObj (dump_role_binding E b))\<rparr>"

definition get_role :: "env \<Rightarrow> string \<times> string \<Rightarrow> RoleBinding option prog" where
  "get_role E pt = (case pt of (p, tid) \<Rightarrow> get_row E ROLE_BINDING_TABLE [p, tid] (decode_role_binding E))"

definition delete_role :: "env \<Rightarrow> string \<times> string \<Rightarrow> unit prog" where
  "delete_role E pt = (case pt of (p, tid) \<Rightarrow> delete_item E ROLE_BINDING_TABLE [p, tid])"

definition role_query :: "string \<Rightarrow> ddb_query" where
  "role_query p = \<lparr>dq_index = None, dq_hash = p, dq_range = AnyRange, dq_limit = None, dq_forward = True\<rparr>"

definition roles_for :: "env \<Rightarrow> string \<Rightarrow> RoleBinding list prog" where
  "roles_for E p = bind_io (client_error_as_runtime E ''role lookup failed: ''
       (query_items E ROLE_BINDING_TABLE (role_query p))) (\<lambda>rows.
     bind_io (now_io E) (\<lambda>now. lift_res (decode_rows (decode_role_binding E now) rows)))"

definition roles_for_tenant :: "env \<Rightarrow> string \<Rightarrow> RoleBinding list prog" where
  "roles_for_tenant E tid = bind_io (client_error_as_runtime E ''role lookup failed: ''
       (scan_items E ROLE_BINDING_TABLE \<lparr>sc_limit = None, sc_filter = Some (''tenant_id'', tid)\<rparr>)) (\<lambda>rows.
     bind_io (now_io E) (\<lambda>now. lift_res (decode_rows (decode_role_binding E now) rows)))"

definition principals_with_role :: "env \<Rightarrow> Role \<Rightarrow> RoleBinding list prog" where
  "principals_with_role E r = bind_io (client_error_as_runtime E ''role scan failed: ''
       (scan_items E ROLE_BINDING_TABLE \<lparr>sc_limit = None, sc_filter = None\<rparr>)) (\<lambda>rows.
     bind_io (now_io E) (\<lambda>now. bind_io (lift_res (decode_rows (decode_role_binding E now) rows)) (\<lambda>bs.
     ret (filter (\<lambda>b. rb_role b = r) bs))))"

section \<open>The stores keep the interface\<close>

interpretation tenants: payload_store TENANT_TABLE "\<lambda>k. [k]" tn_tenant_id dump_tenant decode_tenant
  put_tenant get_tenant delete_tenant
  by unfold_locales
    (simp_all add: put_tenant_def get_tenant_def delete_tenant_def decode_tenant_def validate_tenant_dump)

interpretation roles: payload_store ROLE_BINDING_TABLE "\<lambda>(p, tid). [p, tid]"
  "\<lambda>b. (rb_principal b, rb_tenant_id b)" dump_role_binding decode_role_binding put_role get_role delete_role
  by unfold_locales (simp_all add: put_role_def get_role_def delete_role_def decode_role_binding_def
    validate_role_binding_dump split: prod.splits)

section \<open>The tenant tree\<close>

text \<open>The parent edges of a table, between tenants that exist.\<close>

definition parent_rel :: "(string \<times> Tenant) list \<Rightarrow> (string \<times> string) set" where
  "parent_rel m = {(x, p). \<exists>t. map_of m x = Some t \<and> tn_parent_id t = Some p \<and> p \<noteq> [] \<and> map_of m p \<noteq> None}"

definition keyed_by_id :: "(string \<times> Tenant) list \<Rightarrow> bool" where
  "keyed_by_id m \<longleftrightarrow> (\<forall>k t. map_of m k = Some t \<longrightarrow> tn_tenant_id t = k)"

lemma keyed_by_id_update: "keyed_by_id m \<Longrightarrow> keyed_by_id (AList.update (tn_tenant_id t) t m)"
  by (simp add: keyed_by_id_def update_conv)

lemma tenants_by_id_keyed: "keyed_by_id (tenants_by_id ts)"
proof -
  have step: "keyed_by_id m \<Longrightarrow> keyed_by_id (fold (\<lambda>t m. AList.update (tn_tenant_id t) t m) ts m)" for m
    by (induction ts arbitrary: m) (simp_all add: keyed_by_id_update)
  have "keyed_by_id []" by (simp add: keyed_by_id_def)
  from step [OF this] show ?thesis unfolding tenants_by_id_def .
qed

lemma trancl_step_det:
  assumes "R `` {c} = {p}"
  shows "R\<^sup>+ `` {c} = insert p (R\<^sup>+ `` {p})"
proof -
  have "R\<^sup>+ `` {c} = R\<^sup>* `` (R `` {c})" by (auto simp: trancl_unfold_left)
  also have "\<dots> = R\<^sup>* `` {p}" by (simp add: assms)
  also have "\<dots> = insert p (R\<^sup>+ `` {p})" by (auto simp: rtrancl_eq_or_trancl)
  finally show ?thesis .
qed

lemma trancl_closed:
  assumes "R `` {c} \<subseteq> S" "\<And>x. x \<in> S \<Longrightarrow> R `` {x} \<subseteq> S"
  shows "R\<^sup>+ `` {c} \<subseteq> S"
proof
  fix y assume "y \<in> R\<^sup>+ `` {c}"
  then have "(c, y) \<in> R\<^sup>+" by simp
  then show "y \<in> S" by (induction rule: trancl_induct) (use assms in auto)
qed

lemma ancestors_walk_set:
  assumes "keyed_by_id m" "map_of m c = Some current" "tn_tenant_id ` set anc = set seen"
    and "\<And>x. x \<in> set seen \<Longrightarrow> x \<noteq> c \<Longrightarrow> parent_rel m `` {x} \<subseteq> set seen"
  shows "tn_tenant_id ` set (ancestors_walk m seen current anc) = set seen \<union> (parent_rel m)\<^sup>+ `` {c}"
  using assms
proof (induction m seen current anc arbitrary: c rule: ancestors_walk.induct)
  case (1 m seen current anc)
  let ?R = "parent_rel m"
  show ?case
  proof (cases "\<exists>p parent. tn_parent_id current = Some p \<and> p \<noteq> [] \<and> p \<notin> set seen \<and> map_of m p = Some parent")
    case True
    then obtain p parent where p: "tn_parent_id current = Some p" "p \<noteq> []" "p \<notin> set seen"
      "map_of m p = Some parent" by auto
    have R: "?R `` {c} = {p}" using p "1.prems"(2) by (auto simp: parent_rel_def)
    have "tn_tenant_id parent = p" using "1.prems"(1) p(4) by (simp add: keyed_by_id_def)
    then have "tn_tenant_id ` set (ancestors_walk m (p # seen) parent (anc @ [parent])) =
        set (p # seen) \<union> ?R\<^sup>+ `` {p}"
      using p "1.prems" R by (intro "1.IH") (auto; blast)+
    then show ?thesis
      using p trancl_step_det [OF R] by (subst ancestors_walk.simps) auto
  next
    case False
    then have "ancestors_walk m seen current anc = anc"
      by (subst ancestors_walk.simps) (auto split: option.split)
    moreover have "?R `` {c} \<subseteq> set seen"
      using False "1.prems"(2) by (auto simp: parent_rel_def)
    then have "?R\<^sup>+ `` {c} \<subseteq> set seen"
      by (rule trancl_closed) (use "1.prems"(4) \<open>?R `` {c} \<subseteq> set seen\<close> in blast)
    ultimately show ?thesis using "1.prems"(3) by auto
  qed
qed

lemma ancestors_walk_distinct:
  assumes "keyed_by_id m" "tn_tenant_id ` set anc = set seen" "distinct (map tn_tenant_id anc)"
  shows "distinct (map tn_tenant_id (ancestors_walk m seen current anc))"
  using assms
proof (induction m seen current anc rule: ancestors_walk.induct)
  case (1 m seen current anc)
  then show ?case
    by (subst ancestors_walk.simps) (auto simp: keyed_by_id_def split: option.split)
qed

text \<open>Each ancestor is the parent of the one before it, the first the parent of the start.\<close>

fun parent_chain :: "Tenant \<Rightarrow> Tenant list \<Rightarrow> bool" where
  "parent_chain t [] = True"
| "parent_chain t (p # ps) \<longleftrightarrow> tn_parent_id t = Some (tn_tenant_id p) \<and> parent_chain p ps"

lemma ancestors_walk_chain:
  assumes "keyed_by_id m"
  shows "\<exists>ps. ancestors_walk m seen current anc = anc @ ps \<and> parent_chain current ps"
  using assms
proof (induction m seen current anc rule: ancestors_walk.induct)
  case (1 m seen current anc)
  show ?case
  proof (cases "\<exists>p parent. tn_parent_id current = Some p \<and> p \<noteq> [] \<and> p \<notin> set seen \<and> map_of m p = Some parent")
    case True
    then obtain p parent where p: "tn_parent_id current = Some p" "p \<noteq> []" "p \<notin> set seen"
      "map_of m p = Some parent" by auto
    with "1.IH" [OF p(1) _ p(4) "1.prems"] obtain ps where
      "ancestors_walk m (p # seen) parent (anc @ [parent]) = (anc @ [parent]) @ ps" "parent_chain parent ps"
      by auto
    with p "1.prems" show ?thesis
      by (subst ancestors_walk.simps) (auto simp: keyed_by_id_def intro!: exI [of _ "parent # ps"])
  next
    case False
    then show ?thesis by (subst ancestors_walk.simps) (auto split: option.split)
  qed
qed

lemma ancestors_of_set:
  "tn_tenant_id ` set (ancestors_of ts tid) = (parent_rel (tenants_by_id ts))\<^sup>+ `` {tid}"
proof (cases "map_of (tenants_by_id ts) tid")
  case None
  then have "parent_rel (tenants_by_id ts) `` {tid} \<subseteq> {}" by (auto simp: parent_rel_def)
  then have "(parent_rel (tenants_by_id ts))\<^sup>+ `` {tid} \<subseteq> {}" by (rule trancl_closed) simp
  with None show ?thesis by (simp add: ancestors_of_def Let_def)
next
  case (Some t)
  with ancestors_walk_set [OF tenants_by_id_keyed Some, of "[]" "[]"] show ?thesis
    by (simp add: ancestors_of_def Let_def)
qed

lemma ancestors_of_distinct: "distinct (map tn_tenant_id (ancestors_of ts tid))"
  by (auto simp: ancestors_of_def Let_def split: option.split
      intro!: ancestors_walk_distinct tenants_by_id_keyed)

subsection \<open>Descendants\<close>

definition child_rel :: "Tenant list \<Rightarrow> (string \<times> string) set" where
  "child_rel ts = {(p, tn_tenant_id t) | p t. t \<in> set ts \<and> tn_parent_id t = Some p \<and> p \<noteq> []}"

lemma children_ids: "tn_tenant_id ` set (children_by_parent ts p) = child_rel ts `` {p}"
  by (auto simp: children_by_parent_def child_rel_def)

lemma rtrancl_worklist:
  assumes "\<And>x. x \<in> S \<Longrightarrow> R `` {x} \<subseteq> S \<union> T" "x \<in> S"
  shows "R\<^sup>* `` {x} \<subseteq> S \<union> R\<^sup>* `` T"
proof
  fix y assume "y \<in> R\<^sup>* `` {x}"
  then have "(x, y) \<in> R\<^sup>*" by simp
  then show "y \<in> S \<union> R\<^sup>* `` T"
  proof (induction rule: rtrancl_induct)
    case (step y z)
    then show ?case using assms(1) [of y] by (auto intro: rtrancl_into_rtrancl)
  qed (use assms(2) in simp)
qed

lemma rtrancl_insert_step: "R\<^sup>* `` (insert x T) = insert x (R\<^sup>* `` (R `` {x} \<union> T))"
proof -
  have "R\<^sup>* `` {x} = insert x (R\<^sup>* `` (R `` {x}))"
    by (auto elim: converse_rtranclE intro: converse_rtrancl_into_rtrancl)
  then show ?thesis by (metis (no_types, lifting) Image_Un Un_insert_left insert_is_Un)
qed

lemma descendants_walk_set:
  assumes "tn_tenant_id ` set out = set seen"
    and "\<And>x. x \<in> set seen \<Longrightarrow> child_rel ts `` {x} \<subseteq> set seen \<union> tn_tenant_id ` set stack"
  shows "tn_tenant_id ` set (descendants_walk ts stack seen out) =
    set seen \<union> (child_rel ts)\<^sup>* `` (tn_tenant_id ` set stack)"
  using assms
proof (induction ts stack seen out rule: descendants_walk.induct)
  case (1 ts stack seen out)
  let ?R = "child_rel ts"
  show ?case
  proof (cases stack rule: rev_cases)
    case Nil
    then show ?thesis using "1.prems"(1) by (simp add: descendants_walk.simps)
  next
    case (snoc st node)
    let ?n = "tn_tenant_id node"
    show ?thesis
    proof (cases "?n \<in> set seen")
      case True
      have inv: "\<And>x. x \<in> set seen \<Longrightarrow> ?R `` {x} \<subseteq> set seen \<union> tn_tenant_id ` set st"
        using "1.prems"(2) snoc True by fastforce
      have "tn_tenant_id ` set (descendants_walk ts st seen out) = set seen \<union> ?R\<^sup>* `` (tn_tenant_id ` set st)"
        using snoc True inv "1.prems"(1) by (intro "1.IH"(1)) auto
      moreover have "?R\<^sup>* `` {?n} \<subseteq> set seen \<union> ?R\<^sup>* `` (tn_tenant_id ` set st)"
        by (rule rtrancl_worklist [OF inv True])
      ultimately show ?thesis
        using snoc True by (subst descendants_walk.simps) auto
    next
      case False
      let ?st = "st @ children_by_parent ts ?n"
      have "tn_tenant_id ` set (descendants_walk ts ?st (?n # seen) (out @ [node])) =
          set (?n # seen) \<union> ?R\<^sup>* `` (tn_tenant_id ` set ?st)"
        using snoc False "1.prems" by (intro "1.IH"(2)) (fastforce simp: children_ids image_Un)+
      moreover have "?R\<^sup>* `` (tn_tenant_id ` set stack) = insert ?n (?R\<^sup>* `` (tn_tenant_id ` set ?st))"
        using rtrancl_insert_step [of ?R ?n "tn_tenant_id ` set st"] snoc
        by (simp add: children_ids image_Un Un_commute)
      ultimately show ?thesis
        using snoc False by (subst descendants_walk.simps) auto
    qed
  qed
qed

lemma descendants_walk_distinct:
  assumes "tn_tenant_id ` set out = set seen" "distinct (map tn_tenant_id out)"
  shows "distinct (map tn_tenant_id (descendants_walk ts stack seen out))"
  using assms
proof (induction ts stack seen out rule: descendants_walk.induct)
  case (1 ts stack seen out)
  then show ?case by (subst descendants_walk.simps) (auto simp: Let_def)
qed

lemma descendants_of_set: "tn_tenant_id ` set (descendants_of ts tid) = (child_rel ts)\<^sup>+ `` {tid}"
proof -
  have "tn_tenant_id ` set (descendants_of ts tid) = (child_rel ts)\<^sup>* `` (child_rel ts `` {tid})"
    using descendants_walk_set [of "[]" "[]" ts "children_by_parent ts tid"]
    by (simp add: descendants_of_def children_ids)
  also have "\<dots> = (child_rel ts)\<^sup>+ `` {tid}"
    by (auto simp: trancl_unfold_left)
  finally show ?thesis .
qed

lemma descendants_of_distinct: "distinct (map tn_tenant_id (descendants_of ts tid))"
  by (simp add: descendants_of_def descendants_walk_distinct)

end
