(* ===== verification/Authz.thy ===== *)
theory Authz
  imports Tenancy
begin

text \<open>
  Model of \<open>libs/common/sovereign/tenancy/authz.py\<close>, \<open>tenancy/jwt_auth.py\<close> and
  \<open>idp/group_sync.py\<close>: the effective roles of a principal at a tenant, token verification as the
  FastAPI dependency does it, the 403 gate, and the materialisation of identity-provider groups as
  role bindings. The decision procedure is characterised against the tables, and every granted
  role is traced back to a binding that was read.
\<close>

section \<open>Effective roles\<close>

record EffectiveAuthz =
  ea_principal :: string
  ea_tenant_id :: string
  ea_roles :: "Role set"
  ea_inherited_from :: "(string \<times> Role set) list"

definition has_role :: "EffectiveAuthz \<Rightarrow> Role \<Rightarrow> bool" where
  "has_role ea r \<longleftrightarrow> r \<in> ea_roles ea"

definition ea_actions :: "EffectiveAuthz \<Rightarrow> string set" where
  "ea_actions ea = (\<Union>r\<in>ea_roles ea. DEFAULT_ROLE_ACTIONS r)"

definition ea_can :: "EffectiveAuthz \<Rightarrow> string \<Rightarrow> bool" where
  "ea_can ea action \<longleftrightarrow> action \<in> ea_actions ea"

definition roles_at :: "RoleBinding list \<Rightarrow> string \<Rightarrow> Role set" where
  "roles_at bs tid = rb_role ` {b \<in> set bs. rb_tenant_id b = tid}"

definition inherit_step :: "env \<Rightarrow> string \<Rightarrow> Tenant \<Rightarrow> (string \<times> Role set) list \<Rightarrow> (string \<times> Role set) list prog" where
  "inherit_step E prin anc inherited = bind_io (roles_for E prin) (\<lambda>bs.
     let anc_roles = roles_at bs (tn_tenant_id anc)
     in ret (if anc_roles \<noteq> {} then AList.update (tn_tenant_id anc) anc_roles inherited else inherited))"

definition platform_step :: "string \<Rightarrow> RoleBinding \<Rightarrow> (string \<times> Role set) list \<Rightarrow> (string \<times> Role set) list" where
  "platform_step tid b inherited =
     (if rb_role b = platform_admin \<and> rb_tenant_id b \<noteq> tid
      then let d = setdefault (rb_tenant_id b) {} inherited
           in AList.update (rb_tenant_id b) (insert platform_admin (the (map_of d (rb_tenant_id b)))) d
      else inherited)"

definition effective_roles_at :: "env \<Rightarrow> string \<Rightarrow> string \<Rightarrow> EffectiveAuthz prog" where
  "effective_roles_at E prin tid =
     bind_io (roles_for E prin) (\<lambda>bs1. let direct = roles_at bs1 tid in
     bind_io (get_ancestors E tid) (\<lambda>ancs.
     bind_io (fold_io (inherit_step E prin) ancs []) (\<lambda>inherited.
     bind_io (roles_for E prin) (\<lambda>bs3.
     let inh = fold (platform_step tid) bs3 inherited
     in ret \<lparr>ea_principal = prin, ea_tenant_id = tid,
          ea_roles = direct \<union> \<Union>(snd ` set inh), ea_inherited_from = inh\<rparr>))))"

definition authz_can :: "env \<Rightarrow> string \<Rightarrow> string \<Rightarrow> string \<Rightarrow> bool prog" where
  "authz_can E prin tid action =
     bind_io (effective_roles_at E prin tid) (\<lambda>ea. ret (ea_can ea action))"

definition admin_or_audit :: "Role set" where
  "admin_or_audit = {platform_admin, agency_admin, bureau_admin, auditor}"

definition visible_tenants :: "env \<Rightarrow> string \<Rightarrow> string \<Rightarrow> string list prog" where
  "visible_tenants E prin tid = bind_io (effective_roles_at E prin tid) (\<lambda>ea.
     if \<not> ea_can ea ''read'' then ret []
     else if ea_roles ea \<inter> admin_or_audit \<noteq> {} then
       bind_io (get_descendants E tid) (\<lambda>ds. ret (tid # map tn_tenant_id ds))
     else ret [tid])"

section \<open>Tokens\<close>

record TokenUser =
  tu_principal :: string
  tu_tenant_id :: json
  tu_groups :: "json list"
  tu_raw :: dict

definition token_error :: "env \<Rightarrow> exn \<Rightarrow> 'a prog" where
  "token_error E x = (case x of
     ExpiredSignatureError _ \<Rightarrow> throw (HTTPException 401 (JStr ''token expired''))
   | InvalidTokenError _ \<Rightarrow> throw (HTTPException 401 (JStr (''invalid token: '' @ env_str_exn E x)))
   | _ \<Rightarrow> throw x)"

definition decode_token :: "env \<Rightarrow> string \<Rightarrow> dict prog" where
  "decode_token E token = (let s = cfg E in
     if cfg_oidc_issuer_url s \<noteq> [] then
       catch_io (oidc_verify_io E (cfg_oidc_issuer_url s) (cfg_oidc_audience s) token) (token_error E)
     else if cfg_require_oidc s then throw (HTTPException 401
       (JStr ''OIDC is required; configure OIDC_ISSUER_URL and OIDC_AUDIENCE''))
     else catch_io (lift_res (env_jwt_decode E token (cfg_dev_jwt_secret s))) (token_error E))"

definition py_str :: "env \<Rightarrow> json \<Rightarrow> string" where
  "py_str E j = (case j of JStr s \<Rightarrow> s | _ \<Rightarrow> env_str_json E j)"

text \<open>\<open>tuple(v or [])\<close> of a claim: a string gives its characters, a dictionary its keys.\<close>

definition py_tuple :: "json \<Rightarrow> exn + json list" where
  "py_tuple v = (if \<not> jtruthy v then Inr [] else case v of
     JList xs \<Rightarrow> Inr xs | JStr s \<Rightarrow> Inr (map (\<lambda>c. JStr [c]) s) | JObj d \<Rightarrow> Inr (map (JStr \<circ> fst) d)
   | _ \<Rightarrow> Inl (TypeError ''object is not iterable''))"

definition user_of_claims :: "env \<Rightarrow> dict \<Rightarrow> exn + TokenUser" where
  "user_of_claims E claims = map_sum id (\<lambda>groups. \<lparr>tu_principal = py_str E (jget claims ''sub''),
     tu_tenant_id = jget claims ''tid'', tu_groups = groups, tu_raw = claims\<rparr>)
     (py_tuple (jget_or claims ''groups'' (JList [])))"

definition strip_bearer :: "string \<Rightarrow> string" where
  "strip_bearer a = strip (removeprefix (removeprefix a ''Bearer '') ''bearer '')"

definition require_user :: "env \<Rightarrow> string option \<Rightarrow> TokenUser prog" where
  "require_user E authorization = (case authorization of
     None \<Rightarrow> throw (HTTPException 401 (JStr ''missing bearer token''))
   | Some a \<Rightarrow>
       if a = [] \<or> \<not> startswith (lower a) ''bearer ''
       then throw (HTTPException 401 (JStr ''missing bearer token''))
       else bind_io (decode_token E (strip_bearer a)) (\<lambda>claims.
         if \<not> jtruthy (jget claims ''sub'')
         then throw (HTTPException 401 (JStr (''token missing '' @ py_repr ''sub'' @ '' claim'')))
         else lift_res (user_of_claims E claims)))"

definition roles_held :: "Role set \<Rightarrow> json" where
  "roles_held rs = jstrs (sort (map Role_value (filter (\<lambda>r. r \<in> rs) all_roles)))"

definition authorize :: "env \<Rightarrow> TokenUser \<Rightarrow> string \<Rightarrow> string \<Rightarrow> EffectiveAuthz prog" where
  "authorize E user tid action = bind_io (effective_roles_at E (tu_principal user) tid) (\<lambda>ea.
     if \<not> ea_can ea action then throw (HTTPException 403 (JObj
       [(''message'', JStr ''principal lacks the role required for this action''),
        (''principal'', JStr (tu_principal user)), (''tenant_id'', JStr tid),
        (''action'', JStr action), (''roles_held'', roles_held (ea_roles ea))]))
     else ret ea)"

definition DEFAULT_GROUP_ROLE_MAP :: "(string \<times> Role) list" where
  "DEFAULT_GROUP_ROLE_MAP = [(''sovereign-platform-admins'', platform_admin),
     (''sovereign-agency-admins'', agency_admin), (''sovereign-bureau-admins'', bureau_admin),
     (''sovereign-program-teams'', program_team), (''sovereign-auditors'', auditor)]"

section \<open>Group sync\<close>

text \<open>\<open>_unique\<close> hashes every item, so a list or dictionary in the claim raises. Items that are not
  strings never match a group name, so comparing them by structure is immaterial.\<close>

fun unique_loop :: "json list \<Rightarrow> json list \<Rightarrow> exn + json list" where
  "unique_loop out [] = Inr out"
| "unique_loop out (x # xs) =
     (case x of JList _ \<Rightarrow> Inl (TypeError ''unhashable type: list'')
      | JObj _ \<Rightarrow> Inl (TypeError ''unhashable type: dict'')
      | _ \<Rightarrow> if x \<in> set out then unique_loop out xs else unique_loop (out @ [x]) xs)"

definition unique :: "json list \<Rightarrow> exn + json list" where
  "unique xs = unique_loop [] xs"

definition group_role :: "(string \<times> Role) list \<Rightarrow> json \<Rightarrow> Role option" where
  "group_role role_map g = (case g of JStr s \<Rightarrow> map_of role_map s | _ \<Rightarrow> None)"

definition group_tenant :: "(string \<times> string) list \<Rightarrow> json \<Rightarrow> string option \<Rightarrow> json \<Rightarrow> json" where
  "group_tenant tenant_map tid dflt g =
     (let mapped = (case g of JStr s \<Rightarrow> map_of tenant_map s | _ \<Rightarrow> None)
      in if truthy mapped then JStr (the mapped) else if jtruthy tid then tid else jopt dflt)"

definition sync_step :: "env \<Rightarrow> TokenUser \<Rightarrow> string option \<Rightarrow> (string \<times> Role) list \<Rightarrow>
    (string \<times> string) list \<Rightarrow> string \<Rightarrow> json \<Rightarrow> RoleBinding list \<Rightarrow> RoleBinding list prog" where
  "sync_step E user dflt role_map tenant_map granted_by grp written =
     (case group_role role_map grp of
        None \<Rightarrow> ret written
      | Some role \<Rightarrow>
          let tv = group_tenant tenant_map (tu_tenant_id user) dflt grp
          in if \<not> jtruthy tv then ret written
             else (case env_pyd_str E tv of
                None \<Rightarrow> throw (ValidationError ''RoleBinding'')
              | Some tid \<Rightarrow> bind_io (now_io E) (\<lambda>now.
                  let b = \<lparr>rb_principal = tu_principal user, rb_tenant_id = tid, rb_role = role,
                        rb_granted_at = now, rb_granted_by = granted_by,
                        rb_metadata = [(''source_group'', grp)]\<rparr>
                  in seq_io (put_role E b) (ret (written @ [b])))))"

definition sync_groups_to_roles :: "env \<Rightarrow> TokenUser \<Rightarrow> string option \<Rightarrow> (string \<times> Role) list option \<Rightarrow>
    (string \<times> string) list \<Rightarrow> string \<Rightarrow> RoleBinding list prog" where
  "sync_groups_to_roles E user dflt group_role_map tenant_map granted_by =
     (let role_map = (case group_role_map of Some m \<Rightarrow> m | None \<Rightarrow> DEFAULT_GROUP_ROLE_MAP)
      in bind_io (lift_res (unique (tu_groups user))) (\<lambda>groups.
           fold_io (sync_step E user dflt role_map tenant_map granted_by) groups []))"

section \<open>The decision, characterised\<close>

lemma decode_rows_mem: "decode_rows dec rows = Inr xs \<Longrightarrow> x \<in> set xs \<Longrightarrow> \<exists>i\<in>set rows. dec i = Inr x"
proof (induction rows arbitrary: xs)
  case (Cons i rows)
  show ?case
  proof (cases "is_text (it_payload i)")
    case True
    with Cons.prems obtain a as where "dec i = Inr a" "decode_rows dec rows = Inr as" "xs = a # as"
      by (auto split: sum.splits simp: map_sum_def)
    with Cons show ?thesis by auto
  qed (use Cons in auto)
qed simp

text \<open>The role tables answer every query of a request alike: no concurrent change of the bindings
  of the principal or of the tenant tree.\<close>

definition roles_snapshot :: "env \<Rightarrow> string \<Rightarrow> RoleBinding list \<Rightarrow> bool" where
  "roles_snapshot E prin bs \<longleftrightarrow> (\<forall>h. fst (roles_for E prin h) = Inr bs)"

definition tenants_snapshot :: "env \<Rightarrow> Tenant list \<Rightarrow> bool" where
  "tenants_snapshot E ts \<longleftrightarrow> (\<forall>h. fst (list_all_tenants E h) = Inr ts)"

definition grants :: "Tenant list \<Rightarrow> string \<Rightarrow> RoleBinding \<Rightarrow> bool" where
  "grants ts tid b \<longleftrightarrow> rb_tenant_id b = tid \<or> rb_role b = platform_admin \<or>
     (tid, rb_tenant_id b) \<in> (parent_rel (tenants_by_id ts))\<^sup>+"

lemma wp_snapshot_roles:
  assumes "roles_snapshot E prin bs" "\<And>h'. Q bs h'"
  shows "wp (roles_for E prin) Q R h"
proof -
  have "fst (roles_for E prin h) = Inr bs" using assms(1) by (simp add: roles_snapshot_def)
  then show ?thesis using assms(2) by (cases "roles_for E prin h") (simp add: wp_def)
qed

lemma wp_snapshot_tenants:
  assumes "tenants_snapshot E ts" "\<And>h'. Q ts h'"
  shows "wp (list_all_tenants E) Q R h"
proof -
  have "fst (list_all_tenants E h) = Inr ts" using assms(1) by (simp add: tenants_snapshot_def)
  then show ?thesis using assms(2) by (cases "list_all_tenants E h") (simp add: wp_def)
qed

text \<open>The roles a dictionary of inherited roles holds.\<close>

abbreviation inh_roles :: "(string \<times> Role set) list \<Rightarrow> Role set" where
  "inh_roles d \<equiv> \<Union>(snd ` set d)"

lemma inh_roles_ran: "distinct (map fst d) \<Longrightarrow> inh_roles d = \<Union>(ran (map_of d))"
  by (simp add: ran_distinct)

lemma ran_update: "ran (m(k \<mapsto> v)) = insert v (ran (m(k := None)))"
  by (auto simp: ran_def)

definition inh_ok :: "(string \<times> Role set) list \<Rightarrow> (string \<Rightarrow> Role set) \<Rightarrow> bool" where
  "inh_ok d f \<longleftrightarrow> distinct (map fst d) \<and> (\<forall>k. (case map_of d k of Some v \<Rightarrow> v | None \<Rightarrow> {}) = f k)"

lemma inh_ok_roles: "inh_ok d f \<Longrightarrow> inh_roles d = (\<Union>k. f k)"
proof -
  assume ok: "inh_ok d f"
  have "inh_roles d = \<Union>(ran (map_of d))" using ok by (simp add: inh_ok_def inh_roles_ran)
  also have "\<dots> = (\<Union>k. f k)"
    using ok by (auto simp: inh_ok_def ran_def split: option.splits)
  finally show ?thesis .
qed

lemma inh_ok_update: "inh_ok d f \<Longrightarrow> inh_ok (AList.update k v d) (f(k := v))"
  by (auto simp: inh_ok_def update_conv distinct_update)

lemma inh_ok_platform:
  assumes "inh_ok d f"
  shows "inh_ok (platform_step tid b d) (\<lambda>k. f k \<union>
    (if rb_role b = platform_admin \<and> rb_tenant_id b \<noteq> tid \<and> k = rb_tenant_id b then {platform_admin} else {}))"
proof (cases "rb_role b = platform_admin \<and> rb_tenant_id b \<noteq> tid")
  case True
  have "distinct (map fst (setdefault (rb_tenant_id b) {} d))"
    using assms by (auto simp: inh_ok_def setdefault_def distinct_update split: option.split)
  with True assms show ?thesis
    by (auto simp: inh_ok_def platform_step_def Let_def distinct_update update_conv setdefault_lookup
        split: option.splits)
next
  case False
  then have "platform_step tid b d = d" by (auto simp: platform_step_def)
  with False assms show ?thesis by auto
qed

lemma inh_ok_platforms:
  assumes "inh_ok d f"
  shows "inh_ok (fold (platform_step tid) bs d) (\<lambda>k. f k \<union>
    {r. r = platform_admin \<and> k \<noteq> tid \<and> (\<exists>b\<in>set bs. rb_role b = platform_admin \<and> rb_tenant_id b = k)})"
  using assms
proof (induction bs arbitrary: d f)
  case (Cons b bs)
  have "inh_ok (fold (platform_step tid) bs (platform_step tid b d)) (\<lambda>k.
     (f k \<union> (if rb_role b = platform_admin \<and> rb_tenant_id b \<noteq> tid \<and> k = rb_tenant_id b then {platform_admin} else {})) \<union>
     {r. r = platform_admin \<and> k \<noteq> tid \<and> (\<exists>b\<in>set bs. rb_role b = platform_admin \<and> rb_tenant_id b = k)})"
    by (rule Cons.IH [OF inh_ok_platform [OF Cons.prems]])
  then show ?case
    unfolding fold_Cons comp_apply
    by (rule back_subst [where P = "inh_ok _"]) (auto simp: fun_eq_iff)
qed simp

lemma granted_roles:
  "roles_at bs tid \<union> (\<Union>k. (if P k then roles_at bs k else {}) \<union>
      {r. r = platform_admin \<and> k \<noteq> tid \<and> (\<exists>b\<in>set bs. rb_role b = platform_admin \<and> rb_tenant_id b = k)}) =
   rb_role ` {b \<in> set bs. rb_tenant_id b = tid \<or> rb_role b = platform_admin \<or> P (rb_tenant_id b)}" (is "?L = ?R")
proof (intro equalityI subsetI)
  fix r assume "r \<in> ?L"
  then show "r \<in> ?R" by (force simp: roles_at_def split: if_splits)
next
  fix r assume "r \<in> ?R"
  then obtain b where b: "b \<in> set bs" "r = rb_role b"
    "rb_tenant_id b = tid \<or> rb_role b = platform_admin \<or> P (rb_tenant_id b)" by auto
  have "r \<in> roles_at bs (rb_tenant_id b)" using b by (auto simp: roles_at_def)
  with b show "r \<in> ?L" by (cases "rb_tenant_id b = tid") auto
qed

lemma effective_roles_spec:
  assumes roles: "roles_snapshot E prin bs" and ts: "tenants_snapshot E ts"
  shows "wp (effective_roles_at E prin tid)
    (\<lambda>ea _. ea_principal ea = prin \<and> ea_tenant_id ea = tid \<and>
       ea_roles ea = rb_role ` {b \<in> set bs. grants ts tid b}) (\<lambda>_ _. False) h"
proof -
  let ?up = "tn_tenant_id ` set (ancestors_of ts tid)"
  have up: "?up = (parent_rel (tenants_by_id ts))\<^sup>+ `` {tid}" by (rule ancestors_of_set)
  let ?f = "\<lambda>A k. if k \<in> A then roles_at bs k else {}"
  have step: "wp (fold_io (inherit_step E prin) as d)
      (\<lambda>d' _. inh_ok d' (?f (A \<union> tn_tenant_id ` set as))) (\<lambda>_ _. False) h"
    if "inh_ok d (?f A)" for as d A h
    using that
  proof (induction as arbitrary: d A h)
    case Nil
    then show ?case by (simp add: wp_simps)
  next
    case (Cons a as)
    let ?k = "tn_tenant_id a"
    let ?d = "if roles_at bs ?k \<noteq> {} then AList.update ?k (roles_at bs ?k) d else d"
    have "inh_ok ?d (?f (insert ?k A))"
    proof (cases "roles_at bs ?k = {}")
      case True
      then have "?f (insert ?k A) = ?f A" by (auto simp: fun_eq_iff)
      with True Cons.prems show ?thesis by simp
    next
      case False
      have "?f (insert ?k A) = (?f A)(?k := roles_at bs ?k)" by (auto simp: fun_eq_iff)
      with False inh_ok_update [OF Cons.prems] show ?thesis by (simp only: if_True simp_thms)
    qed
    from Cons.IH [OF this] show ?case
      by (auto simp: inherit_step_def Let_def wp_simps intro!: wp_snapshot_roles [OF roles])
  qed
  have start: "inh_ok [] (?f {})" by (simp add: inh_ok_def)
  show ?thesis
    unfolding effective_roles_at_def get_ancestors_def Let_def wp_simps
    apply (rule wp_snapshot_roles [OF roles])
    apply (rule wp_snapshot_tenants [OF ts])
    apply (simp add: wp_simps)
    apply (rule wp_mono [OF step [OF start]])
     apply (rule wp_snapshot_roles [OF roles])
     apply (simp only: wp_simps Un_empty_left inh_ok_roles [OF inh_ok_platforms] granted_roles)
     apply (simp add: up grants_def)
    apply simp
    done
qed

section \<open>Every granted role was read\<close>

text \<open>Whatever the environment answers, a role in the result comes from a binding that a role
  query of this request returned, bound at the tenant, at an ancestor found in a tenant scan, or
  the platform-admin role.\<close>

definition role_read :: "env \<Rightarrow> string \<Rightarrow> event list \<Rightarrow> RoleBinding \<Rightarrow> bool" where
  "role_read E prin h b \<longleftrightarrow> (\<exists>rows i now. EvQuery ROLE_BINDING_TABLE (role_query prin) (Inr rows) \<in> set h \<and>
     i \<in> set rows \<and> decode_role_binding E now i = Inr b)"

definition tenants_read :: "env \<Rightarrow> event list \<Rightarrow> Tenant list \<Rightarrow> bool" where
  "tenants_read E h ts \<longleftrightarrow> (\<exists>rows now. EvScan TENANT_TABLE \<lparr>sc_limit = None, sc_filter = None\<rparr> (Inr rows) \<in> set h \<and>
     decode_rows (decode_tenant E now) rows = Inr ts)"

lemma wp_roles_for:
  assumes "\<And>bs h'. set h \<subseteq> set h' \<Longrightarrow> (\<forall>b\<in>set bs. role_read E prin h' b) \<Longrightarrow> Q bs h'"
  shows "wp (roles_for E prin) Q (\<lambda>_ _. True) h"
proof -
  have "Q bs (h @ [EvQuery ROLE_BINDING_TABLE (role_query prin) (Inr rows)])"
    if "decode_rows (decode_role_binding E now) rows = Inr bs" for rows now bs
  proof (intro assms ballI)
    fix b assume "b \<in> set bs"
    from decode_rows_mem [OF that this] obtain i where "i \<in> set rows" "decode_role_binding E now i = Inr b" by blast
    then show "role_read E prin (h @ [EvQuery ROLE_BINDING_TABLE (role_query prin) (Inr rows)]) b"
      unfolding role_read_def by (intro exI [of _ rows] exI [of _ i] exI [of _ now]) simp
  qed auto
  then show ?thesis
    by (auto simp: roles_for_def client_error_as_runtime_def wp_simps split: sum.split)
qed

lemma wp_list_all_tenants:
  assumes "\<And>ts h'. set h \<subseteq> set h' \<Longrightarrow> tenants_read E h' ts \<Longrightarrow> Q ts h'"
  shows "wp (list_all_tenants E) Q (\<lambda>_ _. True) h"
proof -
  have "Q ts (h @ [EvScan TENANT_TABLE \<lparr>sc_limit = None, sc_filter = None\<rparr> (Inr rows)])"
    if "decode_rows (decode_tenant E now) rows = Inr ts" for rows now ts
    using that by (intro assms) (auto simp: tenants_read_def)
  then show ?thesis
    by (auto simp: list_all_tenants_def client_error_as_runtime_def wp_simps split: sum.split)
qed

definition role_grounded :: "env \<Rightarrow> string \<Rightarrow> string \<Rightarrow> event list \<Rightarrow> Role \<Rightarrow> bool" where
  "role_grounded E prin tid h r \<longleftrightarrow> (\<exists>b ts. role_read E prin h b \<and> rb_role b = r \<and> tenants_read E h ts \<and> grants ts tid b)"

lemma role_groundedI:
  "role_read E prin h b \<Longrightarrow> rb_role b = r \<Longrightarrow> tenants_read E h ts \<Longrightarrow> grants ts tid b \<Longrightarrow> role_grounded E prin tid h r"
  by (auto simp: role_grounded_def)

lemma role_read_mono: "role_read E prin h b \<Longrightarrow> set h \<subseteq> set h' \<Longrightarrow> role_read E prin h' b"
  by (auto simp: role_read_def)

lemma tenants_read_mono: "tenants_read E h ts \<Longrightarrow> set h \<subseteq> set h' \<Longrightarrow> tenants_read E h' ts"
  by (auto simp: tenants_read_def)

lemma inh_roles_update: "inh_roles (AList.update k v d) \<subseteq> v \<union> inh_roles d"
  by (induction d) auto

lemma inh_roles_platforms:
  "inh_roles (fold (platform_step tid) bs d) \<subseteq>
     inh_roles d \<union> rb_role ` {b \<in> set bs. rb_role b = platform_admin}"
proof (induction bs arbitrary: d)
  case (Cons b bs)
  have "inh_roles (platform_step tid b d) \<subseteq> inh_roles d \<union> rb_role ` {b' \<in> {b}. rb_role b' = platform_admin}"
  proof (cases "rb_role b = platform_admin \<and> rb_tenant_id b \<noteq> tid")
    case True
    let ?d = "setdefault (rb_tenant_id b) {} d"
    have d: "inh_roles ?d \<subseteq> inh_roles d"
      using inh_roles_update [of "rb_tenant_id b" "{}" d] by (auto simp: setdefault_def split: option.split)
    obtain v where v: "map_of ?d (rb_tenant_id b) = Some v" by (simp add: setdefault_lookup)
    then have "v \<subseteq> inh_roles ?d" by (force dest: map_of_SomeD)
    have "inh_roles (platform_step tid b d) \<subseteq> insert platform_admin v \<union> inh_roles ?d"
      using v True inh_roles_update [of "rb_tenant_id b" "insert platform_admin v" ?d]
      by (simp add: platform_step_def Let_def)
    also have "\<dots> \<subseteq> inh_roles d \<union> {platform_admin}" using \<open>v \<subseteq> inh_roles ?d\<close> d by blast
    finally show ?thesis using True by auto
  qed (auto simp: platform_step_def)
  with Cons.IH [of "platform_step tid b d"] show ?case by auto
qed simp

lemma role_grounded_mono: "role_grounded E prin tid h r \<Longrightarrow> set h \<subseteq> set h' \<Longrightarrow> role_grounded E prin tid h' r"
  using role_read_mono tenants_read_mono unfolding role_grounded_def by metis

definition inherited_ok :: "env \<Rightarrow> string \<Rightarrow> string \<Rightarrow> Tenant list \<Rightarrow> (string \<times> Role set) list \<Rightarrow> event list \<Rightarrow> bool" where
  "inherited_ok E prin tid ts d h \<longleftrightarrow> tenants_read E h ts \<and> (\<forall>r\<in>inh_roles d. role_grounded E prin tid h r)"

lemma inherited_ok_mono: "inherited_ok E prin tid ts d h \<Longrightarrow> set h \<subseteq> set h' \<Longrightarrow> inherited_ok E prin tid ts d h'"
  unfolding inherited_ok_def using tenants_read_mono role_grounded_mono by blast

lemma ancestor_grounded:
  assumes "a \<in> set (ancestors_of ts tid)" "tenants_read E h ts" "\<forall>b\<in>set bs. role_read E prin h b" "r \<in> roles_at bs (tn_tenant_id a)"
  shows "role_grounded E prin tid h r"
proof -
  have "(tid, tn_tenant_id a) \<in> (parent_rel (tenants_by_id ts))\<^sup>+"
    using assms(1) ancestors_of_set [of ts tid] by auto
  moreover from assms(4) obtain b where "b \<in> set bs" "rb_role b = r" "rb_tenant_id b = tn_tenant_id a"
    by (auto simp: roles_at_def)
  ultimately show ?thesis using assms(2,3) by (auto simp: grants_def intro: role_groundedI)
qed

lemma inherit_step_grounded:
  assumes "inherited_ok E prin tid ts d h" "set h0 \<subseteq> set h" "a \<in> set (ancestors_of ts tid)"
  shows "wp (inherit_step E prin a d) (\<lambda>d' h'. inherited_ok E prin tid ts d' h' \<and> set h0 \<subseteq> set h') (\<lambda>_ _. True) h"
  unfolding inherit_step_def Let_def wp_simps
proof (rule wp_roles_for)
  fix bs h' assume h': "set h \<subseteq> set h'" "\<forall>b\<in>set bs. role_read E prin h' b"
  let ?new = "roles_at bs (tn_tenant_id a)"
  have ok: "inherited_ok E prin tid ts d h'" by (rule inherited_ok_mono [OF assms(1) h'(1)])
  then have "\<forall>r\<in>?new. role_grounded E prin tid h' r" using ancestor_grounded [OF assms(3) _ h'(2)] by (simp add: inherited_ok_def)
  moreover have "inh_roles (if ?new \<noteq> {} then AList.update (tn_tenant_id a) ?new d else d) \<subseteq> ?new \<union> inh_roles d"
    using inh_roles_update [of "tn_tenant_id a" ?new d] by simp
  moreover have "\<forall>r\<in>inh_roles d. role_grounded E prin tid h' r" using ok unfolding inherited_ok_def ..
  ultimately have "\<forall>r\<in>inh_roles (if ?new \<noteq> {} then AList.update (tn_tenant_id a) ?new d else d). role_grounded E prin tid h' r" by blast
  with ok assms(2) h'(1) show "inherited_ok E prin tid ts (if ?new \<noteq> {} then AList.update (tn_tenant_id a) ?new d else d) h' \<and> set h0 \<subseteq> set h'"
    unfolding inherited_ok_def by (meson order_trans)
qed

lemma collected_grounded:
  assumes "r \<in> roles_at bs tid \<union> inh_roles (fold (platform_step tid) bs' d)" "inherited_ok E prin tid ts d h"
    and "\<forall>b\<in>set bs. role_read E prin h b" "\<forall>b\<in>set bs'. role_read E prin h b"
  shows "role_grounded E prin tid h r"
proof -
  have "r \<in> roles_at bs tid \<union> (inh_roles d \<union> rb_role ` {b \<in> set bs'. rb_role b = platform_admin})"
    using assms(1) inh_roles_platforms [of tid bs' d] by blast
  then consider b where "b \<in> set bs" "rb_role b = r" "rb_tenant_id b = tid" | "r \<in> inh_roles d"
    | b where "b \<in> set bs'" "rb_role b = r" "r = platform_admin"
    unfolding roles_at_def by blast
  then show ?thesis using assms(2-4) by cases (auto simp: inherited_ok_def grants_def intro: role_groundedI)
qed

lemma effective_roles_grounded:
  "wp (effective_roles_at E prin tid) (\<lambda>ea h'. \<forall>r\<in>ea_roles ea. role_grounded E prin tid h' r) (\<lambda>_ _. True) h"
  unfolding effective_roles_at_def get_ancestors_def Let_def wp_simps
proof (rule wp_roles_for, rule wp_list_all_tenants)
  fix bs1 h1 ts h2
  assume h1: "\<forall>b\<in>set bs1. role_read E prin h1 b" and h2: "set h1 \<subseteq> set h2" "tenants_read E h2 ts"
  let ?answer = "\<lambda>d bs. \<lparr>ea_principal = prin, ea_tenant_id = tid, ea_roles = roles_at bs1 tid \<union> inh_roles (fold (platform_step tid) bs d),
       ea_inherited_from = fold (platform_step tid) bs d\<rparr>"
  have "inherited_ok E prin tid ts [] h2" using h2(2) by (simp add: inherited_ok_def)
  then have "wp (fold_io (inherit_step E prin) (ancestors_of ts tid) [])
      (\<lambda>d h'. inherited_ok E prin tid ts d h' \<and> set h2 \<subseteq> set h') (\<lambda>_ _. True) h2"
    by (intro wp_fold_io) (auto intro: inherit_step_grounded)
  then show "wp (fold_io (inherit_step E prin) (ancestors_of ts tid) []) (\<lambda>d. wp (roles_for E prin)
      (\<lambda>bs h. \<forall>r\<in>ea_roles (?answer d bs). role_grounded E prin tid h r) (\<lambda>_ _. True)) (\<lambda>_ _. True) h2"
  proof (rule wp_mono)
    fix d h3 assume h3: "inherited_ok E prin tid ts d h3 \<and> set h2 \<subseteq> set h3"
    show "wp (roles_for E prin) (\<lambda>bs h. \<forall>r\<in>ea_roles (?answer d bs). role_grounded E prin tid h r) (\<lambda>_ _. True) h3"
    proof (rule wp_roles_for)
      fix bs3 h4 assume h4: "set h3 \<subseteq> set h4" "\<forall>b\<in>set bs3. role_read E prin h4 b"
      have "set h1 \<subseteq> set h4" using h2(1) h3 h4(1) by (meson order_trans)
      then have "\<forall>b\<in>set bs1. role_read E prin h4 b" using h1 role_read_mono by blast
      then show "\<forall>r\<in>ea_roles (?answer d bs3). role_grounded E prin tid h4 r"
        unfolding EffectiveAuthz.select_convs using collected_grounded h3 inherited_ok_mono [OF _ h4(1)] h4(2) by blast
    qed
  qed auto
qed

section \<open>Group sync writes one binding per tenant\<close>

text \<open>The trace of a sync is the writes of the bindings it returns.\<close>

definition role_put :: "env \<Rightarrow> RoleBinding \<Rightarrow> event" where
  "role_put E b = EvPut ROLE_BINDING_TABLE \<lparr>it_key = [rb_principal b, rb_tenant_id b],
     it_attrs = [], it_payload = PText (JObj (dump_role_binding E b))\<rparr> (Inr ())"

lemma sync_fold_run:
  assumes "fold_io (sync_step E user dflt rm tm gb) gs w h = (Inr ws, h')"
  shows "\<exists>new. ws = w @ new \<and> h' = h @ map (role_put E) new \<and>
    (\<forall>b\<in>set new. rb_principal b = tu_principal user \<and> rb_granted_by b = gb \<and>
       (\<exists>g\<in>set gs. group_role rm g = Some (rb_role b) \<and>
         env_pyd_str E (group_tenant tm (tu_tenant_id user) dflt g) = Some (rb_tenant_id b)))"
  using assms
proof (induction gs arbitrary: w h)
  case (Cons g gs)
  then obtain w1 h1 where 1: "sync_step E user dflt rm tm gb g w h = (Inr w1, h1)"
    and 2: "fold_io (sync_step E user dflt rm tm gb) gs w1 h1 = (Inr ws, h')"
    by (auto simp: run_ok)
  from Cons.IH [OF 2] obtain new where new: "ws = w1 @ new" "h' = h1 @ map (role_put E) new"
    "\<forall>b\<in>set new. rb_principal b = tu_principal user \<and> rb_granted_by b = gb \<and>
       (\<exists>g\<in>set gs. group_role rm g = Some (rb_role b) \<and>
         env_pyd_str E (group_tenant tm (tu_tenant_id user) dflt g) = Some (rb_tenant_id b))" by blast
  have "w1 = w \<and> h1 = h \<or> (\<exists>b. w1 = w @ [b] \<and> h1 = h @ [role_put E b] \<and>
      rb_principal b = tu_principal user \<and> rb_granted_by b = gb \<and> group_role rm g = Some (rb_role b) \<and>
      env_pyd_str E (group_tenant tm (tu_tenant_id user) dflt g) = Some (rb_tenant_id b))"
    using 1 by (auto simp: sync_step_def put_role_def role_put_def run_ok Let_def
        split: option.splits if_splits)
  then show ?case
  proof (elim disjE exE conjE)
    fix b assume b: "w1 = w @ [b]" "h1 = h @ [role_put E b]"
      "rb_principal b = tu_principal user" "rb_granted_by b = gb" "group_role rm g = Some (rb_role b)"
      "env_pyd_str E (group_tenant tm (tu_tenant_id user) dflt g) = Some (rb_tenant_id b)"
    show ?thesis by (rule exI [of _ "b # new"]) (use b new in auto)
  qed (use new in auto)
qed simp

lemma sync_groups_run:
  assumes "sync_groups_to_roles E user dflt grm tm gb h = (Inr ws, h')"
  shows "h' = h @ map (role_put E) ws \<and> (\<forall>b\<in>set ws. rb_principal b = tu_principal user \<and> rb_granted_by b = gb)"
  using assms sync_fold_run [of E user dflt _ tm gb _ "[]" h ws h']
  by (fastforce simp: sync_groups_to_roles_def Let_def run_ok)

lemma role_puts_view:
  "table_view c0 (map (role_put E) ws) ROLE_BINDING_TABLE [p, tid] =
     (case rev (filter (\<lambda>b. rb_principal b = p \<and> rb_tenant_id b = tid) ws) of
        [] \<Rightarrow> c0 ROLE_BINDING_TABLE [p, tid]
      | b # _ \<Rightarrow> Some \<lparr>it_key = [p, tid], it_attrs = [], it_payload = PText (JObj (dump_role_binding E b))\<rparr>)"
  by (induction ws rule: rev_induct) (auto simp: role_put_def)

end
