(* ===== verification/Policy.thy ===== *)
theory Policy
  imports Authz
begin

text \<open>
  Model of \<open>libs/common/sovereign/policy.py\<close>: the input document and the OPA client. The client
  fails closed: it only answers allow when OPA answered 200 with a true \<open>allow\<close>.
\<close>

section \<open>The input document\<close>

definition opt_doc :: "string \<Rightarrow> json option \<Rightarrow> dict" where
  "opt_doc k v = (case v of None \<Rightarrow> [] | Some j \<Rightarrow> [(k, j)])"

definition build_policy_input :: "string \<Rightarrow> string \<Rightarrow> string \<Rightarrow> string \<Rightarrow> dict \<Rightarrow> dict option \<Rightarrow>
    json list option \<Rightarrow> dict option \<Rightarrow> json list option \<Rightarrow> dict" where
  "build_policy_input actor tenant_id service_type plan_id parameters ctxt services plans regions =
     [(''actor'', JStr actor), (''tenant_id'', JStr tenant_id), (''service_type'', JStr service_type),
      (''plan_id'', JStr plan_id), (''parameters'', JObj parameters),
      (''context'', JObj (case ctxt of Some d \<Rightarrow> d | None \<Rightarrow> []))] @
     opt_doc ''approved_services'' (map_option JList services) @
     opt_doc ''approved_plans'' (map_option JObj plans) @
     opt_doc ''approved_regions'' (map_option JList regions)"

section \<open>The client\<close>

record PolicyClient =
  pc_base_url :: string
  pc_decision_path :: string
  pc_fail_closed :: bool

definition new_policy_client :: "settings \<Rightarrow> string option \<Rightarrow> string option \<Rightarrow> bool \<Rightarrow> PolicyClient" where
  "new_policy_client s base_url path fail_closed =
     \<lparr>pc_base_url = rstrip_if (\<lambda>c. c = CHR ''/'') (str_or base_url (cfg_opa_url s)),
      pc_decision_path = lstrip_if (\<lambda>c. c = CHR ''/'') (str_or path (cfg_opa_decision_path s)),
      pc_fail_closed = fail_closed\<rparr>"

definition unavailable :: "PolicyClient \<Rightarrow> string \<Rightarrow> PolicyDecision" where
  "unavailable pc detail = (if \<not> pc_fail_closed pc
     then \<lparr>pd_allow = True, pd_reason = ''policy bypass: '' @ detail, pd_obligations = [],
           pd_denies = [], pd_matched_layers = []\<rparr>
     else \<lparr>pd_allow = False, pd_reason = ''policy engine unavailable: '' @ detail, pd_obligations = [],
           pd_denies = [''policy engine unavailable: '' @ detail], pd_matched_layers = [''transport'']\<rparr>)"

text \<open>\<open>list(v)\<close>\<close>

definition py_list :: "json \<Rightarrow> exn + json list" where
  "py_list v = (case v of JList xs \<Rightarrow> Inr xs | JStr s \<Rightarrow> Inr (map (\<lambda>c. JStr [c]) s)
     | JObj d \<Rightarrow> Inr (map (JStr \<circ> fst) d) | _ \<Rightarrow> Inl (TypeError ''object is not iterable''))"

text \<open>\<open>"; ".join(xs)\<close>: every item must be a string.\<close>

definition py_join :: "string \<Rightarrow> json list \<Rightarrow> exn + string" where
  "py_join sep xs = (if list_all (\<lambda>x. case x of JStr _ \<Rightarrow> True | _ \<Rightarrow> False) xs
     then Inr (join sep (map (\<lambda>x. case x of JStr s \<Rightarrow> s | _ \<Rightarrow> []) xs))
     else Inl (TypeError ''sequence item: expected str instance''))"

definition policy_decision_of :: "env \<Rightarrow> json \<Rightarrow> exn + PolicyDecision" where
  "policy_decision_of E result = (case result of
     JObj d \<Rightarrow>
       (case (py_list (jget_or d ''denies'' (JList [])), py_list (jget_or d ''matched_layers'' (JList [])),
              py_list (jget_or d ''obligations'' (JList []))) of
          (Inl x, _, _) \<Rightarrow> Inl x | (_, Inl x, _) \<Rightarrow> Inl x | (_, _, Inl x) \<Rightarrow> Inl x
        | (Inr denies, Inr layers, Inr obligations) \<Rightarrow>
            (case (if denies \<noteq> [] then py_join ''; '' denies else Inr []) of
               Inl x \<Rightarrow> Inl x
             | Inr reason \<Rightarrow> validated ''PolicyDecision'' (do {
                 ds \<leftarrow> those (map (env_pyd_str E) denies);
                 ls \<leftarrow> those (map (env_pyd_str E) layers);
                 os \<leftarrow> those (map (env_pyd_str E) obligations);
                 Some \<lparr>pd_allow = jtruthy (jget_or d ''allow'' (JBool False)), pd_reason = reason,
                   pd_obligations = os, pd_denies = ds, pd_matched_layers = ls\<rparr> })))
   | _ \<Rightarrow> Inl (AttributeError ''get''))"

definition opa_request :: "PolicyClient \<Rightarrow> dict \<Rightarrow> http_request" where
  "opa_request pc inp = \<lparr>rq_method = ''POST'', rq_url = pc_base_url pc @ ''/'' @ pc_decision_path pc,
     rq_headers = [], rq_body = JObj [(''input'', JObj inp)]\<rparr>"

definition undefined_decision :: PolicyDecision where
  "undefined_decision = \<lparr>pd_allow = False, pd_reason = ''policy decision undefined'', pd_obligations = [],
     pd_denies = [''policy decision undefined (check sovereign.decision)''], pd_matched_layers = []\<rparr>"

definition policy_of_response :: "env \<Rightarrow> PolicyClient \<Rightarrow> http_response \<Rightarrow> exn + PolicyDecision" where
  "policy_of_response E pc rs =
     (if rs_status rs \<noteq> 200 then Inr (unavailable pc (''OPA returned '' @ str_of_int (rs_status rs)))
      else (case rs_json rs of
         None \<Rightarrow> Inr (unavailable pc (''malformed response: '' @ env_str_exn E (ValueError (rs_text rs))))
       | Some (JObj body) \<Rightarrow>
           (if jget body ''result'' = JNull then Inr undefined_decision
            else policy_decision_of E (jget body ''result''))
       | Some _ \<Rightarrow> Inr (unavailable pc (''malformed response: '' @ env_str_exn E (AttributeError ''get'')))))"

definition policy_evaluate :: "env \<Rightarrow> PolicyClient \<Rightarrow> dict \<Rightarrow> PolicyDecision prog" where
  "policy_evaluate E pc inp = bind_io
     (catch_io (bind_io (http_io E (opa_request pc inp)) (\<lambda>rs. ret (Inr rs)))
        (\<lambda>x. if is_HTTPError x then ret (Inl (unavailable pc (''transport error: '' @ env_str_exn E x)))
             else throw x))
     (\<lambda>r. case r of Inl d \<Rightarrow> ret d | Inr rs \<Rightarrow> lift_res (policy_of_response E pc rs))"

text \<open>\<open>policy_request_from_input\<close>: action and resource of the logged request.\<close>

record PolicyRequest =
  pq_tenant_id :: string
  pq_actor :: string
  pq_action :: string
  pq_resource :: string
  pq_attributes :: dict

definition policy_request_from_input :: "env \<Rightarrow> dict \<Rightarrow> PolicyRequest option" where
  "policy_request_from_input E inp = do {
     tid \<leftarrow> env_pyd_str E (jget_or inp ''tenant_id'' (JStr []));
     actor \<leftarrow> env_pyd_str E (jget_or inp ''actor'' (JStr []));
     res \<leftarrow> env_pyd_str E (jget_or inp ''service_type'' (JStr []));
     Some \<lparr>pq_tenant_id = tid, pq_actor = actor, pq_action = ''provision'', pq_resource = res,
       pq_attributes = inp\<rparr> }"

section \<open>Fail closed\<close>

text \<open>OPA answered the request: status 200 and a body whose result has a true \<open>allow\<close>.\<close>

definition opa_allows :: "http_response \<Rightarrow> bool" where
  "opa_allows rs \<longleftrightarrow> rs_status rs = 200 \<and> (\<exists>body d. rs_json rs = Some (JObj body) \<and>
     jget body ''result'' = JObj d \<and> jtruthy (jget_or d ''allow'' (JBool False)))"

definition opa_allow_event :: "PolicyClient \<Rightarrow> dict \<Rightarrow> event \<Rightarrow> bool" where
  "opa_allow_event pc inp e \<longleftrightarrow> (\<exists>rs. e = EvHttp (opa_request pc inp) (Inr rs) \<and> opa_allows rs)"

lemma policy_decision_of_allow:
  "policy_decision_of E result = Inr d \<Longrightarrow> pd_allow d \<Longrightarrow>
     \<exists>o'. result = JObj o' \<and> jtruthy (jget_or o' ''allow'' (JBool False))"
  by (auto simp: policy_decision_of_def validated_def split: json.splits sum.splits option.splits
      Option.bind_splits)

lemma policy_of_response_allow:
  assumes "policy_of_response E pc rs = Inr d" "pd_allow d" "pc_fail_closed pc"
  shows "opa_allows rs"
  using assms policy_decision_of_allow
  by (fastforce simp: policy_of_response_def opa_allows_def unavailable_def undefined_decision_def
      split: if_splits option.splits json.splits)

lemma policy_evaluate_run:
  "wp (policy_evaluate E pc inp)
     (\<lambda>d h'. \<exists>r. h' = h @ [EvHttp (opa_request pc inp) r] \<and>
        (case r of Inl m \<Rightarrow> d = unavailable pc (''transport error: '' @ env_str_exn E (HTTPError m))
         | Inr rs \<Rightarrow> policy_of_response E pc rs = Inr d))
     (\<lambda>x h'. \<exists>rs. h' = h @ [EvHttp (opa_request pc inp) (Inr rs)] \<and> policy_of_response E pc rs = Inl x) h"
  by (auto simp: policy_evaluate_def wp_simps split: sum.split)

lemma policy_fails_closed:
  assumes "pc_fail_closed pc" "policy_evaluate E pc inp h = (Inr d, h')" "pd_allow d"
  shows "\<exists>e. h' = h @ [e] \<and> opa_allow_event pc inp e"
proof -
  have closed: "\<not> pd_allow (unavailable pc m)" for m using assms(1) by (simp add: unavailable_def)
  from wp_run [OF policy_evaluate_run assms(2)] obtain r where
    r: "h' = h @ [EvHttp (opa_request pc inp) r]"
    "case r of Inl m \<Rightarrow> d = unavailable pc (''transport error: '' @ env_str_exn E (HTTPError m))
       | Inr rs \<Rightarrow> policy_of_response E pc rs = Inr d" by blast
  show ?thesis
  proof (cases r)
    case (Inl m)
    with r(2) closed assms(3) show ?thesis by (simp del: append_Cons)
  next
    case (Inr rs)
    with r policy_of_response_allow [OF _ assms(3,1)] show ?thesis by (auto simp: opa_allow_event_def)
  qed
qed

lemma emits_policy_evaluate [emits_rules]:
  "(\<And>r. P (EvHttp (opa_request pc inp) r)) \<Longrightarrow> emits P (policy_evaluate E pc inp)"
  unfolding policy_evaluate_def by (intro emits_rules) auto

end
