(* ===== verification/Mtls.thy ===== *)
theory Mtls
  imports Prelude
begin

text \<open>
  Model of \<open>libs/common/sovereign/mtls.py\<close>: the identity of the peer certificate in the
  \<open>X-Forwarded-Client-Cert\<close> header. Splitting is lossless and respects quotes, unquoting inverts
  Envoy's quoting, and the text of a quoted field can never become the identity.
\<close>

section \<open>Definitions\<close>

abbreviation "DQ \<equiv> CHR 0x22"
abbreviation "BS \<equiv> CHR 0x5C"

definition XFCC_HEADER :: string where
  "XFCC_HEADER = ''X-Forwarded-Client-Cert''"

fun split_loop :: "char \<Rightarrow> bool \<Rightarrow> bool \<Rightarrow> string \<Rightarrow> string list \<Rightarrow> string \<Rightarrow> string list" where
  "split_loop sep in_quotes escaped current parts [] = parts @ [current]"
| "split_loop sep in_quotes escaped current parts (ch # rest) =
     (if escaped then split_loop sep in_quotes False (current @ [ch]) parts rest
      else if ch = BS then split_loop sep in_quotes True (current @ [ch]) parts rest
      else if ch = DQ then split_loop sep (\<not> in_quotes) False (current @ [ch]) parts rest
      else if ch = sep \<and> \<not> in_quotes then split_loop sep in_quotes False [] (parts @ [current]) rest
      else split_loop sep in_quotes False (current @ [ch]) parts rest)"

definition split_unquoted :: "string \<Rightarrow> char \<Rightarrow> string list" where
  "split_unquoted v sep = split_loop sep False False [] [] v"

fun unescape :: "bool \<Rightarrow> string \<Rightarrow> string" where
  "unescape escaped [] = []"
| "unescape escaped (ch # rest) =
     (if escaped then ch # unescape False rest
      else if ch = BS then unescape True rest
      else ch # unescape False rest)"

definition unquote :: "string \<Rightarrow> string" where
  "unquote v = (let v = strip v in
     if 2 \<le> length v \<and> hd v = DQ \<and> last v = DQ then unescape False (butlast (tl v)) else v)"

fun first_uri :: "string list \<Rightarrow> string option" where
  "first_uri [] = None"
| "first_uri (pair # pairs) = (case partition_at (CHR ''='') pair of (key, sep, val) \<Rightarrow>
     if \<not> sep then first_uri pairs
     else if upper (strip key) = ''URI''
       then (let identity = unquote val in if identity = [] then None else Some identity)
     else first_uri pairs)"

definition parse_xfcc_identity :: "string option \<Rightarrow> string option" where
  "parse_xfcc_identity raw = (case raw of None \<Rightarrow> None
     | Some r \<Rightarrow> if r = [] \<or> strip r = [] then None
         else first_uri (split_unquoted (hd (split_unquoted r (CHR '',''))) (CHR '';'')))"

section \<open>Splitting\<close>

lemma split_loop_nonempty: "split_loop sep q e cur parts v \<noteq> []"
  by (induction sep q e cur parts v rule: split_loop.induct) auto

lemma split_loop_parts: "split_loop sep q e cur (ps @ parts) v = ps @ split_loop sep q e cur parts v"
  by (induction sep q e cur parts v rule: split_loop.induct) auto

lemma join_snoc: "ws \<noteq> [] \<Longrightarrow> join sep (ws @ [w]) = join sep ws @ sep @ w"
  by (induction sep ws rule: join.induct) auto

lemma join_split_loop:
  "join [sep] (split_loop sep q e cur parts v) = join [sep] (parts @ [cur]) @ v"
proof (induction sep q e cur parts v rule: split_loop.induct)
  case (2 sep in_quotes escaped current parts ch rest)
  have append: "join [sep] (parts @ [current @ [ch]]) = join [sep] (parts @ [current]) @ [ch]"
    by (cases "parts = []") (auto simp: join_snoc)
  have "join [sep] ((parts @ [current]) @ [[]]) = join [sep] (parts @ [current]) @ [sep]"
    by (subst join_snoc) auto
  with 2 append show ?case by auto
qed auto

lemma split_unquoted_join: "join [sep] (split_unquoted v sep) = v"
  by (simp add: split_unquoted_def join_split_loop)

text \<open>Text without separator, quote or backslash is taken as it is.\<close>

lemma split_loop_plain:
  assumes "set s \<inter> {sep, DQ, BS} = {}"
  shows "split_loop sep False False cur parts (s @ rest) = split_loop sep False False (cur @ s) parts rest"
  using assms by (induction s arbitrary: cur) auto

section \<open>Quoted values\<close>

text \<open>Envoy's quoting of a value.\<close>

fun escape_quoted :: "string \<Rightarrow> string" where
  "escape_quoted [] = []"
| "escape_quoted (c # cs) = (if c = DQ \<or> c = BS then BS # c # escape_quoted cs else c # escape_quoted cs)"

definition quote :: "string \<Rightarrow> string" where
  "quote s = DQ # escape_quoted s @ [DQ]"

lemma split_loop_escaped:
  "split_loop sep True False cur parts (escape_quoted s @ rest) =
     split_loop sep True False (cur @ escape_quoted s) parts rest"
  by (induction s arbitrary: cur) auto

lemma split_loop_quote:
  assumes "sep \<noteq> DQ" "sep \<noteq> BS"
  shows "split_loop sep False False cur parts (quote s @ rest) =
    split_loop sep False False (cur @ quote s) parts rest"
  using split_loop_escaped [of sep "cur @ [DQ]" parts s "DQ # rest"] assms by (simp add: quote_def)

lemma unescape_escape: "unescape False (escape_quoted s) = s"
  by (induction s) auto

lemma strip_quoted: "\<not> is_space (hd s) \<Longrightarrow> \<not> is_space (last s) \<Longrightarrow> s \<noteq> [] \<Longrightarrow> strip s = s"
proof -
  assume a: "\<not> is_space (hd s)" "\<not> is_space (last s)" "s \<noteq> []"
  have keep: "dropWhile is_space t = t" if "t \<noteq> []" "\<not> is_space (hd t)" for t
    using that by (cases t) auto
  show ?thesis using keep [of s] keep [of "rev s"] a by (simp add: strip_def rstrip_if_def lstrip_if_def hd_rev)
qed

lemma unquote_quote: "unquote (quote s) = s"
proof -
  have "\<not> is_space DQ" by (simp add: is_space_def)
  then have "strip (quote s) = quote s" by (intro strip_quoted) (simp_all add: quote_def)
  then show ?thesis by (simp add: unquote_def quote_def unescape_escape)
qed

section \<open>The identity comes from the URI field of the leaf\<close>

lemma partition_at_plain: "sep \<notin> set k \<Longrightarrow> partition_at sep (k @ sep # v) = (k, True, v)"
  by (induction k) auto

definition plain_value :: "string \<Rightarrow> bool" where
  "plain_value s \<longleftrightarrow> set s \<inter> {CHR '','', CHR '';'', DQ, BS} = {}"

lemma parse_xfcc_leaf:
  assumes id: "plain_value i" "i \<noteq> []" "\<not> is_space (hd i)" "\<not> is_space (last i)" and bv: "plain_value b"
  shows "parse_xfcc_identity (Some (''By='' @ b @ '';Subject='' @ quote subj @ '';URI='' @ i @ '','' @ rest)) = Some i"
proof -
  let ?leaf = "''By='' @ b @ '';Subject='' @ quote subj @ '';URI='' @ i"
  have plain: "set s \<inter> {CHR '','', DQ, BS} = {}" "set s \<inter> {CHR '';'', DQ, BS} = {}" if "plain_value s" for s
    using that by (auto simp: plain_value_def)
  have "split_unquoted (?leaf @ '','' @ rest) (CHR '','') =
      split_loop (CHR '','') False False ?leaf [] ('','' @ rest)"
    unfolding split_unquoted_def append_assoc using plain(1) [OF bv] plain(1) [OF id(1)]
    by (subst split_loop_plain [where s = "''By=''"] split_loop_plain [where s = b]
        split_loop_plain [where s = "'';Subject=''"] split_loop_quote
        split_loop_plain [where s = "'';URI=''"] split_loop_plain [where s = i]; simp)+
  also have "\<dots> = ?leaf # split_loop (CHR '','') False False [] [] rest"
    using split_loop_parts [of "CHR '',''" False False "[]" "[?leaf]" "[]" rest] by simp
  finally have hd: "hd (split_unquoted (?leaf @ '','' @ rest) (CHR '','')) = ?leaf" by simp
  have "split_unquoted ?leaf (CHR '';'') = [''By='' @ b, ''Subject='' @ quote subj, ''URI='' @ i]"
    unfolding split_unquoted_def using plain(2) [OF bv] plain(2) [OF id(1)] split_loop_plain [of i "CHR '';''" _ _ "[]"]
    by (simp add: split_loop_plain split_loop_quote)
  moreover have "unquote i = i"
  proof -
    have "hd i \<noteq> DQ" using id(1,2) by (cases i) (auto simp: plain_value_def)
    then show ?thesis using id by (simp add: unquote_def strip_quoted)
  qed
  ultimately have "first_uri (split_unquoted ?leaf (CHR '';'')) = Some i"
    using id(2) by (simp add: upper_def upper_char_def strip_def rstrip_if_def lstrip_if_def is_space_def)
  moreover have "strip (?leaf @ '','' @ rest) \<noteq> []"
    by (simp add: strip_def lstrip_if_def rstrip_if_def is_space_def dropWhile_eq_Nil_conv)
  ultimately show ?thesis using hd by (simp add: parse_xfcc_identity_def)
qed

end
