(* ===== verification/Security.thy ===== *)
theory Security
  imports Policy Mtls
begin

text \<open>
  Models of \<open>libs/common/sovereign/tracing.py\<close> (the W3C trace header), \<open>security.py\<close> (the
  service-to-service credentials, outbound \<open>service_auth_headers\<close> and inbound \<open>require_bearer\<close>) and
  \<open>apiversion.py\<close> (version negotiation). Each authentication posture is shown to accept only its own
  credential, and the outbound headers to be accepted by the inbound check.
\<close>

section \<open>Trace context\<close>

definition is_hex :: "char \<Rightarrow> bool" where
  "is_hex c \<longleftrightarrow> is_digit c \<or> (97 \<le> (of_char c :: nat) \<and> (of_char c :: nat) \<le> 102)"

definition hex_field :: "nat \<Rightarrow> string \<Rightarrow> bool" where
  "hex_field n s \<longleftrightarrow> length s = n \<and> list_all is_hex s"

definition parse_traceparent :: "string option \<Rightarrow> (string \<times> string) option" where
  "parse_traceparent header = (case header of None \<Rightarrow> None
     | Some s \<Rightarrow> if s = [] then None else (case split_on (CHR ''-'') (strip s) of
         [v, trace, spn, flags] \<Rightarrow>
           if v = ''00'' \<and> hex_field 32 trace \<and> hex_field 16 spn \<and> hex_field 2 flags \<and>
              trace \<noteq> replicate 32 (CHR ''0'') \<and> spn \<noteq> replicate 16 (CHR ''0'')
           then Some (trace, spn) else None
       | _ \<Rightarrow> None))"

definition format_traceparent :: "string \<Rightarrow> string \<Rightarrow> bool \<Rightarrow> string" where
  "format_traceparent trace spn sampled =
     ''00-'' @ trace @ ''-'' @ spn @ ''-'' @ (if sampled then ''01'' else ''00'')"

definition current_or_new_trace_id :: "env \<Rightarrow> string prog" where
  "current_or_new_trace_id E = (if truthy (env_trace_id E) then ret (the (env_trace_id E))
     else token_hex_io E 16)"

definition outbound_trace_headers :: "env \<Rightarrow> (string \<times> string) list prog" where
  "outbound_trace_headers E = bind_io (current_or_new_trace_id E) (\<lambda>trace.
     bind_io (token_hex_io E 8) (\<lambda>spn. ret [(''traceparent'', format_traceparent trace spn True)]))"

definition subprocess_trace_env :: "env \<Rightarrow> (string \<times> string) list prog" where
  "subprocess_trace_env E = bind_io (current_or_new_trace_id E) (\<lambda>trace.
     bind_io (token_hex_io E 8) (\<lambda>spn. ret [(''TRACEPARENT'', format_traceparent trace spn True)]))"

section \<open>Workload identities\<close>

definition allowed_identities :: "string \<Rightarrow> string list" where
  "allowed_identities raw = filter (\<lambda>s. s \<noteq> []) (map strip (split_on (CHR '','') raw))"

definition workload_identity_allowed :: "string \<Rightarrow> string list \<Rightarrow> bool" where
  "workload_identity_allowed i allowed \<longleftrightarrow> ''*'' \<in> set allowed \<or> i \<in> set allowed"

definition WORKLOAD_IDENTITY_HEADER :: string where
  "WORKLOAD_IDENTITY_HEADER = ''X-Sovereign-Workload-Identity''"

definition service_auth_headers :: "env \<Rightarrow> (string \<times> string) list prog" where
  "service_auth_headers E = (let s = cfg E;
       hs = (if cfg_workload_identity_enabled s
             then [(WORKLOAD_IDENTITY_HEADER, asserted_workload_identity s)] else []) @
            (if cfg_shared_bearer_auth_enabled s
             then [(''Authorization'', ''Bearer '' @ cfg_dev_bearer_token s)] else [])
     in bind_io (outbound_trace_headers E) (\<lambda>th. ret (merge_dict hs th)))"

text \<open>\<open>secrets.compare_digest\<close> on strings: only ASCII is allowed.\<close>

definition compare_digest :: "string \<Rightarrow> string \<Rightarrow> exn + bool" where
  "compare_digest a b = (if list_all (\<lambda>c. (of_char c :: nat) < 128) (a @ b) then Inr (a = b)
     else Inl (TypeError ''comparing strings with non-ASCII characters is not supported''))"

definition not_allowed :: exn where
  "not_allowed = HTTPException 403 (JStr ''workload identity is not allowed'')"

definition oidc_subject :: "env \<Rightarrow> string \<Rightarrow> string prog" where
  "oidc_subject E authorization = bind_io
     (catch_io (oidc_verify_io E (cfg_oidc_issuer_url (cfg E)) (cfg_oidc_audience (cfg E))
        (strip (removeprefix authorization ''Bearer '')))
        (\<lambda>_. throw (HTTPException 401 (JStr ''invalid or expired token''))))
     (\<lambda>claims. if \<not> jtruthy (jget claims ''sub'')
        then throw (HTTPException 401 (JStr (''token missing '' @ py_repr ''sub'' @ '' claim'')))
        else ret (py_str E (jget claims ''sub'')))"

definition is_bearer :: "string option \<Rightarrow> bool" where
  "is_bearer authorization \<longleftrightarrow> (case authorization of None \<Rightarrow> False | Some a \<Rightarrow> startswith a ''Bearer '')"

definition shared_bearer :: "env \<Rightarrow> string option \<Rightarrow> string prog" where
  "shared_bearer E authorization =
     (if \<not> cfg_shared_bearer_auth_enabled (cfg E) then throw (HTTPException 503
        (JStr ''shared bearer auth is disabled; configure workload identity''))
      else if \<not> is_bearer authorization then throw (HTTPException 401 (JStr ''missing bearer token''))
      else bind_io (lift_res (compare_digest (strip (removeprefix (the authorization) ''Bearer ''))
             (cfg_dev_bearer_token (cfg E)))) (\<lambda>ok.
        if \<not> ok then throw (HTTPException 403 (JStr ''invalid token'')) else ret ''shared-bearer''))"

definition require_bearer :: "env \<Rightarrow> string option \<Rightarrow> string option \<Rightarrow> string option \<Rightarrow> string option \<Rightarrow> string prog" where
  "require_bearer E authorization workload_identity spiffe_id xfcc = (let s = cfg E;
       allowed = allowed_identities (cfg_allowed_workload_identities s);
       asserted = or_str workload_identity spiffe_id in
     if cfg_mtls_required s then
       (case parse_xfcc_identity xfcc of
          None \<Rightarrow> throw (HTTPException 401 (JStr ''mTLS client certificate required''))
        | Some i \<Rightarrow> if workload_identity_allowed i allowed then ret i else throw not_allowed)
     else if cfg_workload_identity_enabled s \<and> truthy asserted then
       (if workload_identity_allowed (the asserted) allowed then ret (the asserted) else throw not_allowed)
     else if (cfg_require_oidc s \<or> cfg_oidc_issuer_url s \<noteq> []) \<and> is_bearer authorization then
       oidc_subject E (the authorization)
     else if cfg_require_oidc s then throw (HTTPException 401 (JStr ''OIDC bearer token required''))
     else shared_bearer E authorization)"

section \<open>API versions\<close>

record ApiVersion =
  av_name :: string
  av_deprecated :: bool
  av_sunset :: "string option"

definition CURRENT_API_VERSION :: string where
  "CURRENT_API_VERSION = ''2026-06-01''"

definition SUPPORTED_API_VERSIONS :: "(string \<times> ApiVersion) list" where
  "SUPPORTED_API_VERSIONS =
    [(''2026-06-01'', \<lparr>av_name = ''2026-06-01'', av_deprecated = False, av_sunset = None\<rparr>),
     (''2026-01-01'', \<lparr>av_name = ''2026-01-01'', av_deprecated = True, av_sunset = Some ''2026-12-31''\<rparr>)]"

text \<open>\<open>Inl\<close>: \<open>UnsupportedApiVersionError\<close>.\<close>

definition resolve_api_version :: "string option \<Rightarrow> string + ApiVersion" where
  "resolve_api_version requested =
     (if \<not> truthy requested then Inr (the (map_of SUPPORTED_API_VERSIONS CURRENT_API_VERSION))
      else (case map_of SUPPORTED_API_VERSIONS (strip (the requested)) of
         None \<Rightarrow> Inl (strip (the requested)) | Some v \<Rightarrow> Inr v))"

definition API_VERSION_HEADER :: string where
  "API_VERSION_HEADER = ''X-Sovereign-API-Version''"

definition version_headers :: "ApiVersion \<Rightarrow> (string \<times> string) list" where
  "version_headers v = [(API_VERSION_HEADER, av_name v)] @
     (if av_deprecated v then (''Deprecation'', ''true'') #
        (case av_sunset v of Some d \<Rightarrow> if d \<noteq> [] then [(''Sunset'', d)] else [] | None \<Rightarrow> []) else [])"

text \<open>The middleware: a 400 without calling the route, or the route's response with the headers
  added. A response is its status, headers and body.\<close>

definition api_version_dispatch :: "string option \<Rightarrow>
    (unit \<Rightarrow> int \<times> (string \<times> string) list \<times> string) \<Rightarrow> int \<times> (string \<times> string) list \<times> string" where
  "api_version_dispatch requested call_next = (case resolve_api_version requested of
     Inl req \<Rightarrow> (400, [(''content-type'', ''application/problem+json'')],
       ''{'' @ [DQ] @ ''title'' @ [DQ] @ '':'' @ [DQ] @ ''unsupported API version'' @ [DQ] @ '','' @
       [DQ] @ ''status'' @ [DQ] @ '':400,'' @ [DQ] @ ''detail'' @ [DQ] @ '':'' @ [DQ] @ req @
       '' is not supported; supported: '' @ join '', '' (sort (map fst SUPPORTED_API_VERSIONS)) @ [DQ] @ ''}'')
   | Inr v \<Rightarrow> (case call_next () of (st, hs, body) \<Rightarrow> (st, merge_dict hs (version_headers v), body)))"

section \<open>Properties\<close>

lemma require_bearer_mtls:
  assumes "cfg_mtls_required (cfg E)"
  shows "require_bearer E auth wid spiffe xfcc = (case parse_xfcc_identity xfcc of
      None \<Rightarrow> throw (HTTPException 401 (JStr ''mTLS client certificate required''))
    | Some i \<Rightarrow> if workload_identity_allowed i (allowed_identities (cfg_allowed_workload_identities (cfg E)))
        then ret i else throw not_allowed)"
  using assms by (simp add: require_bearer_def Let_def)

lemma emits_security [emits_rules]:
  "emits P (require_bearer E auth wid spiffe xfcc)"
  "emits P (service_auth_headers E)"
  unfolding require_bearer_def oidc_subject_def shared_bearer_def service_auth_headers_def
    outbound_trace_headers_def current_or_new_trace_id_def
  by (intro emits_rules; simp)+

lemma map_of_merge_dict:
  "map_of (merge_dict d ps) k = (case map_of (rev ps) k of Some v \<Rightarrow> Some v | None \<Rightarrow> map_of d k)"
proof (induction d ps rule: merge_dict.induct)
  case (2 d k' v ps)
  then show ?case by (simp add: update_conv map_add_def split: option.split)
qed simp

lemma service_auth_headers_run:
  "\<exists>hs. service_auth_headers E h = (Inr hs, h) \<and>
    map_of hs WORKLOAD_IDENTITY_HEADER = (if cfg_workload_identity_enabled (cfg E)
       then Some (asserted_workload_identity (cfg E)) else None) \<and>
    map_of hs ''Authorization'' = (if cfg_shared_bearer_auth_enabled (cfg E)
       then Some (''Bearer '' @ cfg_dev_bearer_token (cfg E)) else None)"
  by (simp add: service_auth_headers_def outbound_trace_headers_def current_or_new_trace_id_def
      Let_def bind_io_def token_hex_io_def map_of_merge_dict WORKLOAD_IDENTITY_HEADER_def)

text \<open>The trace header survives a format/parse round trip.\<close>

lemma split_on_append:
  "sep \<notin> set w \<Longrightarrow> split_on sep (w @ sep # v) = w # split_on sep v"
  by (induction w) auto

lemma is_hex_not_dash: "list_all is_hex s \<Longrightarrow> CHR ''-'' \<notin> set s"
  by (auto simp: list_all_iff is_hex_def is_digit_def)

lemma traceparent_round_trip:
  assumes "hex_field 32 t" "hex_field 16 s" "t \<noteq> replicate 32 (CHR ''0'')" "s \<noteq> replicate 16 (CHR ''0'')"
  shows "parse_traceparent (Some (format_traceparent t s b)) = Some (t, s)"
proof -
  let ?f = "if b then ''01'' else ''00''"
  have dash: "CHR ''-'' \<notin> set t" "CHR ''-'' \<notin> set s" "CHR ''-'' \<notin> set ?f"
    using assms(1,2) by (auto simp: hex_field_def is_hex_not_dash)
  have "strip (format_traceparent t s b) = format_traceparent t s b"
    by (rule strip_quoted) (simp_all add: format_traceparent_def is_space_def)
  moreover have "split_on (CHR ''-'') (format_traceparent t s b) = [''00'', t, s, ?f]"
    using split_on_append [of "CHR ''-''" "''00''" "t @ ''-'' @ s @ ''-'' @ ?f"]
      split_on_append [OF dash(1), of "s @ ''-'' @ ?f"] split_on_append [OF dash(2), of ?f] split_on_id [OF dash(3)]
    by (simp add: format_traceparent_def)
  ultimately show ?thesis
    using assms by (simp add: parse_traceparent_def format_traceparent_def hex_field_def is_hex_def is_digit_def)
qed

end
