(* ===== verification/Executors.thy ===== *)
theory Executors
  imports Security
begin

text \<open>
  Models of \<open>libs/common/sovereign/executors/\<close>: the executor interface and its registry, the shell
  executors, and the manifest dispatcher. The registry contract is the locale \<open>registry\<close>, which the
  renderer registry interprets too. The dispatcher applies exactly a prefix of the manifest, stops at
  the first failure, and a drift verdict only ever comes from a step that was checked.
\<close>

section \<open>Registries\<close>

text \<open>A table of named objects: registering under an empty name is an error, the last registration
  wins, the listing is sorted.\<close>

locale registry =
  fixes name_of :: "'v \<Rightarrow> string"
    and register :: "'v \<Rightarrow> 'r \<Rightarrow> exn + 'r"
    and lookup :: "'r \<Rightarrow> string \<Rightarrow> 'v option"
    and listing :: "'r \<Rightarrow> string list"
    and clear :: 'r
  assumes register_error: "(\<exists>x. register v r = Inl x) \<longleftrightarrow> name_of v = []"
    and lookup_register: "register v r = Inr r' \<Longrightarrow> lookup r' k = (if k = name_of v then Some v else lookup r k)"
    and lookup_clear: "lookup clear k = None"
    and listing_sorted: "sorted (listing r) \<and> distinct (listing r)"
    and listing_set: "set (listing r) = {k. lookup r k \<noteq> None}"
begin

fun register_all :: "'v list \<Rightarrow> 'r \<Rightarrow> exn + 'r" where
  "register_all [] r = Inr r"
| "register_all (v # vs) r = (case register v r of Inl x \<Rightarrow> Inl x | Inr r' \<Rightarrow> register_all vs r')"

lemma register_all_ok: "list_all (\<lambda>v. name_of v \<noteq> []) vs \<Longrightarrow> \<exists>r'. register_all vs r = Inr r'"
proof (induction vs arbitrary: r)
  case (Cons v vs)
  then obtain r1 where "register v r = Inr r1"
    using register_error [of v r] by (cases "register v r") auto
  with Cons show ?case by simp
qed simp

lemma lookup_register_all:
  "register_all vs r = Inr r' \<Longrightarrow> lookup r' k = (case find (\<lambda>v. name_of v = k) (rev vs) of
     Some v \<Rightarrow> Some v | None \<Rightarrow> lookup r k)"
proof (induction vs arbitrary: r)
  case (Cons v vs)
  then obtain r1 where r1: "register v r = Inr r1" "register_all vs r1 = Inr r'"
    by (auto split: sum.splits)
  have "find P (xs @ [y]) = (case find P xs of Some z \<Rightarrow> Some z | None \<Rightarrow> if P y then Some y else None)"
    for P and xs :: "'v list" and y by (induction xs) auto
  with Cons.IH [OF r1(2)] lookup_register [OF r1(1)] show ?case by (auto split: option.splits)
qed simp

lemma registered_all_listed:
  assumes "register_all vs clear = Inr r"
  shows "listing r = sorted_list_of_set (name_of ` set vs)"
proof -
  have "find (\<lambda>v. name_of v = k) (rev vs) = None \<longleftrightarrow> k \<notin> name_of ` set vs" for k
    by (auto simp: find_None_iff)
  then have "set (listing r) = name_of ` set vs"
    using lookup_register_all [OF assms] by (auto simp: listing_set lookup_clear split: option.splits)
  then show ?thesis
    using listing_sorted [of r] by (metis sorted_list_of_set.idem_if_sorted_distinct)
qed

end

section \<open>Steps and executors\<close>

record DeploymentStep =
  st_kind :: string
  st_target :: string
  st_payload :: dict

record ExecResult =
  xr_ok :: bool
  xr_detail :: string
  xr_outputs :: "(string \<times> string) list"

record DiffResult =
  dr_checked :: bool
  dr_drifted :: bool
  dr_detail :: string

record executor =
  ex_kind :: string
  ex_execute :: "env \<Rightarrow> DeploymentStep \<Rightarrow> ExecResult prog"
  ex_diff :: "env \<Rightarrow> DeploymentStep \<Rightarrow> DiffResult prog"

definition exec_fail :: "string \<Rightarrow> ExecResult" where
  "exec_fail d = \<lparr>xr_ok = False, xr_detail = d, xr_outputs = []\<rparr>"

definition exec_ok :: "string \<Rightarrow> (string \<times> string) list \<Rightarrow> ExecResult" where
  "exec_ok d outs = \<lparr>xr_ok = True, xr_detail = d, xr_outputs = outs\<rparr>"

definition not_checked :: "string \<Rightarrow> DiffResult" where
  "not_checked d = \<lparr>dr_checked = False, dr_drifted = False, dr_detail = d\<rparr>"

definition compared :: "bool \<Rightarrow> string \<Rightarrow> DiffResult" where
  "compared drift d = \<lparr>dr_checked = True, dr_drifted = drift, dr_detail = d\<rparr>"

text \<open>\<open>BaseExecutor.diff\<close>\<close>

definition default_diff :: "string \<Rightarrow> env \<Rightarrow> DeploymentStep \<Rightarrow> DiffResult prog" where
  "default_diff kind E step = ret (compared False (kind @ '': no drift surface''))"

section \<open>The executor registry\<close>

type_synonym executors = "(string \<times> executor) list"

definition register_executor :: "executor \<Rightarrow> executors \<Rightarrow> exn + executors" where
  "register_executor x xs = (if ex_kind x = []
     then Inl (ValueError ''executor has no `kind`; cannot register'') else Inr (AList.update (ex_kind x) x xs))"

definition get_executor :: "executors \<Rightarrow> string \<Rightarrow> executor option" where
  "get_executor xs k = map_of xs k"

definition executor_kinds :: "executors \<Rightarrow> string list" where
  "executor_kinds xs = sort (remdups (map fst xs))"

lemma listing_alist: "set (sort (remdups (map fst xs))) = {k. map_of xs k \<noteq> None}"
  by (auto simp: map_of_eq_None_iff)

interpretation executor_registry: registry ex_kind register_executor get_executor executor_kinds "[]"
proof unfold_locales
  show "set (executor_kinds r) = {k. get_executor r k \<noteq> None}" for r
    unfolding executor_kinds_def get_executor_def by (rule listing_alist)
qed (auto simp: register_executor_def get_executor_def executor_kinds_def update_conv split: if_splits)

section \<open>Shell executors\<close>

definition run_tool :: "env \<Rightarrow> string list \<Rightarrow> cli_result prog" where
  "run_tool E cmd = bind_io (subprocess_trace_env E) (\<lambda>_. run_cli E cmd)"

text \<open>A command-line argument must be a string.\<close>

definition cli_arg :: "json \<Rightarrow> string prog" where
  "cli_arg j = (case j of JStr s \<Rightarrow> ret s
     | _ \<Rightarrow> throw (TypeError ''expected str, bytes or os.PathLike object''))"

definition out_or :: "string \<Rightarrow> string \<Rightarrow> string" where
  "out_or err out = (if strip err \<noteq> [] then strip err else strip out)"

definition noop_execute :: "env \<Rightarrow> DeploymentStep \<Rightarrow> ExecResult prog" where
  "noop_execute E step = ret (exec_ok (''acknowledged '' @ st_kind step @ '' for '' @ st_target step) [])"

definition k8s_namespace :: "DeploymentStep \<Rightarrow> string" where
  "k8s_namespace step = (if st_target step \<noteq> [] then st_target step else ''default'')"

definition k8s_execute :: "env \<Rightarrow> DeploymentStep \<Rightarrow> ExecResult prog" where
  "k8s_execute E step =
     (if \<not> env_which E ''kubectl'' then ret (exec_fail ''kubectl not found on PATH'') else
      let ns = k8s_namespace step; path = jget (st_payload step) ''manifest_path'' in
      if \<not> jtruthy path then ret (exec_fail ''k8s-apply requires payload.manifest_path'')
      else bind_io (cli_arg path) (\<lambda>p. bind_io (run_tool E [''kubectl'', ''apply'', ''-n'', ns, ''-f'', p]) (\<lambda>(rc, out, err).
        if rc \<noteq> 0 then ret (exec_fail (''kubectl apply failed: '' @ out_or err out))
        else ret (exec_ok (''applied to namespace '' @ ns) [(''namespace'', ns)]))))"

definition k8s_diff :: "env \<Rightarrow> DeploymentStep \<Rightarrow> DiffResult prog" where
  "k8s_diff E step =
     (if \<not> env_which E ''kubectl'' then ret (not_checked ''kubectl not found on PATH'') else
      let ns = k8s_namespace step; path = jget (st_payload step) ''manifest_path'' in
      if \<not> jtruthy path then ret (not_checked ''k8s diff requires payload.manifest_path'')
      else bind_io (cli_arg path) (\<lambda>p. bind_io (run_tool E [''kubectl'', ''diff'', ''-n'', ns, ''-f'', p]) (\<lambda>(rc, out, err).
        if rc = 0 then ret (compared False (ns @ '': in sync''))
        else if rc = 1 then ret (compared True (ns @ '': drift detected''))
        else ret (not_checked (''kubectl diff error: '' @ strip err)))))"

definition helm_execute :: "env \<Rightarrow> DeploymentStep \<Rightarrow> ExecResult prog" where
  "helm_execute E step =
     (if \<not> env_which E ''helm'' then ret (exec_fail ''helm not found on PATH'') else
      let chart = jget (st_payload step) ''chart''; ns = jget (st_payload step) ''namespace'';
          vals = jget (st_payload step) ''values_file'' in
      if st_target step = [] \<or> \<not> jtruthy chart
      then ret (exec_fail ''helm-upgrade requires target (release) and payload.chart'')
      else bind_io (cli_arg chart) (\<lambda>c.
        bind_io (if jtruthy ns then bind_io (cli_arg ns) (\<lambda>n. ret [''--namespace'', n, ''--create-namespace'']) else ret []) (\<lambda>nsa.
        bind_io (if jtruthy vals then bind_io (cli_arg vals) (\<lambda>v. ret [''-f'', v]) else ret []) (\<lambda>va.
        bind_io (run_tool E ([''helm'', ''upgrade'', ''--install'', st_target step, c] @ nsa @ va)) (\<lambda>(rc, out, err).
        if rc \<noteq> 0 then ret (exec_fail (''helm upgrade failed: '' @ out_or err out))
        else ret (exec_ok (''released '' @ st_target step) [(''release'', st_target step)]))))))"

text \<open>\<open>f"-chdir={module}"\<close> formats any value, so the module directory is printed.\<close>

definition tf_chdir :: "env \<Rightarrow> json \<Rightarrow> string" where
  "tf_chdir E m = ''-chdir='' @ py_str E m"

definition terraform_execute :: "env \<Rightarrow> DeploymentStep \<Rightarrow> ExecResult prog" where
  "terraform_execute E step =
     (if \<not> env_which E ''terraform'' then ret (exec_fail ''terraform not found on PATH'') else
      let m = jget (st_payload step) ''module_dir'' in
      if \<not> jtruthy m then ret (exec_fail ''terraform-apply requires payload.module_dir'')
      else bind_io (run_tool E [''terraform'', tf_chdir E m, ''init'', ''-input=false'']) (\<lambda>(rc, out, err).
        if rc \<noteq> 0 then ret (exec_fail (''terraform init failed: '' @ out_or err out))
        else bind_io (run_tool E [''terraform'', tf_chdir E m, ''apply'', ''-auto-approve'', ''-input=false'']) (\<lambda>(rc, out, err).
        if rc \<noteq> 0 then ret (exec_fail (''terraform apply failed: '' @ out_or err out))
        else (case m of JStr dir \<Rightarrow> ret (exec_ok (''applied module '' @ dir) [(''module'', dir)])
          | _ \<Rightarrow> throw (ValidationError ''ExecResult'')))))"

definition terraform_diff :: "env \<Rightarrow> DeploymentStep \<Rightarrow> DiffResult prog" where
  "terraform_diff E step =
     (if \<not> env_which E ''terraform'' then ret (not_checked ''terraform not found on PATH'') else
      let m = jget (st_payload step) ''module_dir'' in
      if \<not> jtruthy m then ret (not_checked ''terraform diff requires payload.module_dir'')
      else bind_io (run_tool E [''terraform'', tf_chdir E m, ''init'', ''-input=false'']) (\<lambda>(rc, out, err).
        if rc \<noteq> 0 then ret (not_checked (''terraform init failed: '' @ strip err))
        else bind_io (run_tool E [''terraform'', tf_chdir E m, ''plan'', ''-detailed-exitcode'', ''-input=false'']) (\<lambda>(rc, out, err).
        if rc = 0 then ret (compared False (py_str E m @ '': in sync''))
        else if rc = 2 then ret (compared True (py_str E m @ '': drift detected''))
        else ret (not_checked (''terraform plan error: '' @ strip err)))))"

definition webhook_execute :: "env \<Rightarrow> DeploymentStep \<Rightarrow> ExecResult prog" where
  "webhook_execute E step =
     (if st_target step = [] then ret (exec_fail ''webhook requires target (url)'')
      else catch_io (bind_io (http_io E \<lparr>rq_method = ''POST'', rq_url = st_target step, rq_headers = [],
               rq_body = jget_or (st_payload step) ''body'' (JObj [])\<rparr>) (\<lambda>resp.
          if 400 \<le> rs_status resp then ret (exec_fail (''webhook returned '' @ str_of_int (rs_status resp)))
          else ret (exec_ok (''posted to '' @ st_target step) [(''status'', str_of_int (rs_status resp))])))
        (\<lambda>x. if is_HTTPError x then ret (exec_fail (''webhook POST failed: '' @ env_str_exn E x)) else throw x))"

definition NoopExecutor :: executor where
  "NoopExecutor = \<lparr>ex_kind = ''envoy-snapshot'', ex_execute = noop_execute, ex_diff = default_diff ''envoy-snapshot''\<rparr>"

definition KubernetesExecutor :: executor where
  "KubernetesExecutor = \<lparr>ex_kind = ''k8s-apply'', ex_execute = k8s_execute, ex_diff = k8s_diff\<rparr>"

definition HelmExecutor :: executor where
  "HelmExecutor = \<lparr>ex_kind = ''helm-upgrade'', ex_execute = helm_execute, ex_diff = default_diff ''helm-upgrade''\<rparr>"

definition TerraformExecutor :: executor where
  "TerraformExecutor = \<lparr>ex_kind = ''terraform-apply'', ex_execute = terraform_execute, ex_diff = terraform_diff\<rparr>"

definition WebhookExecutor :: executor where
  "WebhookExecutor = \<lparr>ex_kind = ''webhook'', ex_execute = webhook_execute, ex_diff = default_diff ''webhook''\<rparr>"

definition register_default_executors :: "executors \<Rightarrow> exn + executors" where
  "register_default_executors xs = executor_registry.register_all
     [NoopExecutor, KubernetesExecutor, HelmExecutor, TerraformExecutor, WebhookExecutor] xs"

section \<open>The dispatcher\<close>

record ApplyResult =
  ar_ok :: bool
  ar_applied_steps :: "DeploymentStep list"
  ar_failed_step :: "DeploymentStep option"
  ar_detail :: string

record ManifestDiff =
  md_drifted :: bool
  md_unknown :: bool
  md_details :: "string list"

definition apply_failed :: "DeploymentStep list \<Rightarrow> DeploymentStep \<Rightarrow> string \<Rightarrow> ApplyResult" where
  "apply_failed applied step d = \<lparr>ar_ok = False, ar_applied_steps = applied, ar_failed_step = Some step, ar_detail = d\<rparr>"

definition apply_done :: "DeploymentStep list \<Rightarrow> ApplyResult" where
  "apply_done applied = \<lparr>ar_ok = True, ar_applied_steps = applied, ar_failed_step = None, ar_detail = []\<rparr>"

fun apply_loop :: "executors \<Rightarrow> env \<Rightarrow> DeploymentStep list \<Rightarrow> DeploymentStep list \<Rightarrow> ApplyResult prog" where
  "apply_loop reg E applied [] = ret (apply_done applied)"
| "apply_loop reg E applied (step # steps) = (case get_executor reg (st_kind step) of
     None \<Rightarrow> ret (apply_failed applied step (''no executor registered for step kind '' @ py_repr (st_kind step)))
   | Some x \<Rightarrow> bind_io (ex_execute x E step) (\<lambda>r.
       if \<not> xr_ok r then ret (apply_failed applied step (xr_detail r))
       else apply_loop reg E (applied @ [step]) steps))"

definition apply_manifest :: "executors \<Rightarrow> env \<Rightarrow> DeploymentStep list \<Rightarrow> ApplyResult prog" where
  "apply_manifest reg E manifest = apply_loop reg E [] manifest"

text \<open>A dash between blanks, in UTF-8.\<close>

definition dash :: string where
  "dash = '' '' @ [CHR 0xE2, CHR 0x80, CHR 0x94] @ '' ''"

definition diff_note :: "string \<Rightarrow> DiffResult \<Rightarrow> ManifestDiff \<Rightarrow> ManifestDiff" where
  "diff_note kind d md =
     (if \<not> dr_checked d then md\<lparr>md_unknown := True,
        md_details := md_details md @ [kind @ '': unchecked'' @ dash @ dr_detail d]\<rparr>
      else if dr_drifted d then md\<lparr>md_drifted := True,
        md_details := md_details md @ [kind @ '': DRIFTED'' @ dash @ dr_detail d]\<rparr>
      else md\<lparr>md_details := md_details md @ [kind @ '': in sync'']\<rparr>)"

fun diff_loop :: "executors \<Rightarrow> env \<Rightarrow> ManifestDiff \<Rightarrow> DeploymentStep list \<Rightarrow> ManifestDiff prog" where
  "diff_loop reg E md [] = ret md"
| "diff_loop reg E md (step # steps) = (case get_executor reg (st_kind step) of
     None \<Rightarrow> diff_loop reg E (md\<lparr>md_unknown := True,
         md_details := md_details md @ [st_kind step @ '': no executor registered (unchecked)'']\<rparr>) steps
   | Some x \<Rightarrow> bind_io (ex_diff x E step) (\<lambda>d. diff_loop reg E (diff_note (st_kind step) d md) steps))"

definition diff_manifest :: "executors \<Rightarrow> env \<Rightarrow> DeploymentStep list \<Rightarrow> ManifestDiff prog" where
  "diff_manifest reg E manifest = diff_loop reg E \<lparr>md_drifted = False, md_unknown = False, md_details = []\<rparr> manifest"

section \<open>What the dispatcher guarantees\<close>

definition apply_outcome :: "DeploymentStep list \<Rightarrow> DeploymentStep list \<Rightarrow> ApplyResult \<Rightarrow> bool" where
  "apply_outcome applied steps r \<longleftrightarrow>
     ar_ok r \<and> ar_applied_steps r = applied @ steps \<and> ar_failed_step r = None \<or>
     \<not> ar_ok r \<and> (\<exists>done s later. steps = done @ s # later \<and> ar_applied_steps r = applied @ done \<and> ar_failed_step r = Some s)"

lemma apply_outcome_Cons: "apply_outcome (applied @ [s]) steps r \<Longrightarrow> apply_outcome applied (s # steps) r"
  unfolding apply_outcome_def by (auto; metis append_Cons append_assoc append_Nil)

lemma apply_loop_outcome:
  "apply_loop reg E applied steps h = (Inr r, h') \<Longrightarrow> apply_outcome applied steps r"
proof (induction steps arbitrary: applied h)
  case Nil
  then show ?case by (auto simp: apply_outcome_def apply_done_def)
next
  case (Cons s steps)
  have fail: "apply_outcome applied (s # steps) (apply_failed applied s d)" for d
    by (auto simp: apply_outcome_def apply_failed_def)
  show ?case
  proof (cases "get_executor reg (st_kind s)")
    case None
    with Cons.prems fail show ?thesis by auto
  next
    case (Some x)
    with Cons.prems obtain xr h1 where x: "ex_execute x E s h = (Inr xr, h1)"
      "(if \<not> xr_ok xr then ret (apply_failed applied s (xr_detail xr)) else apply_loop reg E (applied @ [s]) steps) h1 = (Inr r, h')"
      by (auto simp: run_ok)
    show ?thesis
    proof (cases "xr_ok xr")
      case True
      with x Cons.IH show ?thesis by (auto intro: apply_outcome_Cons)
    qed (use x fail in auto)
  qed
qed

text \<open>Nothing behind the failed step is looked at.\<close>

lemma apply_loop_stops:
  assumes "apply_loop reg E applied (pre @ s # later) h = (Inr r, h')" "ar_applied_steps r = applied @ pre" "\<not> ar_ok r"
  shows "apply_loop reg E applied (pre @ s # later') h = (Inr r, h')"
  using assms
proof (induction pre arbitrary: applied h)
  case Nil
  show ?case
  proof (cases "get_executor reg (st_kind s)")
    case (Some x)
    from Nil Some obtain xr h1 where x: "ex_execute x E s h = (Inr xr, h1)"
      "(if \<not> xr_ok xr then ret (apply_failed applied s (xr_detail xr)) else apply_loop reg E (applied @ [s]) later) h1 = (Inr r, h')"
      by (auto simp: run_ok)
    have "\<not> xr_ok xr"
      using apply_loop_outcome [of reg E "applied @ [s]" later h1 r h'] x(2) Nil(2) by (auto simp: apply_outcome_def split: if_splits)
    with x Some show ?thesis by (simp add: bind_io_def)
  qed (use Nil in simp)
next
  case (Cons p pre)
  show ?case
  proof (cases "get_executor reg (st_kind p)")
    case (Some x)
    from Cons.prems(1) Some obtain xr h1 where x: "ex_execute x E p h = (Inr xr, h1)"
      "(if \<not> xr_ok xr then ret (apply_failed applied p (xr_detail xr)) else apply_loop reg E (applied @ [p]) (pre @ s # later)) h1 = (Inr r, h')"
      by (auto simp: run_ok)
    show ?thesis
    proof (cases "xr_ok xr")
      case True
      then have "apply_loop reg E (applied @ [p]) (pre @ s # later') h1 = (Inr r, h')"
        using x Cons.prems by (intro Cons.IH) auto
      with True x Some show ?thesis by (simp add: bind_io_def)
    qed (use x Some Cons.prems(2) in \<open>auto simp: bind_io_def apply_failed_def\<close>)
  qed (use Cons.prems in \<open>auto simp: apply_failed_def\<close>)
qed

text \<open>A drift verdict is backed by a step whose backend was compared and differed; \<open>unknown\<close> is
  reported exactly when some step was not compared.\<close>

definition step_diff :: "executors \<Rightarrow> env \<Rightarrow> DeploymentStep \<Rightarrow> DiffResult \<Rightarrow> bool" where
  "step_diff reg E s d \<longleftrightarrow> (\<exists>x h h'. get_executor reg (st_kind s) = Some x \<and> ex_diff x E s h = (Inr d, h'))"

lemma diff_loop_sound:
  assumes "diff_loop reg E md steps h = (Inr md', h')"
  shows "(md_drifted md' \<longrightarrow> md_drifted md \<or> (\<exists>s\<in>set steps. \<exists>d. step_diff reg E s d \<and> dr_checked d \<and> dr_drifted d)) \<and>
    (\<not> md_unknown md' \<longrightarrow> \<not> md_unknown md \<and> (\<forall>s\<in>set steps. \<exists>d. step_diff reg E s d \<and> dr_checked d \<and> (dr_drifted d \<longrightarrow> md_drifted md'))) \<and>
    (md_drifted md \<longrightarrow> md_drifted md') \<and> length (md_details md') = length (md_details md) + length steps"
  using assms
proof (induction steps arbitrary: md h)
  case (Cons s steps)
  show ?case
  proof (cases "get_executor reg (st_kind s)")
    case None
    with Cons.prems have "diff_loop reg E (md\<lparr>md_unknown := True,
         md_details := md_details md @ [st_kind s @ '': no executor registered (unchecked)'']\<rparr>) steps h = (Inr md', h')" by simp
    from Cons.IH [OF this] show ?thesis by fastforce
  next
    case (Some x)
    with Cons.prems obtain d h1 where x: "ex_diff x E s h = (Inr d, h1)"
      "diff_loop reg E (diff_note (st_kind s) d md) steps h1 = (Inr md', h')"
      by (auto simp: run_ok)
    let ?md = "diff_note (st_kind s) d md"
    have md: "length (md_details ?md) = Suc (length (md_details md))"
        "md_unknown ?md = (md_unknown md \<or> \<not> dr_checked d)"
        "md_drifted ?md = (md_drifted md \<or> dr_checked d \<and> dr_drifted d)"
      by (auto simp: diff_note_def)
    have "step_diff reg E s d" using Some x by (auto simp: step_diff_def)
    with Cons.IH [OF x(2)] md show ?thesis by (simp; blast)
  qed
qed auto

end
