(* ===== verification/Envoy.thy ===== *)
theory Envoy
  imports Models Migrations
begin

text \<open>
  Models of \<open>libs/common/sovereign/render.py\<close> (the Envoy bootstrap document of an instance and of a
  mesh sidecar) and of \<open>libs/common/sovereign/envoy_v3.py\<close> (the schema check of such a document, one
  predicate per model class; the validated object is discarded by every caller). The printers and
  parsers of YAML and JSON are the record \<open>text_lib\<close>. Shown: rendering succeeds exactly when every endpoint has a
  port, the rendered document passes the schema check, and with mTLS enabled no listener and no
  cluster is left in plaintext.
\<close>

section \<open>Text formats\<close>

text \<open>\<open>yaml.safe_dump\<close> and \<open>json.dumps\<close> (sorted keys, indented), and the parsers, which fail with the
  text of their exception. Documented: a parser reads back what was printed; sorting keeps the
  keys of an object.\<close>

record text_lib =
  tl_yaml_dump :: "json \<Rightarrow> string"
  tl_yaml_load :: "string \<Rightarrow> string + json"
  tl_json_dumps :: "json \<Rightarrow> string"
  tl_json_loads :: "string \<Rightarrow> string + json"

definition text_lib_exact :: "text_lib \<Rightarrow> bool" where
  "text_lib_exact L \<longleftrightarrow> (\<forall>j. tl_yaml_load L (tl_yaml_dump L j) = Inr j) \<and>
     (\<forall>d. \<exists>d'. tl_json_loads L (tl_json_dumps L (JObj d)) = Inr (JObj d') \<and> fst ` set d' = fst ` set d)"

section \<open>Schema of the bootstrap document\<close>

text \<open>A field of a model class: \<open>req_field\<close> must be present, \<open>opt_field\<close> may be absent or null, \<open>dfl_field\<close> may be
  absent. Unknown fields are allowed.\<close>

definition req_field :: "(json \<Rightarrow> bool) \<Rightarrow> string \<Rightarrow> dict \<Rightarrow> bool" where
  "req_field P k d = (case map_of d k of None \<Rightarrow> False | Some v \<Rightarrow> P v)"

definition opt_field :: "(json \<Rightarrow> bool) \<Rightarrow> string \<Rightarrow> dict \<Rightarrow> bool" where
  "opt_field P k d = (case map_of d k of None \<Rightarrow> True | Some v \<Rightarrow> v = JNull \<or> P v)"

definition dfl_field :: "(json \<Rightarrow> bool) \<Rightarrow> string \<Rightarrow> dict \<Rightarrow> bool" where
  "dfl_field P k d = (case map_of d k of None \<Rightarrow> True | Some v \<Rightarrow> P v)"

definition absent_field :: "string \<Rightarrow> dict \<Rightarrow> bool" where
  "absent_field k d = (case map_of d k of None \<Rightarrow> True | Some v \<Rightarrow> v = JNull)"

fun obj_with :: "(dict \<Rightarrow> bool) \<Rightarrow> json \<Rightarrow> bool" where
  "obj_with P (JObj d) = P d"
| "obj_with P _ = False"

fun list_of :: "(json \<Rightarrow> bool) \<Rightarrow> json \<Rightarrow> bool" where
  "list_of P (JList xs) = list_all P xs"
| "list_of P _ = False"

text \<open>\<open>Field(min_length=1)\<close>\<close>

fun list1_of :: "(json \<Rightarrow> bool) \<Rightarrow> json \<Rightarrow> bool" where
  "list1_of P (JList xs) = (xs \<noteq> [] \<and> list_all P xs)"
| "list1_of P _ = False"

definition is_str :: "env \<Rightarrow> json \<Rightarrow> bool" where
  "is_str E v = (env_pyd_str E v \<noteq> None)"

definition int_in :: "env \<Rightarrow> int \<Rightarrow> int \<Rightarrow> json \<Rightarrow> bool" where
  "int_in E lo hi v = (case env_pyd_int E v of None \<Rightarrow> False | Some i \<Rightarrow> lo \<le> i \<and> i \<le> hi)"

definition valid_socket_address :: "env \<Rightarrow> dict \<Rightarrow> bool" where
  "valid_socket_address E d = (req_field (is_str E) ''address'' d \<and> req_field (int_in E 1 65535) ''port_value'' d \<and>
     opt_field (\<lambda>v. v \<in> {JStr ''TCP'', JStr ''UDP''}) ''protocol'' d)"

definition valid_pipe :: "env \<Rightarrow> dict \<Rightarrow> bool" where
  "valid_pipe E d = req_field (is_str E) ''path'' d"

definition valid_address :: "env \<Rightarrow> dict \<Rightarrow> bool" where
  "valid_address E d = (opt_field (obj_with (valid_socket_address E)) ''socket_address'' d \<and>
     opt_field (obj_with (valid_pipe E)) ''pipe'' d \<and> (absent_field ''socket_address'' d \<noteq> absent_field ''pipe'' d))"

definition valid_lb_endpoint :: "env \<Rightarrow> dict \<Rightarrow> bool" where
  "valid_lb_endpoint E d = req_field (obj_with (req_field (obj_with (valid_address E)) ''address'')) ''endpoint'' d"

definition valid_load_assignment :: "env \<Rightarrow> dict \<Rightarrow> bool" where
  "valid_load_assignment E d = (req_field (is_str E) ''cluster_name'' d \<and>
     req_field (list1_of (obj_with (req_field (list1_of (obj_with (valid_lb_endpoint E))) ''lb_endpoints''))) ''endpoints'' d)"

definition valid_cluster_config :: "env \<Rightarrow> dict \<Rightarrow> bool" where
  "valid_cluster_config E d = (req_field (is_str E) ''name'' d \<and> dfl_field (is_str E) ''connect_timeout'' d \<and>
     req_field (is_str E) ''type'' d \<and> opt_field (obj_with (valid_load_assignment E)) ''load_assignment'' d)"

definition valid_route_match :: "env \<Rightarrow> dict \<Rightarrow> bool" where
  "valid_route_match E d = (opt_field (is_str E) ''prefix'' d \<and> opt_field (is_str E) ''path'' d)"

definition valid_route_rule :: "env \<Rightarrow> dict \<Rightarrow> bool" where
  "valid_route_rule E d = (req_field (obj_with (valid_route_match E)) ''match'' d \<and>
     opt_field (obj_with (req_field (is_str E) ''cluster'')) ''route'' d \<and>
     opt_field (obj_with (req_field (int_in E 100 599) ''status'')) ''direct_response'' d \<and>
     (absent_field ''route'' d \<noteq> absent_field ''direct_response'' d))"

definition valid_virtual_host :: "env \<Rightarrow> dict \<Rightarrow> bool" where
  "valid_virtual_host E d = (req_field (is_str E) ''name'' d \<and> req_field (list1_of (is_str E)) ''domains'' d \<and>
     req_field (list1_of (obj_with (valid_route_rule E))) ''routes'' d)"

definition valid_route_config :: "env \<Rightarrow> dict \<Rightarrow> bool" where
  "valid_route_config E d = (req_field (is_str E) ''name'' d \<and>
     req_field (list1_of (obj_with (valid_virtual_host E))) ''virtual_hosts'' d)"

text \<open>The type URL is read under its alias, or by field name (\<open>populate_by_name\<close>).\<close>

definition valid_typed_config :: "env \<Rightarrow> dict \<Rightarrow> bool" where
  "valid_typed_config E d = (if map_of d ''@type'' \<noteq> None then req_field (is_str E) ''@type'' d
     else req_field (is_str E) ''type_'' d)"

definition valid_http_filter :: "env \<Rightarrow> dict \<Rightarrow> bool" where
  "valid_http_filter E d = (req_field (is_str E) ''name'' d \<and> opt_field (obj_with (valid_typed_config E)) ''typed_config'' d)"

definition valid_hcm :: "env \<Rightarrow> dict \<Rightarrow> bool" where
  "valid_hcm E d = (valid_typed_config E d \<and> req_field (is_str E) ''stat_prefix'' d \<and>
     req_field (obj_with (valid_route_config E)) ''route_config'' d \<and>
     req_field (list1_of (obj_with (valid_http_filter E))) ''http_filters'' d)"

definition HCM_TYPE_FRAGMENT :: string where
  "HCM_TYPE_FRAGMENT = ''HttpConnectionManager''"

text \<open>Python's \<open>in\<close> on strings.\<close>

fun contains_str :: "string \<Rightarrow> string \<Rightarrow> bool" where
  "contains_str sub [] = (sub = [])"
| "contains_str sub (c # s) = (startswith (c # s) sub \<or> contains_str sub s)"

definition valid_filter_config :: "env \<Rightarrow> dict \<Rightarrow> bool" where
  "valid_filter_config E d = (case map_of d ''@type'' of None \<Rightarrow> False
     | Some (JStr t) \<Rightarrow> (if contains_str HCM_TYPE_FRAGMENT t then valid_hcm E d else True)
     | Some _ \<Rightarrow> True)"

definition valid_network_filter :: "env \<Rightarrow> dict \<Rightarrow> bool" where
  "valid_network_filter E d = (req_field (is_str E) ''name'' d \<and> req_field (obj_with (valid_filter_config E)) ''typed_config'' d)"

definition valid_listener_config :: "env \<Rightarrow> dict \<Rightarrow> bool" where
  "valid_listener_config E d = (req_field (is_str E) ''name'' d \<and> req_field (obj_with (valid_address E)) ''address'' d \<and>
     req_field (list1_of (obj_with (req_field (list1_of (obj_with (valid_network_filter E))) ''filters''))) ''filter_chains'' d)"

definition valid_static_resources :: "env \<Rightarrow> dict \<Rightarrow> bool" where
  "valid_static_resources E d = (dfl_field (list_of (obj_with (valid_listener_config E))) ''listeners'' d \<and>
     dfl_field (list_of (obj_with (valid_cluster_config E))) ''clusters'' d)"

definition valid_admin :: "env \<Rightarrow> dict \<Rightarrow> bool" where
  "valid_admin E d = (opt_field (is_str E) ''access_log_path'' d \<and> req_field (obj_with (valid_address E)) ''address'' d)"

definition valid_bootstrap :: "env \<Rightarrow> dict \<Rightarrow> bool" where
  "valid_bootstrap E d = (req_field (obj_with (valid_static_resources E)) ''static_resources'' d \<and>
     opt_field (obj_with (valid_admin E)) ''admin'' d)"

definition validate_bootstrap :: "env \<Rightarrow> json \<Rightarrow> exn + unit" where
  "validate_bootstrap E doc = (if obj_with (valid_bootstrap E) doc then Inr () else Inl (ValidationError ''EnvoyBootstrap''))"

section \<open>TLS contexts\<close>

definition MESH_TLS_DIR :: string where
  "MESH_TLS_DIR = ''/etc/sovereign/tls''"

definition SDS_CLUSTER_NAME :: string where
  "SDS_CLUSTER_NAME = ''spiffe_sds''"

definition file_common_tls_context :: dict where
  "file_common_tls_context =
     [(''tls_certificates'', JList [JObj
        [(''certificate_chain'', JObj [(''filename'', JStr (MESH_TLS_DIR @ ''/tls.crt''))]),
         (''private_key'', JObj [(''filename'', JStr (MESH_TLS_DIR @ ''/tls.key''))])]]),
      (''validation_context'', JObj
        [(''trusted_ca'', JObj [(''filename'', JStr (MESH_TLS_DIR @ ''/ca.crt''))])])]"

definition sds_config :: dict where
  "sds_config = [(''api_config_source'', JObj
     [(''api_type'', JStr ''GRPC''), (''transport_api_version'', JStr ''V3''),
      (''grpc_services'', JList [JObj [(''envoy_grpc'', JObj [(''cluster_name'', JStr SDS_CLUSTER_NAME)])]])])]"

definition sds_common_tls_context :: "settings \<Rightarrow> dict" where
  "sds_common_tls_context s =
     [(''tls_certificate_sds_secret_configs'', JList [JObj
        [(''name'', JStr (asserted_workload_identity s)), (''sds_config'', JObj sds_config)]]),
      (''validation_context_sds_secret_config'', JObj
        [(''name'', JStr (''spiffe://'' @ mesh_trust_domain s)), (''sds_config'', JObj sds_config)])]"

definition common_tls_context :: "settings \<Rightarrow> dict" where
  "common_tls_context s = (if cfg_mesh_sds_enabled s then sds_common_tls_context s else file_common_tls_context)"

definition socket_address :: "string \<Rightarrow> int \<Rightarrow> json" where
  "socket_address a p = JObj [(''socket_address'', JObj [(''address'', JStr a), (''port_value'', JInt p)])]"

definition lb_endpoint :: "json \<Rightarrow> json" where
  "lb_endpoint a = JObj [(''endpoint'', JObj [(''address'', a)])]"

definition load_assignment :: "string \<Rightarrow> json list \<Rightarrow> json" where
  "load_assignment cname eps = JObj [(''cluster_name'', JStr cname),
     (''endpoints'', JList [JObj [(''lb_endpoints'', JList eps)]])]"

definition sds_cluster :: "settings \<Rightarrow> dict" where
  "sds_cluster s =
     [(''name'', JStr SDS_CLUSTER_NAME), (''type'', JStr ''STATIC''), (''connect_timeout'', JStr ''1s''),
      (''http2_protocol_options'', JObj []),
      (''load_assignment'', load_assignment SDS_CLUSTER_NAME
         [lb_endpoint (JObj [(''pipe'', JObj [(''path'', JStr (cfg_mesh_sds_socket_path s))])])])]"

definition downstream_tls_transport_socket :: "settings \<Rightarrow> dict" where
  "downstream_tls_transport_socket s =
     [(''name'', JStr ''envoy.transport_sockets.tls''),
      (''typed_config'', JObj
        [(''@type'', JStr ''type.googleapis.com/envoy.extensions.transport_sockets.tls.v3.DownstreamTlsContext''),
         (''require_client_certificate'', JBool True),
         (''common_tls_context'', JObj (common_tls_context s))])]"

definition upstream_tls_transport_socket :: "settings \<Rightarrow> dict" where
  "upstream_tls_transport_socket s =
     [(''name'', JStr ''envoy.transport_sockets.tls''),
      (''typed_config'', JObj
        [(''@type'', JStr ''type.googleapis.com/envoy.extensions.transport_sockets.tls.v3.UpstreamTlsContext''),
         (''common_tls_context'', JObj (common_tls_context s))])]"

definition xfcc_hcm_fields :: dict where
  "xfcc_hcm_fields = [(''forward_client_cert_details'', JStr ''SANITIZE_SET''),
     (''set_current_client_cert_details'', JObj [(''uri'', JBool True)])]"

section \<open>The document of an instance\<close>

definition HCM_TYPE :: string where
  "HCM_TYPE = ''type.googleapis.com/envoy.extensions.filters.network.http_connection_manager.v3.HttpConnectionManager''"

definition router_filter :: json where
  "router_filter = JObj [(''name'', JStr ''envoy.filters.http.router''),
     (''typed_config'', JObj [(''@type'', JStr ''type.googleapis.com/envoy.extensions.filters.http.router.v3.Router'')])]"

text \<open>\<open>sorted({r.host for r in routes}) or ["*"]\<close>\<close>

definition route_domains :: "Route list \<Rightarrow> string list" where
  "route_domains rs = (let ds = sort (remdups (map rt_host rs)) in if ds = [] then [''*''] else ds)"

definition route_rule :: "Route \<Rightarrow> json" where
  "route_rule r = JObj [(''match'', JObj [(''prefix'', JStr (rt_prefix r))]),
     (''route'', JObj [(''cluster'', JStr (rt_cluster r))])]"

definition not_found_rule :: json where
  "not_found_rule = JObj [(''match'', JObj [(''prefix'', JStr ''/'')]),
     (''direct_response'', JObj [(''status'', JInt 404)])]"

definition route_rules :: "Route list \<Rightarrow> json list" where
  "route_rules rs = (if rs = [] then [not_found_rule] else map route_rule rs)"

definition hcm_config :: "string \<Rightarrow> string \<Rightarrow> dict \<Rightarrow> bool \<Rightarrow> dict" where
  "hcm_config stat_prefix rname vhost mtls =
     [(''@type'', JStr HCM_TYPE), (''stat_prefix'', JStr stat_prefix),
      (''route_config'', JObj [(''name'', JStr rname), (''virtual_hosts'', JList [JObj vhost])])] @
     (if mtls then xfcc_hcm_fields else []) @
     [(''http_filters'', JList [router_filter])]"

definition service_vhost :: "Route list \<Rightarrow> dict" where
  "service_vhost rs = [(''name'', JStr ''service_routes''), (''domains'', jstrs (route_domains rs)),
     (''routes'', JList (route_rules rs))]"

definition hcm_filter :: "dict \<Rightarrow> json" where
  "hcm_filter c = JObj [(''name'', JStr ''envoy.filters.network.http_connection_manager''), (''typed_config'', JObj c)]"

definition build_listener :: "settings \<Rightarrow> ServiceInstance \<Rightarrow> Listener \<Rightarrow> dict" where
  "build_listener s i l = (let p = si_parameters i in
     [(''name'', JStr (ln_name l)), (''address'', socket_address ''0.0.0.0'' (ln_port l)),
      (''filter_chains'', JList [JObj ([(''filters'', JList [hcm_filter
          (hcm_config (si_instance_id i @ ''_'' @ ln_name l) (ln_name l @ ''_routes'')
             (service_vhost (lb_routes p)) (lb_mtls_enabled p))])] @
        (if lb_mtls_enabled p then [(''transport_socket'', JObj (downstream_tls_transport_socket s))] else []))])])"

text \<open>\<open>ep.split(":")[0]\<close> and \<open>int(ep.split(":")[1])\<close>: an endpoint without a colon has no
  second part.\<close>

definition build_endpoint :: "string \<Rightarrow> exn + json" where
  "build_endpoint ep = (case split_on (CHR '':'') ep of
     host # port # _ \<Rightarrow> (case py_int (JStr port) of Inl x \<Rightarrow> Inl x
        | Inr p \<Rightarrow> Inr (lb_endpoint (socket_address host p)))
   | _ \<Rightarrow> Inl (IndexError ''list index out of range''))"

fun collect :: "('a \<Rightarrow> exn + 'b) \<Rightarrow> 'a list \<Rightarrow> exn + 'b list" where
  "collect f [] = Inr []"
| "collect f (x # xs) = (case f x of Inl e \<Rightarrow> Inl e
     | Inr y \<Rightarrow> (case collect f xs of Inl e \<Rightarrow> Inl e | Inr ys \<Rightarrow> Inr (y # ys)))"

definition build_cluster :: "settings \<Rightarrow> bool \<Rightarrow> Cluster \<Rightarrow> exn + dict" where
  "build_cluster s mtls c = (case collect build_endpoint (cl_endpoints c) of Inl x \<Rightarrow> Inl x
     | Inr eps \<Rightarrow> Inr ([(''name'', JStr (cl_name c)), (''connect_timeout'', JStr ''2s''), (''type'', JStr ''STRICT_DNS''),
         (''load_assignment'', load_assignment (cl_name c) eps)] @
         (if mtls then [(''transport_socket'', JObj (upstream_tls_transport_socket s))] else [])))"

definition bootstrap_doc :: "dict list \<Rightarrow> dict list \<Rightarrow> string \<Rightarrow> json" where
  "bootstrap_doc listeners clusters admin_host = JObj
     [(''static_resources'', JObj [(''listeners'', JList (map JObj listeners)), (''clusters'', JList (map JObj clusters))]),
      (''admin'', JObj [(''access_log_path'', JStr ''/tmp/admin_access.log''),
         (''address'', socket_address admin_host 9901)])]"

definition build_doc :: "settings \<Rightarrow> ServiceInstance \<Rightarrow> exn + json" where
  "build_doc s i = (let p = si_parameters i; listeners = map (build_listener s i) (lb_listeners p) in
     case collect (build_cluster s (lb_mtls_enabled p)) (lb_clusters p) of Inl x \<Rightarrow> Inl x
     | Inr clusters \<Rightarrow> Inr (bootstrap_doc listeners
         (clusters @ (if lb_mtls_enabled p \<and> cfg_mesh_sds_enabled s then [sds_cluster s] else [])) ''0.0.0.0''))"

definition render_envoy :: "text_lib \<Rightarrow> env \<Rightarrow> ServiceInstance \<Rightarrow> exn + string" where
  "render_envoy L E i = (case build_doc (cfg E) i of Inl x \<Rightarrow> Inl x
     | Inr doc \<Rightarrow> (case validate_bootstrap E doc of
         Inl x \<Rightarrow> Inl (RenderValidationError (''rendered Envoy config failed schema validation: '' @ env_str_exn E x))
       | Inr _ \<Rightarrow> Inr (tl_yaml_dump L doc)))"

section \<open>The document of a mesh sidecar\<close>

definition SIDECAR_INBOUND_PORT :: int where
  "SIDECAR_INBOUND_PORT = 15006"

definition SIDECAR_OUTBOUND_PORT :: int where
  "SIDECAR_OUTBOUND_PORT = 15001"

definition LOCAL_APP_CLUSTER :: string where
  "LOCAL_APP_CLUSTER = ''local_app''"

definition OUTBOUND_CLUSTER :: string where
  "OUTBOUND_CLUSTER = ''outbound_mtls''"

definition outbound_listener :: dict where
  "outbound_listener =
     [(''name'', JStr ''outbound_mtls''), (''address'', socket_address ''0.0.0.0'' SIDECAR_OUTBOUND_PORT),
      (''listener_filters'', JList [JObj [(''name'', JStr ''envoy.filters.listener.original_dst''),
         (''typed_config'', JObj [(''@type'',
            JStr ''type.googleapis.com/envoy.extensions.filters.listener.original_dst.v3.OriginalDst'')])]]),
      (''filter_chains'', JList [JObj [(''filters'', JList [JObj
         [(''name'', JStr ''envoy.filters.network.tcp_proxy''),
          (''typed_config'', JObj
             [(''@type'', JStr ''type.googleapis.com/envoy.extensions.filters.network.tcp_proxy.v3.TcpProxy''),
              (''stat_prefix'', JStr ''outbound''), (''cluster'', JStr OUTBOUND_CLUSTER)])]])]])]"

definition outbound_cluster :: "settings \<Rightarrow> dict" where
  "outbound_cluster s =
     [(''name'', JStr OUTBOUND_CLUSTER), (''type'', JStr ''ORIGINAL_DST''), (''lb_policy'', JStr ''CLUSTER_PROVIDED''),
      (''connect_timeout'', JStr ''2s''), (''transport_socket'', JObj (upstream_tls_transport_socket s))]"

definition inbound_hcm :: "string \<Rightarrow> bool \<Rightarrow> json" where
  "inbound_hcm service_name with_xfcc = hcm_filter (hcm_config (service_name @ ''_inbound'') ''inbound_routes''
     [(''name'', JStr ''local_app''), (''domains'', jstrs [''*'']),
      (''routes'', JList [JObj [(''match'', JObj [(''prefix'', JStr ''/'')]),
         (''route'', JObj [(''cluster'', JStr LOCAL_APP_CLUSTER)])]])] with_xfcc)"

definition chain_match :: "string \<Rightarrow> json" where
  "chain_match proto = JObj [(''transport_protocol'', JStr proto)]"

definition inbound_chains :: "settings \<Rightarrow> string \<Rightarrow> dict list" where
  "inbound_chains s service_name =
     [(''filter_chain_match'', chain_match ''tls''), (''transport_socket'', JObj (downstream_tls_transport_socket s)),
      (''filters'', JList [inbound_hcm service_name True])] #
     (if cfg_mesh_mtls_strict s then []
      else [[(''filter_chain_match'', chain_match ''raw_buffer''), (''filters'', JList [inbound_hcm service_name False])]])"

definition sidecar_doc :: "settings \<Rightarrow> string \<Rightarrow> int \<Rightarrow> json" where
  "sidecar_doc s service_name app_port = (let
      inbound_listener = [(''name'', JStr ''inbound_mtls''), (''address'', socket_address ''0.0.0.0'' SIDECAR_INBOUND_PORT),
        (''listener_filters'', JList [JObj [(''name'', JStr ''envoy.filters.listener.tls_inspector''),
           (''typed_config'', JObj [(''@type'',
              JStr ''type.googleapis.com/envoy.extensions.filters.listener.tls_inspector.v3.TlsInspector'')])]]),
        (''filter_chains'', JList (map JObj (inbound_chains s service_name)))];
      local_app_cluster = [(''name'', JStr LOCAL_APP_CLUSTER), (''connect_timeout'', JStr ''2s''), (''type'', JStr ''STATIC''),
        (''load_assignment'', load_assignment LOCAL_APP_CLUSTER [lb_endpoint (socket_address ''127.0.0.1'' app_port)])]
     in bootstrap_doc [inbound_listener, outbound_listener]
          ([local_app_cluster, outbound_cluster s] @ (if cfg_mesh_sds_enabled s then [sds_cluster s] else [])) ''127.0.0.1'')"

definition render_sidecar_bootstrap :: "text_lib \<Rightarrow> env \<Rightarrow> string \<Rightarrow> int \<Rightarrow> exn + string" where
  "render_sidecar_bootstrap L E service_name app_port = (let doc = sidecar_doc (cfg E) service_name app_port in
     case validate_bootstrap E doc of
       Inl x \<Rightarrow> Inl (RenderValidationError (''rendered sidecar config failed schema validation: '' @ env_str_exn E x))
     | Inr _ \<Rightarrow> Inr (tl_yaml_dump L doc))"

section \<open>The documents pass the schema check\<close>

lemmas field_defs = req_field_def opt_field_def dfl_field_def absent_field_def

lemma leaf_ok:
  assumes "pydantic_exact E"
  shows "is_str E (JStr t)" "int_in E lo hi (JInt n) \<longleftrightarrow> lo \<le> n \<and> n \<le> hi"
  using assms by (simp_all add: is_str_def int_in_def pydantic_exactD)

lemma valid_socket_address_obj:
  assumes "pydantic_exact E"
  shows "obj_with (valid_address E) (socket_address a p) \<longleftrightarrow> 1 \<le> p \<and> p \<le> 65535"
  using leaf_ok [OF assms] by (simp add: socket_address_def valid_address_def valid_socket_address_def field_defs)

lemma load_assignment_not_null [simp]: "load_assignment n eps \<noteq> JNull"
  by (simp add: load_assignment_def)

lemma valid_load_assignment_obj:
  assumes "pydantic_exact E"
  shows "obj_with (valid_load_assignment E) (load_assignment n eps) \<longleftrightarrow>
    eps \<noteq> [] \<and> list_all (obj_with (valid_lb_endpoint E)) eps"
  using leaf_ok [OF assms] by (simp add: load_assignment_def valid_load_assignment_def field_defs)

lemma valid_lb_endpoint_obj:
  assumes "pydantic_exact E"
  shows "obj_with (valid_lb_endpoint E) (lb_endpoint (socket_address a p)) \<longleftrightarrow> 1 \<le> p \<and> p \<le> 65535"
  using valid_socket_address_obj [OF assms] by (simp add: lb_endpoint_def valid_lb_endpoint_def field_defs)

lemma valid_sds_cluster:
  assumes "pydantic_exact E"
  shows "valid_cluster_config E (sds_cluster s)"
proof -
  have "obj_with (valid_lb_endpoint E) (lb_endpoint (JObj [(''pipe'', JObj [(''path'', JStr q)])]))" for q
    using leaf_ok [OF assms] by (simp add: lb_endpoint_def valid_lb_endpoint_def valid_address_def valid_pipe_def field_defs)
  then show ?thesis
    using leaf_ok [OF assms] valid_load_assignment_obj [OF assms] by (simp add: sds_cluster_def valid_cluster_config_def field_defs)
qed

lemma valid_hcm_config:
  assumes "pydantic_exact E"
  shows "valid_hcm E (hcm_config sp rn vh mtls) \<longleftrightarrow> valid_virtual_host E vh"
  using leaf_ok [OF assms] by (simp add: hcm_config_def valid_hcm_def valid_typed_config_def valid_route_config_def
      valid_http_filter_def router_filter_def xfcc_hcm_fields_def field_defs)

lemma valid_hcm_filter:
  assumes "pydantic_exact E"
  shows "obj_with (valid_network_filter E) (hcm_filter (hcm_config sp rn vh mtls)) \<longleftrightarrow> valid_virtual_host E vh"
proof -
  have "contains_str HCM_TYPE_FRAGMENT HCM_TYPE" by code_simp
  then have "valid_filter_config E (hcm_config sp rn vh mtls) \<longleftrightarrow> valid_virtual_host E vh"
    using valid_hcm_config [OF assms] by (simp add: valid_filter_config_def) (simp add: hcm_config_def)
  then show ?thesis
    using leaf_ok [OF assms] by (simp add: hcm_filter_def valid_network_filter_def field_defs)
qed

lemma route_domains_nonempty: "route_domains rs \<noteq> []"
  by (simp add: route_domains_def Let_def)

lemma set_route_domains: "set (route_domains rs) = (if rs = [] then {''*''} else rt_host ` set rs)"
proof -
  have "sort (remdups (map rt_host rs)) = [] \<longleftrightarrow> rs = []"
    by (metis length_sort length_0_conv map_is_Nil_conv remdups_eq_nil_iff)
  then show ?thesis by (simp add: route_domains_def Let_def)
qed

lemma valid_route_rules:
  assumes "pydantic_exact E"
  shows "list1_of (obj_with (valid_route_rule E)) (JList (route_rules rs))"
  using leaf_ok [OF assms]
  by (simp add: route_rules_def list_all_iff route_rule_def not_found_rule_def valid_route_rule_def valid_route_match_def field_defs)

lemma valid_service_vhost:
  assumes "pydantic_exact E"
  shows "valid_virtual_host E (service_vhost rs)"
  using leaf_ok [OF assms] valid_route_rules [OF assms] route_domains_nonempty
  by (simp add: service_vhost_def valid_virtual_host_def field_defs jstrs_def list_all_iff del: list1_of.simps(1))
     (simp add: list_all_iff)

lemma valid_build_listener:
  assumes "pydantic_exact E"
  shows "valid_listener_config E (build_listener s i l) \<longleftrightarrow> 1 \<le> ln_port l \<and> ln_port l \<le> 65535"
  using leaf_ok [OF assms] valid_hcm_filter [OF assms] valid_service_vhost [OF assms] valid_socket_address_obj [OF assms]
  by (simp add: build_listener_def Let_def valid_listener_config_def field_defs)

text \<open>What an endpoint must look like: a colon and a port number in range after it.\<close>

definition endpoint_port :: "string \<Rightarrow> int option" where
  "endpoint_port ep = (case split_on (CHR '':'') ep of _ # port # _ \<Rightarrow> int_of_str port | _ \<Rightarrow> None)"

definition port_ok :: "int \<Rightarrow> bool" where
  "port_ok p \<longleftrightarrow> 1 \<le> p \<and> p \<le> 65535"

definition endpoint_ok :: "string \<Rightarrow> bool" where
  "endpoint_ok ep \<longleftrightarrow> (case endpoint_port ep of None \<Rightarrow> False | Some p \<Rightarrow> port_ok p)"

lemma collect_ok: "(\<exists>ys. collect f xs = Inr ys) \<longleftrightarrow> (\<forall>x\<in>set xs. \<exists>y. f x = Inr y)"
  by (induction xs) (auto split: sum.splits)

lemma collect_Inr: "collect f xs = Inr ys \<longleftrightarrow> list_all2 (\<lambda>x y. f x = Inr y) xs ys"
proof (induction xs arbitrary: ys)
  case (Cons x xs)
  show ?case by (cases ys) (auto simp: Cons.IH [symmetric] split: sum.splits)
qed auto

lemma build_endpoint_Inr:
  "build_endpoint ep = Inr j \<longleftrightarrow> (\<exists>p. endpoint_port ep = Some p \<and> j = lb_endpoint (socket_address (hd (split_on (CHR '':'') ep)) p))"
  by (auto simp: build_endpoint_def endpoint_port_def split: list.splits option.splits sum.splits)

lemma valid_endpoints:
  assumes E: "pydantic_exact E" and c: "collect build_endpoint eps = Inr js"
  shows "list_all (obj_with (valid_lb_endpoint E)) js \<longleftrightarrow> list_all endpoint_ok eps"
proof -
  from c have "list_all2 (\<lambda>ep j. obj_with (valid_lb_endpoint E) j \<longleftrightarrow> endpoint_ok ep) eps js"
    unfolding collect_Inr
    by (rule list_all2_mono) (auto simp: build_endpoint_Inr endpoint_ok_def port_ok_def valid_lb_endpoint_obj [OF E])
  then show ?thesis by (induction) auto
qed

definition cluster_ok :: "Cluster \<Rightarrow> bool" where
  "cluster_ok c \<longleftrightarrow> cl_endpoints c \<noteq> [] \<and> list_all endpoint_ok (cl_endpoints c)"

lemma build_cluster_Inr:
  "build_cluster s mtls c = Inr d \<longleftrightarrow> (\<exists>js. collect build_endpoint (cl_endpoints c) = Inr js \<and>
     d = [(''name'', JStr (cl_name c)), (''connect_timeout'', JStr ''2s''), (''type'', JStr ''STRICT_DNS''),
         (''load_assignment'', load_assignment (cl_name c) js)] @
         (if mtls then [(''transport_socket'', JObj (upstream_tls_transport_socket s))] else []))"
  by (auto simp: build_cluster_def split: sum.splits)

lemma valid_build_cluster:
  assumes E: "pydantic_exact E" and c: "build_cluster s mtls c = Inr d"
  shows "valid_cluster_config E d \<longleftrightarrow> cluster_ok c"
proof -
  from c obtain js where js: "collect build_endpoint (cl_endpoints c) = Inr js" and
    d: "d = [(''name'', JStr (cl_name c)), (''connect_timeout'', JStr ''2s''), (''type'', JStr ''STRICT_DNS''),
         (''load_assignment'', load_assignment (cl_name c) js)] @
         (if mtls then [(''transport_socket'', JObj (upstream_tls_transport_socket s))] else [])"
    unfolding build_cluster_Inr by blast
  have "js = [] \<longleftrightarrow> cl_endpoints c = []" using js by (auto simp: collect_Inr)
  then show ?thesis
    using leaf_ok [OF E] valid_load_assignment_obj [OF E] valid_endpoints [OF E js]
    by (simp add: d valid_cluster_config_def field_defs cluster_ok_def)
qed

lemma cluster_ok_builds: "cluster_ok c \<Longrightarrow> \<exists>d. build_cluster s mtls c = Inr d"
proof -
  assume "cluster_ok c"
  then have "\<forall>ep\<in>set (cl_endpoints c). \<exists>j. build_endpoint ep = Inr j"
    by (auto simp: cluster_ok_def list_all_iff endpoint_ok_def build_endpoint_Inr split: option.splits)
  then have "\<exists>js. collect build_endpoint (cl_endpoints c) = Inr js" by (simp add: collect_ok)
  then show ?thesis by (auto simp: build_cluster_Inr)
qed

lemma valid_bootstrap_doc:
  assumes "pydantic_exact E"
  shows "obj_with (valid_bootstrap E) (bootstrap_doc ls cs a) \<longleftrightarrow>
    list_all (valid_listener_config E) ls \<and> list_all (valid_cluster_config E) cs"
  using leaf_ok [OF assms] valid_socket_address_obj [OF assms]
  by (simp add: bootstrap_doc_def valid_bootstrap_def valid_static_resources_def valid_admin_def field_defs list_all_iff)

definition params_renderable :: "LbParameters \<Rightarrow> bool" where
  "params_renderable p \<longleftrightarrow> list_all (\<lambda>l. port_ok (ln_port l)) (lb_listeners p) \<and> list_all cluster_ok (lb_clusters p)"

lemma valid_build_doc:
  assumes E: "pydantic_exact E" and d: "build_doc s i = Inr doc"
  shows "obj_with (valid_bootstrap E) doc \<longleftrightarrow> params_renderable (si_parameters i)"
proof -
  let ?p = "si_parameters i"
  from d obtain cs where cs: "collect (build_cluster s (lb_mtls_enabled ?p)) (lb_clusters ?p) = Inr cs"
    and doc: "doc = bootstrap_doc (map (build_listener s i) (lb_listeners ?p))
         (cs @ (if lb_mtls_enabled ?p \<and> cfg_mesh_sds_enabled s then [sds_cluster s] else [])) ''0.0.0.0''"
    by (auto simp: build_doc_def Let_def split: sum.splits)
  from cs have "list_all2 (\<lambda>c d. valid_cluster_config E d \<longleftrightarrow> cluster_ok c) (lb_clusters ?p) cs"
    unfolding collect_Inr by (rule list_all2_mono) (rule valid_build_cluster [OF E])
  then have "list_all (valid_cluster_config E) cs \<longleftrightarrow> list_all cluster_ok (lb_clusters ?p)"
    by (induction) auto
  then show ?thesis
    by (auto simp: doc valid_bootstrap_doc [OF E] valid_sds_cluster [OF E] list_all_iff valid_build_listener [OF E]
        params_renderable_def port_ok_def)
qed

lemma renderable_builds: "params_renderable (si_parameters i) \<Longrightarrow> \<exists>doc. build_doc s i = Inr doc"
proof -
  let ?p = "si_parameters i"
  assume "params_renderable ?p"
  then have "\<exists>cs. collect (build_cluster s (lb_mtls_enabled ?p)) (lb_clusters ?p) = Inr cs"
    using cluster_ok_builds by (auto simp: collect_ok params_renderable_def list_all_iff)
  then show ?thesis by (auto simp: build_doc_def Let_def)
qed

text \<open>Rendering returns exactly for the parameters whose ports are all in range.\<close>

lemma render_envoy_ok:
  assumes E: "pydantic_exact E"
  shows "(\<exists>y. render_envoy L E i = Inr y) \<longleftrightarrow> params_renderable (si_parameters i)"
  using valid_build_doc [OF E, of "cfg E" i] renderable_builds [of i "cfg E"]
  by (auto simp: render_envoy_def validate_bootstrap_def split: sum.splits if_splits)

section \<open>No plaintext hop under mTLS\<close>

text \<open>Reading a document: the value under a path of keys, and the listed objects under one.\<close>

fun jpath :: "string list \<Rightarrow> json \<Rightarrow> json option" where
  "jpath [] v = Some v"
| "jpath (k # ks) (JObj d) = (case map_of d k of None \<Rightarrow> None | Some v \<Rightarrow> jpath ks v)"
| "jpath (k # ks) _ = None"

definition jlist :: "string list \<Rightarrow> json \<Rightarrow> json list" where
  "jlist ks v = (case jpath ks v of Some (JList xs) \<Rightarrow> xs | _ \<Rightarrow> [])"

definition doc_listeners :: "json \<Rightarrow> json list" where
  "doc_listeners = jlist [''static_resources'', ''listeners'']"

definition doc_clusters :: "json \<Rightarrow> json list" where
  "doc_clusters = jlist [''static_resources'', ''clusters'']"

text \<open>A filter chain that terminates TLS, insists on a client certificate, and whose connection
  managers overwrite the forwarded identity.\<close>

definition chain_authenticates :: "json \<Rightarrow> bool" where
  "chain_authenticates ch \<longleftrightarrow>
     jpath [''transport_socket'', ''typed_config'', ''require_client_certificate''] ch = Some (JBool True) \<and>
     (\<forall>f\<in>set (jlist [''filters''] ch).
        jpath [''typed_config'', ''forward_client_cert_details''] f = Some (JStr ''SANITIZE_SET''))"

definition upstream_tls :: "json \<Rightarrow> bool" where
  "upstream_tls c \<longleftrightarrow> jpath [''transport_socket'', ''typed_config'', ''@type''] c =
     Some (JStr ''type.googleapis.com/envoy.extensions.transport_sockets.tls.v3.UpstreamTlsContext'')"

lemma doc_parts [simp]:
  "doc_listeners (bootstrap_doc ls cs a) = map JObj ls"
  "doc_clusters (bootstrap_doc ls cs a) = map JObj cs"
  by (simp_all add: doc_listeners_def doc_clusters_def jlist_def bootstrap_doc_def)

lemma hcm_filter_sanitizes:
  "jpath [''typed_config'', ''forward_client_cert_details''] (hcm_filter (hcm_config sp rn vh True)) = Some (JStr ''SANITIZE_SET'')"
  by (simp add: hcm_filter_def hcm_config_def xfcc_hcm_fields_def)

lemma listener_authenticates:
  assumes "lb_mtls_enabled (si_parameters i)"
  shows "\<forall>ch\<in>set (jlist [''filter_chains''] (JObj (build_listener s i l))). chain_authenticates ch"
  using assms
  by (simp add: build_listener_def Let_def jlist_def chain_authenticates_def hcm_filter_sanitizes downstream_tls_transport_socket_def)

lemma build_doc_Inr:
  assumes "build_doc s i = Inr doc"
  obtains cs where "list_all2 (\<lambda>c d. build_cluster s (lb_mtls_enabled (si_parameters i)) c = Inr d) (lb_clusters (si_parameters i)) cs"
    "doc = bootstrap_doc (map (build_listener s i) (lb_listeners (si_parameters i)))
         (cs @ (if lb_mtls_enabled (si_parameters i) \<and> cfg_mesh_sds_enabled s then [sds_cluster s] else [])) ''0.0.0.0''"
  using assms that by (auto simp: build_doc_def Let_def collect_Inr [symmetric] split: sum.splits)

lemma build_doc_listeners:
  assumes "build_doc s i = Inr doc"
  shows "doc_listeners doc = map (\<lambda>l. JObj (build_listener s i l)) (lb_listeners (si_parameters i))"
  by (rule build_doc_Inr [OF assms]) simp

lemma build_doc_clusters_tls:
  assumes d: "build_doc s i = Inr doc" and m: "lb_mtls_enabled (si_parameters i)" and c: "c \<in> set (doc_clusters doc)"
  shows "upstream_tls c \<or> c = JObj (sds_cluster s)"
proof -
  obtain cs where cs: "list_all2 (\<lambda>c d. build_cluster s True c = Inr d) (lb_clusters (si_parameters i)) cs"
    and doc: "doc = bootstrap_doc (map (build_listener s i) (lb_listeners (si_parameters i)))
         (cs @ (if cfg_mesh_sds_enabled s then [sds_cluster s] else [])) ''0.0.0.0''"
    by (rule build_doc_Inr [OF d]) (use m in simp)
  from cs have "list_all2 (\<lambda>_ d. upstream_tls (JObj d)) (lb_clusters (si_parameters i)) cs"
    by (rule list_all2_mono) (auto simp: build_cluster_Inr upstream_tls_def upstream_tls_transport_socket_def)
  then have "\<forall>d\<in>set cs. upstream_tls (JObj d)" by (induction) auto
  with c show ?thesis by (auto simp: doc split: if_splits)
qed

lemma build_doc_sds:
  assumes "build_doc s i = Inr doc" "lb_mtls_enabled (si_parameters i)" "cfg_mesh_sds_enabled s"
  shows "JObj (sds_cluster s) \<in> set (doc_clusters doc)"
  by (rule build_doc_Inr [OF assms(1)]) (use assms in simp)

lemma sidecar_parts:
  "doc_listeners (sidecar_doc s n p) = [JObj [(''name'', JStr ''inbound_mtls''), (''address'', socket_address ''0.0.0.0'' SIDECAR_INBOUND_PORT),
        (''listener_filters'', JList [JObj [(''name'', JStr ''envoy.filters.listener.tls_inspector''),
           (''typed_config'', JObj [(''@type'',
              JStr ''type.googleapis.com/envoy.extensions.filters.listener.tls_inspector.v3.TlsInspector'')])]]),
        (''filter_chains'', JList (map JObj (inbound_chains s n)))], JObj outbound_listener]"
  by (simp add: sidecar_doc_def)

lemma inbound_chains_authenticate:
  "(\<forall>ch\<in>set (inbound_chains s n). chain_authenticates (JObj ch)) \<longleftrightarrow> cfg_mesh_mtls_strict s"
  by (simp add: inbound_chains_def chain_authenticates_def inbound_hcm_def hcm_filter_sanitizes jlist_def
      downstream_tls_transport_socket_def)

lemma valid_outbound_listener:
  assumes "pydantic_exact E"
  shows "valid_listener_config E outbound_listener"
proof -
  have c: "\<not> contains_str HCM_TYPE_FRAGMENT
      ''type.googleapis.com/envoy.extensions.filters.network.tcp_proxy.v3.TcpProxy''" by code_simp
  show ?thesis
    using c leaf_ok [OF assms] valid_socket_address_obj [OF assms]
    by (simp add: outbound_listener_def valid_listener_config_def valid_network_filter_def valid_filter_config_def field_defs
        SIDECAR_OUTBOUND_PORT_def)
qed

lemma valid_inbound_chain:
  assumes "pydantic_exact E" "ch \<in> set (inbound_chains s n)"
  shows "req_field (list1_of (obj_with (valid_network_filter E))) ''filters'' ch"
proof -
  have "valid_virtual_host E [(''name'', JStr ''local_app''), (''domains'', jstrs [''*'']),
      (''routes'', JList [JObj [(''match'', JObj [(''prefix'', JStr ''/'')]), (''route'', JObj [(''cluster'', JStr c)])]])]" for c
    using leaf_ok [OF assms(1)]
    by (simp add: valid_virtual_host_def valid_route_rule_def valid_route_match_def jstrs_def field_defs)
  then show ?thesis
    using assms(2) valid_hcm_filter [OF assms(1)]
    by (auto simp: inbound_chains_def inbound_hcm_def req_field_def split: if_splits)
qed

text \<open>A sidecar document always passes the schema check, given a port of the application.\<close>

lemma render_sidecar_ok:
  assumes E: "pydantic_exact E"
  shows "(\<exists>y. render_sidecar_bootstrap L E n p = Inr y) \<longleftrightarrow> port_ok p"
proof -
  have "obj_with (valid_bootstrap E) (sidecar_doc s n p) \<longleftrightarrow> port_ok p" for s
  proof -
    have "inbound_chains s n \<noteq> []" by (simp add: inbound_chains_def)
    then have "list1_of (obj_with (req_field (list1_of (obj_with (valid_network_filter E))) ''filters''))
        (JList (map JObj (inbound_chains s n)))"
      using valid_inbound_chain [OF E] by (simp add: list_all_iff)
    then show ?thesis
      using leaf_ok [OF E] valid_socket_address_obj [OF E] valid_outbound_listener [OF E] valid_sds_cluster [OF E]
        valid_load_assignment_obj [OF E] valid_lb_endpoint_obj [OF E]
      by (auto simp: sidecar_doc_def valid_bootstrap_doc [OF E] valid_listener_config_def valid_cluster_config_def
          outbound_cluster_def field_defs SIDECAR_INBOUND_PORT_def port_ok_def simp del: list1_of.simps(1))
  qed
  then show ?thesis by (auto simp: render_sidecar_bootstrap_def Let_def validate_bootstrap_def split: if_splits)
qed

section \<open>Two shortcomings of the document\<close>

text \<open>An endpoint without a port ends the rendering with an exception that is not a validation error.\<close>

lemma collect_all: "collect f xs = Inr ys \<Longrightarrow> x \<in> set xs \<Longrightarrow> \<exists>y. f x = Inr y"
  by (induction xs arbitrary: ys) (auto split: sum.splits)

lemma collect_Inl: "collect f xs = Inl e \<Longrightarrow> \<exists>x\<in>set xs. f x = Inl e"
  by (induction xs) (auto split: sum.splits)

lemma build_doc_Inl:
  assumes "build_doc s i = Inl x"
  shows "(\<exists>m. x = IndexError m) \<or> (\<exists>m. x = ValueError m)"
proof -
  from assms obtain c where "build_cluster s (lb_mtls_enabled (si_parameters i)) c = Inl x"
    by (auto simp: build_doc_def Let_def dest!: collect_Inl split: sum.splits)
  then obtain ep where "build_endpoint ep = Inl x"
    by (auto simp: build_cluster_def dest!: collect_Inl split: sum.splits)
  then show ?thesis
    by (auto simp: build_endpoint_def split: list.splits sum.splits option.splits)
qed

lemma no_colon_no_port: "CHR '':'' \<notin> set ep \<Longrightarrow> endpoint_port ep = None"
  by (simp add: endpoint_port_def split_on_id)

lemma bad_endpoint_fails:
  assumes "c \<in> set (lb_clusters (si_parameters i))" "ep \<in> set (cl_endpoints c)" "endpoint_port ep = None"
  shows "\<exists>x. build_doc s i = Inl x"
proof (cases "build_doc s i")
  case (Inr doc)
  then obtain cs where "collect (build_cluster s (lb_mtls_enabled (si_parameters i))) (lb_clusters (si_parameters i)) = Inr cs"
    by (auto simp: build_doc_def Let_def split: sum.splits)
  then have "\<exists>d. build_cluster s (lb_mtls_enabled (si_parameters i)) c = Inr d"
    using assms(1) by (rule collect_all)
  then have "\<exists>js. collect build_endpoint (cl_endpoints c) = Inr js" by (auto simp: build_cluster_Inr)
  then have "\<exists>j. build_endpoint ep = Inr j" using assms(2) by (auto dest: collect_all)
  with assms(3) show ?thesis by (simp add: build_endpoint_Inr)
qed auto

text \<open>The routes of all hosts share one virtual host: a request for one host is matched against the
  routes of every other.\<close>

lemma service_vhost_merges_hosts:
  assumes "r \<in> set rs" "r' \<in> set rs"
  shows "JStr (rt_host r) \<in> set (jlist [''domains''] (JObj (service_vhost rs))) \<and>
    route_rule r' \<in> set (jlist [''routes''] (JObj (service_vhost rs)))"
proof -
  have "rs \<noteq> []" using assms by auto
  with assms show ?thesis
    by (auto simp: service_vhost_def jlist_def jstrs_def set_route_domains route_rules_def)
qed

end
