(* ===== verification/Renderers.thy ===== *)
theory Renderers
  imports Executors Envoy
begin

text \<open>
  Models of \<open>libs/common/sovereign/renderers/\<close>: artifacts, the renderer interface as a record of its
  methods, the renderer registry (an interpretation of \<open>registry\<close>) and the Envoy renderer over
  the document of theory Envoy. What it renders it validates and applies, it deletes only what it
  put, and its drift check can never tell drift.
\<close>

section \<open>Artifacts and renderers\<close>

record RenderedArtifact =
  ra_instance_id :: string
  ra_service_type :: string
  ra_version :: int
  ra_config_files :: "(string \<times> string) list"
  ra_metadata :: dict
  ra_deployment_manifest :: "DeploymentStep list"
  ra_rendered_at :: datetime

record ValidationResult =
  vr_ok :: bool
  vr_errors :: "string list"
  vr_warnings :: "string list"

record TeardownResult =
  tr_ok :: bool
  tr_removed :: "string list"
  tr_failed :: "string list"
  tr_detail :: string

record renderer =
  rd_service_type :: string
  rd_render :: "env \<Rightarrow> ServiceInstance \<Rightarrow> RenderedArtifact prog"
  rd_validate :: "env \<Rightarrow> RenderedArtifact \<Rightarrow> ValidationResult prog"
  rd_apply :: "env \<Rightarrow> RenderedArtifact \<Rightarrow> ApplyResult prog"
  rd_diff :: "env \<Rightarrow> RenderedArtifact \<Rightarrow> ManifestDiff prog"
  rd_teardown :: "env \<Rightarrow> ServiceInstance \<Rightarrow> TeardownResult prog"

text \<open>The constructor checks the version and stamps the time.\<close>

definition new_artifact :: "env \<Rightarrow> ServiceInstance \<Rightarrow> string \<Rightarrow> (string \<times> string) list \<Rightarrow> dict \<Rightarrow> DeploymentStep list \<Rightarrow>
    RenderedArtifact prog" where
  "new_artifact E i service_type files meta manifest =
     (if si_version i < 1 then throw (ValidationError ''RenderedArtifact'')
      else bind_io (now_io E) (\<lambda>now. ret \<lparr>ra_instance_id = si_instance_id i, ra_service_type = service_type,
        ra_version = si_version i, ra_config_files = files, ra_metadata = meta,
        ra_deployment_manifest = manifest, ra_rendered_at = now\<rparr>))"

lemma new_artifact_run:
  "new_artifact E i st files meta man h = (Inr a, h') \<longleftrightarrow> 1 \<le> si_version i \<and> h' = h \<and>
     a = \<lparr>ra_instance_id = si_instance_id i, ra_service_type = st, ra_version = si_version i, ra_config_files = files,
       ra_metadata = meta, ra_deployment_manifest = man, ra_rendered_at = env_now E h\<rparr>"
  by (auto simp: new_artifact_def run_ok)

text \<open>\<open>BaseRenderer.diff\<close>\<close>

definition base_diff :: "executors \<Rightarrow> env \<Rightarrow> RenderedArtifact \<Rightarrow> ManifestDiff prog" where
  "base_diff reg E a = diff_manifest reg E (ra_deployment_manifest a)"

section \<open>The renderer registry\<close>

type_synonym renderers = "(string \<times> renderer) list"

definition register_renderer :: "renderer \<Rightarrow> renderers \<Rightarrow> exn + renderers" where
  "register_renderer r rs = (if rd_service_type r = []
     then Inl (ValueError ''renderer has no `service_type`; cannot register'')
     else Inr (AList.update (rd_service_type r) r rs))"

definition get_renderer :: "renderers \<Rightarrow> string \<Rightarrow> renderer option" where
  "get_renderer rs k = map_of rs k"

definition require_renderer :: "renderers \<Rightarrow> string \<Rightarrow> exn + renderer" where
  "require_renderer rs k = (case get_renderer rs k of Some r \<Rightarrow> Inr r
     | None \<Rightarrow> Inl (KeyError (''no renderer registered for service_type '' @ py_repr k)))"

definition service_types :: "renderers \<Rightarrow> string list" where
  "service_types rs = sort (remdups (map fst rs))"

interpretation renderer_registry: registry rd_service_type register_renderer get_renderer service_types "[]"
proof unfold_locales
  show "set (service_types r) = {k. get_renderer r k \<noteq> None}" for r
    unfolding service_types_def get_renderer_def by (rule listing_alist)
qed (auto simp: register_renderer_def get_renderer_def service_types_def update_conv split: if_splits)

section \<open>The Envoy renderer\<close>

definition key_for :: "string \<Rightarrow> int \<Rightarrow> string \<Rightarrow> string" where
  "key_for iid version filename = ''instances/'' @ iid @ ''/v'' @ str_of_int version @ ''/'' @ filename"

definition envoy_manifest :: "settings \<Rightarrow> ServiceInstance \<Rightarrow> DeploymentStep list" where
  "envoy_manifest s i =
     [\<lparr>st_kind = ''s3-put'', st_target = key_for (si_instance_id i) (si_version i) ''envoy.yaml'',
        st_payload = [(''bucket'', JStr (cfg_config_bucket s)), (''content_type'', JStr ''application/x-yaml'')]\<rparr>,
      \<lparr>st_kind = ''envoy-snapshot'', st_target = si_instance_id i,
        st_payload = [(''version'', JInt (si_version i))]\<rparr>]"

definition envoy_render :: "text_lib \<Rightarrow> env \<Rightarrow> ServiceInstance \<Rightarrow> RenderedArtifact prog" where
  "envoy_render L E i = bind_io (lift_res (build_doc (cfg E) i)) (\<lambda>doc.
     case validate_bootstrap E doc of
       Inl x \<Rightarrow> throw (RenderValidationError (''rendered Envoy config failed schema validation: '' @ env_str_exn E x))
     | Inr _ \<Rightarrow> new_artifact E i ''sovereign-envoy-lb'' [(''envoy.yaml'', tl_yaml_dump L doc)]
         [(''listener_count'', JInt (int (length (lb_listeners (si_parameters i))))),
          (''cluster_count'', JInt (int (length (lb_clusters (si_parameters i))))),
          (''route_count'', JInt (int (length (lb_routes (si_parameters i)))))]
         (envoy_manifest (cfg E) i))"

definition invalid_result :: "string \<Rightarrow> ValidationResult" where
  "invalid_result m = \<lparr>vr_ok = False, vr_errors = [m], vr_warnings = []\<rparr>"

definition envoy_validate :: "text_lib \<Rightarrow> env \<Rightarrow> RenderedArtifact \<Rightarrow> ValidationResult prog" where
  "envoy_validate L E a = (case map_of (ra_config_files a) ''envoy.yaml'' of
     None \<Rightarrow> ret (invalid_result ''missing envoy.yaml in artifact'')
   | Some body \<Rightarrow> (case tl_yaml_load L body of Inl m \<Rightarrow> ret (invalid_result m)
       | Inr doc \<Rightarrow> (case validate_bootstrap E doc of Inl x \<Rightarrow> ret (invalid_result (env_str_exn E x))
           | Inr _ \<Rightarrow> ret \<lparr>vr_ok = True, vr_errors = [], vr_warnings = []\<rparr>)))"

text \<open>\<open>target.rsplit("/", 1)[-1]\<close>\<close>

definition basename :: "string \<Rightarrow> string" where
  "basename s = rev (takeWhile (\<lambda>c. c \<noteq> CHR ''/'') (rev s))"

text \<open>A bucket or content type that is not a string fails boto's parameter validation.\<close>

definition s3_param :: "json \<Rightarrow> string prog" where
  "s3_param j = (case j of JStr s \<Rightarrow> ret s | _ \<Rightarrow> throw (BotoCoreError ''Parameter validation failed''))"

definition is_aws_error :: "exn \<Rightarrow> bool" where
  "is_aws_error x \<longleftrightarrow> is_ClientError x \<or> is_BotoCoreError x"

fun envoy_apply_loop :: "env \<Rightarrow> RenderedArtifact \<Rightarrow> DeploymentStep list \<Rightarrow> DeploymentStep list \<Rightarrow> ApplyResult prog" where
  "envoy_apply_loop E a applied [] = ret (apply_done applied)"
| "envoy_apply_loop E a applied (step # steps) =
     (if st_kind step = ''s3-put'' then
        (case map_of (ra_config_files a) (basename (st_target step)) of
           None \<Rightarrow> ret (apply_failed applied step (''no config_files entry for '' @ py_repr (basename (st_target step))))
         | Some body \<Rightarrow> bind_io
             (catch_io
               (bind_io (s3_param (jget_or (st_payload step) ''bucket'' (JStr (cfg_config_bucket (cfg E))))) (\<lambda>bucket.
                bind_io (s3_param (jget_or (st_payload step) ''content_type'' (JStr ''application/octet-stream''))) (\<lambda>ct.
                seq_io (s3_put E bucket (st_target step) body ct) (ret None))))
               (\<lambda>x. if is_aws_error x then ret (Some (''S3 put failed: '' @ env_str_exn E x)) else throw x))
             (\<lambda>err. case err of Some d \<Rightarrow> ret (apply_failed applied step d)
                | None \<Rightarrow> envoy_apply_loop E a (applied @ [step]) steps))
      else if st_kind step = ''envoy-snapshot'' then envoy_apply_loop E a (applied @ [step]) steps
      else envoy_apply_loop E a applied steps)"

definition envoy_apply :: "env \<Rightarrow> RenderedArtifact \<Rightarrow> ApplyResult prog" where
  "envoy_apply E a = envoy_apply_loop E a [] (ra_deployment_manifest a)"

definition delete_object_step :: "env \<Rightarrow> string \<Rightarrow> string list \<times> string list \<Rightarrow> (string list \<times> string list) prog" where
  "delete_object_step E key acc = (case acc of (removed, failed) \<Rightarrow>
     catch_io (seq_io (s3_delete E (cfg_config_bucket (cfg E)) key) (ret (removed @ [key], failed)))
       (\<lambda>x. if is_aws_error x then ret (removed, failed @ [key @ '': '' @ env_str_exn E x]) else throw x))"

definition envoy_teardown :: "env \<Rightarrow> ServiceInstance \<Rightarrow> TeardownResult prog" where
  "envoy_teardown E i =
     bind_io (s3_list E (cfg_config_bucket (cfg E)) (''instances/'' @ si_instance_id i @ ''/'')) (\<lambda>(pages, err).
     bind_io (fold_io (delete_object_step E) (concat pages) ([], [])) (\<lambda>(removed, failed).
     case err of
       Some x \<Rightarrow> ret \<lparr>tr_ok = False, tr_removed = removed, tr_failed = failed, tr_detail = env_str_exn E (aws_exn x)\<rparr>
     | None \<Rightarrow> ret \<lparr>tr_ok = (failed = []), tr_removed = removed, tr_failed = failed, tr_detail = []\<rparr>))"

definition EnvoyRenderer :: "text_lib \<Rightarrow> executors \<Rightarrow> renderer" where
  "EnvoyRenderer L reg = \<lparr>rd_service_type = ''sovereign-envoy-lb'', rd_render = envoy_render L,
     rd_validate = envoy_validate L, rd_apply = envoy_apply, rd_diff = base_diff reg, rd_teardown = envoy_teardown\<rparr>"

section \<open>Properties\<close>

lemma basename_key: "CHR ''/'' \<notin> set f \<Longrightarrow> basename (key_for iid v f) = f"
proof -
  assume f: "CHR ''/'' \<notin> set f"
  have "takeWhile (\<lambda>c. c \<noteq> CHR ''/'') (rev f @ CHR ''/'' # xs) = rev f" for xs
    using f by (subst takeWhile_append2) auto
  then show ?thesis by (simp add: basename_def key_for_def)
qed

text \<open>What the renderer renders it can also apply: one object is written, under the versioned key.\<close>

lemma envoy_render_apply:
  assumes "envoy_render L E i h = (Inr a, h1)"
  shows "wp (envoy_apply E a) (\<lambda>r h'. \<exists>resp. h' = h1 @ [EvS3Put (cfg_config_bucket (cfg E))
        (key_for (si_instance_id i) (si_version i) ''envoy.yaml'') (the (map_of (ra_config_files a) ''envoy.yaml''))
        ''application/x-yaml'' resp] \<and> (case resp of
          Inr _ \<Rightarrow> ar_ok r \<and> ar_applied_steps r = ra_deployment_manifest a
        | Inl _ \<Rightarrow> \<not> ar_ok r \<and> ar_applied_steps r = [] \<and> ar_failed_step r = Some (hd (ra_deployment_manifest a))))
      (\<lambda>_ _. False) h1"
proof -
  from assms obtain doc where "build_doc (cfg E) i = Inr doc"
    by (auto simp: envoy_render_def run_ok)
  with assms have a: "ra_config_files a = [(''envoy.yaml'', tl_yaml_dump L doc)] \<and>
      ra_deployment_manifest a = envoy_manifest (cfg E) i"
    by (cases "validate_bootstrap E doc") (simp_all add: envoy_render_def bind_io_def new_artifact_run)
  have aws: "is_aws_error (aws_exn x)" for x by (cases x) (simp_all add: is_aws_error_def)
  from a aws show ?thesis
    by (auto simp: envoy_apply_def envoy_manifest_def s3_param_def jget_or_def basename_key wp_simps
        apply_failed_def apply_done_def split: sum.split)
qed

text \<open>What the renderer renders passes its own validation.\<close>

lemma envoy_render_validates:
  assumes "text_lib_exact L" "envoy_render L E i h = (Inr a, h1)"
  shows "envoy_validate L E a h1 = (Inr \<lparr>vr_ok = True, vr_errors = [], vr_warnings = []\<rparr>, h1)"
proof -
  from assms(2) obtain doc where d: "build_doc (cfg E) i = Inr doc"
    by (auto simp: envoy_render_def run_ok)
  with assms(2) have "validate_bootstrap E doc = Inr () \<and> ra_config_files a = [(''envoy.yaml'', tl_yaml_dump L doc)]"
    by (cases "validate_bootstrap E doc") (simp_all add: envoy_render_def bind_io_def new_artifact_run)
  with assms(1) show ?thesis by (simp add: envoy_validate_def text_lib_exact_def)
qed

text \<open>Teardown only touches the configuration bucket and accounts for every listed object.\<close>

lemma is_aws_error_aws_exn [simp]: "is_aws_error (aws_exn x)"
  by (cases x) (simp_all add: is_aws_error_def)

lemma delete_object_step_account:
  "wp (delete_object_step E k acc)
     (\<lambda>acc' _. length (fst acc') + length (snd acc') = Suc (length (fst acc) + length (snd acc)) \<and>
        set (fst acc') \<subseteq> insert k (set (fst acc))) (\<lambda>_ _. False) h"
  by (cases acc) (auto simp: delete_object_step_def wp_simps split: sum.split)

lemma delete_objects_account:
  "wp (fold_io (delete_object_step E) keys acc)
     (\<lambda>acc' _. length (fst acc') + length (snd acc') = length (fst acc) + length (snd acc) + length keys \<and>
        set (fst acc') \<subseteq> set (fst acc) \<union> set keys) (\<lambda>_ _. False) h"
proof (induction keys arbitrary: acc h)
  case (Cons k ks)
  show ?case
    unfolding fold_io.simps wp_bind
    by (rule wp_mono [OF delete_object_step_account], rule wp_mono [OF Cons.IH]) auto
qed (simp add: wp_simps)

text \<open>With the default executors the base diff cannot check an \<open>s3-put\<close> step: an Envoy instance is
  always reported \<open>unknown\<close> and never drifted.\<close>

lemma envoy_diff_unknown:
  assumes "register_default_executors [] = Inr reg" "ra_deployment_manifest a = envoy_manifest s i"
  shows "\<exists>md. base_diff reg E a h = (Inr md, h) \<and> md_unknown md \<and> \<not> md_drifted md"
proof -
  have reg: "get_executor reg ''s3-put'' = None" "get_executor reg ''envoy-snapshot'' = Some NoopExecutor"
    using executor_registry.lookup_register_all [OF assms(1) [unfolded register_default_executors_def]]
    by (auto simp: NoopExecutor_def KubernetesExecutor_def HelmExecutor_def TerraformExecutor_def
        WebhookExecutor_def get_executor_def)
  then show ?thesis
    using assms(2) by (simp add: base_diff_def diff_manifest_def envoy_manifest_def NoopExecutor_def
        default_diff_def diff_note_def compared_def)
qed

end
