(* ===== verification/AuditTrail.thy ===== *)
theory AuditTrail
  imports Security "HOL-Library.Multiset"
begin

text \<open>
  Models of the audit pipeline: the client \<open>libs/common/sovereign/audit.py\<close> and the metering client
  \<open>metering.py\<close> (best effort, never raise), event signing \<open>audit_signing.py\<close>, the disk spool
  \<open>audit_spool.py\<close>, and the ingestion service \<open>apps/audit-service/app/main.py\<close> with its hash
  chain, ring buffer and ClickHouse inserts. ClickHouse, the disk and the cryptographic
  primitives are the record \<open>audit_world\<close>.
\<close>

section \<open>The emitting clients\<close>

definition rstrip_slash :: "string \<Rightarrow> string" where
  "rstrip_slash s = rstrip_if (\<lambda>c. c = CHR ''/'') s"

text \<open>\<open>httpx\<close> transport errors are logged and dropped; the response is only logged.\<close>

definition best_effort_post :: "env \<Rightarrow> string \<Rightarrow> dict \<Rightarrow> unit prog" where
  "best_effort_post E url body = catch_io
     (bind_io (service_auth_headers E) (\<lambda>headers.
      seq_io (http_io E \<lparr>rq_method = ''POST'', rq_url = url, rq_headers = headers, rq_body = JObj body\<rparr>)
        (ret ())))
     (\<lambda>x. if is_HTTPError x then ret () else throw x)"

definition audit_event :: "string \<Rightarrow> string \<Rightarrow> string \<Rightarrow> string \<Rightarrow> string \<Rightarrow> string option \<Rightarrow> string \<Rightarrow> string \<Rightarrow> dict \<Rightarrow> AuditEvent" where
  "audit_event service now action resource details actor tenant_id decision metadata =
     (let meta = (if details \<noteq> [] then setdefault ''details'' (JStr details) metadata else metadata)
      in \<lparr>ae_ts = now, ae_tenant_id = tenant_id, ae_actor = str_or actor ''system'', ae_action = action,
          ae_resource = resource, ae_decision = decision,
          ae_metadata = setdefault ''emitted_by'' (JStr service) meta,
          ae_previous_hash = None, ae_event_hash = None, ae_signature_key_id = None, ae_signature = None\<rparr>)"

definition audit_emit :: "env \<Rightarrow> string \<Rightarrow> string \<Rightarrow> string \<Rightarrow> string \<Rightarrow> string option \<Rightarrow> string \<Rightarrow> string \<Rightarrow> dict \<Rightarrow> unit prog" where
  "audit_emit E service action resource details actor tenant_id decision metadata =
     bind_io (now_io E) (\<lambda>now. best_effort_post E (rstrip_slash (cfg_audit_service_url (cfg E)) @ ''/events'')
       (dump_event E (audit_event service now action resource details actor tenant_id decision metadata)))"

definition metering_record :: "env \<Rightarrow> string \<Rightarrow> string \<Rightarrow> string \<Rightarrow> string \<Rightarrow> rat \<Rightarrow> string \<Rightarrow> dict \<Rightarrow> unit prog" where
  "metering_record E service tenant_id resource_id resource_type quantity unit metadata =
     (if quantity < 0 then throw (ValidationError ''Usage'') else
      bind_io (now_io E) (\<lambda>now. best_effort_post E (rstrip_slash (cfg_metering_service_url (cfg E)) @ ''/usage'')
       (dump_usage E \<lparr>us_ts = now, us_tenant_id = tenant_id, us_resource_id = resource_id,
          us_resource_type = resource_type, us_quantity = quantity, us_unit = unit,
          us_metadata = setdefault ''emitted_by'' (JStr service) metadata\<rparr>)))"

section \<open>Signing, hashing, ClickHouse and the disk\<close>

text \<open>\<open>aw_sha256\<close> is \<open>hashlib.sha256(...).hexdigest()\<close>, \<open>aw_canonical\<close> is \<open>json.dumps\<close> with sorted
  keys, \<open>aw_sign\<close> the base64 signature of a PEM key (or its failure). The other fields say how the
  n-th interaction of each kind ends.\<close>

record audit_world =
  aw_env :: env
  aw_sha256 :: "string \<Rightarrow> string"
  aw_canonical :: "json \<Rightarrow> string"
  aw_sign :: "string \<Rightarrow> string \<Rightarrow> exn + string"
  aw_connect :: "nat \<Rightarrow> bool"
  aw_insert :: "nat \<Rightarrow> bool"
  aw_append :: "nat \<Rightarrow> bool"
  aw_read :: "nat \<Rightarrow> bool"
  aw_unlink :: "nat \<Rightarrow> bool"

abbreviation acfg :: "audit_world \<Rightarrow> settings" where
  "acfg W \<equiv> cfg (aw_env W)"

definition canonical_signing_payload :: "audit_world \<Rightarrow> AuditEvent \<Rightarrow> string" where
  "canonical_signing_payload W e = aw_canonical W (JObj (filter (\<lambda>(k, _). k \<notin> {''signature'', ''signature_key_id''})
     (dump_event (aw_env W) e)))"

definition sign_audit_event :: "audit_world \<Rightarrow> AuditEvent \<Rightarrow> exn + AuditEvent" where
  "sign_audit_event W e = (if truthy (ae_signature e) then Inr e
     else let pem = strip (cfg_audit_signing_private_key_pem (acfg W)) in
       if pem = [] then
         (if cfg_require_audit_signing (acfg W)
          then Inl (RuntimeError ''audit signing is required but no private key is configured'') else Inr e)
       else (case aw_sign W pem (canonical_signing_payload W e) of Inl x \<Rightarrow> Inl x
         | Inr sig \<Rightarrow> Inr (e\<lparr>ae_signature_key_id := Some (cfg_audit_signature_key_id (acfg W)),
                            ae_signature := Some sig\<rparr>)))"

section \<open>The service: state\<close>

text \<open>A row is the event as inserted; \<open>json.dumps(metadata, sort_keys=True)\<close> and back is
  \<open>sorted_json\<close>.\<close>

fun sorted_json :: "json \<Rightarrow> json" where
  "sorted_json (JList xs) = JList (map sorted_json xs)"
| "sorted_json (JObj d) = JObj (sort_key fst (map (\<lambda>(k, v). (k, sorted_json v)) d))"
| "sorted_json j = j"

definition sorted_dict :: "dict \<Rightarrow> dict" where
  "sorted_dict d = sort_key fst (map (\<lambda>(k, v). (k, sorted_json v)) d)"

record audit_state =
  as_buffer :: "AuditEvent list"
  as_spool :: "AuditEvent list option"
  as_last_hash :: "string option"
  as_connected :: bool
  as_table :: "AuditEvent list"
  as_exported :: "AuditEvent list"
  as_tick :: nat

definition BUFFER_CAP :: nat where
  "BUFFER_CAP = 1000"

definition initial_audit_state :: "settings \<Rightarrow> audit_state" where
  "initial_audit_state s = \<lparr>as_buffer = [],
     as_spool = (if cfg_audit_spool_path s \<noteq> [] then Some [] else None), as_last_hash = None,
     as_connected = False, as_table = [], as_exported = [], as_tick = 0\<rparr>"

section \<open>Chaining\<close>

definition canonical_event_payload :: "audit_world \<Rightarrow> AuditEvent \<Rightarrow> string" where
  "canonical_event_payload W e = aw_canonical W (JObj (filter
     (\<lambda>(k, _). k \<notin> {''event_hash'', ''signature_key_id'', ''signature''}) (dump_event (aw_env W) e)))"

definition chain_event :: "audit_world \<Rightarrow> AuditEvent \<Rightarrow> audit_state \<Rightarrow> AuditEvent \<times> audit_state" where
  "chain_event W e st = (let chained = e\<lparr>ae_previous_hash := as_last_hash st, ae_event_hash := None\<rparr>;
       hash = aw_sha256 W (canonical_event_payload W chained)
     in (chained\<lparr>ae_event_hash := Some hash\<rparr>, st\<lparr>as_last_hash := Some hash\<rparr>))"

definition ensure_chained :: "audit_world \<Rightarrow> AuditEvent \<Rightarrow> audit_state \<Rightarrow> AuditEvent \<times> audit_state" where
  "ensure_chained W e st = (if truthy (ae_event_hash e) then (e, st) else chain_event W e st)"

definition prepare_event :: "audit_world \<Rightarrow> AuditEvent \<Rightarrow> audit_state \<Rightarrow> (exn + AuditEvent) \<times> audit_state" where
  "prepare_event W e st = (case ensure_chained W e st of (e', st') \<Rightarrow> (sign_audit_event W e', st'))"

section \<open>Buffer, spool, inserts\<close>

text \<open>\<open>deque(maxlen=cap).append\<close>\<close>

definition deque_append :: "nat \<Rightarrow> 'a \<Rightarrow> 'a list \<Rightarrow> 'a list" where
  "deque_append cap x xs = (if length xs < cap then xs @ [x] else tl (xs @ [x]))"

definition spool_append :: "audit_world \<Rightarrow> AuditEvent \<Rightarrow> audit_state \<Rightarrow> bool \<times> audit_state" where
  "spool_append W e st = (case as_spool st of None \<Rightarrow> (False, st)
     | Some es \<Rightarrow> if aw_append W (as_tick st)
         then (True, st\<lparr>as_spool := Some (es @ [e]), as_tick := as_tick st + 1\<rparr>)
         else (False, st\<lparr>as_tick := as_tick st + 1\<rparr>))"

definition spool_drain :: "audit_world \<Rightarrow> audit_state \<Rightarrow> AuditEvent list \<times> audit_state" where
  "spool_drain W st = (case as_spool st of None \<Rightarrow> ([], st)
     | Some es \<Rightarrow> if \<not> aw_read W (as_tick st) then ([], st\<lparr>as_tick := as_tick st + 1\<rparr>)
         else (es, st\<lparr>as_spool := Some (if aw_unlink W (as_tick st) then [] else es),
                     as_tick := as_tick st + 1\<rparr>))"

definition buffer_or_spool :: "audit_world \<Rightarrow> AuditEvent \<Rightarrow> audit_state \<Rightarrow> string \<times> audit_state" where
  "buffer_or_spool W e st =
     (if length (as_buffer st) < BUFFER_CAP then
        (''buffer'', st\<lparr>as_buffer := deque_append BUFFER_CAP e (as_buffer st)\<rparr>)
      else (case spool_append W e st of
         (True, st') \<Rightarrow> (''spool'', st')
       | (False, st') \<Rightarrow> (''dropped'', st'\<lparr>as_buffer := deque_append BUFFER_CAP e (as_buffer st')\<rparr>)))"

definition connect :: "audit_world \<Rightarrow> audit_state \<Rightarrow> bool \<times> audit_state" where
  "connect W st = (if as_connected st then (True, st)
     else let ok = aw_connect W (as_tick st)
          in (ok, st\<lparr>as_connected := ok, as_tick := as_tick st + 1\<rparr>))"

definition event_row :: "AuditEvent \<Rightarrow> AuditEvent" where
  "event_row e = e\<lparr>ae_metadata := sorted_dict (ae_metadata e), ae_event_hash := Some (str_or (ae_event_hash e) [])\<rparr>"

definition insert_rows :: "audit_world \<Rightarrow> AuditEvent list \<Rightarrow> audit_state \<Rightarrow> bool \<times> audit_state" where
  "insert_rows W rows st = (let st' = st\<lparr>as_tick := as_tick st + 1\<rparr> in
     if aw_insert W (as_tick st) then (True, st'\<lparr>as_table := as_table st @ rows\<rparr>) else (False, st'))"

text \<open>Popping and preparing the whole buffer; an exception leaves the events popped so far out.\<close>

fun drain_rows :: "audit_world \<Rightarrow> AuditEvent list \<Rightarrow> AuditEvent list \<Rightarrow> audit_state \<Rightarrow>
    (exn + AuditEvent list) \<times> audit_state" where
  "drain_rows W [] rows st = (Inr rows, st\<lparr>as_buffer := []\<rparr>)"
| "drain_rows W (e # es) rows st = (case prepare_event W e (st\<lparr>as_buffer := es\<rparr>) of
     (Inl x, st') \<Rightarrow> (Inl x, st')
   | (Inr e', st') \<Rightarrow> drain_rows W es (rows @ [event_row e']) st')"

fun requeue :: "AuditEvent list \<Rightarrow> AuditEvent list \<Rightarrow> AuditEvent list" where
  "requeue [] buf = buf"
| "requeue (r # rs) buf = requeue rs (r # (if BUFFER_CAP \<le> length buf then tl buf else buf))"

definition flush_buffer :: "audit_world \<Rightarrow> audit_state \<Rightarrow> (exn + nat) \<times> audit_state" where
  "flush_buffer W st = (case drain_rows W (as_buffer st) [] st of
     (Inl x, st1) \<Rightarrow> (Inl x, st1)
   | (Inr rows, st1) \<Rightarrow>
       if rows = [] then (Inr 0, st1)
       else (case insert_rows W rows st1 of
          (True, st2) \<Rightarrow> (Inr (length rows), st2)
        | (False, st2) \<Rightarrow> (Inr 0, st2\<lparr>as_buffer := requeue (rev rows) (as_buffer st2)\<rparr>)))"

definition export_to_siem :: "audit_world \<Rightarrow> AuditEvent \<Rightarrow> audit_state \<Rightarrow> audit_state" where
  "export_to_siem W e st = (if cfg_siem_webhook_url (acfg W) = [] then st
     else st\<lparr>as_exported := as_exported st @ [e]\<rparr>)"

section \<open>POST /events\<close>

record ingest_response =
  ir_accepted :: bool
  ir_key :: string
  ir_persisted :: bool
  ir_buffered :: bool

definition event_key :: "AuditEvent \<Rightarrow> string" where
  "event_key e = ae_ts e @ ''|'' @ ae_tenant_id e @ ''|'' @ ae_action e @ ''|'' @ ae_resource e"

definition buffered_response :: "audit_world \<Rightarrow> AuditEvent \<Rightarrow> audit_state \<Rightarrow> (exn + ingest_response) \<times> audit_state" where
  "buffered_response W e st = (case buffer_or_spool W e st of (_, st') \<Rightarrow>
     (Inr \<lparr>ir_accepted = True, ir_key = event_key e, ir_persisted = False, ir_buffered = True\<rparr>,
      export_to_siem W e st'))"

text \<open>The \<open>try\<close> block after the first flush: the spool drain and second flush happen only after a
  successful insert; an exception there buffers the event again.\<close>

definition drain_spool_into_buffer :: "audit_world \<Rightarrow> audit_state \<Rightarrow> audit_state" where
  "drain_spool_into_buffer W st = (case spool_drain W st of (es, st') \<Rightarrow>
     st'\<lparr>as_buffer := fold (deque_append BUFFER_CAP) es (as_buffer st')\<rparr>)"

definition ingest_event :: "audit_world \<Rightarrow> AuditEvent \<Rightarrow> audit_state \<Rightarrow> (exn + ingest_response) \<times> audit_state" where
  "ingest_event W event st = (case prepare_event W event st of
     (Inl x, st1) \<Rightarrow> (Inl x, st1)
   | (Inr e, st1) \<Rightarrow> (case connect W st1 of
       (False, st2) \<Rightarrow> buffered_response W e st2
     | (True, st2) \<Rightarrow> (case flush_buffer W st2 of
         (Inl x, st3) \<Rightarrow> (Inl x, st3)
       | (Inr _, st3) \<Rightarrow> (case insert_rows W [event_row e] st3 of
           (False, st4) \<Rightarrow> buffered_response W e st4
         | (True, st4) \<Rightarrow>
             (case (if as_spool st4 = None then (Inr 0, st4) else flush_buffer W (drain_spool_into_buffer W st4)) of
                (Inl x, st5) \<Rightarrow> buffered_response W e st5
              | (Inr _, st5) \<Rightarrow>
                  (Inr \<lparr>ir_accepted = True, ir_key = event_key e, ir_persisted = True, ir_buffered = False\<rparr>,
                   export_to_siem W e st5))))))"

section \<open>The clients are best effort\<close>

lemma best_effort_post_run:
  "wp (best_effort_post E url body)
     (\<lambda>_ h'. \<exists>rq r. h' = h @ [EvHttp rq r] \<and> rq_method rq = ''POST'' \<and> rq_url rq = url \<and> rq_body rq = JObj body)
     (\<lambda>_ _. False) h"
proof -
  obtain hs where hs: "service_auth_headers E h = (Inr hs, h)" using service_auth_headers_run by blast
  then show ?thesis
    by (auto simp: best_effort_post_def catch_io_def bind_io_def seq_io_def http_io_def wp_def Let_def
        map_sum_Inl_iff split: sum.split prod.split)
qed

lemma emits_best_effort_post [emits_rules]:
  "(\<And>rq r. rq_url rq = url \<Longrightarrow> P (EvHttp rq r)) \<Longrightarrow> emits P (best_effort_post E url body)"
  unfolding best_effort_post_def by (intro emits_rules) auto

lemma emits_audit_emit [emits_rules]:
  "(\<And>rq r. rq_url rq = rstrip_slash (cfg_audit_service_url (cfg E)) @ ''/events'' \<Longrightarrow> P (EvHttp rq r)) \<Longrightarrow>
     emits P (audit_emit E service action resource details actor tid decision md)"
  unfolding audit_emit_def by (intro emits_rules) auto

lemma emits_metering_record [emits_rules]:
  "(\<And>rq r. rq_url rq = rstrip_slash (cfg_metering_service_url (cfg E)) @ ''/usage'' \<Longrightarrow> P (EvHttp rq r)) \<Longrightarrow>
     emits P (metering_record E service tid rid rty qty unit md)"
  unfolding metering_record_def by (intro emits_rules) auto

text \<open>An emission cannot fail the caller: it appends one request and returns.\<close>

lemma wp_audit_emit:
  assumes "\<And>rq r. rq_url rq = rstrip_slash (cfg_audit_service_url (cfg E)) @ ''/events'' \<Longrightarrow>
      rq_body rq = JObj (dump_event E (audit_event service (env_now E h) action resource details actor tid decision md)) \<Longrightarrow>
      Q () (h @ [EvHttp rq r])"
  shows "wp (audit_emit E service action resource details actor tid decision md) Q R h"
  unfolding audit_emit_def wp_simps
  by (rule wp_mono [OF best_effort_post_run]) (use assms in auto)

lemma wp_metering_record:
  assumes "0 \<le> qty" and "\<And>rq r. rq_url rq = rstrip_slash (cfg_metering_service_url (cfg E)) @ ''/usage'' \<Longrightarrow> Q () (h @ [EvHttp rq r])"
  shows "wp (metering_record E service tid rid rty qty unit md) Q R h"
  unfolding metering_record_def wp_simps
  using assms(1) by (auto intro!: wp_mono [OF best_effort_post_run] assms(2))

section \<open>The hash chain\<close>

definition event_doc :: "audit_world \<Rightarrow> AuditEvent \<Rightarrow> json" where
  "event_doc W e = JObj (filter (\<lambda>(k, _). k \<notin> {''event_hash'', ''signature_key_id'', ''signature''})
     (dump_event (aw_env W) e))"

definition doc_hash :: "audit_world \<Rightarrow> json \<Rightarrow> string" where
  "doc_hash W d = aw_sha256 W (aw_canonical W d)"

lemma event_doc_fields:
  "event_doc W e = JObj [(''ts'', JStr (env_dump_datetime (aw_env W) (ae_ts e))), (''tenant_id'', JStr (ae_tenant_id e)),
     (''actor'', JStr (ae_actor e)), (''action'', JStr (ae_action e)), (''resource'', JStr (ae_resource e)),
     (''decision'', JStr (ae_decision e)), (''metadata'', JObj (ae_metadata e)),
     (''previous_hash'', jopt (ae_previous_hash e))]"
  by (simp add: event_doc_def dump_event_def)

lemma event_doc_seal [simp]:
  "event_doc W (e\<lparr>ae_event_hash := v\<rparr>) = event_doc W e"
  "event_doc W (e\<lparr>ae_signature_key_id := k, ae_signature := v\<rparr>) = event_doc W e"
  "event_doc W (e\<lparr>ae_event_hash := v, ae_signature_key_id := k, ae_signature := sg\<rparr>) = event_doc W e"
  by (simp_all add: event_doc_fields)

lemma canonical_event_payload_doc: "aw_sha256 W (canonical_event_payload W e) = doc_hash W (event_doc W e)"
  by (simp add: canonical_event_payload_def doc_hash_def event_doc_def)

fun chain_from :: "audit_world \<Rightarrow> string option \<Rightarrow> AuditEvent list \<Rightarrow> bool" where
  "chain_from W prev [] = True"
| "chain_from W prev (e # es) \<longleftrightarrow> ae_previous_hash e = prev \<and>
     ae_event_hash e = Some (doc_hash W (event_doc W e)) \<and> chain_from W (ae_event_hash e) es"

fun chain_tip :: "string option \<Rightarrow> AuditEvent list \<Rightarrow> string option" where
  "chain_tip prev [] = prev"
| "chain_tip prev (e # es) = chain_tip (ae_event_hash e) es"

lemma chain_tip_snoc [simp]: "chain_tip prev (es @ [e]) = ae_event_hash e"
  by (induction es arbitrary: prev) auto

lemma chain_from_snoc:
  "chain_from W prev (es @ [e]) \<longleftrightarrow> chain_from W prev es \<and> ae_previous_hash e = chain_tip prev es \<and>
     ae_event_hash e = Some (doc_hash W (event_doc W e))"
  by (induction es arbitrary: prev) auto

lemma event_doc_previous: "event_doc W e = event_doc W e' \<Longrightarrow> ae_previous_hash e = ae_previous_hash e'"
  by (auto simp: event_doc_fields jopt_def split: option.splits)

text \<open>Two chains of the same length with the same tip either seal the same documents, or exhibit a
  collision of the hash between two documents they hold.\<close>

definition collide :: "audit_world \<Rightarrow> AuditEvent list \<Rightarrow> AuditEvent list \<Rightarrow> bool" where
  "collide W es es' \<longleftrightarrow> (\<exists>e\<in>set es. \<exists>f\<in>set es'. event_doc W e \<noteq> event_doc W f \<and>
     doc_hash W (event_doc W e) = doc_hash W (event_doc W f))"

lemma chains_agree_or_collide:
  assumes "chain_from W prev es" "chain_from W prev es'" "length es = length es'"
    "chain_tip prev es = chain_tip prev es'" "\<not> collide W es es'"
  shows "map (event_doc W) es = map (event_doc W) es'"
  using assms
proof (induction es arbitrary: es' rule: rev_induct)
  case (snoc e es)
  then obtain f fs where es': "es' = fs @ [f]" by (metis length_0_conv rev_exhaust snoc_eq_iff_butlast)
  have doc: "event_doc W e = event_doc W f"
    using snoc.prems unfolding es' chain_from_snoc collide_def by auto
  have "chain_tip prev es = chain_tip prev fs"
    using event_doc_previous [OF doc] snoc.prems unfolding es' chain_from_snoc by simp
  moreover have "\<not> collide W es fs" using snoc.prems(5) unfolding es' collide_def by auto
  ultimately have "map (event_doc W) es = map (event_doc W) fs"
    using snoc.prems(1-3) unfolding es' chain_from_snoc by (intro snoc.IH) auto
  with doc es' show ?case by simp
qed simp

text \<open>Preparing a client event extends the chain.\<close>

lemma sign_audit_event_doc:
  "sign_audit_event W e = Inr e' \<Longrightarrow> event_doc W e' = event_doc W e \<and> ae_event_hash e' = ae_event_hash e \<and>
     ae_previous_hash e' = ae_previous_hash e"
  by (auto simp: sign_audit_event_def Let_def split: if_splits sum.splits)

lemma prepare_event_links:
  assumes "prepare_event W e st = (Inr e', st')" "\<not> truthy (ae_event_hash e)"
  shows "ae_previous_hash e' = as_last_hash st \<and> ae_event_hash e' = Some (doc_hash W (event_doc W e')) \<and>
    st' = st\<lparr>as_last_hash := ae_event_hash e'\<rparr>"
  using assms sign_audit_event_doc
  by (fastforce simp: prepare_event_def ensure_chained_def chain_event_def canonical_event_payload_doc Let_def)

text \<open>The events the service prepares, one request after the other.\<close>

fun prepare_all :: "audit_world \<Rightarrow> AuditEvent list \<Rightarrow> audit_state \<Rightarrow> (exn + AuditEvent list) \<times> audit_state" where
  "prepare_all W [] st = (Inr [], st)"
| "prepare_all W (e # es) st = (case prepare_event W e st of (Inl x, st') \<Rightarrow> (Inl x, st')
     | (Inr e', st') \<Rightarrow> (case prepare_all W es st' of (r, st'') \<Rightarrow> (map_sum id (Cons e') r, st'')))"

lemma prepare_all_chain:
  assumes "prepare_all W es st = (Inr out, st')" "list_all (\<lambda>e. \<not> truthy (ae_event_hash e)) es"
  shows "chain_from W (as_last_hash st) out \<and> as_last_hash st' = chain_tip (as_last_hash st) out \<and> length out = length es"
  using assms
proof (induction W es st arbitrary: out st' rule: prepare_all.induct)
  case (2 W e es st)
  then obtain e' st1 out' where e': "prepare_event W e st = (Inr e', st1)"
    and rest: "prepare_all W es st1 = (Inr out', st')" and out: "out = e' # out'"
    by (auto simp: map_sum_Inr_iff split: prod.splits sum.splits)
  from prepare_event_links [OF e'] "2.prems"(2) have
    "ae_previous_hash e' = as_last_hash st" "ae_event_hash e' = Some (doc_hash W (event_doc W e'))"
    "as_last_hash st1 = ae_event_hash e'" by auto
  with "2.IH" [OF e' [symmetric] refl rest] "2.prems"(2) out show ?case by simp
qed simp

section \<open>No accepted event is lost below the caps\<close>

text \<open>The hex digest and the base64 signature are not empty.\<close>

definition audit_world_ok :: "audit_world \<Rightarrow> bool" where
  "audit_world_ok W \<longleftrightarrow> (\<forall>s. aw_sha256 W s \<noteq> []) \<and> (\<forall>k p s. aw_sign W k p = Inr s \<longrightarrow> s \<noteq> [])"

text \<open>An event the service has prepared: preparing it again changes nothing.\<close>

definition sealed :: "audit_world \<Rightarrow> AuditEvent \<Rightarrow> bool" where
  "sealed W e \<longleftrightarrow> truthy (ae_event_hash e) \<and> (truthy (ae_signature e) \<or>
     strip (cfg_audit_signing_private_key_pem (acfg W)) = [] \<and> \<not> cfg_require_audit_signing (acfg W))"

definition audit_ok :: "audit_world \<Rightarrow> audit_state \<Rightarrow> bool" where
  "audit_ok W st \<longleftrightarrow> length (as_buffer st) \<le> BUFFER_CAP \<and> list_all (sealed W) (as_buffer st) \<and>
     (case as_spool st of None \<Rightarrow> True | Some es \<Rightarrow> list_all (sealed W) es)"

definition spooled :: "audit_state \<Rightarrow> AuditEvent list" where
  "spooled st = (case as_spool st of None \<Rightarrow> [] | Some es \<Rightarrow> es)"

text \<open>The events the service holds, by their hashes.\<close>

definition held :: "audit_state \<Rightarrow> string option multiset" where
  "held st = mset (map ae_event_hash (as_table st @ as_buffer st @ spooled st))"

lemma sealed_prepare: "sealed W e \<Longrightarrow> prepare_event W e st = (Inr e, st)"
  by (auto simp: sealed_def prepare_event_def ensure_chained_def sign_audit_event_def Let_def)

lemma prepare_sealed:
  assumes "audit_world_ok W" "prepare_event W e st = (Inr e', st')"
  shows "sealed W e' \<and> (\<exists>lh. st' = st\<lparr>as_last_hash := lh\<rparr>)"
  using assms by (auto simp: sealed_def prepare_event_def ensure_chained_def sign_audit_event_def Let_def
      chain_event_def audit_world_ok_def split: if_splits sum.splits prod.splits)
    (metis audit_state.surjective audit_state.update_convs(3))+

lemma sealed_row [simp]: "sealed W (event_row e) = sealed W e" "sealed W e \<Longrightarrow> ae_event_hash (event_row e) = ae_event_hash e"
  by (cases "ae_event_hash e"; auto simp: sealed_def event_row_def str_or_def)+

lemma drain_rows_sealed:
  "list_all (sealed W) es \<Longrightarrow> drain_rows W es rows st = (Inr (rows @ map event_row es), st\<lparr>as_buffer := []\<rparr>)"
  by (induction es arbitrary: rows st) (simp_all add: sealed_prepare)

lemma requeue_fits: "length rs + length buf \<le> BUFFER_CAP \<Longrightarrow> requeue rs buf = rev rs @ buf"
  by (induction rs buf rule: requeue.induct) auto

lemma flush_buffer_sealed:
  assumes "audit_ok W st"
  obtains n st' where "flush_buffer W st = (Inr n, st')" "audit_ok W st'" "held st' = held st"
    "as_spool st' = as_spool st" "as_last_hash st' = as_last_hash st" "length (as_buffer st') \<le> length (as_buffer st)"
    "as_exported st' = as_exported st"
proof -
  let ?rows = "map event_row (as_buffer st)"
  have sealed: "list_all (sealed W) (as_buffer st)" "length (as_buffer st) \<le> BUFFER_CAP"
    using assms by (auto simp: audit_ok_def)
  have hashes: "map ae_event_hash ?rows = map ae_event_hash (as_buffer st)"
    using sealed by (auto simp: list_all_iff)
  then have hm: "image_mset ae_event_hash (image_mset event_row (mset (as_buffer st))) =
      image_mset ae_event_hash (mset (as_buffer st))" by (metis mset_map)
  have rows: "list_all (sealed W) ?rows" using sealed(1) by (auto simp: list_all_iff)
  have drain: "drain_rows W (as_buffer st) [] st = (Inr ?rows, st\<lparr>as_buffer := []\<rparr>)"
    using drain_rows_sealed [OF sealed(1)] by simp
  show ?thesis
  proof (cases "as_buffer st = []")
    case True
    then show ?thesis
      using that [of 0 "st\<lparr>as_buffer := []\<rparr>"] assms drain
      by (simp add: flush_buffer_def audit_ok_def held_def spooled_def)
  next
    case False
    show ?thesis
    proof (cases "aw_insert W (as_tick st)")
      case True
      let ?st = "st\<lparr>as_buffer := [], as_tick := as_tick st + 1, as_table := as_table st @ ?rows\<rparr>"
      have "flush_buffer W st = (Inr (length ?rows), ?st)"
        using drain False True by (simp add: flush_buffer_def insert_rows_def)
      moreover have "held ?st = held st" using hm by (simp add: held_def spooled_def flip: multiset.map_comp)
      moreover have "audit_ok W ?st" using assms by (simp add: audit_ok_def)
      ultimately show ?thesis using that by simp
    next
      case ins: False
      let ?st = "st\<lparr>as_buffer := ?rows, as_tick := as_tick st + 1\<rparr>"
      have "flush_buffer W st = (Inr 0, ?st)"
        using drain False ins sealed(2) by (simp add: flush_buffer_def insert_rows_def requeue_fits)
      moreover have "held ?st = held st" using hm by (simp add: held_def spooled_def flip: multiset.map_comp)
      moreover have "audit_ok W ?st" using assms rows by (simp add: audit_ok_def)
      ultimately show ?thesis using that by simp
    qed
  qed
qed

lemma connect_frame:
  "connect W st = (ok, st') \<Longrightarrow> \<exists>n. st' = st\<lparr>as_connected := ok, as_tick := n\<rparr>"
  by (cases st) (auto simp: connect_def Let_def split: if_splits)

lemma held_connected [simp]: "held (st\<lparr>as_connected := ok, as_tick := n\<rparr>) = held st"
  "held (st\<lparr>as_last_hash := lh\<rparr>) = held st" "held (st\<lparr>as_exported := xs\<rparr>) = held st"
  "held (st\<lparr>as_tick := n\<rparr>) = held st"
  by (simp_all add: held_def spooled_def)

lemma export_frame [simp]: "held (export_to_siem W e st) = held st" "audit_ok W' (export_to_siem W e st) = audit_ok W' st"
  "as_last_hash (export_to_siem W e st) = as_last_hash st"
  by (simp_all add: export_to_siem_def audit_ok_def)

lemma deque_append_fits: "length xs < cap \<Longrightarrow> deque_append cap x xs = xs @ [x]"
  by (simp add: deque_append_def)

lemma deque_fold_fits:
  "length xs + length es \<le> cap \<Longrightarrow> fold (deque_append cap) es xs = xs @ es"
  by (induction es arbitrary: xs) (auto simp: deque_append_fits)

text \<open>When more arrives than fits, the oldest events go: the last \<open>cap\<close> survive.\<close>

lemma deque_append_last: "length xs \<le> cap \<Longrightarrow> deque_append cap x xs = drop (length (xs @ [x]) - cap) (xs @ [x])"
proof (cases "length xs < cap")
  case False
  assume "length xs \<le> cap"
  with False have "length (xs @ [x]) - cap = Suc 0" by simp
  then show ?thesis using False by (simp only: deque_append_def drop_Suc drop_0 if_False)
qed (simp add: deque_append_def)

lemma deque_fold_last:
  "length xs \<le> cap \<Longrightarrow> fold (deque_append cap) es xs = drop (length (xs @ es) - cap) (xs @ es)"
proof (induction es rule: rev_induct)
  case (snoc e es)
  let ?ys = "xs @ es" and ?k = "length (xs @ es) - cap"
  have IH: "fold (deque_append cap) es xs = drop ?k ?ys" using snoc by blast
  have "fold (deque_append cap) (es @ [e]) xs = deque_append cap e (drop ?k ?ys)"
    by (simp only: fold_append fold_simps comp_apply id_apply IH)
  also have "\<dots> = drop (length (drop ?k ?ys @ [e]) - cap) (drop ?k ?ys @ [e])"
    by (rule deque_append_last) (simp only: length_drop; arith)
  also have "drop ?k ?ys @ [e] = drop ?k (?ys @ [e])"
    using drop_append [of ?k ?ys "[e]"] by (simp only: diff_le_self diff_is_0_eq' drop_0)
  also have "drop (length (drop ?k (?ys @ [e])) - cap) (drop ?k (?ys @ [e])) = drop (length (xs @ es @ [e]) - cap) (xs @ es @ [e])"
    unfolding drop_drop append_assoc by (rule arg_cong [where f = "\<lambda>n. drop n (xs @ es @ [e])"]) (simp; arith)
  finally show ?case .
qed simp

lemma buffer_or_spool_held:
  assumes "audit_ok W st" "sealed W e" "length (as_buffer st) < BUFFER_CAP"
  shows "held (snd (buffer_or_spool W e st)) = add_mset (ae_event_hash e) (held st) \<and>
    audit_ok W (snd (buffer_or_spool W e st)) \<and> as_last_hash (snd (buffer_or_spool W e st)) = as_last_hash st"
  using assms by (simp add: buffer_or_spool_def deque_append_fits held_def spooled_def audit_ok_def)

text \<open>The new state holds what was held and the new event.\<close>

definition keeps_event :: "audit_world \<Rightarrow> AuditEvent \<Rightarrow> audit_state \<Rightarrow> audit_state \<Rightarrow> bool" where
  "keeps_event W e st st' \<longleftrightarrow> add_mset (ae_event_hash e) (held st) \<subseteq># held st' \<and> audit_ok W st' \<and> as_last_hash st' = as_last_hash st"

lemma buffered_keeps:
  assumes "buffered_response W e s = (Inr r, s')" "audit_ok W s" "sealed W e" "length (as_buffer s) + length (spooled s) < BUFFER_CAP"
  shows "keeps_event W e s s'"
  using assms buffer_or_spool_held [OF assms(2,3)] by (auto simp: keeps_event_def buffered_response_def split: prod.splits)

lemma drain_keeps:
  assumes "audit_ok W s" "as_spool s = Some es" "length (as_buffer s) + length (spooled s) < BUFFER_CAP"
  shows "held s \<subseteq># held (drain_spool_into_buffer W s) \<and> audit_ok W (drain_spool_into_buffer W s) \<and>
    as_last_hash (drain_spool_into_buffer W s) = as_last_hash s"
  using assms by (auto simp: drain_spool_into_buffer_def spool_drain_def held_def spooled_def audit_ok_def deque_fold_fits)

text \<open>The ingest past the flush: the row is inserted, or the event is buffered.\<close>

lemma insert_keeps:
  assumes st: "audit_ok W st" and e: "sealed W e" and room: "length (as_buffer st) + length (spooled st) < BUFFER_CAP"
    and run: "(case insert_rows W [event_row e] st of
           (False, st4) \<Rightarrow> buffered_response W e st4
         | (True, st4) \<Rightarrow>
             (case (if as_spool st4 = None then (Inr 0, st4) else flush_buffer W (drain_spool_into_buffer W st4)) of
                (Inl x, st5) \<Rightarrow> buffered_response W e st5
              | (Inr _, st5) \<Rightarrow> (Inr resp, export_to_siem W e st5))) = (Inr r, st')"
  shows "keeps_event W e st st'"
proof (cases "aw_insert W (as_tick st)")
  case False
  let ?s = "st\<lparr>as_tick := as_tick st + 1\<rparr>"
  have "buffered_response W e ?s = (Inr r, st')" using run False by (simp add: insert_rows_def)
  moreover have "audit_ok W ?s" "length (as_buffer ?s) + length (spooled ?s) < BUFFER_CAP" "held ?s = held st"
    using st room by (simp_all add: audit_ok_def spooled_def held_def)
  ultimately show ?thesis using buffered_keeps [of W e ?s r st'] e by (simp add: keeps_event_def)
next
  case True
  let ?s = "st\<lparr>as_tick := as_tick st + 1, as_table := as_table st @ [event_row e]\<rparr>"
  have s: "held ?s = add_mset (ae_event_hash e) (held st)" "audit_ok W ?s" "length (as_buffer ?s) + length (spooled ?s) < BUFFER_CAP"
    using st e room by (simp_all add: held_def spooled_def audit_ok_def)
  show ?thesis
  proof (cases "as_spool st")
    case None
    then have "st' = export_to_siem W e ?s" using run True by (simp add: insert_rows_def)
    then show ?thesis using s by (simp add: keeps_event_def)
  next
    case (Some es)
    let ?d = "drain_spool_into_buffer W ?s"
    have d: "held ?s \<subseteq># held ?d \<and> audit_ok W ?d \<and> as_last_hash ?d = as_last_hash st"
      using drain_keeps [OF s(2) _ s(3)] Some by simp
    from flush_buffer_sealed [of W ?d] d obtain m st5 where g: "flush_buffer W ?d = (Inr m, st5)" "audit_ok W st5"
      "held st5 = held ?d" "as_last_hash st5 = as_last_hash st" by metis
    have "st' = export_to_siem W e st5" using run True Some g(1) by (simp add: insert_rows_def)
    then show ?thesis using s(1) d g by (simp add: keeps_event_def)
  qed
qed

lemma ingest_conserves:
  assumes W: "audit_world_ok W" and st: "audit_ok W st"
    and room: "length (as_buffer st) + length (spooled st) < BUFFER_CAP"
    and run: "ingest_event W event st = (Inr r, st')"
  obtains e lh where "prepare_event W event st = (Inr e, st\<lparr>as_last_hash := lh\<rparr>)"
    "add_mset (ae_event_hash e) (held st) \<subseteq># held st'" "audit_ok W st'" "as_last_hash st' = lh"
proof -
  from run obtain e st1 where p: "prepare_event W event st = (Inr e, st1)"
    by (auto simp: ingest_event_def split: prod.splits sum.splits)
  from prepare_sealed [OF W p] obtain lh where e: "sealed W e" and st1: "st1 = st\<lparr>as_last_hash := lh\<rparr>" by auto
  obtain ok st2 where c: "connect W st1 = (ok, st2)" by fastforce
  from connect_frame [OF c] obtain n where st2: "st2 = st1\<lparr>as_connected := ok, as_tick := n\<rparr>" by auto
  have ok2: "audit_ok W st2" "length (as_buffer st2) + length (spooled st2) < BUFFER_CAP" "held st2 = held st" "as_last_hash st2 = lh"
    using st room by (simp_all add: st2 st1 audit_ok_def spooled_def held_def)
  have "keeps_event W e st2 st'"
  proof (cases ok)
    case False
    then have "buffered_response W e st2 = (Inr r, st')" using run p c by (simp add: ingest_event_def)
    from buffered_keeps [OF this ok2(1) e ok2(2)] show ?thesis .
  next
    case True
    from flush_buffer_sealed [OF ok2(1)] obtain m st3 where f: "flush_buffer W st2 = (Inr m, st3)" "audit_ok W st3" "held st3 = held st2"
      "as_spool st3 = as_spool st2" "as_last_hash st3 = as_last_hash st2" "length (as_buffer st3) \<le> length (as_buffer st2)" by metis
    have "length (as_buffer st3) + length (spooled st3) < BUFFER_CAP" using f ok2(2) by (simp add: spooled_def)
    from insert_keeps [OF f(2) e this] have "keeps_event W e st3 st'" using run p c True f(1) unfolding ingest_event_def by fastforce
    then show ?thesis using f by (simp add: keeps_event_def)
  qed
  with p st1 ok2 that show ?thesis by (auto simp: keeps_event_def)
qed

end
