(* ===== verification/ControlPlane.thy ===== *)
theory ControlPlane
  imports Renderers AuditTrail
begin

text \<open>
  Models of \<open>apps/control-plane/app/main.py\<close> (render, diff, get_config),
  \<open>apps/metering-service/app/main.py\<close> (record, query) and the problem-detail error responses of
  \<open>libs/common/sovereign/errors.py\<close>. The render route applies only validated artifacts and reports
  success only for a complete apply.
\<close>

section \<open>Error responses\<close>

definition title_for :: "int \<Rightarrow> string" where
  "title_for st = (case map_of [(400::int, ''bad request''), (401, ''unauthorized''), (403, ''forbidden''),
      (404, ''not found''), (405, ''method not allowed''), (409, ''conflict''), (410, ''gone''),
      (422, ''unprocessable entity''), (429, ''too many requests''), (500, ''internal server error''),
      (502, ''bad gateway''), (503, ''service unavailable''), (504, ''gateway timeout'')] st of
     Some t \<Rightarrow> t | None \<Rightarrow> ''HTTP '' @ str_of_int st)"

definition problem :: "env \<Rightarrow> int \<Rightarrow> string \<Rightarrow> json \<Rightarrow> string \<Rightarrow> dict" where
  "problem E st title detail service =
     [(''type'', JStr ''about:blank''), (''title'', JStr title), (''status'', JInt st),
      (''detail'', (case detail of JStr _ \<Rightarrow> detail | JObj _ \<Rightarrow> detail | JList _ \<Rightarrow> detail
         | _ \<Rightarrow> JStr (py_str E detail)))] @
     (if service \<noteq> [] then [(''service'', JStr service)] else [])"

text \<open>The handlers for \<open>HTTPException\<close> and for any other exception.\<close>

definition problem_response :: "env \<Rightarrow> string \<Rightarrow> exn \<Rightarrow> int \<times> dict" where
  "problem_response E service x = (case x of
     HTTPException st detail \<Rightarrow> (st, problem E st (title_for st) detail service)
   | _ \<Rightarrow> (500, problem E 500 ''internal server error'' (JStr (env_str_exn E x)) service))"

section \<open>POST /render\<close>

definition dump_step :: "DeploymentStep \<Rightarrow> json" where
  "dump_step st = JObj [(''kind'', JStr (st_kind st)), (''target'', JStr (st_target st)),
     (''payload'', JObj (st_payload st))]"

definition py_repr_list :: "string list \<Rightarrow> string" where
  "py_repr_list xs = ''['' @ join '', '' (map py_repr xs) @ '']''"

definition no_renderer :: "string \<Rightarrow> exn" where
  "no_renderer sid = HTTPException 404 (JStr (''no renderer for service_type '' @ py_repr sid))"

definition cp_render_artifact :: "renderers \<Rightarrow> env \<Rightarrow> ServiceInstance \<Rightarrow> (renderer \<times> RenderedArtifact) prog" where
  "cp_render_artifact rs E i = (case require_renderer rs (si_service_id i) of
     Inl _ \<Rightarrow> throw (no_renderer (si_service_id i))
   | Inr r \<Rightarrow> bind_io (catch_io (rd_render r E i) (\<lambda>x. if is_RenderValidationError x
         then throw (HTTPException 422 (JStr (env_str_exn E x))) else throw x)) (\<lambda>a. ret (r, a)))"

definition s3_key :: "ServiceInstance \<Rightarrow> DeploymentStep list \<Rightarrow> string" where
  "s3_key i steps = (case find (\<lambda>st. st_kind st = ''s3-put'') steps of
     Some st \<Rightarrow> st_target st | None \<Rightarrow> key_for (si_instance_id i) (si_version i) ''envoy.yaml'')"

definition apply_failed_exn :: "ApplyResult \<Rightarrow> exn" where
  "apply_failed_exn ar = HTTPException 503 (JObj [(''message'', JStr ''apply failed''),
     (''failed_step'', JStr (case ar_failed_step ar of Some st \<Rightarrow> st_kind st | None \<Rightarrow> [])),
     (''detail'', JStr (ar_detail ar))])"

definition cp_render :: "renderers \<Rightarrow> env \<Rightarrow> ServiceInstance \<Rightarrow> dict prog" where
  "cp_render rs E i =
     bind_io (cp_render_artifact rs E i) (\<lambda>(r, a).
     bind_io (rd_validate r E a) (\<lambda>vr.
     if \<not> vr_ok vr then throw (HTTPException 422 (JStr (''artifact validation failed: '' @ py_repr_list (vr_errors vr))))
     else bind_io (rd_apply r E a) (\<lambda>ar.
     if \<not> ar_ok ar then throw (apply_failed_exn ar)
     else let key = s3_key i (ar_applied_steps ar); bucket = cfg_config_bucket (cfg E) in
       seq_io (audit_emit E ''control-plane'' ''config.rendered'' (si_instance_id i) key None ''default'' ''allow''
           (merge_dict [(''service_type'', JStr (ra_service_type a)), (''version'', JInt (ra_version a)),
              (''bucket'', JStr bucket)] (ra_metadata a)))
         (ret [(''bucket'', JStr bucket), (''key'', JStr key), (''version'', JInt (ra_version a)),
               (''service_type'', JStr (ra_service_type a)),
               (''manifest'', JList (map dump_step (ar_applied_steps ar)))]))))"

section \<open>POST /diff\<close>

definition drift_word :: "ManifestDiff \<Rightarrow> string" where
  "drift_word md = (if md_drifted md then ''drifted'' else if md_unknown md then ''unknown'' else ''in_sync'')"

definition cp_diff :: "renderers \<Rightarrow> env \<Rightarrow> ServiceInstance \<Rightarrow> dict prog" where
  "cp_diff rs E i =
     bind_io (cp_render_artifact rs E i) (\<lambda>(r, a).
     bind_io (rd_diff r E a) (\<lambda>md.
     seq_io (audit_emit E ''control-plane'' ''config.diffed'' (si_instance_id i) (drift_word md) None ''default'' ''allow''
         [(''service_type'', JStr (ra_service_type a)), (''version'', JInt (ra_version a)),
          (''drifted'', JBool (md_drifted md)), (''unknown'', JBool (md_unknown md))])
       (ret [(''instance_id'', JStr (si_instance_id i)), (''service_type'', JStr (ra_service_type a)),
             (''version'', JInt (ra_version a)), (''drifted'', JBool (md_drifted md)),
             (''unknown'', JBool (md_unknown md)), (''details'', jstrs (md_details md))])))"

section \<open>GET /instances/.../envoy.yaml\<close>

definition get_config :: "env \<Rightarrow> string \<Rightarrow> int \<Rightarrow> string prog" where
  "get_config E iid version = (let key = key_for iid version ''envoy.yaml'' in
     catch_io (s3_get E (cfg_config_bucket (cfg E)) key) (\<lambda>x. case x of
       ClientError code _ \<Rightarrow>
         if code \<in> {''NoSuchKey'', ''404'', ''NotFound''}
         then throw (HTTPException 404 (JStr (''no config at '' @ key)))
         else throw (HTTPException 503 (JStr (''object store unavailable: '' @ env_str_exn E x)))
     | BotoCoreError _ \<Rightarrow> throw (HTTPException 503 (JStr (''object store unavailable: '' @ env_str_exn E x)))
     | _ \<Rightarrow> throw x))"

section \<open>The metering service\<close>

definition metering_ingest :: "env \<Rightarrow> Usage \<Rightarrow> dict prog" where
  "metering_ingest E u = bind_io
     (catch_io (record_usage E u) (\<lambda>x. throw (HTTPException 503 (JStr (''usage store unavailable: '' @ env_str_exn E x)))))
     (\<lambda>eid. ret [(''accepted'', JBool True), (''event_id'', JStr eid), (''tenant_id'', JStr (us_tenant_id u))])"

definition metering_query :: "env \<Rightarrow> string \<Rightarrow> datetime option \<Rightarrow> datetime option \<Rightarrow> string option \<Rightarrow> string option \<Rightarrow> int \<Rightarrow> dict prog" where
  "metering_query E tid since until rid rty limit = bind_io
     (catch_io (query_usage E tid since until rid rty limit)
        (\<lambda>x. if is_RuntimeError x then throw (HTTPException 503 (JStr (env_str_exn E x))) else throw x))
     (\<lambda>rs. ret [(''tenant_id'', JStr tid), (''count'', JInt (int (length rs))),
        (''usage'', JList (map (\<lambda>u. JObj (dump_usage E u)) rs))])"

section \<open>Properties\<close>

text \<open>A successful render: the artifact validated, the apply was complete, and the answer names the
  applied steps.\<close>

lemma cp_render_ok:
  assumes "cp_render rs E i h = (Inr out, h')"
  obtains r a vr ar h1 h2 h3 where
    "get_renderer rs (si_service_id i) = Some r" "rd_render r E i h = (Inr a, h1)"
    "rd_validate r E a h1 = (Inr vr, h2)" "vr_ok vr" "rd_apply r E a h2 = (Inr ar, h3)" "ar_ok ar"
    "map_of out ''manifest'' = Some (JList (map dump_step (ar_applied_steps ar)))"
    "map_of out ''version'' = Some (JInt (ra_version a))"
    "map_of out ''key'' = Some (JStr (s3_key i (ar_applied_steps ar)))"
proof -
  from assms obtain r a h1 vr h2 where 1: "cp_render_artifact rs E i h = (Inr (r, a), h1)"
    "rd_validate r E a h1 = (Inr vr, h2)" "vr_ok vr" by (auto simp: cp_render_def run_ok split: if_splits)
  from 1(1) have r: "get_renderer rs (si_service_id i) = Some r" "rd_render r E i h = (Inr a, h1)"
    by (auto simp: cp_render_artifact_def require_renderer_def run_ok catch_io_def
        split: option.splits prod.splits sum.splits if_splits)
  from assms 1 obtain ar h3 where ar: "rd_apply r E a h2 = (Inr ar, h3)" "ar_ok ar"
    by (auto simp: cp_render_def run_ok split: if_splits)
  from assms 1 ar have "map_of out ''manifest'' = Some (JList (map dump_step (ar_applied_steps ar))) \<and>
      map_of out ''version'' = Some (JInt (ra_version a)) \<and> map_of out ''key'' = Some (JStr (s3_key i (ar_applied_steps ar)))"
    by (auto simp: cp_render_def run_ok Let_def)
  with r 1 ar that show ?thesis by blast
qed

text \<open>A rejected artifact ends the request before the apply.\<close>

lemma cp_render_rejected:
  assumes "cp_render_artifact rs E i h = (Inr (r, a), h1)" "rd_validate r E a h1 = (Inr vr, h2)" "\<not> vr_ok vr"
  shows "cp_render rs E i h = (Inl (HTTPException 422 (JStr (''artifact validation failed: '' @ py_repr_list (vr_errors vr)))), h2)"
  using assms by (simp add: cp_render_def bind_io_def)

lemma cp_render_apply_failed:
  assumes "cp_render_artifact rs E i h = (Inr (r, a), h1)" "rd_validate r E a h1 = (Inr vr, h2)" "vr_ok vr"
    "rd_apply r E a h2 = (Inr ar, h3)" "\<not> ar_ok ar"
  shows "cp_render rs E i h = (Inl (apply_failed_exn ar), h3)"
  using assms by (simp add: cp_render_def bind_io_def)

lemma cp_render_no_renderer:
  "get_renderer rs (si_service_id i) = None \<Longrightarrow> cp_render rs E i h = (Inl (no_renderer (si_service_id i)), h)"
  by (simp add: cp_render_def cp_render_artifact_def require_renderer_def bind_io_def)

lemma cp_diff_run:
  assumes "cp_diff rs E i h = (Inr out, h')"
  obtains r a md h1 h2 where "get_renderer rs (si_service_id i) = Some r" "rd_render r E i h = (Inr a, h1)"
    "rd_diff r E a h1 = (Inr md, h2)" "map_of out ''drifted'' = Some (JBool (md_drifted md))"
    "map_of out ''unknown'' = Some (JBool (md_unknown md))"
proof -
  from assms obtain r a h1 md h2 where 1: "cp_render_artifact rs E i h = (Inr (r, a), h1)"
    "rd_diff r E a h1 = (Inr md, h2)" by (auto simp: cp_diff_def run_ok)
  from 1(1) have r: "get_renderer rs (si_service_id i) = Some r" "rd_render r E i h = (Inr a, h1)"
    by (auto simp: cp_render_artifact_def require_renderer_def run_ok catch_io_def
        split: option.splits prod.splits sum.splits if_splits)
  from assms 1 have "map_of out ''drifted'' = Some (JBool (md_drifted md)) \<and> map_of out ''unknown'' = Some (JBool (md_unknown md))"
    by (auto simp: cp_diff_def run_ok)
  with r 1 that show ?thesis by blast
qed

end
