(* ===== verification/Quotas.thy ===== *)
theory Quotas
  imports Stores
begin

text \<open>
  Model of \<open>libs/common/sovereign/quotas/\<close>: quota records, the quota store and the enforcer that
  gates a provision on the instances counted in the metering records. A request is admitted iff
  neither cap is reached; the count is exact on the records the query returns, and the query page
  bounds it.
\<close>

section \<open>Models\<close>

definition service_type_scope :: "string \<Rightarrow> string" where
  "service_type_scope s = ''service_type:'' @ s"

definition pack_scope :: "string \<Rightarrow> string" where
  "pack_scope p = ''pack:'' @ p"

datatype QuotaPeriod = monthly | lifetime

fun QuotaPeriod_value :: "QuotaPeriod \<Rightarrow> string" where
  "QuotaPeriod_value monthly = ''monthly''"
| "QuotaPeriod_value lifetime = ''lifetime''"

abbreviation "dec_period \<equiv> enum_of QuotaPeriod_value [monthly, lifetime]"

lemma dec_period_value [simp]: "dec_period (JStr (QuotaPeriod_value p)) = Some p"
  by (cases p) (simp_all add: enum_of_def)

record Quota =
  qt_tenant_id :: string
  qt_scope :: string
  qt_max_instances :: "int option"
  qt_max_compute_units :: "rat option"
  qt_period :: QuotaPeriod
  qt_metadata :: dict
  qt_updated_at :: datetime

record QuotaUsageEntry =
  qe_scope :: string
  qe_used_instances :: int
  qe_max_instances :: "int option"
  qe_used_compute_units :: rat
  qe_max_compute_units :: "rat option"
  qe_period :: QuotaPeriod

record QuotaCheckResult =
  qc_allow :: bool
  qc_reasons :: "string list"
  qc_breakdown :: "QuotaUsageEntry list"

definition at_limit :: "QuotaUsageEntry \<Rightarrow> bool" where
  "at_limit e \<longleftrightarrow> (case qe_max_instances e of None \<Rightarrow> False | Some m \<Rightarrow> m \<le> qe_used_instances e)"

definition jopt_rat :: "rat option \<Rightarrow> json" where
  "jopt_rat v = (case v of None \<Rightarrow> JNull | Some r \<Rightarrow> JFloat r)"

definition dump_quota :: "env \<Rightarrow> Quota \<Rightarrow> dict" where
  "dump_quota E q = [(''tenant_id'', JStr (qt_tenant_id q)), (''scope'', JStr (qt_scope q)),
     (''max_instances'', jopt_int (qt_max_instances q)),
     (''max_compute_units'', jopt_rat (qt_max_compute_units q)),
     (''period'', JStr (QuotaPeriod_value (qt_period q))), (''metadata'', JObj (qt_metadata q)),
     (''updated_at'', JStr (env_dump_datetime E (qt_updated_at q)))]"

definition validate_quota :: "env \<Rightarrow> string \<Rightarrow> dict \<Rightarrow> Quota option" where
  "validate_quota E now d = do {
     tid \<leftarrow> dec_field d ''tenant_id'' (env_pyd_str E) None;
     scope \<leftarrow> dec_field d ''scope'' (env_pyd_str E) None;
     mi \<leftarrow> dec_field d ''max_instances'' (dec_opt (env_pyd_int E)) (Some None);
     mc \<leftarrow> dec_field d ''max_compute_units'' (dec_opt (env_pyd_float E)) (Some None);
     per \<leftarrow> dec_field d ''period'' dec_period (Some lifetime);
     md \<leftarrow> dec_field d ''metadata'' dec_obj (Some []);
     up \<leftarrow> dec_field d ''updated_at'' (env_pyd_datetime E) (Some now);
     Some \<lparr>qt_tenant_id = tid, qt_scope = scope, qt_max_instances = mi, qt_max_compute_units = mc,
       qt_period = per, qt_metadata = md, qt_updated_at = up\<rparr> }"

lemma dec_opt_rat: "pydantic_exact E \<Longrightarrow> dec_opt (env_pyd_float E) (jopt_rat v) = Some v"
  by (cases v) (simp_all add: jopt_rat_def dec_opt_def pydantic_exactD)

lemma validate_quota_dump: "pydantic_exact E \<Longrightarrow> validate_quota E now (dump_quota E q) = Some q"
  by (simp add: validate_quota_def dump_quota_def dec_field_def dec_obj_def pydantic_dec dec_opt_rat)

section \<open>The store\<close>

abbreviation "QUOTA_TABLE \<equiv> ''sovereign_quotas''"

definition decode_quota :: "env \<Rightarrow> string \<Rightarrow> item \<Rightarrow> exn + Quota" where
  "decode_quota E now i = validate_payload ''Quota'' (validate_quota E now) (it_payload i)"

definition put_quota :: "env \<Rightarrow> Quota \<Rightarrow> unit prog" where
  "put_quota E q = put_item E QUOTA_TABLE \<lparr>it_key = [qt_tenant_id q, qt_scope q], it_attrs = [],
     it_payload = PText (JObj (dump_quota E q))\<rparr>"

definition get_quota :: "env \<Rightarrow> string \<times> string \<Rightarrow> Quota option prog" where
  "get_quota E k = (case k of (tid, scope) \<Rightarrow> get_row E QUOTA_TABLE [tid, scope] (decode_quota E))"

definition delete_quota :: "env \<Rightarrow> string \<times> string \<Rightarrow> unit prog" where
  "delete_quota E k = (case k of (tid, scope) \<Rightarrow> delete_item E QUOTA_TABLE [tid, scope])"

definition list_for_tenant :: "env \<Rightarrow> string \<Rightarrow> Quota list prog" where
  "list_for_tenant E tid = bind_io (client_error_as_runtime E ''quota query failed: ''
       (query_items E QUOTA_TABLE \<lparr>dq_index = None, dq_hash = tid, dq_range = AnyRange,
          dq_limit = None, dq_forward = True\<rparr>)) (\<lambda>rows.
     bind_io (now_io E) (\<lambda>now. lift_res (decode_rows (decode_quota E now) rows)))"

interpretation quotas: payload_store QUOTA_TABLE "\<lambda>(tid, scope). [tid, scope]"
  "\<lambda>q. (qt_tenant_id q, qt_scope q)" dump_quota decode_quota put_quota get_quota delete_quota
  by unfold_locales (simp_all add: put_quota_def get_quota_def delete_quota_def decode_quota_def
    validate_quota_dump split: prod.splits)

section \<open>The enforcer\<close>

definition counts_for :: "string option \<Rightarrow> string option \<Rightarrow> Usage \<Rightarrow> bool" where
  "counts_for st pk r \<longleftrightarrow> us_resource_type r = ''instance'' \<and>
     (case st of None \<Rightarrow> True | Some s \<Rightarrow> jget (us_metadata r) ''service_type'' = JStr s) \<and>
     (case pk of None \<Rightarrow> True | Some p \<Rightarrow> jget (us_metadata r) ''pack'' = JStr p)"

fun count_usage :: "string option \<Rightarrow> string option \<Rightarrow> Usage list \<Rightarrow> int \<Rightarrow> rat \<Rightarrow> int \<times> rat" where
  "count_usage st pk [] n c = (n, c)"
| "count_usage st pk (r # rs) n c =
     (if counts_for st pk r then count_usage st pk rs (n + 1) (c + us_quantity r)
      else count_usage st pk rs n c)"

definition quota_entry :: "string \<Rightarrow> string option \<Rightarrow> string option \<Rightarrow> Quota option \<Rightarrow> Usage list \<Rightarrow> QuotaUsageEntry" where
  "quota_entry scope st pk quota records =
     (let (used, compute) = count_usage st pk records 0 0;
        used' = (if st = None \<and> pk = None \<and> startswith scope ''service_type:''
          then int (length (filter (counts_for (Some (removeprefix scope ''service_type:'')) None) records))
          else used)
      in \<lparr>qe_scope = scope, qe_used_instances = used',
          qe_max_instances = (case quota of Some q \<Rightarrow> qt_max_instances q | None \<Rightarrow> None),
          qe_used_compute_units = compute,
          qe_max_compute_units = (case quota of Some q \<Rightarrow> qt_max_compute_units q | None \<Rightarrow> None),
          qe_period = (case quota of Some q \<Rightarrow> qt_period q | None \<Rightarrow> lifetime)\<rparr>)"

definition compute_usage :: "env \<Rightarrow> string \<Rightarrow> string \<Rightarrow> string option \<Rightarrow> string option \<Rightarrow> QuotaUsageEntry prog" where
  "compute_usage E tid scope st pk =
     bind_io (get_quota E (tid, scope)) (\<lambda>quota.
     bind_io (query_usage E tid None None None None 1000) (\<lambda>records.
     ret (quota_entry scope st pk quota records)))"

definition str_opt_int :: "int option \<Rightarrow> string" where
  "str_opt_int v = (case v of None \<Rightarrow> ''None'' | Some i \<Rightarrow> str_of_int i)"

definition cap_reason :: "string \<Rightarrow> string \<Rightarrow> string \<Rightarrow> QuotaUsageEntry \<Rightarrow> string" where
  "cap_reason tid what name e = ''quota: tenant '' @ py_repr tid @ '' at the per-'' @ what @
     '' cap for '' @ py_repr name @ '' ('' @ str_of_int (qe_used_instances e) @ ''/'' @
     str_opt_int (qe_max_instances e) @ '')''"

definition check_provision :: "env \<Rightarrow> string \<Rightarrow> string \<Rightarrow> string option \<Rightarrow> QuotaCheckResult prog" where
  "check_provision E tid st pack =
     bind_io (compute_usage E tid (service_type_scope st) (Some st) None) (\<lambda>per_service.
     let reasons = (if at_limit per_service then [cap_reason tid ''service'' st per_service] else [])
     in if truthy pack then
          bind_io (compute_usage E tid (pack_scope (the pack)) None pack) (\<lambda>per_pack.
          let reasons' = reasons @ (if at_limit per_pack then [cap_reason tid ''pack'' (the pack) per_pack] else [])
          in ret \<lparr>qc_allow = (reasons' = []), qc_reasons = reasons', qc_breakdown = [per_service, per_pack]\<rparr>)
        else ret \<lparr>qc_allow = (reasons = []), qc_reasons = reasons, qc_breakdown = [per_service]\<rparr>)"

definition observed_scopes :: "Usage list \<Rightarrow> string list" where
  "observed_scopes records = concat (map (\<lambda>r.
     (case jget (us_metadata r) ''service_type'' of
        JStr s \<Rightarrow> if s \<noteq> [] then [service_type_scope s] else [] | _ \<Rightarrow> []) @
     (case jget (us_metadata r) ''pack'' of
        JStr p \<Rightarrow> if p \<noteq> [] then [pack_scope p] else [] | _ \<Rightarrow> [])) records)"

definition service_type_from_scope :: "string \<Rightarrow> string option" where
  "service_type_from_scope scope = (if startswith scope ''service_type:''
     then Some (removeprefix scope ''service_type:'') else None)"

definition pack_from_scope :: "string \<Rightarrow> string option" where
  "pack_from_scope scope = (if startswith scope ''pack:'' then Some (removeprefix scope ''pack:'') else None)"

definition usage_summary :: "env \<Rightarrow> string \<Rightarrow> QuotaUsageEntry list prog" where
  "usage_summary E tid =
     bind_io (list_for_tenant E tid) (\<lambda>configured.
     bind_io (query_usage E tid None None None None 1000) (\<lambda>records.
     let scopes = sort (remdups (map qt_scope configured @ observed_scopes records))
     in map_io (\<lambda>scope. compute_usage E tid scope (service_type_from_scope scope) (pack_from_scope scope)) scopes))"

section \<open>Properties\<close>

lemma count_usage_eq:
  "count_usage st pk rs n c = (n + int (length (filter (counts_for st pk) rs)),
     c + sum_list (map us_quantity (filter (counts_for st pk) rs)))"
  by (induction rs arbitrary: n c) auto

lemma quota_entry_used:
  assumes "st \<noteq> None \<or> pk \<noteq> None"
  shows "qe_used_instances (quota_entry scope st pk q rs) = int (length (filter (counts_for st pk) rs))"
  using assms by (auto simp: quota_entry_def count_usage_eq)

lemma quota_entry_max:
  "qe_max_instances (quota_entry scope st pk q rs) = (case q of Some q \<Rightarrow> qt_max_instances q | None \<Rightarrow> None)"
  by (simp add: quota_entry_def split: prod.split)

lemma decode_rows_length: "decode_rows dec rows = Inr xs \<Longrightarrow> length xs \<le> length rows"
  by (induction rows arbitrary: xs) (auto split: if_splits sum.splits simp: map_sum_def le_SucI)

text \<open>A query answers at most one page of \<open>Limit\<close> items.\<close>

definition ddb_limit :: "env \<Rightarrow> bool" where
  "ddb_limit E \<longleftrightarrow> (\<forall>h t q rows l. env_query E h t q = Inr rows \<longrightarrow> dq_limit q = Some l \<longrightarrow> 1 \<le> l \<longrightarrow> int (length rows) \<le> l)"

lemma query_usage_limit:
  assumes "ddb_limit E" "query_usage E tid since until rid rty 1000 h = (Inr us, h')"
  shows "length us \<le> 1000"
proof -
  from assms(2) obtain rows q now all where q: "env_query E h USAGE_TABLE q = Inr rows" "dq_limit q = Some 1000"
    and all: "decode_rows (\<lambda>i. validate_payload ''Usage'' (validate_usage E now) (it_payload i)) rows = Inr all"
      "length us \<le> length all"
    by (auto simp: query_usage_def client_error_as_runtime_def run_ok catch_io_def
        split: prod.splits sum.splits if_splits)
  from assms(1) q have "int (length rows) \<le> 1000" unfolding ddb_limit_def by fastforce
  with decode_rows_length [OF all(1)] all(2) show ?thesis by linarith
qed

lemma compute_usage_run:
  assumes "compute_usage E tid scope st pk h = (Inr e, h')"
  obtains q us h1 where "get_quota E (tid, scope) h = (Inr q, h1)"
    "query_usage E tid None None None None 1000 h1 = (Inr us, h')" "e = quota_entry scope st pk q us"
  using assms by (auto simp: compute_usage_def run_ok)

lemma check_provision_allow:
  assumes "check_provision E tid st pack h = (Inr r, h')"
  shows "qc_allow r \<longleftrightarrow> (\<forall>e\<in>set (qc_breakdown r). \<not> at_limit e)"
    and "qc_allow r \<longleftrightarrow> qc_reasons r = []"
    and "map qe_scope (qc_breakdown r) =
      service_type_scope st # (if truthy pack then [pack_scope (the pack)] else [])"
  using assms by (auto simp: check_provision_def run_ok Let_def compute_usage_def quota_entry_def
      count_usage_eq split: if_splits)

lemma emits_query_usage [emits_rules]:
  "(\<And>q r. P (EvQuery USAGE_TABLE q r)) \<Longrightarrow> emits P (query_usage E tid since until rid rty n)"
  unfolding query_usage_def by (intro emits_rules) auto

lemma emits_compute_usage [emits_rules]:
  "(\<And>k r. P (EvGet QUOTA_TABLE k r)) \<Longrightarrow> (\<And>q r. P (EvQuery USAGE_TABLE q r)) \<Longrightarrow>
     emits P (compute_usage E tid scope st pk)"
  unfolding compute_usage_def get_quota_def prod.case by (intro emits_rules) auto

lemma emits_check_provision [emits_rules]:
  "(\<And>k r. P (EvGet QUOTA_TABLE k r)) \<Longrightarrow> (\<And>q r. P (EvQuery USAGE_TABLE q r)) \<Longrightarrow>
     emits P (check_provision E tid st pack)"
  unfolding check_provision_def by (intro emits_rules) auto

end
