(* ===== verification/Catalog.thy ===== *)
theory Catalog
  imports Stores
begin

text \<open>
  Model of \<open>libs/common/sovereign/catalog/\<close>: catalog entries and their store, two interpretations of
  the payload-store interface on one table.
\<close>

section \<open>Models\<close>

record ParameterSchema =
  ps_schema_dialect :: string
  ps_schema :: dict

record ServicePlan =
  sp_id :: string
  sp_name :: string
  sp_description :: string
  sp_free :: bool
  sp_metadata :: dict

record ServiceCatalogEntry =
  sc_service_type :: string
  sc_name :: string
  sc_description :: string
  sc_bindable :: bool
  sc_tags :: "string list"
  sc_plans :: "ServicePlan list"
  sc_parameter_schema :: ParameterSchema
  sc_pack :: string
  sc_metadata :: dict

record ConnectorCatalogEntry =
  cc_connector_type :: string
  cc_name :: string
  cc_description :: string
  cc_pack :: string
  cc_config_schema :: ParameterSchema
  cc_capabilities :: "string list"
  cc_metadata :: dict

definition default_schema :: ParameterSchema where
  "default_schema = \<lparr>ps_schema_dialect = ''https://json-schema.org/draft/2020-12/schema'', ps_schema = []\<rparr>"

definition dump_schema :: "ParameterSchema \<Rightarrow> json" where
  "dump_schema p = JObj [(''schema_dialect'', JStr (ps_schema_dialect p)), (''schema'', JObj (ps_schema p))]"

definition validate_schema :: "env \<Rightarrow> json \<Rightarrow> ParameterSchema option" where
  "validate_schema E v = do {
     d \<leftarrow> dec_obj v;
     dia \<leftarrow> dec_field d ''schema_dialect'' (env_pyd_str E) (Some (ps_schema_dialect default_schema));
     sch \<leftarrow> dec_field d ''schema'' dec_obj (dec_field d ''schema_'' dec_obj (Some []));
     Some \<lparr>ps_schema_dialect = dia, ps_schema = sch\<rparr> }"

definition dump_plan :: "ServicePlan \<Rightarrow> json" where
  "dump_plan p = JObj [(''id'', JStr (sp_id p)), (''name'', JStr (sp_name p)),
     (''description'', JStr (sp_description p)), (''free'', JBool (sp_free p)), (''metadata'', JObj (sp_metadata p))]"

definition validate_plan :: "env \<Rightarrow> json \<Rightarrow> ServicePlan option" where
  "validate_plan E v = do {
     d \<leftarrow> dec_obj v;
     i \<leftarrow> dec_field d ''id'' (env_pyd_str E) None;
     n \<leftarrow> dec_field d ''name'' (env_pyd_str E) None;
     ds \<leftarrow> dec_field d ''description'' (env_pyd_str E) None;
     fr \<leftarrow> dec_field d ''free'' (env_pyd_bool E) (Some False);
     md \<leftarrow> dec_field d ''metadata'' dec_obj (Some []);
     Some \<lparr>sp_id = i, sp_name = n, sp_description = ds, sp_free = fr, sp_metadata = md\<rparr> }"

definition dump_service_entry :: "env \<Rightarrow> ServiceCatalogEntry \<Rightarrow> dict" where
  "dump_service_entry E e = [(''service_type'', JStr (sc_service_type e)), (''name'', JStr (sc_name e)),
     (''description'', JStr (sc_description e)), (''bindable'', JBool (sc_bindable e)),
     (''tags'', jstrs (sc_tags e)), (''plans'', JList (map dump_plan (sc_plans e))),
     (''parameter_schema'', dump_schema (sc_parameter_schema e)), (''pack'', JStr (sc_pack e)),
     (''metadata'', JObj (sc_metadata e))]"

definition validate_service_entry :: "env \<Rightarrow> dict \<Rightarrow> ServiceCatalogEntry option" where
  "validate_service_entry E d = do {
     st \<leftarrow> dec_field d ''service_type'' (env_pyd_str E) None;
     n \<leftarrow> dec_field d ''name'' (env_pyd_str E) None;
     ds \<leftarrow> dec_field d ''description'' (env_pyd_str E) None;
     b \<leftarrow> dec_field d ''bindable'' (env_pyd_bool E) (Some True);
     tg \<leftarrow> dec_field d ''tags'' (dec_list (env_pyd_str E)) (Some []);
     pl \<leftarrow> dec_field d ''plans'' (dec_list (validate_plan E)) (Some []);
     ps \<leftarrow> dec_field d ''parameter_schema'' (validate_schema E) (Some default_schema);
     pk \<leftarrow> dec_field d ''pack'' (env_pyd_str E) (Some ''chassis'');
     md \<leftarrow> dec_field d ''metadata'' dec_obj (Some []);
     Some \<lparr>sc_service_type = st, sc_name = n, sc_description = ds, sc_bindable = b, sc_tags = tg,
       sc_plans = pl, sc_parameter_schema = ps, sc_pack = pk, sc_metadata = md\<rparr> }"

definition dump_connector_entry :: "env \<Rightarrow> ConnectorCatalogEntry \<Rightarrow> dict" where
  "dump_connector_entry E e = [(''connector_type'', JStr (cc_connector_type e)), (''name'', JStr (cc_name e)),
     (''description'', JStr (cc_description e)), (''pack'', JStr (cc_pack e)),
     (''config_schema'', dump_schema (cc_config_schema e)), (''capabilities'', jstrs (cc_capabilities e)),
     (''metadata'', JObj (cc_metadata e))]"

definition validate_connector_entry :: "env \<Rightarrow> dict \<Rightarrow> ConnectorCatalogEntry option" where
  "validate_connector_entry E d = do {
     ct \<leftarrow> dec_field d ''connector_type'' (env_pyd_str E) None;
     n \<leftarrow> dec_field d ''name'' (env_pyd_str E) None;
     ds \<leftarrow> dec_field d ''description'' (env_pyd_str E) None;
     pk \<leftarrow> dec_field d ''pack'' (env_pyd_str E) (Some ''chassis'');
     cs \<leftarrow> dec_field d ''config_schema'' (validate_schema E) (Some default_schema);
     cp \<leftarrow> dec_field d ''capabilities'' (dec_list (env_pyd_str E)) (Some []);
     md \<leftarrow> dec_field d ''metadata'' dec_obj (Some []);
     Some \<lparr>cc_connector_type = ct, cc_name = n, cc_description = ds, cc_pack = pk,
       cc_config_schema = cs, cc_capabilities = cp, cc_metadata = md\<rparr> }"

lemma validate_schema_dump: "pydantic_exact E \<Longrightarrow> validate_schema E (dump_schema p) = Some p"
  by (simp add: validate_schema_def dump_schema_def dec_field_def dec_obj_def pydantic_dec)

lemma validate_plan_dump: "pydantic_exact E \<Longrightarrow> validate_plan E (dump_plan p) = Some p"
  by (simp add: validate_plan_def dump_plan_def dec_field_def dec_obj_def pydantic_dec)

lemma validate_service_entry_dump:
  assumes "pydantic_exact E"
  shows "validate_service_entry E (dump_service_entry E e) = Some e"
proof -
  have "dec_list (validate_plan E) (JList (map dump_plan (sc_plans e))) = Some (sc_plans e)"
    using assms by (intro dec_list_inverse) (simp add: validate_plan_dump)
  with assms show ?thesis
    by (simp add: validate_service_entry_def dump_service_entry_def dec_field_def dec_obj_def pydantic_dec
        validate_schema_dump)
qed

lemma validate_connector_entry_dump:
  "pydantic_exact E \<Longrightarrow> validate_connector_entry E (dump_connector_entry E e) = Some e"
  by (simp add: validate_connector_entry_def dump_connector_entry_def dec_field_def dec_obj_def pydantic_dec
      validate_schema_dump)

section \<open>The store\<close>

abbreviation "CATALOG_TABLE \<equiv> ''sovereign_catalog''"

definition decode_service :: "env \<Rightarrow> string \<Rightarrow> item \<Rightarrow> exn + ServiceCatalogEntry" where
  "decode_service E now i = validate_payload ''ServiceCatalogEntry'' (validate_service_entry E) (it_payload i)"

definition decode_connector :: "env \<Rightarrow> string \<Rightarrow> item \<Rightarrow> exn + ConnectorCatalogEntry" where
  "decode_connector E now i = validate_payload ''ConnectorCatalogEntry'' (validate_connector_entry E) (it_payload i)"

definition put_service :: "env \<Rightarrow> ServiceCatalogEntry \<Rightarrow> unit prog" where
  "put_service E e = put_item E CATALOG_TABLE \<lparr>it_key = [''service'', sc_service_type e], it_attrs = [],
     it_payload = PText (JObj (dump_service_entry E e))\<rparr>"

definition get_service :: "env \<Rightarrow> string \<Rightarrow> ServiceCatalogEntry option prog" where
  "get_service E st = get_row E CATALOG_TABLE [''service'', st] (decode_service E)"

definition put_connector :: "env \<Rightarrow> ConnectorCatalogEntry \<Rightarrow> unit prog" where
  "put_connector E e = put_item E CATALOG_TABLE \<lparr>it_key = [''connector'', cc_connector_type e], it_attrs = [],
     it_payload = PText (JObj (dump_connector_entry E e))\<rparr>"

definition get_connector :: "env \<Rightarrow> string \<Rightarrow> ConnectorCatalogEntry option prog" where
  "get_connector E ct = get_row E CATALOG_TABLE [''connector'', ct] (decode_connector E)"

definition delete_catalog :: "env \<Rightarrow> string \<Rightarrow> string \<Rightarrow> unit prog" where
  "delete_catalog E kind tid = delete_item E CATALOG_TABLE [kind, tid]"

definition query_kind :: "env \<Rightarrow> string \<Rightarrow> item list prog" where
  "query_kind E kind = client_error_as_runtime E ''catalog query failed: ''
     (query_items E CATALOG_TABLE \<lparr>dq_index = None, dq_hash = kind, dq_range = AnyRange, dq_limit = None, dq_forward = True\<rparr>)"

definition list_services :: "env \<Rightarrow> ServiceCatalogEntry list prog" where
  "list_services E = bind_io (query_kind E ''service'') (\<lambda>rows.
     bind_io (now_io E) (\<lambda>now. lift_res (decode_rows (decode_service E now) rows)))"

definition list_connectors :: "env \<Rightarrow> ConnectorCatalogEntry list prog" where
  "list_connectors E = bind_io (query_kind E ''connector'') (\<lambda>rows.
     bind_io (now_io E) (\<lambda>now. lift_res (decode_rows (decode_connector E now) rows)))"

interpretation services: payload_store CATALOG_TABLE "\<lambda>k. [''service'', k]" sc_service_type dump_service_entry
  decode_service put_service get_service "\<lambda>E. delete_catalog E ''service''"
  by unfold_locales (simp_all add: put_service_def get_service_def delete_catalog_def decode_service_def
    validate_service_entry_dump)

interpretation connectors: payload_store CATALOG_TABLE "\<lambda>k. [''connector'', k]" cc_connector_type dump_connector_entry
  decode_connector put_connector get_connector "\<lambda>E. delete_catalog E ''connector''"
  by unfold_locales (simp_all add: put_connector_def get_connector_def delete_catalog_def decode_connector_def
    validate_connector_entry_dump)

end
