(* ===== verification/Broker.thy ===== *)
theory Broker
  imports ControlPlane Quotas Catalog
begin

text \<open>
  Model of \<open>apps/broker/app/main.py\<close>: caller identification, the RBAC, quota and policy gates with
  obligation enforcement, the operation state machine of an instance, and the routes. A route is a
  program over the environment; handlers that go on reading a mutated instance after an exception
  return it next to the outcome.
\<close>

section \<open>Identity\<close>

record Caller =
  ca_user :: TokenUser
  ca_is_basic :: bool

definition anonymous :: Caller where
  "anonymous = \<lparr>ca_user = \<lparr>tu_principal = ''anonymous'', tu_tenant_id = JNull, tu_groups = [], tu_raw = []\<rparr>,
     ca_is_basic = True\<rparr>"

definition basic_caller :: "string \<Rightarrow> Caller" where
  "basic_caller username = \<lparr>ca_user = \<lparr>tu_principal = ''broker:'' @ username, tu_tenant_id = JNull, tu_groups = [],
     tu_raw = [(''basic_auth'', JBool True)]\<rparr>, ca_is_basic = True\<rparr>"

text \<open>\<open>creds\<close> are the HTTP Basic credentials, when the request has any.\<close>

definition identify :: "env \<Rightarrow> string option \<Rightarrow> (string \<times> string) option \<Rightarrow> Caller prog" where
  "identify E authorization creds =
     (if truthy authorization \<and> startswith (lower (the authorization)) ''bearer '' then
        bind_io (decode_token E (strip_bearer (the authorization))) (\<lambda>claims.
        if \<not> jtruthy (jget claims ''sub'')
        then throw (HTTPException 401 (JStr (''token missing '' @ py_repr ''sub'' @ '' claim'')))
        else bind_io (lift_res (user_of_claims E claims)) (\<lambda>u. ret \<lparr>ca_user = u, ca_is_basic = False\<rparr>))
      else (case creds of
        None \<Rightarrow> ret anonymous
      | Some (username, password) \<Rightarrow>
          bind_io (lift_res (compare_digest username (cfg_broker_username (cfg E)))) (\<lambda>u.
          bind_io (if u then lift_res (compare_digest password (cfg_broker_password (cfg E))) else ret False) (\<lambda>ok.
          if \<not> ok then throw (HTTPException 401 (JStr ''invalid credentials''))
          else ret (basic_caller username)))))"

definition state_change_identify :: "env \<Rightarrow> string option \<Rightarrow> (string \<times> string) option \<Rightarrow> Caller prog" where
  "state_change_identify E authorization creds = bind_io (identify E authorization creds) (\<lambda>c.
     if tu_principal (ca_user c) = ''anonymous''
     then throw (HTTPException 401 (JStr ''authentication required'')) else ret c)"

section \<open>Gates\<close>

text \<open>A \<open>tid\<close> claim that is no string fails the validation of the first record built from it; here it
  fails at once.\<close>

definition resolve_tenant_id :: "Caller \<Rightarrow> string option \<Rightarrow> string prog" where
  "resolve_tenant_id c req = (if truthy req then ret (the req)
     else if \<not> jtruthy (tu_tenant_id (ca_user c)) then ret ''default''
     else (case tu_tenant_id (ca_user c) of JStr s \<Rightarrow> ret s | _ \<Rightarrow> throw (ValidationError ''tenant_id'')))"

abbreviation broker_audit :: "env \<Rightarrow> string \<Rightarrow> string \<Rightarrow> string \<Rightarrow> Caller \<Rightarrow> string \<Rightarrow> string \<Rightarrow> dict \<Rightarrow> unit prog" where
  "broker_audit E action resource details c tid decision md \<equiv>
     audit_emit E ''broker'' action resource details (Some (tu_principal (ca_user c))) tid decision md"

definition enforce_rbac :: "env \<Rightarrow> Caller \<Rightarrow> string \<Rightarrow> string \<Rightarrow> unit prog" where
  "enforce_rbac E c tid action =
     (if ca_is_basic c \<and> cfg_broker_trust_basic_auth (cfg E) then ret ()
      else catch_io (seq_io (authorize E (ca_user c) tid action) (ret ())) (\<lambda>x.
        if is_HTTPException x then
          seq_io (broker_audit E ''rbac.denied'' (action @ '':'' @ tid) [] c tid ''deny''
             [(''action'', JStr action), (''groups'', JList (tu_groups (ca_user c)))]) (throw x)
        else throw x))"

definition resolve_pack :: "env \<Rightarrow> string \<Rightarrow> string option prog" where
  "resolve_pack E st = catch_io (bind_io (get_service E st) (\<lambda>e. ret (map_option sc_pack e)))
     (\<lambda>x. if is_RuntimeError x then ret None else throw x)"

definition dump_quota_entry :: "QuotaUsageEntry \<Rightarrow> json" where
  "dump_quota_entry e = JObj [(''scope'', JStr (qe_scope e)), (''used_instances'', JInt (qe_used_instances e)),
     (''max_instances'', jopt_int (qe_max_instances e)), (''used_compute_units'', JFloat (qe_used_compute_units e)),
     (''max_compute_units'', jopt_rat (qe_max_compute_units e)), (''period'', JStr (QuotaPeriod_value (qe_period e)))]"

definition check_quota :: "env \<Rightarrow> Caller \<Rightarrow> string \<Rightarrow> string \<Rightarrow> unit prog" where
  "check_quota E c tid st =
     bind_io (resolve_pack E st) (\<lambda>pack.
     bind_io (check_provision E tid st pack) (\<lambda>r.
     if \<not> qc_allow r then
       seq_io (broker_audit E ''quota.exceeded'' (''provision:'' @ st) [] c tid ''deny''
          [(''service_type'', JStr st), (''pack'', jopt pack), (''reasons'', jstrs (qc_reasons r)),
           (''breakdown'', JList (map dump_quota_entry (qc_breakdown r)))])
         (throw (HTTPException 403 (JObj [(''message'', JStr ''quota exceeded''), (''reasons'', jstrs (qc_reasons r)),
           (''breakdown'', JList (map dump_quota_entry (qc_breakdown r)))])))
     else ret ()))"

definition tenant_policy_context :: "env \<Rightarrow> string \<Rightarrow> dict prog" where
  "tenant_policy_context E tid = bind_io
     (catch_io (get_tenant E tid) (\<lambda>x. if is_ClientError x then ret None else throw x))
     (\<lambda>t. ret (case t of None \<Rightarrow> [] | Some t \<Rightarrow> let md = tn_metadata t in
        (case jget md ''approved_services'' of JList xs \<Rightarrow> [(''approved_services'', JList xs)] | _ \<Rightarrow> []) @
        (case jget md ''approved_regions'' of JList xs \<Rightarrow> [(''approved_regions'', JList xs)] | _ \<Rightarrow> []) @
        (case jget md ''approved_plans'' of JObj d \<Rightarrow> [(''approved_plans'', JObj d)] | _ \<Rightarrow> [])))"

definition policy_client :: "env \<Rightarrow> PolicyClient" where
  "policy_client E = new_policy_client (cfg E) None None True"

definition claim_amr :: "dict \<Rightarrow> json" where
  "claim_amr raw = (case jget_or raw ''amr'' (JList []) of JStr s \<Rightarrow> JList [JStr s] | JList xs \<Rightarrow> JList xs | _ \<Rightarrow> JList [])"

definition json_list :: "json \<Rightarrow> json list option" where
  "json_list j = (case j of JList xs \<Rightarrow> Some xs | _ \<Rightarrow> None)"

definition json_dict :: "json \<Rightarrow> dict option" where
  "json_dict j = (case j of JObj d \<Rightarrow> Some d | _ \<Rightarrow> None)"

definition broker_policy_input :: "Caller \<Rightarrow> string \<Rightarrow> string \<Rightarrow> dict \<Rightarrow> string \<Rightarrow> string \<Rightarrow> dict \<Rightarrow> dict" where
  "broker_policy_input c st plan params tid action overrides = build_policy_input
     (tu_principal (ca_user c)) tid st plan params
     (Some [(''action'', JStr action), (''auth_scheme'', JStr (if ca_is_basic c then ''basic'' else ''oidc'')),
        (''caller_groups'', JList (tu_groups (ca_user c))), (''amr'', claim_amr (tu_raw (ca_user c))),
        (''acr'', jget_or (tu_raw (ca_user c)) ''acr'' (JStr [])), (''require_mfa'', JBool (\<not> ca_is_basic c))])
     (json_list (jget overrides ''approved_services'')) (json_dict (jget overrides ''approved_plans''))
     (json_list (jget overrides ''approved_regions''))"

text \<open>Every registered handler records and returns \<open>True\<close>.\<close>

definition OBLIGATION_HANDLERS :: "(string \<times> bool) list" where
  "OBLIGATION_HANDLERS = map (\<lambda>o'. (o', True))
     [''pii-redaction'', ''audit-model-provenance'', ''siem-self-monitor'', ''tag-data-classification'',
      ''tag-cloud-classification'', ''record-edge-attestation'', ''audit-identity-binding'',
      ''archive-comms-metadata'', ''register-validator-identities'']"

definition enforce_obligation :: "env \<Rightarrow> Caller \<Rightarrow> string \<Rightarrow> string \<Rightarrow> string \<Rightarrow> string \<Rightarrow> string \<Rightarrow> unit prog" where
  "enforce_obligation E c iid st tid action ob =
     (let honoured = (case map_of OBLIGATION_HANDLERS ob of Some b \<Rightarrow> b | None \<Rightarrow> False) in
      seq_io (broker_audit E (if honoured then ''obligation.enforced'' else ''obligation.failed'')
          (action @ '':'' @ iid) [] c tid (if honoured then ''allow'' else ''deny'')
          [(''obligation'', JStr ob), (''service_type'', JStr st)])
        (if honoured then ret () else throw (HTTPException 503 (JObj
           [(''message'', JStr ''policy obligation could not be enforced''), (''obligation'', JStr ob)]))))"

definition enforce_obligations :: "env \<Rightarrow> Caller \<Rightarrow> string \<Rightarrow> string \<Rightarrow> string \<Rightarrow> string \<Rightarrow> string list \<Rightarrow> unit prog" where
  "enforce_obligations E c iid st tid action obs = for_io (enforce_obligation E c iid st tid action) obs"

definition policy_rejected :: "PolicyDecision \<Rightarrow> exn" where
  "policy_rejected d = HTTPException 403 (JObj [(''message'', JStr ''policy rejected the request''),
     (''denies'', jstrs (pd_denies d)), (''matched_layers'', jstrs (pd_matched_layers d))])"

definition evaluate_policy :: "env \<Rightarrow> Caller \<Rightarrow> string \<Rightarrow> string \<Rightarrow> string \<Rightarrow> dict \<Rightarrow> string \<Rightarrow> string \<Rightarrow> PolicyDecision prog" where
  "evaluate_policy E c iid st plan params tid action =
     bind_io (tenant_policy_context E tid) (\<lambda>overrides.
     bind_io (policy_evaluate E (policy_client E) (broker_policy_input c st plan params tid action overrides)) (\<lambda>d.
     seq_io (broker_audit E ''policy.evaluated'' (action @ '':'' @ iid) [] c tid (if pd_allow d then ''allow'' else ''deny'')
        [(''service_type'', JStr st), (''plan_id'', JStr plan), (''denies'', jstrs (pd_denies d)),
         (''matched_layers'', jstrs (pd_matched_layers d)), (''obligations'', jstrs (pd_obligations d)),
         (''action'', JStr action)])
     (if \<not> pd_allow d then throw (policy_rejected d)
      else seq_io (enforce_obligations E c iid st tid action (pd_obligations d)) (ret d))))"

definition emit_usage :: "env \<Rightarrow> string \<Rightarrow> string \<Rightarrow> string \<Rightarrow> string \<Rightarrow> unit prog" where
  "emit_usage E tid iid st plan = bind_io (resolve_pack E st) (\<lambda>pack.
     metering_record E ''broker'' tid iid ''instance'' 1 ''instance''
       [(''service_type'', JStr st), (''plan_id'', JStr plan), (''pack'', jopt pack)])"

section \<open>Operations\<close>

definition operation_id :: "ServiceInstance \<Rightarrow> string \<Rightarrow> string" where
  "operation_id i op = si_instance_id i @ '':v'' @ str_of_int (si_version i) @ '':'' @ op"

definition begin_operation :: "string \<Rightarrow> ServiceInstance \<Rightarrow> ServiceInstance" where
  "begin_operation op i = i\<lparr>si_operation_id := Some (operation_id i op), si_operation_type := Some op,
     si_operation_state := Some in_progress, si_operation_reason := [], si_failed_step_kind := None,
     si_drift_status := reconciling\<rparr>"

text \<open>\<open>int(version) if isinstance(version, int | str) else inst.version\<close>; a bool is an int.\<close>

definition applied_version_of :: "json \<Rightarrow> int \<Rightarrow> exn + int" where
  "applied_version_of v dflt = (case v of JInt _ \<Rightarrow> py_int v | JBool _ \<Rightarrow> py_int v | JStr _ \<Rightarrow> py_int v | _ \<Rightarrow> Inr dflt)"

definition mark_operation_succeeded :: "string \<Rightarrow> json \<Rightarrow> ServiceInstance \<Rightarrow> exn + ServiceInstance" where
  "mark_operation_succeeded now artifact i = (case artifact of
     JObj a \<Rightarrow> (case applied_version_of (jget_or a ''version'' (JInt (si_version i))) (si_version i) of
         Inl x \<Rightarrow> Inl x
       | Inr v \<Rightarrow> Inr (i\<lparr>si_applied_version := Some v, si_operation_state := Some op_succeeded,
           si_operation_reason := [], si_failed_step_kind := None, si_drift_status := in_sync,
           si_last_reconciled_at := Some now,
           si_apply_outputs := [(''bucket'', jget_or a ''bucket'' (JStr [])), (''key'', jget_or a ''key'' (JStr [])),
             (''service_type'', jget_or a ''service_type'' (JStr (si_service_id i))),
             (''manifest'', jget_or a ''manifest'' (JList []))]\<rparr>))
   | _ \<Rightarrow> Inl (AttributeError ''get''))"

text \<open>\<open>s.split(sub, 1)[1]\<close>, when \<open>sub in s\<close>.\<close>

fun after_sub :: "string \<Rightarrow> string \<Rightarrow> string option" where
  "after_sub sub [] = (if sub = [] then Some [] else None)"
| "after_sub sub (c # cs) = (if startswith (c # cs) sub then Some (drop (length sub) (c # cs)) else after_sub sub cs)"

definition failed_step_of :: "dict \<Rightarrow> string option" where
  "failed_step_of d = (case jget d ''failed_step'' of JStr s \<Rightarrow> Some s | _ \<Rightarrow> None)"

definition failure_detail :: "env \<Rightarrow> exn \<Rightarrow> exn + (string \<times> string option)" where
  "failure_detail E x = (case x of
     HTTPException _ (JObj d) \<Rightarrow> Inr (env_json_dumps E (JObj d), failed_step_of d)
   | HTTPException _ detail \<Rightarrow> Inr (py_str E detail, None)
   | HTTPStatusError rs \<Rightarrow>
       (case (case rs_json rs of None \<Rightarrow> Inr (JStr (rs_text rs)) | Some (JObj b) \<Rightarrow> Inr (jget b ''detail'')
              | Some _ \<Rightarrow> Inl (AttributeError ''get'')) of
          Inl y \<Rightarrow> Inl y
        | Inr (JObj d) \<Rightarrow> Inr (env_json_dumps E (JObj d), failed_step_of d)
        | Inr (JStr s) \<Rightarrow> Inr (s, (case after_sub ''apply failed at step '' s of None \<Rightarrow> None
             | Some r \<Rightarrow> Some (fst (partition_at (CHR '':'') r))))
        | Inr _ \<Rightarrow> Inr (env_str_exn E x, None))
   | _ \<Rightarrow> Inr (env_str_exn E x, None))"

definition mark_operation_failed :: "string \<Rightarrow> string \<Rightarrow> string option \<Rightarrow> ServiceInstance \<Rightarrow> ServiceInstance" where
  "mark_operation_failed now reason failed_step i = i\<lparr>si_operation_state := Some op_failed,
     si_operation_reason := reason, si_failed_step_kind := failed_step, si_drift_status := drifted,
     si_last_reconciled_at := Some now\<rparr>"

section \<open>Calls to the control plane\<close>

text \<open>\<open>raise_for_status\<close> and \<open>json()\<close>.\<close>

definition cp_call :: "env \<Rightarrow> string \<Rightarrow> ServiceInstance \<Rightarrow> json prog" where
  "cp_call E path i = bind_io (service_auth_headers E) (\<lambda>headers.
     bind_io (http_io E \<lparr>rq_method = ''POST'', rq_url = cfg_control_plane_url (cfg E) @ path, rq_headers = headers,
        rq_body = JObj [(''instance'', JObj (dump_instance i))]\<rparr>) (\<lambda>rs.
     if rs_status rs < 200 \<or> 300 \<le> rs_status rs then throw (HTTPStatusError rs)
     else (case rs_json rs of Some j \<Rightarrow> ret j | None \<Rightarrow> throw (ValueError (rs_text rs)))))"

definition broker_render :: "env \<Rightarrow> ServiceInstance \<Rightarrow> json prog" where
  "broker_render E i = catch_io (cp_call E ''/render'' i) (\<lambda>x. if is_HTTPError x
     then throw (HTTPException 503 (JStr (''control plane unavailable: '' @ env_str_exn E x))) else throw x)"

definition broker_diff :: "env \<Rightarrow> ServiceInstance \<Rightarrow> json option prog" where
  "broker_diff E i = catch_io (bind_io (cp_call E ''/diff'' i) (\<lambda>j. ret (Some j)))
     (\<lambda>x. if is_HTTPError x then ret None else throw x)"

text \<open>\<open>put_instance\<close> stamps the object before it writes, so the stamp stays when the write fails.\<close>

definition try_put_instance :: "env \<Rightarrow> ServiceInstance \<Rightarrow> (exn option \<times> ServiceInstance) prog" where
  "try_put_instance E i = bind_io (now_io E) (\<lambda>now.
     bind_io (try_io (put_instance E i)) (\<lambda>r. case r of
       Inl x \<Rightarrow> ret (Some x, i\<lparr>si_updated_at := now\<rparr>) | Inr i' \<Rightarrow> ret (None, i')))"

definition refresh_drift :: "env \<Rightarrow> ServiceInstance \<Rightarrow> ServiceInstance prog" where
  "refresh_drift E i = bind_io (broker_diff E i) (\<lambda>result. case result of
     None \<Rightarrow> ret i
   | Some (JObj d) \<Rightarrow>
       if jtruthy (jget d ''unknown'') then ret i
       else bind_io (now_io E) (\<lambda>now.
         bind_io (try_put_instance E (i\<lparr>si_drift_status := (if jtruthy (jget d ''drifted'') then drifted else in_sync),
            si_last_reconciled_at := Some now\<rparr>)) (\<lambda>(err, i').
         case err of None \<Rightarrow> ret i' | Some x \<Rightarrow> if is_ClientError x then ret i' else throw x))
   | Some _ \<Rightarrow> throw (AttributeError ''get''))"

section \<open>Finalising a provision\<close>

definition provision_failed_audit :: "env \<Rightarrow> Caller \<Rightarrow> string \<Rightarrow> exn \<Rightarrow> ServiceInstance \<Rightarrow> unit prog" where
  "provision_failed_audit E c tid x i = broker_audit E ''instance.provision_failed'' (si_instance_id i)
     (env_str_exn E x) c tid ''deny''
     [(''service_id'', JStr (si_service_id i)), (''plan_id'', JStr (si_plan_id i)),
      (''operation_id'', jopt (si_operation_id i)), (''reason'', JStr (si_operation_reason i)),
      (''failed_step_kind'', jopt (si_failed_step_kind i))]"

definition finalize_failed :: "env \<Rightarrow> Caller \<Rightarrow> string \<Rightarrow> exn \<Rightarrow> ServiceInstance \<Rightarrow> ((exn + json) \<times> ServiceInstance) prog" where
  "finalize_failed E c tid x i = (let i1 = i\<lparr>si_status := status_failed\<rparr> in
     case failure_detail E x of
       Inl y \<Rightarrow> ret (Inl y, i1)
     | Inr (reason, step) \<Rightarrow> bind_io (now_io E) (\<lambda>now.
         bind_io (try_put_instance E (mark_operation_failed now reason step i1)) (\<lambda>(err, i2).
         if (case err of Some y \<Rightarrow> \<not> is_ClientError y | None \<Rightarrow> False) then ret (Inl (the err), i2)
         else seq_io (provision_failed_audit E c tid x i2) (ret (Inl x, i2)))))"

definition provisioned_audit :: "env \<Rightarrow> Caller \<Rightarrow> string \<Rightarrow> string \<Rightarrow> json \<Rightarrow> ServiceInstance \<Rightarrow> unit prog" where
  "provisioned_audit E c tid action artifact i = broker_audit E action (si_instance_id i) (env_str_json E artifact) c tid ''allow''
     [(''service_id'', JStr (si_service_id i)), (''plan_id'', JStr (si_plan_id i)),
      (''operation_id'', jopt (si_operation_id i)), (''applied_version'', jopt_int (si_applied_version i))]"

definition finalize_succeeded :: "env \<Rightarrow> Caller \<Rightarrow> string \<Rightarrow> bool \<Rightarrow> string \<Rightarrow> json \<Rightarrow> ServiceInstance \<Rightarrow>
    ((exn + json) \<times> ServiceInstance) prog" where
  "finalize_succeeded E c tid metered audit_action artifact i =
     (let i1 = i\<lparr>si_status := status_succeeded\<rparr> in
      bind_io (now_io E) (\<lambda>now. case mark_operation_succeeded now artifact i1 of
        Inl x \<Rightarrow> ret (Inl x, i1)
      | Inr i2 \<Rightarrow> bind_io (try_put_instance E i2) (\<lambda>(err, i3). case err of
          Some x \<Rightarrow> ret (Inl (if is_ClientError x
             then HTTPException 503 (JStr (''state store unavailable after render: '' @ env_str_exn E x)) else x), i3)
        | None \<Rightarrow> bind_io (try_io (if metered
             then emit_usage E tid (si_instance_id i3) (si_service_id i3) (si_plan_id i3) else ret ())) (\<lambda>u. case u of
            Inl x \<Rightarrow> ret (Inl x, i3)
          | Inr _ \<Rightarrow> seq_io (provisioned_audit E c tid audit_action artifact i3) (ret (Inr artifact, i3))))))"

definition finalize_provision :: "env \<Rightarrow> Caller \<Rightarrow> string \<Rightarrow> bool \<Rightarrow> string \<Rightarrow> ServiceInstance \<Rightarrow>
    ((exn + json) \<times> ServiceInstance) prog" where
  "finalize_provision E c tid metered audit_action inst =
     (let i = (if si_operation_state inst = None then begin_operation ''provision'' inst else inst) in
      bind_io (try_io (broker_render E i)) (\<lambda>r. case r of
        Inl x \<Rightarrow> finalize_failed E c tid x i
      | Inr artifact \<Rightarrow> finalize_succeeded E c tid metered audit_action artifact i))"

text \<open>The background wrapper swallows the error.\<close>

definition finalize_provision_async :: "env \<Rightarrow> Caller \<Rightarrow> string \<Rightarrow> ServiceInstance \<Rightarrow> unit prog" where
  "finalize_provision_async E c tid i =
     seq_io (finalize_provision E c tid True ''instance.provisioned'' i) (ret ())"

section \<open>PUT /v2/service_instances/{id}\<close>

definition dashboard :: "string \<Rightarrow> string \<times> json" where
  "dashboard iid = (''dashboard_url'', JStr (''/dashboard/'' @ iid))"

definition store_unavailable :: "env \<Rightarrow> exn \<Rightarrow> exn" where
  "store_unavailable E x = (if is_ClientError x
     then HTTPException 503 (JStr (''state store unavailable: '' @ env_str_exn E x)) else x)"

text \<open>A 202 answer carries the deferred task.\<close>

datatype provision_response =
    AlreadyExists dict
  | Accepted dict ServiceInstance string
  | Created dict

definition provision_gates :: "env \<Rightarrow> Caller \<Rightarrow> string \<Rightarrow> ProvisionRequest \<Rightarrow> string prog" where
  "provision_gates E c iid req =
     bind_io (resolve_tenant_id c (pr_organization_guid req)) (\<lambda>tid.
     seq_io (enforce_rbac E c tid ACTION_PROVISION)
     (seq_io (check_quota E c tid (pr_service_id req))
     (seq_io (evaluate_policy E c iid (pr_service_id req) (pr_plan_id req) (dump_params (pr_parameters req)) tid ''provision'')
     (ret tid))))"

text \<open>Past the gates: record the desired state, then defer or finalise.\<close>

definition provision_answer :: "string \<Rightarrow> exn + json \<Rightarrow> provision_response prog" where
  "provision_answer iid r = lift_res (map_sum id (\<lambda>artifact.
     Created [dashboard iid, (''operation'', JStr ''provisioned''), (''config'', artifact)]) r)"

definition provision_admitted :: "env \<Rightarrow> Caller \<Rightarrow> string \<Rightarrow> ProvisionRequest \<Rightarrow> bool \<Rightarrow> string \<Rightarrow> provision_response prog" where
  "provision_admitted E c iid req accepts_incomplete tid =
     bind_io (now_io E) (\<lambda>now.
     bind_io (catch_io (put_instance E (begin_operation ''provision'' (new_instance now iid req)))
       (\<lambda>x. throw (store_unavailable E x))) (\<lambda>i.
     if accepts_incomplete
     then ret (Accepted [dashboard iid, (''operation'', JStr ''provisioning'')] i tid)
     else bind_io (finalize_provision E c tid True ''instance.provisioned'' i) (\<lambda>(r, _). provision_answer iid r)))"

definition provision :: "env \<Rightarrow> Caller \<Rightarrow> string \<Rightarrow> ProvisionRequest \<Rightarrow> bool \<Rightarrow> provision_response prog" where
  "provision E c iid req accepts_incomplete =
     bind_io (catch_io (get_instance E iid) (\<lambda>x. throw (store_unavailable E x))) (\<lambda>existing. case existing of
       Some _ \<Rightarrow> ret (AlreadyExists [dashboard iid, (''operation'', JStr ''already_exists'')])
     | None \<Rightarrow> bind_io (provision_gates E c iid req) (provision_admitted E c iid req accepts_incomplete))"

text \<open>The request together with its background task.\<close>

definition provision_and_background :: "env \<Rightarrow> Caller \<Rightarrow> string \<Rightarrow> ProvisionRequest \<Rightarrow> bool \<Rightarrow> provision_response prog" where
  "provision_and_background E c iid req ai = bind_io (provision E c iid req ai) (\<lambda>resp. case resp of
     Accepted body i tid \<Rightarrow> seq_io (finalize_provision_async E c tid i) (ret resp)
   | _ \<Rightarrow> ret resp)"

section \<open>PATCH\<close>

definition update_render :: "env \<Rightarrow> Caller \<Rightarrow> string \<Rightarrow> ServiceInstance \<Rightarrow> json prog" where
  "update_render E c tid i = bind_io (try_io (broker_render E i)) (\<lambda>r. case r of
     Inl x \<Rightarrow> bind_io (lift_res (failure_detail E x)) (\<lambda>(reason, step).
       bind_io (now_io E) (\<lambda>now.
       seq_io (put_instance E (mark_operation_failed now reason step (i\<lparr>si_status := status_failed\<rparr>))) (throw x)))
   | Inr artifact \<Rightarrow> bind_io (now_io E) (\<lambda>now.
       bind_io (lift_res (mark_operation_succeeded now artifact (i\<lparr>si_status := status_succeeded\<rparr>))) (\<lambda>i1.
       bind_io (put_instance E i1) (\<lambda>i2.
       seq_io (broker_audit E ''instance.updated'' (si_instance_id i) (env_str_json E artifact) c tid ''allow''
          [(''version'', JInt (si_version i2)), (''operation_id'', jopt (si_operation_id i2)),
           (''applied_version'', jopt_int (si_applied_version i2))])
         (ret artifact)))))"

definition updated_instance :: "UpdateRequest \<Rightarrow> ServiceInstance \<Rightarrow> ServiceInstance" where
  "updated_instance req i = begin_operation ''update''
     (i\<lparr>si_plan_id := str_or (ur_plan_id req) (si_plan_id i),
        si_parameters := (case ur_parameters req of Some p \<Rightarrow> p | None \<Rightarrow> si_parameters i),
        si_version := si_version i + 1\<rparr>)"

definition update_found :: "env \<Rightarrow> Caller \<Rightarrow> string \<Rightarrow> UpdateRequest \<Rightarrow> ServiceInstance \<Rightarrow> dict prog" where
  "update_found E c iid req i = bind_io (resolve_tenant_id c (si_organization_guid i)) (\<lambda>tid.
     seq_io (enforce_rbac E c tid ACTION_UPDATE)
     (let next = updated_instance req i in
      seq_io (evaluate_policy E c iid (si_service_id i) (si_plan_id next) (dump_params (si_parameters next)) tid ''update'')
      (bind_io (put_instance E next) (\<lambda>i1.
       bind_io (update_render E c tid i1) (\<lambda>artifact.
       ret [(''operation'', JStr ''updated''), (''config'', artifact)])))))"

definition update_route :: "env \<Rightarrow> Caller \<Rightarrow> string \<Rightarrow> UpdateRequest \<Rightarrow> dict prog" where
  "update_route E c iid req = bind_io (get_instance E iid) (\<lambda>inst. case inst of
     None \<Rightarrow> throw (HTTPException 404 (JStr ''instance not found''))
   | Some i \<Rightarrow> update_found E c iid req i)"

section \<open>DELETE\<close>

definition teardown_instance :: "renderers \<Rightarrow> env \<Rightarrow> Caller \<Rightarrow> string \<Rightarrow> ServiceInstance \<Rightarrow> unit prog" where
  "teardown_instance rs E c tid i = (case get_renderer rs (si_service_id i) of
     None \<Rightarrow> broker_audit E ''instance.teardown_skipped'' (si_instance_id i) [] c tid ''deny''
       [(''service_id'', JStr (si_service_id i)), (''reason'', JStr ''no renderer'')]
   | Some r \<Rightarrow> bind_io (try_io (rd_teardown r E i)) (\<lambda>res. case res of
       Inl x \<Rightarrow> broker_audit E ''instance.teardown_failed'' (si_instance_id i) [] c tid ''deny''
         [(''service_id'', JStr (si_service_id i)), (''reason'', JStr (env_str_exn E x))]
     | Inr t \<Rightarrow> broker_audit E (if tr_ok t then ''instance.torn_down'' else ''instance.teardown_failed'')
         (si_instance_id i) [] c tid (if tr_ok t then ''allow'' else ''deny'')
         [(''service_id'', JStr (si_service_id i)), (''removed'', jstrs (tr_removed t)),
          (''failed'', jstrs (tr_failed t)), (''detail'', JStr (tr_detail t))]))"

definition deprovision_found :: "renderers \<Rightarrow> env \<Rightarrow> Caller \<Rightarrow> string \<Rightarrow> ServiceInstance \<Rightarrow> dict prog" where
  "deprovision_found rs E c iid i = bind_io (resolve_tenant_id c (si_organization_guid i)) (\<lambda>tid.
     seq_io (enforce_rbac E c tid ''deprovision'')
     (seq_io (teardown_instance rs E c tid i)
     (seq_io (delete_instance E iid)
     (seq_io (broker_audit E ''instance.deprovisioned'' iid [] c tid ''allow'' []) (ret [])))))"

definition deprovision :: "renderers \<Rightarrow> env \<Rightarrow> Caller \<Rightarrow> string \<Rightarrow> dict prog" where
  "deprovision rs E c iid = bind_io (get_instance E iid) (\<lambda>inst. case inst of
     None \<Rightarrow> throw (HTTPException 410 (JStr ''instance already absent''))
   | Some i \<Rightarrow> deprovision_found rs E c iid i)"

section \<open>Bindings\<close>

definition binding_credentials :: "string \<Rightarrow> ServiceInstance \<Rightarrow> (string \<times> string) list" where
  "binding_credentials iid i =
     [(''config_url'', ''/instances/'' @ iid @ ''/versions/'' @ str_of_int (si_version i) @ ''/envoy.yaml''),
      (''instance_id'', iid), (''version'', str_of_int (si_version i))]"

definition bind_route :: "env \<Rightarrow> Caller \<Rightarrow> string \<Rightarrow> string \<Rightarrow> BindRequest \<Rightarrow> (string \<times> string) list prog" where
  "bind_route E c iid bid req = bind_io (get_instance E iid) (\<lambda>inst. case inst of
     None \<Rightarrow> throw (HTTPException 404 (JStr ''instance not found''))
   | Some i \<Rightarrow> bind_io (resolve_tenant_id c (si_organization_guid i)) (\<lambda>tid.
       seq_io (enforce_rbac E c tid ''bind'')
       (bind_io (now_io E) (\<lambda>now.
        let b = \<lparr>bd_schema_version = 1, bd_binding_id = bid, bd_instance_id = iid, bd_app_guid = br_app_guid req,
                 bd_credentials = binding_credentials iid i, bd_created_at = now\<rparr>
        in seq_io (put_binding E b)
           (seq_io (broker_audit E ''binding.created'' bid iid c tid ''allow'' [(''instance_id'', JStr iid)])
             (ret (bd_credentials b)))))))"

definition unbind_route :: "env \<Rightarrow> Caller \<Rightarrow> string \<Rightarrow> string \<Rightarrow> dict prog" where
  "unbind_route E c iid bid = bind_io (get_instance E iid) (\<lambda>inst. case inst of
     None \<Rightarrow> throw (HTTPException 410 (JStr ''instance already absent''))
   | Some i \<Rightarrow> bind_io (resolve_tenant_id c (si_organization_guid i)) (\<lambda>tid.
       seq_io (enforce_rbac E c tid ''bind'')
       (seq_io (delete_binding E bid)
       (seq_io (broker_audit E ''binding.deleted'' bid iid c tid ''allow'' [(''instance_id'', JStr iid)]) (ret [])))))"

section \<open>Queries\<close>

fun OSB_STATE :: "InstanceStatus \<Rightarrow> string" where
  "OSB_STATE provisioning = ''in progress''"
| "OSB_STATE status_succeeded = ''succeeded''"
| "OSB_STATE status_failed = ''failed''"
| "OSB_STATE deprovisioning = ''in progress''"

definition last_operation_of :: "ServiceInstance option \<Rightarrow> dict" where
  "last_operation_of inst = (case inst of
     None \<Rightarrow> [(''state'', JStr ''gone''), (''operation'', JStr ''gone'')]
   | Some i \<Rightarrow> [(''state'', JStr (InstanceStatus_value (si_status i))),
       (''operation'', JStr (case si_operation_state i of Some st \<Rightarrow> OperationState_value st | None \<Rightarrow> OSB_STATE (si_status i))),
       (''operation_id'', jopt (si_operation_id i)), (''description'', JStr (si_operation_reason i)),
       (''failed_step_kind'', jopt (si_failed_step_kind i)), (''desired_version'', JInt (si_version i)),
       (''applied_version'', jopt_int (si_applied_version i)), (''drift_status'', JStr (DriftStatus_value (si_drift_status i))),
       (''reconcile_attempts'', JInt (si_reconcile_attempts i))])"

definition last_operation :: "env \<Rightarrow> Caller \<Rightarrow> string \<Rightarrow> dict prog" where
  "last_operation E c iid = bind_io (get_instance E iid) (\<lambda>inst. ret (last_operation_of inst))"

definition get_usage :: "env \<Rightarrow> Caller \<Rightarrow> string \<Rightarrow> dict prog" where
  "get_usage E c tid = seq_io (enforce_rbac E c tid ACTION_READ)
     (bind_io (usage_summary E tid) (\<lambda>es.
        ret [(''tenant_id'', JStr tid), (''entries'', JList (map dump_quota_entry es))]))"

definition list_instances_route :: "env \<Rightarrow> Caller \<Rightarrow> string option \<Rightarrow> int \<Rightarrow> ServiceInstance list prog" where
  "list_instances_route E c tenant limit = seq_io
     (if ca_is_basic c then ret ()
      else (case tenant of
        None \<Rightarrow> throw (HTTPException 400 (JStr ''tenant_id query parameter is required for JWT callers''))
      | Some tid \<Rightarrow> enforce_rbac E c tid ACTION_READ))
     (list_instances E tenant limit)"

definition policy_check :: "env \<Rightarrow> Caller \<Rightarrow> string \<Rightarrow> string \<Rightarrow> string \<Rightarrow> dict \<Rightarrow> PolicyDecision prog" where
  "policy_check E c sid plan tid params = policy_evaluate E (policy_client E)
     (build_policy_input (tu_principal (ca_user c)) tid sid plan params None None None None)"

section \<open>Reconciliation\<close>

definition needs_reconcile :: "ServiceInstance \<Rightarrow> bool" where
  "needs_reconcile i \<longleftrightarrow> si_status i \<in> {provisioning, status_failed} \<or>
     si_drift_status i \<in> {drifted, reconciling} \<or> si_applied_version i \<noteq> Some (si_version i)"

definition system_reconciler :: Caller where
  "system_reconciler = \<lparr>ca_user = \<lparr>tu_principal = ''system:reconciler'', tu_tenant_id = JNull, tu_groups = [],
     tu_raw = [(''system'', JBool True)]\<rparr>, ca_is_basic = True\<rparr>"

datatype reconcile_result =
    Skipped string InstanceStatus DriftStatus
  | ReconcileFailed string InstanceStatus "string option" string "string option"
  | Reconciled string InstanceStatus "string option" "int option" json

fun is_change :: "reconcile_result \<Rightarrow> bool" where
  "is_change (Skipped _ _ _) = False"
| "is_change _ = True"

definition reconcile_instance :: "env \<Rightarrow> bool \<Rightarrow> ServiceInstance \<Rightarrow> (reconcile_result \<times> ServiceInstance) prog" where
  "reconcile_instance E refresh inst =
     bind_io (if refresh \<and> si_status inst = status_succeeded then refresh_drift E inst else ret inst) (\<lambda>i.
     if \<not> needs_reconcile i then ret (Skipped (si_instance_id i) (si_status i) (si_drift_status i), i)
     else let tid = str_or (si_organization_guid i) ''default'';
          i1 = begin_operation ''reconcile'' (i\<lparr>si_reconcile_attempts := si_reconcile_attempts i + 1\<rparr>) in
       bind_io (try_put_instance E i1) (\<lambda>(err, i2).
       if (case err of Some x \<Rightarrow> \<not> is_ClientError x | None \<Rightarrow> False) then throw (the err)
       else bind_io (finalize_provision E system_reconciler tid False ''instance.reconciled'' i2) (\<lambda>(r, i3).
         ret (case r of
           Inl _ \<Rightarrow> ReconcileFailed (si_instance_id i3) (si_status i3) (si_operation_id i3) (si_operation_reason i3) (si_failed_step_kind i3)
         | Inr artifact \<Rightarrow> Reconciled (si_instance_id i3) (si_status i3) (si_operation_id i3) (si_applied_version i3) artifact, i3))))"

definition reconcile_pass :: "env \<Rightarrow> bool \<Rightarrow> (nat \<times> nat) prog" where
  "reconcile_pass E refresh = bind_io
     (catch_io (bind_io (list_instances E None (cfg_reconcile_batch_limit (cfg E))) (\<lambda>is. ret (Some is)))
        (\<lambda>x. if is_ClientError x then ret None else throw x)) (\<lambda>instances. case instances of
       None \<Rightarrow> ret (0, 0)
     | Some is \<Rightarrow> bind_io (map_io (reconcile_instance E refresh) is) (\<lambda>rs.
         ret (length is, length (filter (is_change \<circ> fst) rs))))"

definition reconcile_route :: "env \<Rightarrow> Caller \<Rightarrow> string option \<Rightarrow> int \<Rightarrow> (nat \<times> nat \<times> reconcile_result list) prog" where
  "reconcile_route E c iid limit =
     (if \<not> ca_is_basic c then throw (HTTPException 403 (JStr ''reconcile requires system credentials''))
      else bind_io (if truthy iid then bind_io (get_instance E (the iid)) (\<lambda>i. ret (case i of Some x \<Rightarrow> [x] | None \<Rightarrow> []))
           else list_instances E None limit) (\<lambda>is.
        bind_io (map_io (reconcile_instance E False) is) (\<lambda>rs.
        ret (length is, length (filter (is_change \<circ> fst) rs), map fst rs))))"

end
