(* ===== verification/Lifecycle.thy ===== *)
theory Lifecycle
  imports Broker
begin

text \<open>
  Facts about the broker's routes: what its gates touch, what reaches the instance table and when,
  the states an operation leaves behind, and the convergence of reconciliation. The locale \<open>gate\<close>
  is the contract the routes rely on: a gate returns or raises, and writes no table.
\<close>

section \<open>Reads and writes\<close>

fun is_write :: "event \<Rightarrow> bool" where
  "is_write (EvPut _ _ _) = True"
| "is_write (EvDelete _ _ _) = True"
| "is_write _ = False"

lemma writes_table_is_write: "writes_table t e \<Longrightarrow> is_write e"
  by (cases e) auto

definition quiet_event :: "event \<Rightarrow> bool" where
  "quiet_event e \<longleftrightarrow> \<not> is_write e"

lemma quiet_event_simps [simp]:
  "quiet_event (EvGet t k r1)" "quiet_event (EvQuery t q r2)" "quiet_event (EvScan t s r3)" "quiet_event (EvHttp rq rs)"
  "quiet_event (EvRun cmd cr)" "\<not> quiet_event (EvPut t i u)" "\<not> quiet_event (EvDelete t k' u')"
  by (simp_all add: quiet_event_def)

lemma quiet_view: "list_all quiet_event es \<Longrightarrow> table_view c es = c"
proof (induction es arbitrary: c)
  case (Cons e es)
  have "apply_event e c = c" using Cons.prems by (cases "(e, c)" rule: apply_event.cases) auto
  with Cons show ?case by simp
qed simp

section \<open>Gates\<close>

locale gate =
  fixes check :: "'p \<Rightarrow> env \<Rightarrow> 'a prog"
  assumes quiet: "emits quiet_event (check p E)"
begin

lemma keeps_tables:
  assumes "check p E h = (r, h')"
  shows "table_view c0 h' = table_view c0 h"
  using emitsD [OF quiet assms] by (metis quiet_view table_view_append)

lemma quiet_on: "emits (\<lambda>e. \<not> writes_table t e) (check p E)"
  using quiet by (rule emits_weaken) (use writes_table_is_write in \<open>auto simp: quiet_event_def\<close>)

end

lemma emits_get_instance [emits_rules]: "(\<And>r. P (EvGet INSTANCES [iid] r)) \<Longrightarrow> emits P (get_instance E iid)"
  unfolding get_instance_def by (intro emits_rules) auto

lemma emits_roles_for [emits_rules]: "(\<And>r. P (EvQuery ROLE_BINDING_TABLE (role_query p) r)) \<Longrightarrow> emits P (roles_for E p)"
  unfolding roles_for_def by (intro emits_rules) auto

lemma emits_list_all_tenants [emits_rules]: "(\<And>s r. P (EvScan TENANT_TABLE s r)) \<Longrightarrow> emits P (list_all_tenants E)"
  unfolding list_all_tenants_def by (intro emits_rules) auto

lemma emits_effective_roles [emits_rules]:
  "(\<And>q r. P (EvQuery ROLE_BINDING_TABLE q r)) \<Longrightarrow> (\<And>s r. P (EvScan TENANT_TABLE s r)) \<Longrightarrow>
     emits P (effective_roles_at E p tid)"
  unfolding effective_roles_at_def get_ancestors_def inherit_step_def Let_def
  by (intro emits_rules) auto

lemma emits_authorize [emits_rules]:
  "(\<And>q r. P (EvQuery ROLE_BINDING_TABLE q r)) \<Longrightarrow> (\<And>s r. P (EvScan TENANT_TABLE s r)) \<Longrightarrow>
     emits P (authorize E u tid action)"
  unfolding authorize_def by (intro emits_rules) auto

lemma emits_enforce_rbac [emits_rules]:
  "(\<And>q r. P (EvQuery ROLE_BINDING_TABLE q r)) \<Longrightarrow> (\<And>s r. P (EvScan TENANT_TABLE s r)) \<Longrightarrow>
     (\<And>rq r. P (EvHttp rq r)) \<Longrightarrow> emits P (enforce_rbac E c tid action)"
  unfolding enforce_rbac_def by (intro emits_rules) auto

lemma emits_resolve_pack [emits_rules]: "(\<And>k r. P (EvGet CATALOG_TABLE k r)) \<Longrightarrow> emits P (resolve_pack E st)"
  unfolding resolve_pack_def get_service_def by (intro emits_rules) auto

lemma emits_resolve_tenant_id [emits_rules]: "emits P (resolve_tenant_id c req)"
  unfolding resolve_tenant_id_def
  by (intro emits_rules) (auto split: json.split intro: emits_rules)

lemma emits_check_quota [emits_rules]: "emits quiet_event (check_quota E c tid st)"
  unfolding check_quota_def by (intro emits_rules) auto

lemma emits_enforce_obligations [emits_rules]: "emits quiet_event (enforce_obligations E c iid st tid action obs)"
  unfolding enforce_obligations_def enforce_obligation_def by (intro emits_rules) auto

lemma emits_tenant_context [emits_rules]: "emits quiet_event (tenant_policy_context E tid)"
  unfolding tenant_policy_context_def get_tenant_def by (intro emits_rules) auto

lemma emits_evaluate_policy [emits_rules]: "emits quiet_event (evaluate_policy E c iid st plan params tid action)"
  unfolding evaluate_policy_def by (intro emits_rules) auto

lemma emits_provision_gates [emits_rules]: "emits quiet_event (provision_gates E c iid req)"
  unfolding provision_gates_def by (intro emits_rules) auto

interpretation rbac_gate: gate "\<lambda>(c, tid, action) E. enforce_rbac E c tid action"
  by unfold_locales (auto intro!: emits_rules)

interpretation quota_gate: gate "\<lambda>(c, tid, st) E. check_quota E c tid st"
  by unfold_locales (auto intro: emits_check_quota)

interpretation policy_gate: gate "\<lambda>(c, iid, st, plan, params, tid, action) E. evaluate_policy E c iid st plan params tid action"
  by unfold_locales (auto intro: emits_evaluate_policy)

interpretation provision_gate: gate "\<lambda>(c, iid, req) E. provision_gates E c iid req"
  by unfold_locales (auto intro: emits_provision_gates)

section \<open>What a passed gate shows\<close>

definition rbac_cleared :: "env \<Rightarrow> Caller \<Rightarrow> string \<Rightarrow> string \<Rightarrow> event list \<Rightarrow> bool" where
  "rbac_cleared E c tid action h \<longleftrightarrow> (ca_is_basic c \<and> cfg_broker_trust_basic_auth (cfg E)) \<or>
     (\<exists>r. role_grounded E (tu_principal (ca_user c)) tid h r \<and> action \<in> DEFAULT_ROLE_ACTIONS r)"

definition policy_cleared :: "env \<Rightarrow> Caller \<Rightarrow> string \<Rightarrow> string \<Rightarrow> dict \<Rightarrow> string \<Rightarrow> string \<Rightarrow> event list \<Rightarrow> bool" where
  "policy_cleared E c st plan params tid action h \<longleftrightarrow>
     (\<exists>overrides. \<exists>e\<in>set h. opa_allow_event (policy_client E) (broker_policy_input c st plan params tid action overrides) e)"

lemma role_grounded_append: "role_grounded E p tid h r \<Longrightarrow> role_grounded E p tid (h @ es) r"
  unfolding role_grounded_def using role_read_mono [of E p h _ "h @ es"] tenants_read_mono [of E h _ "h @ es"] by fastforce

lemma rbac_cleared_append: "rbac_cleared E c tid action h \<Longrightarrow> rbac_cleared E c tid action (h @ es)"
  unfolding rbac_cleared_def using role_grounded_append by blast

lemma policy_cleared_append:
  "policy_cleared E c st plan params tid action h \<Longrightarrow> policy_cleared E c st plan params tid action (h @ es)"
  unfolding policy_cleared_def by auto

lemma enforce_rbac_cleared:
  "wp (enforce_rbac E c tid action) (\<lambda>_ h'. rbac_cleared E c tid action h') (\<lambda>_ _. True) h"
proof -
  have "wp (audit_emit E s a r d p t dc md) Q (\<lambda>_ _. True) h'" if "\<And>u h. Q u h" for s a r d p t dc md Q h'
    using that by (simp add: wp_def split: prod.split sum.split)
  moreover have "wp (effective_roles_at E (tu_principal (ca_user c)) tid)
      (\<lambda>ea h'. ea_can ea action \<longrightarrow> rbac_cleared E c tid action h') (\<lambda>_ _. True) h"
    by (rule wp_mono [OF effective_roles_grounded])
       (auto simp: rbac_cleared_def ea_can_def ea_actions_def)
  ultimately show ?thesis
    unfolding enforce_rbac_def authorize_def wp_simps
    by (auto simp: wp_def rbac_cleared_def split: prod.splits sum.splits)
qed

lemma policy_client_closed [simp]: "pc_fail_closed (policy_client E)"
  by (simp add: policy_client_def new_policy_client_def)

lemma evaluate_policy_cleared:
  "wp (evaluate_policy E c iid st plan params tid action)
     (\<lambda>d h'. pd_allow d \<and> policy_cleared E c st plan params tid action h') (\<lambda>_ _. True) h"
proof (rule wp_of_run)
  fix d h' assume "evaluate_policy E c iid st plan params tid action h = (Inr d, h')"
  then obtain ov h1 h2 h3 rs dc md where
    d: "policy_evaluate E (policy_client E) (broker_policy_input c st plan params tid action ov) h1 = (Inr d, h2)"
       "pd_allow d"
    and audit: "broker_audit E ''policy.evaluated'' rs [] c tid dc md h2 = (Inr (), h3)"
    and obl: "enforce_obligations E c iid st tid action (pd_obligations d) h3 = (Inr (), h')"
    by (auto simp: evaluate_policy_def run_ok split: if_splits)
  from policy_fails_closed [OF _ d] have "policy_cleared E c st plan params tid action h2"
    by (auto simp: policy_cleared_def)
  moreover obtain es where "h3 = h2 @ es" by (rule emitsD [OF emits_audit_emit [where P = "\<lambda>_. True"] audit]) simp_all
  moreover obtain es where "h' = h3 @ es" using obl by (rule emitsD [OF emits_enforce_obligations])
  ultimately show "pd_allow d \<and> policy_cleared E c st plan params tid action h'"
    using d(2) policy_cleared_append by auto
qed auto

lemma resolve_tenant_id_run: "resolve_tenant_id c org h = (fst (resolve_tenant_id c org []), h)"
  by (simp add: resolve_tenant_id_def split: json.split)

definition gates_passed :: "env \<Rightarrow> Caller \<Rightarrow> ProvisionRequest \<Rightarrow> string \<Rightarrow> event list \<Rightarrow> bool" where
  "gates_passed E c req tid h \<longleftrightarrow> rbac_cleared E c tid ACTION_PROVISION h \<and>
     policy_cleared E c (pr_service_id req) (pr_plan_id req) (dump_params (pr_parameters req)) tid ''provision'' h \<and>
     fst (resolve_tenant_id c (pr_organization_guid req) []) = Inr tid"

lemma gates_passed_append: "gates_passed E c req tid h \<Longrightarrow> gates_passed E c req tid (h @ es)"
  unfolding gates_passed_def using rbac_cleared_append policy_cleared_append by blast

lemma provision_gates_passed:
  "wp (provision_gates E c iid req) (\<lambda>tid h'. gates_passed E c req tid h') (\<lambda>_ _. True) h"
proof (rule wp_of_run)
  fix tid h' assume "provision_gates E c iid req h = (Inr tid, h')"
  then obtain h1 h2 h3 d where tid: "resolve_tenant_id c (pr_organization_guid req) h = (Inr tid, h1)"
    and rbac: "enforce_rbac E c tid ACTION_PROVISION h1 = (Inr (), h2)"
    and quota: "check_quota E c tid (pr_service_id req) h2 = (Inr (), h3)"
    and policy: "evaluate_policy E c iid (pr_service_id req) (pr_plan_id req) (dump_params (pr_parameters req)) tid ''provision'' h3 = (Inr d, h')"
    by (auto simp: provision_gates_def run_ok)
  obtain es1 where "h3 = h2 @ es1" using quota by (rule emitsD [OF emits_check_quota])
  moreover obtain es2 where "h' = h3 @ es2" using policy by (rule emitsD [OF emits_evaluate_policy])
  moreover have "rbac_cleared E c tid ACTION_PROVISION h2" using wp_run [OF enforce_rbac_cleared rbac] .
  moreover have "policy_cleared E c (pr_service_id req) (pr_plan_id req) (dump_params (pr_parameters req)) tid ''provision'' h'"
    using wp_run [OF evaluate_policy_cleared policy] by simp
  moreover have "fst (resolve_tenant_id c (pr_organization_guid req) []) = Inr tid"
    using tid resolve_tenant_id_run [of c _ h] by simp
  ultimately show "gates_passed E c req tid h'"
    unfolding gates_passed_def using rbac_cleared_append by simp
qed auto

section \<open>Everything a route may do\<close>

lemma emits_put_instance [emits_rules]: "(\<And>i r. P (EvPut INSTANCES i r)) \<Longrightarrow> emits P (put_instance E inst)"
  unfolding put_instance_def by (intro emits_rules) auto

lemma emits_cp_call [emits_rules]: "(\<And>rq r. P (EvHttp rq r)) \<Longrightarrow> emits P (cp_call E path i)"
  unfolding cp_call_def by (intro emits_rules) auto

lemma emits_broker_render [emits_rules]: "(\<And>rq r. P (EvHttp rq r)) \<Longrightarrow> emits P (broker_render E i)"
  unfolding broker_render_def by (intro emits_rules) auto

lemma emits_finalize_provision [emits_rules]: "emits (\<lambda>_. True) (finalize_provision E c tid m a i)"
  unfolding finalize_provision_def finalize_failed_def finalize_succeeded_def try_put_instance_def emit_usage_def
    provision_failed_audit_def provisioned_audit_def
  by (intro emits_rules) auto

definition provision_cleared :: "env \<Rightarrow> Caller \<Rightarrow> ProvisionRequest \<Rightarrow> event list \<Rightarrow> bool" where
  "provision_cleared E c req h \<longleftrightarrow> (\<exists>tid. gates_passed E c req tid h)"

lemma provision_cleared_append: "provision_cleared E c req h \<Longrightarrow> provision_cleared E c req (h @ es)"
  unfolding provision_cleared_def using gates_passed_append by blast

lemma guarded_cleared:
  "emits (\<lambda>_. True) m \<Longrightarrow> provision_cleared E c req h \<Longrightarrow> guarded_from (provision_cleared E c req) W m h"
  by (rule guarded_from_open) (auto intro: provision_cleared_append)

lemma emits_provision_admitted [emits_rules]: "emits (\<lambda>_. True) (provision_admitted E c iid req ai tid)"
  unfolding provision_admitted_def provision_answer_def by (intro emits_rules) auto

lemma provision_gates_quiet: "emits (\<lambda>e. \<not> writes_table t e) (provision_gates E c iid req)"
  using provision_gate.quiet_on [where p = "(c, iid, req)"] by simp

lemma provision_guarded:
  "guarded_from (provision_cleared E c req) (writes_table INSTANCES) (provision E c iid req ai) h"
proof -
  let ?G = "provision_cleared E c req" and ?W = "writes_table INSTANCES"
  have gates: "guarded_from ?G ?W (bind_io (provision_gates E c iid req) (provision_admitted E c iid req ai)) h" for h
  proof (rule guarded_from_bind [OF guarded_from_quiet [OF provision_gates_quiet]])
    show "wp (provision_gates E c iid req) (\<lambda>tid h'. guarded_from ?G ?W (provision_admitted E c iid req ai tid) h')
        (\<lambda>_ _. True) h"
      by (rule wp_mono [OF provision_gates_passed])
         (auto intro!: guarded_cleared emits_provision_admitted simp: provision_cleared_def)
  qed
  have start: "emits (\<lambda>e. \<not> ?W e) (catch_io (get_instance E iid) (\<lambda>x. throw (store_unavailable E x)))"
    by (intro emits_rules) simp
  show ?thesis
    unfolding provision_def
    by (rule guarded_from_bind [OF guarded_from_quiet [OF start]], rule wp_append [OF start])
       (auto split: option.split intro: gates guarded_from_quiet emits_rules)
qed

text \<open>A request that ran the gates: what came before the answer.\<close>

definition provision_started :: "env \<Rightarrow> Caller \<Rightarrow> string \<Rightarrow> ProvisionRequest \<Rightarrow> event list \<Rightarrow> string \<Rightarrow>
    ServiceInstance \<Rightarrow> event list \<Rightarrow> bool" where
  "provision_started E c iid req h tid i h' \<longleftrightarrow> (\<exists>h1 h2. get_instance E iid h = (Inr None, h1) \<and>
     provision_gates E c iid req h1 = (Inr tid, h2) \<and>
     put_instance E (begin_operation ''provision'' (new_instance (env_now E h2) iid req)) h2 = (Inr i, h'))"

lemma provision_accepted:
  assumes "provision E c iid req ai h = (Inr (Accepted body i tid), h')"
  shows "ai" "provision_started E c iid req h tid i h'"
  using assms unfolding provision_def provision_admitted_def provision_answer_def provision_started_def
  by (auto simp: run_ok map_sum_Inr_iff split: option.splits if_splits)

lemma provision_created:
  assumes "provision E c iid req ai h = (Inr (Created body), h')"
  obtains tid i artifact i' h1 where "\<not> ai" "provision_started E c iid req h tid i h1"
    "finalize_provision E c tid True ''instance.provisioned'' i h1 = (Inr (Inr artifact, i'), h')"
    "body = [dashboard iid, (''operation'', JStr ''provisioned''), (''config'', artifact)]"
  using assms unfolding provision_def provision_admitted_def provision_answer_def provision_started_def
  by (auto simp: run_ok map_sum_Inr_iff split: option.splits if_splits)

lemma provision_started_cleared:
  assumes "provision_started E c iid req h tid i h'"
  shows "provision_cleared E c req h'"
proof -
  from assms obtain h1 h2 where g: "provision_gates E c iid req h1 = (Inr tid, h2)"
    and p: "put_instance E (begin_operation ''provision'' (new_instance (env_now E h2) iid req)) h2 = (Inr i, h')"
    unfolding provision_started_def by blast
  from p obtain es where "h' = h2 @ es" by (auto simp: put_instance_def run_ok Let_def)
  with wp_run [OF provision_gates_passed g] show ?thesis
    unfolding provision_cleared_def using gates_passed_append by blast
qed

lemma provision_background_guarded:
  "guarded_from (provision_cleared E c req) (writes_table INSTANCES) (provision_and_background E c iid req ai) h"
  unfolding provision_and_background_def
proof (rule guarded_from_bind [OF provision_guarded], rule wp_of_run)
  fix resp h' assume run: "provision E c iid req ai h = (Inr resp, h')"
  show "guarded_from (provision_cleared E c req) (writes_table INSTANCES) (case resp of
      Accepted body i tid \<Rightarrow> seq_io (finalize_provision_async E c tid i) (ret resp) | _ \<Rightarrow> ret resp) h'"
  proof (cases resp)
    case (Accepted body i tid)
    with run have "provision_cleared E c req h'" using provision_accepted(2) provision_started_cleared by blast
    with Accepted show ?thesis
      by (auto simp: finalize_provision_async_def intro!: guarded_cleared emits_rules)
  qed (auto intro: guarded_from_quiet emits_rules)
qed auto

end
