(* ===== verification/Operations.thy ===== *)
theory Operations
  imports Lifecycle
begin

text \<open>
  What the broker's routes leave behind: PATCH writes only past its gates, a failed gate changes no
  table, deferred and immediate provisioning perform the same calls, and the instance that is stored
  when an operation succeeds, fails, or deletes it.
\<close>

section \<open>PATCH and DELETE pass their gates before they write\<close>

definition update_cleared :: "env \<Rightarrow> Caller \<Rightarrow> ServiceInstance \<Rightarrow> UpdateRequest \<Rightarrow> event list \<Rightarrow> bool" where
  "update_cleared E c i req h \<longleftrightarrow> (\<exists>tid. fst (resolve_tenant_id c (si_organization_guid i) []) = Inr tid \<and>
     rbac_cleared E c tid ACTION_UPDATE h \<and>
     policy_cleared E c (si_service_id i) (si_plan_id (updated_instance req i))
       (dump_params (si_parameters (updated_instance req i))) tid ''update'' h)"

lemma update_cleared_append: "update_cleared E c i req h \<Longrightarrow> update_cleared E c i req (h @ es)"
  unfolding update_cleared_def using rbac_cleared_append policy_cleared_append by blast

lemma emits_update_render [emits_rules]: "emits (\<lambda>_. True) (update_render E c tid i)"
  unfolding update_render_def by (intro emits_rules) auto

lemma wp_resolve_tenant_id:
  "wp (resolve_tenant_id c org) Q R h = (case fst (resolve_tenant_id c org []) of Inl x \<Rightarrow> R x h | Inr tid \<Rightarrow> Q tid h)"
  unfolding wp_def by (subst resolve_tenant_id_run) (simp split: sum.split)

lemma enforce_rbac_quiet: "emits (\<lambda>e. \<not> writes_table t e) (enforce_rbac E c tid action)"
  using rbac_gate.quiet_on [where p = "(c, tid, action)"] by simp

lemma evaluate_policy_quiet: "emits (\<lambda>e. \<not> writes_table t e) (evaluate_policy E c iid st plan params tid action)"
  using policy_gate.quiet_on [where p = "(c, iid, st, plan, params, tid, action)"] by simp

lemma update_found_guarded:
  "guarded_from (update_cleared E c i req) (writes_table INSTANCES) (update_found E c iid req i) h"
proof -
  let ?G = "update_cleared E c i req" and ?W = "writes_table INSTANCES" and ?next = "updated_instance req i"
  let ?pol = "\<lambda>tid. evaluate_policy E c iid (si_service_id i) (si_plan_id ?next) (dump_params (si_parameters ?next)) tid ''update''"
  let ?rest = "\<lambda>tid. bind_io (put_instance E ?next) (\<lambda>i1. bind_io (update_render E c tid i1) (\<lambda>artifact.
       ret [(''operation'', JStr ''updated''), (''config'', artifact)]))"
  have rest: "emits (\<lambda>_. True) (?rest tid)" for tid by (intro emits_rules) auto
  have pol: "guarded_from ?G ?W (seq_io (?pol tid) (?rest tid)) h'"
    if "rbac_cleared E c tid ACTION_UPDATE h'" "fst (resolve_tenant_id c (si_organization_guid i) []) = Inr tid" for tid h'
  proof (rule guarded_from_seq [OF guarded_from_quiet [OF evaluate_policy_quiet]], rule wp_of_run)
    fix d h2 assume run: "?pol tid h' = (Inr d, h2)"
    obtain es where "h2 = h' @ es" by (rule emitsD [OF emits_evaluate_policy run])
    with wp_run [OF evaluate_policy_cleared run] that have "?G h2"
      by (auto simp: update_cleared_def intro: rbac_cleared_append)
    then show "guarded_from ?G ?W (?rest tid) h2"
      by (rule guarded_from_open) (auto intro: update_cleared_append rest)
  qed auto
  have "guarded_from ?G ?W (seq_io (enforce_rbac E c tid ACTION_UPDATE) (seq_io (?pol tid) (?rest tid))) h'"
    if "fst (resolve_tenant_id c (si_organization_guid i) []) = Inr tid" for tid h'
    by (rule guarded_from_seq [OF guarded_from_quiet [OF enforce_rbac_quiet]], rule wp_mono [OF enforce_rbac_cleared])
       (auto intro: pol [OF _ that])
  then show ?thesis
    unfolding update_found_def Let_def
    by (intro guarded_from_bind [OF guarded_from_quiet [OF emits_resolve_tenant_id]])
       (auto simp: wp_resolve_tenant_id split: sum.split)
qed

lemma update_guarded:
  assumes "fst (get_instance E iid h) = Inr (Some i)"
  shows "guarded_from (update_cleared E c i req) (writes_table INSTANCES) (update_route E c iid req) h"
proof -
  have quiet: "emits (\<lambda>e. \<not> writes_table INSTANCES e) (get_instance E iid)" by (intro emits_rules) simp
  show ?thesis
    unfolding update_route_def
    by (rule guarded_from_bind [OF guarded_from_quiet [OF quiet]], rule wp_of_run)
       (use assms update_found_guarded in auto)
qed

section \<open>Gates that fail leave the tables alone\<close>

lemma provision_gate_error:
  assumes "get_instance E iid h = (Inr None, h1)" "provision_gates E c iid req h1 = (Inl x, h2)"
  shows "provision_and_background E c iid req ai h = (Inl x, h2)" "table_view c0 h2 = table_view c0 h"
proof -
  have "provision E c iid req ai h = (Inl x, h2)"
    using assms by (simp add: provision_def bind_io_def catch_io_def)
  then show "provision_and_background E c iid req ai h = (Inl x, h2)"
    by (simp add: provision_and_background_def bind_io_def)
  obtain es where es: "h1 = h @ es" "list_all quiet_event es"
    by (rule emitsD [OF emits_get_instance [where P = quiet_event] assms(1)]) auto
  have "table_view c0 h2 = table_view c0 h1"
    using provision_gate.keeps_tables [where p = "(c, iid, req)"] assms(2) by simp
  with es quiet_view show "table_view c0 h2 = table_view c0 h" by simp
qed

section \<open>Asynchronous and synchronous provisioning\<close>

lemma provision_async_trace:
  "snd (provision_and_background E c iid req True h) = snd (provision_and_background E c iid req False h)"
proof -
  let ?bg = "\<lambda>resp. case resp of Accepted body i tid \<Rightarrow> seq_io (finalize_provision_async E c tid i) (ret resp) | _ \<Rightarrow> ret resp"
  have created: "snd (bind_io (bind_io (finalize_provision E c tid True ''instance.provisioned'' i)
      (\<lambda>(r, _). provision_answer iid r)) ?bg h) = snd (finalize_provision_async E c tid i h)" for tid i h
    by (auto simp: finalize_provision_async_def provision_answer_def seq_io_def bind_io_def map_sum_Inr_iff split: prod.split sum.split)
  have "snd (bind_io (provision_admitted E c iid req True tid) ?bg h) =
      snd (bind_io (provision_admitted E c iid req False tid) ?bg h)" for tid h
    unfolding provision_admitted_def bind_io_assoc
    by (intro snd_bind_cong) (use created in \<open>simp add: bind_io_assoc seq_io_def\<close>)
  then show ?thesis
    unfolding provision_and_background_def provision_def bind_io_assoc
    by (intro snd_bind_cong) (simp split: option.split add: bind_io_assoc, intro allI impI snd_bind_cong)
qed

section \<open>The states an operation ends in\<close>

lemma try_put_instance_ok [run_ok]:
  "try_put_instance E i h = (Inr (None, i'), h') \<longleftrightarrow> put_instance E i h = (Inr i', h')"
  by (auto simp: try_put_instance_def try_io_def bind_io_def now_io_def split: prod.split sum.split)

lemma put_instance_run:
  "put_instance E i h = (Inr i', h') \<longleftrightarrow> env_put_item E h INSTANCES (instance_item i') = Inr () \<and>
     i' = i\<lparr>si_updated_at := env_now E h\<rparr> \<and> h' = h @ [EvPut INSTANCES (instance_item i') (Inr ())]"
  by (auto simp: put_instance_def run_ok Let_def)

lemma instance_item_key [simp]: "it_key (instance_item i) = [si_instance_id i]"
  by (simp add: instance_item_def)

lemma put_instance_view:
  assumes "put_instance E i h = (Inr i', h')"
  shows "table_view c0 h' INSTANCES [si_instance_id i] = Some (instance_item i')"
  using assms by (auto simp: put_instance_run)

lemma quiet_emits_view:
  assumes "emits quiet_event m" "m h = (r, h')"
  shows "table_view c0 h' = table_view c0 h"
  using emitsD [OF assms] by (metis quiet_view table_view_append)

lemma emits_quiet_audit [emits_rules]: "emits quiet_event (audit_emit E s a r d p t dc md)"
  by (intro emits_rules) simp

lemma emits_quiet_usage [emits_rules]: "emits quiet_event (emit_usage E tid iid st plan)"
  unfolding emit_usage_def by (intro emits_rules) auto

definition settled :: "ServiceInstance \<Rightarrow> dict \<Rightarrow> ServiceInstance \<Rightarrow> bool" where
  "settled i d j \<longleftrightarrow> si_instance_id j = si_instance_id i \<and> si_version j = si_version i \<and> si_parameters j = si_parameters i \<and>
     si_schema_version j = si_schema_version i \<and> si_organization_guid j = si_organization_guid i \<and>
     si_status j = status_succeeded \<and> si_operation_state j = Some op_succeeded \<and> si_operation_reason j = [] \<and>
     si_failed_step_kind j = None \<and> si_drift_status j = in_sync \<and>
     (\<exists>v. applied_version_of (jget_or d ''version'' (JInt (si_version i))) (si_version i) = Inr v \<and> si_applied_version j = Some v)"

lemma settled_stamp: "settled i d j \<Longrightarrow> settled i d (j\<lparr>si_updated_at := now\<rparr>)"
  by (simp add: settled_def)

lemma mark_succeeded_settled:
  assumes "mark_operation_succeeded now artifact (i\<lparr>si_status := status_succeeded\<rparr>) = Inr j"
  obtains d where "artifact = JObj d" "settled i d j"
  using assms that by (auto simp: mark_operation_succeeded_def settled_def split: json.splits sum.splits)

lemma finalize_succeeded_state:
  assumes "finalize_succeeded E c tid metered action artifact i h = (Inr (Inr art, j), h')"
  obtains d where "artifact = JObj d" "art = artifact" "settled i d j"
    "table_view c0 h' INSTANCES [si_instance_id i] = Some (instance_item j)"
proof -
  from assms obtain i2 h1 h2 where
    mark: "mark_operation_succeeded (env_now E h) artifact (i\<lparr>si_status := status_succeeded\<rparr>) = Inr i2"
    and put: "put_instance E i2 h = (Inr j, h1)"
    and meter: "(if metered then emit_usage E tid (si_instance_id j) (si_service_id j) (si_plan_id j) else ret ()) h1 = (Inr (), h2)"
    and audit: "provisioned_audit E c tid action artifact j h2 = (Inr (), h')" and art: "art = artifact"
    by (auto simp: finalize_succeeded_def Let_def run_ok)
  obtain d where d: "artifact = JObj d" "settled i d i2" by (rule mark_succeeded_settled [OF mark])
  then have j: "settled i d j" using put by (auto simp: put_instance_run intro: settled_stamp)
  have "table_view c0 h2 = table_view c0 h1"
    using meter by (cases metered) (auto dest: quiet_emits_view [OF emits_quiet_usage])
  moreover have "table_view c0 h' = table_view c0 h2"
    using audit unfolding provisioned_audit_def by (rule quiet_emits_view [OF emits_quiet_audit])
  ultimately have "table_view c0 h' INSTANCES [si_instance_id i] = Some (instance_item j)"
    using put_instance_view [OF put, of c0] d(2) by (simp add: settled_def)
  with that d(1) j art show ?thesis by blast
qed

lemma broker_render_error:
  assumes "broker_render E i h = (Inl x, h')"
  shows "(\<exists>m. x = HTTPException 503 (JStr m)) \<or> (\<exists>m. x = ValueError m)"
proof -
  obtain hs where hs: "service_auth_headers E h = (Inr hs, h)" using service_auth_headers_run by blast
  show ?thesis
    using assms by (auto simp: broker_render_def cp_call_def catch_io_def bind_io_def hs http_io_def Let_def
        map_sum_Inl_iff split: prod.splits sum.splits if_splits option.splits)
qed

lemma failure_detail_render:
  assumes "broker_render E i h = (Inl x, h')"
  obtains reason where "failure_detail E x = Inr (reason, None)"
  using broker_render_error [OF assms] that by (auto simp: failure_detail_def)

text \<open>The instance as stored after a failure and after a success.\<close>

definition failed_at :: "string \<Rightarrow> string \<Rightarrow> string option \<Rightarrow> ServiceInstance \<Rightarrow> ServiceInstance" where
  "failed_at now reason step i = (mark_operation_failed now reason step (i\<lparr>si_status := status_failed\<rparr>))\<lparr>si_updated_at := now\<rparr>"

lemma failed_at_fields [simp]:
  "si_status (failed_at now reason step i) = status_failed"
  "si_operation_state (failed_at now reason step i) = Some op_failed"
  "si_operation_reason (failed_at now reason step i) = reason"
  "si_failed_step_kind (failed_at now reason step i) = step"
  "si_drift_status (failed_at now reason step i) = drifted"
  "si_instance_id (failed_at now reason step i) = si_instance_id i"
  "needs_reconcile (failed_at now reason step i)"
  by (simp_all add: failed_at_def mark_operation_failed_def needs_reconcile_def)

lemma finalize_failed_state:
  assumes fd: "failure_detail E x = Inr (reason, step)"
    and up: "env_put_item E h INSTANCES (instance_item (failed_at (env_now E h) reason step i)) = Inr ()"
  shows "\<exists>h'. finalize_failed E c tid x i h = (Inr (Inl x, failed_at (env_now E h) reason step i), h') \<and>
      table_view c0 h' INSTANCES [si_instance_id i] = Some (instance_item (failed_at (env_now E h) reason step i))"
proof -
  let ?j = "failed_at (env_now E h) reason step i"
  let ?h1 = "h @ [EvPut INSTANCES (instance_item ?j) (Inr ())]"
  have put: "try_put_instance E (mark_operation_failed (env_now E h) reason step (i\<lparr>si_status := status_failed\<rparr>)) h =
      (Inr (None, ?j), ?h1)"
    using up by (simp add: run_ok put_instance_run failed_at_def)
  have "wp (provision_failed_audit E c tid x ?j) (\<lambda>_ h'. table_view c0 h' INSTANCES [si_instance_id i] = Some (instance_item ?j))
      (\<lambda>_ _. False) ?h1"
    unfolding provision_failed_audit_def by (rule wp_audit_emit) simp
  then obtain h' where "provision_failed_audit E c tid x ?j ?h1 = (Inr (), h')"
      "table_view c0 h' INSTANCES [si_instance_id i] = Some (instance_item ?j)"
    by (auto simp: wp_def split: prod.splits sum.splits)
  with fd put show ?thesis
    by (simp add: finalize_failed_def Let_def bind_io_def seq_io_def now_io_def)
qed

lemma finalize_render_failed:
  assumes started: "si_operation_state i \<noteq> None"
    and render: "broker_render E i h = (Inl x, h1)"
  shows "finalize_provision E c tid metered action i h = finalize_failed E c tid x i h1"
  using assms by (auto simp: finalize_provision_def bind_io_def try_io_def)

lemma finalize_provision_succeeded:
  assumes "finalize_provision E c tid metered action i h = (Inr (Inr art, i'), h')" "si_operation_state i \<noteq> None"
  obtains h1 where "broker_render E i h = (Inr art, h1)"
    "finalize_succeeded E c tid metered action art i h1 = (Inr (Inr art, i'), h')"
proof -
  from assms obtain r h1 where r: "broker_render E i h = (r, h1)"
    "(case r of Inl x \<Rightarrow> finalize_failed E c tid x i | Inr a \<Rightarrow> finalize_succeeded E c tid metered action a i) h1 = (Inr (Inr art, i'), h')"
    by (auto simp: finalize_provision_def run_ok try_io_run)
  have "finalize_failed E c tid x i h1 \<noteq> (Inr (Inr art, i'), h')" for x
    by (auto simp: finalize_failed_def Let_def run_ok split: sum.splits if_splits)
  with r obtain a where a: "r = Inr a" "finalize_succeeded E c tid metered action a i h1 = (Inr (Inr art, i'), h')"
    by (cases r) auto
  with finalize_succeeded_state [OF a(2)] that r show ?thesis by blast
qed

lemma finalize_settles:
  assumes "finalize_provision E c tid metered action i h = (Inr (Inr art, j), h')" "si_operation_state i \<noteq> None"
  obtains d where "art = JObj d" "settled i d j" "table_view c0 h' INSTANCES [si_instance_id i] = Some (instance_item j)"
proof (rule finalize_provision_succeeded [OF assms])
  fix h1 assume "finalize_succeeded E c tid metered action art i h1 = (Inr (Inr art, j), h')"
  from finalize_succeeded_state [OF this, of c0] that show ?thesis by blast
qed

lemma provision_started_instance:
  assumes "provision_started E c iid req h tid i h'"
  shows "si_instance_id i = iid" "si_version i = 1" "si_parameters i = pr_parameters req" "si_schema_version i = 1"
    "si_organization_guid i = pr_organization_guid req" "si_operation_state i = Some in_progress" "si_status i = provisioning"
    "table_view c0 h' INSTANCES [iid] = Some (instance_item i)"
  using assms unfolding provision_started_def
  by (auto simp: put_instance_run begin_operation_def new_instance_def)

lemma provision_created_settled:
  assumes "provision E c iid req ai h = (Inr (Created body), h')"
  obtains i d j where "settled i d j" "si_version i = 1" "si_instance_id j = iid"
    "si_parameters j = pr_parameters req" "si_schema_version j = 1" "si_organization_guid j = pr_organization_guid req"
    "body = [dashboard iid, (''operation'', JStr ''provisioned''), (''config'', JObj d)]"
    "table_view c0 h' INSTANCES [iid] = Some (instance_item j)"
proof -
  obtain tid i artifact j h1 where "\<not> ai" and st: "provision_started E c iid req h tid i h1"
    and fin: "finalize_provision E c tid True ''instance.provisioned'' i h1 = (Inr (Inr artifact, j), h')"
    and body: "body = [dashboard iid, (''operation'', JStr ''provisioned''), (''config'', artifact)]"
    by (rule provision_created [OF assms])
  note i = provision_started_instance [OF st]
  have "si_operation_state i \<noteq> None" using i by simp
  then obtain d where "artifact = JObj d" "settled i d j"
      "table_view c0 h' INSTANCES [si_instance_id i] = Some (instance_item j)"
    by (rule finalize_settles [OF fin])
  with i body that [of i d j] show ?thesis by (simp add: settled_def)
qed

lemma get_instance_stored:
  assumes "ddb_reads_back E c0" "pydantic_exact E" "table_view c0 h INSTANCES [si_instance_id i] = Some (instance_item i)"
    "ok_instance i" "env_get_item E h INSTANCES [si_instance_id i] = Inr v"
  shows "get_instance E (si_instance_id i) h = (Inr (Some i), h @ [EvGet INSTANCES [si_instance_id i] (Inr v)])"
proof -
  have "v = Some (instance_item i)" using assms by (simp add: ddb_reads_back_def)
  with assms show ?thesis
    by (simp add: get_instance_def catch_io_def bind_io_def call_defs Let_def decode_instance_item)
qed

lemma provision_existing:
  assumes "get_instance E iid h = (Inr (Some i), h')"
  shows "provision_and_background E c iid req ai h =
    (Inr (AlreadyExists [dashboard iid, (''operation'', JStr ''already_exists'')]), h')"
  using assms by (simp add: provision_and_background_def provision_def bind_io_def catch_io_def)

section \<open>What PATCH leaves behind\<close>

text \<open>A PATCH whose gates passed and whose new state was stored.\<close>

definition update_started :: "env \<Rightarrow> Caller \<Rightarrow> string \<Rightarrow> UpdateRequest \<Rightarrow> event list \<Rightarrow> ServiceInstance \<Rightarrow> string \<Rightarrow>
    ServiceInstance \<Rightarrow> event list \<Rightarrow> bool" where
  "update_started E c iid req h i tid i1 h' \<longleftrightarrow> (\<exists>h0 h1 h2 h3 d. get_instance E iid h = (Inr (Some i), h0) \<and>
     resolve_tenant_id c (si_organization_guid i) h0 = (Inr tid, h1) \<and> enforce_rbac E c tid ACTION_UPDATE h1 = (Inr (), h2) \<and>
     evaluate_policy E c iid (si_service_id i) (si_plan_id (updated_instance req i)) (dump_params (si_parameters (updated_instance req i)))
       tid ''update'' h2 = (Inr d, h3) \<and>
     put_instance E (updated_instance req i) h3 = (Inr i1, h'))"

lemma update_started_run:
  assumes "update_started E c iid req h i tid i1 h'"
  shows "update_route E c iid req h = bind_io (update_render E c tid i1) (\<lambda>artifact. ret [(''operation'', JStr ''updated''), (''config'', artifact)]) h'"
  using assms by (auto simp: update_started_def update_route_def update_found_def Let_def bind_io_def seq_io_def)

lemma update_answered:
  assumes "update_route E c iid req h = (Inr d, h')"
  obtains i tid i1 h1 artifact where "update_started E c iid req h i tid i1 h1" "update_render E c tid i1 h1 = (Inr artifact, h')"
    "d = [(''operation'', JStr ''updated''), (''config'', artifact)]"
proof -
  from assms obtain i h0 where get: "get_instance E iid h = (Inr (Some i), h0)" and found: "update_found E c iid req i h0 = (Inr d, h')"
    by (auto simp: update_route_def run_ok)
  from found obtain tid i1 h1 h2 h3 h4 pd artifact where "resolve_tenant_id c (si_organization_guid i) h0 = (Inr tid, h1)"
    "enforce_rbac E c tid ACTION_UPDATE h1 = (Inr (), h2)"
    "evaluate_policy E c iid (si_service_id i) (si_plan_id (updated_instance req i)) (dump_params (si_parameters (updated_instance req i)))
       tid ''update'' h2 = (Inr pd, h3)"
    "put_instance E (updated_instance req i) h3 = (Inr i1, h4)" "update_render E c tid i1 h4 = (Inr artifact, h')"
    "d = [(''operation'', JStr ''updated''), (''config'', artifact)]"
    unfolding update_found_def Let_def by (auto simp: run_ok)
  with get that show ?thesis unfolding update_started_def by blast
qed

text \<open>The stored instance: the next version of the one that was read.\<close>

definition next_version :: "UpdateRequest \<Rightarrow> ServiceInstance \<Rightarrow> ServiceInstance \<Rightarrow> bool" where
  "next_version req i j \<longleftrightarrow> si_instance_id j = si_instance_id i \<and> si_version j = si_version i + 1 \<and>
     si_plan_id j = str_or (ur_plan_id req) (si_plan_id i) \<and>
     si_parameters j = (case ur_parameters req of Some p \<Rightarrow> p | None \<Rightarrow> si_parameters i) \<and>
     si_service_id j = si_service_id i \<and> si_organization_guid j = si_organization_guid i \<and> si_created_at j = si_created_at i"

lemma update_started_next: "update_started E c iid req h i tid i1 h' \<Longrightarrow> next_version req i i1"
  by (auto simp: update_started_def put_instance_run updated_instance_def begin_operation_def next_version_def)

lemma mark_succeeded_next:
  assumes "mark_operation_succeeded now artifact (i1\<lparr>si_status := status_succeeded\<rparr>) = Inr j" "next_version req i i1"
  shows "next_version req i j"
  using assms by (auto simp: mark_operation_succeeded_def next_version_def split: json.splits sum.splits)

lemma update_settles:
  assumes "update_route E c iid req h = (Inr d, h')"
  obtains i a i1 j where "fst (get_instance E iid h) = Inr (Some i)" "next_version req i j" "settled i1 a j"
    "d = [(''operation'', JStr ''updated''), (''config'', JObj a)]"
    "table_view c0 h' INSTANCES [si_instance_id i] = Some (instance_item j)"
proof (rule update_answered [OF assms])
  fix i tid i1 h1 artifact
  assume st: "update_started E c iid req h i tid i1 h1" and render: "update_render E c tid i1 h1 = (Inr artifact, h')"
    and d: "d = [(''operation'', JStr ''updated''), (''config'', artifact)]"
  from render obtain h2 now i2 j h3 rid details where
    mark: "mark_operation_succeeded now artifact (i1\<lparr>si_status := status_succeeded\<rparr>) = Inr i2" and put: "put_instance E i2 h2 = (Inr j, h3)"
    and audit: "broker_audit E ''instance.updated'' rid details c tid ''allow'' [(''version'', JInt (si_version j)), (''operation_id'', jopt (si_operation_id j)),
           (''applied_version'', jopt_int (si_applied_version j))] h3 = (Inr (), h')"
    by (auto simp: update_render_def run_ok try_io_run split: sum.splits)
  obtain a where a: "artifact = JObj a" "settled i1 a i2" by (rule mark_succeeded_settled [OF mark])
  have "next_version req i i2" by (rule mark_succeeded_next [OF mark update_started_next [OF st]])
  with put have j: "next_version req i j" "settled i1 a j" using a(2) by (auto simp: put_instance_run next_version_def intro: settled_stamp)
  have "table_view c0 h' = table_view c0 h3" by (rule quiet_emits_view [OF emits_quiet_audit audit])
  with put_instance_view [OF put, of c0] j(1) put have "table_view c0 h' INSTANCES [si_instance_id i] = Some (instance_item j)"
    by (auto simp: put_instance_run next_version_def)
  moreover have "fst (get_instance E iid h) = Inr (Some i)" using st by (auto simp: update_started_def)
  ultimately show ?thesis using that j a(1) d by blast
qed

text \<open>When the control plane fails, the failure is raised, and the new version is stored as failed.\<close>

lemma update_render_fails:
  assumes st: "update_started E c iid req h i tid i1 h1" and render: "broker_render E i1 h1 = (Inl x, h2)"
    and up: "\<And>j. env_put_item E h2 INSTANCES (instance_item j) = Inr ()"
  obtains reason h' where "update_route E c iid req h = (Inl x, h')" "failure_detail E x = Inr (reason, None)"
    "table_view c0 h' INSTANCES [si_instance_id i] = Some (instance_item (failed_at (env_now E h2) reason None i1))"
proof -
  obtain reason where fd: "failure_detail E x = Inr (reason, None)" by (rule failure_detail_render [OF render])
  let ?j = "failed_at (env_now E h2) reason None i1"
  let ?h = "h2 @ [EvPut INSTANCES (instance_item ?j) (Inr ())]"
  have "put_instance E (mark_operation_failed (env_now E h2) reason None (i1\<lparr>si_status := status_failed\<rparr>)) h2 = (Inr ?j, ?h)"
    using up by (simp add: put_instance_run failed_at_def)
  then have "update_render E c tid i1 h1 = (Inl x, ?h)"
    using render fd by (simp add: update_render_def bind_io_def try_io_def lift_res_def now_io_def seq_io_def throw_def)
  then have "update_route E c iid req h = (Inl x, ?h)" using update_started_run [OF st] by (simp add: bind_io_def)
  moreover have "si_instance_id i1 = si_instance_id i" using update_started_next [OF st] by (simp add: next_version_def)
  ultimately show ?thesis using that [OF _ fd, of ?h] by simp
qed

section \<open>Deprovisioning\<close>

lemma deprovision_found_deletes:
  assumes "deprovision_found rs E c iid i h = (Inr r, h')"
  obtains h1 h2 h3 tid where "enforce_rbac E c tid ''deprovision'' h = (Inr (), h1)"
    "teardown_instance rs E c tid i h1 = (Inr (), h2)" "delete_instance E iid h2 = (Inr (), h3)" "r = []"
    "\<exists>es. h' = h3 @ es \<and> list_all quiet_event es" "fst (resolve_tenant_id c (si_organization_guid i) []) = Inr tid"
proof -
  from assms obtain tid h0 h1 h2 h3 where "resolve_tenant_id c (si_organization_guid i) h = (Inr tid, h0)"
    "enforce_rbac E c tid ''deprovision'' h0 = (Inr (), h1)"
    "teardown_instance rs E c tid i h1 = (Inr (), h2)" "delete_instance E iid h2 = (Inr (), h3)" "r = []"
    "broker_audit E ''instance.deprovisioned'' iid [] c tid ''allow'' [] h3 = (Inr (), h')"
    by (auto simp: deprovision_found_def run_ok)
  with that [of tid h1 h2 h3] emitsD [OF emits_quiet_audit this(6)] resolve_tenant_id_run [of c "si_organization_guid i" h]
  show ?thesis by (metis fst_conv prod.inject)
qed

lemma provision_write_cleared:
  assumes "provision_and_background E c iid req ai [] = (r, pre @ e # post)" and "writes_table INSTANCES e"
  shows "provision_cleared E c req pre"
  using guarded_from_run [where W = "writes_table INSTANCES" and G = "provision_cleared E c req"]
    provision_background_guarded assms by metis

lemma update_write_cleared:
  assumes "fst (get_instance E iid []) = Inr (Some i)"
    and "update_route E c iid req [] = (r, pre @ e # post)" and "writes_table INSTANCES e"
  shows "update_cleared E c i req pre"
  using guarded_from_run [where W = "writes_table INSTANCES" and G = "update_cleared E c i req"]
    update_guarded assms by metis

lemma emits_list_instances: "emits (\<lambda>_. True) (list_instances E org limit)"
  unfolding list_instances_def Let_def
  by (intro emits_rules) (auto split: exn.split intro!: emits_rules)

lemma provision_new:
  "get_instance E iid h = (Inr None, h1) \<Longrightarrow>
     provision E c iid req ai h = bind_io (provision_gates E c iid req) (provision_admitted E c iid req ai) h1"
  by (simp add: provision_def bind_io_def catch_io_def)

end
