(* ===== verification/Reconciliation.thy ===== *)
theory Reconciliation
  imports Operations
begin

text \<open>
  Convergence of reconciliation when the control plane and the store answer, the fail-safe reading of
  a drift verdict, the obligations a policy decision imposes, and where a caller's identity comes from.
\<close>

section \<open>Drift and reconciliation\<close>

text \<open>The control plane renders what it is sent, and echoes its version.\<close>

definition control_plane_up :: "env \<Rightarrow> bool" where
  "control_plane_up E \<longleftrightarrow> (\<forall>h rq i. rq_url rq = cfg_control_plane_url (cfg E) @ ''/render'' \<longrightarrow>
     rq_body rq = JObj [(''instance'', JObj (dump_instance i))] \<longrightarrow>
     (\<exists>rs d. env_http E h rq = Inr rs \<and> 200 \<le> rs_status rs \<and> rs_status rs < 300 \<and> rs_json rs = Some (JObj d) \<and>
        jget_or d ''version'' (JInt (si_version i)) = JInt (si_version i)))"

definition tables_up :: "env \<Rightarrow> bool" where
  "tables_up E \<longleftrightarrow> (\<forall>h t i. env_put_item E h t i = Inr ())"

lemma broker_render_up:
  assumes "control_plane_up E"
  obtains d h1 where "broker_render E i h = (Inr (JObj d), h1)"
    "jget_or d ''version'' (JInt (si_version i)) = JInt (si_version i)"
proof -
  obtain hs where hs: "service_auth_headers E h = (Inr hs, h)" using service_auth_headers_run by blast
  let ?rq = "\<lparr>rq_method = ''POST'', rq_url = cfg_control_plane_url (cfg E) @ ''/render'', rq_headers = hs,
        rq_body = JObj [(''instance'', JObj (dump_instance i))]\<rparr>"
  from assms obtain rs d where "env_http E h ?rq = Inr rs" "200 \<le> rs_status rs" "rs_status rs < 300"
    "rs_json rs = Some (JObj d)" and d: "jget_or d ''version'' (JInt (si_version i)) = JInt (si_version i)"
    unfolding control_plane_up_def by force
  then have "broker_render E i h = (Inr (JObj d), h @ [EvHttp ?rq (Inr rs)])"
    by (simp add: broker_render_def cp_call_def catch_io_def bind_io_def hs http_io_def Let_def)
  with d that show ?thesis by blast
qed

lemma applied_version_int [simp]: "applied_version_of (JInt v) dflt = Inr v"
  by (simp add: applied_version_of_def)

lemma mark_succeeded_total:
  assumes "jget_or d ''version'' (JInt (si_version i)) = JInt (si_version i)"
  obtains j where "mark_operation_succeeded now (JObj d) (i\<lparr>si_status := status_succeeded\<rparr>) = Inr j"
  using assms by (simp add: mark_operation_succeeded_def)

lemma audit_emit_returns: "\<exists>h'. audit_emit E s a r d p t dc md h = (Inr (), h') \<and> table_view c0 h' = table_view c0 h"
proof -
  have "wp (audit_emit E s a r d p t dc md) (\<lambda>_ h'. table_view c0 h' = table_view c0 h) (\<lambda>_ _. False) h"
    by (rule wp_audit_emit) simp
  then show ?thesis by (auto simp: wp_def split: prod.splits sum.splits)
qed

lemma finalize_up:
  assumes "control_plane_up E" "tables_up E" "si_operation_state i \<noteq> None"
  obtains d j h' where "finalize_provision E c tid False action i h = (Inr (Inr (JObj d), j), h')"
    "jget_or d ''version'' (JInt (si_version i)) = JInt (si_version i)"
proof (rule broker_render_up [OF assms(1), of i h])
  fix d h1 assume r: "broker_render E i h = (Inr (JObj d), h1)"
    and v: "jget_or d ''version'' (JInt (si_version i)) = JInt (si_version i)"
  obtain j where j: "mark_operation_succeeded (env_now E h1) (JObj d) (i\<lparr>si_status := status_succeeded\<rparr>) = Inr j"
    by (rule mark_succeeded_total [OF v])
  let ?j = "j\<lparr>si_updated_at := env_now E h1\<rparr>"
  let ?h2 = "h1 @ [EvPut INSTANCES (instance_item ?j) (Inr ())]"
  have put: "try_put_instance E j h1 = (Inr (None, ?j), ?h2)"
    using assms(2) by (simp add: run_ok put_instance_run tables_up_def)
  obtain h' where "provisioned_audit E c tid action (JObj d) ?j ?h2 = (Inr (), h')"
    unfolding provisioned_audit_def using audit_emit_returns by blast
  with put j have "finalize_succeeded E c tid False action (JObj d) i h1 = (Inr (Inr (JObj d), ?j), h')"
    by (simp add: finalize_succeeded_def Let_def bind_io_def seq_io_def try_io_def now_io_def)
  with r assms(3) have "finalize_provision E c tid False action i h = (Inr (Inr (JObj d), ?j), h')"
    by (auto simp: finalize_provision_def bind_io_def try_io_def)
  with that v show ?thesis by blast
qed

lemma settled_reconciled:
  assumes "settled i d j" "jget_or d ''version'' (JInt (si_version i)) = JInt (si_version i)"
  shows "\<not> needs_reconcile j"
  using assms by (auto simp: settled_def needs_reconcile_def)

lemma reconcile_skips:
  assumes "\<not> needs_reconcile i"
  shows "reconcile_instance E False i h = (Inr (Skipped (si_instance_id i) (si_status i) (si_drift_status i), i), h)"
  using assms by (simp add: reconcile_instance_def)

lemma reconcile_converges:
  assumes "control_plane_up E" "tables_up E" "needs_reconcile i"
  shows "\<exists>res j h'. reconcile_instance E False i h = (Inr (res, j), h') \<and> is_change res \<and> \<not> needs_reconcile j \<and>
    si_version j = si_version i \<and> si_instance_id j = si_instance_id i \<and>
    table_view c0 h' INSTANCES [si_instance_id i] = Some (instance_item j)"
proof -
  let ?i1 = "begin_operation ''reconcile'' (i\<lparr>si_reconcile_attempts := si_reconcile_attempts i + 1\<rparr>)"
  let ?i2 = "?i1\<lparr>si_updated_at := env_now E h\<rparr>"
  let ?h1 = "h @ [EvPut INSTANCES (instance_item ?i2) (Inr ())]"
  have st: "si_operation_state ?i2 \<noteq> None" "si_version ?i2 = si_version i" "si_instance_id ?i2 = si_instance_id i"
    by (simp_all add: begin_operation_def)
  have put: "try_put_instance E ?i1 h = (Inr (None, ?i2), ?h1)"
    using assms(2) by (simp add: run_ok put_instance_run tables_up_def)
  obtain d j h' where fin: "finalize_provision E system_reconciler (str_or (si_organization_guid i) ''default'') False
      ''instance.reconciled'' ?i2 ?h1 = (Inr (Inr (JObj d), j), h')"
    and v: "jget_or d ''version'' (JInt (si_version ?i2)) = JInt (si_version ?i2)"
    by (rule finalize_up [OF assms(1,2) st(1)])
  obtain d' where "JObj d = JObj d'" and s: "settled ?i2 d' j"
      and view: "table_view c0 h' INSTANCES [si_instance_id ?i2] = Some (instance_item j)"
    by (rule finalize_settles [OF fin st(1)])
  then have "\<not> needs_reconcile j" using settled_reconciled v by blast
  moreover have "reconcile_instance E False i h = (Inr (Reconciled (si_instance_id j) (si_status j) (si_operation_id j)
      (si_applied_version j) (JObj d), j), h')"
    using put fin assms(3) by (simp add: reconcile_instance_def Let_def bind_io_def)
  ultimately show ?thesis using s view st by (auto simp: settled_def)
qed

section \<open>Drift refresh is fail-safe\<close>

definition same_but_drift :: "ServiceInstance \<Rightarrow> ServiceInstance \<Rightarrow> bool" where
  "same_but_drift i j \<longleftrightarrow> (\<exists>ds lr up. j = i\<lparr>si_drift_status := ds, si_last_reconciled_at := lr, si_updated_at := up\<rparr>)"

lemma same_but_drift_refl [simp]: "same_but_drift i i"
  unfolding same_but_drift_def
  by (intro exI [of _ "si_drift_status i"] exI [of _ "si_last_reconciled_at i"] exI [of _ "si_updated_at i"]) simp

lemma emits_broker_diff: "emits quiet_event (broker_diff E i)"
  unfolding broker_diff_def by (intro emits_rules) auto

lemma try_put_instance_same:
  assumes "try_put_instance E i h = (Inr (err, j), h')"
  shows "\<exists>now. j = i\<lparr>si_updated_at := now\<rparr>"
  using assms by (auto simp: try_put_instance_def run_ok put_instance_run)

text \<open>A refresh touches nothing but the drift fields; without a verdict it touches nothing.\<close>

definition drift_verdict :: "json option \<Rightarrow> bool option" where
  "drift_verdict v = (case v of Some (JObj d) \<Rightarrow>
     if jtruthy (jget d ''unknown'') then None else Some (jtruthy (jget d ''drifted'')) | _ \<Rightarrow> None)"

lemma refresh_drift_run:
  assumes "refresh_drift E i h = (Inr j, h')"
  obtains v h1 where "broker_diff E i h = (Inr v, h1)"
    "same_but_drift i j"
    "case drift_verdict v of None \<Rightarrow> j = i \<and> h' = h1
       | Some b \<Rightarrow> si_drift_status j = (if b then drifted else in_sync)"
proof -
  from assms obtain v h1 where v: "broker_diff E i h = (Inr v, h1)" by (auto simp: refresh_drift_def run_ok)
  have "same_but_drift i j \<and> (case drift_verdict v of None \<Rightarrow> j = i \<and> h' = h1
       | Some b \<Rightarrow> si_drift_status j = (if b then drifted else in_sync))"
  proof (cases "drift_verdict v")
    case None
    with assms v show ?thesis
      by (auto simp: refresh_drift_def drift_verdict_def bind_io_def split: option.splits json.splits if_splits)
  next
    case (Some b)
    then obtain d where d: "v = Some (JObj d)" "\<not> jtruthy (jget d ''unknown'')" "b = jtruthy (jget d ''drifted'')"
      by (auto simp: drift_verdict_def split: option.splits json.splits if_splits)
    with assms v obtain err h2 where "try_put_instance E (i\<lparr>si_drift_status := (if b then drifted else in_sync),
        si_last_reconciled_at := Some (env_now E h1)\<rparr>) h1 = (Inr (err, j), h2)"
      by (auto simp: refresh_drift_def run_ok split: if_splits)
    from try_put_instance_same [OF this] Some show ?thesis by (auto simp: same_but_drift_def)
  qed
  with that v show ?thesis by blast
qed

section \<open>Obligations\<close>

lemma wp_obligation:
  "wp (enforce_obligation E c iid st tid action ob)
     (\<lambda>_ h'. map_of OBLIGATION_HANDLERS ob = Some True \<and> (\<exists>e. h' = h @ [e]))
     (\<lambda>x h'. map_of OBLIGATION_HANDLERS ob \<noteq> Some True \<and> x = HTTPException 503 (JObj
        [(''message'', JStr ''policy obligation could not be enforced''), (''obligation'', JStr ob)]) \<and>
        (\<exists>e. h' = h @ [e])) h"
proof -
  have "map_of OBLIGATION_HANDLERS ob = Some True \<or> map_of OBLIGATION_HANDLERS ob = None"
    unfolding OBLIGATION_HANDLERS_def by (auto simp: map_of_map comp_def map_of_eq_None_iff)
  then show ?thesis
    unfolding enforce_obligation_def Let_def wp_simps
    by (intro wp_audit_emit) (auto simp: wp_simps)
qed

lemma enforce_obligations_run:
  "wp (enforce_obligations E c iid st tid action obs)
     (\<lambda>_ h'. (\<forall>ob\<in>set obs. map_of OBLIGATION_HANDLERS ob = Some True) \<and> length h' = length h + length obs)
     (\<lambda>x h'. \<exists>done ob rest. obs = done @ ob # rest \<and> (\<forall>o'\<in>set done. map_of OBLIGATION_HANDLERS o' = Some True) \<and>
        map_of OBLIGATION_HANDLERS ob \<noteq> Some True \<and> x = HTTPException 503 (JObj
        [(''message'', JStr ''policy obligation could not be enforced''), (''obligation'', JStr ob)]) \<and>
        length h' = length h + length done + 1) h"
  unfolding enforce_obligations_def
proof (induction obs arbitrary: h)
  case (Cons ob obs)
  show ?case
    unfolding for_io.simps wp_simps
  proof (rule wp_mono [OF wp_obligation], goal_cases ok err)
    case (ok u h1)
    then obtain e where e: "map_of OBLIGATION_HANDLERS ob = Some True" "h1 = h @ [e]" by blast
    show ?case
      by (rule wp_mono [OF Cons.IH [of h1]]) (use e in \<open>auto, metis (no_types) append_Cons set_ConsD length_Cons add_Suc_right\<close>)
  next
    case (err x h1)
    then show ?case by (intro exI [of _ "[]"] exI [of _ ob] exI [of _ obs]) auto
  qed
qed (simp add: wp_simps)

section \<open>Identity\<close>

lemma identify_basic:
  assumes "identify E auth creds h = (Inr c, h')" "ca_is_basic c"
  shows "(creds = None \<and> c = anonymous) \<or>
    (\<exists>u p. creds = Some (u, p) \<and> c = basic_caller u \<and>
       compare_digest u (cfg_broker_username (cfg E)) = Inr True \<and>
       compare_digest p (cfg_broker_password (cfg E)) = Inr True)"
  using assms by (auto simp: identify_def run_ok split: if_splits option.splits prod.splits)

lemma identify_bearer:
  assumes "identify E auth creds h = (Inr c, h')" "\<not> ca_is_basic c"
  shows "\<exists>claims. decode_token E (strip_bearer (the auth)) h = (Inr claims, h') \<and> jtruthy (jget claims ''sub'') \<and>
     user_of_claims E claims = Inr (ca_user c)"
  using assms by (auto simp: identify_def run_ok anonymous_def basic_caller_def split: if_splits option.splits prod.splits)

end
