(* ===== verification/RateLimit.thy ===== *)
theory RateLimit
  imports Environment
begin

text \<open>
  Model of \<open>libs/common/sovereign/ratelimit.py\<close>: token buckets over rational time, the LRU
  collection of buckets and the middleware. Shown: the tokens stay between zero and the capacity,
  the number of requests admitted in any run is bounded by the burst plus the refill, the number of
  buckets is bounded, and a caller only ever draws on its own bucket.
\<close>

section \<open>Token bucket\<close>

record TokenBucket =
  tb_capacity :: rat
  tb_rate :: rat
  tb_tokens :: rat
  tb_updated :: rat

definition new_bucket :: "rat \<Rightarrow> rat \<Rightarrow> rat \<Rightarrow> TokenBucket" where
  "new_bucket capacity rate now =
     \<lparr>tb_capacity = capacity, tb_rate = rate, tb_tokens = capacity, tb_updated = now\<rparr>"

definition bucket_allow :: "TokenBucket \<Rightarrow> rat \<Rightarrow> rat \<Rightarrow> bool \<times> TokenBucket" where
  "bucket_allow b now cost = (let elapsed = max 0 (now - tb_updated b);
       tokens = min (tb_capacity b) (tb_tokens b + elapsed * tb_rate b);
       b' = b\<lparr>tb_tokens := tokens, tb_updated := now\<rparr>
     in if cost \<le> tokens then (True, b'\<lparr>tb_tokens := tokens - cost\<rparr>) else (False, b'))"

section \<open>Limiter\<close>

definition MAX_BUCKETS :: nat where
  "MAX_BUCKETS = 10000"

record RateLimiter =
  rl_rps :: rat
  rl_burst :: rat
  rl_buckets :: "(string \<times> TokenBucket) list"

definition new_limiter :: "rat \<Rightarrow> rat \<Rightarrow> RateLimiter" where
  "new_limiter rps burst = \<lparr>rl_rps = rps, rl_burst = burst, rl_buckets = []\<rparr>"

definition rl_enabled :: "RateLimiter \<Rightarrow> bool" where
  "rl_enabled l \<longleftrightarrow> 0 < rl_rps l"

text \<open>The ordered dictionary: oldest first. A key that is present moves to the end; the bucket at
  the end is then updated in place.\<close>

definition limiter_allow :: "RateLimiter \<Rightarrow> string \<Rightarrow> rat \<Rightarrow> bool \<times> RateLimiter" where
  "limiter_allow l key ts = (if \<not> rl_enabled l then (True, l) else
     let bucket = (case map_of (rl_buckets l) key of
           None \<Rightarrow> new_bucket (rl_burst l) (rl_rps l) ts | Some b \<Rightarrow> b);
         (allowed, bucket') = bucket_allow bucket ts 1;
         buckets = AList.delete key (rl_buckets l) @ [(key, bucket')];
         buckets' = (if MAX_BUCKETS < length buckets then tl buckets else buckets)
     in (allowed, l\<lparr>rl_buckets := buckets'\<rparr>))"

section \<open>Middleware\<close>

definition caller_key :: "string option \<Rightarrow> string option \<Rightarrow> string" where
  "caller_key authorization client_host =
     (if truthy authorization then
        (case partition_at (CHR '' '') (the authorization) of (before, found, after) \<Rightarrow>
           ''auth:'' @ take 64 (if found then after else before))
      else (case client_host of Some h \<Rightarrow> ''ip:'' @ h | None \<Rightarrow> ''ip:unknown''))"

definition too_many_requests :: "settings \<Rightarrow> json" where
  "too_many_requests s = JObj [(''type'', JStr ''about:blank''), (''title'', JStr ''too many requests''),
     (''status'', JInt 429), (''detail'', JStr ''rate limit exceeded; retry after a short backoff''),
     (''service'', JStr (cfg_service_name s))]"

text \<open>\<open>None\<close>: the request goes on to the route; \<open>Some\<close>: the 429 response body.\<close>

definition rate_limit_middleware :: "settings \<Rightarrow> RateLimiter \<Rightarrow> string \<Rightarrow> string option \<Rightarrow> string option \<Rightarrow>
    rat \<Rightarrow> json option \<times> RateLimiter" where
  "rate_limit_middleware s l path authorization client_host ts =
     (if path = ''/healthz'' then (None, l)
      else (case limiter_allow l (caller_key authorization client_host) ts of
        (allowed, l') \<Rightarrow> (if allowed then None else Some (too_many_requests s), l')))"

section \<open>The bucket\<close>

definition bucket_ok :: "TokenBucket \<Rightarrow> bool" where
  "bucket_ok b \<longleftrightarrow> 0 \<le> tb_tokens b \<and> tb_tokens b \<le> tb_capacity b \<and> 0 \<le> tb_rate b"

lemma new_bucket_ok: "0 \<le> capacity \<Longrightarrow> 0 \<le> rate \<Longrightarrow> bucket_ok (new_bucket capacity rate now)"
  by (simp add: bucket_ok_def new_bucket_def)

lemma bucket_allow_ok:
  assumes "bucket_ok b" "bucket_allow b now cost = (a, b')" "0 \<le> cost"
  shows "bucket_ok b' \<and> tb_capacity b' = tb_capacity b \<and> tb_rate b' = tb_rate b \<and> tb_updated b' = now"
  using assms by (auto simp: bucket_allow_def bucket_ok_def Let_def split: if_splits)

text \<open>A run of one bucket over a list of arrival times; the number of admitted requests.\<close>

fun run_bucket :: "TokenBucket \<Rightarrow> rat list \<Rightarrow> nat" where
  "run_bucket b [] = 0"
| "run_bucket b (t # ts) = (case bucket_allow b t 1 of (a, b') \<Rightarrow> (if a then 1 else 0) + run_bucket b' ts)"

text \<open>What a request costs is paid from the tokens held and the time elapsed.\<close>

lemma bucket_allow_pays:
  assumes "bucket_ok b" "bucket_allow b t 1 = (a, b')" "tb_updated b \<le> t"
  shows "(if a then 1 else 0) + tb_tokens b' \<le> tb_tokens b + (t - tb_updated b) * tb_rate b"
  using assms by (auto simp: bucket_allow_def bucket_ok_def Let_def split: if_splits)

lemma run_bucket_bound:
  assumes "bucket_ok b" "sorted (tb_updated b # ts)"
  shows "of_nat (run_bucket b ts) \<le> tb_tokens b + (last (tb_updated b # ts) - tb_updated b) * tb_rate b"
  using assms
proof (induction ts arbitrary: b)
  case Nil
  then show ?case by (simp add: bucket_ok_def)
next
  case (Cons t ts)
  obtain a b' where ab: "bucket_allow b t 1 = (a, b')" by fastforce
  have ok: "bucket_ok b'" "tb_rate b' = tb_rate b" "tb_updated b' = t"
    using bucket_allow_ok [OF Cons.prems(1) ab] by auto
  have "of_nat (run_bucket b' ts) \<le> tb_tokens b' + (last (t # ts) - t) * tb_rate b"
    using Cons.IH [of b'] ok Cons.prems(2) by simp
  moreover have "(if a then 1 else 0) + tb_tokens b' \<le> tb_tokens b + (t - tb_updated b) * tb_rate b"
    using bucket_allow_pays [OF Cons.prems(1) ab] Cons.prems(2) by simp
  ultimately have "(if a then 1 else 0) + of_nat (run_bucket b' ts) \<le>
      tb_tokens b + ((t - tb_updated b) + (last (t # ts) - t)) * tb_rate b"
    by (simp add: algebra_simps)
  then show ?case using ab by (simp add: algebra_simps split: if_splits)
qed

section \<open>The limiter\<close>

definition limiter_ok :: "RateLimiter \<Rightarrow> bool" where
  "limiter_ok l \<longleftrightarrow> distinct (map fst (rl_buckets l)) \<and> length (rl_buckets l) \<le> MAX_BUCKETS \<and>
     (\<forall>b\<in>snd ` set (rl_buckets l). bucket_ok b \<and> tb_capacity b = rl_burst l \<and> tb_rate b = rl_rps l)"

lemma new_limiter_ok: "limiter_ok (new_limiter rps burst)"
  by (simp add: limiter_ok_def new_limiter_def)

lemma set_tl_subset: "set (tl xs) \<subseteq> set xs"
  by (cases xs) auto

lemma move_to_end_distinct:
  "distinct (map fst xs) \<Longrightarrow> distinct (map fst (AList.delete k xs @ [(k, v)]))"
  by (auto simp: AList.delete_eq distinct_map intro: inj_on_subset)

lemma limiter_allow_ok:
  assumes ok: "limiter_ok l" and burst: "0 \<le> rl_burst l" and step: "limiter_allow l key ts = (a, l')"
  shows "limiter_ok l' \<and> rl_burst l' = rl_burst l \<and> rl_rps l' = rl_rps l"
proof (cases "rl_enabled l")
  case False
  with ok step show ?thesis by (simp add: limiter_allow_def)
next
  case True
  let ?b = "case map_of (rl_buckets l) key of None \<Rightarrow> new_bucket (rl_burst l) (rl_rps l) ts | Some b \<Rightarrow> b"
  obtain b' where b': "bucket_allow ?b ts 1 = (a, b')"
    using step True by (auto simp: limiter_allow_def Let_def split: prod.splits)
  let ?bs = "AList.delete key (rl_buckets l) @ [(key, b')]"
  have l': "l' = l\<lparr>rl_buckets := if MAX_BUCKETS < length ?bs then tl ?bs else ?bs\<rparr>"
    using step True b' by (auto simp: limiter_allow_def Let_def)
  have "bucket_ok ?b \<and> tb_capacity ?b = rl_burst l \<and> tb_rate ?b = rl_rps l"
    using ok burst True by (force simp: limiter_ok_def new_bucket_ok new_bucket_def rl_enabled_def
        bucket_ok_def split: option.split dest: map_of_SomeD)
  then have b'_ok: "bucket_ok b' \<and> tb_capacity b' = rl_burst l \<and> tb_rate b' = rl_rps l"
    using bucket_allow_ok [OF _ b'] by simp
  have dist: "distinct (map fst ?bs)"
    using ok by (intro move_to_end_distinct) (simp add: limiter_ok_def)
  have all: "\<forall>b\<in>snd ` set ?bs. bucket_ok b \<and> tb_capacity b = rl_burst l \<and> tb_rate b = rl_rps l"
    using ok b'_ok by (auto simp: limiter_ok_def AList.delete_eq)
  have len: "length ?bs \<le> Suc MAX_BUCKETS"
    using ok length_delete_le [of key "rl_buckets l"] by (simp add: limiter_ok_def)
  have dist_tl: "distinct (map fst (tl ?bs))" unfolding map_tl using dist by (rule distinct_tl)
  have all_tl: "\<forall>b\<in>snd ` set (tl ?bs). bucket_ok b \<and> tb_capacity b = rl_burst l \<and> tb_rate b = rl_rps l"
    using all set_tl_subset [of ?bs] by blast
  show ?thesis
  proof (cases "MAX_BUCKETS < length ?bs")
    case True
    then have "rl_buckets l' = tl ?bs" "rl_burst l' = rl_burst l" "rl_rps l' = rl_rps l" using l' by simp_all
    moreover have "length (tl ?bs) \<le> MAX_BUCKETS" using len by simp
    ultimately show ?thesis using dist_tl all_tl unfolding limiter_ok_def by metis
  next
    case False
    then have "rl_buckets l' = ?bs" "rl_burst l' = rl_burst l" "rl_rps l' = rl_rps l" using l' by simp_all
    moreover have "length ?bs \<le> MAX_BUCKETS" using False by linarith
    ultimately show ?thesis using dist all unfolding limiter_ok_def by metis
  qed
qed

text \<open>The decision is the decision of the caller's own bucket, and another caller's bucket is left
  alone or evicted whole.\<close>

lemma limiter_allow_own_bucket:
  assumes "rl_enabled l" "limiter_allow l key ts = (a, l')"
  shows "a = fst (bucket_allow (case map_of (rl_buckets l) key of
      None \<Rightarrow> new_bucket (rl_burst l) (rl_rps l) ts | Some b \<Rightarrow> b) ts 1)"
  using assms by (auto simp: limiter_allow_def Let_def split: prod.splits)

lemma limiter_allow_frame:
  assumes "limiter_ok l" "limiter_allow l key ts = (a, l')" "k \<noteq> key"
  shows "map_of (rl_buckets l') k \<in> {None, map_of (rl_buckets l) k}"
proof (cases "rl_enabled l")
  case True
  obtain b' where b': "rl_buckets l' = (let bs = AList.delete key (rl_buckets l) @ [(key, b')]
      in if MAX_BUCKETS < length bs then tl bs else bs)"
    using assms(2) True by (auto simp: limiter_allow_def Let_def split: prod.splits)
  let ?bs = "AList.delete key (rl_buckets l) @ [(key, b')]"
  have bs: "map_of ?bs k = map_of (rl_buckets l) k"
    using assms(3) by (simp add: map_add_def delete_conv split: option.split)
  have dist: "distinct (map fst ?bs)"
    using assms(1) by (intro move_to_end_distinct) (simp add: limiter_ok_def)
  have "map_of (tl ?bs) k \<in> {None, map_of ?bs k}"
    using dist by (cases ?bs) (auto simp: map_of_eq_None_iff)
  with bs b' show ?thesis by (auto simp: Let_def)
qed (use assms in \<open>simp add: limiter_allow_def\<close>)

end
