(* ===== verification/Secrets.thy ===== *)
theory Secrets
  imports Security
begin

text \<open>
  Model of \<open>libs/common/sovereign/secrets.py\<close> and of \<open>refresh_managed_secrets\<close> in \<open>settings.py\<close>: the
  secrets providers, the rotating cache, the selection of a provider, and the re-resolution behind
  the rotation webhook (\<open>rotation.py\<close>). The backends (process environment, AWS, Vault) are the record
  \<open>secret_world\<close>; they answer as of a point in time, because secrets are rotated. Shown: a cached
  value is never older than the time to live, expiring the cache reads the backend again, an
  unknown provider is refused, and a refresh installs exactly the secrets the backend holds.
\<close>

section \<open>Backends\<close>

datatype secret_binary = RawBytes string | Base64Text string

record asm_response =
  as_secret_string :: "json option"
  as_secret_binary :: "secret_binary option"

text \<open>\<open>sw_utf8\<close> is \<open>bytes.decode\<close> and \<open>sw_b64\<close> is \<open>b64decode\<close>; both may raise.\<close>

record secret_world =
  sw_environ :: "string \<Rightarrow> string option"
  sw_asm :: "rat \<Rightarrow> string \<Rightarrow> aws_error + asm_response"
  sw_ssm :: "rat \<Rightarrow> string \<Rightarrow> aws_error + dict"
  sw_vault :: "rat \<Rightarrow> string \<Rightarrow> string \<Rightarrow> string + http_response"
  sw_str :: "json \<Rightarrow> string"
  sw_utf8 :: "string \<Rightarrow> exn + string"
  sw_b64 :: "string \<Rightarrow> exn + string"

definition SecretNotFoundError :: "string \<Rightarrow> exn" where
  "SecretNotFoundError name = KeyError name"

section \<open>Providers\<close>

datatype provider =
    EnvSecretsProvider
  | AwsSecretsManagerProvider string
  | AwsSsmParameterProvider string
  | VaultSecretsProvider string string string string
  | RotatingSecretsProvider provider rat "(string \<times> (rat \<times> string)) list"

definition PREFIX :: string where
  "PREFIX = ''SOVEREIGN_SECRET_''"

definition env_key :: "string \<Rightarrow> string" where
  "env_key name = PREFIX @ upper (map (\<lambda>c. if c = CHR ''-'' \<or> c = CHR ''.'' then CHR ''_'' else c) name)"

definition env_get :: "secret_world \<Rightarrow> string \<Rightarrow> exn + string" where
  "env_get W name = (case sw_environ W (env_key name) of None \<Rightarrow> Inl (SecretNotFoundError name) | Some v \<Rightarrow> Inr v)"

definition asm_get :: "secret_world \<Rightarrow> rat \<Rightarrow> string \<Rightarrow> string \<Rightarrow> exn + string" where
  "asm_get W now pfx name = (case sw_asm W now (pfx @ name) of
     Inl _ \<Rightarrow> Inl (SecretNotFoundError name)
   | Inr r \<Rightarrow> (case as_secret_string r of Some v \<Rightarrow> Inr (sw_str W v)
       | None \<Rightarrow> (case as_secret_binary r of
           Some (RawBytes b) \<Rightarrow> sw_utf8 W b
         | Some (Base64Text t) \<Rightarrow> (case sw_b64 W t of Inl x \<Rightarrow> Inl x | Inr b \<Rightarrow> sw_utf8 W b)
         | None \<Rightarrow> Inl (SecretNotFoundError name))))"

text \<open>\<open>d.get(k, {})\<close> chained on a value that need not be a dictionary.\<close>

definition get_object :: "json \<Rightarrow> string \<Rightarrow> exn + json" where
  "get_object v k = (case v of JObj d \<Rightarrow> Inr (jget_or d k (JObj [])) | _ \<Rightarrow> Inl (AttributeError ''get''))"

definition get_value :: "secret_world \<Rightarrow> string \<Rightarrow> string \<Rightarrow> json \<Rightarrow> exn + string" where
  "get_value W name k v = (case v of
     JObj d \<Rightarrow> (case jget d k of JNull \<Rightarrow> Inl (SecretNotFoundError name) | w \<Rightarrow> Inr (sw_str W w))
   | _ \<Rightarrow> Inl (AttributeError ''get''))"

definition ssm_get :: "secret_world \<Rightarrow> rat \<Rightarrow> string \<Rightarrow> string \<Rightarrow> exn + string" where
  "ssm_get W now pfx name = (case sw_ssm W now (pfx @ name) of
     Inl _ \<Rightarrow> Inl (SecretNotFoundError name)
   | Inr r \<Rightarrow> (case get_object (JObj r) ''Parameter'' of Inl x \<Rightarrow> Inl x | Inr p \<Rightarrow> get_value W name ''Value'' p))"

definition vault_url :: "string \<Rightarrow> string \<Rightarrow> string \<Rightarrow> string \<Rightarrow> string" where
  "vault_url addr mount pfx name = addr @ ''/v1/'' @ mount @ ''/data/'' @ pfx @ name"

definition vault_get :: "secret_world \<Rightarrow> rat \<Rightarrow> string \<Rightarrow> string \<Rightarrow> string \<Rightarrow> string \<Rightarrow> string \<Rightarrow> exn + string" where
  "vault_get W now addr tok mount pfx name = (case sw_vault W now (vault_url addr mount pfx name) tok of
     Inl _ \<Rightarrow> Inl (SecretNotFoundError name)
   | Inr resp \<Rightarrow> if rs_status resp \<noteq> 200 then Inl (SecretNotFoundError name)
       else (case rs_json resp of None \<Rightarrow> Inl (ValueError ''json'')
         | Some body \<Rightarrow> (case get_object body ''data'' of Inl x \<Rightarrow> Inl x
             | Inr outer \<Rightarrow> (case get_object outer ''data'' of Inl x \<Rightarrow> Inl x
                 | Inr inner \<Rightarrow> get_value W name ''value'' inner))))"

fun provider_get :: "secret_world \<Rightarrow> rat \<Rightarrow> provider \<Rightarrow> string \<Rightarrow> (exn + string) \<times> provider" where
  "provider_get W now EnvSecretsProvider name = (env_get W name, EnvSecretsProvider)"
| "provider_get W now (AwsSecretsManagerProvider pfx) name = (asm_get W now pfx name, AwsSecretsManagerProvider pfx)"
| "provider_get W now (AwsSsmParameterProvider pfx) name = (ssm_get W now pfx name, AwsSsmParameterProvider pfx)"
| "provider_get W now (VaultSecretsProvider addr tok mount pfx) name =
     (vault_get W now addr tok mount pfx name, VaultSecretsProvider addr tok mount pfx)"
| "provider_get W now (RotatingSecretsProvider backend ttl cache) name =
     (let fetch = (\<lambda>_. case provider_get W now backend name of
          (Inl x, b) \<Rightarrow> (Inl x, RotatingSecretsProvider b ttl cache)
        | (Inr v, b) \<Rightarrow> (Inr v, RotatingSecretsProvider b ttl (AList.update name (now, v) cache)))
      in case map_of cache name of
           Some (t, v) \<Rightarrow> if now - t < ttl then (Inr v, RotatingSecretsProvider backend ttl cache) else fetch ()
         | None \<Rightarrow> fetch ())"

fun is_SecretNotFoundError :: "exn \<Rightarrow> bool" where
  "is_SecretNotFoundError (KeyError _) = True"
| "is_SecretNotFoundError _ = False"

text \<open>\<open>get_optional\<close>: an absent secret is the default, any other exception passes through.\<close>

definition provider_get_optional :: "secret_world \<Rightarrow> rat \<Rightarrow> provider \<Rightarrow> string \<Rightarrow> (exn + string option) \<times> provider" where
  "provider_get_optional W now p name = (case provider_get W now p name of
     (Inr v, p') \<Rightarrow> (Inr (Some v), p')
   | (Inl x, p') \<Rightarrow> (if is_SecretNotFoundError x then Inr None else Inl x, p'))"

fun force_expire :: "provider \<Rightarrow> provider" where
  "force_expire (RotatingSecretsProvider backend ttl cache) = RotatingSecretsProvider backend ttl []"
| "force_expire p = p"

section \<open>Selection\<close>

definition managed_backend :: "settings \<Rightarrow> exn + provider" where
  "managed_backend s = (let kind = secrets_kind s in
     if kind \<in> {''aws-secrets-manager'', ''secretsmanager'', ''asm''} then Inr (AwsSecretsManagerProvider (cfg_secrets_prefix s))
     else if kind \<in> {''aws-ssm'', ''ssm'', ''parameter-store''} then Inr (AwsSsmParameterProvider (cfg_secrets_prefix s))
     else if kind \<in> {''vault'', ''hashicorp-vault'', ''hcp-vault''}
       then Inr (VaultSecretsProvider (rstrip_if (\<lambda>c. c = CHR ''/'') (cfg_vault_addr s)) (cfg_vault_token s)
         (rstrip_if (\<lambda>c. c = CHR ''/'') (lstrip_if (\<lambda>c. c = CHR ''/'') (cfg_vault_kv_mount s))) (cfg_secrets_prefix s))
     else Inl (RuntimeError (''unknown secrets provider '' @ py_repr kind)))"

definition build_provider :: "settings \<Rightarrow> exn + provider" where
  "build_provider s = (if secrets_kind s \<in> {''env'', []} then Inr EnvSecretsProvider
     else case managed_backend s of Inl x \<Rightarrow> Inl x
       | Inr b \<Rightarrow> if cfg_secrets_ttl_seconds s > 0
           then Inr (RotatingSecretsProvider b (of_int (cfg_secrets_ttl_seconds s)) []) else Inr b)"

text \<open>The process-wide provider, when one was installed.\<close>

definition provider_for_settings :: "provider option \<Rightarrow> settings \<Rightarrow> exn + provider" where
  "provider_for_settings installed s = (case installed of Some p \<Rightarrow> Inr p | None \<Rightarrow> build_provider s)"

definition get_secrets_provider :: "settings \<Rightarrow> provider option \<Rightarrow> (exn + provider) \<times> provider option" where
  "get_secrets_provider s installed = (case installed of Some p \<Rightarrow> (Inr p, installed)
     | None \<Rightarrow> (case provider_for_settings None s of Inl x \<Rightarrow> (Inl x, None) | Inr p \<Rightarrow> (Inr p, Some p)))"

definition set_secrets_provider :: "provider \<Rightarrow> provider option \<Rightarrow> provider option" where
  "set_secrets_provider p _ = Some p"

definition reset_secrets_provider :: "provider option \<Rightarrow> provider option" where
  "reset_secrets_provider _ = None"

section \<open>Resolution into the settings\<close>

text \<open>The loop of \<open>_resolve_managed_secrets\<close> over one provider. It assigns in place, so the settings
  are returned next to the exception, if one ended the loop.\<close>

fun resolve_fields :: "secret_world \<Rightarrow> rat \<Rightarrow> provider \<Rightarrow> ((string \<Rightarrow> settings \<Rightarrow> settings) \<times> string) list \<Rightarrow> settings \<Rightarrow>
    exn option \<times> settings \<times> provider" where
  "resolve_fields W now p [] s = (None, s, p)"
| "resolve_fields W now p ((setter, name) # fs) s = (case provider_get_optional W now p name of
     (Inl x, p') \<Rightarrow> (Some x, s, p')
   | (Inr None, p') \<Rightarrow> resolve_fields W now p' fs s
   | (Inr (Some v), p') \<Rightarrow> resolve_fields W now p' fs (setter v s))"

text \<open>\<open>refresh_managed_secrets\<close>: expire, then resolve into the live settings. A provider that is not
  installed is built anew for each of the two steps.\<close>

definition refresh_managed_secrets :: "secret_world \<Rightarrow> rat \<Rightarrow> provider option \<Rightarrow> settings \<Rightarrow>
    exn option \<times> settings \<times> provider option" where
  "refresh_managed_secrets W now installed s =
     (if secrets_kind s \<in> {''env'', []} then (None, s, installed)
      else let installed' = map_option force_expire installed in
        case provider_for_settings installed' s of Inl x \<Rightarrow> (Some x, s, installed')
        | Inr p \<Rightarrow> (case resolve_fields W now p MANAGED_SECRET_FIELDS s of
            (x, s', p') \<Rightarrow> (x, s', map_option (\<lambda>_. p') installed')))"

text \<open>The rotation webhook is authenticated like every service route; it answers which provider was
  refreshed, never a value. The refreshed settings and the installed provider are returned with it.\<close>

definition refresh_secrets_route :: "env \<Rightarrow> secret_world \<Rightarrow> rat \<Rightarrow> provider option \<Rightarrow>
    string option \<Rightarrow> string option \<Rightarrow> string option \<Rightarrow> string option \<Rightarrow> ((exn + dict) \<times> settings \<times> provider option) prog" where
  "refresh_secrets_route E W now installed authorization workload_identity spiffe_id xfcc =
     bind_io (require_bearer E authorization workload_identity spiffe_id xfcc) (\<lambda>_.
       case refresh_managed_secrets W now installed (cfg E) of
         (Some x, s', i) \<Rightarrow> ret (Inl x, s', i)
       | (None, s', i) \<Rightarrow> ret (Inr [(''refreshed'', JBool True), (''provider'', JStr (cfg_secrets_provider s'))], s', i))"

section \<open>The cache\<close>

text \<open>The values the backend gave at a time. A cache is fresh for a backend when every entry is a value
  the backend gave at the recorded time, and no entry is from the future.\<close>

definition gave :: "secret_world \<Rightarrow> provider \<Rightarrow> string \<Rightarrow> rat \<Rightarrow> string \<Rightarrow> bool" where
  "gave W b name t v \<longleftrightarrow> fst (provider_get W t b name) = Inr v"

definition cache_ok :: "secret_world \<Rightarrow> rat \<Rightarrow> provider \<Rightarrow> (string \<times> (rat \<times> string)) list \<Rightarrow> bool" where
  "cache_ok W now b cache \<longleftrightarrow> (\<forall>name t v. map_of cache name = Some (t, v) \<longrightarrow> t \<le> now \<and> gave W b name t v)"

fun stateless :: "provider \<Rightarrow> bool" where
  "stateless (RotatingSecretsProvider _ _ _) = False"
| "stateless _ = True"

lemma stateless_get: "stateless b \<Longrightarrow> snd (provider_get W now b name) = b"
  by (cases b) auto

text \<open>A lookup through the cache: the value is one the backend gave less than the time to live ago (or
  now), the invariant is kept, and a failure is the backend's own.\<close>

lemma rotating_get:
  assumes b: "stateless b" and c: "cache_ok W now b cache" and ttl: "0 < ttl"
    and g: "provider_get W now (RotatingSecretsProvider b ttl cache) name = (r, p')"
  shows "(case r of Inr v \<Rightarrow> \<exists>t. t \<le> now \<and> now - t < ttl \<and> gave W b name t v
      | Inl x \<Rightarrow> fst (provider_get W now b name) = Inl x) \<and>
    (\<exists>cache'. p' = RotatingSecretsProvider b ttl cache' \<and> cache_ok W now b cache')"
proof (cases "\<exists>t v. map_of cache name = Some (t, v) \<and> now - t < ttl")
  case True
  then obtain t v where tv: "map_of cache name = Some (t, v)" "now - t < ttl" by blast
  with g have "r = Inr v" "p' = RotatingSecretsProvider b ttl cache" by auto
  moreover have "t \<le> now \<and> gave W b name t v" using c tv(1) by (simp add: cache_ok_def)
  ultimately show ?thesis using tv(2) c by auto
next
  case False
  then have miss: "provider_get W now (RotatingSecretsProvider b ttl cache) name = (case provider_get W now b name of
       (Inl x, b) \<Rightarrow> (Inl x, RotatingSecretsProvider b ttl cache)
     | (Inr v, b) \<Rightarrow> (Inr v, RotatingSecretsProvider b ttl (AList.update name (now, v) cache)))"
    by (auto simp: Let_def split: option.split)
  obtain q where q: "provider_get W now b name = (q, b)"
    using stateless_get [OF b] by (metis prod.collapse)
  show ?thesis
  proof (cases q)
    case (Inl x)
    with g miss q c show ?thesis by auto
  next
    case (Inr v)
    have "cache_ok W now b (AList.update name (now, v) cache)"
      using c q Inr by (auto simp: cache_ok_def update_conv gave_def)
    with g miss q Inr ttl show ?thesis by (auto simp: gave_def)
  qed
qed

lemma cache_ok_later: "cache_ok W now b cache \<Longrightarrow> now \<le> now' \<Longrightarrow> cache_ok W now' b cache"
  by (force simp: cache_ok_def)

lemma cache_ok_empty [simp]: "cache_ok W now b []"
  by (simp add: cache_ok_def)

text \<open>After an expiry the backend is asked again.\<close>

lemma expired_get:
  assumes "stateless b"
  shows "fst (provider_get W now (force_expire (RotatingSecretsProvider b ttl cache)) name) = fst (provider_get W now b name)"
proof -
  obtain q where "provider_get W now b name = (q, b)"
    using stateless_get [OF assms] by (metis prod.collapse)
  then show ?thesis by (cases q) simp_all
qed

section \<open>Selection fails closed\<close>

lemma managed_backend_stateless: "managed_backend s = Inr b \<Longrightarrow> stateless b"
  by (auto simp: managed_backend_def Let_def split: if_splits)

lemma build_provider_unknown:
  assumes "secrets_kind s \<notin> {''env'', [], ''aws-secrets-manager'', ''secretsmanager'', ''asm'', ''aws-ssm'', ''ssm'',
     ''parameter-store'', ''vault'', ''hashicorp-vault'', ''hcp-vault''}"
  shows "\<exists>m. build_provider s = Inl (RuntimeError m)"
  using assms by (simp add: build_provider_def managed_backend_def Let_def)

section \<open>A refresh installs what the backend holds\<close>

lemma optional_stateless:
  assumes "stateless p"
  shows "snd (provider_get_optional W now p name) = p"
  using stateless_get [OF assms, of W now name]
  by (auto simp: provider_get_optional_def split: prod.split sum.split)

lemma resolve_fields_stateless:
  assumes "stateless p" and "\<forall>(setter, name)\<in>set fs. fst (provider_get_optional W now p name) = Inr (g name)"
  shows "resolve_fields W now p fs s = (None, fold (\<lambda>(setter, name) s. case g name of None \<Rightarrow> s | Some v \<Rightarrow> setter v s) fs s, p)"
  using assms(2)
proof (induction fs arbitrary: s)
  case (Cons f fs)
  obtain setter name where f: "f = (setter, name)" by (cases f)
  with Cons.prems have "fst (provider_get_optional W now p name) = Inr (g name)" by simp
  then have "provider_get_optional W now p name = (Inr (g name), p)"
    using optional_stateless [OF assms(1), of W now name] by (simp add: prod_eq_iff)
  with Cons f show ?case by (simp split: option.split)
qed simp

lemma refresh_installs:
  assumes k: "secrets_kind s \<notin> {''env'', []}" and b: "managed_backend s = Inr b" and ttl: "cfg_secrets_ttl_seconds s \<le> 0"
    and g: "\<And>name. fst (provider_get_optional W now b name) = Inr (g name)"
  shows "refresh_managed_secrets W now None s = (None, set_managed g s, None)"
proof -
  have "build_provider s = Inr b" using k b ttl by (simp add: build_provider_def)
  with k resolve_fields_stateless [OF managed_backend_stateless [OF b], of MANAGED_SECRET_FIELDS W now g s] g
  show ?thesis by (auto simp: refresh_managed_secrets_def provider_for_settings_def set_managed_def Let_def)
qed

section \<open>The life of a provider\<close>

text \<open>The backend the settings select, and the states of a provider built from them: lookups and
  expiries, at times that do not decrease.\<close>

definition selected_backend :: "settings \<Rightarrow> exn + provider" where
  "selected_backend s = (if secrets_kind s \<in> {''env'', []} then Inr EnvSecretsProvider else managed_backend s)"

inductive provider_at :: "secret_world \<Rightarrow> settings \<Rightarrow> rat \<Rightarrow> provider \<Rightarrow> bool" for W s where
  built: "build_provider s = Inr p \<Longrightarrow> provider_at W s now p"
| looked_up: "provider_at W s now p \<Longrightarrow> now \<le> t \<Longrightarrow> provider_get W t p name = (r, p') \<Longrightarrow> provider_at W s t p'"
| expired: "provider_at W s now p \<Longrightarrow> now \<le> t \<Longrightarrow> provider_at W s t (force_expire p)"

definition provider_inv :: "secret_world \<Rightarrow> settings \<Rightarrow> rat \<Rightarrow> provider \<Rightarrow> bool" where
  "provider_inv W s now p \<longleftrightarrow> (\<exists>b. selected_backend s = Inr b \<and> stateless b \<and>
     (p = b \<or> (\<exists>cache. p = RotatingSecretsProvider b (of_int (cfg_secrets_ttl_seconds s)) cache \<and>
        0 < cfg_secrets_ttl_seconds s \<and> cache_ok W now b cache)))"

lemma built_inv: "build_provider s = Inr p \<Longrightarrow> provider_inv W s now p"
  using managed_backend_stateless [of s]
  by (auto simp: build_provider_def provider_inv_def selected_backend_def split: if_splits sum.splits)

lemma get_inv:
  assumes inv: "provider_inv W s now p" and t: "now \<le> t" and g: "provider_get W t p name = (r, p')"
  shows "provider_inv W s t p' \<and> (\<exists>b. selected_backend s = Inr b \<and>
    (case r of Inr v \<Rightarrow> \<exists>t0 \<le> t. (t0 = t \<or> t - t0 < of_int (cfg_secrets_ttl_seconds s)) \<and> gave W b name t0 v
     | Inl x \<Rightarrow> fst (provider_get W t b name) = Inl x))"
proof -
  from inv obtain b where b: "selected_backend s = Inr b" "stateless b" and p: "p = b \<or>
      (\<exists>cache. p = RotatingSecretsProvider b (of_int (cfg_secrets_ttl_seconds s)) cache \<and> 0 < cfg_secrets_ttl_seconds s \<and> cache_ok W now b cache)"
    by (auto simp: provider_inv_def)
  from p show ?thesis
  proof (elim disjE exE conjE)
    assume "p = b"
    moreover from this g b(2) have "p' = b" using stateless_get [of b W t name] by simp
    ultimately show ?thesis using b g by (auto simp: provider_inv_def gave_def split: sum.split)
  next
    fix cache assume r: "p = RotatingSecretsProvider b (of_int (cfg_secrets_ttl_seconds s)) cache" "0 < cfg_secrets_ttl_seconds s" "cache_ok W now b cache"
    from rotating_get [OF b(2) cache_ok_later [OF r(3) t] _ g [unfolded r(1)]] r(2) b
    show ?thesis by (cases r) (auto simp: provider_inv_def)
  qed
qed

lemma expire_inv: "provider_inv W s now p \<Longrightarrow> provider_inv W s t (force_expire p)"
  by (cases p) (auto simp: provider_inv_def)

lemma provider_at_inv: "provider_at W s now p \<Longrightarrow> provider_inv W s now p"
  by (induction rule: provider_at.induct) (auto intro: built_inv expire_inv dest: get_inv)

end
