(* ===== verification/Oidc.thy ===== *)
theory Oidc
  imports Migrations
begin

text \<open>
  Model of \<open>libs/common/sovereign/idp/oidc.py\<close>: the verifier of OIDC tokens with its caches of the
  discovery document and of the signing keys. The clock, the JWT library and the response header
  are the record \<open>oidc_lib\<close>; requests go through the environment. A method runs to an outcome
  and leaves the verifier behind, so both are returned. Shown: a token is only accepted with a key
  from a key set fetched within its time to live plus the grace period, under the configured issuer
  and audience; the keys are kept while the provider is down and dropped after the grace period.
\<close>

section \<open>State and library\<close>

text \<open>How the JWT library resolves the signing key of a token: it may ask its client for the key set,
  go on with the answer, end with a key, or raise. An exception of the client passes through.\<close>

datatype key_plan = UseKey string | FailKey exn | FetchKeys "json \<Rightarrow> key_plan"

record oidc_lib =
  ol_time :: "event list \<Rightarrow> rat"
  ol_cache_control :: "http_response \<Rightarrow> string"
  ol_key_plan :: "string \<Rightarrow> key_plan"
  ol_jwt_decode :: "string \<Rightarrow> string \<Rightarrow> string list \<Rightarrow> string \<Rightarrow> string option \<Rightarrow> exn + dict"

record OidcVerifier =
  ov_issuer :: string
  ov_audience :: "string option"
  ov_cache_ttl :: rat
  ov_stale_grace :: rat
  ov_algorithms :: "string list"
  ov_discovery :: "(json \<times> rat) option"
  ov_has_client :: bool
  ov_jwks :: "(json \<times> rat \<times> rat) option"

definition new_verifier :: "string \<Rightarrow> string option \<Rightarrow> rat \<Rightarrow> rat \<Rightarrow> OidcVerifier" where
  "new_verifier issuer_url audience cache_ttl stale_grace = \<lparr>ov_issuer = rstrip_if (\<lambda>c. c = CHR ''/'') issuer_url,
     ov_audience = audience, ov_cache_ttl = cache_ttl, ov_stale_grace = stale_grace, ov_algorithms = [''RS256'', ''ES256''],
     ov_discovery = None, ov_has_client = False, ov_jwks = None\<rparr>"

section \<open>Fetching\<close>

text \<open>\<open>httpx.get\<close>, \<open>raise_for_status\<close>, \<open>json()\<close>.\<close>

definition fetch_json :: "env \<Rightarrow> string \<Rightarrow> (json \<times> http_response) prog" where
  "fetch_json E url = bind_io (http_io E \<lparr>rq_method = ''GET'', rq_url = url, rq_headers = [], rq_body = JNull\<rparr>) (\<lambda>r.
     if rs_status r < 200 \<or> 300 \<le> rs_status r then throw (HTTPStatusError r)
     else case rs_json r of None \<Rightarrow> throw (ValueError ''json'') | Some doc \<Rightarrow> ret (doc, r))"

definition clock_io :: "oidc_lib \<Rightarrow> rat prog" where
  "clock_io K = (\<lambda>h. (Inr (ol_time K h), h))"

definition discovery_url :: "OidcVerifier \<Rightarrow> string" where
  "discovery_url v = ov_issuer v @ ''/.well-known/openid-configuration''"

definition get_discovery :: "oidc_lib \<Rightarrow> env \<Rightarrow> OidcVerifier \<Rightarrow> ((exn + json) \<times> OidcVerifier) prog" where
  "get_discovery K E v = bind_io (clock_io K) (\<lambda>now.
     case ov_discovery v of
       Some (doc, loaded) \<Rightarrow> if now - loaded < ov_cache_ttl v then ret (Inr doc, v)
         else bind_io (try_io (fetch_json E (discovery_url v))) (\<lambda>res. case res of
           Inl x \<Rightarrow> if is_HTTPError x then ret (Inr doc, v) else ret (Inl x, v)
         | Inr (new, _) \<Rightarrow> bind_io (clock_io K) (\<lambda>t. ret (Inr new, v\<lparr>ov_discovery := Some (new, t), ov_has_client := False\<rparr>)))
     | None \<Rightarrow> bind_io (try_io (fetch_json E (discovery_url v))) (\<lambda>res. case res of
           Inl x \<Rightarrow> ret (Inl x, v)
         | Inr (new, _) \<Rightarrow> bind_io (clock_io K) (\<lambda>t. ret (Inr new, v\<lparr>ov_discovery := Some (new, t), ov_has_client := False\<rparr>))))"

text \<open>\<open>re.search(r"(?:^|,\s*)max-age=(\d+)(?:\s*,|$)", header)\<close>\<close>

definition max_age_end :: "string \<Rightarrow> bool" where
  "max_age_end t \<longleftrightarrow> t = [] \<or> t = [CHR 0x0A] \<or> startswith (dropWhile is_space t) '',''"

definition max_age_here :: "string \<Rightarrow> string option" where
  "max_age_here s = (if startswith s ''max-age='' then
     let t = drop 8 s; ds = takeWhile is_digit t
     in if ds \<noteq> [] \<and> max_age_end (dropWhile is_digit t) then Some ds else None
   else None)"

fun max_age_search :: "string \<Rightarrow> string option" where
  "max_age_search [] = None"
| "max_age_search (c # s) = (if c = CHR '','' then (case max_age_here (dropWhile is_space s) of
     Some ds \<Rightarrow> Some ds | None \<Rightarrow> max_age_search s) else max_age_search s)"

definition response_max_age :: "string \<Rightarrow> rat option" where
  "response_max_age header = map_option (\<lambda>ds. of_int (digits_value ds))
     (case max_age_here header of Some ds \<Rightarrow> Some ds | None \<Rightarrow> max_age_search header)"

text \<open>\<open>self._response_max_age(response) or self._cache_ttl\<close>: a maximal age of zero is falsy.\<close>

definition jwks_ttl :: "OidcVerifier \<Rightarrow> string \<Rightarrow> rat" where
  "jwks_ttl v header = (case response_max_age header of Some a \<Rightarrow> if a = 0 then ov_cache_ttl v else a | None \<Rightarrow> ov_cache_ttl v)"

definition no_jwks_uri :: "OidcVerifier \<Rightarrow> exn" where
  "no_jwks_uri v = RuntimeError (discovery_url v @ '' has no jwks_uri'')"

text \<open>\<open>discovery.get("jwks_uri")\<close>; \<open>None\<close> when it is missing or empty.\<close>

definition jwks_uri_of :: "json \<Rightarrow> exn + json option" where
  "jwks_uri_of doc = (case doc of
     JObj d \<Rightarrow> Inr (if jtruthy (jget d ''jwks_uri'') then Some (jget d ''jwks_uri'') else None)
   | _ \<Rightarrow> Inl (AttributeError ''get''))"

text \<open>A URI that is not a string fails in the HTTP client.\<close>

definition fetch_uri :: "env \<Rightarrow> json \<Rightarrow> (json \<times> http_response) prog" where
  "fetch_uri E u = (case u of JStr url \<Rightarrow> fetch_json E url | _ \<Rightarrow> throw (TypeError ''Invalid type for url''))"

fun is_ValueError :: "exn \<Rightarrow> bool" where
  "is_ValueError (ValueError _) = True"
| "is_ValueError _ = False"

definition refresh_jwks :: "oidc_lib \<Rightarrow> env \<Rightarrow> json \<Rightarrow> OidcVerifier \<Rightarrow> ((exn + json) \<times> OidcVerifier) prog" where
  "refresh_jwks K E uri v = bind_io (try_io (fetch_uri E uri)) (\<lambda>res. bind_io (clock_io K) (\<lambda>now. case res of
       Inr (jwks, r) \<Rightarrow> ret (Inr jwks, v\<lparr>ov_jwks := Some (jwks, now, jwks_ttl v (ol_cache_control K r))\<rparr>)
     | Inl x \<Rightarrow> if is_HTTPError x \<or> is_ValueError x then (case ov_jwks v of
           Some (jwks, loaded, ttl) \<Rightarrow> if now - loaded < ttl + ov_stale_grace v then ret (Inr jwks, v) else ret (Inl x, v)
         | None \<Rightarrow> ret (Inl x, v))
         else ret (Inl x, v)))"

definition fetch_jwks_data :: "oidc_lib \<Rightarrow> env \<Rightarrow> OidcVerifier \<Rightarrow> ((exn + json) \<times> OidcVerifier) prog" where
  "fetch_jwks_data K E v0 = bind_io (get_discovery K E v0) (\<lambda>(d, v). case d of
     Inl x \<Rightarrow> ret (Inl x, v)
   | Inr doc \<Rightarrow> (case jwks_uri_of doc of
       Inl x \<Rightarrow> ret (Inl x, v)
     | Inr None \<Rightarrow> ret (Inl (no_jwks_uri v), v)
     | Inr (Some uri) \<Rightarrow> bind_io (clock_io K) (\<lambda>now. case ov_jwks v of
         Some (jwks, loaded, ttl) \<Rightarrow> if now - loaded < ttl then ret (Inr jwks, v) else refresh_jwks K E uri v
       | None \<Rightarrow> refresh_jwks K E uri v)))"

section \<open>Verification\<close>

text \<open>\<open>_get_jwks_client\<close>: building a client needs the discovery document; the client only calls
  back for keys.\<close>

definition get_jwks_client :: "oidc_lib \<Rightarrow> env \<Rightarrow> OidcVerifier \<Rightarrow> ((exn + unit) \<times> OidcVerifier) prog" where
  "get_jwks_client K E v0 = (if ov_has_client v0 then ret (Inr (), v0)
     else bind_io (get_discovery K E v0) (\<lambda>(d, v). case d of
       Inl x \<Rightarrow> ret (Inl x, v)
     | Inr doc \<Rightarrow> (case jwks_uri_of doc of
         Inl x \<Rightarrow> ret (Inl x, v)
       | Inr None \<Rightarrow> ret (Inl (no_jwks_uri v), v)
       | Inr (Some _) \<Rightarrow> ret (Inr (), v\<lparr>ov_has_client := True\<rparr>))))"

text \<open>\<open>get_signing_key_from_jwt\<close> on the client whose \<open>fetch_data\<close> is overridden by the cache above.\<close>

primrec resolve_key :: "oidc_lib \<Rightarrow> env \<Rightarrow> key_plan \<Rightarrow> OidcVerifier \<Rightarrow> ((exn + string) \<times> OidcVerifier) prog" where
  "resolve_key K E (UseKey key) = (\<lambda>v. ret (Inr key, v))"
| "resolve_key K E (FailKey x) = (\<lambda>v. ret (Inl x, v))"
| "resolve_key K E (FetchKeys k) = (\<lambda>v0. bind_io (fetch_jwks_data K E v0) (\<lambda>(r, v). case r of
     Inl x \<Rightarrow> ret (Inl x, v) | Inr jwks \<Rightarrow> resolve_key K E (k jwks) v))"

definition verify :: "oidc_lib \<Rightarrow> env \<Rightarrow> string \<Rightarrow> OidcVerifier \<Rightarrow> ((exn + dict) \<times> OidcVerifier) prog" where
  "verify K E token v0 = bind_io (get_jwks_client K E v0) (\<lambda>(c, v). case c of
     Inl x \<Rightarrow> ret (Inl x, v)
   | Inr _ \<Rightarrow> bind_io (resolve_key K E (ol_key_plan K token) v) (\<lambda>(r, v'). case r of
       Inl x \<Rightarrow> ret (Inl (InvalidTokenError (''unable to resolve signing key: '' @ env_str_exn E x)), v')
     | Inr key \<Rightarrow> ret (ol_jwt_decode K token key (ov_algorithms v') (ov_issuer v') (ov_audience v'), v')))"

text \<open>The process-wide verifier is rebuilt when the configured issuer changes.\<close>

definition get_oidc_verifier :: "settings \<Rightarrow> (OidcVerifier \<times> string) option \<Rightarrow> OidcVerifier \<times> (OidcVerifier \<times> string) option" where
  "get_oidc_verifier s installed = (let build = new_verifier (cfg_oidc_issuer_url s)
        (if cfg_oidc_audience s = [] then None else Some (cfg_oidc_audience s))
        (cfg_oidc_jwks_cache_ttl_seconds s) (cfg_oidc_jwks_stale_grace_seconds s)
     in case installed of
          Some (v, iss) \<Rightarrow> if iss = cfg_oidc_issuer_url s then (v, installed) else (build, Some (build, cfg_oidc_issuer_url s))
        | None \<Rightarrow> (build, Some (build, cfg_oidc_issuer_url s)))"

definition set_oidc_verifier :: "settings \<Rightarrow> OidcVerifier \<Rightarrow> (OidcVerifier \<times> string) option \<Rightarrow> (OidcVerifier \<times> string) option" where
  "set_oidc_verifier s v _ = Some (v, cfg_oidc_issuer_url s)"

definition reset_oidc_verifier :: "(OidcVerifier \<times> string) option \<Rightarrow> (OidcVerifier \<times> string) option" where
  "reset_oidc_verifier _ = None"

section \<open>What a verification relies on\<close>

definition same_config :: "OidcVerifier \<Rightarrow> OidcVerifier \<Rightarrow> bool" where
  "same_config v v' \<longleftrightarrow> ov_issuer v' = ov_issuer v \<and> ov_audience v' = ov_audience v \<and> ov_cache_ttl v' = ov_cache_ttl v \<and>
     ov_stale_grace v' = ov_stale_grace v \<and> ov_algorithms v' = ov_algorithms v"

lemma same_config_refl [simp]: "same_config v v"
  by (simp add: same_config_def)

lemma same_config_trans: "same_config v v' \<Longrightarrow> same_config v' v'' \<Longrightarrow> same_config v v''"
  by (simp add: same_config_def)

text \<open>The verifier holds these keys, and they are still within their time to live plus grace.\<close>

definition holds_keys :: "oidc_lib \<Rightarrow> event list \<Rightarrow> OidcVerifier \<Rightarrow> json \<Rightarrow> bool" where
  "holds_keys K h v jwks \<longleftrightarrow> (\<exists>loaded ttl. ov_jwks v = Some (jwks, loaded, ttl) \<and> ol_time K h - loaded < ttl + ov_stale_grace v)"

definition sane :: "OidcVerifier \<Rightarrow> bool" where
  "sane v \<longleftrightarrow> 0 < ov_cache_ttl v \<and> 0 \<le> ov_stale_grace v"

lemma digits_nonneg: "list_all is_digit ds \<Longrightarrow> 0 \<le> digits_value ds"
proof -
  have "list_all is_digit ds \<Longrightarrow> 0 \<le> a \<Longrightarrow> 0 \<le> foldl (\<lambda>a c. 10 * a + (of_char c - 48)) a ds" for a :: int
  proof (induction ds arbitrary: a)
    case (Cons c ds)
    from Cons.prems have "48 \<le> (of_char c :: nat)" by (simp add: is_digit_def)
    then have "48 \<le> (of_char c :: int)" by (metis nat_int_comparison(3) of_nat_numeral of_nat_of_char)
    with Cons show ?case by simp
  qed simp
  then show "list_all is_digit ds \<Longrightarrow> 0 \<le> digits_value ds" by (simp add: digits_value_def)
qed

lemma max_age_here_digits: "max_age_here s = Some ds \<Longrightarrow> list_all is_digit ds"
  by (auto simp: max_age_here_def Let_def list_all_iff dest: set_takeWhileD split: if_splits)

lemma max_age_search_digits: "max_age_search s = Some ds \<Longrightarrow> list_all is_digit ds"
  by (induction s rule: max_age_search.induct) (auto dest: max_age_here_digits split: if_splits option.splits)

lemma jwks_ttl_pos: "0 < ov_cache_ttl v \<Longrightarrow> 0 < jwks_ttl v header"
proof -
  assume ttl: "0 < ov_cache_ttl v"
  have "0 \<le> a" if "response_max_age header = Some a" for a
    using that digits_nonneg max_age_here_digits max_age_search_digits
    by (auto simp: response_max_age_def split: option.splits)
  with ttl show ?thesis by (force simp: jwks_ttl_def split: option.split)
qed

lemma get_discovery_frame:
  assumes "get_discovery K E v h = (Inr (r, v'), h')"
  shows "same_config v v' \<and> ov_jwks v' = ov_jwks v"
  using assms
  by (auto simp: get_discovery_def run_ok same_config_def try_io_def clock_io_def split: option.splits sum.splits prod.splits if_splits)

lemma refresh_jwks_keys:
  assumes "refresh_jwks K E uri v h = (Inr (Inr jwks, v'), h')" "sane v"
  shows "same_config v v' \<and> holds_keys K h' v' jwks"
proof -
  have pos: "0 < jwks_ttl v hd + ov_stale_grace v" for hd
    using jwks_ttl_pos [of v hd] assms(2) by (simp add: sane_def)
  from assms(1) show ?thesis
    by (auto simp: refresh_jwks_def run_ok same_config_def holds_keys_def clock_io_def pos
        split: option.splits sum.splits prod.splits if_splits)
qed

lemma fetch_jwks_keys:
  assumes "fetch_jwks_data K E v h = (Inr (Inr jwks, v'), h')" "sane v"
  shows "same_config v v' \<and> holds_keys K h' v' jwks"
proof -
  from assms(1) obtain d v1 h1 where d: "get_discovery K E v h = (Inr (d, v1), h1)"
    by (auto simp: fetch_jwks_data_def run_ok)
  then have v1: "same_config v v1" "ov_jwks v1 = ov_jwks v" using get_discovery_frame by blast+
  then have s1: "sane v1" using assms(2) by (simp add: sane_def same_config_def)
  have fresh: "now - t < ttl \<Longrightarrow> now - t < ttl + ov_stale_grace v1" for now t ttl :: rat
    using s1 by (simp add: sane_def)
  from assms(1) d consider (cached) loaded ttl where "ov_jwks v1 = Some (jwks, loaded, ttl)" "ol_time K h1 - loaded < ttl" "v' = v1" "h' = h1"
    | (fetched) uri where "refresh_jwks K E uri v1 h1 = (Inr (Inr jwks, v'), h')"
    by (auto simp: fetch_jwks_data_def run_ok clock_io_def split: option.splits sum.splits prod.splits if_splits)
  then show ?thesis
  proof cases
    case cached
    then have "holds_keys K h' v' jwks" unfolding holds_keys_def using fresh by blast
    with cached(3) v1(1) show ?thesis by blast
  next
    case fetched
    from refresh_jwks_keys [OF this s1] v1 show ?thesis by (blast intro: same_config_trans)
  qed
qed

lemma sane_same: "same_config v v' \<Longrightarrow> sane v \<Longrightarrow> sane v'"
  by (simp add: sane_def same_config_def)

lemma fetch_jwks_config:
  assumes "fetch_jwks_data K E v h = (Inr (r, v'), h')"
  shows "same_config v v'"
proof -
  from assms obtain d v1 h1 where d: "get_discovery K E v h = (Inr (d, v1), h1)"
    by (auto simp: fetch_jwks_data_def run_ok)
  then have v1: "same_config v v1" using get_discovery_frame by blast
  from assms d consider "v' = v1" | uri where "refresh_jwks K E uri v1 h1 = (Inr (r, v'), h')"
    by (auto simp: fetch_jwks_data_def run_ok clock_io_def split: option.splits sum.splits prod.splits if_splits)
  then have "same_config v1 v'"
    by cases (auto simp: refresh_jwks_def run_ok same_config_def clock_io_def split: option.splits sum.splits prod.splits if_splits)
  with v1 show ?thesis by (rule same_config_trans)
qed

text \<open>What is documented of the library: the key it ends with belongs to the key set it asked for last.\<close>

primrec uses_fetched :: "(json \<Rightarrow> string \<Rightarrow> bool) \<Rightarrow> json option \<Rightarrow> key_plan \<Rightarrow> bool" where
  "uses_fetched key_in seen (UseKey key) \<longleftrightarrow> (\<exists>jwks. seen = Some jwks \<and> key_in jwks key)"
| "uses_fetched key_in seen (FailKey x) \<longleftrightarrow> True"
| "uses_fetched key_in seen (FetchKeys k) \<longleftrightarrow> (\<forall>jwks. uses_fetched key_in (Some jwks) (k jwks))"

lemma resolve_key_keys:
  assumes "resolve_key K E plan v h = (Inr (Inr key, v'), h')" "sane v" "uses_fetched key_in seen plan"
    and "\<And>jwks. seen = Some jwks \<Longrightarrow> holds_keys K h v jwks"
  shows "same_config v v' \<and> (\<exists>jwks. key_in jwks key \<and> holds_keys K h' v' jwks)"
  using assms
proof (induction plan arbitrary: v h seen)
  case (FetchKeys k)
  from FetchKeys.prems(1) obtain jwks v1 h1 where f: "fetch_jwks_data K E v h = (Inr (Inr jwks, v1), h1)"
    and r: "resolve_key K E (k jwks) v1 h1 = (Inr (Inr key, v'), h')"
    by (auto simp: run_ok split: sum.splits)
  from fetch_jwks_keys [OF f FetchKeys.prems(2)] have v1: "same_config v v1" "holds_keys K h1 v1 jwks" by auto
  from FetchKeys.IH [OF rangeI r sane_same [OF v1(1) FetchKeys.prems(2)], of "Some jwks"] v1 FetchKeys.prems(3)
  show ?case by (auto intro: same_config_trans)
qed auto

lemma resolve_key_config:
  "resolve_key K E plan v h = (Inr (r, v'), h') \<Longrightarrow> same_config v v'"
proof (induction plan arbitrary: v h)
  case (FetchKeys k)
  from FetchKeys.prems obtain q v1 h1 where f: "fetch_jwks_data K E v h = (Inr (q, v1), h1)"
    by (auto simp: run_ok)
  with FetchKeys.prems have "v' = v1 \<or> (\<exists>jwks. resolve_key K E (k jwks) v1 h1 = (Inr (r, v'), h'))"
    by (auto simp: run_ok split: sum.splits)
  with FetchKeys.IH [OF rangeI] fetch_jwks_config [OF f] show ?case by (blast intro: same_config_trans)
qed auto

text \<open>An accepted token was decoded with the configured algorithms, issuer and audience, under a key of
  a key set that was recent when it was used.\<close>

lemma get_jwks_client_config:
  assumes "get_jwks_client K E v h = (Inr (r, v'), h')"
  shows "same_config v v'"
proof (cases "ov_has_client v")
  case False
  with assms obtain d v1 h1 where d: "get_discovery K E v h = (Inr (d, v1), h1)"
    by (auto simp: get_jwks_client_def run_ok)
  with False assms have "same_config v1 v'"
    by (auto simp: get_jwks_client_def run_ok same_config_def split: sum.splits option.splits)
  with get_discovery_frame [OF d] show ?thesis by (blast intro: same_config_trans)
qed (use assms in \<open>auto simp: get_jwks_client_def\<close>)

lemma verify_accepts:
  assumes "verify K E token v h = (Inr (Inr claims, v'), h')" "sane v" "uses_fetched key_in None (ol_key_plan K token)"
  shows "same_config v v' \<and> (\<exists>key jwks. key_in jwks key \<and> holds_keys K h' v' jwks \<and>
    ol_jwt_decode K token key (ov_algorithms v) (ov_issuer v) (ov_audience v) = Inr claims)"
proof -
  from assms(1) obtain c v1 h1 where c: "get_jwks_client K E v h = (Inr (c, v1), h1)"
    by (auto simp: verify_def run_ok)
  from assms(1) c obtain key where k: "resolve_key K E (ol_key_plan K token) v1 h1 = (Inr (Inr key, v'), h')"
    and d: "ol_jwt_decode K token key (ov_algorithms v') (ov_issuer v') (ov_audience v') = Inr claims"
    by (auto simp: verify_def run_ok split: sum.splits)
  have "same_config v v1" by (rule get_jwks_client_config [OF c])
  with resolve_key_keys [OF k sane_same [OF this assms(2)] assms(3)] d show ?thesis
    by (auto simp: same_config_def)
qed

text \<open>A provider that cannot be reached at first contact surfaces as the transport error, not as an
  invalid token.\<close>

lemma verify_first_contact:
  assumes "env_http E h \<lparr>rq_method = ''GET'', rq_url = discovery_url v, rq_headers = [], rq_body = JNull\<rparr> = Inl m"
    and "ov_discovery v = None" "\<not> ov_has_client v"
  shows "\<exists>h'. verify K E token v h = (Inr (Inl (HTTPError m), v), h')"
  using assms
  by (simp add: verify_def get_jwks_client_def get_discovery_def fetch_json_def http_io_def clock_io_def try_io_def bind_io_def)

text \<open>A response that forbids caching is cached for the default time.\<close>

lemma max_age_zero_ignored: "jwks_ttl v ''max-age=0'' = ov_cache_ttl v"
proof -
  have "response_max_age ''max-age=0'' = Some 0" by code_simp
  then show ?thesis by (simp add: jwks_ttl_def)
qed

section \<open>The keys come from the provider\<close>

text \<open>The stored key set is the body of a response that was received, stamped with the time of its
  receipt and with the age its header gave it.\<close>

definition served :: "oidc_lib \<Rightarrow> event list \<Rightarrow> OidcVerifier \<Rightarrow> json \<Rightarrow> rat \<Rightarrow> rat \<Rightarrow> bool" where
  "served K h v jwks loaded ttl \<longleftrightarrow> (\<exists>h0 h1 rq r. h = h0 @ [EvHttp rq (Inr r)] @ h1 \<and> rs_json r = Some jwks \<and>
     200 \<le> rs_status r \<and> rs_status r < 300 \<and> loaded = ol_time K (h0 @ [EvHttp rq (Inr r)]) \<and> ttl = jwks_ttl v (ol_cache_control K r))"

definition keys_served :: "oidc_lib \<Rightarrow> event list \<Rightarrow> OidcVerifier \<Rightarrow> bool" where
  "keys_served K h v \<longleftrightarrow> (case ov_jwks v of None \<Rightarrow> True | Some (jwks, loaded, ttl) \<Rightarrow> served K h v jwks loaded ttl)"

lemma served_append: "served K h v j l t \<Longrightarrow> served K (h @ h') v j l t"
  by (fastforce simp: served_def)

lemma keys_served_append: "keys_served K h v \<Longrightarrow> keys_served K (h @ h') v"
  by (auto simp: keys_served_def served_append split: option.splits)

lemma jwks_ttl_same: "ov_cache_ttl v' = ov_cache_ttl v \<Longrightarrow> jwks_ttl v' = jwks_ttl v"
  by (simp add: jwks_ttl_def fun_eq_iff split: option.split)

lemma served_same: "ov_cache_ttl v' = ov_cache_ttl v \<Longrightarrow> served K h v' j l t = served K h v j l t"
  unfolding served_def by (frule jwks_ttl_same) simp

lemma served_now:
  "rs_json r = Some jwks \<Longrightarrow> 200 \<le> rs_status r \<Longrightarrow> rs_status r < 300 \<Longrightarrow>
   served K (h @ [EvHttp rq (Inr r)]) v jwks (ol_time K (h @ [EvHttp rq (Inr r)])) (jwks_ttl v (ol_cache_control K r))"
  unfolding served_def by (intro exI [of _ h] exI [of _ "[]"] exI [of _ rq] exI [of _ r]) simp

lemma keys_served_same: "same_config v v' \<Longrightarrow> ov_jwks v' = ov_jwks v \<Longrightarrow> keys_served K h v \<Longrightarrow> keys_served K h v'"
  using served_same [of v' v] by (auto simp: keys_served_def same_config_def split: option.splits)

lemma fetch_json_run: 
  assumes "fetch_json E url h = (r, h')"
  shows "\<exists>rq a. h' = h @ [EvHttp rq a] \<and> (\<forall>doc resp. r = Inr (doc, resp) \<longrightarrow> a = Inr resp \<and> rs_json resp = Some doc \<and> 200 \<le> rs_status resp \<and> rs_status resp < 300)"
  using assms
  by (auto simp: fetch_json_def http_io_def bind_io_def Let_def split: sum.splits option.splits if_splits)

lemma get_discovery_served:
  assumes "get_discovery K E v h = (Inr (r, v'), h')" "keys_served K h v"
  shows "keys_served K h' v'"
proof -
  from assms(1) have "\<exists>g. h' = h @ g"
    by (auto simp: get_discovery_def run_ok clock_io_def dest!: fetch_json_run split: option.splits sum.splits prod.splits if_splits)
  with get_discovery_frame [OF assms(1)] assms(2) show ?thesis
    by (auto intro: keys_served_append keys_served_same)
qed

lemma refresh_jwks_served:
  assumes "refresh_jwks K E uri v h = (Inr (r, v'), h')" "keys_served K h v"
  shows "keys_served K h' v'"
proof -
  from assms(1) obtain f h1 where f: "fetch_uri E uri h = (f, h1)"
    by (auto simp: refresh_jwks_def run_ok)
  then obtain g where g: "h1 = h @ g" and ok: "\<And>doc resp. f = Inr (doc, resp) \<Longrightarrow>
      served K h1 v doc (ol_time K h1) (jwks_ttl v (ol_cache_control K resp))"
    by (fastforce simp: fetch_uri_def throw_def dest!: fetch_json_run intro: served_now split: json.splits)
  from assms f have h': "h' = h1"
    by (auto simp: refresh_jwks_def run_ok clock_io_def split: option.splits sum.splits prod.splits if_splits)
  from assms(1) f consider "v' = v" | doc resp where "f = Inr (doc, resp)"
      "v' = v\<lparr>ov_jwks := Some (doc, ol_time K h1, jwks_ttl v (ol_cache_control K resp))\<rparr>"
    by (auto simp: refresh_jwks_def run_ok clock_io_def split: option.splits sum.splits prod.splits if_splits)
  then show ?thesis
  proof cases
    case 1
    with assms(2) h' g show ?thesis by (auto intro: keys_served_append)
  next
    case 2
    with ok [OF 2(1)] h' show ?thesis using served_same [of v' v] by (simp add: keys_served_def)
  qed
qed

lemma fetch_jwks_served:
  assumes "fetch_jwks_data K E v h = (Inr (r, v'), h')" "keys_served K h v"
  shows "keys_served K h' v'"
proof -
  from assms(1) obtain d v1 h1 where d: "get_discovery K E v h = (Inr (d, v1), h1)"
    by (auto simp: fetch_jwks_data_def run_ok)
  from assms(1) d consider "v' = v1" "h' = h1" | uri where "refresh_jwks K E uri v1 h1 = (Inr (r, v'), h')"
    by (auto simp: fetch_jwks_data_def run_ok clock_io_def split: option.splits sum.splits prod.splits if_splits)
  with get_discovery_served [OF d assms(2)] show ?thesis
    by cases (auto intro: refresh_jwks_served)
qed

lemma resolve_key_served:
  "resolve_key K E plan v h = (Inr (r, v'), h') \<Longrightarrow> keys_served K h v \<Longrightarrow> keys_served K h' v'"
proof (induction plan arbitrary: v h)
  case (FetchKeys k)
  from FetchKeys.prems(1) obtain q v1 h1 where f: "fetch_jwks_data K E v h = (Inr (q, v1), h1)"
    by (auto simp: run_ok)
  with FetchKeys.prems(1) have "(v' = v1 \<and> h' = h1) \<or> (\<exists>jwks. resolve_key K E (k jwks) v1 h1 = (Inr (r, v'), h'))"
    by (auto simp: run_ok split: sum.splits)
  with FetchKeys.IH [OF rangeI] fetch_jwks_served [OF f FetchKeys.prems(2)] show ?case by blast
qed auto

lemma get_jwks_client_served:
  assumes "get_jwks_client K E v h = (Inr (r, v'), h')" "keys_served K h v"
  shows "keys_served K h' v'"
proof (cases "ov_has_client v")
  case False
  with assms(1) obtain d v1 h1 where d: "get_discovery K E v h = (Inr (d, v1), h1)"
    by (auto simp: get_jwks_client_def run_ok)
  with False assms(1) have "h' = h1" "same_config v1 v'" "ov_jwks v' = ov_jwks v1"
    by (auto simp: get_jwks_client_def run_ok same_config_def split: sum.splits option.splits)
  with get_discovery_served [OF d assms(2)] show ?thesis by (blast intro: keys_served_same)
qed (use assms in \<open>auto simp: get_jwks_client_def\<close>)

lemma verify_served:
  assumes "verify K E token v h = (Inr (r, v'), h')" "keys_served K h v"
  shows "keys_served K h' v'"
proof -
  from assms(1) obtain c v1 h1 where c: "get_jwks_client K E v h = (Inr (c, v1), h1)"
    by (auto simp: verify_def run_ok)
  from assms(1) c consider "v' = v1" "h' = h1" | q where "resolve_key K E (ol_key_plan K token) v1 h1 = (Inr (q, v'), h')"
    by (auto simp: verify_def run_ok split: sum.splits)
  with get_jwks_client_served [OF c assms(2)] show ?thesis by cases (auto intro: resolve_key_served)
qed

lemma verify_config:
  assumes "verify K E token v h = (Inr (r, v'), h')"
  shows "same_config v v'"
proof -
  from assms obtain c v1 h1 where c: "get_jwks_client K E v h = (Inr (c, v1), h1)"
    by (auto simp: verify_def run_ok)
  from assms c consider "v' = v1" | q where "resolve_key K E (ol_key_plan K token) v1 h1 = (Inr (q, v'), h')"
    by (auto simp: verify_def run_ok split: sum.splits)
  then have "same_config v1 v'" by cases (auto intro: resolve_key_config)
  with get_jwks_client_config [OF c] show ?thesis by (rule same_config_trans)
qed

text \<open>The states of a verifier built from the settings, over any sequence of verifications and of other
  events of the process in between.\<close>

inductive verifier_at :: "oidc_lib \<Rightarrow> env \<Rightarrow> OidcVerifier \<Rightarrow> event list \<Rightarrow> bool" for K E where
  built: "fst (get_oidc_verifier (env_settings E) None) = v \<Longrightarrow> verifier_at K E v h"
| verified: "verifier_at K E v h \<Longrightarrow> verify K E token v h = (Inr (r, v'), h') \<Longrightarrow> verifier_at K E v' h'"
| elapsed: "verifier_at K E v h \<Longrightarrow> verifier_at K E v (h @ g)"

lemma verifier_at_inv:
  "verifier_at K E v h \<Longrightarrow> keys_served K h v \<and> same_config (fst (get_oidc_verifier (env_settings E) None)) v"
proof (induction rule: verifier_at.induct)
  case (built v h)
  then show ?case by (auto simp: get_oidc_verifier_def Let_def new_verifier_def keys_served_def)
next
  case (verified v h token r v' h')
  then show ?case by (blast intro: verify_served verify_config same_config_trans)
next
  case (elapsed v h g)
  then show ?case by (blast intro: keys_served_append)
qed

end
