(* ===== verification/PackSupport.thy ===== *)
theory PackSupport
  imports Renderers
begin

text \<open>
  What the renderers of the service packs (\<open>packs/*/sovereign_*/renderers.py\<close>) have in common: the
  parameters they read from the tags of an instance, the coercions of tag texts, the checks of a
  rendered file, and the apply and teardown methods. The locale \<open>pack_renderer\<close> states what every
  pack renderer promises its callers; the packs interpret it.
\<close>

section \<open>Parameters from tags\<close>

text \<open>\<open>_tags(instance)\<close>: the dumped tags, a dictionary of texts.\<close>

definition tags_of :: "ServiceInstance \<Rightarrow> dict" where
  "tags_of i = map (\<lambda>(k, v). (k, JStr v)) (lb_tags (si_parameters i))"

definition with_default :: "string \<Rightarrow> string \<Rightarrow> dict \<Rightarrow> dict" where
  "with_default k v extra = merge_dict [(k, jget_or extra k (JStr v))] extra"

text \<open>\<open>d[k] = int(d[k])\<close> for the keys that are present.\<close>

fun coerce_ints :: "string list \<Rightarrow> dict \<Rightarrow> exn + dict" where
  "coerce_ints [] d = Inr d"
| "coerce_ints (k # ks) d = (case map_of d k of None \<Rightarrow> coerce_ints ks d
     | Some v \<Rightarrow> (case py_int v of Inl x \<Rightarrow> Inl x | Inr n \<Rightarrow> coerce_ints ks (AList.update k (JInt n) d)))"

text \<open>\<open>d[k] = str(d[k]).lower() in {"1", "true", "yes"}\<close>\<close>

definition truth_text :: "string \<Rightarrow> bool" where
  "truth_text s \<longleftrightarrow> lower s \<in> {''1'', ''true'', ''yes''}"

fun coerce_bools :: "env \<Rightarrow> string list \<Rightarrow> dict \<Rightarrow> dict" where
  "coerce_bools E [] d = d"
| "coerce_bools E (k # ks) d = (case map_of d k of None \<Rightarrow> coerce_bools E ks d
     | Some v \<Rightarrow> coerce_bools E ks (AList.update k (JBool (truth_text (py_str E v))) d))"

text \<open>\<open>[v.strip() for v in val.split(",") if v.strip()]\<close> for a key that holds a text.\<close>

definition comma_list :: "string \<Rightarrow> json" where
  "comma_list s = jstrs (filter (\<lambda>v. v \<noteq> []) (map strip (split_on (CHR '','') s)))"

fun split_lists :: "string list \<Rightarrow> dict \<Rightarrow> dict" where
  "split_lists [] d = d"
| "split_lists (k # ks) d = (case map_of d k of Some (JStr s) \<Rightarrow> split_lists ks (AList.update k (comma_list s) d)
     | _ \<Rightarrow> split_lists ks d)"

definition dec_literal :: "string list \<Rightarrow> json \<Rightarrow> string option" where
  "dec_literal opts v = (case v of JStr s \<Rightarrow> if s \<in> set opts then Some s else None | _ \<Rightarrow> None)"

definition dec_int_in :: "env \<Rightarrow> int \<Rightarrow> int \<Rightarrow> json \<Rightarrow> int option" where
  "dec_int_in E lo hi v = (case env_pyd_int E v of Some n \<Rightarrow> if lo \<le> n \<and> n \<le> hi then Some n else None | None \<Rightarrow> None)"

definition dec_str1 :: "env \<Rightarrow> json \<Rightarrow> string option" where
  "dec_str1 E v = (case env_pyd_str E v of Some s \<Rightarrow> if s = [] then None else Some s | None \<Rightarrow> None)"

definition CLASSIFICATIONS :: "string list" where
  "CLASSIFICATIONS = [''U'', ''CUI'', ''SECRET'']"

definition validated_params :: "string \<Rightarrow> 'p option \<Rightarrow> 'p prog" where
  "validated_params cls p = (case p of None \<Rightarrow> throw (ValidationError cls) | Some x \<Rightarrow> ret x)"

definition bool_text :: "bool \<Rightarrow> string" where
  "bool_text b = (if b then ''true'' else ''false'')"

lemma map_of_tags: "map_of (tags_of i) k = map_option JStr (map_of (lb_tags (si_parameters i)) k)"
  by (simp add: tags_of_def map_of_map)

section \<open>Checks of a rendered file\<close>

definition valid_result :: ValidationResult where
  "valid_result = \<lparr>vr_ok = True, vr_errors = [], vr_warnings = []\<rparr>"

text \<open>\<open>doc.get("kind") != kind\<close>, when the renderer asks for a kind.\<close>

definition kind_check :: "string option \<Rightarrow> json \<Rightarrow> ValidationResult prog" where
  "kind_check kind doc = (case kind of None \<Rightarrow> ret valid_result
     | Some k \<Rightarrow> (case doc of
         JObj d \<Rightarrow> if jget d ''kind'' \<noteq> JStr k then ret (invalid_result (''artifact is not a '' @ k)) else ret valid_result
       | _ \<Rightarrow> throw (AttributeError ''get'')))"

definition yaml_validate :: "text_lib \<Rightarrow> string \<Rightarrow> string option \<Rightarrow> env \<Rightarrow> RenderedArtifact \<Rightarrow> ValidationResult prog" where
  "yaml_validate L file kind E a = (case map_of (ra_config_files a) file of
     None \<Rightarrow> ret (invalid_result (''missing '' @ file))
   | Some body \<Rightarrow> (case tl_yaml_load L body of Inl m \<Rightarrow> ret (invalid_result m) | Inr doc \<Rightarrow> kind_check kind doc))"

text \<open>\<open>"resource" not in doc\<close>, when the renderer asks for it.\<close>

definition resource_check :: "string option \<Rightarrow> json \<Rightarrow> ValidationResult prog" where
  "resource_check msg doc = (case msg of None \<Rightarrow> ret valid_result
     | Some m \<Rightarrow> (let answer = (\<lambda>b. ret (if b then valid_result else invalid_result m)) in
         case doc of JObj d \<Rightarrow> answer (map_of d ''resource'' \<noteq> None)
         | JList xs \<Rightarrow> answer (JStr ''resource'' \<in> set xs)
         | JStr s \<Rightarrow> answer (contains_str ''resource'' s)
         | _ \<Rightarrow> throw (TypeError ''argument is not iterable'')))"

definition json_validate :: "text_lib \<Rightarrow> string \<Rightarrow> string option \<Rightarrow> env \<Rightarrow> RenderedArtifact \<Rightarrow> ValidationResult prog" where
  "json_validate L file msg E a = (case map_of (ra_config_files a) file of
     None \<Rightarrow> ret (invalid_result (''missing '' @ file))
   | Some body \<Rightarrow> (case tl_json_loads L body of Inl m \<Rightarrow> ret (invalid_result m) | Inr doc \<Rightarrow> resource_check msg doc))"

section \<open>Steps, apply and teardown\<close>

definition k8s_step :: "string \<Rightarrow> string \<Rightarrow> string \<Rightarrow> DeploymentStep list" where
  "k8s_step namespace name file = [\<lparr>st_kind = ''k8s-apply'', st_target = namespace,
     st_payload = [(''manifest_path'', JStr (''/artifacts/'' @ name @ ''/'' @ file))]\<rparr>]"

definition terraform_step :: "string \<Rightarrow> DeploymentStep list" where
  "terraform_step name = [\<lparr>st_kind = ''terraform-apply'', st_target = name,
     st_payload = [(''module_dir'', JStr (''/artifacts/'' @ name))]\<rparr>]"

definition pack_apply :: "executors \<Rightarrow> env \<Rightarrow> RenderedArtifact \<Rightarrow> ApplyResult prog" where
  "pack_apply reg E a = apply_manifest reg E (ra_deployment_manifest a)"

definition config_apply :: "env \<Rightarrow> RenderedArtifact \<Rightarrow> ApplyResult prog" where
  "config_apply E a = ret (apply_done [])"

text \<open>Every pack's \<open>teardown\<close> returns the name of what should be removed.\<close>

definition intent_teardown :: "(string \<Rightarrow> string) \<Rightarrow> env \<Rightarrow> ServiceInstance \<Rightarrow> TeardownResult prog" where
  "intent_teardown resource E i =
     ret \<lparr>tr_ok = True, tr_removed = [resource (si_instance_id i)], tr_failed = [], tr_detail = []\<rparr>"

section \<open>Pod templates\<close>

definition hardened_pod_context :: json where
  "hardened_pod_context = JObj [(''runAsNonRoot'', JBool True),
     (''seccompProfile'', JObj [(''type'', JStr ''RuntimeDefault'')])]"

definition hardened_container_context :: json where
  "hardened_container_context = JObj [(''allowPrivilegeEscalation'', JBool False),
     (''readOnlyRootFilesystem'', JBool True), (''capabilities'', JObj [(''drop'', jstrs [''ALL''])])]"

definition app_labels :: "string \<Rightarrow> json" where
  "app_labels name = JObj [(''app'', JStr name)]"

definition pack_labels :: "string \<Rightarrow> string \<Rightarrow> string \<Rightarrow> json" where
  "pack_labels name pack classification = JObj [(''app'', JStr name), (''sovereign.pack'', JStr pack),
     (''sovereign.classification'', JStr classification)]"

definition pod_template :: "string \<Rightarrow> dict \<Rightarrow> json" where
  "pod_template name container = JObj [(''metadata'', JObj [(''labels'', app_labels name)]),
     (''spec'', JObj [(''securityContext'', hardened_pod_context), (''containers'', JList [JObj container])])]"

definition match_labels :: "string \<Rightarrow> json" where
  "match_labels name = JObj [(''matchLabels'', app_labels name)]"

text \<open>A pod specification (under \<open>spec\<close>, or under the template) is hardened: no root, no privilege
  escalation, no capabilities, read-only root file system.\<close>

definition hardened_container :: "json \<Rightarrow> bool" where
  "hardened_container c \<longleftrightarrow>
     jpath [''securityContext'', ''allowPrivilegeEscalation''] c = Some (JBool False) \<and>
     jpath [''securityContext'', ''readOnlyRootFilesystem''] c = Some (JBool True) \<and>
     jpath [''securityContext'', ''capabilities'', ''drop''] c = Some (jstrs [''ALL''])"

definition hardened_pod :: "json \<Rightarrow> bool" where
  "hardened_pod spec \<longleftrightarrow> jpath [''securityContext'', ''runAsNonRoot''] spec = Some (JBool True) \<and>
     jlist [''containers''] spec \<noteq> [] \<and> list_all hardened_container (jlist [''containers''] spec)"

definition workload_hardened :: "json \<Rightarrow> bool" where
  "workload_hardened m \<longleftrightarrow> (case jpath [''spec'', ''template'', ''spec''] m of Some spec \<Rightarrow> hardened_pod spec
     | None \<Rightarrow> (case jpath [''spec''] m of Some spec \<Rightarrow> hardened_pod spec | None \<Rightarrow> True))"

lemmas hardened_defs = workload_hardened_def hardened_pod_def hardened_container_def hardened_pod_context_def
  hardened_container_context_def pod_template_def jlist_def

section \<open>The contract of a pack renderer\<close>

locale pack_renderer =
  fixes L :: text_lib and reg :: executors and r :: renderer and resource :: "string \<Rightarrow> string"
  assumes named: "rd_service_type r \<noteq> []"
    and render_law: "rd_render r E i h = (Inr a, h') \<Longrightarrow>
      h' = h \<and> ra_instance_id a = si_instance_id i \<and> ra_service_type a = rd_service_type r \<and> ra_version a = si_version i"
    and validate_law: "text_lib_exact L \<Longrightarrow> rd_render r E i h = (Inr a, h') \<Longrightarrow>
      rd_validate r E a h' = (Inr valid_result, h')"
    and apply_law: "rd_render r E i h = (Inr a, h') \<Longrightarrow> rd_apply r E a = apply_manifest reg E (ra_deployment_manifest a)"
    and apply_files: "rd_apply r E (a\<lparr>ra_config_files := fs\<rparr>) = rd_apply r E a"
    and diff_law: "rd_diff r = base_diff reg"
    and teardown_law: "rd_teardown r = intent_teardown resource"
begin

lemma teardown_touches_nothing: "rd_teardown r E i h = (Inr tr, h') \<Longrightarrow> h' = h \<and> tr_ok tr"
  by (auto simp: teardown_law intent_teardown_def)

lemma registers: "\<exists>rs'. register_renderer r rs = Inr rs'"
  using named by (simp add: register_renderer_def)

text \<open>The rendered files reach no backend: rendering performs no call, and applying an artifact does
  the same whatever its files are.\<close>

lemma files_stay_local: "rd_render r E i h = (Inr a, h') \<Longrightarrow> h' = h \<and> (\<forall>fs. rd_apply r E (a\<lparr>ra_config_files := fs\<rparr>) = rd_apply r E a)"
  using render_law apply_files by blast

end

text \<open>Two ways to meet the contract: a YAML file that is applied, and a JSON file.\<close>

lemma emits_validated_params [emits_rules]: "emits P (validated_params cls p)"
  unfolding validated_params_def by (cases p) (auto intro: emits_rules)

lemma silentD:
  assumes "emits (\<lambda>_. False) m" "m h = (x, h')"
  shows "h' = h"
  by (rule emitsD [OF assms]) (simp add: list_all_iff)

lemma yaml_pack_renderer:
  assumes "rd_service_type r \<noteq> []"
    and render: "\<And>E i. rd_render r E i = bind_io (params E i) (\<lambda>p. new_artifact E i (rd_service_type r)
        [(file, tl_yaml_dump L (manifest p (si_instance_id i)))] (meta p) (steps p (si_instance_id i)))"
    and silent: "\<And>E i. emits (\<lambda>_. False) (params E i)"
    and kinds: "\<And>p name h. kind_check kind (manifest p name) h = (Inr valid_result, h)"
    and rest: "rd_validate r = yaml_validate L file kind" "rd_apply r = pack_apply reg" "rd_diff r = base_diff reg"
      "rd_teardown r = intent_teardown resource"
  shows "pack_renderer L reg r resource"
proof
  fix E i h a h' assume "rd_render r E i h = (Inr a, h')"
  then obtain p h1 where p: "params E i h = (Inr p, h1)" and "new_artifact E i (rd_service_type r)
        [(file, tl_yaml_dump L (manifest p (si_instance_id i)))] (meta p) (steps p (si_instance_id i)) h1 = (Inr a, h')"
    by (auto simp: render run_ok)
  with silentD [OF silent p] have a: "h' = h" "ra_instance_id a = si_instance_id i" "ra_service_type a = rd_service_type r"
      "ra_version a = si_version i" "ra_config_files a = [(file, tl_yaml_dump L (manifest p (si_instance_id i)))]"
    by (simp_all add: new_artifact_run)
  then show "h' = h \<and> ra_instance_id a = si_instance_id i \<and> ra_service_type a = rd_service_type r \<and> ra_version a = si_version i"
    by simp
  assume "text_lib_exact L"
  with a kinds show "rd_validate r E a h' = (Inr valid_result, h')"
    by (simp add: rest yaml_validate_def text_lib_exact_def)
qed (use assms in \<open>simp_all add: pack_apply_def\<close>)

lemma json_pack_renderer:
  assumes "rd_service_type r \<noteq> []"
    and render: "\<And>E i. rd_render r E i = bind_io (params E i) (\<lambda>p. new_artifact E i (rd_service_type r)
        [(file, tl_json_dumps L (JObj (config p (si_instance_id i))))] (meta p) (steps p (si_instance_id i)))"
    and silent: "\<And>E i. emits (\<lambda>_. False) (params E i)"
    and res: "\<And>p name. msg = None \<or> ''resource'' \<in> fst ` set (config p name)"
    and app: "rd_apply r = pack_apply reg \<or> rd_apply r = config_apply \<and> (\<forall>p name. steps p name = [])"
    and rest: "rd_validate r = json_validate L file msg" "rd_diff r = base_diff reg" "rd_teardown r = intent_teardown resource"
  shows "pack_renderer L reg r resource"
proof
  fix E i h a h' assume "rd_render r E i h = (Inr a, h')"
  then obtain p h1 where p: "params E i h = (Inr p, h1)" and "new_artifact E i (rd_service_type r)
        [(file, tl_json_dumps L (JObj (config p (si_instance_id i))))] (meta p) (steps p (si_instance_id i)) h1 = (Inr a, h')"
    by (auto simp: render run_ok)
  with silentD [OF silent p] have a: "h' = h" "ra_instance_id a = si_instance_id i" "ra_service_type a = rd_service_type r"
      "ra_version a = si_version i" "ra_config_files a = [(file, tl_json_dumps L (JObj (config p (si_instance_id i))))]"
      "ra_deployment_manifest a = steps p (si_instance_id i)"
    by (simp_all add: new_artifact_run)
  then show "h' = h \<and> ra_instance_id a = si_instance_id i \<and> ra_service_type a = rd_service_type r \<and> ra_version a = si_version i"
    by simp
  from a app show "rd_apply r E a = apply_manifest reg E (ra_deployment_manifest a)"
    by (auto simp: pack_apply_def config_apply_def apply_manifest_def)
  assume "text_lib_exact L"
  then obtain d' where d': "tl_json_loads L (tl_json_dumps L (JObj (config p (si_instance_id i)))) = Inr (JObj d')"
      "fst ` set d' = fst ` set (config p (si_instance_id i))" unfolding text_lib_exact_def by blast
  have "resource_check msg (JObj d') h = (Inr valid_result, h)"
    using res [of p "si_instance_id i"] d'(2)
    by (cases msg) (auto simp: resource_check_def Let_def map_of_eq_None_iff)
  with a d' show "rd_validate r E a h' = (Inr valid_result, h')"
    by (simp add: rest json_validate_def)
next
  show "rd_apply r E (a\<lparr>ra_config_files := fs\<rparr>) = rd_apply r E a" for E a fs
    using app by (auto simp: pack_apply_def config_apply_def)
qed (use assms in simp_all)

end
