(* ===== verification/WorkloadPacks.thy ===== *)
theory WorkloadPacks
  imports PackSupport
begin

text \<open>
  The renderers of the packs that deploy Kubernetes workloads: \<open>packs/ai\<close> (inference endpoint, RAG
  workspace), \<open>packs/secops\<close> (SIEM workspace, log pipeline), \<open>packs/edge\<close> (node, cluster) and
  \<open>packs/blockchain\<close> (permissioned ledger). Each interprets \<open>pack_renderer\<close>, and every workload
  manifest they render is hardened.
\<close>

section \<open>AI: inference endpoint\<close>

record InferenceEndpointParams =
  ie_model_id :: string
  ie_engine :: string
  ie_accelerator :: string
  ie_replicas :: int
  ie_max_context_tokens :: int
  ie_namespace :: string
  ie_classification :: string
  ie_data_residency :: string
  ie_pii_redaction :: bool
  ie_tls :: bool
  ie_logging_enabled :: bool

definition validate_inference :: "env \<Rightarrow> dict \<Rightarrow> InferenceEndpointParams option" where
  "validate_inference E d = do {
     model_id \<leftarrow> dec_field d ''model_id'' (dec_str1 E) None;
     engine \<leftarrow> dec_field d ''engine'' (dec_literal [''vllm'', ''tgi'']) (Some ''vllm'');
     accelerator \<leftarrow> dec_field d ''accelerator'' (dec_literal [''cpu'', ''a10'', ''a100'', ''h100'']) (Some ''a10'');
     replicas \<leftarrow> dec_field d ''replicas'' (dec_int_in E 1 64) (Some 1);
     max_context_tokens \<leftarrow> dec_field d ''max_context_tokens'' (dec_int_in E 512 1000000) (Some 8192);
     namespace \<leftarrow> dec_field d ''namespace'' (env_pyd_str E) (Some ''sovereign-ai'');
     classification \<leftarrow> dec_field d ''classification'' (dec_literal CLASSIFICATIONS) (Some ''U'');
     data_residency \<leftarrow> dec_field d ''data_residency'' (env_pyd_str E) (Some ''us-gov-west-1'');
     pii_redaction \<leftarrow> dec_field d ''pii_redaction'' (env_pyd_bool E) (Some True);
     tls \<leftarrow> dec_field d ''tls'' (env_pyd_bool E) (Some True);
     logging_enabled \<leftarrow> dec_field d ''logging_enabled'' (env_pyd_bool E) (Some True);
     Some \<lparr>ie_model_id = model_id, ie_engine = engine, ie_accelerator = accelerator, ie_replicas = replicas,
       ie_max_context_tokens = max_context_tokens, ie_namespace = namespace, ie_classification = classification,
       ie_data_residency = data_residency, ie_pii_redaction = pii_redaction, ie_tls = tls,
       ie_logging_enabled = logging_enabled\<rparr> }"

definition GPU_ACCELERATORS :: "string list" where
  "GPU_ACCELERATORS = [''a10'', ''a100'', ''h100'']"

definition is_gpu :: "string \<Rightarrow> bool" where
  "is_gpu a \<longleftrightarrow> a \<in> set GPU_ACCELERATORS"

definition k8s_deployment :: "InferenceEndpointParams \<Rightarrow> string \<Rightarrow> json" where
  "k8s_deployment p name = (let
     resources = JObj [(''requests'', JObj [(''cpu'', JStr ''1''), (''memory'', JStr ''4Gi'')]),
       (''limits'', JObj ([(''cpu'', JStr ''4''), (''memory'', JStr ''16Gi'')] @
          (if is_gpu (ie_accelerator p) then [(''nvidia.com/gpu'', JStr ''1'')] else [])))];
     container = [(''name'', JStr ''model-server''), (''image'', JStr (''sovereign/'' @ ie_engine p @ '':latest'')),
       (''args'', jstrs [''--model='' @ ie_model_id p, ''--max-model-len='' @ str_of_int (ie_max_context_tokens p)]),
       (''ports'', JList [JObj [(''containerPort'', JInt 8000)]]), (''resources'', resources),
       (''securityContext'', hardened_container_context)]
     in JObj [(''apiVersion'', JStr ''apps/v1''), (''kind'', JStr ''Deployment''),
       (''metadata'', JObj [(''name'', JStr name), (''namespace'', JStr (ie_namespace p)),
          (''labels'', pack_labels name ''ai'' (ie_classification p))]),
       (''spec'', JObj [(''replicas'', JInt (ie_replicas p)), (''selector'', match_labels name),
          (''template'', pod_template name container)])])"

definition inference_params :: "env \<Rightarrow> ServiceInstance \<Rightarrow> InferenceEndpointParams prog" where
  "inference_params E i = validated_params ''InferenceEndpointParams''
     (validate_inference E (with_default ''model_id'' (si_instance_id i) (tags_of i)))"

definition inference_render :: "text_lib \<Rightarrow> env \<Rightarrow> ServiceInstance \<Rightarrow> RenderedArtifact prog" where
  "inference_render L E i = bind_io (inference_params E i) (\<lambda>p. let name = si_instance_id i in
     new_artifact E i ''inference-endpoint'' [(''deployment.yaml'', tl_yaml_dump L (k8s_deployment p name))]
       [(''model_id'', JStr (ie_model_id p)), (''accelerator'', JStr (ie_accelerator p)),
        (''replicas'', JInt (ie_replicas p)), (''classification'', JStr (ie_classification p)),
        (''gpu'', JBool (is_gpu (ie_accelerator p)))]
       (k8s_step (ie_namespace p) name ''deployment.yaml''))"

definition InferenceEndpointRenderer :: "text_lib \<Rightarrow> executors \<Rightarrow> renderer" where
  "InferenceEndpointRenderer L reg = \<lparr>rd_service_type = ''inference-endpoint'', rd_render = inference_render L,
     rd_validate = yaml_validate L ''deployment.yaml'' (Some ''Deployment''), rd_apply = pack_apply reg,
     rd_diff = base_diff reg, rd_teardown = intent_teardown (\<lambda>iid. ''deployment/'' @ iid)\<rparr>"

section \<open>AI: RAG workspace\<close>

record RagWorkspaceParams =
  rw_name :: string
  rw_embedding_model :: string
  rw_vector_store :: string
  rw_namespace :: string
  rw_connectors :: "string list"
  rw_classification :: string
  rw_data_residency :: string
  rw_encryption_at_rest :: bool
  rw_pii_redaction :: bool

definition validate_rag :: "env \<Rightarrow> dict \<Rightarrow> RagWorkspaceParams option" where
  "validate_rag E d = do {
     name \<leftarrow> dec_field d ''name'' (dec_str1 E) None;
     embedding_model \<leftarrow> dec_field d ''embedding_model'' (env_pyd_str E) (Some ''text-embedding-3-large'');
     vector_store \<leftarrow> dec_field d ''vector_store'' (dec_literal [''pgvector'', ''qdrant'', ''milvus'']) (Some ''pgvector'');
     namespace \<leftarrow> dec_field d ''namespace'' (env_pyd_str E) (Some ''sovereign-ai'');
     connectors \<leftarrow> dec_field d ''connectors'' (dec_list (env_pyd_str E)) (Some []);
     classification \<leftarrow> dec_field d ''classification'' (dec_literal CLASSIFICATIONS) (Some ''CUI'');
     data_residency \<leftarrow> dec_field d ''data_residency'' (env_pyd_str E) (Some ''us-gov-west-1'');
     encryption_at_rest \<leftarrow> dec_field d ''encryption_at_rest'' (env_pyd_bool E) (Some True);
     pii_redaction \<leftarrow> dec_field d ''pii_redaction'' (env_pyd_bool E) (Some True);
     Some \<lparr>rw_name = name, rw_embedding_model = embedding_model, rw_vector_store = vector_store, rw_namespace = namespace,
       rw_connectors = connectors, rw_classification = classification, rw_data_residency = data_residency,
       rw_encryption_at_rest = encryption_at_rest, rw_pii_redaction = pii_redaction\<rparr> }"

definition rag_params :: "env \<Rightarrow> ServiceInstance \<Rightarrow> RagWorkspaceParams prog" where
  "rag_params E i = validated_params ''RagWorkspaceParams''
     (validate_rag E (with_default ''name'' (si_instance_id i) (tags_of i)))"

definition config_map :: "string \<Rightarrow> string \<Rightarrow> dict \<Rightarrow> json" where
  "config_map name namespace data = JObj [(''apiVersion'', JStr ''v1''), (''kind'', JStr ''ConfigMap''),
     (''metadata'', JObj [(''name'', JStr name), (''namespace'', JStr namespace)]), (''data'', JObj data)]"

definition rag_manifest :: "RagWorkspaceParams \<Rightarrow> string \<Rightarrow> json" where
  "rag_manifest p name = config_map (name @ ''-rag'') (rw_namespace p)
     [(''vector_store'', JStr (rw_vector_store p)), (''embedding_model'', JStr (rw_embedding_model p)),
      (''encryption_at_rest'', JStr (bool_text (rw_encryption_at_rest p)))]"

definition rag_render :: "text_lib \<Rightarrow> env \<Rightarrow> ServiceInstance \<Rightarrow> RenderedArtifact prog" where
  "rag_render L E i = bind_io (rag_params E i) (\<lambda>p. let name = si_instance_id i in
     new_artifact E i ''rag-workspace'' [(''rag.yaml'', tl_yaml_dump L (rag_manifest p name))]
       [(''vector_store'', JStr (rw_vector_store p)), (''classification'', JStr (rw_classification p))]
       (k8s_step (rw_namespace p) name ''rag.yaml''))"

definition RagWorkspaceRenderer :: "text_lib \<Rightarrow> executors \<Rightarrow> renderer" where
  "RagWorkspaceRenderer L reg = \<lparr>rd_service_type = ''rag-workspace'', rd_render = rag_render L,
     rd_validate = yaml_validate L ''rag.yaml'' None, rd_apply = pack_apply reg,
     rd_diff = base_diff reg, rd_teardown = intent_teardown (\<lambda>iid. ''configmap/'' @ iid @ ''-rag'')\<rparr>"

section \<open>SecOps: SIEM workspace\<close>

record SiemWorkspaceParams =
  sw_backend :: string
  sw_namespace :: string
  sw_region :: string
  sw_classification :: string
  sw_retention_days :: int
  sw_immutable_storage :: bool
  sw_encryption_at_rest :: bool
  sw_hot_nodes :: int

definition validate_siem :: "env \<Rightarrow> dict \<Rightarrow> SiemWorkspaceParams option" where
  "validate_siem E d = do {
     backend \<leftarrow> dec_field d ''backend'' (dec_literal [''elastic'', ''opensearch'', ''splunk'']) (Some ''opensearch'');
     namespace \<leftarrow> dec_field d ''namespace'' (env_pyd_str E) (Some ''sovereign-secops'');
     region \<leftarrow> dec_field d ''region'' (env_pyd_str E) (Some ''us-gov-west-1'');
     classification \<leftarrow> dec_field d ''classification'' (dec_literal CLASSIFICATIONS) (Some ''CUI'');
     retention_days \<leftarrow> dec_field d ''retention_days'' (dec_int_in E 1 3650) (Some 90);
     immutable_storage \<leftarrow> dec_field d ''immutable_storage'' (env_pyd_bool E) (Some True);
     encryption_at_rest \<leftarrow> dec_field d ''encryption_at_rest'' (env_pyd_bool E) (Some True);
     hot_nodes \<leftarrow> dec_field d ''hot_nodes'' (dec_int_in E 1 100) (Some 3);
     Some \<lparr>sw_backend = backend, sw_namespace = namespace, sw_region = region, sw_classification = classification,
       sw_retention_days = retention_days, sw_immutable_storage = immutable_storage,
       sw_encryption_at_rest = encryption_at_rest, sw_hot_nodes = hot_nodes\<rparr> }"

definition siem_statefulset :: "SiemWorkspaceParams \<Rightarrow> string \<Rightarrow> json" where
  "siem_statefulset p name = JObj [(''apiVersion'', JStr ''apps/v1''), (''kind'', JStr ''StatefulSet''),
     (''metadata'', JObj [(''name'', JStr name), (''namespace'', JStr (sw_namespace p)),
        (''labels'', pack_labels name ''secops'' (sw_classification p)),
        (''annotations'', JObj [(''sovereign.au11/retention-days'', JStr (str_of_int (sw_retention_days p))),
           (''sovereign.au9/immutable'', JStr (bool_text (sw_immutable_storage p)))])]),
     (''spec'', JObj [(''serviceName'', JStr name), (''replicas'', JInt (sw_hot_nodes p)), (''selector'', match_labels name),
        (''template'', pod_template name [(''name'', JStr ''siem''), (''image'', JStr (''sovereign/'' @ sw_backend p @ '':latest'')),
           (''ports'', JList [JObj [(''containerPort'', JInt 9200)]]), (''securityContext'', hardened_container_context)])])]"

definition siem_params :: "env \<Rightarrow> ServiceInstance \<Rightarrow> SiemWorkspaceParams prog" where
  "siem_params E i = bind_io (lift_res (coerce_ints [''retention_days'', ''hot_nodes''] (tags_of i))) (\<lambda>extra.
     validated_params ''SiemWorkspaceParams'' (validate_siem E (coerce_bools E [''immutable_storage'', ''encryption_at_rest''] extra)))"

definition siem_render :: "text_lib \<Rightarrow> env \<Rightarrow> ServiceInstance \<Rightarrow> RenderedArtifact prog" where
  "siem_render L E i = bind_io (siem_params E i) (\<lambda>p. let name = si_instance_id i in
     new_artifact E i ''siem-workspace'' [(''siem.yaml'', tl_yaml_dump L (siem_statefulset p name))]
       [(''backend'', JStr (sw_backend p)), (''retention_days'', JInt (sw_retention_days p)),
        (''immutable'', JBool (sw_immutable_storage p)), (''classification'', JStr (sw_classification p))]
       (k8s_step (sw_namespace p) name ''siem.yaml''))"

definition SiemWorkspaceRenderer :: "text_lib \<Rightarrow> executors \<Rightarrow> renderer" where
  "SiemWorkspaceRenderer L reg = \<lparr>rd_service_type = ''siem-workspace'', rd_render = siem_render L,
     rd_validate = yaml_validate L ''siem.yaml'' (Some ''StatefulSet''), rd_apply = pack_apply reg,
     rd_diff = base_diff reg, rd_teardown = intent_teardown (\<lambda>iid. ''statefulset/'' @ iid)\<rparr>"

section \<open>SecOps: log pipeline\<close>

record LogPipelineParams =
  lp_name :: string
  lp_namespace :: string
  lp_sinks :: "string list"
  lp_sources :: "string list"
  lp_classification :: string
  lp_sign_records :: bool

definition validate_pipeline :: "env \<Rightarrow> dict \<Rightarrow> LogPipelineParams option" where
  "validate_pipeline E d = do {
     name \<leftarrow> dec_field d ''name'' (dec_str1 E) None;
     namespace \<leftarrow> dec_field d ''namespace'' (env_pyd_str E) (Some ''sovereign-secops'');
     sinks \<leftarrow> dec_field d ''sinks'' (dec_list (env_pyd_str E)) (Some [''siem'']);
     sources \<leftarrow> dec_field d ''sources'' (dec_list (env_pyd_str E)) (Some []);
     classification \<leftarrow> dec_field d ''classification'' (dec_literal CLASSIFICATIONS) (Some ''CUI'');
     sign_records \<leftarrow> dec_field d ''sign_records'' (env_pyd_bool E) (Some True);
     Some \<lparr>lp_name = name, lp_namespace = namespace, lp_sinks = sinks, lp_sources = sources,
       lp_classification = classification, lp_sign_records = sign_records\<rparr> }"

definition pipeline_params :: "env \<Rightarrow> ServiceInstance \<Rightarrow> LogPipelineParams prog" where
  "pipeline_params E i = validated_params ''LogPipelineParams'' (validate_pipeline E
     (split_lists [''sources'', ''sinks''] (coerce_bools E [''sign_records''] (with_default ''name'' (si_instance_id i) (tags_of i)))))"

definition pipeline_manifest :: "LogPipelineParams \<Rightarrow> string \<Rightarrow> json" where
  "pipeline_manifest p name = config_map (name @ ''-pipeline'') (lp_namespace p)
     [(''sources'', JStr (join '','' (lp_sources p))), (''sinks'', JStr (join '','' (lp_sinks p))),
      (''sign_records'', JStr (bool_text (lp_sign_records p)))]"

definition pipeline_render :: "text_lib \<Rightarrow> env \<Rightarrow> ServiceInstance \<Rightarrow> RenderedArtifact prog" where
  "pipeline_render L E i = bind_io (pipeline_params E i) (\<lambda>p. let name = si_instance_id i in
     new_artifact E i ''log-pipeline'' [(''pipeline.yaml'', tl_yaml_dump L (pipeline_manifest p name))]
       [(''sources'', jstrs (lp_sources p)), (''classification'', JStr (lp_classification p))]
       (k8s_step (lp_namespace p) name ''pipeline.yaml''))"

definition LogPipelineRenderer :: "text_lib \<Rightarrow> executors \<Rightarrow> renderer" where
  "LogPipelineRenderer L reg = \<lparr>rd_service_type = ''log-pipeline'', rd_render = pipeline_render L,
     rd_validate = yaml_validate L ''pipeline.yaml'' None, rd_apply = pack_apply reg,
     rd_diff = base_diff reg, rd_teardown = intent_teardown (\<lambda>iid. ''configmap/'' @ iid @ ''-pipeline'')\<rparr>"

section \<open>Edge: node and cluster\<close>

record EdgeNodeParams =
  en_namespace :: string
  en_region :: string
  en_classification :: string
  en_fips_image :: bool
  en_attestation_required :: bool
  en_disk_encryption :: bool

definition validate_edge_node :: "env \<Rightarrow> dict \<Rightarrow> EdgeNodeParams option" where
  "validate_edge_node E d = do {
     namespace \<leftarrow> dec_field d ''namespace'' (env_pyd_str E) (Some ''sovereign-edge'');
     region \<leftarrow> dec_field d ''region'' (env_pyd_str E) (Some ''us-gov-west-1'');
     classification \<leftarrow> dec_field d ''classification'' (dec_literal CLASSIFICATIONS) (Some ''CUI'');
     fips_image \<leftarrow> dec_field d ''fips_image'' (env_pyd_bool E) (Some True);
     attestation_required \<leftarrow> dec_field d ''attestation_required'' (env_pyd_bool E) (Some True);
     disk_encryption \<leftarrow> dec_field d ''disk_encryption'' (env_pyd_bool E) (Some True);
     Some \<lparr>en_namespace = namespace, en_region = region, en_classification = classification, en_fips_image = fips_image,
       en_attestation_required = attestation_required, en_disk_encryption = disk_encryption\<rparr> }"

definition edge_agent :: dict where
  "edge_agent = [(''name'', JStr ''edge-agent''), (''image'', JStr ''sovereign/edge-agent:fips''),
     (''securityContext'', hardened_container_context)]"

definition edge_node_manifest :: "EdgeNodeParams \<Rightarrow> string \<Rightarrow> json" where
  "edge_node_manifest p name = JObj [(''apiVersion'', JStr ''v1''), (''kind'', JStr ''Pod''),
     (''metadata'', JObj [(''name'', JStr name), (''namespace'', JStr (en_namespace p)),
        (''labels'', pack_labels name ''edge'' (en_classification p)),
        (''annotations'', JObj [(''sovereign.si7/fips-image'', JStr (bool_text (en_fips_image p))),
           (''sovereign.si7-9/attestation'', JStr (bool_text (en_attestation_required p)))])]),
     (''spec'', JObj [(''securityContext'', hardened_pod_context), (''containers'', JList [JObj edge_agent])])]"

definition edge_node_params :: "env \<Rightarrow> ServiceInstance \<Rightarrow> EdgeNodeParams prog" where
  "edge_node_params E i = validated_params ''EdgeNodeParams''
     (validate_edge_node E (coerce_bools E [''fips_image'', ''attestation_required'', ''disk_encryption''] (tags_of i)))"

definition edge_node_render :: "text_lib \<Rightarrow> env \<Rightarrow> ServiceInstance \<Rightarrow> RenderedArtifact prog" where
  "edge_node_render L E i = bind_io (edge_node_params E i) (\<lambda>p. let name = si_instance_id i in
     new_artifact E i ''edge-node'' [(''node.yaml'', tl_yaml_dump L (edge_node_manifest p name))]
       [(''fips_image'', JBool (en_fips_image p)), (''classification'', JStr (en_classification p))]
       (k8s_step (en_namespace p) name ''node.yaml''))"

definition EdgeNodeRenderer :: "text_lib \<Rightarrow> executors \<Rightarrow> renderer" where
  "EdgeNodeRenderer L reg = \<lparr>rd_service_type = ''edge-node'', rd_render = edge_node_render L,
     rd_validate = yaml_validate L ''node.yaml'' (Some ''Pod''), rd_apply = pack_apply reg,
     rd_diff = base_diff reg, rd_teardown = intent_teardown (\<lambda>iid. ''pod/'' @ iid)\<rparr>"

record EdgeClusterParams =
  ec_namespace :: string
  ec_region :: string
  ec_classification :: string
  ec_node_count :: int
  ec_fips_image :: bool
  ec_attestation_required :: bool
  ec_offline_mode :: bool

definition validate_edge_cluster :: "env \<Rightarrow> dict \<Rightarrow> EdgeClusterParams option" where
  "validate_edge_cluster E d = do {
     namespace \<leftarrow> dec_field d ''namespace'' (env_pyd_str E) (Some ''sovereign-edge'');
     region \<leftarrow> dec_field d ''region'' (env_pyd_str E) (Some ''us-gov-west-1'');
     classification \<leftarrow> dec_field d ''classification'' (dec_literal CLASSIFICATIONS) (Some ''CUI'');
     node_count \<leftarrow> dec_field d ''node_count'' (dec_int_in E 1 50) (Some 3);
     fips_image \<leftarrow> dec_field d ''fips_image'' (env_pyd_bool E) (Some True);
     attestation_required \<leftarrow> dec_field d ''attestation_required'' (env_pyd_bool E) (Some True);
     offline_mode \<leftarrow> dec_field d ''offline_mode'' (env_pyd_bool E) (Some True);
     Some \<lparr>ec_namespace = namespace, ec_region = region, ec_classification = classification, ec_node_count = node_count,
       ec_fips_image = fips_image, ec_attestation_required = attestation_required, ec_offline_mode = offline_mode\<rparr> }"

definition edge_cluster_manifest :: "EdgeClusterParams \<Rightarrow> string \<Rightarrow> json" where
  "edge_cluster_manifest p name = JObj [(''apiVersion'', JStr ''apps/v1''), (''kind'', JStr ''DaemonSet''),
     (''metadata'', JObj [(''name'', JStr name), (''namespace'', JStr (ec_namespace p)),
        (''labels'', pack_labels name ''edge'' (ec_classification p)),
        (''annotations'', JObj [(''sovereign.si7/fips-image'', JStr (bool_text (ec_fips_image p))),
           (''sovereign.edge/offline-mode'', JStr (bool_text (ec_offline_mode p))),
           (''sovereign.edge/node-count'', JStr (str_of_int (ec_node_count p)))])]),
     (''spec'', JObj [(''selector'', match_labels name), (''template'', pod_template name edge_agent)])]"

definition edge_cluster_params :: "env \<Rightarrow> ServiceInstance \<Rightarrow> EdgeClusterParams prog" where
  "edge_cluster_params E i = bind_io (lift_res (coerce_ints [''node_count''] (tags_of i))) (\<lambda>extra.
     validated_params ''EdgeClusterParams''
       (validate_edge_cluster E (coerce_bools E [''fips_image'', ''attestation_required'', ''offline_mode''] extra)))"

definition edge_cluster_render :: "text_lib \<Rightarrow> env \<Rightarrow> ServiceInstance \<Rightarrow> RenderedArtifact prog" where
  "edge_cluster_render L E i = bind_io (edge_cluster_params E i) (\<lambda>p. let name = si_instance_id i in
     new_artifact E i ''edge-cluster'' [(''cluster.yaml'', tl_yaml_dump L (edge_cluster_manifest p name))]
       [(''node_count'', JInt (ec_node_count p)), (''offline_mode'', JBool (ec_offline_mode p))]
       (k8s_step (ec_namespace p) name ''cluster.yaml''))"

definition EdgeClusterRenderer :: "text_lib \<Rightarrow> executors \<Rightarrow> renderer" where
  "EdgeClusterRenderer L reg = \<lparr>rd_service_type = ''edge-cluster'', rd_render = edge_cluster_render L,
     rd_validate = yaml_validate L ''cluster.yaml'' (Some ''DaemonSet''), rd_apply = pack_apply reg,
     rd_diff = base_diff reg, rd_teardown = intent_teardown (\<lambda>iid. ''daemonset/'' @ iid)\<rparr>"

section \<open>Blockchain: permissioned ledger\<close>

record PermissionedLedgerParams =
  pl_platform :: string
  pl_consensus :: string
  pl_namespace :: string
  pl_region :: string
  pl_classification :: string
  pl_validator_count :: int
  pl_permissioned :: bool
  pl_validator_identity_required :: bool
  pl_hsm_key_custody :: bool
  pl_fips_crypto :: bool

definition validate_ledger :: "env \<Rightarrow> dict \<Rightarrow> PermissionedLedgerParams option" where
  "validate_ledger E d = do {
     platform \<leftarrow> dec_field d ''platform'' (dec_literal [''fabric'', ''besu'']) (Some ''fabric'');
     consensus \<leftarrow> dec_field d ''consensus'' (dec_literal [''raft'', ''ibft2'', ''qbft'']) (Some ''raft'');
     namespace \<leftarrow> dec_field d ''namespace'' (env_pyd_str E) (Some ''sovereign-ledger'');
     region \<leftarrow> dec_field d ''region'' (env_pyd_str E) (Some ''us-gov-west-1'');
     classification \<leftarrow> dec_field d ''classification'' (dec_literal CLASSIFICATIONS) (Some ''CUI'');
     validator_count \<leftarrow> dec_field d ''validator_count'' (dec_int_in E 1 100) (Some 4);
     permissioned \<leftarrow> dec_field d ''permissioned'' (env_pyd_bool E) (Some True);
     validator_identity_required \<leftarrow> dec_field d ''validator_identity_required'' (env_pyd_bool E) (Some True);
     hsm_key_custody \<leftarrow> dec_field d ''hsm_key_custody'' (env_pyd_bool E) (Some True);
     fips_crypto \<leftarrow> dec_field d ''fips_crypto'' (env_pyd_bool E) (Some True);
     Some \<lparr>pl_platform = platform, pl_consensus = consensus, pl_namespace = namespace, pl_region = region,
       pl_classification = classification, pl_validator_count = validator_count, pl_permissioned = permissioned,
       pl_validator_identity_required = validator_identity_required, pl_hsm_key_custody = hsm_key_custody,
       pl_fips_crypto = fips_crypto\<rparr> }"

definition ledger_manifest :: "PermissionedLedgerParams \<Rightarrow> string \<Rightarrow> json" where
  "ledger_manifest p name = JObj [(''apiVersion'', JStr ''apps/v1''), (''kind'', JStr ''StatefulSet''),
     (''metadata'', JObj [(''name'', JStr name), (''namespace'', JStr (pl_namespace p)),
        (''labels'', pack_labels name ''blockchain'' (pl_classification p)),
        (''annotations'', JObj [(''sovereign.ac3/permissioned'', JStr (bool_text (pl_permissioned p))),
           (''sovereign.sc12/hsm-custody'', JStr (bool_text (pl_hsm_key_custody p))),
           (''sovereign.ledger/consensus'', JStr (pl_consensus p))])]),
     (''spec'', JObj [(''serviceName'', JStr name), (''replicas'', JInt (pl_validator_count p)), (''selector'', match_labels name),
        (''template'', pod_template name [(''name'', JStr ''ledger-node''),
           (''image'', JStr (''sovereign/'' @ pl_platform p @ '':latest'')), (''securityContext'', hardened_container_context)])])]"

definition ledger_params :: "env \<Rightarrow> ServiceInstance \<Rightarrow> PermissionedLedgerParams prog" where
  "ledger_params E i = bind_io (lift_res (coerce_ints [''validator_count''] (tags_of i))) (\<lambda>extra.
     validated_params ''PermissionedLedgerParams'' (validate_ledger E
       (coerce_bools E [''permissioned'', ''validator_identity_required'', ''hsm_key_custody'', ''fips_crypto''] extra)))"

definition ledger_render :: "text_lib \<Rightarrow> env \<Rightarrow> ServiceInstance \<Rightarrow> RenderedArtifact prog" where
  "ledger_render L E i = bind_io (ledger_params E i) (\<lambda>p. let name = si_instance_id i in
     new_artifact E i ''permissioned-ledger'' [(''ledger.yaml'', tl_yaml_dump L (ledger_manifest p name))]
       [(''platform'', JStr (pl_platform p)), (''consensus'', JStr (pl_consensus p)),
        (''validator_count'', JInt (pl_validator_count p)), (''classification'', JStr (pl_classification p))]
       (k8s_step (pl_namespace p) name ''ledger.yaml''))"

definition PermissionedLedgerRenderer :: "text_lib \<Rightarrow> executors \<Rightarrow> renderer" where
  "PermissionedLedgerRenderer L reg = \<lparr>rd_service_type = ''permissioned-ledger'', rd_render = ledger_render L,
     rd_validate = yaml_validate L ''ledger.yaml'' (Some ''StatefulSet''), rd_apply = pack_apply reg,
     rd_diff = base_diff reg, rd_teardown = intent_teardown (\<lambda>iid. ''statefulset/'' @ iid)\<rparr>"

section \<open>The packs meet the contract\<close>

lemmas workload_params_defs = inference_params_def rag_params_def siem_params_def pipeline_params_def edge_node_params_def
  edge_cluster_params_def ledger_params_def

lemmas workload_manifest_defs = k8s_deployment_def rag_manifest_def siem_statefulset_def pipeline_manifest_def
  edge_node_manifest_def edge_cluster_manifest_def ledger_manifest_def config_map_def edge_agent_def

lemma workload_params_silent:
  "emits (\<lambda>_. False) (inference_params E i)" "emits (\<lambda>_. False) (rag_params E i)" "emits (\<lambda>_. False) (siem_params E i)"
  "emits (\<lambda>_. False) (pipeline_params E i)" "emits (\<lambda>_. False) (edge_node_params E i)"
  "emits (\<lambda>_. False) (edge_cluster_params E i)" "emits (\<lambda>_. False) (ledger_params E i)"
  unfolding workload_params_defs by (intro emits_rules)+

lemma workload_kinds:
  "kind_check (Some ''Deployment'') (k8s_deployment p1 n) h = (Inr valid_result, h)"
  "kind_check None (rag_manifest p2 n) h = (Inr valid_result, h)"
  "kind_check (Some ''StatefulSet'') (siem_statefulset p3 n) h = (Inr valid_result, h)"
  "kind_check None (pipeline_manifest p4 n) h = (Inr valid_result, h)"
  "kind_check (Some ''Pod'') (edge_node_manifest p5 n) h = (Inr valid_result, h)"
  "kind_check (Some ''DaemonSet'') (edge_cluster_manifest p6 n) h = (Inr valid_result, h)"
  "kind_check (Some ''StatefulSet'') (ledger_manifest p7 n) h = (Inr valid_result, h)"
  by (simp_all add: kind_check_def workload_manifest_defs Let_def jget_def)

interpretation inference_endpoint: pack_renderer L reg "InferenceEndpointRenderer L reg" "\<lambda>iid. ''deployment/'' @ iid" for L reg
  by (rule yaml_pack_renderer [where params = inference_params and manifest = k8s_deployment and kind = "Some ''Deployment''"])
     (simp_all add: InferenceEndpointRenderer_def inference_render_def Let_def workload_params_silent workload_kinds)

interpretation rag_workspace: pack_renderer L reg "RagWorkspaceRenderer L reg" "\<lambda>iid. ''configmap/'' @ iid @ ''-rag''" for L reg
  by (rule yaml_pack_renderer [where params = rag_params and manifest = rag_manifest and kind = None])
     (simp_all add: RagWorkspaceRenderer_def rag_render_def Let_def workload_params_silent workload_kinds)

interpretation siem_workspace: pack_renderer L reg "SiemWorkspaceRenderer L reg" "\<lambda>iid. ''statefulset/'' @ iid" for L reg
  by (rule yaml_pack_renderer [where params = siem_params and manifest = siem_statefulset and kind = "Some ''StatefulSet''"])
     (simp_all add: SiemWorkspaceRenderer_def siem_render_def Let_def workload_params_silent workload_kinds)

interpretation log_pipeline: pack_renderer L reg "LogPipelineRenderer L reg" "\<lambda>iid. ''configmap/'' @ iid @ ''-pipeline''" for L reg
  by (rule yaml_pack_renderer [where params = pipeline_params and manifest = pipeline_manifest and kind = None])
     (simp_all add: LogPipelineRenderer_def pipeline_render_def Let_def workload_params_silent workload_kinds)

interpretation edge_node: pack_renderer L reg "EdgeNodeRenderer L reg" "\<lambda>iid. ''pod/'' @ iid" for L reg
  by (rule yaml_pack_renderer [where params = edge_node_params and manifest = edge_node_manifest and kind = "Some ''Pod''"])
     (simp_all add: EdgeNodeRenderer_def edge_node_render_def Let_def workload_params_silent workload_kinds)

interpretation edge_cluster: pack_renderer L reg "EdgeClusterRenderer L reg" "\<lambda>iid. ''daemonset/'' @ iid" for L reg
  by (rule yaml_pack_renderer [where params = edge_cluster_params and manifest = edge_cluster_manifest and kind = "Some ''DaemonSet''"])
     (simp_all add: EdgeClusterRenderer_def edge_cluster_render_def Let_def workload_params_silent workload_kinds)

interpretation permissioned_ledger: pack_renderer L reg "PermissionedLedgerRenderer L reg" "\<lambda>iid. ''statefulset/'' @ iid" for L reg
  by (rule yaml_pack_renderer [where params = ledger_params and manifest = ledger_manifest and kind = "Some ''StatefulSet''"])
     (simp_all add: PermissionedLedgerRenderer_def ledger_render_def Let_def workload_params_silent workload_kinds)

text \<open>Every workload runs without privileges, whatever the parameters are.\<close>

lemma workloads_hardened:
  "workload_hardened (k8s_deployment p1 n)" "workload_hardened (rag_manifest p2 n)" "workload_hardened (siem_statefulset p3 n)"
  "workload_hardened (pipeline_manifest p4 n)" "workload_hardened (edge_node_manifest p5 n)"
  "workload_hardened (edge_cluster_manifest p6 n)" "workload_hardened (ledger_manifest p7 n)"
  by (simp_all add: workload_manifest_defs hardened_defs Let_def)

end
