(* ===== verification/ConfigPacks.thy ===== *)
theory ConfigPacks
  imports PackSupport
begin

text \<open>
  The renderers of the packs that render JSON: \<open>packs/data\<close> (managed database, vector database) and
  \<open>packs/multicloud\<close> (cloud account, landing zone) as Terraform modules, \<open>packs/identity\<close> (IdP broker,
  SCIM bridge) and \<open>packs/comms\<close> (email, chat) as configuration without a deployment. Each
  interprets \<open>pack_renderer\<close>.
\<close>

definition terraform_doc :: "string \<Rightarrow> string \<Rightarrow> dict \<Rightarrow> dict" where
  "terraform_doc rtype name body = [(''resource'', JObj [(rtype, JObj [(name, JObj body)])])]"

section \<open>Data: managed database\<close>

record ManagedDatabaseParams =
  mb_engine :: string
  mb_version :: string
  mb_storage_gb :: int
  mb_instance_class :: string
  mb_multi_az :: bool
  mb_namespace :: string
  mb_region :: string
  mb_classification :: string
  mb_encryption_at_rest :: bool
  mb_backup_retention_days :: int
  mb_deletion_protection :: bool

definition validate_database :: "env \<Rightarrow> dict \<Rightarrow> ManagedDatabaseParams option" where
  "validate_database E d = do {
     engine \<leftarrow> dec_field d ''engine'' (dec_literal [''postgres'', ''mysql'']) (Some ''postgres'');
     version \<leftarrow> dec_field d ''version'' (env_pyd_str E) (Some ''16'');
     storage_gb \<leftarrow> dec_field d ''storage_gb'' (dec_int_in E 10 65536) (Some 20);
     instance_class \<leftarrow> dec_field d ''instance_class'' (env_pyd_str E) (Some ''db.t3.medium'');
     multi_az \<leftarrow> dec_field d ''multi_az'' (env_pyd_bool E) (Some False);
     namespace \<leftarrow> dec_field d ''namespace'' (env_pyd_str E) (Some ''sovereign-data'');
     region \<leftarrow> dec_field d ''region'' (env_pyd_str E) (Some ''us-gov-west-1'');
     classification \<leftarrow> dec_field d ''classification'' (dec_literal CLASSIFICATIONS) (Some ''CUI'');
     encryption_at_rest \<leftarrow> dec_field d ''encryption_at_rest'' (env_pyd_bool E) (Some True);
     backup_retention_days \<leftarrow> dec_field d ''backup_retention_days'' (dec_int_in E 0 35) (Some 7);
     deletion_protection \<leftarrow> dec_field d ''deletion_protection'' (env_pyd_bool E) (Some True);
     Some \<lparr>mb_engine = engine, mb_version = version, mb_storage_gb = storage_gb, mb_instance_class = instance_class,
       mb_multi_az = multi_az, mb_namespace = namespace, mb_region = region, mb_classification = classification,
       mb_encryption_at_rest = encryption_at_rest, mb_backup_retention_days = backup_retention_days,
       mb_deletion_protection = deletion_protection\<rparr> }"

definition tf_database :: "ManagedDatabaseParams \<Rightarrow> string \<Rightarrow> dict" where
  "tf_database p name = terraform_doc ''aws_db_instance'' name
     [(''identifier'', JStr name), (''engine'', JStr (mb_engine p)), (''engine_version'', JStr (mb_version p)),
      (''allocated_storage'', JInt (mb_storage_gb p)), (''instance_class'', JStr (mb_instance_class p)),
      (''multi_az'', JBool (mb_multi_az p)), (''storage_encrypted'', JBool (mb_encryption_at_rest p)),
      (''backup_retention_period'', JInt (mb_backup_retention_days p)), (''deletion_protection'', JBool (mb_deletion_protection p)),
      (''region'', JStr (mb_region p)),
      (''tags'', JObj [(''sovereign.pack'', JStr ''data''), (''sovereign.classification'', JStr (mb_classification p))])]"

definition database_params :: "env \<Rightarrow> ServiceInstance \<Rightarrow> ManagedDatabaseParams prog" where
  "database_params E i = bind_io (lift_res (coerce_ints [''storage_gb'', ''backup_retention_days''] (tags_of i))) (\<lambda>coerced.
     validated_params ''ManagedDatabaseParams''
       (validate_database E (coerce_bools E [''multi_az'', ''encryption_at_rest'', ''deletion_protection''] coerced)))"

definition database_render :: "text_lib \<Rightarrow> env \<Rightarrow> ServiceInstance \<Rightarrow> RenderedArtifact prog" where
  "database_render L E i = bind_io (database_params E i) (\<lambda>p. let name = si_instance_id i in
     new_artifact E i ''managed-database'' [(''main.tf.json'', tl_json_dumps L (JObj (tf_database p name)))]
       [(''engine'', JStr (mb_engine p)), (''classification'', JStr (mb_classification p)),
        (''encryption_at_rest'', JBool (mb_encryption_at_rest p))] (terraform_step name))"

definition ManagedDatabaseRenderer :: "text_lib \<Rightarrow> executors \<Rightarrow> renderer" where
  "ManagedDatabaseRenderer L reg = \<lparr>rd_service_type = ''managed-database'', rd_render = database_render L,
     rd_validate = json_validate L ''main.tf.json'' (Some ''terraform config has no resource block''), rd_apply = pack_apply reg,
     rd_diff = base_diff reg, rd_teardown = intent_teardown (\<lambda>iid. ''aws_db_instance.'' @ iid)\<rparr>"

section \<open>Data: vector database\<close>

record VectorDbParams =
  vd_store :: string
  vd_storage_gb :: int
  vd_namespace :: string
  vd_region :: string
  vd_classification :: string
  vd_encryption_at_rest :: bool

definition validate_vector_db :: "env \<Rightarrow> dict \<Rightarrow> VectorDbParams option" where
  "validate_vector_db E d = do {
     store \<leftarrow> dec_field d ''store'' (dec_literal [''pgvector'', ''qdrant'', ''milvus'']) (Some ''pgvector'');
     storage_gb \<leftarrow> dec_field d ''storage_gb'' (dec_int_in E 10 65536) (Some 20);
     namespace \<leftarrow> dec_field d ''namespace'' (env_pyd_str E) (Some ''sovereign-data'');
     region \<leftarrow> dec_field d ''region'' (env_pyd_str E) (Some ''us-gov-west-1'');
     classification \<leftarrow> dec_field d ''classification'' (dec_literal CLASSIFICATIONS) (Some ''CUI'');
     encryption_at_rest \<leftarrow> dec_field d ''encryption_at_rest'' (env_pyd_bool E) (Some True);
     Some \<lparr>vd_store = store, vd_storage_gb = storage_gb, vd_namespace = namespace, vd_region = region,
       vd_classification = classification, vd_encryption_at_rest = encryption_at_rest\<rparr> }"

definition vector_db_params :: "env \<Rightarrow> ServiceInstance \<Rightarrow> VectorDbParams prog" where
  "vector_db_params E i = bind_io (lift_res (coerce_ints [''storage_gb''] (tags_of i))) (\<lambda>coerced.
     validated_params ''VectorDbParams'' (validate_vector_db E (coerce_bools E [''encryption_at_rest''] coerced)))"

definition tf_vector_db :: "VectorDbParams \<Rightarrow> string \<Rightarrow> dict" where
  "tf_vector_db p name = terraform_doc ''sovereign_vector_store'' name
     [(''store'', JStr (vd_store p)), (''allocated_storage'', JInt (vd_storage_gb p)),
      (''storage_encrypted'', JBool (vd_encryption_at_rest p)), (''region'', JStr (vd_region p))]"

definition vector_db_render :: "text_lib \<Rightarrow> env \<Rightarrow> ServiceInstance \<Rightarrow> RenderedArtifact prog" where
  "vector_db_render L E i = bind_io (vector_db_params E i) (\<lambda>p. let name = si_instance_id i in
     new_artifact E i ''vector-db'' [(''main.tf.json'', tl_json_dumps L (JObj (tf_vector_db p name)))]
       [(''store'', JStr (vd_store p)), (''classification'', JStr (vd_classification p))] (terraform_step name))"

definition VectorDbRenderer :: "text_lib \<Rightarrow> executors \<Rightarrow> renderer" where
  "VectorDbRenderer L reg = \<lparr>rd_service_type = ''vector-db'', rd_render = vector_db_render L,
     rd_validate = json_validate L ''main.tf.json'' None, rd_apply = pack_apply reg,
     rd_diff = base_diff reg, rd_teardown = intent_teardown (\<lambda>iid. ''sovereign_vector_store.'' @ iid)\<rparr>"

section \<open>Multi-cloud: cloud account and landing zone\<close>

definition CLOUD_PROVIDERS :: "string list" where
  "CLOUD_PROVIDERS = [''aws-govcloud'', ''azure-gov'', ''gcp'']"

definition APPROVED_REGIONS :: "(string \<times> string list) list" where
  "APPROVED_REGIONS = [(''aws-govcloud'', [''us-gov-west-1'', ''us-gov-east-1'']),
     (''azure-gov'', [''usgovvirginia'', ''usgovarizona'']), (''gcp'', [''us-central1'', ''us-east4''])]"

definition region_is_approved :: "string \<Rightarrow> string \<Rightarrow> bool" where
  "region_is_approved provider region = (case map_of APPROVED_REGIONS provider of None \<Rightarrow> False | Some rs \<Rightarrow> region \<in> set rs)"

record CloudAccountParams =
  ca_provider :: string
  ca_region :: string
  ca_classification :: string
  ca_guardrails_enabled :: bool
  ca_org_audit_enabled :: bool

definition validate_cloud_account :: "env \<Rightarrow> dict \<Rightarrow> CloudAccountParams option" where
  "validate_cloud_account E d = do {
     provider \<leftarrow> dec_field d ''provider'' (dec_literal CLOUD_PROVIDERS) (Some ''aws-govcloud'');
     region \<leftarrow> dec_field d ''region'' (env_pyd_str E) (Some ''us-gov-west-1'');
     classification \<leftarrow> dec_field d ''classification'' (dec_literal CLASSIFICATIONS) (Some ''CUI'');
     guardrails_enabled \<leftarrow> dec_field d ''guardrails_enabled'' (env_pyd_bool E) (Some True);
     org_audit_enabled \<leftarrow> dec_field d ''org_audit_enabled'' (env_pyd_bool E) (Some True);
     Some \<lparr>ca_provider = provider, ca_region = region, ca_classification = classification,
       ca_guardrails_enabled = guardrails_enabled, ca_org_audit_enabled = org_audit_enabled\<rparr> }"

definition cloud_account_params :: "env \<Rightarrow> ServiceInstance \<Rightarrow> CloudAccountParams prog" where
  "cloud_account_params E i = validated_params ''CloudAccountParams''
     (validate_cloud_account E (coerce_bools E [''guardrails_enabled'', ''org_audit_enabled''] (tags_of i)))"

definition tf_cloud_account :: "CloudAccountParams \<Rightarrow> string \<Rightarrow> dict" where
  "tf_cloud_account p name = terraform_doc ''sovereign_cloud_account'' name
     [(''provider'', JStr (ca_provider p)), (''region'', JStr (ca_region p)),
      (''guardrails_enabled'', JBool (ca_guardrails_enabled p)), (''org_audit_enabled'', JBool (ca_org_audit_enabled p)),
      (''tags'', JObj [(''sovereign.pack'', JStr ''multicloud''), (''sovereign.classification'', JStr (ca_classification p))])]"

definition cloud_account_render :: "text_lib \<Rightarrow> env \<Rightarrow> ServiceInstance \<Rightarrow> RenderedArtifact prog" where
  "cloud_account_render L E i = bind_io (cloud_account_params E i) (\<lambda>p. let name = si_instance_id i in
     new_artifact E i ''cloud-account'' [(''main.tf.json'', tl_json_dumps L (JObj (tf_cloud_account p name)))]
       [(''provider'', JStr (ca_provider p)), (''region'', JStr (ca_region p)), (''classification'', JStr (ca_classification p))]
       (terraform_step name))"

definition CloudAccountRenderer :: "text_lib \<Rightarrow> executors \<Rightarrow> renderer" where
  "CloudAccountRenderer L reg = \<lparr>rd_service_type = ''cloud-account'', rd_render = cloud_account_render L,
     rd_validate = json_validate L ''main.tf.json'' (Some ''no resource block''), rd_apply = pack_apply reg,
     rd_diff = base_diff reg, rd_teardown = intent_teardown (\<lambda>iid. ''sovereign_cloud_account.'' @ iid)\<rparr>"

record LandingZoneParams =
  lz_provider :: string
  lz_region :: string
  lz_classification :: string
  lz_account_count :: int
  lz_network_boundary :: bool

definition validate_landing_zone :: "env \<Rightarrow> dict \<Rightarrow> LandingZoneParams option" where
  "validate_landing_zone E d = do {
     provider \<leftarrow> dec_field d ''provider'' (dec_literal CLOUD_PROVIDERS) (Some ''aws-govcloud'');
     region \<leftarrow> dec_field d ''region'' (env_pyd_str E) (Some ''us-gov-west-1'');
     classification \<leftarrow> dec_field d ''classification'' (dec_literal CLASSIFICATIONS) (Some ''CUI'');
     account_count \<leftarrow> dec_field d ''account_count'' (dec_int_in E 1 100) (Some 3);
     network_boundary \<leftarrow> dec_field d ''network_boundary'' (env_pyd_bool E) (Some True);
     Some \<lparr>lz_provider = provider, lz_region = region, lz_classification = classification,
       lz_account_count = account_count, lz_network_boundary = network_boundary\<rparr> }"

definition landing_zone_params :: "env \<Rightarrow> ServiceInstance \<Rightarrow> LandingZoneParams prog" where
  "landing_zone_params E i = bind_io (lift_res (coerce_ints [''account_count''] (tags_of i))) (\<lambda>extra.
     validated_params ''LandingZoneParams'' (validate_landing_zone E (coerce_bools E [''network_boundary''] extra)))"

definition tf_landing_zone :: "LandingZoneParams \<Rightarrow> string \<Rightarrow> dict" where
  "tf_landing_zone p name = terraform_doc ''sovereign_landing_zone'' name
     [(''provider'', JStr (lz_provider p)), (''region'', JStr (lz_region p)),
      (''account_count'', JInt (lz_account_count p)), (''network_boundary'', JBool (lz_network_boundary p))]"

definition landing_zone_render :: "text_lib \<Rightarrow> env \<Rightarrow> ServiceInstance \<Rightarrow> RenderedArtifact prog" where
  "landing_zone_render L E i = bind_io (landing_zone_params E i) (\<lambda>p. let name = si_instance_id i in
     new_artifact E i ''landing-zone'' [(''main.tf.json'', tl_json_dumps L (JObj (tf_landing_zone p name)))]
       [(''provider'', JStr (lz_provider p)), (''account_count'', JInt (lz_account_count p))] (terraform_step name))"

definition LandingZoneRenderer :: "text_lib \<Rightarrow> executors \<Rightarrow> renderer" where
  "LandingZoneRenderer L reg = \<lparr>rd_service_type = ''landing-zone'', rd_render = landing_zone_render L,
     rd_validate = json_validate L ''main.tf.json'' None, rd_apply = pack_apply reg,
     rd_diff = base_diff reg, rd_teardown = intent_teardown (\<lambda>iid. ''sovereign_landing_zone.'' @ iid)\<rparr>"

section \<open>Identity: IdP broker and SCIM bridge\<close>

record IdpBrokerParams =
  ib_issuer_url :: string
  ib_protocol :: string
  ib_audience :: string
  ib_required_aal :: string
  ib_require_mfa :: bool
  ib_allow_piv_cac :: bool
  ib_max_token_minutes :: int

definition validate_idp_broker :: "env \<Rightarrow> dict \<Rightarrow> IdpBrokerParams option" where
  "validate_idp_broker E d = do {
     issuer_url \<leftarrow> dec_field d ''issuer_url'' (dec_str1 E) None;
     protocol \<leftarrow> dec_field d ''protocol'' (dec_literal [''oidc'', ''saml'']) (Some ''oidc'');
     audience \<leftarrow> dec_field d ''audience'' (env_pyd_str E) (Some []);
     required_aal \<leftarrow> dec_field d ''required_aal'' (dec_literal [''aal1'', ''aal2'', ''aal3'']) (Some ''aal2'');
     require_mfa \<leftarrow> dec_field d ''require_mfa'' (env_pyd_bool E) (Some True);
     allow_piv_cac \<leftarrow> dec_field d ''allow_piv_cac'' (env_pyd_bool E) (Some True);
     max_token_minutes \<leftarrow> dec_field d ''max_token_minutes'' (dec_int_in E 1 1440) (Some 60);
     Some \<lparr>ib_issuer_url = issuer_url, ib_protocol = protocol, ib_audience = audience, ib_required_aal = required_aal,
       ib_require_mfa = require_mfa, ib_allow_piv_cac = allow_piv_cac, ib_max_token_minutes = max_token_minutes\<rparr> }"

definition idp_broker_params :: "env \<Rightarrow> ServiceInstance \<Rightarrow> IdpBrokerParams prog" where
  "idp_broker_params E i = bind_io (lift_res (coerce_ints [''max_token_minutes'']
       (with_default ''issuer_url'' (''https://idp/'' @ si_instance_id i) (tags_of i)))) (\<lambda>merged.
     validated_params ''IdpBrokerParams'' (validate_idp_broker E (coerce_bools E [''require_mfa'', ''allow_piv_cac''] merged)))"

definition idp_config :: "IdpBrokerParams \<Rightarrow> string \<Rightarrow> dict" where
  "idp_config p _ = [(''issuer_url'', JStr (ib_issuer_url p)), (''protocol'', JStr (ib_protocol p)),
     (''required_aal'', JStr (ib_required_aal p)), (''require_mfa'', JBool (ib_require_mfa p)),
     (''allow_piv_cac'', JBool (ib_allow_piv_cac p)), (''max_token_minutes'', JInt (ib_max_token_minutes p))]"

definition idp_broker_render :: "text_lib \<Rightarrow> env \<Rightarrow> ServiceInstance \<Rightarrow> RenderedArtifact prog" where
  "idp_broker_render L E i = bind_io (idp_broker_params E i) (\<lambda>p.
     new_artifact E i ''idp-broker'' [(''idp.json'', tl_json_dumps L (JObj (idp_config p (si_instance_id i))))]
       [(''protocol'', JStr (ib_protocol p)), (''required_aal'', JStr (ib_required_aal p))] [])"

definition IdpBrokerRenderer :: "text_lib \<Rightarrow> executors \<Rightarrow> renderer" where
  "IdpBrokerRenderer L reg = \<lparr>rd_service_type = ''idp-broker'', rd_render = idp_broker_render L,
     rd_validate = json_validate L ''idp.json'' None, rd_apply = config_apply,
     rd_diff = base_diff reg, rd_teardown = intent_teardown (\<lambda>iid. ''idp-broker/'' @ iid)\<rparr>"

record ScimBridgeParams =
  sb_endpoint_url :: string
  sb_sync_interval_minutes :: int
  sb_deprovision_on_remove :: bool

definition validate_scim :: "env \<Rightarrow> dict \<Rightarrow> ScimBridgeParams option" where
  "validate_scim E d = do {
     endpoint_url \<leftarrow> dec_field d ''endpoint_url'' (dec_str1 E) None;
     sync_interval_minutes \<leftarrow> dec_field d ''sync_interval_minutes'' (dec_int_in E 1 1440) (Some 15);
     deprovision_on_remove \<leftarrow> dec_field d ''deprovision_on_remove'' (env_pyd_bool E) (Some True);
     Some \<lparr>sb_endpoint_url = endpoint_url, sb_sync_interval_minutes = sync_interval_minutes,
       sb_deprovision_on_remove = deprovision_on_remove\<rparr> }"

definition scim_params :: "env \<Rightarrow> ServiceInstance \<Rightarrow> ScimBridgeParams prog" where
  "scim_params E i = bind_io (lift_res (coerce_ints [''sync_interval_minutes'']
       (with_default ''endpoint_url'' (''https://scim/'' @ si_instance_id i) (tags_of i)))) (\<lambda>merged.
     validated_params ''ScimBridgeParams'' (validate_scim E (coerce_bools E [''deprovision_on_remove''] merged)))"

definition scim_config :: "ScimBridgeParams \<Rightarrow> string \<Rightarrow> dict" where
  "scim_config p _ = [(''endpoint_url'', JStr (sb_endpoint_url p)),
     (''sync_interval_minutes'', JInt (sb_sync_interval_minutes p)),
     (''deprovision_on_remove'', JBool (sb_deprovision_on_remove p))]"

definition scim_render :: "text_lib \<Rightarrow> env \<Rightarrow> ServiceInstance \<Rightarrow> RenderedArtifact prog" where
  "scim_render L E i = bind_io (scim_params E i) (\<lambda>p.
     new_artifact E i ''scim-bridge'' [(''scim.json'', tl_json_dumps L (JObj (scim_config p (si_instance_id i))))]
       [(''sync_interval_minutes'', JInt (sb_sync_interval_minutes p))] [])"

definition ScimBridgeRenderer :: "text_lib \<Rightarrow> executors \<Rightarrow> renderer" where
  "ScimBridgeRenderer L reg = \<lparr>rd_service_type = ''scim-bridge'', rd_render = scim_render L,
     rd_validate = json_validate L ''scim.json'' None, rd_apply = config_apply,
     rd_diff = base_diff reg, rd_teardown = intent_teardown (\<lambda>iid. ''scim-bridge/'' @ iid)\<rparr>"

section \<open>Comms: email and chat\<close>

definition FIPS_TLS_SUITES :: "string list" where
  "FIPS_TLS_SUITES = [''TLS_AES_256_GCM_SHA384'', ''TLS_AES_128_GCM_SHA256'',
     ''TLS_ECDHE_RSA_WITH_AES_256_GCM_SHA384'', ''TLS_ECDHE_ECDSA_WITH_AES_256_GCM_SHA384'']"

definition is_fips_suite :: "string \<Rightarrow> bool" where
  "is_fips_suite s \<longleftrightarrow> s \<in> set FIPS_TLS_SUITES"

record SecureEmailParams =
  se_provider :: string
  se_classification :: string
  se_tls_required :: bool
  se_cipher_suite :: string
  se_retention_days :: int
  se_dlp_enabled :: bool

definition validate_email :: "env \<Rightarrow> dict \<Rightarrow> SecureEmailParams option" where
  "validate_email E d = do {
     provider \<leftarrow> dec_field d ''provider'' (env_pyd_str E) (Some ''m365-gcc-high'');
     classification \<leftarrow> dec_field d ''classification'' (dec_literal CLASSIFICATIONS) (Some ''CUI'');
     tls_required \<leftarrow> dec_field d ''tls_required'' (env_pyd_bool E) (Some True);
     cipher_suite \<leftarrow> dec_field d ''cipher_suite'' (env_pyd_str E) (Some ''TLS_AES_256_GCM_SHA384'');
     retention_days \<leftarrow> dec_field d ''retention_days'' (dec_int_in E 1 36500) (Some 2555);
     dlp_enabled \<leftarrow> dec_field d ''dlp_enabled'' (env_pyd_bool E) (Some True);
     Some \<lparr>se_provider = provider, se_classification = classification, se_tls_required = tls_required,
       se_cipher_suite = cipher_suite, se_retention_days = retention_days, se_dlp_enabled = dlp_enabled\<rparr> }"

definition email_params :: "env \<Rightarrow> ServiceInstance \<Rightarrow> SecureEmailParams prog" where
  "email_params E i = bind_io (lift_res (coerce_ints [''retention_days''] (tags_of i))) (\<lambda>extra.
     validated_params ''SecureEmailParams'' (validate_email E (coerce_bools E [''tls_required'', ''dlp_enabled''] extra)))"

definition dump_email :: "SecureEmailParams \<Rightarrow> string \<Rightarrow> dict" where
  "dump_email p _ = [(''provider'', JStr (se_provider p)), (''classification'', JStr (se_classification p)),
     (''tls_required'', JBool (se_tls_required p)), (''cipher_suite'', JStr (se_cipher_suite p)),
     (''retention_days'', JInt (se_retention_days p)), (''dlp_enabled'', JBool (se_dlp_enabled p))]"

definition email_render :: "text_lib \<Rightarrow> env \<Rightarrow> ServiceInstance \<Rightarrow> RenderedArtifact prog" where
  "email_render L E i = bind_io (email_params E i) (\<lambda>p.
     new_artifact E i ''secure-email'' [(''email.json'', tl_json_dumps L (JObj (dump_email p (si_instance_id i))))]
       [(''provider'', JStr (se_provider p)), (''classification'', JStr (se_classification p))] [])"

definition SecureEmailRenderer :: "text_lib \<Rightarrow> executors \<Rightarrow> renderer" where
  "SecureEmailRenderer L reg = \<lparr>rd_service_type = ''secure-email'', rd_render = email_render L,
     rd_validate = json_validate L ''email.json'' None, rd_apply = config_apply,
     rd_diff = base_diff reg, rd_teardown = intent_teardown (\<lambda>iid. ''secure-email/'' @ iid)\<rparr>"

record SecureChatParams =
  ch_provider :: string
  ch_classification :: string
  ch_tls_required :: bool
  ch_cipher_suite :: string
  ch_retention_days :: int
  ch_external_federation :: bool

definition validate_chat :: "env \<Rightarrow> dict \<Rightarrow> SecureChatParams option" where
  "validate_chat E d = do {
     provider \<leftarrow> dec_field d ''provider'' (env_pyd_str E) (Some ''teams-gcc-high'');
     classification \<leftarrow> dec_field d ''classification'' (dec_literal CLASSIFICATIONS) (Some ''CUI'');
     tls_required \<leftarrow> dec_field d ''tls_required'' (env_pyd_bool E) (Some True);
     cipher_suite \<leftarrow> dec_field d ''cipher_suite'' (env_pyd_str E) (Some ''TLS_AES_256_GCM_SHA384'');
     retention_days \<leftarrow> dec_field d ''retention_days'' (dec_int_in E 1 36500) (Some 365);
     external_federation \<leftarrow> dec_field d ''external_federation'' (env_pyd_bool E) (Some False);
     Some \<lparr>ch_provider = provider, ch_classification = classification, ch_tls_required = tls_required,
       ch_cipher_suite = cipher_suite, ch_retention_days = retention_days, ch_external_federation = external_federation\<rparr> }"

definition chat_params :: "env \<Rightarrow> ServiceInstance \<Rightarrow> SecureChatParams prog" where
  "chat_params E i = bind_io (lift_res (coerce_ints [''retention_days''] (tags_of i))) (\<lambda>extra.
     validated_params ''SecureChatParams'' (validate_chat E (coerce_bools E [''tls_required'', ''external_federation''] extra)))"

definition dump_chat :: "SecureChatParams \<Rightarrow> string \<Rightarrow> dict" where
  "dump_chat p _ = [(''provider'', JStr (ch_provider p)), (''classification'', JStr (ch_classification p)),
     (''tls_required'', JBool (ch_tls_required p)), (''cipher_suite'', JStr (ch_cipher_suite p)),
     (''retention_days'', JInt (ch_retention_days p)), (''external_federation'', JBool (ch_external_federation p))]"

definition chat_render :: "text_lib \<Rightarrow> env \<Rightarrow> ServiceInstance \<Rightarrow> RenderedArtifact prog" where
  "chat_render L E i = bind_io (chat_params E i) (\<lambda>p.
     new_artifact E i ''secure-chat'' [(''chat.json'', tl_json_dumps L (JObj (dump_chat p (si_instance_id i))))]
       [(''provider'', JStr (ch_provider p)), (''classification'', JStr (ch_classification p))] [])"

definition SecureChatRenderer :: "text_lib \<Rightarrow> executors \<Rightarrow> renderer" where
  "SecureChatRenderer L reg = \<lparr>rd_service_type = ''secure-chat'', rd_render = chat_render L,
     rd_validate = json_validate L ''chat.json'' None, rd_apply = config_apply,
     rd_diff = base_diff reg, rd_teardown = intent_teardown (\<lambda>iid. ''secure-chat/'' @ iid)\<rparr>"

section \<open>The packs meet the contract\<close>

lemmas config_params_defs = database_params_def vector_db_params_def cloud_account_params_def landing_zone_params_def
  idp_broker_params_def scim_params_def email_params_def chat_params_def

lemma config_params_silent:
  "emits (\<lambda>_. False) (database_params E i)" "emits (\<lambda>_. False) (vector_db_params E i)"
  "emits (\<lambda>_. False) (cloud_account_params E i)" "emits (\<lambda>_. False) (landing_zone_params E i)"
  "emits (\<lambda>_. False) (idp_broker_params E i)" "emits (\<lambda>_. False) (scim_params E i)"
  "emits (\<lambda>_. False) (email_params E i)" "emits (\<lambda>_. False) (chat_params E i)"
  unfolding config_params_defs by (intro emits_rules)+

lemma terraform_doc_resource: "''resource'' \<in> fst ` set (terraform_doc t n b)"
  by (simp add: terraform_doc_def)

interpretation managed_database: pack_renderer L reg "ManagedDatabaseRenderer L reg" "\<lambda>iid. ''aws_db_instance.'' @ iid" for L reg
  by (rule json_pack_renderer [where params = database_params and config = tf_database and
        steps = "\<lambda>_. terraform_step" and msg = "Some ''terraform config has no resource block''"])
     (simp_all add: ManagedDatabaseRenderer_def database_render_def Let_def config_params_silent tf_database_def terraform_doc_resource)

interpretation vector_db: pack_renderer L reg "VectorDbRenderer L reg" "\<lambda>iid. ''sovereign_vector_store.'' @ iid" for L reg
  by (rule json_pack_renderer [where params = vector_db_params and config = tf_vector_db and
        steps = "\<lambda>_. terraform_step" and msg = None])
     (simp_all add: VectorDbRenderer_def vector_db_render_def Let_def config_params_silent)

interpretation cloud_account: pack_renderer L reg "CloudAccountRenderer L reg" "\<lambda>iid. ''sovereign_cloud_account.'' @ iid" for L reg
  by (rule json_pack_renderer [where params = cloud_account_params and config = tf_cloud_account and
        steps = "\<lambda>_. terraform_step" and msg = "Some ''no resource block''"])
     (simp_all add: CloudAccountRenderer_def cloud_account_render_def Let_def config_params_silent tf_cloud_account_def terraform_doc_resource)

interpretation landing_zone: pack_renderer L reg "LandingZoneRenderer L reg" "\<lambda>iid. ''sovereign_landing_zone.'' @ iid" for L reg
  by (rule json_pack_renderer [where params = landing_zone_params and config = tf_landing_zone and
        steps = "\<lambda>_. terraform_step" and msg = None])
     (simp_all add: LandingZoneRenderer_def landing_zone_render_def Let_def config_params_silent)

interpretation idp_broker: pack_renderer L reg "IdpBrokerRenderer L reg" "\<lambda>iid. ''idp-broker/'' @ iid" for L reg
  by (rule json_pack_renderer [where params = idp_broker_params and config = idp_config and
        steps = "\<lambda>_ _. []" and msg = None])
     (simp_all add: IdpBrokerRenderer_def idp_broker_render_def config_params_silent)

interpretation scim_bridge: pack_renderer L reg "ScimBridgeRenderer L reg" "\<lambda>iid. ''scim-bridge/'' @ iid" for L reg
  by (rule json_pack_renderer [where params = scim_params and config = scim_config and
        steps = "\<lambda>_ _. []" and msg = None])
     (simp_all add: ScimBridgeRenderer_def scim_render_def config_params_silent)

interpretation secure_email: pack_renderer L reg "SecureEmailRenderer L reg" "\<lambda>iid. ''secure-email/'' @ iid" for L reg
  by (rule json_pack_renderer [where params = email_params and config = dump_email and
        steps = "\<lambda>_ _. []" and msg = None])
     (simp_all add: SecureEmailRenderer_def email_render_def config_params_silent)

interpretation secure_chat: pack_renderer L reg "SecureChatRenderer L reg" "\<lambda>iid. ''secure-chat/'' @ iid" for L reg
  by (rule json_pack_renderer [where params = chat_params and config = dump_chat and
        steps = "\<lambda>_ _. []" and msg = None])
     (simp_all add: SecureChatRenderer_def chat_render_def config_params_silent)

end
