(* ===== verification/Packs.thy ===== *)
theory Packs
  imports WorkloadPacks ConfigPacks Catalog
begin

text \<open>
  Models of \<open>libs/common/sovereign/packs/\<close> (the pack class, discovery, policy bundle collection), of
  the connector registry \<open>libs/common/sovereign/connectors/registry.py\<close>, and of the \<open>Pack\<close> classes of
  \<open>packs/*/sovereign_*/__init__.py\<close>. Discovery never fails, a broken pack changes nothing, and the
  shipped packs register their fifteen service types side by side.
\<close>

section \<open>The connector registry\<close>

text \<open>A registered connector is a class; the registry and the catalog read these two attributes.\<close>

record connector_class =
  cn_connector_type :: string
  cn_catalog_entry :: "ConnectorCatalogEntry option"

type_synonym connectors = "(string \<times> connector_class) list"

definition register_connector :: "connector_class \<Rightarrow> connectors \<Rightarrow> exn + connectors" where
  "register_connector c cs = (if cn_connector_type c = []
     then Inl (ValueError ''connector has no `connector_type`; cannot register'')
     else Inr (AList.update (cn_connector_type c) c cs))"

definition get_connector :: "connectors \<Rightarrow> string \<Rightarrow> connector_class option" where
  "get_connector cs k = map_of cs k"

definition require_connector :: "connectors \<Rightarrow> string \<Rightarrow> exn + connector_class" where
  "require_connector cs k = (case get_connector cs k of Some c \<Rightarrow> Inr c
     | None \<Rightarrow> Inl (KeyError (''no connector registered for connector_type '' @ py_repr k)))"

definition connector_types :: "connectors \<Rightarrow> string list" where
  "connector_types cs = sort (remdups (map fst cs))"

interpretation connector_registry: registry cn_connector_type register_connector get_connector connector_types "[]"
proof unfold_locales
  show "set (connector_types r) = {k. get_connector r k \<noteq> None}" for r
    unfolding connector_types_def get_connector_def by (rule listing_alist)
qed (auto simp: register_connector_def get_connector_def connector_types_def update_conv split: if_splits)

section \<open>BasePack\<close>

record pack =
  pk_name :: string
  pk_version :: string
  pk_description :: string
  pk_maturity :: string
  pk_maturity_summary :: string
  pk_renderers :: "renderer list"
  pk_connectors :: "connector_class list"
  pk_policy_bundles :: "string list"
  pk_extra_service_catalog :: "ServiceCatalogEntry list"
  pk_extra_connector_catalog :: "ConnectorCatalogEntry list"

definition MATURITY_LEVELS :: "string list" where
  "MATURITY_LEVELS = [''ga'', ''preview'', ''lab'']"

text \<open>\<open>__init_subclass__\<close>: the checks made when a pack class is defined.\<close>

definition pack_class_error :: "pack \<Rightarrow> exn option" where
  "pack_class_error p = (if pk_name p = [] then Some (TypeError ''Pack must declare a class-level `name` string'')
     else if pk_maturity p \<notin> set MATURITY_LEVELS then Some (TypeError ''Pack.maturity must be one of the maturity levels'')
     else None)"

text \<open>The registrations of a pack; a failure is logged and skipped.\<close>

definition try_register :: "('v \<Rightarrow> 'r \<Rightarrow> exn + 'r) \<Rightarrow> 'v \<Rightarrow> 'r \<Rightarrow> 'r" where
  "try_register reg v r = (case reg v r of Inl _ \<Rightarrow> r | Inr r' \<Rightarrow> r')"

definition pack_register :: "pack \<Rightarrow> renderers \<times> connectors \<Rightarrow> renderers \<times> connectors" where
  "pack_register p st = (fold (try_register register_renderer) (pk_renderers p) (fst st),
     fold (try_register register_connector) (pk_connectors p) (snd st))"

definition pack_manifest :: "pack \<Rightarrow> dict" where
  "pack_manifest p = [(''name'', JStr (pk_name p)), (''version'', JStr (pk_version p)),
     (''description'', JStr (pk_description p)), (''maturity'', JStr (pk_maturity p)),
     (''maturity_summary'', JStr (pk_maturity_summary p)),
     (''renderers'', jstrs (map rd_service_type (pk_renderers p))),
     (''connectors'', jstrs (map cn_connector_type (pk_connectors p))),
     (''policy_bundles'', jstrs (pk_policy_bundles p)),
     (''extra_service_catalog'', jstrs (map sc_service_type (pk_extra_service_catalog p))),
     (''extra_connector_catalog'', jstrs (map cc_connector_type (pk_extra_connector_catalog p)))]"

section \<open>Discovery\<close>

record chassis =
  ch_renderers :: renderers
  ch_connectors :: connectors
  ch_packs :: "(string \<times> pack) list"

definition packs_add :: "pack \<Rightarrow> (string \<times> pack) list \<Rightarrow> (string \<times> pack) list" where
  "packs_add p ps = AList.update (pk_name p) p ps"

definition packs_all :: "(string \<times> pack) list \<Rightarrow> pack list" where
  "packs_all ps = map snd ps"

definition packs_names :: "(string \<times> pack) list \<Rightarrow> string list" where
  "packs_names ps = sort (map fst ps)"

definition register_pack :: "pack \<Rightarrow> chassis \<Rightarrow> chassis" where
  "register_pack p c = (let (rs, cs) = pack_register p (ch_renderers c, ch_connectors c)
     in c\<lparr>ch_renderers := rs, ch_connectors := cs, ch_packs := packs_add p (ch_packs c)\<rparr>)"

text \<open>An entry point loads and instantiates to a pack, or raises.\<close>

fun discover_loop :: "(exn + pack) list \<Rightarrow> chassis \<Rightarrow> pack list \<Rightarrow> pack list \<times> chassis" where
  "discover_loop [] c discovered = (discovered, c)"
| "discover_loop (Inl x # eps) c discovered = discover_loop eps c discovered"
| "discover_loop (Inr p # eps) c discovered = discover_loop eps (register_pack p c) (discovered @ [p])"

definition discover_packs :: "(exn + pack) list \<Rightarrow> chassis \<Rightarrow> pack list \<times> chassis" where
  "discover_packs eps c = discover_loop eps c []"

definition registered_packs :: "chassis \<Rightarrow> dict list" where
  "registered_packs c = map pack_manifest (packs_all (ch_packs c))"

section \<open>Policy bundles\<close>

fun collect_bundles :: "(string \<Rightarrow> bool) \<Rightarrow> string list \<Rightarrow> string list \<Rightarrow> string list \<Rightarrow> string list" where
  "collect_bundles exist seen out [] = out"
| "collect_bundles exist seen out (b # bs) =
     (if b \<in> set seen then collect_bundles exist seen out bs
      else if \<not> exist b then collect_bundles exist (b # seen) out bs
      else collect_bundles exist (b # seen) (out @ [b]) bs)"

definition collect_policy_bundle_dirs :: "(string \<Rightarrow> bool) \<Rightarrow> chassis \<Rightarrow> string list" where
  "collect_policy_bundle_dirs exist c = sort (collect_bundles exist [] [] (concat (map pk_policy_bundles (packs_all (ch_packs c)))))"

section \<open>The shipped packs\<close>

definition chassis_pack :: "string \<Rightarrow> string \<Rightarrow> string \<Rightarrow> string \<Rightarrow> renderer list \<Rightarrow> string \<Rightarrow> pack" where
  "chassis_pack name description maturity summary rs bundle = \<lparr>pk_name = name, pk_version = ''0.1.0'', pk_description = description,
     pk_maturity = maturity, pk_maturity_summary = summary, pk_renderers = rs, pk_connectors = [],
     pk_policy_bundles = [bundle], pk_extra_service_catalog = [], pk_extra_connector_catalog = []\<rparr>"

definition ai_pack :: "text_lib \<Rightarrow> executors \<Rightarrow> string \<Rightarrow> pack" where
  "ai_pack L reg = chassis_pack ''sovereign-ai-pack''
     ''Managed inference endpoints and RAG workspaces with model-governance policy.'' ''preview''
     ''Ready for governed pilot deployments; requires live workload validation.''
     [InferenceEndpointRenderer L reg, RagWorkspaceRenderer L reg]"

definition secops_pack :: "text_lib \<Rightarrow> executors \<Rightarrow> string \<Rightarrow> pack" where
  "secops_pack L reg = chassis_pack ''sovereign-secops-pack''
     ''SIEM workspaces and log pipelines with audit-family (AU-*) policy enforcement.'' ''preview''
     ''Ready for security-operations pilot use with buyer SIEM/log retention assumptions.''
     [SiemWorkspaceRenderer L reg, LogPipelineRenderer L reg]"

definition edge_pack :: "text_lib \<Rightarrow> executors \<Rightarrow> string \<Rightarrow> pack" where
  "edge_pack L reg = chassis_pack ''sovereign-edge-pack''
     ''Hardened edge nodes and clusters with FIPS-image + attestation policy.'' ''lab''
     ''Design-complete pack that needs hardware and disconnected-site validation.''
     [EdgeNodeRenderer L reg, EdgeClusterRenderer L reg]"

definition blockchain_pack :: "text_lib \<Rightarrow> executors \<Rightarrow> string \<Rightarrow> pack" where
  "blockchain_pack L reg = chassis_pack ''sovereign-blockchain-pack''
     ''Permissioned distributed ledgers with membership, identity, and key-custody policy.'' ''lab''
     ''Specialized pack that needs buyer-specific ledger, HSM, and validator validation.''
     [PermissionedLedgerRenderer L reg]"

definition data_pack :: "text_lib \<Rightarrow> executors \<Rightarrow> string \<Rightarrow> pack" where
  "data_pack L reg = chassis_pack ''sovereign-data-pack''
     ''Managed databases and vector stores provisioned via Terraform, with data-protection policy.'' ''preview''
     ''Ready for non-production Terraform pilots against buyer cloud accounts.''
     [ManagedDatabaseRenderer L reg, VectorDbRenderer L reg]"

definition multicloud_pack :: "text_lib \<Rightarrow> executors \<Rightarrow> string \<Rightarrow> pack" where
  "multicloud_pack L reg = chassis_pack ''sovereign-multicloud-pack''
     ''Governed cloud accounts and landing zones across GovCloud/Azure-Gov/GCP with residency policy.'' ''lab''
     ''Design-complete pack that needs live multi-cloud landing-zone validation.''
     [CloudAccountRenderer L reg, LandingZoneRenderer L reg]"

definition identity_pack :: "text_lib \<Rightarrow> executors \<Rightarrow> string \<Rightarrow> pack" where
  "identity_pack L reg = chassis_pack ''sovereign-identity-pack''
     ''IdP broker and SCIM bridge over the chassis identity plane, with IA-family policy.'' ''preview''
     ''Ready for IdP/SCIM integration pilots after customer directory mapping.''
     [IdpBrokerRenderer L reg, ScimBridgeRenderer L reg]"

definition comms_pack :: "text_lib \<Rightarrow> executors \<Rightarrow> string \<Rightarrow> pack" where
  "comms_pack L reg = chassis_pack ''sovereign-comms-pack''
     ''Secure email and chat channels with transmission-confidentiality and retention policy.'' ''lab''
     ''Design-complete pack that needs provider-specific email/chat integration.''
     [SecureEmailRenderer L reg, SecureChatRenderer L reg]"

definition finops_pack :: "string \<Rightarrow> pack" where
  "finops_pack = chassis_pack ''sovereign-finops-pack''
     ''Cost models, budgets, and chargeback over the chassis metering layer.'' ''ga''
     ''Low-risk governance pack backed by chassis metering; ready for controlled production use.'' []"

text \<open>All of them, each with the directory its policies are installed in.\<close>

definition shipped_packs :: "text_lib \<Rightarrow> executors \<Rightarrow> (string \<Rightarrow> string) \<Rightarrow> pack list" where
  "shipped_packs L reg dir = [ai_pack L reg (dir ''ai''), secops_pack L reg (dir ''secops''), edge_pack L reg (dir ''edge''),
     blockchain_pack L reg (dir ''blockchain''), data_pack L reg (dir ''data''), multicloud_pack L reg (dir ''multicloud''),
     identity_pack L reg (dir ''identity''), comms_pack L reg (dir ''comms''), finops_pack (dir ''finops'')]"

lemmas pack_defs = ai_pack_def secops_pack_def edge_pack_def blockchain_pack_def data_pack_def multicloud_pack_def
  identity_pack_def comms_pack_def finops_pack_def chassis_pack_def

lemmas pack_renderer_defs = InferenceEndpointRenderer_def RagWorkspaceRenderer_def SiemWorkspaceRenderer_def
  LogPipelineRenderer_def EdgeNodeRenderer_def EdgeClusterRenderer_def PermissionedLedgerRenderer_def
  ManagedDatabaseRenderer_def VectorDbRenderer_def CloudAccountRenderer_def LandingZoneRenderer_def
  IdpBrokerRenderer_def ScimBridgeRenderer_def SecureEmailRenderer_def SecureChatRenderer_def

section \<open>Properties\<close>

text \<open>Every renderer of a shipped pack meets the contract.\<close>

lemmas pack_axioms = inference_endpoint.pack_renderer_axioms rag_workspace.pack_renderer_axioms siem_workspace.pack_renderer_axioms log_pipeline.pack_renderer_axioms
    edge_node.pack_renderer_axioms edge_cluster.pack_renderer_axioms permissioned_ledger.pack_renderer_axioms managed_database.pack_renderer_axioms
    vector_db.pack_renderer_axioms cloud_account.pack_renderer_axioms landing_zone.pack_renderer_axioms idp_broker.pack_renderer_axioms
    scim_bridge.pack_renderer_axioms secure_email.pack_renderer_axioms secure_chat.pack_renderer_axioms

lemma pack_contracts:
  "\<exists>resource. pack_renderer L reg (InferenceEndpointRenderer L reg) resource"
  "\<exists>resource. pack_renderer L reg (RagWorkspaceRenderer L reg) resource"
  "\<exists>resource. pack_renderer L reg (SiemWorkspaceRenderer L reg) resource"
  "\<exists>resource. pack_renderer L reg (LogPipelineRenderer L reg) resource"
  "\<exists>resource. pack_renderer L reg (EdgeNodeRenderer L reg) resource"
  "\<exists>resource. pack_renderer L reg (EdgeClusterRenderer L reg) resource"
  "\<exists>resource. pack_renderer L reg (PermissionedLedgerRenderer L reg) resource"
  "\<exists>resource. pack_renderer L reg (ManagedDatabaseRenderer L reg) resource"
  "\<exists>resource. pack_renderer L reg (VectorDbRenderer L reg) resource"
  "\<exists>resource. pack_renderer L reg (CloudAccountRenderer L reg) resource"
  "\<exists>resource. pack_renderer L reg (LandingZoneRenderer L reg) resource"
  "\<exists>resource. pack_renderer L reg (IdpBrokerRenderer L reg) resource"
  "\<exists>resource. pack_renderer L reg (ScimBridgeRenderer L reg) resource"
  "\<exists>resource. pack_renderer L reg (SecureEmailRenderer L reg) resource"
  "\<exists>resource. pack_renderer L reg (SecureChatRenderer L reg) resource"
  by (rule exI, rule pack_axioms)+

lemma shipped_contract:
  assumes "p \<in> set (shipped_packs L reg dir)" "r \<in> set (pk_renderers p)"
  shows "\<exists>resource. pack_renderer L reg r resource"
proof -
  from assms(1) consider "p = ai_pack L reg (dir ''ai'')" | "p = secops_pack L reg (dir ''secops'')" | "p = edge_pack L reg (dir ''edge'')"
    | "p = blockchain_pack L reg (dir ''blockchain'')" | "p = data_pack L reg (dir ''data'')"
    | "p = multicloud_pack L reg (dir ''multicloud'')" | "p = identity_pack L reg (dir ''identity'')"
    | "p = comms_pack L reg (dir ''comms'')" | "p = finops_pack (dir ''finops'')"
    unfolding shipped_packs_def by auto
  then show ?thesis
    using assms(2) by cases (auto simp: pack_defs pack_contracts)
qed

lemma set_collect_bundles: "set (collect_bundles ex seen out bs) = set out \<union> {b \<in> set bs. b \<notin> set seen \<and> ex b}"
  by (induction bs arbitrary: seen out) auto

lemma distinct_collect_bundles:
  "distinct out \<Longrightarrow> set out \<subseteq> set seen \<Longrightarrow> distinct (collect_bundles ex seen out bs)"
proof (induction bs arbitrary: seen out)
  case (Cons b bs)
  have "distinct (collect_bundles ex (b # seen) out bs)" using Cons.prems by (intro Cons.IH) auto
  moreover have "distinct (collect_bundles ex (b # seen) (out @ [b]) bs)" if "b \<notin> set seen"
    using Cons.prems that by (intro Cons.IH) auto
  ultimately show ?case using Cons by simp
qed simp

lemma discover_loop_fst: "fst (discover_loop eps c ds) = ds @ [p. Inr p \<leftarrow> eps]"
  by (induction eps c ds rule: discover_loop.induct) auto

lemma discover_loop_skips: "discover_loop eps c ds = discover_loop (filter (\<lambda>e. \<exists>p. e = Inr p) eps) c ds"
  by (induction eps c ds rule: discover_loop.induct) auto

end
