(* ===== verification/CatalogEntries.thy ===== *)
theory CatalogEntries
  imports Packs
begin

text \<open>
  The catalog entries the code declares: \<open>catalog_entry\<close> of the renderers (\<open>renderers/envoy.py\<close>, \<open>packs/*\<close>) and
  of the connectors (\<open>connectors/s3.py\<close>, \<open>connectors/github.py\<close>), and the two of the finops pack. A character
  outside ASCII is given by its UTF-8 bytes. Shown: every entry is well formed (its required
  parameters are declared, its defaults are allowed values, its plans have distinct ids) and every
  shipped renderer has the entry of its own service type.
\<close>

section \<open>Entries\<close>

definition EnvoyRenderer_entry :: ServiceCatalogEntry where
  "EnvoyRenderer_entry = \<lparr>sc_service_type = ''sovereign-envoy-lb'',
     sc_name = ''sovereign-envoy-lb'',
     sc_description = ''Self-service Envoy-based regional or multi-region load balancer.'',
     sc_bindable = True,
     sc_tags = [''network'', ''load-balancer'', ''envoy''],
     sc_plans = [\<lparr>sp_id = ''standard-regional'', sp_name = ''standard-regional'',
         sp_description = ''Single-region Envoy pool, t-shirt size: small.'',
         sp_free = False, sp_metadata = [(''tshirt'', JStr ''small''), (''regions'', JInt 1)]\<rparr>,
       \<lparr>sp_id = ''multi-region'', sp_name = ''multi-region'',
         sp_description = ''Active-active Envoy pools across multiple regions.'',
         sp_free = False, sp_metadata = [(''tshirt'', JStr ''medium''), (''regions'', JStr ''N'')]\<rparr>,
       \<lparr>sp_id = ''sidecar'', sp_name = ''sidecar'',
         sp_description = ''App-local Envoy sidecar for east-west traffic.'',
         sp_free = False, sp_metadata = [(''tshirt'', JStr ''small''), (''topology'', JStr ''sidecar'')]\<rparr>],
     sc_parameter_schema = default_schema\<lparr>ps_schema :=
       [
         (''type'', JStr ''object''),
         (''required'', jstrs [''listeners'', ''clusters'']),
         (''additionalProperties'', JBool False),
         (''properties'', JObj [
           (''region'', JObj [(''type'', JStr ''string''), (''default'', JStr ''us-east-1'')]),
           (''mtls_enabled'', JObj [(''type'', JStr ''boolean''), (''default'', JBool False)]),
           (''sidecar_mode'', JObj [(''type'', JStr ''boolean''), (''default'', JBool False)]),
           (''tags'', JObj [
             (''type'', JStr ''object''),
             (''additionalProperties'', JObj [(''type'', JStr ''string'')]),
             (''default'', JObj [])]),
           (''listeners'', JObj [
             (''type'', JStr ''array''),
             (''minItems'', JInt 1),
             (''items'', JObj [
               (''type'', JStr ''object''),
               (''required'', jstrs [''name'', ''port'']),
               (''properties'', JObj [
                 (''name'', JObj [(''type'', JStr ''string'')]),
                 (''port'', JObj [
                   (''type'', JStr ''integer''),
                   (''minimum'', JInt 1),
                   (''maximum'', JInt 65535)]),
                 (''protocol'', JObj [(''type'', JStr ''string''), (''default'', JStr ''HTTP'')])])])]),
           (''routes'', JObj [
             (''type'', JStr ''array''),
             (''items'', JObj [
               (''type'', JStr ''object''),
               (''required'', jstrs [''host'', ''cluster'']),
               (''properties'', JObj [
                 (''host'', JObj [(''type'', JStr ''string'')]),
                 (''prefix'', JObj [(''type'', JStr ''string''), (''default'', JStr ''/'')]),
                 (''cluster'', JObj [(''type'', JStr ''string'')])])])]),
           (''clusters'', JObj [
             (''type'', JStr ''array''),
             (''minItems'', JInt 1),
             (''items'', JObj [
               (''type'', JStr ''object''),
               (''required'', jstrs [''name'', ''endpoints'']),
               (''properties'', JObj [
                 (''name'', JObj [(''type'', JStr ''string'')]),
                 (''endpoints'', JObj [
                   (''type'', JStr ''array''),
                   (''minItems'', JInt 1),
                   (''items'', JObj [(''type'', JStr ''string'')])])])])])])]\<rparr>,
     sc_pack = ''chassis'',
     sc_metadata = []\<rparr>"

definition S3Connector_entry :: ConnectorCatalogEntry where
  "S3Connector_entry = \<lparr>cc_connector_type = ''s3'',
     cc_name = ''s3'',
     cc_description = ''AWS S3 and S3-compatible object stores (MinIO, on-prem).'',
     cc_pack = ''chassis'',
     cc_config_schema = default_schema\<lparr>ps_schema :=
       [
         (''type'', JStr ''object''),
         (''oneOf'', JList [
           JObj [
             (''type'', JStr ''object''),
             (''required'', jstrs [''kind'', ''data'']),
             (''properties'', JObj [
               (''kind'', JObj [(''const'', JStr ''aws_access_key'')]),
               (''data'', JObj [
                 (''type'', JStr ''object''),
                 (''required'', jstrs [''access_key_id'', ''secret_access_key'']),
                 (''properties'', JObj [
                   (''access_key_id'', JObj [(''type'', JStr ''string'')]),
                   (''secret_access_key'', JObj [(''type'', JStr ''string'')]),
                   (''region'', JObj [(''type'', JStr ''string'')]),
                   (''endpoint_url'', JObj [(''type'', JStr ''string'')])])])])],
           JObj [
             (''type'', JStr ''object''),
             (''required'', jstrs [''kind'', ''data'']),
             (''properties'', JObj [
               (''kind'', JObj [(''const'', JStr ''aws_iam_role'')]),
               (''data'', JObj [
                 (''type'', JStr ''object''),
                 (''properties'', JObj [
                   (''region'', JObj [(''type'', JStr ''string'')]),
                   (''endpoint_url'', JObj [(''type'', JStr ''string'')])])])])]])]\<rparr>,
     cc_capabilities = [''list'', ''ingest'', ''stream'', ''iam-role''],
     cc_metadata = []\<rparr>"

definition GitHubConnector_entry :: ConnectorCatalogEntry where
  "GitHubConnector_entry = \<lparr>cc_connector_type = ''github'',
     cc_name = ''github'',
     cc_description = (''GitHub.com and GitHub Enterprise '' @ [CHR 0xE2] @ [CHR 0x80] @ [CHR 0x94] @ '' list repos, ingest files.''),
     cc_pack = ''chassis'',
     cc_config_schema = default_schema\<lparr>ps_schema :=
       [
         (''type'', JStr ''object''),
         (''required'', jstrs [''kind'', ''data'']),
         (''properties'', JObj [
           (''kind'', JObj [(''const'', JStr ''github_pat'')]),
           (''data'', JObj [
             (''type'', JStr ''object''),
             (''required'', jstrs [''token'']),
             (''properties'', JObj [
               (''token'', JObj [
                 (''type'', JStr ''string''),
                 (''description'', JStr ''Personal access token; classic or fine-grained.'')]),
               (''host'', JObj [
                 (''type'', JStr ''string''),
                 (''description'', JStr (''API host. github.com -> '' @ [CHR 0x27] @ ''api.github.com'' @ [CHR 0x27] @ ''; GHE -> '' @ [CHR 0x27] @ ''github.example.gov/api/v3'' @ [CHR 0x27] @ ''.'')),
                 (''default'', JStr ''api.github.com'')])])])])]\<rparr>,
     cc_capabilities = [''list'', ''ingest'', ''github-enterprise''],
     cc_metadata = []\<rparr>"

definition InferenceEndpointRenderer_entry :: ServiceCatalogEntry where
  "InferenceEndpointRenderer_entry = \<lparr>sc_service_type = ''inference-endpoint'',
     sc_name = ''Inference endpoint'',
     sc_description = ''Managed, hardened model-serving endpoint (vLLM/TGI) on a GovCloud GPU pool, with PII-redaction and residency obligations.'',
     sc_bindable = True,
     sc_tags = [''ai'', ''inference'', ''gpu''],
     sc_plans = [\<lparr>sp_id = ''cpu-small'', sp_name = ''cpu-small'',
         sp_description = ''CPU-only, dev/test.'',
         sp_free = False, sp_metadata = []\<rparr>,
       \<lparr>sp_id = ''a10'', sp_name = ''a10'',
         sp_description = ''Single A10 GPU.'',
         sp_free = False, sp_metadata = []\<rparr>,
       \<lparr>sp_id = ''a100'', sp_name = ''a100'',
         sp_description = ''Single A100 GPU.'',
         sp_free = False, sp_metadata = []\<rparr>,
       \<lparr>sp_id = ''h100'', sp_name = ''h100'',
         sp_description = ''Single H100 GPU.'',
         sp_free = False, sp_metadata = []\<rparr>],
     sc_parameter_schema = default_schema\<lparr>ps_schema :=
       [
         (''type'', JStr ''object''),
         (''required'', jstrs [''model_id'']),
         (''properties'', JObj [
           (''model_id'', JObj [(''type'', JStr ''string'')]),
           (''engine'', JObj [
             (''type'', JStr ''string''),
             (''enum'', jstrs [''vllm'', ''tgi'']),
             (''default'', JStr ''vllm'')]),
           (''accelerator'', JObj [
             (''type'', JStr ''string''),
             (''enum'', jstrs [''cpu'', ''a10'', ''a100'', ''h100'']),
             (''default'', JStr ''a10'')]),
           (''replicas'', JObj [
             (''type'', JStr ''integer''),
             (''minimum'', JInt 1),
             (''maximum'', JInt 64),
             (''default'', JInt 1)]),
           (''max_context_tokens'', JObj [(''type'', JStr ''integer''), (''default'', JInt 8192)]),
           (''classification'', JObj [
             (''type'', JStr ''string''),
             (''enum'', jstrs [''U'', ''CUI'', ''SECRET'']),
             (''default'', JStr ''U'')]),
           (''data_residency'', JObj [(''type'', JStr ''string''), (''default'', JStr ''us-gov-west-1'')]),
           (''pii_redaction'', JObj [(''type'', JStr ''boolean''), (''default'', JBool True)]),
           (''tls'', JObj [(''type'', JStr ''boolean''), (''default'', JBool True)]),
           (''logging_enabled'', JObj [(''type'', JStr ''boolean''), (''default'', JBool True)])])]\<rparr>,
     sc_pack = ''ai'',
     sc_metadata = [
       (''controls'', jstrs [''SC-8'', ''SC-28'', ''SI-12'', ''AC-4'']),
       (''ui_section'', JStr ''AI'')]\<rparr>"

definition RagWorkspaceRenderer_entry :: ServiceCatalogEntry where
  "RagWorkspaceRenderer_entry = \<lparr>sc_service_type = ''rag-workspace'',
     sc_name = ''RAG workspace'',
     sc_description = ''Retrieval-augmented-generation workspace: managed vector store plus connector-fed ingestion, encrypted at rest.'',
     sc_bindable = True,
     sc_tags = [''ai'', ''rag'', ''vector-db''],
     sc_plans = [\<lparr>sp_id = ''standard'', sp_name = ''standard'',
         sp_description = ''pgvector-backed.'',
         sp_free = False, sp_metadata = []\<rparr>],
     sc_parameter_schema = default_schema\<lparr>ps_schema :=
       [
         (''type'', JStr ''object''),
         (''required'', jstrs [''name'']),
         (''properties'', JObj [
           (''name'', JObj [(''type'', JStr ''string'')]),
           (''embedding_model'', JObj [
             (''type'', JStr ''string''),
             (''default'', JStr ''text-embedding-3-large'')]),
           (''vector_store'', JObj [
             (''type'', JStr ''string''),
             (''enum'', jstrs [''pgvector'', ''qdrant'', ''milvus'']),
             (''default'', JStr ''pgvector'')]),
           (''classification'', JObj [
             (''type'', JStr ''string''),
             (''enum'', jstrs [''U'', ''CUI'', ''SECRET'']),
             (''default'', JStr ''CUI'')]),
           (''encryption_at_rest'', JObj [(''type'', JStr ''boolean''), (''default'', JBool True)]),
           (''pii_redaction'', JObj [(''type'', JStr ''boolean''), (''default'', JBool True)])])]\<rparr>,
     sc_pack = ''ai'',
     sc_metadata = [(''controls'', jstrs [''SC-28'', ''SI-12'', ''AC-4'']), (''ui_section'', JStr ''AI'')]\<rparr>"

definition SiemWorkspaceRenderer_entry :: ServiceCatalogEntry where
  "SiemWorkspaceRenderer_entry = \<lparr>sc_service_type = ''siem-workspace'',
     sc_name = ''SIEM workspace'',
     sc_description = ''Managed security-information-and-event-management workspace with immutable, retention-enforced audit storage.'',
     sc_bindable = True,
     sc_tags = [''secops'', ''siem'', ''audit''],
     sc_plans = [\<lparr>sp_id = ''standard'', sp_name = ''standard'',
         sp_description = ''3 hot nodes.'',
         sp_free = False, sp_metadata = []\<rparr>,
       \<lparr>sp_id = ''ha'', sp_name = ''ha'',
         sp_description = ''Multi-node HA.'',
         sp_free = False, sp_metadata = []\<rparr>],
     sc_parameter_schema = default_schema\<lparr>ps_schema :=
       [
         (''type'', JStr ''object''),
         (''properties'', JObj [
           (''backend'', JObj [
             (''type'', JStr ''string''),
             (''enum'', jstrs [''elastic'', ''opensearch'', ''splunk'']),
             (''default'', JStr ''opensearch'')]),
           (''classification'', JObj [
             (''type'', JStr ''string''),
             (''enum'', jstrs [''U'', ''CUI'', ''SECRET'']),
             (''default'', JStr ''CUI'')]),
           (''retention_days'', JObj [
             (''type'', JStr ''integer''),
             (''minimum'', JInt 1),
             (''default'', JInt 90)]),
           (''immutable_storage'', JObj [(''type'', JStr ''boolean''), (''default'', JBool True)]),
           (''encryption_at_rest'', JObj [(''type'', JStr ''boolean''), (''default'', JBool True)])])]\<rparr>,
     sc_pack = ''secops'',
     sc_metadata = [
       (''controls'', jstrs [''AU-9'', ''AU-11'', ''SC-28'', ''SI-4'']),
       (''ui_section'', JStr ''SecOps'')]\<rparr>"

definition LogPipelineRenderer_entry :: ServiceCatalogEntry where
  "LogPipelineRenderer_entry = \<lparr>sc_service_type = ''log-pipeline'',
     sc_name = ''Log pipeline'',
     sc_description = ''Collection pipeline that forwards signed log records from chassis connectors into a SIEM workspace.'',
     sc_bindable = True,
     sc_tags = [''secops'', ''logging'', ''audit''],
     sc_plans = [\<lparr>sp_id = ''standard'', sp_name = ''standard'',
         sp_description = ''Single pipeline.'',
         sp_free = False, sp_metadata = []\<rparr>],
     sc_parameter_schema = default_schema\<lparr>ps_schema :=
       [
         (''type'', JStr ''object''),
         (''required'', jstrs [''name'']),
         (''properties'', JObj [
           (''name'', JObj [(''type'', JStr ''string'')]),
           (''sources'', JObj [(''type'', JStr ''array''), (''items'', JObj [(''type'', JStr ''string'')])]),
           (''classification'', JObj [
             (''type'', JStr ''string''),
             (''enum'', jstrs [''U'', ''CUI'', ''SECRET'']),
             (''default'', JStr ''CUI'')]),
           (''sign_records'', JObj [(''type'', JStr ''boolean''), (''default'', JBool True)])])]\<rparr>,
     sc_pack = ''secops'',
     sc_metadata = [(''controls'', jstrs [''AU-2'', ''AU-10'', ''SI-4'']), (''ui_section'', JStr ''SecOps'')]\<rparr>"

definition EdgeNodeRenderer_entry :: ServiceCatalogEntry where
  "EdgeNodeRenderer_entry = \<lparr>sc_service_type = ''edge-node'',
     sc_name = ''Edge node'',
     sc_description = ''Hardened single edge node (FIPS image, attestation, disk encryption) for forward/disconnected sites.'',
     sc_bindable = True,
     sc_tags = [''edge'', ''node'', ''fips''],
     sc_plans = [\<lparr>sp_id = ''standard'', sp_name = ''standard'',
         sp_description = ''One node.'',
         sp_free = False, sp_metadata = []\<rparr>],
     sc_parameter_schema = default_schema\<lparr>ps_schema :=
       [
         (''type'', JStr ''object''),
         (''properties'', JObj [
           (''classification'', JObj [
             (''type'', JStr ''string''),
             (''enum'', jstrs [''U'', ''CUI'', ''SECRET'']),
             (''default'', JStr ''CUI'')]),
           (''fips_image'', JObj [(''type'', JStr ''boolean''), (''default'', JBool True)]),
           (''attestation_required'', JObj [(''type'', JStr ''boolean''), (''default'', JBool True)]),
           (''disk_encryption'', JObj [(''type'', JStr ''boolean''), (''default'', JBool True)])])]\<rparr>,
     sc_pack = ''edge'',
     sc_metadata = [
       (''controls'', jstrs [''SI-7'', ''SI-7(9)'', ''SC-28'', ''SR-11'']),
       (''ui_section'', JStr ''Edge'')]\<rparr>"

definition EdgeClusterRenderer_entry :: ServiceCatalogEntry where
  "EdgeClusterRenderer_entry = \<lparr>sc_service_type = ''edge-cluster'',
     sc_name = ''Edge cluster'',
     sc_description = ''Small hardened edge cluster (K3s-style) with FIPS images, attestation, and offline store-and-forward.'',
     sc_bindable = True,
     sc_tags = [''edge'', ''cluster'', ''fips''],
     sc_plans = [\<lparr>sp_id = ''standard'', sp_name = ''standard'',
         sp_description = ''3-node cluster.'',
         sp_free = False, sp_metadata = []\<rparr>],
     sc_parameter_schema = default_schema\<lparr>ps_schema :=
       [
         (''type'', JStr ''object''),
         (''properties'', JObj [
           (''classification'', JObj [
             (''type'', JStr ''string''),
             (''enum'', jstrs [''U'', ''CUI'', ''SECRET'']),
             (''default'', JStr ''CUI'')]),
           (''node_count'', JObj [
             (''type'', JStr ''integer''),
             (''minimum'', JInt 1),
             (''maximum'', JInt 50),
             (''default'', JInt 3)]),
           (''fips_image'', JObj [(''type'', JStr ''boolean''), (''default'', JBool True)]),
           (''attestation_required'', JObj [(''type'', JStr ''boolean''), (''default'', JBool True)]),
           (''offline_mode'', JObj [(''type'', JStr ''boolean''), (''default'', JBool True)])])]\<rparr>,
     sc_pack = ''edge'',
     sc_metadata = [
       (''controls'', jstrs [''SI-7'', ''SI-7(9)'', ''AC-4'', ''SR-11'']),
       (''ui_section'', JStr ''Edge'')]\<rparr>"

definition PermissionedLedgerRenderer_entry :: ServiceCatalogEntry where
  "PermissionedLedgerRenderer_entry = \<lparr>sc_service_type = ''permissioned-ledger'',
     sc_name = ''Permissioned ledger'',
     sc_description = ''Permissioned distributed ledger (Hyperledger Fabric/Besu) with closed membership, validator identity, and HSM key custody.'',
     sc_bindable = True,
     sc_tags = [''blockchain'', ''ledger'', ''fabric''],
     sc_plans = [\<lparr>sp_id = ''fabric'', sp_name = ''fabric'',
         sp_description = ''Hyperledger Fabric, raft.'',
         sp_free = False, sp_metadata = []\<rparr>,
       \<lparr>sp_id = ''besu'', sp_name = ''besu'',
         sp_description = ''Hyperledger Besu, IBFT2/QBFT.'',
         sp_free = False, sp_metadata = []\<rparr>],
     sc_parameter_schema = default_schema\<lparr>ps_schema :=
       [
         (''type'', JStr ''object''),
         (''properties'', JObj [
           (''platform'', JObj [
             (''type'', JStr ''string''),
             (''enum'', jstrs [''fabric'', ''besu'']),
             (''default'', JStr ''fabric'')]),
           (''consensus'', JObj [
             (''type'', JStr ''string''),
             (''enum'', jstrs [''raft'', ''ibft2'', ''qbft'']),
             (''default'', JStr ''raft'')]),
           (''classification'', JObj [
             (''type'', JStr ''string''),
             (''enum'', jstrs [''U'', ''CUI'', ''SECRET'']),
             (''default'', JStr ''CUI'')]),
           (''validator_count'', JObj [
             (''type'', JStr ''integer''),
             (''minimum'', JInt 1),
             (''maximum'', JInt 100),
             (''default'', JInt 4)]),
           (''permissioned'', JObj [(''type'', JStr ''boolean''), (''default'', JBool True)]),
           (''validator_identity_required'', JObj [(''type'', JStr ''boolean''), (''default'', JBool True)]),
           (''hsm_key_custody'', JObj [(''type'', JStr ''boolean''), (''default'', JBool True)]),
           (''fips_crypto'', JObj [(''type'', JStr ''boolean''), (''default'', JBool True)])])]\<rparr>,
     sc_pack = ''blockchain'',
     sc_metadata = [
       (''controls'', jstrs [''AC-3'', ''IA-3'', ''SC-12'', ''SC-13'']),
       (''ui_section'', JStr ''Blockchain'')]\<rparr>"

definition ManagedDatabaseRenderer_entry :: ServiceCatalogEntry where
  "ManagedDatabaseRenderer_entry = \<lparr>sc_service_type = ''managed-database'',
     sc_name = ''Managed database'',
     sc_description = ''Encrypted, backed-up managed relational database (Postgres/MySQL) provisioned via Terraform.'',
     sc_bindable = True,
     sc_tags = [''data'', ''database'', ''terraform''],
     sc_plans = [\<lparr>sp_id = ''small'', sp_name = ''small'',
         sp_description = ''db.t3.medium, single-AZ.'',
         sp_free = False, sp_metadata = []\<rparr>,
       \<lparr>sp_id = ''ha'', sp_name = ''ha'',
         sp_description = ''Multi-AZ, production.'',
         sp_free = False, sp_metadata = []\<rparr>],
     sc_parameter_schema = default_schema\<lparr>ps_schema :=
       [
         (''type'', JStr ''object''),
         (''properties'', JObj [
           (''engine'', JObj [
             (''type'', JStr ''string''),
             (''enum'', jstrs [''postgres'', ''mysql'']),
             (''default'', JStr ''postgres'')]),
           (''version'', JObj [(''type'', JStr ''string''), (''default'', JStr ''16'')]),
           (''storage_gb'', JObj [(''type'', JStr ''integer''), (''minimum'', JInt 10), (''default'', JInt 20)]),
           (''multi_az'', JObj [(''type'', JStr ''boolean''), (''default'', JBool False)]),
           (''classification'', JObj [
             (''type'', JStr ''string''),
             (''enum'', jstrs [''U'', ''CUI'', ''SECRET'']),
             (''default'', JStr ''CUI'')]),
           (''encryption_at_rest'', JObj [(''type'', JStr ''boolean''), (''default'', JBool True)]),
           (''backup_retention_days'', JObj [
             (''type'', JStr ''integer''),
             (''minimum'', JInt 0),
             (''maximum'', JInt 35),
             (''default'', JInt 7)])])]\<rparr>,
     sc_pack = ''data'',
     sc_metadata = [(''controls'', jstrs [''SC-28'', ''CP-9'', ''SI-12'']), (''ui_section'', JStr ''Data'')]\<rparr>"

definition VectorDbRenderer_entry :: ServiceCatalogEntry where
  "VectorDbRenderer_entry = \<lparr>sc_service_type = ''vector-db'',
     sc_name = ''Vector database'',
     sc_description = ''Managed vector database (pgvector/qdrant/milvus) for embeddings, provisioned via Terraform.'',
     sc_bindable = True,
     sc_tags = [''data'', ''vector-db'', ''ai''],
     sc_plans = [\<lparr>sp_id = ''standard'', sp_name = ''standard'',
         sp_description = ''Single-node.'',
         sp_free = False, sp_metadata = []\<rparr>],
     sc_parameter_schema = default_schema\<lparr>ps_schema :=
       [
         (''type'', JStr ''object''),
         (''properties'', JObj [
           (''store'', JObj [
             (''type'', JStr ''string''),
             (''enum'', jstrs [''pgvector'', ''qdrant'', ''milvus'']),
             (''default'', JStr ''pgvector'')]),
           (''storage_gb'', JObj [(''type'', JStr ''integer''), (''minimum'', JInt 10), (''default'', JInt 20)]),
           (''classification'', JObj [
             (''type'', JStr ''string''),
             (''enum'', jstrs [''U'', ''CUI'', ''SECRET'']),
             (''default'', JStr ''CUI'')]),
           (''encryption_at_rest'', JObj [(''type'', JStr ''boolean''), (''default'', JBool True)])])]\<rparr>,
     sc_pack = ''data'',
     sc_metadata = [(''controls'', jstrs [''SC-28'', ''SI-12'']), (''ui_section'', JStr ''Data'')]\<rparr>"

definition CloudAccountRenderer_entry :: ServiceCatalogEntry where
  "CloudAccountRenderer_entry = \<lparr>sc_service_type = ''cloud-account'',
     sc_name = ''Cloud account'',
     sc_description = ''Provision a governed cloud account/subscription baseline (guardrails + org audit) in an approved government region.'',
     sc_bindable = False,
     sc_tags = [''multi-cloud'', ''account'', ''terraform''],
     sc_plans = [\<lparr>sp_id = ''baseline'', sp_name = ''baseline'',
         sp_description = ''Guardrailed account.'',
         sp_free = False, sp_metadata = []\<rparr>],
     sc_parameter_schema = default_schema\<lparr>ps_schema :=
       [
         (''type'', JStr ''object''),
         (''properties'', JObj [
           (''provider'', JObj [
             (''type'', JStr ''string''),
             (''enum'', jstrs [''aws-govcloud'', ''azure-gov'', ''gcp'']),
             (''default'', JStr ''aws-govcloud'')]),
           (''region'', JObj [(''type'', JStr ''string''), (''default'', JStr ''us-gov-west-1'')]),
           (''classification'', JObj [
             (''type'', JStr ''string''),
             (''enum'', jstrs [''U'', ''CUI'', ''SECRET'']),
             (''default'', JStr ''CUI'')]),
           (''guardrails_enabled'', JObj [(''type'', JStr ''boolean''), (''default'', JBool True)]),
           (''org_audit_enabled'', JObj [(''type'', JStr ''boolean''), (''default'', JBool True)])])]\<rparr>,
     sc_pack = ''multicloud'',
     sc_metadata = [
       (''controls'', jstrs [''CM-2'', ''AU-2'', ''AC-4'']),
       (''ui_section'', JStr ''Multi-Cloud'')]\<rparr>"

definition LandingZoneRenderer_entry :: ServiceCatalogEntry where
  "LandingZoneRenderer_entry = \<lparr>sc_service_type = ''landing-zone'',
     sc_name = ''Landing zone'',
     sc_description = ''Multi-account landing zone (hub/spoke networking + baseline accounts) in an approved government region.'',
     sc_bindable = False,
     sc_tags = [''multi-cloud'', ''landing-zone'', ''terraform''],
     sc_plans = [\<lparr>sp_id = ''standard'', sp_name = ''standard'',
         sp_description = ''3-account zone.'',
         sp_free = False, sp_metadata = []\<rparr>],
     sc_parameter_schema = default_schema\<lparr>ps_schema :=
       [
         (''type'', JStr ''object''),
         (''properties'', JObj [
           (''provider'', JObj [
             (''type'', JStr ''string''),
             (''enum'', jstrs [''aws-govcloud'', ''azure-gov'', ''gcp'']),
             (''default'', JStr ''aws-govcloud'')]),
           (''region'', JObj [(''type'', JStr ''string''), (''default'', JStr ''us-gov-west-1'')]),
           (''classification'', JObj [
             (''type'', JStr ''string''),
             (''enum'', jstrs [''U'', ''CUI'', ''SECRET'']),
             (''default'', JStr ''CUI'')]),
           (''account_count'', JObj [
             (''type'', JStr ''integer''),
             (''minimum'', JInt 1),
             (''maximum'', JInt 100),
             (''default'', JInt 3)]),
           (''network_boundary'', JObj [(''type'', JStr ''boolean''), (''default'', JBool True)])])]\<rparr>,
     sc_pack = ''multicloud'',
     sc_metadata = [
       (''controls'', jstrs [''SC-7'', ''CM-2'', ''AC-4'']),
       (''ui_section'', JStr ''Multi-Cloud'')]\<rparr>"

definition IdpBrokerRenderer_entry :: ServiceCatalogEntry where
  "IdpBrokerRenderer_entry = \<lparr>sc_service_type = ''idp-broker'',
     sc_name = ''IdP broker'',
     sc_description = ''Bind an agency OIDC/SAML identity provider to the chassis identity plane with MFA + assurance-level enforcement.'',
     sc_bindable = False,
     sc_tags = [''identity'', ''oidc'', ''iam''],
     sc_plans = [\<lparr>sp_id = ''standard'', sp_name = ''standard'',
         sp_description = ''One bound IdP.'',
         sp_free = False, sp_metadata = []\<rparr>],
     sc_parameter_schema = default_schema\<lparr>ps_schema :=
       [
         (''type'', JStr ''object''),
         (''required'', jstrs [''issuer_url'']),
         (''properties'', JObj [
           (''issuer_url'', JObj [(''type'', JStr ''string'')]),
           (''protocol'', JObj [
             (''type'', JStr ''string''),
             (''enum'', jstrs [''oidc'', ''saml'']),
             (''default'', JStr ''oidc'')]),
           (''required_aal'', JObj [
             (''type'', JStr ''string''),
             (''enum'', jstrs [''aal1'', ''aal2'', ''aal3'']),
             (''default'', JStr ''aal2'')]),
           (''require_mfa'', JObj [(''type'', JStr ''boolean''), (''default'', JBool True)]),
           (''allow_piv_cac'', JObj [(''type'', JStr ''boolean''), (''default'', JBool True)]),
           (''max_token_minutes'', JObj [
             (''type'', JStr ''integer''),
             (''minimum'', JInt 1),
             (''maximum'', JInt 1440),
             (''default'', JInt 60)])])]\<rparr>,
     sc_pack = ''identity'',
     sc_metadata = [
       (''controls'', jstrs [''IA-2'', ''IA-2(1)'', ''IA-2(12)'', ''IA-8'']),
       (''ui_section'', JStr ''Identity'')]\<rparr>"

definition ScimBridgeRenderer_entry :: ServiceCatalogEntry where
  "ScimBridgeRenderer_entry = \<lparr>sc_service_type = ''scim-bridge'',
     sc_name = ''SCIM bridge'',
     sc_description = (''Sync a SCIM 2.0 directory'' @ [CHR 0x27] @ ''s group membership into chassis RoleBindings, with automatic deprovisioning.''),
     sc_bindable = False,
     sc_tags = [''identity'', ''scim'', ''iam''],
     sc_plans = [\<lparr>sp_id = ''standard'', sp_name = ''standard'',
         sp_description = ''One SCIM source.'',
         sp_free = False, sp_metadata = []\<rparr>],
     sc_parameter_schema = default_schema\<lparr>ps_schema :=
       [
         (''type'', JStr ''object''),
         (''required'', jstrs [''endpoint_url'']),
         (''properties'', JObj [
           (''endpoint_url'', JObj [(''type'', JStr ''string'')]),
           (''sync_interval_minutes'', JObj [
             (''type'', JStr ''integer''),
             (''minimum'', JInt 1),
             (''maximum'', JInt 1440),
             (''default'', JInt 15)]),
           (''deprovision_on_remove'', JObj [(''type'', JStr ''boolean''), (''default'', JBool True)])])]\<rparr>,
     sc_pack = ''identity'',
     sc_metadata = [(''controls'', jstrs [''IA-4'', ''AC-2'', ''IA-8'']), (''ui_section'', JStr ''Identity'')]\<rparr>"

definition SecureEmailRenderer_entry :: ServiceCatalogEntry where
  "SecureEmailRenderer_entry = \<lparr>sc_service_type = ''secure-email'',
     sc_name = ''Secure email'',
     sc_description = ''Governed email relay with TLS, FIPS crypto, DLP, and long-term retention bound to an agency mail provider.'',
     sc_bindable = False,
     sc_tags = [''comms'', ''email'', ''dlp''],
     sc_plans = [\<lparr>sp_id = ''standard'', sp_name = ''standard'',
         sp_description = ''One relay.'',
         sp_free = False, sp_metadata = []\<rparr>],
     sc_parameter_schema = default_schema\<lparr>ps_schema :=
       [
         (''type'', JStr ''object''),
         (''properties'', JObj [
           (''provider'', JObj [(''type'', JStr ''string''), (''default'', JStr ''m365-gcc-high'')]),
           (''classification'', JObj [
             (''type'', JStr ''string''),
             (''enum'', jstrs [''U'', ''CUI'', ''SECRET'']),
             (''default'', JStr ''CUI'')]),
           (''tls_required'', JObj [(''type'', JStr ''boolean''), (''default'', JBool True)]),
           (''cipher_suite'', JObj [
             (''type'', JStr ''string''),
             (''default'', JStr ''TLS_AES_256_GCM_SHA384'')]),
           (''retention_days'', JObj [
             (''type'', JStr ''integer''),
             (''minimum'', JInt 1),
             (''default'', JInt 2555)]),
           (''dlp_enabled'', JObj [(''type'', JStr ''boolean''), (''default'', JBool True)])])]\<rparr>,
     sc_pack = ''comms'',
     sc_metadata = [
       (''controls'', jstrs [''SC-8'', ''SC-13'', ''SI-12'', ''AU-11'']),
       (''ui_section'', JStr ''Comms'')]\<rparr>"

definition SecureChatRenderer_entry :: ServiceCatalogEntry where
  "SecureChatRenderer_entry = \<lparr>sc_service_type = ''secure-chat'',
     sc_name = ''Secure chat'',
     sc_description = ''Governed chat workspace with TLS, FIPS crypto, retention, and federation controls.'',
     sc_bindable = False,
     sc_tags = [''comms'', ''chat''],
     sc_plans = [\<lparr>sp_id = ''standard'', sp_name = ''standard'',
         sp_description = ''One workspace.'',
         sp_free = False, sp_metadata = []\<rparr>],
     sc_parameter_schema = default_schema\<lparr>ps_schema :=
       [
         (''type'', JStr ''object''),
         (''properties'', JObj [
           (''provider'', JObj [(''type'', JStr ''string''), (''default'', JStr ''teams-gcc-high'')]),
           (''classification'', JObj [
             (''type'', JStr ''string''),
             (''enum'', jstrs [''U'', ''CUI'', ''SECRET'']),
             (''default'', JStr ''CUI'')]),
           (''tls_required'', JObj [(''type'', JStr ''boolean''), (''default'', JBool True)]),
           (''cipher_suite'', JObj [
             (''type'', JStr ''string''),
             (''default'', JStr ''TLS_AES_256_GCM_SHA384'')]),
           (''retention_days'', JObj [
             (''type'', JStr ''integer''),
             (''minimum'', JInt 1),
             (''default'', JInt 365)]),
           (''external_federation'', JObj [(''type'', JStr ''boolean''), (''default'', JBool False)])])]\<rparr>,
     sc_pack = ''comms'',
     sc_metadata = [
       (''controls'', jstrs [''SC-8'', ''SC-13'', ''AC-4'', ''SI-12'']),
       (''ui_section'', JStr ''Comms'')]\<rparr>"

definition finops_budget_entry :: ServiceCatalogEntry where
  "finops_budget_entry = \<lparr>sc_service_type = ''budget'',
     sc_name = ''Spend budget'',
     sc_description = ''Set a monthly spend ceiling for a tenant or service scope; provisioning is denied once the budget is breached.'',
     sc_bindable = False,
     sc_tags = [''finops'', ''governance'', ''cost''],
     sc_plans = [\<lparr>sp_id = ''soft'', sp_name = ''soft'',
         sp_description = ''Warn on breach (audit only).'',
         sp_free = False, sp_metadata = []\<rparr>,
       \<lparr>sp_id = ''hard'', sp_name = ''hard'',
         sp_description = ''Deny provisioning on breach.'',
         sp_free = False, sp_metadata = []\<rparr>],
     sc_parameter_schema = default_schema\<lparr>ps_schema :=
       [
         (''type'', JStr ''object''),
         (''required'', jstrs [''scope'', ''limit'']),
         (''properties'', JObj [
           (''scope'', JObj [
             (''type'', JStr ''string''),
             (''description'', JStr ''tenant | service_type:<name> | pack:<name>''),
             (''default'', JStr ''tenant'')]),
           (''limit'', JObj [(''type'', JStr ''number''), (''minimum'', JInt 0)]),
           (''currency'', JObj [(''type'', JStr ''string''), (''default'', JStr ''USD'')]),
           (''period'', JObj [
             (''type'', JStr ''string''),
             (''enum'', jstrs [''monthly'', ''lifetime'']),
             (''default'', JStr ''monthly'')])])]\<rparr>,
     sc_pack = ''finops'',
     sc_metadata = [(''controls'', jstrs [''SA-2'', ''PM-3'']), (''ui_section'', JStr ''FinOps'')]\<rparr>"

definition finops_report_entry :: ServiceCatalogEntry where
  "finops_report_entry = \<lparr>sc_service_type = ''chargeback-report'',
     sc_name = ''Chargeback report'',
     sc_description = (''Generate a costed breakdown of a tenant'' @ [CHR 0x27] @ ''s metered usage for chargeback / showback.''),
     sc_bindable = False,
     sc_tags = [''finops'', ''reporting'', ''cost''],
     sc_plans = [\<lparr>sp_id = ''on-demand'', sp_name = ''on-demand'',
         sp_description = ''Run a report now.'',
         sp_free = False, sp_metadata = []\<rparr>],
     sc_parameter_schema = default_schema\<lparr>ps_schema :=
       [
         (''type'', JStr ''object''),
         (''properties'', JObj [
           (''tenant_id'', JObj [(''type'', JStr ''string'')]),
           (''period'', JObj [(''type'', JStr ''string''), (''default'', JStr ''monthly'')])])]\<rparr>,
     sc_pack = ''finops'',
     sc_metadata = [(''controls'', jstrs [''AU-6'', ''PM-3'']), (''ui_section'', JStr ''FinOps'')]\<rparr>"

lemmas entry_defs = EnvoyRenderer_entry_def
  S3Connector_entry_def
  GitHubConnector_entry_def
  InferenceEndpointRenderer_entry_def
  RagWorkspaceRenderer_entry_def
  SiemWorkspaceRenderer_entry_def
  LogPipelineRenderer_entry_def
  EdgeNodeRenderer_entry_def
  EdgeClusterRenderer_entry_def
  PermissionedLedgerRenderer_entry_def
  ManagedDatabaseRenderer_entry_def
  VectorDbRenderer_entry_def
  CloudAccountRenderer_entry_def
  LandingZoneRenderer_entry_def
  IdpBrokerRenderer_entry_def
  ScimBridgeRenderer_entry_def
  SecureEmailRenderer_entry_def
  SecureChatRenderer_entry_def
  finops_budget_entry_def
  finops_report_entry_def

text \<open>\<open>type(renderer).catalog_entry()\<close> per renderer class; the base class has none.\<close>

definition service_entries :: "ServiceCatalogEntry list" where
  "service_entries = [EnvoyRenderer_entry,
     InferenceEndpointRenderer_entry,
     RagWorkspaceRenderer_entry,
     SiemWorkspaceRenderer_entry,
     LogPipelineRenderer_entry,
     EdgeNodeRenderer_entry,
     EdgeClusterRenderer_entry,
     PermissionedLedgerRenderer_entry,
     ManagedDatabaseRenderer_entry,
     VectorDbRenderer_entry,
     CloudAccountRenderer_entry,
     LandingZoneRenderer_entry,
     IdpBrokerRenderer_entry,
     ScimBridgeRenderer_entry,
     SecureEmailRenderer_entry,
     SecureChatRenderer_entry]"

definition catalog_entry_of :: "renderer \<Rightarrow> ServiceCatalogEntry option" where
  "catalog_entry_of r = find (\<lambda>e. sc_service_type e = rd_service_type r) service_entries"

definition S3Connector_class :: connector_class where
  "S3Connector_class = \<lparr>cn_connector_type = ''s3'', cn_catalog_entry = Some S3Connector_entry\<rparr>"

definition GitHubConnector_class :: connector_class where
  "GitHubConnector_class = \<lparr>cn_connector_type = ''github'', cn_catalog_entry = Some GitHubConnector_entry\<rparr>"

text \<open>\<open>_catalog_entries\<close> and \<open>_install_catalog\<close> of the finops pack: the entries are installed once.\<close>

definition finops_catalog_entries :: "ServiceCatalogEntry list" where
  "finops_catalog_entries = [finops_budget_entry, finops_report_entry]"

definition install_catalog :: "pack \<Rightarrow> pack" where
  "install_catalog p = (if pk_extra_service_catalog p = [] then p\<lparr>pk_extra_service_catalog := finops_catalog_entries\<rparr> else p)"

section \<open>Well-formed entries\<close>

definition as_strings :: "json \<Rightarrow> string list" where
  "as_strings v = (case v of JList xs \<Rightarrow> map (\<lambda>x. case x of JStr s \<Rightarrow> s | _ \<Rightarrow> []) xs | _ \<Rightarrow> [])"

definition as_dict :: "json \<Rightarrow> dict" where
  "as_dict v = (case v of JObj d \<Rightarrow> d | _ \<Rightarrow> [])"

text \<open>A default is one of the enumerated values and within the declared bounds.\<close>

definition property_ok :: "dict \<Rightarrow> bool" where
  "property_ok p = (case jget p ''default'' of
     JNull \<Rightarrow> True
   | JInt n \<Rightarrow> (case jget p ''minimum'' of JInt a \<Rightarrow> a \<le> n | _ \<Rightarrow> True) \<and> (case jget p ''maximum'' of JInt b \<Rightarrow> n \<le> b | _ \<Rightarrow> True)
   | JStr s \<Rightarrow> (case jget p ''enum'' of JList xs \<Rightarrow> s \<in> set (as_strings (JList xs)) | _ \<Rightarrow> True)
   | _ \<Rightarrow> True)"

definition schema_ok :: "dict \<Rightarrow> bool" where
  "schema_ok s = (let ps = as_dict (jget s ''properties'') in
     distinct (map fst ps) \<and> list_all (\<lambda>r. r \<in> set (map fst ps)) (as_strings (jget s ''required'')) \<and>
     list_all (property_ok \<circ> as_dict \<circ> snd) ps)"

definition entry_ok :: "ServiceCatalogEntry \<Rightarrow> bool" where
  "entry_ok e = (sc_service_type e \<noteq> [] \<and> sc_plans e \<noteq> [] \<and> distinct (map sp_id (sc_plans e)) \<and>
     schema_ok (ps_schema (sc_parameter_schema e)))"

lemma service_entries_ok: "list_all entry_ok service_entries"
  by code_simp

lemma service_entries_distinct: "distinct (map sc_service_type service_entries)"
  by code_simp

text \<open>Every shipped renderer class, and the chassis renderer, has its entry.\<close>

lemma catalog_entry_of_type: "catalog_entry_of r = Some e \<Longrightarrow> sc_service_type e = rd_service_type r \<and> e \<in> set service_entries"
  by (auto simp: catalog_entry_of_def find_Some_iff)

lemma service_entry_types: "set (map sc_service_type service_entries) = {''sovereign-envoy-lb'',
    ''inference-endpoint'',
    ''rag-workspace'',
    ''siem-workspace'',
    ''log-pipeline'',
    ''edge-node'',
    ''edge-cluster'',
    ''permissioned-ledger'',
    ''managed-database'',
    ''vector-db'',
    ''cloud-account'',
    ''landing-zone'',
    ''idp-broker'',
    ''scim-bridge'',
    ''secure-email'',
    ''secure-chat''}"
  by code_simp

lemma catalog_entry_of_shipped:
  assumes "rd_service_type r \<in> set (map sc_service_type service_entries)"
  shows "\<exists>e. catalog_entry_of r = Some e"
  using assms by (auto simp: catalog_entry_of_def find_None_iff simp flip: not_None_eq)

end
