(* ===== verification/CatalogRoutes.thy ===== *)
theory CatalogRoutes
  imports CatalogEntries Broker
begin

text \<open>
  Model of the start-up and catalog part of \<open>apps/broker/app/main.py\<close>: \<open>_seed_catalog\<close>, \<open>_ensure_tenancy_tables\<close>,
  \<open>_startup\<close>, \<open>healthz\<close> and \<open>get_catalog\<close>, and \<open>_startup\<close> and \<open>healthz\<close> of the control plane. Creating a table is
  a program given as an argument. Shown: start-up never fails, after it the catalog table holds the
  entry of every registered service type and connector, and the catalog is answered from the live
  registries when the table cannot be read.
\<close>

section \<open>Entries of the registries\<close>

definition live_services :: "renderers \<Rightarrow> ServiceCatalogEntry list" where
  "live_services rs = List.map_filter (\<lambda>st. Option.bind (get_renderer rs st) catalog_entry_of) (service_types rs)"

definition live_connectors :: "connectors \<Rightarrow> ConnectorCatalogEntry list" where
  "live_connectors cs = List.map_filter (\<lambda>ct. Option.bind (Packs.get_connector cs ct) cn_catalog_entry) (connector_types cs)"

section \<open>Seeding\<close>

text \<open>One entry is written; a failure is logged and counts nothing.\<close>

definition seed_one :: "unit prog \<Rightarrow> nat \<Rightarrow> nat prog" where
  "seed_one put n = bind_io (try_io put) (\<lambda>r. ret (case r of Inl _ \<Rightarrow> n | Inr _ \<Rightarrow> Suc n))"

definition seed_entries :: "('a \<Rightarrow> unit prog) \<Rightarrow> 'a list \<Rightarrow> nat prog" where
  "seed_entries put es = fold_io (\<lambda>e. seed_one (put e)) es 0"

definition seed_catalog :: "env \<Rightarrow> unit prog \<Rightarrow> chassis \<Rightarrow> (nat \<times> nat) option prog" where
  "seed_catalog E ensure_table c = bind_io (try_io ensure_table) (\<lambda>r. case r of
     Inl _ \<Rightarrow> ret None
   | Inr _ \<Rightarrow> bind_io (seed_entries (put_service E) (live_services (ch_renderers c))) (\<lambda>services.
       bind_io (seed_entries (put_connector E) (live_connectors (ch_connectors c))) (\<lambda>conns.
         ret (Some (services, conns)))))"

section \<open>Start-up\<close>

fun ensure_tables :: "('ev, exn, unit) io list \<Rightarrow> ('ev, exn, unit) io" where
  "ensure_tables [] = ret ()"
| "ensure_tables (e # es) = bind_io (try_io e) (\<lambda>_. ensure_tables es)"

definition broker_startup :: "env \<Rightarrow> unit prog \<Rightarrow> unit prog list \<Rightarrow> unit prog \<Rightarrow> (exn + pack) list \<Rightarrow> executors \<Rightarrow> chassis \<Rightarrow>
    (executors \<times> chassis) prog" where
  "broker_startup E ensure_store ensurers ensure_catalog eps xs c =
     bind_io (lift_res (register_default_executors xs)) (\<lambda>xs'.
     bind_io (try_io ensure_store) (\<lambda>_.
     let c' = snd (discover_packs eps c) in
     seq_io (ensure_tables ensurers)
       (bind_io (seed_catalog E ensure_catalog c') (\<lambda>_. ret (xs', c')))))"

text \<open>The control plane makes sure that its bucket exists; \<open>head\<close> and \<open>create\<close> are the calls of the S3 client.\<close>

definition cp_startup :: "unit prog \<Rightarrow> unit prog \<Rightarrow> (exn + pack) list \<Rightarrow> executors \<Rightarrow> chassis \<Rightarrow> (executors \<times> chassis) prog" where
  "cp_startup head_bucket create_bucket eps xs c =
     bind_io (lift_res (register_default_executors xs)) (\<lambda>xs'.
     let c' = snd (discover_packs eps c) in
     seq_io (catch_io (catch_io head_bucket (\<lambda>x. if is_ClientError x then create_bucket else throw x))
         (\<lambda>x. if is_ClientError x \<or> is_BotoCoreError x then ret () else throw x))
       (ret (xs', c')))"

definition healthz :: "string \<Rightarrow> (string \<Rightarrow> bool) \<Rightarrow> executors \<Rightarrow> chassis \<Rightarrow> dict" where
  "healthz service exists_dir xs c = [(''status'', JStr ''ok''), (''service'', JStr service), (''renderers'', jstrs (service_types (ch_renderers c))),
     (''executors'', jstrs (executor_kinds xs))] @
     (if service = ''broker'' then [(''connectors'', jstrs (connector_types (ch_connectors c)))] else []) @
     [(''packs'', JList (map JObj (registered_packs c))), (''policy_bundles'', jstrs (collect_policy_bundle_dirs exists_dir c))]"

section \<open>The catalog route\<close>

definition service_json :: "ServiceCatalogEntry \<Rightarrow> json" where
  "service_json e = JObj [(''id'', JStr (sc_service_type e)), (''name'', JStr (sc_name e)), (''description'', JStr (sc_description e)),
     (''bindable'', JBool (sc_bindable e)), (''tags'', jstrs (sc_tags e)),
     (''metadata'', JObj (AList.update ''pack'' (JStr (sc_pack e)) (sc_metadata e))),
     (''plans'', JList (map dump_plan (sc_plans e))), (''parameter_schema'', dump_schema (sc_parameter_schema e))]"

definition connector_json :: "ConnectorCatalogEntry \<Rightarrow> json" where
  "connector_json e = JObj [(''id'', JStr (cc_connector_type e)), (''name'', JStr (cc_name e)), (''description'', JStr (cc_description e)),
     (''metadata'', JObj (AList.update ''pack'' (JStr (cc_pack e)) (cc_metadata e))),
     (''capabilities'', jstrs (cc_capabilities e)), (''config_schema'', dump_schema (cc_config_schema e))]"

definition catalog_json :: "ServiceCatalogEntry list \<Rightarrow> ConnectorCatalogEntry list \<Rightarrow> dict" where
  "catalog_json ss cs = [(''services'', JList (map service_json ss)), (''connectors'', JList (map connector_json cs))]"

definition get_catalog :: "env \<Rightarrow> string option \<Rightarrow> (string \<times> string) option \<Rightarrow> chassis \<Rightarrow> dict prog" where
  "get_catalog E authorization creds c = bind_io (identify E authorization creds) (\<lambda>_.
     catch_io (bind_io (list_services E) (\<lambda>ss. bind_io (list_connectors E) (\<lambda>cs. ret (catalog_json ss cs))))
       (\<lambda>x. if is_RuntimeError x then ret (catalog_json (live_services (ch_renderers c)) (live_connectors (ch_connectors c)))
            else throw x))"

section \<open>Registries are keyed by the names of their objects\<close>

context registry
begin

lemma keyed_try:
  assumes "\<forall>k v. lookup r k = Some v \<longrightarrow> name_of v = k"
  shows "\<forall>k v. lookup (try_register register w r) k = Some v \<longrightarrow> name_of v = k"
proof (cases "register w r")
  case (Inr r')
  with lookup_register [OF Inr] assms show ?thesis by (simp add: try_register_def)
qed (use assms in \<open>simp add: try_register_def\<close>)

lemma keyed_fold:
  "\<forall>k v. lookup r k = Some v \<longrightarrow> name_of v = k \<Longrightarrow> \<forall>k v. lookup (fold (try_register register) ws r) k = Some v \<longrightarrow> name_of v = k"
proof (induction ws arbitrary: r)
  case (Cons w ws)
  from Cons.IH [OF keyed_try [OF Cons.prems]] show ?case by (simp only: fold_simps)
qed (simp only: fold_simps)

end

definition keyed_renderers :: "renderers \<Rightarrow> bool" where
  "keyed_renderers rs \<longleftrightarrow> (\<forall>k r. get_renderer rs k = Some r \<longrightarrow> rd_service_type r = k)"

lemma keyed_register_pack:
  assumes "keyed_renderers (ch_renderers c)"
  shows "keyed_renderers (ch_renderers (register_pack p c))"
proof -
  have "ch_renderers (register_pack p c) = fold (try_register register_renderer) (pk_renderers p) (ch_renderers c)"
    by (simp add: register_pack_def pack_register_def)
  with renderer_registry.keyed_fold [OF assms [unfolded keyed_renderers_def], of "pk_renderers p"]
  show ?thesis by (simp only: keyed_renderers_def)
qed

lemma keyed_discover:
  assumes "keyed_renderers (ch_renderers c)"
  shows "keyed_renderers (ch_renderers (snd (discover_packs eps c)))"
proof -
  have "keyed_renderers (ch_renderers (snd (discover_loop eps c ds)))" if "keyed_renderers (ch_renderers c)" for ds c
    using that
  proof (induction eps arbitrary: c ds)
    case (Cons e eps)
    then show ?case by (cases e) (simp_all only: discover_loop.simps keyed_register_pack)
  qed simp
  with assms show ?thesis by (simp only: discover_packs_def)
qed

section \<open>What seeding leaves behind\<close>

lemma live_services_distinct: 
  assumes "keyed_renderers rs"
  shows "distinct (map sc_service_type (live_services rs))"
proof -
  let ?f = "\<lambda>st. Option.bind (get_renderer rs st) catalog_entry_of"
  have type: "sc_service_type e = st" if "?f st = Some e" for st e
    using that assms catalog_entry_of_type by (auto simp: bind_eq_Some_conv keyed_renderers_def)
  have "map sc_service_type (List.map_filter ?f sts) = filter (\<lambda>st. ?f st \<noteq> None) sts" for sts
    using type by (induction sts) (auto simp: map_filter_simps split: option.split)
  then show ?thesis unfolding live_services_def by (simp add: service_types_def)
qed

lemma live_services_iff:
  assumes "keyed_renderers rs"
  shows "e \<in> set (live_services rs) \<longleftrightarrow> (\<exists>r. get_renderer rs (sc_service_type e) = Some r \<and> catalog_entry_of r = Some e)"
proof -
  have st: "st \<in> set (service_types rs) \<longleftrightarrow> get_renderer rs st \<noteq> None" for st
    using renderer_registry.listing_set [of rs] by auto
  have "e \<in> set (live_services rs) \<longleftrightarrow> (\<exists>st\<in>set (service_types rs). Option.bind (get_renderer rs st) catalog_entry_of = Some e)"
    by (force simp: live_services_def List.map_filter_def)
  also have "\<dots> \<longleftrightarrow> (\<exists>st r. get_renderer rs st = Some r \<and> catalog_entry_of r = Some e)"
    by (auto simp: st bind_eq_Some_conv)
  also have "\<dots> \<longleftrightarrow> (\<exists>r. get_renderer rs (sc_service_type e) = Some r \<and> catalog_entry_of r = Some e)"
  proof -
    have "sc_service_type e = st" if "get_renderer rs st = Some r" "catalog_entry_of r = Some e" for st r
      using that assms catalog_entry_of_type [of r e] unfolding keyed_renderers_def by metis
    then show ?thesis by blast
  qed
  finally show ?thesis .
qed

lemma seed_entries_run:
  assumes "\<And>e h. put e h = (Inr (), h @ [ev e])"
  shows "seed_entries put es h = (Inr (length es), h @ map ev es)"
proof -
  have "fold_io (\<lambda>e. seed_one (put e)) es n h = (Inr (n + length es), h @ map ev es)" for n
    by (induction es arbitrary: n h) (auto simp: seed_one_def bind_io_def try_io_def ret_def assms)
  then show ?thesis by (simp add: seed_entries_def)
qed

lemma seed_entries_total: "\<exists>n h'. seed_entries put es h = (Inr n, h')"
proof -
  have "\<exists>n' h'. fold_io (\<lambda>e. seed_one (put e)) es n h = (Inr n', h')" for n
    by (induction es arbitrary: n h) (auto simp: seed_one_def bind_io_def try_io_def ret_def split: prod.split)
  then show ?thesis by (simp add: seed_entries_def)
qed

lemma seed_catalog_total: "\<exists>r h'. seed_catalog E ensure c h = (Inr r, h')"
proof (cases "ensure h")
  case (Pair r h1)
  show ?thesis
  proof (cases r)
    case (Inl x)
    with Pair show ?thesis by (simp add: seed_catalog_def bind_io_def try_io_def ret_def)
  next
    case (Inr u)
    obtain n h2 where n: "seed_entries (put_service E) (live_services (ch_renderers c)) h1 = (Inr n, h2)" using seed_entries_total by blast
    obtain m h3 where "seed_entries (put_connector E) (live_connectors (ch_connectors c)) h2 = (Inr m, h3)" using seed_entries_total by blast
    with Pair Inr n show ?thesis by (simp add: seed_catalog_def bind_io_def try_io_def ret_def)
  qed
qed

lemma ensure_tables_total: "\<exists>h'. ensure_tables es h = (Inr (), h')"
  by (induction es arbitrary: h) (auto simp: bind_io_def try_io_def ret_def split: prod.split)

lemma default_executors_ok: "\<exists>xs'. register_default_executors xs = Inr xs'"
  unfolding register_default_executors_def by (rule executor_registry.register_all_ok) code_simp

lemma broker_startup_total:
  "\<exists>xs' h'. broker_startup E ensure_store ensurers ensure_catalog eps xs c h = (Inr (xs', snd (discover_packs eps c)), h') \<and>
     register_default_executors xs = Inr xs'"
proof -
  obtain xs' where xs: "register_default_executors xs = Inr xs'"
    using default_executors_ok by blast
  obtain r h1 where s: "(try_io ensure_store :: (exn + unit) prog) h = (Inr r, h1)"
    by (cases "ensure_store h") (auto simp: try_io_def)
  obtain h2 where e: "ensure_tables ensurers h1 = (Inr (), h2)" using ensure_tables_total by blast
  obtain q h3 where "seed_catalog E ensure_catalog (snd (discover_packs eps c)) h2 = (Inr q, h3)" using seed_catalog_total by blast
  with xs s e show ?thesis by (simp add: broker_startup_def bind_io_def seq_io_def ret_def lift_res_def Let_def)
qed

text \<open>The row of an entry, and the last write per key.\<close>

definition service_row :: "env \<Rightarrow> ServiceCatalogEntry \<Rightarrow> item" where
  "service_row E e = \<lparr>it_key = [''service'', sc_service_type e], it_attrs = [], it_payload = PText (JObj (dump_service_entry E e))\<rparr>"

definition connector_row :: "env \<Rightarrow> ConnectorCatalogEntry \<Rightarrow> item" where
  "connector_row E e = \<lparr>it_key = [''connector'', cc_connector_type e], it_attrs = [], it_payload = PText (JObj (dump_connector_entry E e))\<rparr>"

lemma rows_view:
  assumes "distinct (map (it_key \<circ> row) es)"
  shows "table_view c0 (map (\<lambda>e. EvPut CATALOG_TABLE (row e) (Inr ())) es) CATALOG_TABLE k =
    (case find (\<lambda>e. it_key (row e) = k) es of Some e \<Rightarrow> Some (row e) | None \<Rightarrow> c0 CATALOG_TABLE k)"
  using assms
proof (induction es arbitrary: c0)
  case (Cons e es)
  have "find (\<lambda>e'. it_key (row e') = it_key (row e)) es = None"
    using Cons.prems by (auto simp: find_None_iff image_iff)
  with Cons show ?case by (cases "it_key (row e) = k") (auto split: option.split)
qed simp

lemma seed_catalog_rows:
  assumes puts: "\<And>h i. env_put_item E h CATALOG_TABLE i = Inr ()" and ens: "ensure h = (Inr (), h0)"
    and keyed: "keyed_renderers (ch_renderers c)"
  shows "\<exists>h'. seed_catalog E ensure c h = (Inr (Some (length (live_services (ch_renderers c)), length (live_connectors (ch_connectors c)))), h') \<and>
    (\<forall>e\<in>set (live_services (ch_renderers c)). table_view c0 h' CATALOG_TABLE [''service'', sc_service_type e] = Some (service_row E e))"
proof -
  let ?ss = "live_services (ch_renderers c)" and ?cs = "live_connectors (ch_connectors c)"
  have s: "put_service E e h = (Inr (), h @ [EvPut CATALOG_TABLE (service_row E e) (Inr ())])" for e h
    by (simp add: put_service_def service_row_def put_item_def puts)
  have k: "put_connector E e h = (Inr (), h @ [EvPut CATALOG_TABLE (connector_row E e) (Inr ())])" for e h
    by (simp add: put_connector_def connector_row_def put_item_def puts)
  let ?h = "h0 @ map (\<lambda>e. EvPut CATALOG_TABLE (service_row E e) (Inr ())) ?ss @ map (\<lambda>e. EvPut CATALOG_TABLE (connector_row E e) (Inr ())) ?cs"
  have run: "seed_catalog E ensure c h = (Inr (Some (length ?ss, length ?cs)), ?h)"
    using seed_entries_run [of "put_service E" _ ?ss, OF s] seed_entries_run [of "put_connector E" _ ?cs, OF k]
    by (simp add: seed_catalog_def bind_io_def try_io_def ret_def ens)
  have other: "table_view v (map (\<lambda>e. EvPut CATALOG_TABLE (connector_row E e) (Inr ())) es) CATALOG_TABLE [''service'', st] = v CATALOG_TABLE [''service'', st]" for v es st
    by (induction es arbitrary: v) (simp_all add: connector_row_def)
  have d: "distinct (map (it_key \<circ> service_row E) ?ss)"
    using live_services_distinct [OF keyed] by (auto simp: service_row_def distinct_map inj_on_def)
  have "table_view c0 ?h CATALOG_TABLE [''service'', sc_service_type e] = Some (service_row E e)" if "e \<in> set ?ss" for e
  proof -
    have "find (\<lambda>e'. it_key (service_row E e') = [''service'', sc_service_type e]) ?ss = Some e"
    proof (rule ccontr)
      assume n: "\<not> ?thesis"
      have "find (\<lambda>e'. it_key (service_row E e') = [''service'', sc_service_type e]) ?ss \<noteq> None"
        unfolding find_None_iff using that by (auto simp: service_row_def)
      then obtain e' where "find (\<lambda>e'. it_key (service_row E e') = [''service'', sc_service_type e]) ?ss = Some e'" by blast
      then have "e' \<in> set ?ss" "sc_service_type e' = sc_service_type e" "e' \<noteq> e" using n by (auto simp: find_Some_iff service_row_def)
      with that live_services_distinct [OF keyed] show False by (auto simp: distinct_map inj_on_def)
    qed
    then show ?thesis using rows_view [OF d] by (simp add: other)
  qed
  with run show ?thesis by blast
qed

lemma get_catalog_fallback:
  assumes "identify E authorization creds h = (Inr caller, h1)" and "list_services E h1 = (Inl x, h2)" and "is_RuntimeError x"
  shows "get_catalog E authorization creds c h =
    (Inr (catalog_json (live_services (ch_renderers c)) (live_connectors (ch_connectors c))), h2)"
  using assms by (simp add: get_catalog_def bind_io_def catch_io_def ret_def)

end
