(* ===== verification/Connectors.thy ===== *)
theory Connectors
  imports Authz
begin

text \<open>
  Models of \<open>libs/common/sovereign/connectors/\<close>: the types every connector uses, and the S3 and GitHub
  connectors (connect, list, ingest, health). The clients they build (boto3, httpx) are parameters.
  The locale \<open>ingester\<close> is the contract of an ingest: it needs a connection, it writes nothing unless
  the data fits the limit, and what it reports is what it staged. Both connectors interpret it.
\<close>

section \<open>Types\<close>

record ConnectorCredentials =
  cc_kind :: string
  cc_data :: dict

record ConnectionResult =
  cr_ok :: bool
  cr_principal :: string
  cr_detail :: string

record ResourceDescriptor =
  rd_connector_type :: string
  rd_resource_id :: string
  rd_name :: string
  rd_kind :: string
  rd_size_bytes :: "int option"
  rd_last_modified :: "datetime option"
  rd_metadata :: dict

record IngestOptions =
  io_destination_bucket :: string
  io_destination_prefix :: string
  io_max_size_bytes :: "int option"
  io_filters :: dict

record IngestResult =
  ir_ok :: bool
  ir_items_count :: int
  ir_bytes_transferred :: int
  ir_staged_paths :: "string list"
  ir_detail :: string

record HealthStatus =
  hs_ok :: bool
  hs_message :: string

definition connection_failed :: "string \<Rightarrow> ConnectionResult" where
  "connection_failed d = \<lparr>cr_ok = False, cr_principal = [], cr_detail = d\<rparr>"

text \<open>\<open>ConnectionResult(ok=True, principal=p)\<close>: the field is a string.\<close>

definition connection_ok :: "json \<Rightarrow> exn + ConnectionResult" where
  "connection_ok p = (case p of JStr s \<Rightarrow> Inr \<lparr>cr_ok = True, cr_principal = s, cr_detail = []\<rparr> | _ \<Rightarrow> Inl (ValidationError ''ConnectionResult''))"

definition ingest_failed :: "string \<Rightarrow> IngestResult" where
  "ingest_failed d = \<lparr>ir_ok = False, ir_items_count = 0, ir_bytes_transferred = 0, ir_staged_paths = [], ir_detail = d\<rparr>"

definition ingest_done :: "string \<Rightarrow> string \<Rightarrow> string \<Rightarrow> IngestResult" where
  "ingest_done bucket key body = \<lparr>ir_ok = True, ir_items_count = 1, ir_bytes_transferred = int (length body),
     ir_staged_paths = [bucket @ ''/'' @ key], ir_detail = []\<rparr>"

definition is_aws_error :: "exn \<Rightarrow> bool" where
  "is_aws_error x \<longleftrightarrow> is_ClientError x \<or> is_BotoCoreError x"

definition too_large :: "IngestOptions \<Rightarrow> string \<Rightarrow> bool" where
  "too_large opts body = (case io_max_size_bytes opts of None \<Rightarrow> False | Some n \<Rightarrow> n < int (length body))"

definition size_exceeded :: "string \<Rightarrow> IngestOptions \<Rightarrow> string \<Rightarrow> IngestResult" where
  "size_exceeded what opts body = ingest_failed (what @ '' '' @ str_of_int (int (length body)) @ '' bytes exceeds max_size_bytes='' @
     (case io_max_size_bytes opts of Some n \<Rightarrow> str_of_int n | None \<Rightarrow> ''None''))"

definition wrong_kind :: "string \<Rightarrow> string \<Rightarrow> ResourceDescriptor \<Rightarrow> IngestResult" where
  "wrong_kind cls leaf resource = ingest_failed (cls @ '' ingest expects kind='' @ py_repr leaf @ '', got '' @ py_repr (rd_kind resource))"

definition strip_slashes :: "string \<Rightarrow> string" where
  "strip_slashes s = rstrip_if (\<lambda>c. c = CHR ''/'') s"

definition staged_key :: "IngestOptions \<Rightarrow> string \<Rightarrow> string" where
  "staged_key opts tail = lstrip_if (\<lambda>c. c = CHR ''/'') (strip_slashes (io_destination_prefix opts) @ ''/'' @ tail)"

text \<open>Fields of a descriptor read from an answer: a required string, an optional value of a type.\<close>

definition need_str :: "dict \<Rightarrow> string \<Rightarrow> exn + string" where
  "need_str d k = (case map_of d k of None \<Rightarrow> Inl (KeyError k) | Some (JStr s) \<Rightarrow> Inr s | Some _ \<Rightarrow> Inl (ValidationError k))"

definition opt_field :: "(json \<Rightarrow> 'a option) \<Rightarrow> dict \<Rightarrow> string \<Rightarrow> exn + 'a option" where
  "opt_field dec d k = (case jget d k of JNull \<Rightarrow> Inr None
     | v \<Rightarrow> (case dec v of Some a \<Rightarrow> Inr (Some a) | None \<Rightarrow> Inl (ValidationError k)))"

fun obj_list :: "json list \<Rightarrow> exn + dict list" where
  "obj_list [] = Inr []"
| "obj_list (JObj d # js) = (case obj_list js of Inl x \<Rightarrow> Inl x | Inr ds \<Rightarrow> Inr (d # ds))"
| "obj_list (_ # js) = Inl (TypeError ''indices must be integers'')"

fun build_all :: "('a \<Rightarrow> exn + 'b) \<Rightarrow> 'a list \<Rightarrow> exn + 'b list" where
  "build_all f [] = Inr []"
| "build_all f (x # xs) = (case f x of Inl e \<Rightarrow> Inl e | Inr y \<Rightarrow> (case build_all f xs of Inl e \<Rightarrow> Inl e | Inr ys \<Rightarrow> Inr (y # ys)))"

section \<open>S3\<close>

text \<open>The client and its endpoint: \<open>sl_env\<close> answers object reads and writes made through it.\<close>

record s3_client_lib =
  sl_new_client :: "dict \<Rightarrow> exn + unit"
  sl_new_sts :: "json \<Rightarrow> exn + unit"
  sl_identity :: "event list \<Rightarrow> aws_error + dict"
  sl_list_buckets :: "event list \<Rightarrow> aws_error + dict"
  sl_list_objects :: "event list \<Rightarrow> dict \<Rightarrow> aws_error + dict"
  sl_content_type :: "string \<Rightarrow> string \<Rightarrow> string option"
  sl_env :: env

record S3Connector =
  s3_client :: bool
  s3_principal :: json
  s3_endpoint_url :: json
  s3_region :: json

definition new_s3_connector :: S3Connector where
  "new_s3_connector = \<lparr>s3_client = False, s3_principal = JStr [], s3_endpoint_url = JNull, s3_region = JStr ''us-east-1''\<rparr>"

definition s3_client_kwargs :: "S3Connector \<Rightarrow> dict" where
  "s3_client_kwargs c = [(''service_name'', JStr ''s3''), (''region_name'', s3_region c)] @
     (if jtruthy (s3_endpoint_url c) then [(''endpoint_url'', s3_endpoint_url c)] else [])"

text \<open>The keyword arguments per kind of credentials; \<open>None\<close> for a kind that is not supported.\<close>

definition s3_credentials :: "ConnectorCredentials \<Rightarrow> (exn + dict) option" where
  "s3_credentials cred = (if cc_kind cred = ''aws_access_key'' then Some (case map_of (cc_data cred) ''access_key_id'' of
       None \<Rightarrow> Inl (KeyError ''access_key_id'')
     | Some k \<Rightarrow> (case map_of (cc_data cred) ''secret_access_key'' of
         None \<Rightarrow> Inl (KeyError ''secret_access_key'')
       | Some s \<Rightarrow> Inr [(''aws_access_key_id'', k), (''aws_secret_access_key'', s)]))
     else if cc_kind cred = ''aws_iam_role'' then Some (Inr []) else None)"

definition aws_outcome :: "env \<Rightarrow> exn \<Rightarrow> S3Connector \<Rightarrow> (exn + ConnectionResult) \<times> S3Connector" where
  "aws_outcome E x c = (if is_aws_error x then Inr (connection_failed (env_str_exn E x)) else Inl x, c)"

definition s3_connect :: "s3_client_lib \<Rightarrow> ConnectorCredentials \<Rightarrow> S3Connector \<Rightarrow> ((exn + ConnectionResult) \<times> S3Connector) prog" where
  "s3_connect L cred c0 = (\<lambda>h. (Inr (
     let E = sl_env L; c = c0\<lparr>s3_endpoint_url := jget (cc_data cred) ''endpoint_url'', s3_region := jget_or (cc_data cred) ''region'' (JStr ''us-east-1'')\<rparr>
     in case s3_credentials cred of
       None \<Rightarrow> (Inr (connection_failed (''unsupported credential kind for S3: '' @ py_repr (cc_kind cred))), c)
     | Some (Inl x) \<Rightarrow> (Inl x, c)
     | Some (Inr kw) \<Rightarrow> (case sl_new_client L (s3_client_kwargs c @ kw) of
         Inl x \<Rightarrow> aws_outcome E x c
       | Inr _ \<Rightarrow> (let c' = c\<lparr>s3_client := True\<rparr> in case sl_new_sts L (s3_region c) of
           Inl x \<Rightarrow> aws_outcome E x c'
         | Inr _ \<Rightarrow> (case sl_identity L h of
             Inr ident \<Rightarrow> (let p = jget_or ident ''Arn'' (jget_or ident ''Account'' (JStr [])) in (connection_ok p, c'\<lparr>s3_principal := p\<rparr>))
           | Inl _ \<Rightarrow> (case sl_list_buckets L h of
               Inl e \<Rightarrow> aws_outcome E (aws_exn e) c'
             | Inr _ \<Rightarrow> (connection_ok (JStr ''s3-connection''), c'\<lparr>s3_principal := JStr ''s3-connection''\<rparr>)))))), h))"

definition s3_bucket_descriptor :: "env \<Rightarrow> dict \<Rightarrow> exn + ResourceDescriptor" where
  "s3_bucket_descriptor E b = (case need_str b ''Name'' of Inl x \<Rightarrow> Inl x
     | Inr name \<Rightarrow> (case opt_field (env_pyd_datetime E) b ''CreationDate'' of Inl x \<Rightarrow> Inl x
         | Inr t \<Rightarrow> Inr \<lparr>rd_connector_type = ''s3'', rd_resource_id = name, rd_name = name, rd_kind = ''bucket'',
             rd_size_bytes = None, rd_last_modified = t, rd_metadata = []\<rparr>))"

definition s3_object_descriptor :: "env \<Rightarrow> json \<Rightarrow> dict \<Rightarrow> exn + ResourceDescriptor" where
  "s3_object_descriptor E bucket obj = (case need_str obj ''Key'' of Inl x \<Rightarrow> Inl x
     | Inr key \<Rightarrow> (case opt_field (env_pyd_int E) obj ''Size'' of Inl x \<Rightarrow> Inl x
         | Inr n \<Rightarrow> (case opt_field (env_pyd_datetime E) obj ''LastModified'' of Inl x \<Rightarrow> Inl x
             | Inr t \<Rightarrow> Inr \<lparr>rd_connector_type = ''s3'', rd_resource_id = py_str E bucket @ ''/'' @ key, rd_name = key, rd_kind = ''object'',
                 rd_size_bytes = n, rd_last_modified = t,
                 rd_metadata = [(''etag'', jget_or obj ''ETag'' (JStr [])), (''bucket'', bucket)]\<rparr>)))"

definition listed :: "json \<Rightarrow> exn + dict list" where
  "listed v = (case v of JList xs \<Rightarrow> obj_list xs | JNull \<Rightarrow> Inr [] | _ \<Rightarrow> Inl (TypeError ''not iterable''))"

definition not_connected :: "string \<Rightarrow> string \<Rightarrow> exn" where
  "not_connected cls what = RuntimeError (cls @ ''.connect() must run before '' @ what)"

definition s3_list_resources :: "s3_client_lib \<Rightarrow> S3Connector \<Rightarrow> dict \<Rightarrow> ResourceDescriptor list prog" where
  "s3_list_resources L c filters = (\<lambda>h. (
     if \<not> s3_client c then Inl (not_connected ''S3Connector'' ''list_resources'')
     else let E = sl_env L; bucket = jget filters ''bucket'' in
       if \<not> jtruthy bucket then (case sl_list_buckets L h of
           Inl _ \<Rightarrow> Inr []
         | Inr resp \<Rightarrow> (case listed (jget_or resp ''Buckets'' (JList [])) of Inl x \<Rightarrow> Inl x | Inr bs \<Rightarrow> build_all (s3_bucket_descriptor E) bs))
       else (case sl_list_objects L h ([(''Bucket'', bucket)] @
             (case map_of filters ''prefix'' of None \<Rightarrow> [] | Some p \<Rightarrow> [(''Prefix'', p)]) @
             (case map_of filters ''max_keys'' of None \<Rightarrow> [] | Some n \<Rightarrow> [(''MaxKeys'', n)])) of
           Inl _ \<Rightarrow> Inr []
         | Inr resp \<Rightarrow> (case listed (jget resp ''Contents'') of Inl x \<Rightarrow> Inl x | Inr objs \<Rightarrow> build_all (s3_object_descriptor E bucket) objs)), h))"

text \<open>\<open>try: ... except (ClientError, BotoCoreError) as exc: return failed(...)\<close>\<close>

definition aws_or_failed :: "env \<Rightarrow> string \<Rightarrow> 'a prog \<Rightarrow> ('a \<Rightarrow> IngestResult prog) \<Rightarrow> IngestResult prog" where
  "aws_or_failed E what m k = bind_io (try_io m) (\<lambda>res. case res of
     Inr a \<Rightarrow> k a
   | Inl x \<Rightarrow> if is_aws_error x then ret (ingest_failed (what @ env_str_exn E x)) else throw x)"

definition s3_ingest :: "s3_client_lib \<Rightarrow> S3Connector \<Rightarrow> ResourceDescriptor \<Rightarrow> IngestOptions \<Rightarrow> IngestResult prog" where
  "s3_ingest L c resource opts = (if \<not> s3_client c then throw (not_connected ''S3Connector'' ''ingest'')
     else if rd_kind resource \<noteq> ''object''
       then ret (wrong_kind ''S3'' ''object'' resource)
     else (case partition_at (CHR ''/'') (rd_resource_id resource) of
       (_, False, _) \<Rightarrow> ret (ingest_failed ''malformed resource_id'')
     | (src_bucket, True, src_key) \<Rightarrow> aws_or_failed (sl_env L) ''source read failed: '' (s3_get (sl_env L) src_bucket src_key) (\<lambda>body.
         if too_large opts body then ret (size_exceeded ''object'' opts body)
         else aws_or_failed (sl_env L) ''staging write failed: ''
           (s3_put (sl_env L) (io_destination_bucket opts) (staged_key opts src_key) body
              (case sl_content_type L src_bucket src_key of Some t \<Rightarrow> t | None \<Rightarrow> ''application/octet-stream''))
           (\<lambda>_. ret (ingest_done (io_destination_bucket opts) (staged_key opts src_key) body)))))"

definition s3_health_check :: "s3_client_lib \<Rightarrow> S3Connector \<Rightarrow> HealthStatus prog" where
  "s3_health_check L c = (\<lambda>h. (Inr (if \<not> s3_client c then \<lparr>hs_ok = False, hs_message = ''not connected''\<rparr>
     else (case sl_list_buckets L h of
       Inl e \<Rightarrow> \<lparr>hs_ok = False, hs_message = env_str_exn (sl_env L) (aws_exn e)\<rparr>
     | Inr _ \<Rightarrow> \<lparr>hs_ok = True, hs_message = ''principal='' @ py_str (sl_env L) (s3_principal c)\<rparr>)), h))"

section \<open>GitHub\<close>

text \<open>\<open>gl_int\<close> is \<open>int()\<close> and \<open>gl_b64\<close> is \<open>base64.b64decode\<close>.\<close>

record github_lib =
  gl_int :: "json \<Rightarrow> exn + int"
  gl_b64 :: "json \<Rightarrow> exn + string"

record GitHubConnector =
  gh_client :: "(string \<times> (string \<times> string) list) option"
  gh_principal :: json
  gh_host :: json

definition new_github_connector :: GitHubConnector where
  "new_github_connector = \<lparr>gh_client = None, gh_principal = JStr [], gh_host = JStr ''api.github.com''\<rparr>"

definition client_get :: "env \<Rightarrow> string \<times> (string \<times> string) list \<Rightarrow> string \<Rightarrow> http_response prog" where
  "client_get E client path = http_io E \<lparr>rq_method = ''GET'', rq_url = fst client @ path, rq_headers = snd client, rq_body = JNull\<rparr>"

definition github_client :: "env \<Rightarrow> json \<Rightarrow> json \<Rightarrow> string \<times> (string \<times> string) list" where
  "github_client E host token = (''https://'' @ py_str E host, [(''Authorization'', ''Bearer '' @ py_str E token),
     (''Accept'', ''application/vnd.github+json''), (''X-GitHub-Api-Version'', ''2022-11-28'')])"

text \<open>\<open>r.json()\<close>\<close>

definition body_json :: "http_response \<Rightarrow> json prog" where
  "body_json r = (case rs_json r of None \<Rightarrow> throw (ValueError ''json'') | Some j \<Rightarrow> ret j)"

definition github_connect :: "env \<Rightarrow> ConnectorCredentials \<Rightarrow> GitHubConnector \<Rightarrow> ((exn + ConnectionResult) \<times> GitHubConnector) prog" where
  "github_connect E cred c = (if cc_kind cred \<noteq> ''github_pat''
     then ret (Inr (connection_failed (''unsupported credential kind for GitHub: '' @ py_repr (cc_kind cred))), c)
     else let token = jget (cc_data cred) ''token'' in
       if \<not> jtruthy token then ret (Inr (connection_failed ''missing token in credentials''), c)
       else let host = jget_or (cc_data cred) ''host'' (JStr ''api.github.com''); client = github_client E host token;
                c1 = c\<lparr>gh_host := host, gh_client := Some client\<rparr>
         in bind_io (try_io (client_get E client ''/user'')) (\<lambda>res. ret (case res of
              Inl x \<Rightarrow> (if is_HTTPError x then Inr (connection_failed (env_str_exn E x)) else Inl x, c1)
            | Inr r \<Rightarrow> if rs_status r \<noteq> 200
                then (Inr (connection_failed (''/user returned '' @ str_of_int (rs_status r) @ '': '' @ take 200 (rs_text r))), c1)
                else (case rs_json r of
                  None \<Rightarrow> (Inl (ValueError ''json''), c1)
                | Some (JObj payload) \<Rightarrow> (let p = jget_or payload ''login'' (JStr ''github-user'') in (connection_ok p, c1\<lparr>gh_principal := p\<rparr>))
                | Some _ \<Rightarrow> (Inl (AttributeError ''get''), c1)))))"

definition github_content_descriptor :: "env \<Rightarrow> json \<Rightarrow> dict \<Rightarrow> exn + ResourceDescriptor" where
  "github_content_descriptor E repo item = (case map_of item ''sha'' of None \<Rightarrow> Inl (KeyError ''sha'')
     | Some sha \<Rightarrow> (case map_of item ''path'' of None \<Rightarrow> Inl (KeyError ''path'')
     | Some path \<Rightarrow> (case need_str item ''name'' of Inl x \<Rightarrow> Inl x
     | Inr name \<Rightarrow> (case jget_or item ''type'' (JStr ''file'') of
         JStr kind \<Rightarrow> (case opt_field (env_pyd_int E) item ''size'' of Inl x \<Rightarrow> Inl x
           | Inr n \<Rightarrow> Inr \<lparr>rd_connector_type = ''github'', rd_resource_id = py_str E repo @ ''@'' @ py_str E sha @ '':'' @ py_str E path,
               rd_name = name, rd_kind = kind, rd_size_bytes = n, rd_last_modified = None,
               rd_metadata = [(''repo'', repo), (''path'', path), (''sha'', sha), (''download_url'', jget item ''download_url'')]\<rparr>)
       | _ \<Rightarrow> Inl (ValidationError ''kind'')))))"

definition github_repo_descriptor :: "dict \<Rightarrow> exn + ResourceDescriptor" where
  "github_repo_descriptor repo = (case need_str repo ''full_name'' of Inl x \<Rightarrow> Inl x
     | Inr name \<Rightarrow> Inr \<lparr>rd_connector_type = ''github'', rd_resource_id = name, rd_name = name, rd_kind = ''repository'',
         rd_size_bytes = None, rd_last_modified = None,
         rd_metadata = [(''default_branch'', jget repo ''default_branch''), (''visibility'', jget repo ''visibility''), (''private'', jget repo ''private'')]\<rparr>)"

definition github_list_contents :: "env \<Rightarrow> string \<times> (string \<times> string) list \<Rightarrow> json \<Rightarrow> dict \<Rightarrow> ResourceDescriptor list prog" where
  "github_list_contents E client repo filters = (case jget_or filters ''path'' (JStr []) of
     JStr path \<Rightarrow> bind_io (client_get E client (''/repos/'' @ py_str E repo @ ''/contents/'' @ lstrip_if (\<lambda>c. c = CHR ''/'') path)) (\<lambda>r.
       if rs_status r \<noteq> 200 then ret []
       else bind_io (body_json r) (\<lambda>j. lift_res (case obj_list (case j of JList xs \<Rightarrow> xs | _ \<Rightarrow> [j]) of
         Inl x \<Rightarrow> Inl x | Inr items \<Rightarrow> build_all (github_content_descriptor E repo) items)))
   | _ \<Rightarrow> throw (AttributeError ''lstrip''))"

definition github_list_repos :: "env \<Rightarrow> string \<times> (string \<times> string) list \<Rightarrow> int \<Rightarrow> dict \<Rightarrow> ResourceDescriptor list prog" where
  "github_list_repos E client per_page filters =
     (let path = (case map_of filters ''org'' of Some org \<Rightarrow> ''/orgs/'' @ py_str E org @ ''/repos'' | None \<Rightarrow> ''/user/repos'')
      in bind_io (client_get E client (path @ ''?per_page='' @ str_of_int per_page)) (\<lambda>r.
        if rs_status r \<noteq> 200 then ret []
        else bind_io (body_json r) (\<lambda>j. lift_res (case listed j of
          Inl x \<Rightarrow> Inl x | Inr repos \<Rightarrow> build_all github_repo_descriptor repos))))"

definition github_list_resources :: "env \<Rightarrow> github_lib \<Rightarrow> GitHubConnector \<Rightarrow> dict \<Rightarrow> ResourceDescriptor list prog" where
  "github_list_resources E G c filters = (case gh_client c of
     None \<Rightarrow> throw (not_connected ''GitHubConnector'' ''list_resources'')
   | Some client \<Rightarrow> bind_io (lift_res (gl_int G (jget_or filters ''per_page'' (JInt 30)))) (\<lambda>n.
       let per_page = min n 100 in
       case map_of filters ''repo'' of
         Some repo \<Rightarrow> github_list_contents E client repo filters
       | None \<Rightarrow> github_list_repos E client per_page filters))"

text \<open>Staging: the platform's own S3.\<close>

definition github_stage :: "env \<Rightarrow> IngestOptions \<Rightarrow> string \<Rightarrow> string \<Rightarrow> string \<Rightarrow> IngestResult prog" where
  "github_stage E opts repo path body = (if too_large opts body
     then ret (size_exceeded ''file'' opts body)
     else let key = staged_key opts (repo @ ''/'' @ path) in
       aws_or_failed E ''staging write failed: '' (s3_put E (io_destination_bucket opts) key body ''application/octet-stream'')
         (\<lambda>_. ret (ingest_done (io_destination_bucket opts) key body)))"

text \<open>What is done with the answer to the request for the file.\<close>

definition github_ingest_response :: "env \<Rightarrow> github_lib \<Rightarrow> IngestOptions \<Rightarrow> string \<Rightarrow> string \<Rightarrow> http_response \<Rightarrow> IngestResult prog" where
  "github_ingest_response E G opts repo path r =
     (if rs_status r \<noteq> 200 then ret (ingest_failed (''source fetch returned '' @ str_of_int (rs_status r)))
      else bind_io (body_json r) (\<lambda>j. case j of
        JObj payload \<Rightarrow> (if jget payload ''encoding'' \<noteq> JStr ''base64'' \<or> map_of payload ''content'' = None
            then ret (ingest_failed ''unsupported content encoding (large blob path NYI)'')
            else bind_io (lift_res (gl_b64 G (jget payload ''content''))) (github_stage E opts repo path))
      | _ \<Rightarrow> throw (AttributeError ''get'')))"

definition github_ingest :: "env \<Rightarrow> github_lib \<Rightarrow> GitHubConnector \<Rightarrow> ResourceDescriptor \<Rightarrow> IngestOptions \<Rightarrow> IngestResult prog" where
  "github_ingest E G c resource opts = (case gh_client c of
     None \<Rightarrow> throw (not_connected ''GitHubConnector'' ''ingest'')
   | Some client \<Rightarrow> if rd_kind resource \<noteq> ''file'' then ret (wrong_kind ''GitHub'' ''file'' resource)
     else let repo = jget (rd_metadata resource) ''repo''; path = jget (rd_metadata resource) ''path'' in
       if \<not> jtruthy repo \<or> \<not> jtruthy path then ret (ingest_failed ''missing repo/path in resource metadata'')
       else bind_io (client_get E client (''/repos/'' @ py_str E repo @ ''/contents/'' @ py_str E path))
         (github_ingest_response E G opts (py_str E repo) (py_str E path)))"

definition github_health_check :: "env \<Rightarrow> GitHubConnector \<Rightarrow> HealthStatus prog" where
  "github_health_check E c = (case gh_client c of
     None \<Rightarrow> ret \<lparr>hs_ok = False, hs_message = ''not connected''\<rparr>
   | Some client \<Rightarrow> bind_io (try_io (client_get E client ''/rate_limit'')) (\<lambda>res. case res of
       Inl x \<Rightarrow> if is_HTTPError x then ret \<lparr>hs_ok = False, hs_message = env_str_exn E x\<rparr> else throw x
     | Inr r \<Rightarrow> if rs_status r \<noteq> 200 then ret \<lparr>hs_ok = False, hs_message = ''/rate_limit returned '' @ str_of_int (rs_status r)\<rparr>
         else ret \<lparr>hs_ok = True, hs_message = ''principal='' @ py_str E (gh_principal c)\<rparr>))"

definition github_aclose :: "GitHubConnector \<Rightarrow> GitHubConnector" where
  "github_aclose c = c\<lparr>gh_client := None\<rparr>"

section \<open>The contract of an ingest\<close>

fun is_s3_put :: "event \<Rightarrow> bool" where
  "is_s3_put (EvS3Put _ _ _ _ _) = True"
| "is_s3_put _ = False"

text \<open>A write into the destination, of data within the limit.\<close>

definition stages :: "IngestOptions \<Rightarrow> event \<Rightarrow> bool" where
  "stages opts e \<longleftrightarrow> (\<exists>key body ct r. e = EvS3Put (io_destination_bucket opts) key body ct r \<and> \<not> too_large opts body)"

definition quiet :: "event list \<Rightarrow> bool" where
  "quiet es \<longleftrightarrow> (\<forall>e\<in>set es. \<not> is_s3_put e)"

text \<open>How an ingest ends: nothing staged, or one write with the matching report.\<close>

definition ingest_outcome :: "IngestOptions \<Rightarrow> event list \<Rightarrow> exn + IngestResult \<Rightarrow> event list \<Rightarrow> bool" where
  "ingest_outcome opts h res h' \<longleftrightarrow> (\<exists>es. h' = h @ es \<and> quiet es \<and> (\<forall>r. res = Inr r \<longrightarrow> \<not> ir_ok r)) \<or>
     (\<exists>es key body ct. quiet es \<and> \<not> too_large opts body \<and>
        ((\<exists>e. h' = h @ es @ [EvS3Put (io_destination_bucket opts) key body ct (Inl e)] \<and> (\<forall>r. res = Inr r \<longrightarrow> \<not> ir_ok r)) \<or>
         (h' = h @ es @ [EvS3Put (io_destination_bucket opts) key body ct (Inr ())] \<and> res = Inr (ingest_done (io_destination_bucket opts) key body))))"

locale ingester =
  fixes ready :: "'c \<Rightarrow> bool" and ingest :: "'c \<Rightarrow> ResourceDescriptor \<Rightarrow> IngestOptions \<Rightarrow> IngestResult prog" and leaf :: string
  assumes needs_connection: "\<not> ready c \<Longrightarrow> \<exists>m. ingest c r opts h = (Inl (RuntimeError m), h)"
    and needs_leaf: "ready c \<Longrightarrow> rd_kind r \<noteq> leaf \<Longrightarrow> \<exists>d. ingest c r opts h = (Inr (ingest_failed d), h)"
    and outcome: "ingest_outcome opts h (fst (ingest c r opts h)) (snd (ingest c r opts h))"
begin

lemma refuses:
  "(ready c \<or> (\<exists>m. ingest c r opts h = (Inl (RuntimeError m), h))) \<and>
   (rd_kind r = leaf \<or> (\<exists>m d. ingest c r opts h \<in> {(Inl (RuntimeError m), h), (Inr (ingest_failed d), h)}))"
  using needs_connection [of c r opts h] needs_leaf [of c r opts h] by blast

lemma writes_only_staged:
  assumes "ingest c r opts h = (res, h')"
  shows "\<exists>es. h' = h @ es \<and> (\<forall>e\<in>set es. is_s3_put e \<longrightarrow> stages opts e)"
  using outcome [of opts h c r] assms by (fastforce simp: ingest_outcome_def quiet_def stages_def)

lemma report_is_true:
  assumes "ingest c r opts h = (Inr res, h')" "ir_ok res"
  shows "ready c \<and> rd_kind r = leaf \<and> (\<exists>es key body ct. quiet es \<and> \<not> too_large opts body \<and>
    h' = h @ es @ [EvS3Put (io_destination_bucket opts) key body ct (Inr ())] \<and> res = ingest_done (io_destination_bucket opts) key body)"
proof -
  have "ready c" using needs_connection [of c r opts h] assms(1) by auto
  moreover have "rd_kind r = leaf"
  proof (rule ccontr)
    assume "rd_kind r \<noteq> leaf"
    from needs_leaf [OF \<open>ready c\<close> this, of opts h] assms show False by (auto simp: ingest_failed_def)
  qed
  ultimately show ?thesis using outcome [of opts h c r] assms by (auto simp: ingest_outcome_def)
qed

end

lemma quiet_simps [simp]: "quiet []" "quiet (e # es) \<longleftrightarrow> \<not> is_s3_put e \<and> quiet es" "quiet (es @ es') \<longleftrightarrow> quiet es \<and> quiet es'"
  by (auto simp: quiet_def)

lemma ingest_failed_ok [simp]: "\<not> ir_ok (ingest_failed d)" "\<not> ir_ok (size_exceeded w opts body)" "\<not> ir_ok (wrong_kind w l r)"
    "ir_ok (ingest_done b k body)"
  by (simp_all add: ingest_failed_def ingest_done_def size_exceeded_def wrong_kind_def)

lemma outcome_nothing:
  "quiet es \<Longrightarrow> (\<And>r. res = Inr r \<Longrightarrow> \<not> ir_ok r) \<Longrightarrow> ingest_outcome opts h res (h @ es)"
  unfolding ingest_outcome_def by blast

lemma outcome_same: "(\<And>r. res = Inr r \<Longrightarrow> \<not> ir_ok r) \<Longrightarrow> ingest_outcome opts h res h"
  using outcome_nothing [of "[]"] by fastforce

lemma outcome_raise: "quiet es \<Longrightarrow> ingest_outcome opts h (Inl x) (h @ es)"
  by (rule outcome_nothing) auto

lemma outcome_fail: "quiet es \<Longrightarrow> ingest_outcome opts h (Inr (ingest_failed d)) (h @ es)"
  by (rule outcome_nothing) auto

text \<open>The staging write, after reads that wrote nothing.\<close>

lemma outcome_stage:
  assumes "quiet es" "\<not> too_large opts body"
    and "p = aws_or_failed E what (s3_put E (io_destination_bucket opts) key body ct) (\<lambda>_. ret (ingest_done (io_destination_bucket opts) key body))"
  shows "ingest_outcome opts h (fst (p (h @ es))) (snd (p (h @ es)))"
proof (cases "env_s3_put E (h @ es) (io_destination_bucket opts) key body ct")
  case (Inl e)
  then have "ingest_outcome opts h (Inr (ingest_failed d)) (h @ es @ [EvS3Put (io_destination_bucket opts) key body ct (Inl e)])"
    "ingest_outcome opts h (Inl x) (h @ es @ [EvS3Put (io_destination_bucket opts) key body ct (Inl e)])" for d x
    unfolding ingest_outcome_def using assms(1,2) by fastforce+
  with Inl show ?thesis
    by (simp add: assms(3) aws_or_failed_def bind_io_def try_io_def s3_put_def ret_def throw_def)
next
  case (Inr u)
  with assms(1,2) have "ingest_outcome opts h (Inr (ingest_done (io_destination_bucket opts) key body)) (h @ es @ [EvS3Put (io_destination_bucket opts) key body ct (Inr ())])"
    unfolding ingest_outcome_def by fastforce
  with Inr show ?thesis
    by (simp add: assms(3) aws_or_failed_def bind_io_def try_io_def s3_put_def ret_def)
qed

lemma s3_ingest_outcome: "ingest_outcome opts h (fst (s3_ingest L c r opts h)) (snd (s3_ingest L c r opts h))"
proof -
  let ?E = "sl_env L"
  obtain b f k where p: "partition_at (CHR ''/'') (rd_resource_id r) = (b, f, k)" by (cases "partition_at (CHR ''/'') (rd_resource_id r)")
  let ?ct = "case sl_content_type L b k of Some t \<Rightarrow> t | None \<Rightarrow> ''application/octet-stream''"
  consider "\<not> s3_client c \<or> rd_kind r \<noteq> ''object'' \<or> \<not> f" | "s3_client c" "rd_kind r = ''object''" f by blast
  then show ?thesis
  proof cases
    case 1
    then show ?thesis by (auto simp: s3_ingest_def p throw_def ret_def intro!: outcome_same split: bool.split)
  next
    case 2
    let ?put = "\<lambda>body. aws_or_failed ?E ''staging write failed: '' (s3_put ?E (io_destination_bucket opts) (staged_key opts k) body ?ct)
        (\<lambda>_. ret (ingest_done (io_destination_bucket opts) (staged_key opts k) body))"
    let ?after = "\<lambda>body. if too_large opts body then ret (size_exceeded ''object'' opts body)
        else ?put body"
    have run: "s3_ingest L c r opts h = aws_or_failed ?E ''source read failed: '' (s3_get ?E b k) ?after h"
      using 2 by (simp add: s3_ingest_def p)
    show ?thesis
    proof (cases "env_s3_get ?E h b k")
      case (Inl e)
      then show ?thesis
        by (auto simp: run aws_or_failed_def bind_io_def try_io_def s3_get_def ret_def throw_def intro!: outcome_nothing)
    next
      case (Inr body)
      have put: "ingest_outcome opts h (fst (?put body (h @ [EvS3Get b k (Inr body)]))) (snd (?put body (h @ [EvS3Get b k (Inr body)])))"
        if "\<not> too_large opts body" by (rule outcome_stage [OF _ that refl]) simp
      have "aws_or_failed ?E ''source read failed: '' (s3_get ?E b k) ?after h = ?after body (h @ [EvS3Get b k (Inr body)])"
        using Inr by (simp add: aws_or_failed_def bind_io_def try_io_def s3_get_def ret_def)
      with put show ?thesis unfolding run by (auto simp: ret_def intro!: outcome_nothing)
    qed
  qed
qed

interpretation s3_ingester: ingester s3_client "s3_ingest L" "''object''"
proof unfold_locales
  show "\<not> s3_client c \<Longrightarrow> \<exists>m. s3_ingest L c r opts h = (Inl (RuntimeError m), h)" for c r opts h
    by (simp add: s3_ingest_def throw_def not_connected_def)
  show "s3_client c \<Longrightarrow> rd_kind r \<noteq> ''object'' \<Longrightarrow> \<exists>d. s3_ingest L c r opts h = (Inr (ingest_failed d), h)" for c r opts h
    by (auto simp: s3_ingest_def wrong_kind_def ret_def)
qed (rule s3_ingest_outcome)

lemma github_stage_outcome:
  assumes "quiet es"
  shows "ingest_outcome opts h (fst (github_stage E opts repo path body (h @ es))) (snd (github_stage E opts repo path body (h @ es)))"
proof (cases "too_large opts body")
  case True
  with assms show ?thesis by (auto simp: github_stage_def ret_def intro!: outcome_nothing)
next
  case False
  show ?thesis using outcome_stage [OF assms False refl, of h] False by (simp add: github_stage_def Let_def)
qed

lemma github_response_outcome:
  assumes "quiet es"
  shows "ingest_outcome opts h (fst (github_ingest_response E G opts repo path r (h @ es))) (snd (github_ingest_response E G opts repo path r (h @ es)))"
  using assms
  by (auto simp: github_ingest_response_def body_json_def bind_io_def throw_def ret_def lift_res_def
      intro: outcome_raise outcome_fail github_stage_outcome split: option.split json.split sum.split)

lemma github_ingest_outcome: "ingest_outcome opts h (fst (github_ingest E G c r opts h)) (snd (github_ingest E G c r opts h))"
proof (cases "gh_client c = None \<or> rd_kind r \<noteq> ''file'' \<or> \<not> jtruthy (jget (rd_metadata r) ''repo'') \<or> \<not> jtruthy (jget (rd_metadata r) ''path'')")
  case True
  then show ?thesis by (auto simp: github_ingest_def throw_def ret_def Let_def intro!: outcome_same split: option.split)
next
  case False
  then obtain client where cl: "gh_client c = Some client" by auto
  let ?repo = "py_str E (jget (rd_metadata r) ''repo'')" and ?path = "py_str E (jget (rd_metadata r) ''path'')"
  define rq where "rq = \<lparr>rq_method = ''GET'', rq_url = fst client @ ''/repos/'' @ ?repo @ ''/contents/'' @ ?path, rq_headers = snd client, rq_body = JNull\<rparr>"
  have run: "github_ingest E G c r opts h = bind_io (http_io E rq) (github_ingest_response E G opts ?repo ?path) h"
    using False cl by (simp add: github_ingest_def client_get_def rq_def Let_def)
  show ?thesis
  proof (cases "env_http E h rq")
    case (Inl m)
    then show ?thesis by (auto simp: run http_io_def bind_io_def intro!: outcome_nothing)
  next
    case (Inr resp)
    then show ?thesis
      using github_response_outcome [of "[EvHttp rq (Inr resp)]" opts h E G ?repo ?path resp] by (simp add: run http_io_def bind_io_def)
  qed
qed

interpretation github_ingester: ingester "\<lambda>c. gh_client c \<noteq> None" "github_ingest E G" "''file''"
proof unfold_locales
  show "\<not> gh_client c \<noteq> None \<Longrightarrow> \<exists>m. github_ingest E G c r opts h = (Inl (RuntimeError m), h)" for c r opts h
    by (cases "gh_client c") (auto simp: github_ingest_def throw_def not_connected_def)
  show "gh_client c \<noteq> None \<Longrightarrow> rd_kind r \<noteq> ''file'' \<Longrightarrow> \<exists>d. github_ingest E G c r opts h = (Inr (ingest_failed d), h)" for c r opts h
    by (auto simp: github_ingest_def wrong_kind_def ret_def split: option.split)
qed (rule github_ingest_outcome)

section \<open>A failed connect leaves a client behind\<close>

lemma github_failed_connect_usable:
  assumes "cc_kind cred = ''github_pat''" "jtruthy (jget (cc_data cred) ''token'')"
  shows "\<exists>res c'. fst (github_connect E cred c h) = Inr (res, c') \<and> gh_client c' \<noteq> None"
  using assms
  by (auto simp: github_connect_def Let_def bind_io_def try_io_def client_get_def http_io_def ret_def connection_ok_def
      split: sum.split option.split json.split)

end
