(* ===== verification/AuditQuery.thy ===== *)
theory AuditQuery
  imports AuditTrail
begin

text \<open>
  Model of the query route of \<open>apps/audit-service/app/main.py\<close>: the SQL text and its bound parameters, the
  rows turned back into events, and the gauges and health answer of the service. ClickHouse and the
  JSON parser are parameters. Shown: the text of the query does not depend on the values of the
  filters, every value is bound as a parameter under its own name, and the route answers 503 without
  a connection and never changes the stored events.
\<close>

datatype ch_value = ChString string | ChDateTime datetime

record audit_filter =
  aq_tenant_id :: "string option"
  aq_actor :: "string option"
  aq_action :: "string option"
  aq_resource :: "string option"
  aq_decision :: "string option"
  aq_since :: "datetime option"
  aq_until :: "datetime option"
  aq_limit :: int

text \<open>One clause and the parameter it binds, when the filter is given.\<close>

definition clause :: "('a \<Rightarrow> ch_value) \<Rightarrow> string \<Rightarrow> string \<Rightarrow> 'a option \<Rightarrow> (string \<times> string \<times> ch_value) list" where
  "clause wrap text name v = (case v of None \<Rightarrow> [] | Some x \<Rightarrow> [(text, name, wrap x)])"

definition audit_clauses :: "audit_filter \<Rightarrow> (string \<times> string \<times> ch_value) list" where
  "audit_clauses f =
     clause ChString ''tenant_id = {tenant_id:String}'' ''tenant_id'' (aq_tenant_id f) @
     clause ChString ''actor = {actor:String}'' ''actor'' (aq_actor f) @
     clause ChString ''action = {action:String}'' ''action'' (aq_action f) @
     clause ChString ''resource = {resource:String}'' ''resource'' (aq_resource f) @
     clause ChString ''decision = {decision:String}'' ''decision'' (aq_decision f) @
     clause ChDateTime ''ts >= {since:DateTime64(3)}'' ''since'' (aq_since f) @
     clause ChDateTime ''ts < {until:DateTime64(3)}'' ''until'' (aq_until f)"

definition audit_params :: "audit_filter \<Rightarrow> (string \<times> ch_value) list" where
  "audit_params f = map snd (audit_clauses f)"

definition audit_sql :: "string \<Rightarrow> audit_filter \<Rightarrow> string" where
  "audit_sql database f = (let filters = map fst (audit_clauses f);
       wh = (if filters = [] then [] else ''WHERE '' @ join '' AND '' filters)
     in ''SELECT ts, tenant_id, actor, action, resource, decision, metadata, '' @
        ''previous_hash, event_hash, signature_key_id, signature '' @
        ''FROM '' @ database @ ''.audit_events '' @ wh @ '' '' @
        ''ORDER BY ts DESC LIMIT '' @ str_of_int (aq_limit f))"

text \<open>\<open>row[i]\<close> of a list.\<close>

definition column :: "json list \<Rightarrow> nat \<Rightarrow> exn + json" where
  "column row i = (if i < length row then Inr (row ! i) else Inl (IndexError ''list index out of range''))"

definition optional_column :: "json list \<Rightarrow> nat \<Rightarrow> json" where
  "optional_column row i = (if i < length row then row ! i else JNull)"

definition metadata_column :: "(string \<Rightarrow> exn + json) \<Rightarrow> json \<Rightarrow> exn + json" where
  "metadata_column loads v = (if jtruthy v then (case v of JStr t \<Rightarrow> loads t | _ \<Rightarrow> Inl (TypeError ''the JSON object must be str''))
     else Inr (JObj []))"

fun bind_columns :: "(exn + json) list \<Rightarrow> (json list \<Rightarrow> 'a) \<Rightarrow> exn + 'a" where
  "bind_columns [] k = Inr (k [])"
| "bind_columns (Inl x # cs) k = Inl x"
| "bind_columns (Inr v # cs) k = bind_columns cs (\<lambda>vs. k (v # vs))"

definition event_of_row :: "(string \<Rightarrow> exn + json) \<Rightarrow> json list \<Rightarrow> exn + json" where
  "event_of_row loads row = bind_columns
     (map (column row) [0..<6] @ [case column row 6 of Inl x \<Rightarrow> Inl x | Inr v \<Rightarrow> metadata_column loads v])
     (\<lambda>vs. JObj (zip [''ts'', ''tenant_id'', ''actor'', ''action'', ''resource'', ''decision'', ''metadata''] vs @
        [(''previous_hash'', optional_column row 7), (''event_hash'', optional_column row 8),
         (''signature_key_id'', optional_column row 9), (''signature'', optional_column row 10)]))"

fun map_res :: "('a \<Rightarrow> exn + 'b) \<Rightarrow> 'a list \<Rightarrow> exn + 'b list" where
  "map_res f [] = Inr []"
| "map_res f (x # xs) = (case f x of Inl e \<Rightarrow> Inl e | Inr y \<Rightarrow> (case map_res f xs of Inl e \<Rightarrow> Inl e | Inr ys \<Rightarrow> Inr (y # ys)))"

definition store_unavailable :: exn where
  "store_unavailable = HTTPException 503 (JStr ''audit store unavailable'')"

text \<open>After the credentials were checked and the connection tried.\<close>

definition query_connected :: "audit_world \<Rightarrow> (string \<Rightarrow> exn + json) \<Rightarrow> (string \<Rightarrow> (string \<times> ch_value) list \<Rightarrow> exn + json list list) \<Rightarrow>
    audit_filter \<Rightarrow> exn + dict" where
  "query_connected W loads ch f = (case ch (audit_sql (cfg_clickhouse_database (acfg W)) f) (audit_params f) of
     Inl x \<Rightarrow> Inl (HTTPException 503 (JStr (''query failed: '' @ env_str_exn (aw_env W) x)))
   | Inr rows \<Rightarrow> (case map_res (event_of_row loads) rows of
       Inl x \<Rightarrow> Inl x
     | Inr events \<Rightarrow> Inr [(''events'', JList events), (''count'', JInt (int (length events)))]))"

definition query_events :: "audit_world \<Rightarrow> (string \<Rightarrow> exn + json) \<Rightarrow> (string \<Rightarrow> (string \<times> ch_value) list \<Rightarrow> exn + json list list) \<Rightarrow>
    string option \<Rightarrow> string option \<Rightarrow> string option \<Rightarrow> string option \<Rightarrow> audit_filter \<Rightarrow> audit_state \<Rightarrow> ((exn + dict) \<times> audit_state) prog" where
  "query_events W loads ch authorization workload_identity spiffe_id xfcc f st =
     bind_io (require_bearer (aw_env W) authorization workload_identity spiffe_id xfcc) (\<lambda>_.
       if aq_limit f < 1 \<or> 1000 < aq_limit f then throw (ValidationError ''limit'')
       else case connect W st of
         (False, st') \<Rightarrow> ret (Inl store_unavailable, st')
       | (True, st') \<Rightarrow> ret (query_connected W loads ch f, st'))"

definition spooled_events :: "audit_state \<Rightarrow> nat" where
  "spooled_events st = (case as_spool st of None \<Rightarrow> 0 | Some es \<Rightarrow> length es)"

definition metrics_gauges :: "audit_state \<Rightarrow> (string \<times> int) list" where
  "metrics_gauges st = [(''audit_buffered_events'', int (length (as_buffer st))),
     (''audit_spooled_events'', int (spooled_events st)), (''audit_clickhouse_connected'', if as_connected st then 1 else 0)]"

definition audit_healthz :: "settings \<Rightarrow> audit_state \<Rightarrow> dict" where
  "audit_healthz s st = [(''status'', JStr ''ok''), (''service'', JStr ''audit-service''),
     (''clickhouse_target'', JStr (cfg_clickhouse_host s @ '':'' @ str_of_int (cfg_clickhouse_port s))),
     (''clickhouse_connected'', JBool (as_connected st)), (''buffered_events'', JInt (int (length (as_buffer st)))),
     (''spooled_events'', JInt (int (spooled_events st)))]"

definition ttl_clause :: "int \<Rightarrow> string" where
  "ttl_clause days = (if days \<le> 0 then [] else ''TTL ts + INTERVAL '' @ str_of_int days @ '' DAY DELETE'')"

section \<open>The text of the query\<close>

text \<open>The same filters with every value replaced.\<close>

definition blank :: "string \<Rightarrow> audit_filter \<Rightarrow> audit_filter" where
  "blank w f = \<lparr>aq_tenant_id = map_option (\<lambda>_. w) (aq_tenant_id f), aq_actor = map_option (\<lambda>_. w) (aq_actor f),
     aq_action = map_option (\<lambda>_. w) (aq_action f), aq_resource = map_option (\<lambda>_. w) (aq_resource f),
     aq_decision = map_option (\<lambda>_. w) (aq_decision f), aq_since = map_option (\<lambda>_. w) (aq_since f),
     aq_until = map_option (\<lambda>_. w) (aq_until f), aq_limit = aq_limit f\<rparr>"

lemma clause_text: "map fst (clause wrap t n v) = (if v = None then [] else [t])"
  by (simp add: clause_def split: option.split)

lemma clause_text_blank: "map fst (clause wrap t n (map_option g v)) = map fst (clause wrap t n v)"
  by (simp add: clause_text)

lemma audit_sql_blank: "audit_sql db (blank w f) = audit_sql db f"
  by (simp add: audit_sql_def audit_clauses_def blank_def clause_text_blank)

lemma clause_params: "map snd (clause wrap t n v) = (case v of None \<Rightarrow> [] | Some x \<Rightarrow> [(n, wrap x)])"
  by (simp add: clause_def split: option.split)

lemma audit_params_lookup:
  "map_of (audit_params f) ''tenant_id'' = map_option ChString (aq_tenant_id f)"
  "map_of (audit_params f) ''actor'' = map_option ChString (aq_actor f)"
  "map_of (audit_params f) ''action'' = map_option ChString (aq_action f)"
  "map_of (audit_params f) ''resource'' = map_option ChString (aq_resource f)"
  "map_of (audit_params f) ''decision'' = map_option ChString (aq_decision f)"
  "map_of (audit_params f) ''since'' = map_option ChDateTime (aq_since f)"
  "map_of (audit_params f) ''until'' = map_option ChDateTime (aq_until f)"
  unfolding audit_params_def audit_clauses_def map_append clause_params
  by (simp_all add: map_add_def split: option.split)

section \<open>The route\<close>

lemma connect_keeps: "connect W st = (ok, st') \<Longrightarrow> as_table st' = as_table st \<and> as_buffer st' = as_buffer st \<and>
    as_spool st' = as_spool st \<and> as_last_hash st' = as_last_hash st"
  by (auto simp: connect_def Let_def split: if_splits)

lemma query_events_frame:
  assumes "query_events W loads ch a wi sp x f st h = (Inr (r, st'), h')"
  shows "as_table st' = as_table st \<and> as_buffer st' = as_buffer st \<and> as_spool st' = as_spool st \<and> as_last_hash st' = as_last_hash st \<and>
    1 \<le> aq_limit f \<and> aq_limit f \<le> 1000 \<and>
    (r = Inl store_unavailable \<or> r = query_connected W loads ch f)"
proof -
  obtain ok st1 where c: "connect W st = (ok, st1)" by (cases "connect W st")
  from assms have "\<not> (aq_limit f < 1 \<or> 1000 < aq_limit f)" "st' = st1" "r = Inl store_unavailable \<or> r = query_connected W loads ch f"
    by (auto simp: query_events_def run_ok c throw_def ret_def split: if_splits bool.splits)
  with connect_keeps [OF c] show ?thesis by auto
qed

lemma map_res_length: "map_res f xs = Inr ys \<Longrightarrow> length ys = length xs"
  by (induction xs arbitrary: ys) (auto split: sum.splits)

section \<open>The table in ClickHouse\<close>

definition COLUMN_NAMES :: "string list" where
  "COLUMN_NAMES = [''ts'', ''tenant_id'', ''actor'', ''action'', ''resource'', ''decision'', ''metadata'', ''previous_hash'', ''event_hash'',
     ''signature_key_id'', ''signature'']"

definition column_types :: "(string \<times> string) list" where
  "column_types = [(''ts'', ''DateTime64(3)''), (''tenant_id'', ''String''), (''actor'', ''String''), (''action'', ''String''), (''resource'', ''String''),
     (''decision'', ''String''), (''metadata'', ''String''), (''previous_hash'', ''Nullable(String)''), (''event_hash'', ''String''),
     (''signature_key_id'', ''Nullable(String)''), (''signature'', ''Nullable(String)'')]"

text \<open>The statement as it is written, with its indentation.\<close>

definition indented :: "nat \<Rightarrow> string \<Rightarrow> string" where
  "indented n s = CHR 0x0A # replicate n (CHR '' '') @ s"

definition create_statement :: "string \<Rightarrow> string \<Rightarrow> string" where
  "create_statement database ttl = indented 16 (''CREATE TABLE IF NOT EXISTS '' @ database @ ''.audit_events ('') @
     indented 18 (join ('','' @ indented 18 []) (map (\<lambda>(n, t). n @ '' '' @ t) column_types)) @
     indented 16 '') ENGINE = MergeTree'' @ indented 16 ''ORDER BY (ts, tenant_id, action)'' @ indented 16 ttl @ indented 16 []"

definition audit_ddl :: "settings \<Rightarrow> string list" where
  "audit_ddl s = (let db = cfg_clickhouse_database s; ttl = ttl_clause (cfg_audit_retention_days s); alter = ''ALTER TABLE '' @ db @ ''.audit_events '' in
     [''CREATE DATABASE IF NOT EXISTS '' @ db, create_statement db ttl,
      alter @ ''ADD COLUMN IF NOT EXISTS previous_hash Nullable(String)'',
      alter @ ''ADD COLUMN IF NOT EXISTS event_hash String DEFAULT '' @ [CHR 0x27, CHR 0x27],
      alter @ ''ADD COLUMN IF NOT EXISTS signature_key_id Nullable(String)'',
      alter @ ''ADD COLUMN IF NOT EXISTS signature Nullable(String)''] @
     (if ttl \<noteq> [] then [alter @ ''MODIFY '' @ ttl] else []))"

text \<open>The commands of a connection attempt, one after the other; the first failure ends it. \<open>cmd\<close> answers a
  command after those issued before.\<close>

fun run_commands :: "(string list \<Rightarrow> string \<Rightarrow> bool) \<Rightarrow> string list \<Rightarrow> string list \<Rightarrow> bool \<times> string list" where
  "run_commands cmd issued [] = (True, issued)"
| "run_commands cmd issued (c # cs) = (if cmd issued c then run_commands cmd (issued @ [c]) cs else (False, issued @ [c]))"

definition connect_commands :: "(string list \<Rightarrow> string \<Rightarrow> bool) \<Rightarrow> settings \<Rightarrow> bool \<times> string list" where
  "connect_commands cmd s = run_commands cmd [] (audit_ddl s)"

section \<open>Rows\<close>

text \<open>\<open>_row\<close> and \<open>_event_from_row\<close>; \<open>dumps\<close> is \<open>json.dumps\<close> with sorted keys.\<close>

definition audit_row :: "(dict \<Rightarrow> string) \<Rightarrow> AuditEvent \<Rightarrow> json list" where
  "audit_row dumps e = [JStr (ae_ts e), JStr (ae_tenant_id e), JStr (ae_actor e), JStr (ae_action e), JStr (ae_resource e), JStr (ae_decision e),
     JStr (dumps (ae_metadata e)), jopt (ae_previous_hash e), JStr (str_or (ae_event_hash e) []), jopt (ae_signature_key_id e), jopt (ae_signature e)]"

fun row_text :: "json \<Rightarrow> exn + string" where
  "row_text (JStr s) = Inr s"
| "row_text _ = Inl (ValidationError ''AuditEvent'')"

fun row_optional :: "json \<Rightarrow> exn + string option" where
  "row_optional JNull = Inr None"
| "row_optional (JStr s) = Inr (Some s)"
| "row_optional _ = Inl (ValidationError ''AuditEvent'')"

fun row_metadata :: "json \<Rightarrow> exn + dict" where
  "row_metadata (JObj d) = Inr d"
| "row_metadata _ = Inl (ValidationError ''AuditEvent'')"

definition bind_res :: "exn + 'a \<Rightarrow> ('a \<Rightarrow> exn + 'b) \<Rightarrow> exn + 'b" where
  "bind_res r k = (case r of Inl x \<Rightarrow> Inl x | Inr a \<Rightarrow> k a)"

definition text_at :: "json list \<Rightarrow> nat \<Rightarrow> exn + string" where
  "text_at row i = bind_res (column row i) row_text"

definition event_from_row :: "(string \<Rightarrow> exn + json) \<Rightarrow> json list \<Rightarrow> exn + AuditEvent" where
  "event_from_row loads row =
     bind_res (text_at row 0) (\<lambda>ts. bind_res (text_at row 1) (\<lambda>tid. bind_res (text_at row 2) (\<lambda>actor. bind_res (text_at row 3) (\<lambda>action.
     bind_res (text_at row 4) (\<lambda>resource. bind_res (text_at row 5) (\<lambda>decision.
     bind_res (bind_res (bind_res (column row 6) (metadata_column loads)) row_metadata) (\<lambda>md.
     bind_res (row_optional (optional_column row 7)) (\<lambda>prev. bind_res (row_optional (optional_column row 8)) (\<lambda>hash.
     bind_res (row_optional (optional_column row 9)) (\<lambda>key_id. bind_res (row_optional (optional_column row 10)) (\<lambda>sig.
       Inr \<lparr>ae_ts = ts, ae_tenant_id = tid, ae_actor = actor, ae_action = action, ae_resource = resource, ae_decision = decision,
         ae_metadata = md, ae_previous_hash = prev, ae_event_hash = hash, ae_signature_key_id = key_id, ae_signature = sig\<rparr>)))))))))))"

section \<open>Rows, table and query agree\<close>

lemma columns_agree: "map fst column_types = COLUMN_NAMES" "length (audit_row dumps e) = length COLUMN_NAMES"
  by (simp_all add: column_types_def COLUMN_NAMES_def audit_row_def)

lemma query_selects_columns: "startswith (audit_sql db f) (''SELECT '' @ join '', '' COLUMN_NAMES @ '' FROM '' @ db @ ''.audit_events '')"
  by (simp add: audit_sql_def COLUMN_NAMES_def Let_def startswith_def)

lemma run_commands_ok: "fst (run_commands cmd issued cs) \<Longrightarrow> snd (run_commands cmd issued cs) = issued @ cs"
  by (induction cs arbitrary: issued) (auto split: if_splits)

lemma connect_issues_all: "connect_commands cmd s = (True, cs) \<Longrightarrow> cs = audit_ddl s"
  using run_commands_ok [of cmd "[]" "audit_ddl s"] by (simp add: connect_commands_def)

text \<open>A requeued row is the event it was made of, as \<open>event_row\<close> of theory AuditTrail states it, when the JSON text of the
  metadata reads back with its keys sorted.\<close>

lemma event_from_row_round_trip:
  assumes "dumps (ae_metadata e) \<noteq> []" "loads (dumps (ae_metadata e)) = Inr (JObj (sorted_dict (ae_metadata e)))"
  shows "event_from_row loads (audit_row dumps e) = Inr (event_row e)"
proof -
  have opt: "row_optional (jopt v) = Inr v" for v by (cases v) (simp_all add: jopt_def)
  show ?thesis using assms
    by (simp add: event_from_row_def audit_row_def text_at_def column_def optional_column_def metadata_column_def bind_res_def opt event_row_def)
qed

end
