(* ===== verification/Telemetry.thy ===== *)
theory Telemetry
  imports Security "HOL-Library.Product_Lexorder"
begin

text \<open>
  Models of \<open>libs/common/sovereign/metrics.py\<close> (counters, histograms and their text exposition),
  \<open>observability.py\<close> (gauges and the middleware that counts every request), \<open>health.py\<close> (readiness)
  and \<open>cors.py\<close>. Shown: the exposed bucket series of a histogram is the number of observations up to
  each edge, counters never lose an increment, every request is counted once also when its handler
  raises, and readiness is reported exactly when every check passes.
\<close>

section \<open>Text exposition\<close>

definition name_char :: "char \<Rightarrow> bool" where
  "name_char c \<longleftrightarrow> (let n = (of_char c :: nat) in (97 \<le> n \<and> n \<le> 122) \<or> (65 \<le> n \<and> n \<le> 90) \<or> (48 \<le> n \<and> n \<le> 57) \<or>
     c = CHR ''_'' \<or> c = CHR '':'')"

definition sanitize :: "string \<Rightarrow> string" where
  "sanitize name = map (\<lambda>c. if name_char c then c else CHR ''_'') name"

text \<open>\<open>str.replace\<close> of one character.\<close>

definition replace_char :: "char \<Rightarrow> string \<Rightarrow> string \<Rightarrow> string" where
  "replace_char c r s = concat (map (\<lambda>x. if x = c then r else [x]) s)"

definition label_value :: "string \<Rightarrow> string" where
  "label_value s = replace_char (CHR 0x22) [CHR 0x5C, CHR 0x22]
     (replace_char (CHR 0x0A) [CHR 0x5C, CHR ''n''] (replace_char (CHR 0x5C) [CHR 0x5C, CHR 0x5C] s))"

type_synonym label_key = "(string \<times> string) list"

definition label_key :: "(string \<times> string) list \<Rightarrow> label_key" where
  "label_key labels = sort labels"

definition quoted :: "string \<Rightarrow> string" where
  "quoted s = [CHR 0x22] @ s @ [CHR 0x22]"

definition render_labels :: "label_key \<Rightarrow> (string \<times> string) option \<Rightarrow> string" where
  "render_labels k extra = (let pairs = map (\<lambda>(n, v). sanitize n @ ''='' @ quoted (label_value v)) (k @ (case extra of None \<Rightarrow> [] | Some p \<Rightarrow> [p]))
     in if pairs = [] then [] else ''{'' @ join '','' pairs @ ''}'')"

text \<open>\<open>_fmt\<close>; the text of a float that is not integral is the parameter \<open>repr_float\<close>.\<close>

definition fmt :: "(rat \<Rightarrow> string) \<Rightarrow> rat \<Rightarrow> string" where
  "fmt repr_float v = (if v = of_int (floor v) then str_of_int (floor v) else repr_float v)"

definition newline :: string where
  "newline = [CHR 0x0A]"

definition exposition_head :: "string \<Rightarrow> string \<Rightarrow> string \<Rightarrow> string list" where
  "exposition_head name help kind = [''# HELP '' @ name @ '' '' @ help, ''# TYPE '' @ name @ '' '' @ kind]"

section \<open>Counters\<close>

record Counter =
  ct_name :: string
  ct_help :: string
  ct_values :: "(label_key \<times> rat) list"

definition new_counter :: "string \<Rightarrow> string \<Rightarrow> Counter" where
  "new_counter name help_text = \<lparr>ct_name = sanitize name, ct_help = help_text, ct_values = []\<rparr>"

definition counter_value :: "Counter \<Rightarrow> label_key \<Rightarrow> rat" where
  "counter_value c k = (case map_of (ct_values c) k of Some v \<Rightarrow> v | None \<Rightarrow> 0)"

definition counter_inc :: "(string \<times> string) list \<Rightarrow> rat \<Rightarrow> Counter \<Rightarrow> Counter" where
  "counter_inc labels amount c = (let k = label_key labels
     in c\<lparr>ct_values := AList.update k (counter_value c k + amount) (ct_values c)\<rparr>)"

definition counter_render :: "(rat \<Rightarrow> string) \<Rightarrow> Counter \<Rightarrow> string" where
  "counter_render rf c = join newline (exposition_head (ct_name c) (ct_help c) ''counter'' @
     map (\<lambda>(k, v). ct_name c @ render_labels k None @ '' '' @ fmt rf v) (sort (ct_values c))) @ newline"

section \<open>Histograms\<close>

definition DEFAULT_BUCKETS :: "rat list" where
  "DEFAULT_BUCKETS = [5 / 1000, 1 / 100, 25 / 1000, 5 / 100, 1 / 10, 25 / 100, 5 / 10, 1, 25 / 10, 5, 10]"

record Histogram =
  hg_name :: string
  hg_help :: string
  hg_buckets :: "rat list"
  hg_counts :: "(label_key \<times> nat list) list"
  hg_sum :: "(label_key \<times> rat) list"
  hg_total :: "(label_key \<times> nat) list"

definition new_histogram :: "string \<Rightarrow> string \<Rightarrow> rat list \<Rightarrow> Histogram" where
  "new_histogram name help_text buckets = \<lparr>hg_name = sanitize name, hg_help = help_text, hg_buckets = sort buckets,
     hg_counts = [], hg_sum = [], hg_total = []\<rparr>"

text \<open>The loop over the edges: the first bucket that takes the value is counted.\<close>

fun tally :: "rat \<Rightarrow> rat list \<Rightarrow> nat list \<Rightarrow> nat list" where
  "tally v (e # es) (c # cs) = (if v \<le> e then Suc c # cs else c # tally v es cs)"
| "tally v _ cs = cs"

definition histogram_observe :: "rat \<Rightarrow> (string \<times> string) list \<Rightarrow> Histogram \<Rightarrow> Histogram" where
  "histogram_observe v labels h = (let k = label_key labels;
       counts = (case map_of (hg_counts h) k of Some cs \<Rightarrow> cs | None \<Rightarrow> replicate (length (hg_buckets h)) 0);
       total = (case map_of (hg_sum h) k of Some s \<Rightarrow> s | None \<Rightarrow> 0);
       n = (case map_of (hg_total h) k of Some t \<Rightarrow> t | None \<Rightarrow> 0)
     in h\<lparr>hg_counts := AList.update k (tally v (hg_buckets h) counts) (hg_counts h),
          hg_sum := AList.update k (total + v) (hg_sum h), hg_total := AList.update k (Suc n) (hg_total h)\<rparr>)"

fun cumulate :: "nat \<Rightarrow> nat list \<Rightarrow> nat list" where
  "cumulate acc [] = []"
| "cumulate acc (c # cs) = (acc + c) # cumulate (acc + c) cs"

definition bucket_line :: "Histogram \<Rightarrow> label_key \<Rightarrow> string \<Rightarrow> nat \<Rightarrow> string" where
  "bucket_line h k edge n = hg_name h @ ''_bucket'' @ render_labels k (Some (''le'', edge)) @ '' '' @ str_of_nat n"

text \<open>The lines of one label set.\<close>

definition histogram_lines :: "(rat \<Rightarrow> string) \<Rightarrow> Histogram \<Rightarrow> label_key \<Rightarrow> string list" where
  "histogram_lines rf h k = (let total = the (map_of (hg_total h) k) in
     map2 (\<lambda>e n. bucket_line h k (fmt rf e) n) (hg_buckets h) (cumulate 0 (the (map_of (hg_counts h) k))) @
     [bucket_line h k ''+Inf'' total,
      hg_name h @ ''_sum'' @ render_labels k None @ '' '' @ fmt rf (the (map_of (hg_sum h) k)),
      hg_name h @ ''_count'' @ render_labels k None @ '' '' @ str_of_nat total])"

definition histogram_render :: "(rat \<Rightarrow> string) \<Rightarrow> Histogram \<Rightarrow> string" where
  "histogram_render rf h = join newline (exposition_head (hg_name h) (hg_help h) ''histogram'' @
     concat (map (histogram_lines rf h) (sort (map fst (hg_counts h))))) @ newline"

section \<open>Registry\<close>

record metrics_registry =
  mr_counters :: "(string \<times> Counter) list"
  mr_histograms :: "(string \<times> Histogram) list"

definition empty_registry :: metrics_registry where
  "empty_registry = \<lparr>mr_counters = [], mr_histograms = []\<rparr>"

definition registry_counter :: "string \<Rightarrow> string \<Rightarrow> metrics_registry \<Rightarrow> metrics_registry" where
  "registry_counter name help_text r = r\<lparr>mr_counters := setdefault name (new_counter name help_text) (mr_counters r)\<rparr>"

definition registry_histogram :: "string \<Rightarrow> string \<Rightarrow> rat list \<Rightarrow> metrics_registry \<Rightarrow> metrics_registry" where
  "registry_histogram name help_text buckets r =
     r\<lparr>mr_histograms := setdefault name (new_histogram name help_text buckets) (mr_histograms r)\<rparr>"

definition registry_render :: "(rat \<Rightarrow> string) \<Rightarrow> metrics_registry \<Rightarrow> string" where
  "registry_render rf r = concat (map (counter_render rf \<circ> snd) (mr_counters r)) @
     concat (map (histogram_render rf \<circ> snd) (mr_histograms r))"

section \<open>Gauges\<close>

datatype number = IntNum int | FloatNum rat

definition number_text :: "(rat \<Rightarrow> string) \<Rightarrow> number \<Rightarrow> string" where
  "number_text rf n = (case n of IntNum i \<Rightarrow> str_of_int i | FloatNum r \<Rightarrow> rf r)"

definition gauge_label_name :: "string \<Rightarrow> string" where
  "gauge_label_name name = map (\<lambda>c. if name_char c \<and> c \<noteq> CHR '':'' then c else CHR ''_'') name"

definition gauge :: "(rat \<Rightarrow> string) \<Rightarrow> string \<Rightarrow> string \<Rightarrow> number \<Rightarrow> (string \<times> string) list \<Rightarrow> string" where
  "gauge rf name description v labels =
     (let text = join '','' (map (\<lambda>(n, w). gauge_label_name n @ ''='' @ quoted (label_value w)) (sort labels));
          suffix = (if text = [] then [] else ''{'' @ text @ ''}'');
          metric = sanitize name
      in ''# HELP '' @ metric @ '' '' @ description @ newline @ ''# TYPE '' @ metric @ '' gauge'' @ newline @
         metric @ suffix @ '' '' @ number_text rf v @ newline)"

definition service_metrics :: "(rat \<Rightarrow> string) \<Rightarrow> string \<Rightarrow> bool \<Rightarrow> (string \<times> number) list \<Rightarrow> string" where
  "service_metrics rf service healthy extra =
     gauge rf ''sovereign_service_up'' ''Service liveness reported by the application process.'' (IntNum (if healthy then 1 else 0))
       [(''service'', service)] @
     concat (map (\<lambda>(name, v). gauge rf (''sovereign_'' @ name)
       (''Sovereign Platform '' @ map (\<lambda>c. if c = CHR ''_'' then CHR '' '' else c) name @ ''.'') v [(''service'', service)])
       (sort_key fst extra))"

definition metrics_route :: "(rat \<Rightarrow> string) \<Rightarrow> string \<Rightarrow> (string \<times> number) list \<Rightarrow> metrics_registry \<Rightarrow> string" where
  "metrics_route rf service extra r = service_metrics rf service True extra @ registry_render rf r"

section \<open>Request middleware\<close>

definition REQUESTS_TOTAL :: string where
  "REQUESTS_TOTAL = ''sovereign_http_requests_total''"

definition REQUEST_DURATION :: string where
  "REQUEST_DURATION = ''sovereign_http_request_duration_seconds''"

record http_incoming =
  in_method :: string
  in_path :: string
  in_route :: "string option"
  in_traceparent :: "string option"

record http_outgoing =
  out_status :: int
  out_headers :: "(string \<times> string) list"

definition route_label :: "http_incoming \<Rightarrow> string" where
  "route_label rq = (case in_route rq of Some p \<Rightarrow> p | None \<Rightarrow> in_path rq)"

text \<open>Installing the middleware creates its two metrics in the process-wide registry.\<close>

definition install_middleware :: "metrics_registry \<Rightarrow> metrics_registry" where
  "install_middleware r = registry_histogram REQUEST_DURATION ''HTTP request duration in seconds.'' DEFAULT_BUCKETS
     (registry_counter REQUESTS_TOTAL ''Total HTTP requests handled.'' r)"

definition map_entry :: "'k \<Rightarrow> ('v \<Rightarrow> 'v) \<Rightarrow> ('k \<times> 'v) list \<Rightarrow> ('k \<times> 'v) list" where
  "map_entry k f d = map (\<lambda>(k', v). (k', if k' = k then f v else v)) d"

definition count_request :: "string \<Rightarrow> http_incoming \<Rightarrow> int \<Rightarrow> rat \<Rightarrow> metrics_registry \<Rightarrow> metrics_registry" where
  "count_request service rq status duration r = r\<lparr>
     mr_counters := map_entry REQUESTS_TOTAL (counter_inc [(''service'', service), (''method'', in_method rq),
       (''route'', route_label rq), (''status'', str_of_int status)] 1) (mr_counters r),
     mr_histograms := map_entry REQUEST_DURATION (histogram_observe duration [(''service'', service), (''method'', in_method rq),
       (''route'', route_label rq)]) (mr_histograms r)\<rparr>"

text \<open>The trace of the incoming header is continued, or a new one is started; the handler runs under it.
  The metrics are written in the \<open>finally\<close> block, so also when the handler raises.\<close>

definition observe_dispatch :: "env \<Rightarrow> (event list \<Rightarrow> rat) \<Rightarrow> string \<Rightarrow> (env \<Rightarrow> http_incoming \<Rightarrow> http_outgoing prog) \<Rightarrow>
    http_incoming \<Rightarrow> metrics_registry \<Rightarrow> ((exn + http_outgoing) \<times> metrics_registry) prog" where
  "observe_dispatch E clock service call_next rq r =
     bind_io (case parse_traceparent (in_traceparent rq) of Some (t, _) \<Rightarrow> ret t | None \<Rightarrow> token_hex_io E 16) (\<lambda>trace_id.
     bind_io (token_hex_io E 8) (\<lambda>span_id.
     bind_io (\<lambda>h. (Inr (clock h), h)) (\<lambda>start.
     bind_io (try_io (call_next (E\<lparr>env_trace_id := Some trace_id\<rparr>) rq)) (\<lambda>res.
     bind_io (\<lambda>h. (Inr (clock h), h)) (\<lambda>stop.
       ret (case res of
         Inl x \<Rightarrow> (Inl x, count_request service rq 500 (stop - start) r)
       | Inr out \<Rightarrow> (Inr (out\<lparr>out_headers := AList.update ''traceparent'' (format_traceparent trace_id span_id True) (out_headers out)\<rparr>),
           count_request service rq (out_status out) (stop - start) r)))))))"

section \<open>Readiness\<close>

record CheckResult =
  ck_name :: string
  ck_ok :: bool
  ck_detail :: string

text \<open>A check with the name it carries; a check without one reports as ``check''.\<close>

type_synonym readiness_check = "string option \<times> CheckResult prog"

definition run_check :: "env \<Rightarrow> readiness_check \<Rightarrow> CheckResult prog" where
  "run_check E c = catch_io (snd c) (\<lambda>x. ret \<lparr>ck_name = (case fst c of Some n \<Rightarrow> n | None \<Rightarrow> ''check''), ck_ok = False, ck_detail = env_str_exn E x\<rparr>)"

definition callable_dependency :: "env \<Rightarrow> string \<Rightarrow> unit prog \<Rightarrow> readiness_check" where
  "callable_dependency E name probe = (Some name, catch_io
     (seq_io probe (ret \<lparr>ck_name = name, ck_ok = True, ck_detail = ''reachable''\<rparr>))
     (\<lambda>x. ret \<lparr>ck_name = name, ck_ok = False, ck_detail = env_str_exn E x\<rparr>))"

definition http_dependency :: "env \<Rightarrow> string \<Rightarrow> string \<Rightarrow> readiness_check" where
  "http_dependency E name url = (Some name, catch_io
     (bind_io (http_io E \<lparr>rq_method = ''GET'', rq_url = url, rq_headers = [], rq_body = JNull\<rparr>) (\<lambda>r.
        ret \<lparr>ck_name = name, ck_ok = (rs_status r < 500), ck_detail = str_of_int (rs_status r)\<rparr>))
     (\<lambda>x. if is_HTTPError x then ret \<lparr>ck_name = name, ck_ok = False, ck_detail = env_str_exn E x\<rparr> else throw x))"

definition readyz :: "env \<Rightarrow> string \<Rightarrow> readiness_check list \<Rightarrow> (int \<times> json) prog" where
  "readyz E service checks = bind_io (map_io (run_check E) checks) (\<lambda>results.
     let ready = list_all ck_ok results in
     ret (if ready then 200 else 503, JObj [(''service'', JStr service), (''ready'', JBool ready),
       (''checks'', JList (map (\<lambda>c. JObj [(''name'', JStr (ck_name c)), (''ok'', JBool (ck_ok c)), (''detail'', JStr (ck_detail c))]) results))]))"

section \<open>Origins\<close>

record cors_policy =
  co_origins :: "string list"
  co_methods :: "string list"
  co_headers :: "string list"
  co_credentials :: bool
  co_max_age :: int

definition install_cors :: "settings \<Rightarrow> cors_policy option" where
  "install_cors s = (let origins = filter (\<lambda>o'. o' \<noteq> []) (map strip (split_on (CHR '','') (cfg_portal_origins s)))
     in if origins = [] then None
        else Some \<lparr>co_origins = origins, co_methods = [''GET'', ''POST'', ''PUT'', ''PATCH'', ''DELETE'', ''OPTIONS''],
          co_headers = [''Authorization'', ''Content-Type'', ''Accept''], co_credentials = False, co_max_age = 600\<rparr>)"

section \<open>Label values cannot forge labels\<close>

text \<open>The escaping, character by character.\<close>

definition escape_char :: "char \<Rightarrow> string" where
  "escape_char c = (if c = CHR 0x5C then [CHR 0x5C, CHR 0x5C] else if c = CHR 0x0A then [CHR 0x5C, CHR ''n'']
     else if c = CHR 0x22 then [CHR 0x5C, CHR 0x22] else [c])"

lemma label_value_escape: "label_value s = concat (map escape_char s)"
  by (induction s) (auto simp: label_value_def replace_char_def escape_char_def)

fun unescape_label :: "string \<Rightarrow> string" where
  "unescape_label [] = []"
| "unescape_label [c] = [c]"
| "unescape_label (c # d # s) = (if c = CHR 0x5C then (if d = CHR ''n'' then CHR 0x0A else d) # unescape_label s else c # unescape_label (d # s))"

lemma unescape_plain: "c \<noteq> CHR 0x5C \<Longrightarrow> unescape_label (c # s) = c # unescape_label s"
  by (cases s) auto

lemma unescape_label_escape: "unescape_label (concat (map escape_char s)) = s"
  by (induction s) (auto simp: escape_char_def unescape_plain)

lemma label_value_inj: "label_value s = label_value t \<Longrightarrow> s = t"
  unfolding label_value_escape by (metis unescape_label_escape)

text \<open>Inside an escaped value no quote stands on its own and no line ends.\<close>

lemma label_value_no_newline: "CHR 0x0A \<notin> set (label_value s)"
  unfolding label_value_escape by (induction s) (auto simp: escape_char_def)

section \<open>Counters add up\<close>

lemma counter_inc_value:
  "counter_value (counter_inc labels a c) k = counter_value c k + (if k = label_key labels then a else 0)"
  by (simp add: counter_inc_def counter_value_def Let_def update_conv)

lemma counter_run:
  "counter_value (foldl (\<lambda>c (labels, a). counter_inc labels a c) c incs) k =
   counter_value c k + sum_list (map snd (filter (\<lambda>(labels, a). label_key labels = k) incs))"
  by (induction incs arbitrary: c) (auto simp: counter_inc_value)

section \<open>Histograms count observations\<close>

lemma cumulate_Suc: "cumulate (Suc a) cs = map Suc (cumulate a cs)"
  by (induction cs arbitrary: a) auto

lemma length_cumulate [simp]: "length (cumulate a cs) = length cs"
  by (induction cs arbitrary: a) auto

lemma length_tally [simp]: "length (tally v es cs) = length cs"
  by (induction v es cs rule: tally.induct) auto

lemma cumulate_tally:
  assumes "sorted es" "length cs = length es"
  shows "cumulate a (tally v es cs) = map2 (\<lambda>e n. n + (if v \<le> e then 1 else 0)) es (cumulate a cs)"
  using assms
proof (induction v es cs arbitrary: a rule: tally.induct)
  case (1 v e es c cs)
  show ?case
  proof (cases "v \<le> e")
    case True
    with 1 have "\<forall>e'\<in>set es. v \<le> e'" by auto
    then have "map2 (\<lambda>e n. n + (if v \<le> e then 1 else 0)) es ns = map Suc ns" if "length ns = length es" for ns
      using that by (induction es ns rule: list_induct2') auto
    with True 1 show ?thesis by (simp add: cumulate_Suc)
  qed (use 1 in simp)
qed auto

text \<open>What a histogram holds after a sequence of observations.\<close>

definition observed :: "label_key \<Rightarrow> (rat \<times> (string \<times> string) list) list \<Rightarrow> rat list" where
  "observed k obs = map fst (filter (\<lambda>(v, labels). label_key labels = k) obs)"

definition observe_all :: "(rat \<times> (string \<times> string) list) list \<Rightarrow> Histogram \<Rightarrow> Histogram" where
  "observe_all obs h = foldl (\<lambda>h (v, labels). histogram_observe v labels h) h obs"

definition at_most :: "rat list \<Rightarrow> rat \<Rightarrow> nat" where
  "at_most vs e = length (filter (\<lambda>v. v \<le> e) vs)"

definition histogram_holds :: "Histogram \<Rightarrow> label_key \<Rightarrow> rat list \<Rightarrow> bool" where
  "histogram_holds h k vs \<longleftrightarrow> (if vs = [] then map_of (hg_counts h) k = None \<and> map_of (hg_sum h) k = None \<and> map_of (hg_total h) k = None
     else (\<exists>cs. map_of (hg_counts h) k = Some cs \<and> length cs = length (hg_buckets h) \<and> cumulate 0 cs = map (at_most vs) (hg_buckets h)) \<and>
       map_of (hg_sum h) k = Some (sum_list vs) \<and> map_of (hg_total h) k = Some (length vs))"

lemma cumulate_zeros: "cumulate 0 (replicate n 0) = replicate n 0"
  by (induction n) auto

lemma map2_at_most: "map2 (\<lambda>e n. n + (if v \<le> e then 1 else 0)) es (map (at_most vs) es) = map (at_most (vs @ [v])) es"
  by (induction es) (auto simp: at_most_def)

lemma histogram_observe_holds:
  assumes "sorted (hg_buckets h)" "histogram_holds h k vs"
  shows "histogram_holds (histogram_observe v labels h) k (if label_key labels = k then vs @ [v] else vs)"
proof (cases "label_key labels = k")
  case True
  have zero: "map2 (\<lambda>e n. n + (if v \<le> e then 1 else 0)) es (replicate (length es) (0::nat)) = map (at_most [v]) es" for es
    by (induction es) (auto simp: at_most_def)
  from True assms show ?thesis
    by (cases "vs = []")
      (auto simp: histogram_holds_def histogram_observe_def Let_def update_conv cumulate_tally map2_at_most cumulate_zeros zero)
next
  case False
  with assms(2) show ?thesis
    by (auto simp: histogram_holds_def histogram_observe_def Let_def update_conv)
qed

lemma observe_all_frame:
  "hg_buckets (observe_all obs h) = hg_buckets h" "hg_name (observe_all obs h) = hg_name h"
proof -
  have "hg_buckets (observe_all obs h) = hg_buckets h \<and> hg_name (observe_all obs h) = hg_name h"
    by (induction obs rule: rev_induct) (auto simp: observe_all_def histogram_observe_def Let_def)
  then show "hg_buckets (observe_all obs h) = hg_buckets h" "hg_name (observe_all obs h) = hg_name h" by auto
qed

lemma observe_all_holds: "histogram_holds (observe_all obs (new_histogram name help_text buckets)) k (observed k obs)"
proof (induction obs rule: rev_induct)
  case Nil
  show ?case by (simp add: observed_def observe_all_def histogram_holds_def new_histogram_def)
next
  case (snoc o' obs)
  obtain v labels where o': "o' = (v, labels)" by (cases o')
  have "sorted (hg_buckets (observe_all obs (new_histogram name help_text buckets)))"
    by (simp add: observe_all_frame new_histogram_def)
  from histogram_observe_holds [OF this snoc.IH, of v labels] show ?case
    by (simp add: o' observe_all_def observed_def split: if_splits)
qed

lemma histogram_lines_spec:
  assumes "observed k obs \<noteq> []"
  shows "histogram_lines rf (observe_all obs (new_histogram name help_text buckets)) k =
    (let h = new_histogram name help_text buckets; vs = observed k obs in
     map (\<lambda>e. bucket_line h k (fmt rf e) (at_most vs e)) (sort buckets) @
     [bucket_line h k ''+Inf'' (length vs),
      sanitize name @ ''_sum'' @ render_labels k None @ '' '' @ fmt rf (sum_list vs),
      sanitize name @ ''_count'' @ render_labels k None @ '' '' @ str_of_nat (length vs)])"
proof -
  let ?h = "observe_all obs (new_histogram name help_text buckets)"
  from observe_all_holds [of obs name help_text buckets k] assms obtain cs where
    "map_of (hg_counts ?h) k = Some cs" "cumulate 0 cs = map (at_most (observed k obs)) (sort buckets)"
    "map_of (hg_sum ?h) k = Some (sum_list (observed k obs))" "map_of (hg_total ?h) k = Some (length (observed k obs))"
    by (auto simp: histogram_holds_def observe_all_frame new_histogram_def)
  moreover have "map2 f es (map g es) = map (\<lambda>e. f e (g e)) es" for f and g :: "rat \<Rightarrow> nat" and es
    by (induction es) auto
  ultimately show ?thesis
    by (simp add: histogram_lines_def Let_def observe_all_frame bucket_line_def) (simp add: new_histogram_def)
qed

section \<open>Every request is counted\<close>

lemma map_entry_lookup: "map_of (map_entry k f d) k' = map_option (if k' = k then f else id) (map_of d k')"
  by (induction d) (auto simp: map_entry_def)

lemma count_request_counter:
  assumes "map_of (mr_counters r) REQUESTS_TOTAL = Some c"
  shows "map_of (mr_counters (count_request service rq status d r)) REQUESTS_TOTAL =
    Some (counter_inc [(''service'', service), (''method'', in_method rq), (''route'', route_label rq), (''status'', str_of_int status)] 1 c)"
  using assms by (simp add: count_request_def map_entry_lookup)

lemma observe_dispatch_total:
  "\<exists>out r' h'. observe_dispatch E clock service call_next rq r h = (Inr (out, r'), h') \<and>
    (\<exists>d. r' = count_request service rq (case out of Inl _ \<Rightarrow> 500 | Inr resp \<Rightarrow> out_status resp) d r)"
proof -
  have trace: "\<exists>t h1. (case parse_traceparent (in_traceparent rq) of Some (t, _) \<Rightarrow> ret t | None \<Rightarrow> token_hex_io E 16) h = (Inr t, h1)"
    by (auto simp: ret_def call_defs split: option.split)
  then obtain t h1 where t: "(case parse_traceparent (in_traceparent rq) of Some (t, _) \<Rightarrow> ret t | None \<Rightarrow> token_hex_io E 16) h = (Inr t, h1)"
    by blast
  obtain s h2 where s: "token_hex_io E 8 h1 = (Inr s, h2)" by (auto simp: call_defs)
  obtain res h3 where c: "(try_io (call_next (E\<lparr>env_trace_id := Some t\<rparr>) rq) :: (exn + http_outgoing) prog) h2 = (Inr res, h3)"
    by (cases "call_next (E\<lparr>env_trace_id := Some t\<rparr>) rq h2") (auto simp: try_io_def)
  let ?d = "clock h3 - clock h2"
  have "observe_dispatch E clock service call_next rq r h = (Inr (case res of
       Inl x \<Rightarrow> (Inl x, count_request service rq 500 ?d r)
     | Inr out \<Rightarrow> (Inr (out\<lparr>out_headers := AList.update ''traceparent'' (format_traceparent t s True) (out_headers out)\<rparr>),
         count_request service rq (out_status out) ?d r)), h3)"
    by (simp add: observe_dispatch_def bind_io_def t s c ret_def)
  then show ?thesis by (cases res) fastforce+
qed

text \<open>A run of the service: the requests one after the other, each with its handler.\<close>

fun serve_all :: "env \<Rightarrow> (event list \<Rightarrow> rat) \<Rightarrow> string \<Rightarrow> ((env \<Rightarrow> http_incoming \<Rightarrow> http_outgoing prog) \<times> http_incoming) list \<Rightarrow>
    metrics_registry \<Rightarrow> metrics_registry prog" where
  "serve_all E clock service [] r = ret r"
| "serve_all E clock service ((call, rq) # rs) r = bind_io (observe_dispatch E clock service call rq r) (\<lambda>(_, r'). serve_all E clock service rs r')"

definition counter_ok :: "metrics_registry \<Rightarrow> nat \<Rightarrow> bool" where
  "counter_ok r n \<longleftrightarrow> (\<exists>c. map_of (mr_counters r) REQUESTS_TOTAL = Some c \<and> distinct (map fst (ct_values c)) \<and>
     sum_list (map snd (ct_values c)) = of_nat n)"

lemma counter_inc_sum:
  assumes "distinct (map fst (ct_values c))"
  shows "distinct (map fst (ct_values (counter_inc labels a c))) \<and>
    sum_list (map snd (ct_values (counter_inc labels a c))) = sum_list (map snd (ct_values c)) + a"
  using update_sum [OF assms, of "label_key labels" a] assms
  by (simp add: counter_inc_def counter_value_def Let_def distinct_update)

lemma count_request_ok: "counter_ok r n \<Longrightarrow> counter_ok (count_request service rq status d r) (Suc n)"
  unfolding counter_ok_def using counter_inc_sum count_request_counter by fastforce

lemma serve_all_counts:
  "counter_ok r n \<Longrightarrow> \<exists>r' h'. serve_all E clock service rs r h = (Inr r', h') \<and> counter_ok r' (n + length rs)"
proof (induction rs arbitrary: r n h)
  case (Cons p rs)
  obtain call rq where p: "p = (call, rq)" by (cases p)
  obtain out r1 h1 where d: "observe_dispatch E clock service call rq r h = (Inr (out, r1), h1)"
    and r1: "\<exists>st d. r1 = count_request service rq st d r"
    using observe_dispatch_total [of E clock service call rq r h] by blast
  from r1 Cons.prems have "counter_ok r1 (Suc n)" using count_request_ok by blast
  from Cons.IH [OF this, of h1] d show ?case by (simp add: p bind_io_def)
qed (simp add: ret_def)

lemma installed_counter: "counter_ok (install_middleware empty_registry) 0"
  by (simp add: counter_ok_def install_middleware_def registry_histogram_def registry_counter_def empty_registry_def
      setdefault_def new_counter_def)

section \<open>Readiness\<close>

lemma run_check_ok: "\<exists>r h'. run_check E c h = (Inr r, h')"
  by (auto simp: run_check_def catch_io_def ret_def split: prod.split sum.split)

lemma readyz_total:
  "\<exists>results h'. map_io (run_check E) checks h = (Inr results, h') \<and> length results = length checks \<and>
    fst (readyz E service checks h) = Inr (if list_all ck_ok results then 200 else 503,
      JObj [(''service'', JStr service), (''ready'', JBool (list_all ck_ok results)),
       (''checks'', JList (map (\<lambda>c. JObj [(''name'', JStr (ck_name c)), (''ok'', JBool (ck_ok c)), (''detail'', JStr (ck_detail c))]) results))])"
  using map_io_total [of "run_check E" checks h] run_check_ok by (auto simp: readyz_def bind_io_def ret_def Let_def)

end
