(* ===== verification/FinOps.thy ===== *)
theory FinOps
  imports Models "HOL-Library.Product_Lexorder" "HOL-Library.Multiset"
begin

text \<open>
  Model of \<open>packs/finops/sovereign_finops/models.py\<close>: cost rates, the aggregation of usage records into a
  chargeback report, and the comparison of a report with budgets. Shown: a report accounts for every
  unit of usage exactly once, its lines are sorted and one per service type and unit, its total is
  the sum of its lines, each line is within half a millionth of price times quantity; a budget is
  reported breached exactly when the reported amount exceeds it.
\<close>

section \<open>Rates\<close>

record CostRate =
  cr_service_type :: string
  cr_unit :: string
  cr_price_per_unit :: rat
  cr_currency :: string

type_synonym CostModel = "CostRate list"

definition price :: "CostModel \<Rightarrow> string \<Rightarrow> string \<Rightarrow> rat" where
  "price rates service_type unit = (case find (\<lambda>r. cr_service_type r = service_type \<and> cr_unit r = unit) rates of
     Some r \<Rightarrow> cr_price_per_unit r
   | None \<Rightarrow> (case find (\<lambda>r. cr_service_type r = ''*'' \<and> cr_unit r = unit) rates of
       Some r \<Rightarrow> cr_price_per_unit r | None \<Rightarrow> 0))"

record Budget =
  bg_tenant_id :: string
  bg_scope :: string
  bg_limit :: rat
  bg_currency :: string
  bg_period :: string

text \<open>\<open>Field(ge=0)\<close> of the rates and the budgets.\<close>

definition valid_rate :: "CostRate \<Rightarrow> bool" where
  "valid_rate r \<longleftrightarrow> 0 \<le> cr_price_per_unit r"

definition valid_budget :: "Budget \<Rightarrow> bool" where
  "valid_budget b \<longleftrightarrow> 0 \<le> bg_limit b"

section \<open>Rounding\<close>

text \<open>\<open>round(x, 6)\<close>: to the nearest millionth, ties to the even one.\<close>

definition round_half_even :: "rat \<Rightarrow> int" where
  "round_half_even q = (let f = floor q; d = q - of_int f
     in if d < 1 / 2 then f else if 1 / 2 < d then f + 1 else if even f then f else f + 1)"

definition round6 :: "rat \<Rightarrow> rat" where
  "round6 q = of_int (round_half_even (q * 1000000)) / 1000000"

section \<open>Chargeback\<close>

record ChargebackLineItem =
  li_service_type :: string
  li_unit :: string
  li_quantity :: rat
  li_unit_price :: rat
  li_cost :: rat

record ChargebackReport =
  cb_tenant_id :: string
  cb_currency :: string
  cb_total_cost :: rat
  cb_line_items :: "ChargebackLineItem list"

text \<open>\<open>str((u.metadata or {}).get("service_type") or u.resource_type)\<close>, with the text of a value that is
  not a string as the parameter \<open>str_of\<close>.\<close>

definition usage_key :: "(json \<Rightarrow> string) \<Rightarrow> Usage \<Rightarrow> string \<times> string" where
  "usage_key str_of u = (let v = jget (us_metadata u) ''service_type'' in
     (if jtruthy v then (case v of JStr s \<Rightarrow> s | _ \<Rightarrow> str_of v) else us_resource_type u, us_unit u))"

definition add_usage :: "(json \<Rightarrow> string) \<Rightarrow> ((string \<times> string) \<times> rat) list \<Rightarrow> Usage \<Rightarrow> ((string \<times> string) \<times> rat) list" where
  "add_usage str_of grouped u = (let k = usage_key str_of u
     in AList.update k ((case map_of grouped k of Some q \<Rightarrow> q | None \<Rightarrow> 0) + us_quantity u) grouped)"

definition group_usage :: "(json \<Rightarrow> string) \<Rightarrow> Usage list \<Rightarrow> ((string \<times> string) \<times> rat) list" where
  "group_usage str_of usage = foldl (add_usage str_of) [] usage"

definition line_item :: "CostModel \<Rightarrow> (string \<times> string) \<times> rat \<Rightarrow> ChargebackLineItem" where
  "line_item model kq = (case kq of ((svc, unit), qty) \<Rightarrow> \<lparr>li_service_type = svc, li_unit = unit, li_quantity = qty,
     li_unit_price = price model svc unit, li_cost = round6 (price model svc unit * qty)\<rparr>)"

definition chargeback :: "(json \<Rightarrow> string) \<Rightarrow> string \<Rightarrow> Usage list \<Rightarrow> CostModel \<Rightarrow> string \<Rightarrow> ChargebackReport" where
  "chargeback str_of tenant_id usage model currency =
     (let items = map (line_item model) (sort (group_usage str_of usage));
          total = foldl (\<lambda>t i. t + li_cost i) 0 items
      in \<lparr>cb_tenant_id = tenant_id, cb_currency = currency, cb_total_cost = round6 total, cb_line_items = items\<rparr>)"

section \<open>Budgets\<close>

record BudgetStatus =
  bs_scope :: string
  bs_used :: rat
  bs_limit :: rat
  bs_currency :: string
  bs_breached :: bool

text \<open>The amount a budget is compared with; \<open>None\<close> when the budget is skipped.\<close>

definition budget_used :: "ChargebackReport \<Rightarrow> Budget \<Rightarrow> rat option" where
  "budget_used report b = (if bg_tenant_id b \<noteq> cb_tenant_id report then None
     else if bg_scope b = ''tenant'' then Some (cb_total_cost report)
     else if startswith (bg_scope b) ''service_type:''
       then (let svc = removeprefix (bg_scope b) ''service_type:''
         in Some (sum_list (map li_cost (filter (\<lambda>li. li_service_type li = svc) (cb_line_items report)))))
     else None)"

definition budget_status :: "ChargebackReport \<Rightarrow> Budget list \<Rightarrow> BudgetStatus list" where
  "budget_status report budgets = List.map_filter (\<lambda>b. map_option (\<lambda>used.
     \<lparr>bs_scope = bg_scope b, bs_used = round6 used, bs_limit = bg_limit b, bs_currency = bg_currency b,
      bs_breached = (bg_limit b < used)\<rparr>) (budget_used report b)) budgets"

section \<open>Rounding is to the nearest millionth\<close>

lemma round_half_even_int [simp]: "round_half_even (of_int z) = z"
  by (simp add: round_half_even_def)

lemma round_half_even_near: "\<bar>of_int (round_half_even q) - q\<bar> \<le> 1 / 2"
proof -
  have "0 \<le> q - of_int \<lfloor>q\<rfloor>" "q - of_int \<lfloor>q\<rfloor> < 1" by linarith+
  then show ?thesis by (auto simp: round_half_even_def Let_def abs_le_iff)
qed

lemma round6_near: "\<bar>round6 q - q\<bar> \<le> 1 / 2000000"
proof -
  have "round6 q - q = (of_int (round_half_even (q * 1000000)) - q * 1000000) / 1000000"
    by (simp add: round6_def field_simps)
  then have "\<bar>round6 q - q\<bar> = \<bar>of_int (round_half_even (q * 1000000)) - q * 1000000\<bar> / 1000000"
    by (simp only: abs_divide abs_numeral)
  also have "\<dots> \<le> (1 / 2) / 1000000" using round_half_even_near by (rule divide_right_mono) simp
  finally show ?thesis by simp
qed

definition millionths :: "rat \<Rightarrow> bool" where
  "millionths q \<longleftrightarrow> (\<exists>z. q = of_int z / 1000000)"

lemma millionths_round6 [simp]: "millionths (round6 q)"
  by (auto simp: millionths_def round6_def)

lemma millionths_zero [simp]: "millionths 0"
  unfolding millionths_def by (rule exI [of _ 0]) simp

lemma millionths_add: "millionths p \<Longrightarrow> millionths q \<Longrightarrow> millionths (p + q)"
  unfolding millionths_def by (metis add_divide_distrib of_int_add)

lemma round6_millionths: "millionths q \<Longrightarrow> round6 q = q"
  by (auto simp: millionths_def round6_def)

lemma millionths_sum: "\<forall>q\<in>set qs. millionths q \<Longrightarrow> millionths (sum_list qs)"
  by (induction qs) (auto intro: millionths_add)

lemma round6_nonneg: "0 \<le> q \<Longrightarrow> 0 \<le> round6 q"
proof -
  assume "0 \<le> q"
  then have "0 \<le> floor (q * 1000000)" by simp
  then show ?thesis by (auto simp: round6_def round_half_even_def Let_def)
qed

section \<open>Grouping\<close>

definition usage_of :: "(json \<Rightarrow> string) \<Rightarrow> string \<times> string \<Rightarrow> Usage list \<Rightarrow> rat" where
  "usage_of str_of k usage = sum_list (map us_quantity (filter (\<lambda>u. usage_key str_of u = k) usage))"

lemma usage_of_absent: "k \<notin> usage_key str_of ` set us \<Longrightarrow> usage_of str_of k us = 0"
  by (induction us) (auto simp: usage_of_def)

lemma usage_of_snoc: "usage_of str_of k (us @ [u]) = usage_of str_of k us + (if usage_key str_of u = k then us_quantity u else 0)"
  by (simp add: usage_of_def)

lemma group_snoc: "group_usage str_of (us @ [u]) = add_usage str_of (group_usage str_of us) u"
  by (simp add: group_usage_def)

lemma group_usage_map:
  "map_of (group_usage str_of us) k = (if k \<in> usage_key str_of ` set us then Some (usage_of str_of k us) else None)"
proof (induction us rule: rev_induct)
  case (snoc u us)
  then show ?case by (auto simp: group_snoc add_usage_def Let_def update_conv usage_of_snoc usage_of_absent)
qed (simp add: group_usage_def)

lemma group_usage_distinct: "distinct (map fst (group_usage str_of us))"
  by (induction us rule: rev_induct) (auto simp: group_snoc add_usage_def Let_def distinct_update, simp add: group_usage_def)

lemma group_usage_sum: "sum_list (map snd (group_usage str_of us)) = sum_list (map us_quantity us)"
  by (induction us rule: rev_induct)
    (simp_all add: group_snoc add_usage_def Let_def update_sum group_usage_distinct, simp add: group_usage_def)

section \<open>The report\<close>

definition line_key :: "ChargebackLineItem \<Rightarrow> string \<times> string" where
  "line_key li = (li_service_type li, li_unit li)"

lemma line_item_simps [simp]:
  "line_key (line_item m kq) = fst kq" "li_quantity (line_item m kq) = snd kq"
  "li_unit_price (line_item m kq) = price m (fst (fst kq)) (snd (fst kq))"
  "li_cost (line_item m kq) = round6 (price m (fst (fst kq)) (snd (fst kq)) * snd kq)"
  by (simp_all add: line_item_def line_key_def split: prod.split)

lemma sum_list_sort: "sum_list (map f (sort xs)) = (sum_list (map f xs) :: rat)"
  by (metis mset_map mset_sort sum_mset_sum_list)

lemma sorted_fst: "sorted xs \<Longrightarrow> sorted (map fst (xs :: ('a::linorder \<times> 'b::linorder) list))"
  by (induction xs) (auto simp: less_eq_prod_def)

lemma chargeback_lines:
  "map line_key (cb_line_items (chargeback str_of tid us m c)) = map fst (sort (group_usage str_of us))"
  by (simp add: chargeback_def Let_def)

lemma chargeback_keys:
  "sorted (map line_key (cb_line_items (chargeback str_of tid us m c))) \<and>
   distinct (map line_key (cb_line_items (chargeback str_of tid us m c))) \<and>
   set (map line_key (cb_line_items (chargeback str_of tid us m c))) = usage_key str_of ` set us"
proof -
  have "distinct (map fst (sort (group_usage str_of us)))"
    using group_usage_distinct [of str_of us] mset_eq_imp_distinct_iff [of "map fst (sort (group_usage str_of us))" "map fst (group_usage str_of us)"]
    by simp
  moreover have "k \<in> fst ` set (group_usage str_of us) \<longleftrightarrow> k \<in> usage_key str_of ` set us" for k
    using group_usage_map [of str_of us k] map_of_eq_None_iff [of "group_usage str_of us" k] by (simp split: if_splits)
  then have "fst ` set (group_usage str_of us) = usage_key str_of ` set us" by blast
  ultimately show ?thesis unfolding chargeback_lines by (simp add: sorted_fst del: map_map)
qed

lemma chargeback_line:
  assumes "li \<in> set (cb_line_items (chargeback str_of tid us m c))"
  shows "li_quantity li = usage_of str_of (line_key li) us \<and>
    li_unit_price li = price m (li_service_type li) (li_unit li) \<and>
    li_cost li = round6 (li_unit_price li * li_quantity li)"
proof -
  from assms obtain k q where kq: "(k, q) \<in> set (group_usage str_of us)" and li: "li = line_item m (k, q)"
    by (auto simp: chargeback_def Let_def)
  then have "map_of (group_usage str_of us) k = Some q" using group_usage_distinct by simp
  then have "q = usage_of str_of k us" by (simp add: group_usage_map split: if_splits)
  with li show ?thesis by (cases k) (simp add: line_item_def line_key_def)
qed

lemma chargeback_quantities:
  "sum_list (map li_quantity (cb_line_items (chargeback str_of tid us m c))) = sum_list (map us_quantity us)"
  using sum_list_sort [of snd "group_usage str_of us"] group_usage_sum [of str_of us]
  by (simp add: chargeback_def Let_def comp_def)

lemma foldl_sum: "foldl (\<lambda>t i. t + f i) a xs = a + sum_list (map f xs)" for a :: rat
  by (induction xs arbitrary: a) auto

lemma chargeback_total:
  "cb_total_cost (chargeback str_of tid us m c) = sum_list (map li_cost (cb_line_items (chargeback str_of tid us m c)))"
proof -
  have "millionths (sum_list (map li_cost (cb_line_items (chargeback str_of tid us m c))))"
    by (rule millionths_sum) (auto simp: chargeback_def Let_def)
  then show ?thesis by (simp add: chargeback_def Let_def foldl_sum round6_millionths)
qed

lemma price_nonneg: "list_all valid_rate m \<Longrightarrow> 0 \<le> price m svc unit"
  by (auto simp: price_def valid_rate_def list_all_iff find_Some_iff split: option.split)

section \<open>The total against the exact price\<close>

lemma usage_weighted:
  assumes "distinct ks" "usage_key str_of ` set us \<subseteq> set ks"
  shows "sum_list (map (\<lambda>k. p k * usage_of str_of k us) ks) = sum_list (map (\<lambda>u. p (usage_key str_of u) * us_quantity u) us)"
  using assms(2)
proof (induction us rule: rev_induct)
  case (snoc u us)
  let ?d = "\<lambda>k. if k = usage_key str_of u then p k * us_quantity u else 0"
  have "(\<Sum>k\<leftarrow>ks. p k * usage_of str_of k (us @ [u])) = (\<Sum>k\<leftarrow>ks. p k * usage_of str_of k us + ?d k)"
    by (intro arg_cong [where f = sum_list] map_cong) (auto simp: usage_of_snoc algebra_simps)
  also have "\<dots> = (\<Sum>k\<leftarrow>ks. p k * usage_of str_of k us) + (\<Sum>k\<leftarrow>ks. ?d k)"
    by (rule sum_list_addf)
  also have "(\<Sum>k\<leftarrow>ks. ?d k) = (\<Sum>k\<in>set ks. ?d k)" using assms(1) by (rule sum_list_distinct_conv_sum_set)
  also have "\<dots> = p (usage_key str_of u) * us_quantity u" using snoc.prems by simp
  finally show ?case using snoc by simp
qed (simp add: usage_of_def)

lemma sum_list_near:
  "(\<And>x. x \<in> set xs \<Longrightarrow> \<bar>f x - g x\<bar> \<le> (d :: rat)) \<Longrightarrow> \<bar>sum_list (map f xs) - sum_list (map g xs)\<bar> \<le> of_nat (length xs) * d"
proof (induction xs)
  case (Cons x xs)
  have "\<bar>f x - g x\<bar> \<le> d" "\<bar>sum_list (map f xs) - sum_list (map g xs)\<bar> \<le> of_nat (length xs) * d" using Cons by auto
  then show ?case by (simp add: algebra_simps)
qed simp

lemma chargeback_exact:
  "\<bar>cb_total_cost (chargeback str_of tid us m c) -
     sum_list (map (\<lambda>u. price m (fst (usage_key str_of u)) (snd (usage_key str_of u)) * us_quantity u) us)\<bar>
   \<le> of_nat (length (cb_line_items (chargeback str_of tid us m c))) / 2000000"
proof -
  let ?ls = "cb_line_items (chargeback str_of tid us m c)" and ?p = "\<lambda>k. price m (fst k) (snd k)"
  have "sum_list (map (\<lambda>u. ?p (usage_key str_of u) * us_quantity u) us) = sum_list (map (\<lambda>k. ?p k * usage_of str_of k us) (map line_key ?ls))"
    using usage_weighted [of "map line_key ?ls" str_of us ?p] chargeback_keys [of str_of tid us m c] by simp
  also have "\<dots> = sum_list (map (\<lambda>li. li_unit_price li * li_quantity li) ?ls)"
    by (simp only: map_map) (intro arg_cong [where f = sum_list] map_cong, auto simp: line_key_def dest!: chargeback_line)
  finally have exact: "sum_list (map (\<lambda>u. ?p (usage_key str_of u) * us_quantity u) us) = sum_list (map (\<lambda>li. li_unit_price li * li_quantity li) ?ls)" .
  have "\<bar>li_cost li - li_unit_price li * li_quantity li\<bar> \<le> 1 / 2000000" if "li \<in> set ?ls" for li
    using chargeback_line [OF that] round6_near by metis
  from sum_list_near [OF this] show ?thesis unfolding exact chargeback_total by simp
qed

section \<open>Budgets are compared exactly\<close>

lemma budget_used_millionths:
  assumes "budget_used (chargeback str_of tid us m c) b = Some used"
  shows "round6 used = used"
proof -
  have "millionths used"
    using assms by (auto simp: budget_used_def chargeback_def Let_def intro!: millionths_sum split: if_splits)
  then show ?thesis by (rule round6_millionths)
qed

lemma budget_status_exact:
  "budget_status (chargeback str_of tid us m c) budgets = List.map_filter (\<lambda>b. map_option (\<lambda>used.
     \<lparr>bs_scope = bg_scope b, bs_used = used, bs_limit = bg_limit b, bs_currency = bg_currency b,
      bs_breached = (bg_limit b < used)\<rparr>) (budget_used (chargeback str_of tid us m c) b)) budgets"
  unfolding budget_status_def
  by (rule arg_cong2 [where f = List.map_filter])
    (auto simp: fun_eq_iff budget_used_millionths intro!: option.map_cong0 split: option.split dest: budget_used_millionths)

end
