(* ===== verification/Backup.thy ===== *)
theory Backup
  imports Stores
begin

text \<open>
  Model of \<open>libs/common/sovereign/backup.py\<close>: the paginated scan, the snapshot of the tables, its restore, the
  copy in S3 and the restore drill. The DynamoDB resource (scan pages, batch writer) and the JSON
  text of a snapshot are the record \<open>backup_lib\<close>. The scan loop has no bound of its own, so it is a
  partial function: \<open>None\<close> means that it never ends. Shown: it ends exactly when the pages end, and
  then returns all of them; restoring a snapshot brings every row back and touches no other.
\<close>

section \<open>Snapshots\<close>

record snapshot =
  sn_format_version :: int
  sn_tables :: "(string \<times> item list) list"

record backup_lib =
  bl_scan :: "string \<Rightarrow> string list option \<Rightarrow> (item list \<times> string list option) prog"
  bl_batch :: "string \<Rightarrow> item list \<Rightarrow> unit prog"
  bl_dumps :: "snapshot \<Rightarrow> exn + string"
  bl_loads :: "string \<Rightarrow> exn + snapshot"

definition SNAPSHOT_TABLES :: "string list" where
  "SNAPSHOT_TABLES = [''sovereign_instances'', ''sovereign_bindings'']"

definition SNAPSHOT_FORMAT_VERSION :: int where
  "SNAPSHOT_FORMAT_VERSION = 1"

datatype py_object = Decimal rat | OtherObject string

definition json_default :: "py_object \<Rightarrow> exn + json" where
  "json_default x = (case x of
     Decimal q \<Rightarrow> Inr (if q = of_int (floor q) then JInt (floor q) else JFloat q)
   | OtherObject type_name \<Rightarrow> Inl (TypeError (''not JSON serialisable: '' @ type_name)))"

text \<open>\<open>_scan_all\<close>: \<open>LastEvaluatedKey\<close> of a page starts the next one; a missing or empty key ends the loop.\<close>

partial_function (option) scan_all :: "backup_lib \<Rightarrow> string \<Rightarrow> string list option \<Rightarrow> event list \<Rightarrow>
    ((exn + item list) \<times> event list) option" where
  "scan_all L table start h = (case bl_scan L table start h of
     (Inl x, h') \<Rightarrow> Some (Inl x, h')
   | (Inr (items, last_key), h') \<Rightarrow>
       if last_key = None \<or> last_key = Some [] then Some (Inr items, h')
       else Option.bind (scan_all L table last_key h') (\<lambda>(r, h''). Some (map_sum id (\<lambda>rest. items @ rest) r, h'')))"

declare scan_all.simps [code]

fun scan_tables :: "backup_lib \<Rightarrow> string list \<Rightarrow> event list \<Rightarrow> ((exn + (string \<times> item list) list) \<times> event list) option" where
  "scan_tables L [] h = Some (Inr [], h)"
| "scan_tables L (t # ts) h = Option.bind (scan_all L t None h) (\<lambda>(r, h1). case r of
     Inl x \<Rightarrow> Some (Inl x, h1)
   | Inr items \<Rightarrow> Option.bind (scan_tables L ts h1) (\<lambda>(r, h2). Some (map_sum id (\<lambda>rest. (t, items) # rest) r, h2)))"

definition export_snapshot :: "backup_lib \<Rightarrow> string list \<Rightarrow> event list \<Rightarrow> ((exn + snapshot) \<times> event list) option" where
  "export_snapshot L tables h = Option.bind (scan_tables L tables h) (\<lambda>(r, h').
     Some (map_sum id (\<lambda>ts. \<lparr>sn_format_version = SNAPSHOT_FORMAT_VERSION, sn_tables = ts\<rparr>) r, h'))"

fun restore_tables :: "backup_lib \<Rightarrow> string list option \<Rightarrow> (string \<times> item list) list \<Rightarrow> (string \<times> int) list prog" where
  "restore_tables L only [] = ret []"
| "restore_tables L only ((name, items) # ts) = (if (case only of None \<Rightarrow> False | Some ns \<Rightarrow> name \<notin> set ns) then restore_tables L only ts
     else seq_io (bl_batch L name items) (bind_io (restore_tables L only ts) (\<lambda>cs. ret ((name, int (length items)) # cs))))"

definition restore_snapshot :: "backup_lib \<Rightarrow> string list option \<Rightarrow> snapshot \<Rightarrow> (string \<times> int) list prog" where
  "restore_snapshot L only snap = restore_tables L only (sn_tables snap)"

definition write_snapshot_to_s3 :: "backup_lib \<Rightarrow> env \<Rightarrow> string \<Rightarrow> string \<Rightarrow> snapshot \<Rightarrow> unit prog" where
  "write_snapshot_to_s3 L E bucket key snap = (case bl_dumps L snap of
     Inl x \<Rightarrow> throw x | Inr body \<Rightarrow> s3_put E bucket key body ''application/json'')"

definition read_snapshot_from_s3 :: "backup_lib \<Rightarrow> env \<Rightarrow> string \<Rightarrow> string \<Rightarrow> snapshot prog" where
  "read_snapshot_from_s3 L E bucket key = bind_io (s3_get E bucket key) (\<lambda>body.
     case bl_loads L body of Inl x \<Rightarrow> throw x | Inr snap \<Rightarrow> ret snap)"

record drill_report =
  dr_ok :: bool
  dr_counts :: "(string \<times> int) list"
  dr_key :: string

definition drill_ok :: "snapshot \<Rightarrow> snapshot \<Rightarrow> bool" where
  "drill_ok snap restored = list_all (\<lambda>(name, items).
     length (case map_of (sn_tables restored) name of Some is \<Rightarrow> is | None \<Rightarrow> []) = length items) (sn_tables snap)"

definition drill_copy :: "backup_lib \<Rightarrow> env \<Rightarrow> string \<Rightarrow> string \<Rightarrow> snapshot \<Rightarrow> drill_report prog" where
  "drill_copy L E bucket key snap = seq_io (write_snapshot_to_s3 L E bucket key snap)
     (bind_io (read_snapshot_from_s3 L E bucket key) (\<lambda>restored.
       ret \<lparr>dr_ok = drill_ok snap restored, dr_counts = map (\<lambda>(n, is). (n, int (length is))) (sn_tables snap), dr_key = key\<rparr>))"

definition run_drill :: "backup_lib \<Rightarrow> env \<Rightarrow> string \<Rightarrow> string \<Rightarrow> event list \<Rightarrow> ((exn + drill_report) \<times> event list) option" where
  "run_drill L E bucket key h = Option.bind (export_snapshot L SNAPSHOT_TABLES h) (\<lambda>(r, h'). case r of
     Inl x \<Rightarrow> Some (Inl x, h') | Inr snap \<Rightarrow> Some (drill_copy L E bucket key snap h'))"

datatype backup_action = BackupAction | RestoreAction | DrillAction

text \<open>The command line: the exit code.\<close>

definition backup_main :: "backup_lib \<Rightarrow> env \<Rightarrow> backup_action \<Rightarrow> string \<Rightarrow> string \<Rightarrow> event list \<Rightarrow> ((exn + int) \<times> event list) option" where
  "backup_main L E action bucket key h = (case action of
     BackupAction \<Rightarrow> Option.bind (export_snapshot L SNAPSHOT_TABLES h) (\<lambda>(r, h'). case r of
       Inl x \<Rightarrow> Some (Inl x, h')
     | Inr snap \<Rightarrow> Some (seq_io (write_snapshot_to_s3 L E bucket key snap) (ret 0) h'))
   | RestoreAction \<Rightarrow> Some (bind_io (read_snapshot_from_s3 L E bucket key) (\<lambda>snap. seq_io (restore_snapshot L None snap) (ret 0)) h)
   | DrillAction \<Rightarrow> Option.bind (run_drill L E bucket key h) (\<lambda>(r, h'). Some (map_sum id (\<lambda>d. if dr_ok d then 0 else 1) r, h')))"

section \<open>The scan ends when the pages end\<close>

text \<open>The pages of a scan, as an inductive relation: only finite scans have a derivation.\<close>

inductive scan_pages :: "backup_lib \<Rightarrow> string \<Rightarrow> string list option \<Rightarrow> event list \<Rightarrow> item list \<Rightarrow> event list \<Rightarrow> bool" for L t where
  last_page: "bl_scan L t s h = (Inr (items, k), h') \<Longrightarrow> k = None \<or> k = Some [] \<Longrightarrow> scan_pages L t s h items h'"
| next_page: "bl_scan L t s h = (Inr (items, k), h1) \<Longrightarrow> \<not> (k = None \<or> k = Some []) \<Longrightarrow> scan_pages L t k h1 rest h2 \<Longrightarrow>
    scan_pages L t s h (items @ rest) h2"

lemma scan_all_complete: "scan_pages L t s h items h' \<Longrightarrow> scan_all L t s h = Some (Inr items, h')"
proof (induction rule: scan_pages.induct)
  case (last_page s h items k h')
  then show ?case by (subst scan_all.simps) auto
next
  case (next_page s h items k h1 rest h2)
  then show ?case by (subst scan_all.simps) (auto simp del: not_None_eq)
qed

lemma scan_all_sound:
  assumes "scan_all L t s h = Some (r, h')"
  shows "case r of Inl _ \<Rightarrow> True | Inr items \<Rightarrow> scan_pages L t s h items h'"
proof -
  have "case fst y of Inl _ \<Rightarrow> True | Inr items \<Rightarrow> scan_pages L t s h items (snd y)"
    if "scan_all L t s h = Some y" for y
  proof (induction rule: scan_all.raw_induct [OF _ that])
    case (1 scan L t s h y)
    obtain r1 h1 where b: "bl_scan L t s h = (r1, h1)" by (cases "bl_scan L t s h")
    show ?case
    proof (cases r1)
      case (Inl x)
      with 1(2) b show ?thesis by auto
    next
      case (Inr p)
      obtain items k where p: "p = (items, k)" by (cases p)
      show ?thesis
      proof (cases "k = None \<or> k = Some []")
        case True
        with 1(2) b Inr p show ?thesis by (auto intro: scan_pages.last_page)
      next
        case False
        with 1(2) b Inr p obtain r2 h2 where y: "scan L t k h1 = Some (r2, h2)" "y = (map_sum id (\<lambda>rest. items @ rest) r2, h2)"
          by (auto simp: bind_eq_Some_conv split: if_splits)
        from 1(1) [OF y(1)] y(2) b Inr p False show ?thesis
          by (cases r2) (auto intro: scan_pages.next_page)
      qed
    qed
  qed
  from this [OF assms] show ?thesis by (cases r) simp_all
qed

lemma scan_all_iff: "scan_all L t s h = Some (Inr items, h') \<longleftrightarrow> scan_pages L t s h items h'"
  using scan_all_complete scan_all_sound by fastforce

lemma scan_tables_pages:
  assumes "scan_tables L ts h = Some (Inr tis, h')"
  shows "map fst tis = ts \<and> (\<forall>(t, items)\<in>set tis. \<exists>h h'. scan_pages L t None h items h')"
  using assms
proof (induction ts arbitrary: h tis)
  case (Cons t ts)
  from Cons.prems obtain r1 h1 where r1: "scan_all L t None h = Some (r1, h1)" by (auto simp: bind_eq_Some_conv)
  with Cons.prems obtain items where items: "r1 = Inr items" by (cases r1) auto
  from Cons.prems r1 items obtain r2 where r2: "scan_tables L ts h1 = Some (r2, h')" "Inr tis = map_sum id (\<lambda>rest. (t, items) # rest) r2"
    by (auto simp: bind_eq_Some_conv)
  then obtain rest where "r2 = Inr rest" "tis = (t, items) # rest" by (cases r2) auto
  with Cons.IH [of h1 rest] r1 r2 items show ?case by (auto simp: scan_all_iff)
qed simp

section \<open>A table served in pages\<close>

text \<open>A table that is scanned in pages of \<open>n\<close> rows: the next page starts after the last key of the one
  before, and a short page is the last one.\<close>

definition rows_after :: "item list \<Rightarrow> string list option \<Rightarrow> item list" where
  "rows_after rows start = (case start of None \<Rightarrow> rows | Some k \<Rightarrow> tl (dropWhile (\<lambda>i. it_key i \<noteq> k) rows))"

definition paged_scan :: "nat \<Rightarrow> item list \<Rightarrow> string list option \<Rightarrow> item list \<times> string list option" where
  "paged_scan n rows start = (let page = take n (rows_after rows start)
     in (page, if length page < n then None else Some (it_key (last page))))"

lemma rows_after_last:
  assumes "distinct (map it_key rows)" "rows = seen @ rest" "seen \<noteq> []"
  shows "rows_after rows (Some (it_key (last seen))) = rest"
proof -
  have seen: "seen = butlast seen @ [last seen]" using assms(3) by simp
  then have "rows = butlast seen @ last seen # rest" using assms(2) by (metis append.assoc append_Cons append_Nil)
  moreover from this assms(1) have "\<forall>i\<in>set (butlast seen). it_key i \<noteq> it_key (last seen)"
    by (metis (no_types, lifting) Un_iff distinct_append distinct_map image_eqI inj_on_def list.set_intros(1) map_append not_distinct_conv_prefix set_append
        disjoint_iff list.simps(9) list.set_map)
  ultimately show ?thesis by (simp add: rows_after_def dropWhile_append2)
qed

lemma paged_scan_pages:
  assumes scan: "\<And>s h. bl_scan L t s h = (Inr (paged_scan n rows s), h)" and n: "0 < n"
    and d: "distinct (map it_key rows)" and k: "\<forall>i\<in>set rows. it_key i \<noteq> []"
    and split: "rows = seen @ rest" and start: "s = (if seen = [] then None else Some (it_key (last seen)))"
  shows "scan_pages L t s h rest h"
  using split start
proof (induction "length rest" arbitrary: seen rest s rule: less_induct)
  case less
  have after: "rows_after rows s = rest"
  proof (cases "seen = []")
    case True
    with less.prems show ?thesis by (simp add: rows_after_def)
  next
    case False
    with rows_after_last [OF d less.prems(1)] less.prems(2) show ?thesis by simp
  qed
  let ?page = "take n rest"
  show ?case
  proof (cases "length rest < n")
    case True
    have "bl_scan L t s h = (Inr (rest, None), h)" using True by (simp add: scan paged_scan_def after Let_def)
    then show ?thesis by (rule scan_pages.last_page) simp
  next
    case False
    then have len: "length ?page = n" by simp
    with n have ne: "?page \<noteq> []" by auto
    have last_in: "last ?page \<in> set rows" using ne less.prems(1) by (metis UnCI in_set_takeD last_in_set set_append)
    have "bl_scan L t s h = (Inr (?page, Some (it_key (last ?page))), h)"
      using len by (simp add: scan paged_scan_def after Let_def)
    moreover have "\<not> (Some (it_key (last ?page)) = None \<or> Some (it_key (last ?page)) = Some [])" using k last_in by simp
    moreover have "scan_pages L t (Some (it_key (last ?page))) h (drop n rest) h"
    proof (rule less.hyps)
      show "length (drop n rest) < length rest" using False n by simp
      show "rows = (seen @ ?page) @ drop n rest" using less.prems(1) by simp
      show "Some (it_key (last ?page)) = (if seen @ ?page = [] then None else Some (it_key (last (seen @ ?page))))"
        using ne by simp
    qed
    ultimately have "scan_pages L t s h (?page @ drop n rest) h" by (rule scan_pages.next_page)
    then show ?thesis by simp
  qed
qed

lemma paged_scan_all:
  assumes "\<And>s h. bl_scan L t s h = (Inr (paged_scan n rows s), h)" "0 < n" "distinct (map it_key rows)" "\<forall>i\<in>set rows. it_key i \<noteq> []"
  shows "scan_all L t None h = Some (Inr rows, h)"
  by (rule scan_all_complete, rule paged_scan_pages [where seen = "[]", OF assms]) simp_all

section \<open>A restore brings the rows back\<close>

text \<open>What is documented of the batch writer: when it returns, every item was put, in order.\<close>

definition batch_writes :: "backup_lib \<Rightarrow> bool" where
  "batch_writes L \<longleftrightarrow> (\<forall>t items h h'. bl_batch L t items h = (Inr (), h') \<longrightarrow> h' = h @ map (\<lambda>i. EvPut t i (Inr ())) items)"

definition last_with_key :: "string list \<Rightarrow> item list \<Rightarrow> item option" where
  "last_with_key k items = find (\<lambda>i. it_key i = k) (rev items)"

lemma puts_view:
  "table_view c (map (\<lambda>i. EvPut t i (Inr ())) items) t' k =
   (if t' = t then case last_with_key k items of Some i \<Rightarrow> Some i | None \<Rightarrow> c t' k else c t' k)"
proof (induction items rule: rev_induct)
  case (snoc i items)
  then show ?case by (auto simp: last_with_key_def)
qed (simp add: last_with_key_def)

lemma restore_tables_run:
  assumes "batch_writes L" "restore_tables L None tis h = (Inr cs, h')"
  shows "h' = h @ concat (map (\<lambda>(t, items). map (\<lambda>i. EvPut t i (Inr ())) items) tis) \<and> cs = map (\<lambda>(t, items). (t, int (length items))) tis"
  using assms(2)
proof (induction tis arbitrary: h cs)
  case (Cons p tis)
  obtain t items where p: "p = (t, items)" by (cases p)
  from Cons.prems obtain u h1 cs1 where b: "bl_batch L t items h = (Inr u, h1)"
    and r: "restore_tables L None tis h1 = (Inr cs1, h')" and cs: "cs = (t, int (length items)) # cs1"
    by (auto simp: p run_ok ret_def)
  have "h1 = h @ map (\<lambda>i. EvPut t i (Inr ())) items"
    using assms(1) b by (cases u) (auto simp: batch_writes_def)
  with Cons.IH [OF r] cs p show ?case by simp
qed (simp add: ret_def)

lemma tables_view:
  assumes "distinct (map fst tis)"
  shows "table_view c (concat (map (\<lambda>(t, items). map (\<lambda>i. EvPut t i (Inr ())) items) tis)) t k =
    (case map_of tis t of None \<Rightarrow> c t k | Some items \<Rightarrow> (case last_with_key k items of Some i \<Rightarrow> Some i | None \<Rightarrow> c t k))"
  using assms
proof (induction tis arbitrary: c)
  case (Cons p tis)
  obtain t' items where p: "p = (t', items)" by (cases p)
  with Cons.prems have d: "distinct (map fst tis)" "map_of tis t' = None" by (auto simp: map_of_eq_None_iff)
  show ?case
    by (cases "t = t'") (use Cons.IH [OF d(1)] d(2) p in \<open>auto simp: puts_view split: option.split\<close>)
qed simp

text \<open>The items of a scan are the rows of a table: one per key.\<close>

definition rows_of :: "(string list \<rightharpoonup> item) \<Rightarrow> item list \<Rightarrow> bool" where
  "rows_of m items \<longleftrightarrow> distinct (map it_key items) \<and> (\<forall>k i. m k = Some i \<longleftrightarrow> i \<in> set items \<and> it_key i = k)"

lemma find_rev_unique:
  "distinct (map f xs) \<Longrightarrow> x \<in> set xs \<Longrightarrow> f x = k \<Longrightarrow> find (\<lambda>y. f y = k) (rev xs) = Some x"
proof (induction xs rule: rev_induct)
  case (snoc y xs)
  then show ?case by (auto simp: image_iff)
qed simp

lemma rows_of_last: "rows_of m items \<Longrightarrow> last_with_key k items = m k"
proof -
  assume r: "rows_of m items"
  show ?thesis
  proof (cases "m k")
    case None
    with r have "\<forall>i\<in>set items. it_key i \<noteq> k" unfolding rows_of_def by (metis option.distinct(1))
    then show ?thesis unfolding None last_with_key_def find_None_iff by auto
  next
    case (Some i)
    with r have "i \<in> set items" "it_key i = k" by (auto simp: rows_of_def)
    with r find_rev_unique [of it_key items i k] have "last_with_key k items = Some i" by (simp add: rows_of_def last_with_key_def)
    with Some show ?thesis by simp
  qed
qed

lemma rows_of_card: "rows_of m items \<Longrightarrow> length items = card (dom m)"
proof -
  assume r: "rows_of m items"
  then have "dom m = it_key ` set items" by (auto simp: rows_of_def image_iff)
  moreover from r have "inj_on it_key (set items)" "distinct items" by (auto simp: rows_of_def distinct_map)
  ultimately show ?thesis by (simp add: card_image distinct_card)
qed

lemma snapshot_tables_distinct: "distinct SNAPSHOT_TABLES"
  by (simp add: SNAPSHOT_TABLES_def)

lemma export_restore:
  assumes "export_snapshot L ts h = Some (Inr snap, h1)" "distinct ts"
    and "\<And>t items h h'. t \<in> set ts \<Longrightarrow> scan_pages L t None h items h' \<Longrightarrow> rows_of (c t) items"
    and "batch_writes L" "restore_snapshot L None snap h2 = (Inr counts, h3)"
  shows "table_view c0 h3 t k = (if t \<in> set ts then (case c t k of Some i \<Rightarrow> Some i | None \<Rightarrow> table_view c0 h2 t k) else table_view c0 h2 t k) \<and>
    (t \<in> set ts \<longrightarrow> map_of counts t = Some (int (card (dom (c t)))))"
proof -
  from assms(1) obtain r where r: "scan_tables L ts h = Some (r, h1)"
    "map_sum id (\<lambda>ts. \<lparr>sn_format_version = SNAPSHOT_FORMAT_VERSION, sn_tables = ts\<rparr>) r = Inr snap"
    by (auto simp: export_snapshot_def bind_eq_Some_conv)
  then obtain tis where tis: "scan_tables L ts h = Some (Inr tis, h1)" and snap: "sn_tables snap = tis"
    by (cases r) auto
  from scan_tables_pages [OF tis] have names: "map fst tis = ts"
    and pages: "\<And>t items. (t, items) \<in> set tis \<Longrightarrow> \<exists>h h'. scan_pages L t None h items h'" by auto
  have rows: "rows_of (c t) items" if "map_of tis t = Some items" for t items
    using pages [OF map_of_SomeD [OF that]] assms(3) [of t] map_of_SomeD [OF that] names by force
  from restore_tables_run [OF assms(4)] assms(5) snap have
    h3: "h3 = h2 @ concat (map (\<lambda>(t, items). map (\<lambda>i. EvPut t i (Inr ())) items) tis)"
    and counts: "counts = map (\<lambda>(t, items). (t, int (length items))) tis" by (auto simp: restore_snapshot_def)
  have dom: "map_of tis t = None \<longleftrightarrow> t \<notin> set ts" using names by (auto simp: map_of_eq_None_iff simp flip: names)
  have cnt: "map_of counts t = map_option (\<lambda>items. int (length items)) (map_of tis t)"
    unfolding counts by (induction tis) auto
  show ?thesis
  proof (cases "map_of tis t")
    case None
    with dom show ?thesis by (simp add: h3 tables_view names assms(2))
  next
    case (Some items)
    then have "t \<in> set ts" using dom by auto
    with Some cnt rows [OF Some] show ?thesis by (simp add: h3 tables_view names assms(2) rows_of_last rows_of_card)
  qed
qed

text \<open>The drill looks at the number of items only: a copy with the same numbers passes, whatever the
  items are.\<close>

lemma drill_ok_counts:
  assumes "map (\<lambda>(n, is). (n, length is)) (sn_tables r) = map (\<lambda>(n, is). (n, length is)) (sn_tables r')"
  shows "drill_ok snap r = drill_ok snap r'"
proof -
  have len: "map_option length (map_of tis n) = map_of (map (\<lambda>(n, is). (n, length is)) tis) n" for tis :: "(string \<times> item list) list" and n
    by (induction tis) auto
  have "length (case map_of (sn_tables r) n of Some is \<Rightarrow> is | None \<Rightarrow> []) =
      length (case map_of (sn_tables r') n of Some is \<Rightarrow> is | None \<Rightarrow> [])" for n
    using len [of "sn_tables r" n] len [of "sn_tables r'" n] assms
    by (cases "map_of (sn_tables r) n"; cases "map_of (sn_tables r') n") (auto, metis option.inject)
  then show ?thesis by (simp add: drill_ok_def)
qed

section \<open>From the command line\<close>

text \<open>The objects of a bucket read off a trace, and what is documented of S3: a read returns what was
  written.\<close>

fun apply_s3 :: "event \<Rightarrow> (string \<times> string \<rightharpoonup> string) \<Rightarrow> (string \<times> string \<rightharpoonup> string)" where
  "apply_s3 (EvS3Put b k body _ (Inr ())) s = s((b, k) \<mapsto> body)"
| "apply_s3 (EvS3Delete b k (Inr ())) s = s((b, k) := None)"
| "apply_s3 _ s = s"

definition s3_reads_back :: "env \<Rightarrow> (string \<times> string \<rightharpoonup> string) \<Rightarrow> bool" where
  "s3_reads_back E s0 \<longleftrightarrow> (\<forall>h b k body. env_s3_get E h b k = Inr body \<longrightarrow> fold apply_s3 h s0 (b, k) = Some body)"

fun writes_object :: "string \<Rightarrow> string \<Rightarrow> event \<Rightarrow> bool" where
  "writes_object b k (EvS3Put b' k' _ _ _) = (b' = b \<and> k' = k)"
| "writes_object b k (EvS3Delete b' k' _) = (b' = b \<and> k' = k)"
| "writes_object b k _ = False"

lemma apply_s3_frame: "list_all (\<lambda>e. \<not> writes_object b k e) es \<Longrightarrow> fold apply_s3 es s (b, k) = s (b, k)"
proof (induction es arbitrary: s)
  case (Cons e es)
  have "apply_s3 e s (b, k) = s (b, k)" using Cons.prems by (cases "(e, s)" rule: apply_s3.cases) auto
  with Cons show ?case by simp
qed simp

lemma s3_ok:
  "s3_put E b k body ct h = (Inr u, h') \<longleftrightarrow> env_s3_put E h b k body ct = Inr u \<and> h' = h @ [EvS3Put b k body ct (Inr u)]"
  "s3_get E b k h = (Inr v, h') \<longleftrightarrow> env_s3_get E h b k = Inr v \<and> h' = h @ [EvS3Get b k (Inr v)]"
  by (auto simp: call_defs Let_def)

lemma backup_run:
  assumes "backup_main L E BackupAction b k h = Some (Inr code, h1)"
  shows "\<exists>snap h0 body. code = 0 \<and> export_snapshot L SNAPSHOT_TABLES h = Some (Inr snap, h0) \<and> bl_dumps L snap = Inr body \<and>
    h1 = h0 @ [EvS3Put b k body ''application/json'' (Inr ())]"
proof -
  from assms obtain r h0 where x: "export_snapshot L SNAPSHOT_TABLES h = Some (r, h0)"
    by (auto simp: backup_main_def bind_eq_Some_conv)
  with assms show ?thesis
    by (cases r) (auto simp: backup_main_def write_snapshot_to_s3_def run_ok s3_ok ret_def throw_def split: sum.splits)
qed

lemma restore_run:
  assumes "backup_main L E RestoreAction b k h = Some (Inr code, h1)"
  shows "\<exists>snap body counts. code = 0 \<and> env_s3_get E h b k = Inr body \<and> bl_loads L body = Inr snap \<and>
    restore_snapshot L None snap (h @ [EvS3Get b k (Inr body)]) = (Inr counts, h1)"
  using assms by (auto simp: backup_main_def read_snapshot_from_s3_def run_ok s3_ok ret_def throw_def split: sum.splits)

lemma backup_restore:
  assumes backup: "backup_main L E BackupAction b k h = Some (Inr code, h1)"
    and restore: "backup_main L E RestoreAction b k (h1 @ es) = Some (Inr code', h2)"
    and quiet: "list_all (\<lambda>e. \<not> writes_object b k e) es"
    and scan: "\<And>t items h h'. t \<in> set SNAPSHOT_TABLES \<Longrightarrow> scan_pages L t None h items h' \<Longrightarrow> rows_of (c t) items"
    and batch: "batch_writes L" and s3: "s3_reads_back E s0" and json: "\<And>snap body. bl_dumps L snap = Inr body \<Longrightarrow> bl_loads L body = Inr snap"
  shows "code = 0 \<and> code' = 0 \<and> table_view c0 h2 t key = (if t \<in> set SNAPSHOT_TABLES
      then (case c t key of Some i \<Rightarrow> Some i | None \<Rightarrow> table_view c0 (h1 @ es) t key) else table_view c0 (h1 @ es) t key)"
proof -
  from backup_run [OF backup] obtain snap h0 body where b: "code = 0" "export_snapshot L SNAPSHOT_TABLES h = Some (Inr snap, h0)"
    "bl_dumps L snap = Inr body" "h1 = h0 @ [EvS3Put b k body ''application/json'' (Inr ())]" by blast
  from restore_run [OF restore] obtain snap' body' counts where r: "code' = 0" "env_s3_get E (h1 @ es) b k = Inr body'"
    "bl_loads L body' = Inr snap'" "restore_snapshot L None snap' ((h1 @ es) @ [EvS3Get b k (Inr body')]) = (Inr counts, h2)" by blast
  have "fold apply_s3 (h1 @ es) s0 (b, k) = Some body'"
    using s3 r(2) unfolding s3_reads_back_def by blast
  moreover have "fold apply_s3 (h1 @ es) s0 (b, k) = Some body"
    unfolding fold_append comp_apply apply_s3_frame [OF quiet] by (simp add: b(4))
  ultimately have "body' = body" by simp
  with r(3) json [OF b(3)] have "snap' = snap" by simp
  with r(4) have again: "restore_snapshot L None snap ((h1 @ es) @ [EvS3Get b k (Inr body')]) = (Inr counts, h2)" by simp
  have "table_view c0 h2 t key = (if t \<in> set SNAPSHOT_TABLES
      then (case c t key of Some i \<Rightarrow> Some i | None \<Rightarrow> table_view c0 ((h1 @ es) @ [EvS3Get b k (Inr body')]) t key)
      else table_view c0 ((h1 @ es) @ [EvS3Get b k (Inr body')]) t key)"
    using export_restore [where c = c, OF b(2) snapshot_tables_distinct _ batch again] scan by blast
  with r(1) b(1) show ?thesis by (simp split: option.split)
qed

end
