(* ===== verification/Monitor.thy ===== *)
theory Monitor
  imports ControlPlane
begin

text \<open>
  Model of \<open>scripts/continuous_monitor.py\<close>: the compliance checks that run against a deployment and the exit
  code that pages on call. The process environment, the file system, the clock and the JSON parser
  are the record \<open>monitor_lib\<close>. Shown: the exit code is non-zero exactly when a check fails or
  raises, the deny-spike check fails exactly when some actor reaches the threshold, settings that
  passed the start-up gate never fail the sentinel check, and the drift check passes while the
  instance table cannot be read.
\<close>

section \<open>Results and library\<close>

datatype check_status = PASS | FAIL | SKIP

record monitor_result =
  mc_name :: string
  mc_status :: check_status
  mc_detail :: string
  mc_nist_controls :: "string list"

definition result :: "string \<Rightarrow> check_status \<Rightarrow> string \<Rightarrow> string list \<Rightarrow> monitor_result" where
  "result n st d cs = \<lparr>mc_name = n, mc_status = st, mc_detail = d, mc_nist_controls = cs\<rparr>"

text \<open>\<open>ml_int\<close> and \<open>ml_float\<close> are the Python conversions, \<open>ml_loads\<close> is \<open>json.loads\<close> with the text of its error,
  \<open>ml_since\<close> the quoted timestamp so many minutes ago, \<open>ml_head\<close> whether \<open>head_object\<close> succeeds,
  \<open>ml_reports\<close> the scan timestamps (image and age in hours, if readable) when the directory exists.\<close>

record monitor_lib =
  ml_environ :: "string \<Rightarrow> string option"
  ml_since :: "event list \<Rightarrow> int \<Rightarrow> string"
  ml_loads :: "string \<Rightarrow> string + json"
  ml_int :: "json \<Rightarrow> exn + int"
  ml_float :: "json \<Rightarrow> exn + rat"
  ml_fixed1 :: "rat \<Rightarrow> string"
  ml_root :: string
  ml_boto3 :: bool
  ml_head :: "event list \<Rightarrow> string \<Rightarrow> string \<Rightarrow> bool"
  ml_reports :: "(string \<times> (string \<times> rat) option) list option"

definition env_var :: "monitor_lib \<Rightarrow> string \<Rightarrow> string option \<Rightarrow> string option" where
  "env_var M name dflt = (let v = (case ml_environ M name of Some v \<Rightarrow> Some v | None \<Rightarrow> dflt) in if truthy v then v else None)"

text \<open>The dash of the messages, in UTF-8.\<close>

definition dash :: string where
  "dash = [CHR '' '', CHR 0xE2, CHR 0x80, CHR 0x94, CHR '' '']"

section \<open>Policy tests\<close>

definition check_opa_policy_tests :: "monitor_lib \<Rightarrow> env \<Rightarrow> monitor_result prog" where
  "check_opa_policy_tests M E = (let n = ''opa_policy_tests''; cs = [''CA-7'', ''CM-7''] in
     if \<not> env_which E ''opa'' then ret (result n SKIP ''opa binary not on PATH'' cs)
     else bind_io (run_cli E [''opa'', ''test'', ml_root M @ ''/policies'', ''--coverage'', ''--format=json'']) (\<lambda>(rc, out, err).
       if rc \<noteq> 0 then ret (result n FAIL (''opa test exited '' @ str_of_int rc @ '': '' @ (if strip err = [] then strip out else strip err)) cs)
       else case ml_loads M out of
         Inl e \<Rightarrow> ret (result n FAIL (''opa test produced malformed JSON: '' @ e) [''CA-7''])
       | Inr (JObj report) \<Rightarrow> bind_io (lift_res (ml_float M (jget_or report ''coverage'' (JInt 0)))) (\<lambda>coverage.
           if coverage < 100 then ret (result n FAIL (''policy coverage '' @ ml_fixed1 M coverage @ ''% < 100%'') cs)
           else ret (result n PASS (''opa test green at '' @ ml_fixed1 M coverage @ ''% coverage'') cs))
       | Inr _ \<Rightarrow> throw (AttributeError ''get'')))"

section \<open>Audit queries\<close>

definition monitor_token :: "monitor_lib \<Rightarrow> string option" where
  "monitor_token M = or_str (env_var M ''SOVEREIGN_BEARER_TOKEN'' None) (env_var M ''DEV_BEARER_TOKEN'' (Some ''dev-token''))"

definition events_request :: "monitor_lib \<Rightarrow> string \<Rightarrow> string \<Rightarrow> http_request" where
  "events_request M audit_url query = \<lparr>rq_method = ''GET'', rq_url = rstrip_if (\<lambda>c. c = CHR ''/'') audit_url @ ''/events?'' @ query,
     rq_headers = (case monitor_token M of Some t \<Rightarrow> [(''Authorization'', ''Bearer '' @ t)] | None \<Rightarrow> []), rq_body = JNull\<rparr>"

definition check_audit_freshness :: "monitor_lib \<Rightarrow> env \<Rightarrow> int \<Rightarrow> monitor_result prog" where
  "check_audit_freshness M E window = (let n = ''audit_freshness''; cs = [''AU-2'', ''AU-4'', ''IR-5''] in
     case env_var M ''AUDIT_SERVICE_URL'' None of
       None \<Rightarrow> ret (result n SKIP ''AUDIT_SERVICE_URL not configured'' cs)
     | Some url \<Rightarrow> bind_io (\<lambda>h. (Inr (ml_since M h window), h)) (\<lambda>since.
         bind_io (http_io E (events_request M url (''since='' @ since @ ''&limit=1''))) (\<lambda>r.
           if rs_status r \<noteq> 200 then ret (result n FAIL (''audit GET /events returned '' @ str_of_int (rs_status r) @ '': '' @ take 200 (rs_text r)) cs)
           else case rs_json r of
             None \<Rightarrow> ret (result n FAIL ''audit GET /events returned non-JSON body'' [''AU-2''])
           | Some (JObj payload) \<Rightarrow> bind_io (lift_res (ml_int M (jget_or payload ''count'' (JInt 0)))) (\<lambda>count.
               if count = 0 then ret (result n FAIL (''no audit events in the last '' @ str_of_int window @ '' minutes'' @ dash @
                 ''either the audit-service is degraded or the chassis has no traffic'') cs)
               else ret (result n PASS (str_of_int count @ '' event(s) inside last '' @ str_of_int window @ '' min window'') cs))
           | Some _ \<Rightarrow> throw (AttributeError ''get''))))"

text \<open>The loop that counts denies per actor; entries that are not objects are skipped.\<close>

definition event_actor :: "env \<Rightarrow> dict \<Rightarrow> string" where
  "event_actor E ev = (if jtruthy (jget ev ''actor'') then py_str E (jget ev ''actor'') else ''unknown'')"

definition count_actor :: "env \<Rightarrow> json \<Rightarrow> (string \<times> int) list \<Rightarrow> (string \<times> int) list" where
  "count_actor E ev counts = (case ev of
     JObj d \<Rightarrow> (let a = event_actor E d in AList.update a ((case map_of counts a of Some n \<Rightarrow> n | None \<Rightarrow> 0) + 1) counts)
   | _ \<Rightarrow> counts)"

definition deny_counts :: "env \<Rightarrow> json list \<Rightarrow> (string \<times> int) list" where
  "deny_counts E events = fold (count_actor E) events []"

text \<open>\<open>max(offenders.items(), key=...)\<close>: the first of the largest.\<close>

fun worst :: "(string \<times> int) list \<Rightarrow> (string \<times> int) option" where
  "worst [] = None"
| "worst (p # ps) = (case worst ps of None \<Rightarrow> Some p | Some q \<Rightarrow> if snd q \<le> snd p then Some p else Some q)"

definition spike_result :: "int \<Rightarrow> int \<Rightarrow> (string \<times> int) list \<Rightarrow> monitor_result" where
  "spike_result window threshold counts = (let n = ''policy_deny_spike''; cs = [''AC-2(12)'', ''SI-4'', ''IR-5''] in
     case worst (filter (\<lambda>(a, c). threshold \<le> c) counts) of
       Some (a, c) \<Rightarrow> result n FAIL (a @ '' has '' @ str_of_int c @ '' deny event(s) in '' @ str_of_int window @ '' minutes (threshold '' @ str_of_int threshold @ '')'') cs
     | None \<Rightarrow> result n PASS (str_of_int (sum_list (map snd counts)) @ '' deny event(s) across '' @ str_of_int (int (length counts)) @
         '' actor(s); threshold '' @ str_of_int threshold) cs)"

definition spike_of_payload :: "env \<Rightarrow> int \<Rightarrow> int \<Rightarrow> json \<Rightarrow> exn + monitor_result" where
  "spike_of_payload E window threshold payload = (case payload of
     JObj d \<Rightarrow> (case jget_or d ''events'' (JList []) of
       JList evs \<Rightarrow> Inr (spike_result window threshold (deny_counts E evs))
     | _ \<Rightarrow> Inl (TypeError ''not iterable''))
   | _ \<Rightarrow> Inl (AttributeError ''get''))"

definition int_var :: "monitor_lib \<Rightarrow> string \<Rightarrow> string \<Rightarrow> exn + int" where
  "int_var M name dflt = ml_int M (JStr (case env_var M name (Some dflt) of Some v \<Rightarrow> v | None \<Rightarrow> dflt))"

definition check_policy_deny_spike :: "monitor_lib \<Rightarrow> env \<Rightarrow> monitor_result prog" where
  "check_policy_deny_spike M E = (let n = ''policy_deny_spike''; cs = [''AC-2(12)'', ''SI-4'', ''IR-5''] in
     case env_var M ''AUDIT_SERVICE_URL'' None of
       None \<Rightarrow> ret (result n SKIP ''AUDIT_SERVICE_URL not configured'' cs)
     | Some url \<Rightarrow> bind_io (lift_res (int_var M ''POLICY_DENY_SPIKE_WINDOW_MINUTES'' ''15'')) (\<lambda>window.
         bind_io (lift_res (int_var M ''POLICY_DENY_SPIKE_THRESHOLD'' ''25'')) (\<lambda>threshold.
         bind_io (\<lambda>h. (Inr (ml_since M h window), h)) (\<lambda>since.
         bind_io (http_io E (events_request M url (''since='' @ since @ ''&decision=deny&limit=1000''))) (\<lambda>r.
           if rs_status r \<noteq> 200 then ret (result n FAIL (''audit deny query returned '' @ str_of_int (rs_status r) @ '': '' @ take 200 (rs_text r)) cs)
           else case rs_json r of
             None \<Rightarrow> ret (result n FAIL ''audit deny query returned non-JSON body'' [''AC-2(12)'', ''SI-4''])
           | Some payload \<Rightarrow> lift_res (spike_of_payload E window threshold payload))))))"

section \<open>Drift, scans, sentinels\<close>

definition missing_artifacts :: "monitor_lib \<Rightarrow> env \<Rightarrow> event list \<Rightarrow> ServiceInstance list \<Rightarrow> string list" where
  "missing_artifacts M E h instances = map (\<lambda>i. si_instance_id i @ ''@v'' @ str_of_int (si_version i))
     (filter (\<lambda>i. \<not> ml_head M h (cfg_config_bucket (cfg E)) (key_for (si_instance_id i) (si_version i) ''envoy.yaml'')) instances)"

definition drift_result :: "string list \<Rightarrow> nat \<Rightarrow> monitor_result" where
  "drift_result missing checked = (let n = ''state_drift''; cs = [''CM-8'', ''CP-10''] in
     if missing \<noteq> [] then result n FAIL (str_of_int (int (length missing)) @ '' instance(s) have no rendered S3 artefact: '' @ join '', '' (take 5 missing) @
         (if 5 < length missing then '' (+'' @ str_of_int (int (length missing) - 5) @ '' more)'' else [])) cs
     else result n PASS (str_of_int (int checked) @ '' instance(s) reconcile cleanly with S3'') cs)"

definition drift_read_failed :: "env \<Rightarrow> exn \<Rightarrow> monitor_result" where
  "drift_read_failed E x = (let m = env_str_exn E x in
     if contains m ''Unable to locate credentials'' \<or> contains m ''NoCredentialsError''
     then result ''state_drift'' SKIP (''no AWS credentials available'' @ dash @ ''configure IAM role / env vars'') [''CM-8'', ''CP-10'']
     else result ''state_drift'' FAIL (''DynamoDB read failed: '' @ m) [''CM-8'', ''CP-10''])"

definition check_state_drift :: "monitor_lib \<Rightarrow> env \<Rightarrow> monitor_result prog" where
  "check_state_drift M E = (if \<not> ml_boto3 M
     then ret (result ''state_drift'' SKIP ''boto3 not installed; install with pip install boto3 to enable'' [''CM-8'', ''CP-10''])
     else bind_io (try_io (list_instances E None 1000)) (\<lambda>res. case res of
       Inl x \<Rightarrow> ret (drift_read_failed E x)
     | Inr instances \<Rightarrow> (\<lambda>h. (Inr (drift_result (missing_artifacts M E h instances) (length instances)), h))))"

text \<open>A timestamp that cannot be read is seen but never stale.\<close>

definition check_image_scan_freshness :: "monitor_lib \<Rightarrow> int \<Rightarrow> monitor_result" where
  "check_image_scan_freshness M max_age = (let n = ''image_scan_freshness''; cs = [''RA-5'', ''SI-2''] in
     case ml_reports M of
       None \<Rightarrow> result n SKIP (''.trivy-reports not present'' @ dash @ ''wire the CI artefact mount'') cs
     | Some reports \<Rightarrow> let stale = [stem @ '' ('' @ t @ '')''. (stem, Some (t, age)) \<leftarrow> reports, of_int max_age < age] in
         if reports = [] then result n FAIL ''no scan timestamps found in .trivy-reports'' cs
         else if stale \<noteq> [] then result n FAIL (str_of_int (int (length stale)) @ '' image(s) scanned > '' @ str_of_int max_age @ ''h ago: '' @ join '', '' (take 3 stale)) cs
         else result n PASS (''all '' @ str_of_int (int (length reports)) @ '' chassis image(s) scanned within '' @ str_of_int max_age @ ''h'') cs)"

definition check_settings_sentinels :: "settings \<Rightarrow> monitor_result" where
  "check_settings_sentinels s = (let n = ''settings_sentinels''; cs = [''CM-6'', ''IA-5''] in
     if \<not> requires_real_secrets (cfg_env s)
       then result n SKIP (''ENV='' @ cfg_env s @ ''; sentinel gate applies to managed environments only'') cs
     else if live_sentinels s \<noteq> []
       then result n FAIL (''dev sentinels still active in managed environment '' @ cfg_env s @ '': '' @ join '', '' (live_sentinels s)) cs
     else result n PASS ''no dev sentinels active'' cs)"

section \<open>Runner\<close>

definition CHECKS :: "monitor_lib \<Rightarrow> env \<Rightarrow> (string \<times> monitor_result prog) list" where
  "CHECKS M E = [(''opa_policy_tests'', check_opa_policy_tests M E), (''audit_freshness'', check_audit_freshness M E 60),
     (''policy_deny_spike'', check_policy_deny_spike M E), (''state_drift'', check_state_drift M E),
     (''image_scan_freshness'', ret (check_image_scan_freshness M 24)), (''settings_sentinels'', ret (check_settings_sentinels (cfg E)))]"

text \<open>\<open>CHECKS[name]()\<close> inside its \<open>try\<close>: an exception, also an unknown name, is a failed check.\<close>

definition run_monitor_check :: "monitor_lib \<Rightarrow> env \<Rightarrow> string \<Rightarrow> monitor_result prog" where
  "run_monitor_check M E name = catch_io
     (case map_of (CHECKS M E) name of Some c \<Rightarrow> c | None \<Rightarrow> throw (KeyError name))
     (\<lambda>x. ret (result name FAIL (''check raised: '' @ env_str_exn E x) []))"

definition monitor_main :: "monitor_lib \<Rightarrow> env \<Rightarrow> string list option \<Rightarrow> (monitor_result list \<times> int) prog" where
  "monitor_main M E selected = bind_io (map_io (run_monitor_check M E)
       (case selected of Some (n # ns) \<Rightarrow> n # ns | _ \<Rightarrow> map fst (CHECKS M E)))
     (\<lambda>results. ret (results, if list_ex (\<lambda>r. mc_status r = FAIL) results then 1 else 0))"

section \<open>The exit code\<close>

lemma run_monitor_check_total: "\<exists>r h'. run_monitor_check M E name h = (Inr r, h')"
  by (auto simp: run_monitor_check_def catch_io_def ret_def split: prod.split sum.split)

lemma monitor_main_exit:
  "\<exists>results h'. monitor_main M E selected h = (Inr (results, if \<exists>r\<in>set results. mc_status r = FAIL then 1 else 0), h') \<and>
     length results = length (case selected of Some (n # ns) \<Rightarrow> n # ns | _ \<Rightarrow> map fst (CHECKS M E))"
proof -
  let ?names = "case selected of Some (n # ns) \<Rightarrow> n # ns | _ \<Rightarrow> map fst (CHECKS M E)"
  obtain results h' where "map_io (run_monitor_check M E) ?names h = (Inr results, h')" "length results = length ?names"
    using map_io_total [of "run_monitor_check M E" ?names h] run_monitor_check_total by blast
  then have "monitor_main M E selected h = (Inr (results, if \<exists>r\<in>set results. mc_status r = FAIL then 1 else 0), h')"
    by (simp add: monitor_main_def bind_io_def ret_def list_ex_iff)
  with \<open>length results = length ?names\<close> show ?thesis by blast
qed

section \<open>Deny spikes\<close>

definition denies_of :: "env \<Rightarrow> string \<Rightarrow> json list \<Rightarrow> nat" where
  "denies_of E a events = length (filter (\<lambda>ev. case ev of JObj d \<Rightarrow> event_actor E d = a | _ \<Rightarrow> False) events)"

lemma deny_counts_snoc: "deny_counts E (evs @ [ev]) = count_actor E ev (deny_counts E evs)"
  by (simp add: deny_counts_def)

lemma denies_of_snoc: "denies_of E a (evs @ [ev]) = denies_of E a evs + (case ev of JObj d \<Rightarrow> if event_actor E d = a then 1 else 0 | _ \<Rightarrow> 0)"
  by (cases ev) (auto simp: denies_of_def)

lemma deny_counts_lookup:
  "map_of (deny_counts E evs) a = (if denies_of E a evs = 0 then None else Some (int (denies_of E a evs)))"
proof (induction evs rule: rev_induct)
  case (snoc ev evs)
  then show ?case by (cases ev) (auto simp: deny_counts_snoc denies_of_snoc count_actor_def Let_def update_conv)
qed (simp add: deny_counts_def denies_of_def)

lemma deny_counts_distinct: "distinct (map fst (deny_counts E evs))"
proof (induction evs rule: rev_induct)
  case (snoc ev evs)
  then show ?case by (cases ev) (auto simp: deny_counts_snoc count_actor_def Let_def distinct_update)
qed (simp add: deny_counts_def)

lemma worst_None: "worst ps = None \<longleftrightarrow> ps = []"
  by (cases ps) (auto split: option.splits if_splits)

lemma spike_fails_iff:
  assumes "0 < threshold"
  shows "mc_status (spike_result window threshold (deny_counts E evs)) = FAIL \<longleftrightarrow> (\<exists>a. threshold \<le> int (denies_of E a evs))"
proof -
  have "mc_status (spike_result window threshold counts) = FAIL \<longleftrightarrow> filter (\<lambda>(a, c). threshold \<le> c) counts \<noteq> []" for counts
    by (cases "worst (filter (\<lambda>(a, c). threshold \<le> c) counts)")
      (auto simp: spike_result_def result_def Let_def simp flip: worst_None)
  then have "mc_status (spike_result window threshold (deny_counts E evs)) = FAIL \<longleftrightarrow> (\<exists>p\<in>set (deny_counts E evs). threshold \<le> snd p)"
    by (simp add: filter_empty_conv case_prod_beta)
  also have "\<dots> \<longleftrightarrow> (\<exists>a n. map_of (deny_counts E evs) a = Some n \<and> threshold \<le> n)"
    unfolding map_of_eq_Some_iff [OF deny_counts_distinct] by (metis prod.collapse snd_conv)
  also have "\<dots> \<longleftrightarrow> (\<exists>a. threshold \<le> int (denies_of E a evs))"
  proof -
    have "(\<exists>n. map_of (deny_counts E evs) a = Some n \<and> threshold \<le> n) \<longleftrightarrow> threshold \<le> int (denies_of E a evs)" for a
      using assms by (cases "denies_of E a evs = 0") (auto simp: deny_counts_lookup)
    then show ?thesis by blast
  qed
  finally show ?thesis .
qed

section \<open>Sentinels and drift\<close>

lemma sentinels_after_start:
  assumes "get_settings pf s0 = Inr s" "cfg_strict_secrets s"
  shows "mc_status (check_settings_sentinels s) \<noteq> FAIL"
proof (cases "requires_real_secrets (cfg_env s)")
  case True
  from assms have "live_sentinels s = [] \<or> \<not> requires_real_secrets (cfg_env s)"
    by (auto simp: get_settings_def split: sum.splits if_splits)
  with True show ?thesis by (simp add: check_settings_sentinels_def result_def)
qed (simp add: check_settings_sentinels_def result_def)

text \<open>The store turns a failed read into an empty list, so the check sees nothing to miss.\<close>

lemma drift_passes_blind:
  assumes "ml_boto3 M" "\<And>h t q. \<exists>code m. env_scan E h t q = Inl (AwsClient code m)"
  shows "\<exists>r h'. check_state_drift M E h = (Inr r, h') \<and> mc_status r = PASS"
proof -
  obtain code m where s: "env_scan E h INSTANCES \<lparr>sc_limit = Some 1000, sc_filter = None\<rparr> = Inl (AwsClient code m)" using assms(2) by blast
  obtain code' m' where s': "env_scan E (h @ [EvScan INSTANCES \<lparr>sc_limit = Some 1000, sc_filter = None\<rparr> (Inl (AwsClient code m))]) INSTANCES
      \<lparr>sc_limit = Some 1000, sc_filter = None\<rparr> = Inl (AwsClient code' m')" using assms(2) by blast
  have "\<exists>h'. list_instances E None 1000 h = (Inr [], h')"
    using s s' by (auto simp: list_instances_def Let_def bind_io_def catch_io_def scan_items_def ret_def)
  then obtain h' where "list_instances E None 1000 h = (Inr [], h')" by blast
  then show ?thesis using assms(1)
    by (auto simp: check_state_drift_def bind_io_def try_io_def missing_artifacts_def drift_result_def result_def Let_def)
qed

end
