(* ===== verification/Pilot.thy ===== *)
theory Pilot
  imports Reconciliation Connectors
begin

text \<open>
  Model of \<open>scripts/ws1_pilot.py\<close>, the harness that drives a deployed broker through the lifecycle of one
  instance: the polling loop, the seven phases, the report, and the HTTP clients. The broker is the
  record \<open>pilot_broker\<close> of its five calls (the protocol class of the script); \<open>HttpBroker\<close> fills it with
  requests; the reconcile route of theory Broker is put in its place for the two gates that depend on it. The loop ends by the clock only, so it is a
  partial function. Shown: it returns whenever sleeping advances the clock, and the two drift gates
  cannot pass against the routes of the broker: the manual reconcile never looks for drift and never
  answers \<open>unknown\<close>.
\<close>

section \<open>Configuration and results\<close>

record PhaseResult =
  pr_name :: string
  pr_ok :: bool
  pr_detail :: string
  pr_skipped :: bool

record PilotConfig =
  pc_instance_id :: string
  pc_service_id :: string
  pc_plan_id :: string
  pc_parameters :: dict
  pc_poll_timeout_s :: rat
  pc_poll_interval_s :: rat
  pc_tenant_id :: string
  pc_drift_edit_cmd :: "string option"
  pc_drift_block_cmd :: "string option"
  pc_drift_unblock_cmd :: "string option"

record pilot_broker =
  pb_provision :: "string \<Rightarrow> dict \<Rightarrow> int prog"
  pb_update :: "string \<Rightarrow> dict \<Rightarrow> int prog"
  pb_deprovision :: "string \<Rightarrow> int prog"
  pb_last_operation :: "string \<Rightarrow> dict prog"
  pb_reconcile :: "string \<Rightarrow> dict prog"

text \<open>\<open>pl_clock\<close> is \<open>time.monotonic\<close> after the given time slept in the current poll, \<open>pl_repr\<close> is \<open>repr\<close>,
  \<open>pl_basic\<close> the header of Basic credentials, \<open>pl_quote\<close> the encoding of a query value, \<open>pl_read\<close> reads a
  file and \<open>pl_loads\<close> is \<open>json.loads\<close>.\<close>

record pilot_lib =
  pl_clock :: "rat \<Rightarrow> event list \<Rightarrow> rat"
  pl_repr :: "json \<Rightarrow> string"
  pl_basic :: "string \<Rightarrow> string \<Rightarrow> string"
  pl_quote :: "string \<Rightarrow> string"
  pl_read :: "string \<Rightarrow> exn + string"
  pl_loads :: "string \<Rightarrow> exn + json"

text \<open>A value in an f-string.\<close>

definition shown :: "pilot_lib \<Rightarrow> json \<Rightarrow> string" where
  "shown L v = (case v of JStr s \<Rightarrow> s | _ \<Rightarrow> pl_repr L v)"

definition phase :: "string \<Rightarrow> bool \<Rightarrow> string \<Rightarrow> PhaseResult" where
  "phase n ok detail = \<lparr>pr_name = n, pr_ok = ok, pr_detail = detail, pr_skipped = False\<rparr>"

definition phase_skipped :: "string \<Rightarrow> string \<Rightarrow> PhaseResult" where
  "phase_skipped n flag = \<lparr>pr_name = n, pr_ok = True, pr_detail = ''no '' @ flag @ ''; skipped'', pr_skipped = True\<rparr>"

section \<open>Programs that may not return\<close>

type_synonym 'a pilot = "event list \<Rightarrow> ((exn + 'a) \<times> event list) option"

definition run_pilot_prog :: "'a prog \<Rightarrow> 'a pilot" where
  "run_pilot_prog p = (\<lambda>h. Some (p h))"

definition bind_pilot :: "'a pilot \<Rightarrow> ('a \<Rightarrow> 'b pilot) \<Rightarrow> 'b pilot" where
  "bind_pilot p k = (\<lambda>h. Option.bind (p h) (\<lambda>(r, h'). case r of Inl x \<Rightarrow> Some (Inl x, h') | Inr a \<Rightarrow> k a h'))"

section \<open>Polling\<close>

partial_function (option) poll_from :: "pilot_lib \<Rightarrow> dict prog \<Rightarrow> rat \<Rightarrow> (dict \<Rightarrow> bool) \<Rightarrow> rat \<Rightarrow> rat \<Rightarrow> dict \<Rightarrow>
    event list \<Rightarrow> ((exn + dict) \<times> event list) option" where
  "poll_from L query interval until deadline slept seen h =
     (if pl_clock L slept h < deadline
      then (case query h of
         (Inl x, h') \<Rightarrow> Some (Inl x, h')
       | (Inr op, h') \<Rightarrow> if until op then Some (Inr op, h')
           else poll_from L query interval until deadline (slept + interval) op h')
      else Some (Inr seen, h))"

declare poll_from.simps [code]

definition poll :: "pilot_lib \<Rightarrow> pilot_broker \<Rightarrow> string \<Rightarrow> rat \<Rightarrow> rat \<Rightarrow> (dict \<Rightarrow> bool) \<Rightarrow> dict pilot" where
  "poll L b iid timeout interval until = (\<lambda>h.
     poll_from L (pb_last_operation b iid) interval until (pl_clock L 0 h + timeout) 0 [] h)"

definition terminal_op :: "dict \<Rightarrow> bool" where
  "terminal_op op \<longleftrightarrow> jget op ''operation'' \<in> {JStr ''succeeded'', JStr ''failed''} \<or> jget op ''state'' = JStr ''gone''"

definition await_terminal :: "pilot_lib \<Rightarrow> pilot_broker \<Rightarrow> PilotConfig \<Rightarrow> dict pilot" where
  "await_terminal L b c = poll L b (pc_instance_id c) (pc_poll_timeout_s c) (pc_poll_interval_s c) terminal_op"

section \<open>Phases\<close>

definition run_cmd :: "env \<Rightarrow> string \<Rightarrow> (bool \<times> string) prog" where
  "run_cmd E cmd = bind_io (run_cli E [''/bin/sh'', ''-c'', cmd]) (\<lambda>(rc, out, err).
     ret (rc = 0, strip (if err = [] then out else err)))"

definition phase_provision :: "pilot_lib \<Rightarrow> pilot_broker \<Rightarrow> PilotConfig \<Rightarrow> PhaseResult pilot" where
  "phase_provision L b c = bind_pilot (run_pilot_prog (pb_provision b (pc_instance_id c)
       [(''service_id'', JStr (pc_service_id c)), (''plan_id'', JStr (pc_plan_id c)), (''parameters'', JObj (pc_parameters c))]))
     (\<lambda>_. bind_pilot (await_terminal L b c) (\<lambda>op. run_pilot_prog (ret (let n = ''provision'' in
       if jget op ''operation'' \<noteq> JStr ''succeeded''
         then phase n False (''terminal state '' @ pl_repr L (jget op ''operation'') @ '': '' @ pl_repr L (JObj op))
       else if jget op ''applied_version'' = JNull then phase n False ''succeeded but no applied_version (no real apply?)''
       else phase n True (''applied_version='' @ shown L (jget op ''applied_version''))))))"

definition phase_persist_across_restart :: "pilot_lib \<Rightarrow> pilot_broker \<Rightarrow> PilotConfig \<Rightarrow> PhaseResult prog" where
  "phase_persist_across_restart L b c = bind_io (pb_last_operation b (pc_instance_id c)) (\<lambda>op. ret (let n = ''persist_across_restart'' in
     if jget op ''operation'' \<noteq> JStr ''succeeded'' \<or> \<not> jtruthy (jget op ''operation_id'')
       then phase n False (''state not durable: '' @ pl_repr L (JObj op))
     else phase n True (''operation_id='' @ shown L (jget op ''operation_id''))))"

definition phase_update :: "pilot_lib \<Rightarrow> pilot_broker \<Rightarrow> PilotConfig \<Rightarrow> PhaseResult pilot" where
  "phase_update L b c = bind_pilot (run_pilot_prog (pb_last_operation b (pc_instance_id c))) (\<lambda>before.
     bind_pilot (run_pilot_prog (pb_update b (pc_instance_id c) [(''parameters'', JObj (pc_parameters c))])) (\<lambda>_.
     bind_pilot (await_terminal L b c) (\<lambda>op. run_pilot_prog (ret (let n = ''update'' in
       if jget op ''operation'' \<noteq> JStr ''succeeded'' then phase n False (''terminal state '' @ pl_repr L (jget op ''operation''))
       else if jget op ''operation_id'' = jget before ''operation_id'' then phase n False ''operation_id did not change after update''
       else phase n True (''new operation_id='' @ shown L (jget op ''operation_id'')))))))"

text \<open>The action of the first result; an answer of another shape raises.\<close>

definition first_action :: "dict \<Rightarrow> exn + json" where
  "first_action answer = (case jget_or answer ''results'' (JList []) of
     JList rs \<Rightarrow> (case obj_list rs of
       Inl _ \<Rightarrow> Inl (AttributeError ''get'')
     | Inr [] \<Rightarrow> Inr (JStr ''none'')
     | Inr (r # _) \<Rightarrow> Inr (jget r ''action''))
   | _ \<Rightarrow> Inl (TypeError ''not iterable''))"

definition reconcile_action :: "pilot_broker \<Rightarrow> PilotConfig \<Rightarrow> json prog" where
  "reconcile_action b c = bind_io (pb_reconcile b (pc_instance_id c)) (\<lambda>answer. lift_res (first_action answer))"

definition phase_drift_real :: "env \<Rightarrow> pilot_lib \<Rightarrow> pilot_broker \<Rightarrow> PilotConfig \<Rightarrow> PhaseResult prog" where
  "phase_drift_real E L b c = (let n = ''drift_real'' in if \<not> truthy (pc_drift_edit_cmd c) then ret (phase_skipped n ''--drift-edit-cmd'')
     else bind_io (run_cmd E (the (pc_drift_edit_cmd c))) (\<lambda>(ok, out).
       if \<not> ok then ret (phase n False (''drift-edit-cmd failed: '' @ out))
       else bind_io (reconcile_action b c) (\<lambda>action.
         ret (if action \<noteq> JStr ''reconciled'' then phase n False (''expected reconciled, got '' @ pl_repr L action)
              else phase n True ''out-of-band edit detected and re-converged''))))"

text \<open>\<open>try\<close> and \<open>finally\<close>: the backend is unblocked before the outcome of the reconcile is looked at.\<close>

definition unblock :: "env \<Rightarrow> PilotConfig \<Rightarrow> unit prog" where
  "unblock E c = (if truthy (pc_drift_unblock_cmd c) then bind_io (run_cmd E (the (pc_drift_unblock_cmd c))) (\<lambda>_. ret ()) else ret ())"

definition phase_drift_unknown :: "env \<Rightarrow> pilot_lib \<Rightarrow> pilot_broker \<Rightarrow> PilotConfig \<Rightarrow> PhaseResult prog" where
  "phase_drift_unknown E L b c = (let n = ''drift_unknown'' in if \<not> truthy (pc_drift_block_cmd c) then ret (phase_skipped n ''--drift-block-cmd'')
     else bind_io (run_cmd E (the (pc_drift_block_cmd c))) (\<lambda>(ok, out).
       if \<not> ok then ret (phase n False (''drift-block-cmd failed: '' @ out))
       else bind_io (try_io (reconcile_action b c)) (\<lambda>res. seq_io (unblock E c) (case res of
         Inl x \<Rightarrow> throw x
       | Inr action \<Rightarrow> ret (if action \<noteq> JStr ''unknown'' then phase n False (''unreachable backend must be unknown, got '' @ pl_repr L action)
           else phase n True ''unreachable backend reported unknown, not drift'')))))"

definition REQUIRED_ACTIONS :: "string list" where
  "REQUIRED_ACTIONS = [''instance.provisioned'', ''instance.updated'']"

definition phase_evidence :: "pilot_lib \<Rightarrow> (string \<Rightarrow> json list prog) option \<Rightarrow> PilotConfig \<Rightarrow> PhaseResult prog" where
  "phase_evidence L audit c = (let n = ''evidence'' in case audit of
     None \<Rightarrow> ret (phase_skipped n ''--audit-url'')
   | Some actions_for \<Rightarrow> bind_io (actions_for (pc_instance_id c)) (\<lambda>actions.
       let missing = filter (\<lambda>a. JStr a \<notin> set actions) REQUIRED_ACTIONS in
       ret (if missing \<noteq> [] then phase n False (''missing audit events: '' @ pl_repr L (jstrs missing))
         else phase n True (''audit events present: '' @ pl_repr L (jstrs (filter (\<lambda>a. JStr a \<in> set actions) REQUIRED_ACTIONS))))))"

definition phase_deprovision :: "pilot_lib \<Rightarrow> pilot_broker \<Rightarrow> PilotConfig \<Rightarrow> PhaseResult pilot" where
  "phase_deprovision L b c = bind_pilot (run_pilot_prog (pb_deprovision b (pc_instance_id c))) (\<lambda>_.
     bind_pilot (await_terminal L b c) (\<lambda>op. run_pilot_prog (ret (
       if jget op ''state'' \<noteq> JStr ''gone'' then phase ''deprovision'' False (''not gone after delete: '' @ pl_repr L (JObj op))
       else phase ''deprovision'' True ''instance removed''))))"

section \<open>The run\<close>

fun all_phases :: "PhaseResult pilot list \<Rightarrow> PhaseResult list pilot" where
  "all_phases [] = run_pilot_prog (ret [])"
| "all_phases (p # ps) = bind_pilot p (\<lambda>r. bind_pilot (all_phases ps) (\<lambda>rs. run_pilot_prog (ret (r # rs))))"

definition run_pilot :: "env \<Rightarrow> pilot_lib \<Rightarrow> pilot_broker \<Rightarrow> (string \<Rightarrow> json list prog) option \<Rightarrow> PilotConfig \<Rightarrow> PhaseResult list pilot" where
  "run_pilot E L b audit c = all_phases [phase_provision L b c, run_pilot_prog (phase_persist_across_restart L b c), phase_update L b c,
     run_pilot_prog (phase_drift_real E L b c), run_pilot_prog (phase_drift_unknown E L b c), run_pilot_prog (phase_evidence L audit c),
     phase_deprovision L b c]"

definition pilot_report :: "PhaseResult list \<Rightarrow> bool" where
  "pilot_report rs = list_all pr_ok rs"

section \<open>HTTP clients\<close>

record HttpBroker =
  hb_base_url :: string
  hb_auth :: "string list option"
  hb_headers :: "(string \<times> string) list"

definition bearer_headers :: "string option \<Rightarrow> (string \<times> string) list" where
  "bearer_headers bearer = (if truthy bearer then [(''Authorization'', ''Bearer '' @ the bearer)] else [])"

definition new_http_broker :: "string \<Rightarrow> string list option \<Rightarrow> string option \<Rightarrow> HttpBroker" where
  "new_http_broker url auth bearer = \<lparr>hb_base_url = strip_slashes url, hb_auth = auth, hb_headers = bearer_headers bearer\<rparr>"

text \<open>Basic credentials replace an \<open>Authorization\<close> header; httpx reads the password as the second element
  of the tuple.\<close>

definition broker_headers :: "pilot_lib \<Rightarrow> HttpBroker \<Rightarrow> exn + (string \<times> string) list" where
  "broker_headers L b = (case hb_auth b of
     None \<Rightarrow> Inr (hb_headers b)
   | Some (u # p # _) \<Rightarrow> Inr (AList.update ''Authorization'' (pl_basic L u p) (hb_headers b))
   | Some _ \<Rightarrow> Inl (IndexError ''tuple index out of range''))"

definition broker_call :: "env \<Rightarrow> pilot_lib \<Rightarrow> HttpBroker \<Rightarrow> string \<Rightarrow> string \<Rightarrow> json \<Rightarrow> http_response prog" where
  "broker_call E L b verb path body = bind_io (lift_res (broker_headers L b)) (\<lambda>hs.
     http_io E \<lparr>rq_method = verb, rq_url = hb_base_url b @ path, rq_headers = hs, rq_body = body\<rparr>)"

definition json_object :: "http_response \<Rightarrow> dict prog" where
  "json_object r = bind_io (body_json r) (\<lambda>j. case j of JObj d \<Rightarrow> ret d | _ \<Rightarrow> throw (AttributeError ''get''))"

definition instance_path :: "string \<Rightarrow> string" where
  "instance_path iid = ''/v2/service_instances/'' @ iid"

definition http_broker :: "env \<Rightarrow> pilot_lib \<Rightarrow> HttpBroker \<Rightarrow> pilot_broker" where
  "http_broker E L b = \<lparr>
     pb_provision = (\<lambda>iid body. bind_io (broker_call E L b ''PUT'' (instance_path iid) (JObj body)) (\<lambda>r. ret (rs_status r))),
     pb_update = (\<lambda>iid body. bind_io (broker_call E L b ''PATCH'' (instance_path iid) (JObj body)) (\<lambda>r. ret (rs_status r))),
     pb_deprovision = (\<lambda>iid. bind_io (broker_call E L b ''DELETE'' (instance_path iid) JNull) (\<lambda>r. ret (rs_status r))),
     pb_last_operation = (\<lambda>iid. bind_io (broker_call E L b ''GET'' (instance_path iid @ ''/last_operation'') JNull) (\<lambda>r.
       if rs_status r = 200 then json_object r else ret [(''state'', JStr ''gone''), (''operation'', JStr ''gone'')])),
     pb_reconcile = (\<lambda>iid. bind_io (broker_call E L b ''POST'' ''/v2/reconcile'' (JObj [(''instance_id'', JStr iid)])) json_object)\<rparr>"

text \<open>The actions of the events of the instance.\<close>

definition http_actions_for :: "env \<Rightarrow> pilot_lib \<Rightarrow> string \<Rightarrow> string option \<Rightarrow> string \<Rightarrow> json list prog" where
  "http_actions_for E L url bearer iid =
     bind_io (http_io E \<lparr>rq_method = ''GET'', rq_url = strip_slashes url @ ''/events?resource='' @ pl_quote L iid,
         rq_headers = bearer_headers bearer, rq_body = JNull\<rparr>) (\<lambda>r.
       if rs_status r \<noteq> 200 then ret []
       else bind_io (json_object r) (\<lambda>d. case jget_or d ''events'' (JList []) of
         JList evs \<Rightarrow> (case obj_list evs of
           Inl _ \<Rightarrow> throw (AttributeError ''get'')
         | Inr es \<Rightarrow> ret (map (\<lambda>e. jget_or e ''action'' (JStr [])) (filter (\<lambda>e. jget e ''resource'' = JStr iid) es)))
       | _ \<Rightarrow> throw (TypeError ''not iterable'')))"

section \<open>The command line\<close>

record pilot_args =
  pa_broker_url :: string
  pa_basic :: "string option"
  pa_bearer :: "string option"
  pa_audit_url :: "string option"
  pa_service_id :: string
  pa_plan_id :: string
  pa_params :: "string option"
  pa_instance_id :: string
  pa_timeout :: rat
  pa_drift_edit_cmd :: "string option"
  pa_drift_block_cmd :: "string option"
  pa_drift_unblock_cmd :: "string option"

definition pilot_params :: "pilot_lib \<Rightarrow> string option \<Rightarrow> exn + dict" where
  "pilot_params L params = (if \<not> truthy params then Inr []
     else case (if startswith (the params) ''@'' then pl_read L (tl (the params)) else Inr (the params)) of
       Inl x \<Rightarrow> Inl x
     | Inr raw \<Rightarrow> (case pl_loads L raw of Inl x \<Rightarrow> Inl x | Inr (JObj d) \<Rightarrow> Inr d | Inr _ \<Rightarrow> Inl (TypeError ''params'')))"

definition build_config :: "pilot_lib \<Rightarrow> pilot_args \<Rightarrow> exn + PilotConfig" where
  "build_config L a = (case pilot_params L (pa_params a) of
     Inl x \<Rightarrow> Inl x
   | Inr params \<Rightarrow> Inr \<lparr>pc_instance_id = pa_instance_id a, pc_service_id = pa_service_id a, pc_plan_id = pa_plan_id a,
       pc_parameters = params, pc_poll_timeout_s = pa_timeout a, pc_poll_interval_s = 5, pc_tenant_id = ''pilot'',
       pc_drift_edit_cmd = pa_drift_edit_cmd a, pc_drift_block_cmd = pa_drift_block_cmd a, pc_drift_unblock_cmd = pa_drift_unblock_cmd a\<rparr>)"

text \<open>\<open>tuple(basic.split(":", 1))\<close>\<close>

definition basic_auth :: "string option \<Rightarrow> string list option" where
  "basic_auth basic = (if \<not> truthy basic then None
     else case partition_at (CHR '':'') (the basic) of
       (u, True, p) \<Rightarrow> Some [u, p]
     | (u, False, _) \<Rightarrow> Some [u])"

definition pilot_main :: "env \<Rightarrow> pilot_lib \<Rightarrow> pilot_args \<Rightarrow> int pilot" where
  "pilot_main E L a = (let b = http_broker E L (new_http_broker (pa_broker_url a) (basic_auth (pa_basic a)) (pa_bearer a));
       audit = (if truthy (pa_audit_url a) then Some (http_actions_for E L (the (pa_audit_url a)) (pa_bearer a)) else None)
     in bind_pilot (run_pilot_prog (lift_res (build_config L a))) (\<lambda>c.
        bind_pilot (run_pilot E L b audit c) (\<lambda>rs. run_pilot_prog (ret (if pilot_report rs then 0 else 1)))))"

section \<open>The loop returns\<close>

text \<open>What is documented of the clock and of \<open>sleep\<close>: sleeping advances the clock by at least the time slept,
  and the calls made meanwhile do not set it back.\<close>

definition clock_advances :: "pilot_lib \<Rightarrow> bool" where
  "clock_advances L \<longleftrightarrow> (\<forall>slept d h h'. 0 \<le> d \<longrightarrow> pl_clock L slept h + d \<le> pl_clock L (slept + d) h')"

lemma poll_from_returns:
  assumes "clock_advances L" "0 < interval"
  shows "deadline - pl_clock L slept h \<le> of_nat n * interval \<Longrightarrow> \<exists>r. poll_from L query interval until deadline slept seen h = Some r"
proof (induction n arbitrary: slept seen h)
  case 0
  then show ?case by (subst poll_from.simps) simp
next
  case (Suc n)
  show ?case
  proof (cases "query h")
    case (Pair res h')
    have "pl_clock L slept h + interval \<le> pl_clock L (slept + interval) h'"
      using assms unfolding clock_advances_def by simp
    with Suc.prems have "deadline - pl_clock L (slept + interval) h' \<le> of_nat n * interval" by (simp add: algebra_simps)
    note next_poll = Suc.IH [OF this]
    show ?thesis
    proof (cases res)
      case (Inr op)
      with Pair next_poll [of op] show ?thesis by (subst poll_from.simps) auto
    qed (use Pair in \<open>subst poll_from.simps, simp\<close>)
  qed
qed

lemma await_terminal_returns:
  assumes "clock_advances L" "0 < pc_poll_interval_s c"
  shows "\<exists>r. await_terminal L b c h = Some r"
proof -
  obtain n where "pc_poll_timeout_s c < of_nat n * pc_poll_interval_s c" using assms(2) ex_less_of_nat_mult by blast
  then show ?thesis unfolding await_terminal_def poll_def
    by (intro poll_from_returns [OF assms, where n = n]) simp
qed

definition returns :: "'a pilot \<Rightarrow> bool" where
  "returns p \<longleftrightarrow> (\<forall>h. \<exists>r. p h = Some r)"

lemma returns_prog: "returns (run_pilot_prog p)"
  by (simp add: returns_def run_pilot_prog_def)

lemma returns_bind:
  assumes "returns p" "\<And>a. returns (k a)"
  shows "returns (bind_pilot p k)"
  unfolding returns_def
proof
  fix h
  obtain r h' where p: "p h = Some (r, h')" using assms(1) unfolding returns_def by (metis surj_pair)
  show "\<exists>r. bind_pilot p k h = Some r"
    by (cases r) (use p assms(2) in \<open>auto simp: bind_pilot_def returns_def\<close>)
qed

lemma returns_phases: "list_all returns ps \<Longrightarrow> returns (all_phases ps)"
  by (induction ps) (auto intro!: returns_bind returns_prog)

text \<open>So the whole pilot returns, whatever the broker answers.\<close>

lemma run_pilot_returns:
  assumes "clock_advances L" "0 < pc_poll_interval_s c"
  shows "\<exists>r. run_pilot E L b audit c h = Some r"
proof -
  have poll: "returns (await_terminal L b c)" using await_terminal_returns [OF assms] by (simp add: returns_def)
  have "returns (run_pilot E L b audit c)"
    unfolding run_pilot_def phase_provision_def phase_update_def phase_deprovision_def
    by (rule returns_phases) (simp add: returns_bind returns_prog poll)
  then show ?thesis by (simp add: returns_def)
qed

section \<open>The drift gates against the broker\<close>

text \<open>The answer of \<open>POST /v2/reconcile\<close>.\<close>

definition reconcile_json :: "reconcile_result \<Rightarrow> json" where
  "reconcile_json r = JObj (case r of
     Skipped iid st drift \<Rightarrow> [(''instance_id'', JStr iid), (''action'', JStr ''skipped''), (''state'', JStr (InstanceStatus_value st)),
       (''drift_status'', JStr (DriftStatus_value drift))]
   | ReconcileFailed iid st op reason step \<Rightarrow> [(''instance_id'', JStr iid), (''action'', JStr ''failed''), (''state'', JStr (InstanceStatus_value st)),
       (''operation_id'', jopt op), (''reason'', JStr reason), (''failed_step_kind'', jopt step)]
   | Reconciled iid st op v artifact \<Rightarrow> [(''instance_id'', JStr iid), (''action'', JStr ''reconciled''), (''state'', JStr (InstanceStatus_value st)),
       (''operation_id'', jopt op), (''applied_version'', jopt_int v), (''artifact'', artifact)])"

definition reconcile_answer :: "env \<Rightarrow> Caller \<Rightarrow> string \<Rightarrow> dict prog" where
  "reconcile_answer E c iid = bind_io (reconcile_route E c (Some iid) 50) (\<lambda>(checked, changed, rs).
     ret [(''checked'', JInt (int checked)), (''changed'', JInt (int changed)), (''results'', JList (map reconcile_json rs))])"

lemma obj_list_results: "\<exists>ds. obj_list (map reconcile_json rs) = Inr ds \<and> map (\<lambda>d. jget d ''action'') ds =
    map (\<lambda>r. case r of Skipped _ _ _ \<Rightarrow> JStr ''skipped'' | ReconcileFailed _ _ _ _ _ \<Rightarrow> JStr ''failed'' | Reconciled _ _ _ _ _ \<Rightarrow> JStr ''reconciled'') rs"
  by (induction rs) (auto simp: reconcile_json_def jget_def split: reconcile_result.split)

lemma first_action_results:
  "first_action [(''checked'', a), (''changed'', b), (''results'', JList (map reconcile_json rs))] =
    Inr (case rs of [] \<Rightarrow> JStr ''none'' | r # _ \<Rightarrow> (case r of Skipped _ _ _ \<Rightarrow> JStr ''skipped''
      | ReconcileFailed _ _ _ _ _ \<Rightarrow> JStr ''failed'' | Reconciled _ _ _ _ _ \<Rightarrow> JStr ''reconciled''))"
proof -
  obtain ds where ds: "obj_list (map reconcile_json rs) = Inr ds" and m: "map (\<lambda>d. jget d ''action'') ds =
      map (\<lambda>r. case r of Skipped _ _ _ \<Rightarrow> JStr ''skipped'' | ReconcileFailed _ _ _ _ _ \<Rightarrow> JStr ''failed'' | Reconciled _ _ _ _ _ \<Rightarrow> JStr ''reconciled'') rs"
    using obj_list_results by blast
  then show ?thesis by (cases rs; cases ds) (auto simp: first_action_def jget_or_def)
qed

lemma reconcile_action_served:
  assumes "pb_reconcile b = reconcile_answer E caller" "reconcile_action b c h = (Inr a, h')"
  shows "a \<in> {JStr ''none'', JStr ''skipped'', JStr ''failed'', JStr ''reconciled''}"
  using assms(2) unfolding reconcile_action_def assms(1) reconcile_answer_def
  by (auto simp: run_ok ret_def lift_res_def first_action_results split: list.splits reconcile_result.splits)

text \<open>The gate for an unreachable backend passes only when it is skipped.\<close>

lemma drift_unknown_never_passes:
  assumes "pb_reconcile b = reconcile_answer E caller" "truthy (pc_drift_block_cmd c)"
    and "phase_drift_unknown E' L b c h = (Inr r, h')"
  shows "\<not> pr_ok r"
proof -
  have no: "reconcile_action b c h = (Inr a, h') \<Longrightarrow> a \<noteq> JStr ''unknown''" for a h h'
    using reconcile_action_served [OF assms(1)] by fastforce
  from assms(3,2) obtain ok out h1 where cmd: "run_cmd E' (the (pc_drift_block_cmd c)) h = (Inr (ok, out), h1)"
    by (auto simp: phase_drift_unknown_def Let_def run_ok)
  obtain res h2 where act: "reconcile_action b c h1 = (res, h2)" by (cases "reconcile_action b c h1")
  show ?thesis
  proof (cases "\<exists>a. ok \<and> res = Inr a")
    case True
    then obtain a where "ok" "res = Inr a" by blast
    with assms(2,3) cmd act no [of h1 a h2] show ?thesis
      by (auto simp: phase_drift_unknown_def Let_def run_ok ret_def try_io_def phase_def)
  next
    case False
    with assms(2,3) cmd act show ?thesis
      by (cases res) (auto simp: phase_drift_unknown_def Let_def run_ok ret_def throw_def try_io_def phase_def split: if_splits)
  qed
qed

text \<open>The gate for a real divergence fails whenever the instance was in sync before it: the manual
  reconcile skips it without asking the backend.\<close>

lemma drift_real_never_passes:
  assumes "pb_reconcile b = reconcile_answer E caller" "truthy (pc_drift_edit_cmd c)" "pc_instance_id c \<noteq> []"
    and stored: "\<And>h. \<exists>i h'. get_instance E (pc_instance_id c) h = (Inr (Some i), h') \<and> \<not> needs_reconcile i"
    and run: "phase_drift_real E' L b c h = (Inr r, h')"
  shows "\<not> pr_ok r"
proof -
  have no: "a \<noteq> JStr ''reconciled''" if act: "reconcile_action b c h = (Inr a, h')" for a h h'
  proof -
    obtain i h1 where i: "get_instance E (pc_instance_id c) h = (Inr (Some i), h1)" "\<not> needs_reconcile i" using stored by blast
    have "ca_is_basic caller" using act unfolding reconcile_action_def assms(1) reconcile_answer_def reconcile_route_def
      by (auto simp: run_ok throw_def split: if_splits)
    then have "reconcile_route E caller (Some (pc_instance_id c)) 50 h =
        (Inr (1, 0, [Skipped (si_instance_id i) (si_status i) (si_drift_status i)]), h1)"
      using i assms(3) by (simp add: reconcile_route_def bind_io_def ret_def truthy_def reconcile_skips)
    with act show ?thesis unfolding reconcile_action_def assms(1) reconcile_answer_def
      by (auto simp: bind_io_def ret_def lift_res_def first_action_results [where rs = "[x]" for x, simplified])
  qed
  from run assms(2) consider out where "r = phase ''drift_real'' False out"
    | a h1 h2 where "reconcile_action b c h1 = (Inr a, h2)" "a = JStr ''reconciled''"
    by (auto simp: phase_drift_real_def Let_def run_ok ret_def split: if_splits prod.splits)
  then show ?thesis using no by cases (auto simp: phase_def)
qed

end
