(* ===== verification/Tables.thy ===== *)
theory Tables
  imports CatalogRoutes
begin

text \<open>
  Model of the creation of the DynamoDB tables: \<open>Store.ensure_tables\<close> and \<open>_ensure_org_index\<close>
  (\<open>libs/common/sovereign/store.py\<close>), the \<open>ensure_table\<close> of the five other stores, the calls of the broker's
  start-up in their order, and the lazily created store of the metering service. The administrative
  calls have a trace of their own; what a call answers is the record \<open>ddb_admin\<close>. Shown: no call removes
  or replaces a table, a second run creates nothing, and when DynamoDB answers, all seven
  tables exist after start-up, each keyed by the attributes it defines.
\<close>

section \<open>Tables and calls\<close>

record index_spec =
  ix_name :: string
  ix_hash :: string

text \<open>The key attributes, partition key first; the billing mode is the same everywhere.\<close>

record table_spec =
  ts_name :: string
  ts_key :: "string list"
  ts_attributes :: "(string \<times> string) list"
  ts_indexes :: "index_spec list"
  ts_billing :: string

datatype admin_event =
    TablesListed "aws_error + string list"
  | TableCreated table_spec "aws_error + unit"
  | TableAwaited string "aws_error + unit"
  | TableDescribed string "aws_error + string list"
  | IndexAdded string index_spec "aws_error + unit"

type_synonym 'a admin = "(admin_event, exn, 'a) io"

record ddb_admin =
  ad_list :: "admin_event list \<Rightarrow> aws_error + string list"
  ad_create :: "admin_event list \<Rightarrow> table_spec \<Rightarrow> aws_error + unit"
  ad_wait :: "admin_event list \<Rightarrow> string \<Rightarrow> aws_error + unit"
  ad_describe :: "admin_event list \<Rightarrow> string \<Rightarrow> aws_error + string list"
  ad_update :: "admin_event list \<Rightarrow> string \<Rightarrow> index_spec \<Rightarrow> aws_error + unit"

definition list_tables :: "ddb_admin \<Rightarrow> string list admin" where
  "list_tables A = (\<lambda>h. let r = ad_list A h in (map_sum aws_exn id r, h @ [TablesListed r]))"

definition create_table :: "ddb_admin \<Rightarrow> table_spec \<Rightarrow> unit admin" where
  "create_table A t = (\<lambda>h. let r = ad_create A h t in (map_sum aws_exn id r, h @ [TableCreated t r]))"

definition wait_until_exists :: "ddb_admin \<Rightarrow> string \<Rightarrow> unit admin" where
  "wait_until_exists A n = (\<lambda>h. let r = ad_wait A h n in (map_sum aws_exn id r, h @ [TableAwaited n r]))"

definition describe_table :: "ddb_admin \<Rightarrow> string \<Rightarrow> string list admin" where
  "describe_table A n = (\<lambda>h. let r = ad_describe A h n in (map_sum aws_exn id r, h @ [TableDescribed n r]))"

definition add_index :: "ddb_admin \<Rightarrow> string \<Rightarrow> index_spec \<Rightarrow> unit admin" where
  "add_index A n ix = (\<lambda>h. let r = ad_update A h n ix in (map_sum aws_exn id r, h @ [IndexAdded n ix r]))"

lemmas admin_defs = list_tables_def create_table_def wait_until_exists_def describe_table_def add_index_def

section \<open>The tables of the platform\<close>

text \<open>All key attributes are strings.\<close>

definition keyed_table :: "string \<Rightarrow> string list \<Rightarrow> table_spec" where
  "keyed_table name ks = \<lparr>ts_name = name, ts_key = ks, ts_attributes = map (\<lambda>k. (k, ''S'')) ks, ts_indexes = [], ts_billing = ''PAY_PER_REQUEST''\<rparr>"

definition org_index_spec :: index_spec where
  "org_index_spec = \<lparr>ix_name = ORG_INDEX, ix_hash = ''organization_guid''\<rparr>"

definition instances_table :: table_spec where
  "instances_table = \<lparr>ts_name = INSTANCES, ts_key = [''instance_id''], ts_attributes = [(''instance_id'', ''S''), (''organization_guid'', ''S'')],
     ts_indexes = [org_index_spec], ts_billing = ''PAY_PER_REQUEST''\<rparr>"

definition bindings_table :: table_spec where
  "bindings_table = keyed_table BINDINGS [''binding_id'']"

definition usage_table :: table_spec where
  "usage_table = keyed_table USAGE_TABLE [''tenant_id'', ''event_id'']"

definition tenants_table :: table_spec where
  "tenants_table = keyed_table TENANT_TABLE [''tenant_id'']"

definition role_bindings_table :: table_spec where
  "role_bindings_table = keyed_table ROLE_BINDING_TABLE [''principal'', ''tenant_id'']"

definition quotas_table :: table_spec where
  "quotas_table = keyed_table QUOTA_TABLE [''tenant_id'', ''scope'']"

definition catalog_table :: table_spec where
  "catalog_table = keyed_table CATALOG_TABLE [''kind'', ''type_id'']"

lemmas table_defs = instances_table_def bindings_table_def usage_table_def tenants_table_def role_bindings_table_def
  quotas_table_def catalog_table_def keyed_table_def

section \<open>Creation\<close>

definition create_and_wait :: "ddb_admin \<Rightarrow> table_spec \<Rightarrow> unit admin" where
  "create_and_wait A t = seq_io (create_table A t) (wait_until_exists A (ts_name t))"

text \<open>\<open>ensure_table\<close> of a store with one table.\<close>

definition ensure_table :: "ddb_admin \<Rightarrow> table_spec \<Rightarrow> unit admin" where
  "ensure_table A t = bind_io (list_tables A) (\<lambda>existing.
     if ts_name t \<in> set existing then ret () else create_and_wait A t)"

text \<open>An existing instance table gets the index when its description lacks it; client errors end it.\<close>

definition ensure_org_index :: "ddb_admin \<Rightarrow> unit admin" where
  "ensure_org_index A = bind_io (try_io (describe_table A INSTANCES)) (\<lambda>res. case res of
     Inl x \<Rightarrow> if is_ClientError x then ret () else throw x
   | Inr indexes \<Rightarrow> if ORG_INDEX \<in> set indexes then ret ()
       else catch_io (seq_io (add_index A INSTANCES org_index_spec) (wait_until_exists A INSTANCES))
         (\<lambda>x. if is_ClientError x then ret () else throw x))"

definition store_ensure_tables :: "ddb_admin \<Rightarrow> unit admin" where
  "store_ensure_tables A = bind_io (list_tables A) (\<lambda>existing.
     seq_io (if INSTANCES \<notin> set existing then create_and_wait A instances_table else ensure_org_index A)
       (if BINDINGS \<notin> set existing then create_and_wait A bindings_table else ret ()))"

text \<open>The administrative calls of \<open>_startup\<close>, in their order: every failure is logged and start-up goes on.\<close>

definition startup_tables :: "ddb_admin \<Rightarrow> unit admin" where
  "startup_tables A = bind_io (try_io (store_ensure_tables A)) (\<lambda>_.
     seq_io (ensure_tables (map (ensure_table A) [tenants_table, role_bindings_table, quotas_table, usage_table]))
       (bind_io (try_io (ensure_table A catalog_table)) (\<lambda>_. ret ())))"

section \<open>The metering service's store\<close>

record metering_state =
  ms_store :: bool
  ms_table_ensured :: bool

definition get_store :: "ddb_admin \<Rightarrow> metering_state \<Rightarrow> metering_state admin" where
  "get_store A st = (let st1 = st\<lparr>ms_store := True\<rparr> in
     if ms_table_ensured st1 then ret st1
     else bind_io (try_io (ensure_table A usage_table)) (\<lambda>r. ret (case r of
       Inr _ \<Rightarrow> st1\<lparr>ms_table_ensured := True\<rparr> | Inl _ \<Rightarrow> st1)))"

definition metering_gauges :: "metering_state \<Rightarrow> (string \<times> int) list" where
  "metering_gauges st = [(''metering_table_ensured'', if ms_table_ensured st then 1 else 0)]"

definition metering_healthz :: dict where
  "metering_healthz = [(''status'', JStr ''ok''), (''service'', JStr ''metering-service'')]"

text \<open>The handler of the metering and audit services for an exception no route caught; \<open>str_exn\<close> is \<open>str\<close>.\<close>

definition unhandled :: "(exn \<Rightarrow> string) \<Rightarrow> exn \<Rightarrow> int \<times> dict" where
  "unhandled str_exn x = (500, [(''type'', JStr ''about:blank''), (''title'', JStr ''internal server error''), (''status'', JInt 500),
     (''detail'', JStr (str_exn x))])"

section \<open>What the calls do\<close>

text \<open>The tables read off the administrative trace.\<close>

type_synonym schema = "string \<rightharpoonup> table_spec"

fun apply_admin :: "admin_event \<Rightarrow> schema \<Rightarrow> schema" where
  "apply_admin (TableCreated t (Inr ())) s = s(ts_name t \<mapsto> t)"
| "apply_admin (IndexAdded n ix (Inr ())) s = s(n := map_option (\<lambda>t. t\<lparr>ts_indexes := ts_indexes t @ [ix]\<rparr>) (s n))"
| "apply_admin _ s = s"

definition schema_view :: "schema \<Rightarrow> admin_event list \<Rightarrow> schema" where
  "schema_view s0 h = fold apply_admin h s0"

lemma schema_view_simps [simp]:
  "schema_view s0 [] = s0" "schema_view s0 (h @ es) = schema_view (schema_view s0 h) es"
  "schema_view s0 (e # es) = schema_view (apply_admin e s0) es"
  by (simp_all add: schema_view_def)

text \<open>What is documented of DynamoDB: the listing names the tables there are, and a name cannot be created
  twice.\<close>

definition admin_reports :: "ddb_admin \<Rightarrow> schema \<Rightarrow> bool" where
  "admin_reports A s0 \<longleftrightarrow> (\<forall>h ns. ad_list A h = Inr ns \<longrightarrow> set ns = dom (schema_view s0 h)) \<and>
     (\<forall>h t. ad_create A h t = Inr () \<longrightarrow> schema_view s0 h (ts_name t) = None)"

text \<open>Nothing is dropped: a table keeps its key, and its indexes only grow.\<close>

definition extends :: "schema \<Rightarrow> schema \<Rightarrow> bool" where
  "extends s s' \<longleftrightarrow> (\<forall>n t. s n = Some t \<longrightarrow> (\<exists>t'. s' n = Some t' \<and> ts_name t' = ts_name t \<and> ts_key t' = ts_key t \<and>
     set (ts_indexes t) \<subseteq> set (ts_indexes t')))"

lemma extends_refl: "extends s s"
  by (simp add: extends_def)

lemma extends_trans:
  assumes "extends s s'" "extends s' s''"
  shows "extends s s''"
  unfolding extends_def
proof (intro allI impI)
  fix n t
  assume "s n = Some t"
  then obtain t' where t': "s' n = Some t'" "ts_name t' = ts_name t" "ts_key t' = ts_key t" "set (ts_indexes t) \<subseteq> set (ts_indexes t')"
    using assms(1) unfolding extends_def by blast
  then obtain t'' where "s'' n = Some t''" "ts_name t'' = ts_name t'" "ts_key t'' = ts_key t'" "set (ts_indexes t') \<subseteq> set (ts_indexes t'')"
    using assms(2) unfolding extends_def by blast
  with t' show "\<exists>t'. s'' n = Some t' \<and> ts_name t' = ts_name t \<and> ts_key t' = ts_key t \<and> set (ts_indexes t) \<subseteq> set (ts_indexes t')" by auto
qed

lemma extends_dom: "extends s s' \<Longrightarrow> dom s \<subseteq> dom s'"
  unfolding extends_def dom_def by blast

definition keeps :: "ddb_admin \<Rightarrow> schema \<Rightarrow> 'a admin \<Rightarrow> bool" where
  "keeps A s0 p \<longleftrightarrow> (\<forall>h. extends (schema_view s0 h) (schema_view s0 (snd (p h))))"

lemma keeps_ret: "keeps A s0 (ret a)" and keeps_throw: "keeps A s0 (throw x)"
  by (simp_all add: keeps_def ret_def throw_def extends_refl)

lemma keeps_bind:
  assumes "keeps A s0 p" "\<And>a. keeps A s0 (k a)"
  shows "keeps A s0 (bind_io p k)"
  unfolding keeps_def
proof
  fix h
  obtain r h1 where p: "p h = (r, h1)" by (cases "p h")
  with assms(1) have first: "extends (schema_view s0 h) (schema_view s0 h1)" by (auto simp: keeps_def dest: spec [of _ h])
  show "extends (schema_view s0 h) (schema_view s0 (snd (bind_io p k h)))"
  proof (cases r)
    case (Inr a)
    have "extends (schema_view s0 h1) (schema_view s0 (snd (k a h1)))" using assms(2) by (simp add: keeps_def)
    with first Inr p show ?thesis by (auto simp: bind_io_def intro: extends_trans)
  qed (use p first in \<open>simp add: bind_io_def\<close>)
qed

lemma keeps_seq: "keeps A s0 p \<Longrightarrow> keeps A s0 q \<Longrightarrow> keeps A s0 (seq_io p q)"
  unfolding seq_io_def by (rule keeps_bind)

lemma try_io_snd: "snd (try_io p h) = snd (p h)"
  by (simp add: try_io_def split: prod.split)

lemma keeps_try: "keeps A s0 p \<Longrightarrow> keeps A s0 (try_io p)"
  by (simp add: keeps_def try_io_snd)

lemma catch_io_try: "catch_io p f = bind_io (try_io p) (\<lambda>r. case r of Inl x \<Rightarrow> f x | Inr a \<Rightarrow> ret a)"
  by (auto simp: catch_io_def bind_io_def try_io_def ret_def fun_eq_iff split: prod.split sum.split)

lemma keeps_catch: "keeps A s0 p \<Longrightarrow> (\<And>x. keeps A s0 (f x)) \<Longrightarrow> keeps A s0 (catch_io p f)"
  unfolding catch_io_try by (intro keeps_bind keeps_try) (auto simp: keeps_ret split: sum.split)

lemma keeps_reads: "keeps A s0 (list_tables A)" "keeps A s0 (wait_until_exists A n)" "keeps A s0 (describe_table A n)"
  by (simp_all add: keeps_def admin_defs Let_def extends_refl)

lemma keeps_index: "keeps A s0 (add_index A n ix)"
proof -
  have "extends (schema_view s0 h) (schema_view s0 (h @ [IndexAdded n ix (ad_update A h n ix)]))" for h
    by (cases "ad_update A h n ix") (auto simp: extends_def)
  then show ?thesis by (simp add: keeps_def add_index_def Let_def)
qed

lemma keeps_create:
  assumes "admin_reports A s0"
  shows "keeps A s0 (create_table A t)"
proof -
  have "extends (schema_view s0 h) (schema_view s0 (h @ [TableCreated t (ad_create A h t)]))" for h
    using assms by (cases "ad_create A h t") (auto simp: admin_reports_def extends_def)
  then show ?thesis by (simp add: keeps_def create_table_def Let_def)
qed

lemmas keeps_rules = keeps_ret keeps_throw keeps_bind keeps_seq keeps_try keeps_catch keeps_reads keeps_index keeps_create

lemma keeps_ensure:
  assumes "admin_reports A s0"
  shows "keeps A s0 (create_and_wait A t)" "keeps A s0 (ensure_table A t)" "keeps A s0 (ensure_org_index A)" "keeps A s0 (store_ensure_tables A)"
proof -
  show c: "keeps A s0 (create_and_wait A t)" for t unfolding create_and_wait_def by (intro keeps_rules assms)
  then show "keeps A s0 (ensure_table A t)" unfolding ensure_table_def by (intro keeps_rules) (simp add: keeps_ret)
  show o': "keeps A s0 (ensure_org_index A)" unfolding ensure_org_index_def
    by (intro keeps_bind keeps_try keeps_reads) (auto intro!: keeps_rules split: sum.split)
  show "keeps A s0 (store_ensure_tables A)" unfolding store_ensure_tables_def
    by (intro keeps_bind keeps_reads keeps_seq) (simp_all add: c o' keeps_ret)
qed

text \<open>Start-up never drops or replaces a table, whatever DynamoDB answers, and never fails.\<close>

lemma startup_tables_keeps:
  assumes "admin_reports A s0"
  shows "extends (schema_view s0 h) (schema_view s0 (snd (startup_tables A h)))" and "\<exists>h'. startup_tables A h = (Inr (), h')"
proof -
  have "keeps A s0 (ensure_tables es)" if "list_all (keeps A s0) es" for es
    using that by (induction es) (auto intro!: keeps_rules)
  then have "keeps A s0 (startup_tables A)"
    unfolding startup_tables_def by (intro keeps_bind keeps_try keeps_seq keeps_ret keeps_ensure [OF assms]) (simp add: keeps_ensure [OF assms] del: ensure_tables.simps)
  then show "extends (schema_view s0 h) (schema_view s0 (snd (startup_tables A h)))" by (simp add: keeps_def)
  obtain r h1 where 1: "(try_io (store_ensure_tables A) :: (admin_event, exn, exn + unit) io) h = (Inr r, h1)"
    by (cases "store_ensure_tables A h") (auto simp: try_io_def)
  obtain h2 where 2: "ensure_tables (map (ensure_table A) [tenants_table, role_bindings_table, quotas_table, usage_table]) h1 = (Inr (), h2)"
    using ensure_tables_total by blast
  obtain r' h3 where 3: "(try_io (ensure_table A catalog_table) :: (admin_event, exn, exn + unit) io) h2 = (Inr r', h3)"
    by (cases "ensure_table A catalog_table h2") (auto simp: try_io_def)
  from 1 2 3 show "\<exists>h'. startup_tables A h = (Inr (), h')"
    unfolding startup_tables_def by (simp add: bind_io_def seq_io_def ret_def)
qed

section \<open>All tables exist\<close>

text \<open>DynamoDB answers: listings and waits succeed, a table that is not there can be created, and the
  description of a table fails with a client error at most.\<close>

definition admin_up :: "ddb_admin \<Rightarrow> schema \<Rightarrow> bool" where
  "admin_up A s0 \<longleftrightarrow> (\<forall>h. \<exists>ns. ad_list A h = Inr ns) \<and> (\<forall>h t. schema_view s0 h (ts_name t) = None \<longrightarrow> ad_create A h t = Inr ()) \<and>
     (\<forall>h n. ad_wait A h n = Inr ()) \<and> (\<forall>h n. (\<exists>is. ad_describe A h n = Inr is) \<or> (\<exists>c m. ad_describe A h n = Inl (AwsClient c m))) \<and>
     (\<forall>h n ix. ad_update A h n ix = Inr () \<or> (\<exists>c m. ad_update A h n ix = Inl (AwsClient c m)))"

lemma create_and_wait_up:
  assumes "admin_up A s0" "schema_view s0 h (ts_name t) = None"
  shows "create_and_wait A t h = (Inr (), h @ [TableCreated t (Inr ()), TableAwaited (ts_name t) (Inr ())])"
  using assms by (simp add: admin_up_def create_and_wait_def seq_io_def bind_io_def admin_defs)

lemma ensure_table_up:
  assumes "admin_up A s0" "admin_reports A s0"
  shows "\<exists>h'. ensure_table A t h = (Inr (), h') \<and> ts_name t \<in> dom (schema_view s0 h')"
proof -
  obtain ns where l: "ad_list A h = Inr ns" using assms(1) unfolding admin_up_def by blast
  with assms(2) have ns: "ad_list A h = Inr ns" "set ns = dom (schema_view s0 h)" unfolding admin_reports_def by blast+
  let ?h = "h @ [TablesListed (Inr ns)]"
  show ?thesis
  proof (cases "ts_name t \<in> set ns")
    case True
    with ns show ?thesis by (auto simp: ensure_table_def bind_io_def list_tables_def ret_def)
  next
    case False
    then have "schema_view s0 ?h (ts_name t) = None" using ns(2) by (auto simp: domIff)
    from create_and_wait_up [OF assms(1) this] False ns show ?thesis by (simp add: ensure_table_def bind_io_def list_tables_def)
  qed
qed

lemma ensure_org_index_up:
  assumes "admin_up A s0"
  shows "\<exists>h'. ensure_org_index A h = (Inr (), h')"
proof -
  have w: "ad_wait A h n = Inr ()" for h n using assms by (simp add: admin_up_def)
  have d: "(\<exists>is. ad_describe A h INSTANCES = Inr is) \<or> (\<exists>c m. ad_describe A h INSTANCES = Inl (AwsClient c m))"
    using assms unfolding admin_up_def by blast
  have u: "ad_update A h' INSTANCES org_index_spec = Inr () \<or> (\<exists>c m. ad_update A h' INSTANCES org_index_spec = Inl (AwsClient c m))" for h'
    using assms unfolding admin_up_def by blast
  have add: "\<exists>h''. catch_io (seq_io (add_index A INSTANCES org_index_spec) (wait_until_exists A INSTANCES))
      (\<lambda>x. if is_ClientError x then ret () else throw x) h' = (Inr (), h'')" for h'
    using u [of h'] by (auto simp: catch_io_def seq_io_def bind_io_def admin_defs ret_def w)
  from d show ?thesis
    by (auto simp: ensure_org_index_def bind_io_def try_io_def describe_table_def ret_def add)
qed

text \<open>A call that is about other tables leaves a table alone.\<close>

fun touches :: "string \<Rightarrow> admin_event \<Rightarrow> bool" where
  "touches n (TableCreated t _) = (ts_name t = n)"
| "touches n (IndexAdded m _ _) = (m = n)"
| "touches n _ = False"

lemma untouched: "list_all (\<lambda>e. \<not> touches n e) es \<Longrightarrow> schema_view s es n = s n"
proof (induction es arbitrary: s)
  case (Cons e es)
  have "apply_admin e s n = s n" using Cons.prems by (cases "(e, s)" rule: apply_admin.cases) auto
  with Cons show ?case by simp
qed simp

lemma emits_untouched: "emits (\<lambda>e. \<not> touches n e) p \<Longrightarrow> schema_view s0 (snd (p h)) n = schema_view s0 h n"
  by (metis emits_def schema_view_simps(2) untouched prod.collapse)

lemma emits_admin:
  "n \<noteq> INSTANCES \<Longrightarrow> emits (\<lambda>e. \<not> touches n e) (ensure_org_index A)"
  "ts_name t \<noteq> n \<Longrightarrow> emits (\<lambda>e. \<not> touches n e) (create_and_wait A t)"
  unfolding ensure_org_index_def create_and_wait_def
  by (intro emits_rules; simp add: emits_def admin_defs Let_def)+

lemma emits_first: "emits (\<lambda>e. \<not> touches BINDINGS e) (if b then create_and_wait A instances_table else ensure_org_index A)"
  by (simp add: emits_admin instances_table_def)

lemma store_ensure_up:
  assumes "admin_up A s0" "admin_reports A s0"
  shows "\<exists>h'. store_ensure_tables A h = (Inr (), h') \<and> {INSTANCES, BINDINGS} \<subseteq> dom (schema_view s0 h')"
proof -
  obtain ns where l: "ad_list A h = Inr ns" using assms(1) unfolding admin_up_def by blast
  with assms(2) have ns: "set ns = dom (schema_view s0 h)" unfolding admin_reports_def by blast
  let ?h = "h @ [TablesListed (Inr ns)]"
  let ?first = "if INSTANCES \<notin> set ns then create_and_wait A instances_table else ensure_org_index A"
  have first: "\<exists>h1. ?first ?h = (Inr (), h1) \<and> INSTANCES \<in> dom (schema_view s0 h1)"
  proof (cases "INSTANCES \<in> set ns")
    case True
    obtain h1 where h1: "ensure_org_index A ?h = (Inr (), h1)" using ensure_org_index_up [OF assms(1)] by blast
    have "extends (schema_view s0 ?h) (schema_view s0 h1)"
      using keeps_ensure(3) [OF assms(2)] h1 unfolding keeps_def by (metis snd_conv)
    with True ns h1 extends_dom show ?thesis by (simp add: subset_iff)
  next
    case False
    then have "schema_view s0 ?h (ts_name instances_table) = None" using ns by (auto simp: instances_table_def domIff)
    from create_and_wait_up [OF assms(1) this] False show ?thesis by (simp add: instances_table_def)
  qed
  then obtain h1 where h1: "?first ?h = (Inr (), h1)" "INSTANCES \<in> dom (schema_view s0 h1)" by blast
  have ext: "extends (schema_view s0 ?h) (schema_view s0 h1)"
  proof -
    have "keeps A s0 ?first" by (simp add: keeps_ensure [OF assms(2)])
    then have "extends (schema_view s0 ?h) (schema_view s0 (snd (?first ?h)))" unfolding keeps_def ..
    then show ?thesis unfolding h1(1) by simp
  qed
  show ?thesis
  proof (cases "BINDINGS \<in> set ns")
    case True
    then have "BINDINGS \<in> dom (schema_view s0 h1)" using extends_dom [OF ext] ns by (simp add: subset_iff)
    with True l h1 show ?thesis by (auto simp: store_ensure_tables_def bind_io_def list_tables_def seq_io_def ret_def)
  next
    case False
    have name: "ts_name bindings_table = BINDINGS" by (simp add: bindings_table_def keyed_table_def)
    have "schema_view s0 h1 BINDINGS = schema_view s0 ?h BINDINGS"
      using emits_untouched [OF emits_first, where ?s0.0 = s0 and h = ?h and ?A1 = A and ?b1 = "INSTANCES \<notin> set ns"] unfolding h1(1) by simp
    then have "schema_view s0 h1 BINDINGS = None" using False ns by (simp add: domIff)
    with name have "create_and_wait A bindings_table h1 = (Inr (), h1 @ [TableCreated bindings_table (Inr ()), TableAwaited BINDINGS (Inr ())])"
      using create_and_wait_up [OF assms(1), of h1 bindings_table] by simp
    with False l h1 show ?thesis
      by (auto simp: store_ensure_tables_def bind_io_def list_tables_def seq_io_def name)
  qed
qed

lemma ensure_tables_up:
  assumes "admin_up A s0" "admin_reports A s0"
  shows "\<exists>h'. ensure_tables (map (ensure_table A) ts) h = (Inr (), h') \<and> ts_name ` set ts \<subseteq> dom (schema_view s0 h') \<and>
    extends (schema_view s0 h) (schema_view s0 h')"
proof (induction ts arbitrary: h)
  case (Cons t ts)
  obtain h1 where h1: "ensure_table A t h = (Inr (), h1)" "ts_name t \<in> dom (schema_view s0 h1)" using ensure_table_up [OF assms] by blast
  have "extends (schema_view s0 h) (schema_view s0 (snd (ensure_table A t h)))"
    using keeps_ensure(2) [OF assms(2)] unfolding keeps_def ..
  with h1(1) have ext: "extends (schema_view s0 h) (schema_view s0 h1)" by simp
  obtain h2 where h2: "ensure_tables (map (ensure_table A) ts) h1 = (Inr (), h2)" "ts_name ` set ts \<subseteq> dom (schema_view s0 h2)"
    "extends (schema_view s0 h1) (schema_view s0 h2)" using Cons.IH by blast
  from extends_dom [OF h2(3)] h1(2) have "ts_name t \<in> dom (schema_view s0 h2)" by blast
  with h1(1) h2 extends_trans [OF ext h2(3)] show ?case by (simp add: bind_io_def try_io_def)
qed (simp add: ret_def extends_refl)

definition PLATFORM_TABLES :: "table_spec list" where
  "PLATFORM_TABLES = [instances_table, bindings_table, tenants_table, role_bindings_table, quotas_table, usage_table, catalog_table]"

lemma startup_tables_up:
  assumes "admin_up A s0" "admin_reports A s0"
  shows "\<exists>h'. startup_tables A h = (Inr (), h') \<and> ts_name ` set PLATFORM_TABLES \<subseteq> dom (schema_view s0 h')"
proof -
  let ?ts = "[tenants_table, role_bindings_table, quotas_table, usage_table]"
  obtain h1 where h1: "store_ensure_tables A h = (Inr (), h1)" "{INSTANCES, BINDINGS} \<subseteq> dom (schema_view s0 h1)"
    using store_ensure_up [OF assms] by blast
  obtain h2 where h2: "ensure_tables (map (ensure_table A) ?ts) h1 = (Inr (), h2)" "ts_name ` set ?ts \<subseteq> dom (schema_view s0 h2)"
    "extends (schema_view s0 h1) (schema_view s0 h2)" using ensure_tables_up [OF assms] by blast
  obtain h3 where h3: "ensure_table A catalog_table h2 = (Inr (), h3)" "ts_name catalog_table \<in> dom (schema_view s0 h3)"
    using ensure_table_up [OF assms] by blast
  have "extends (schema_view s0 h2) (schema_view s0 (snd (ensure_table A catalog_table h2)))"
    using keeps_ensure(2) [OF assms(2)] unfolding keeps_def ..
  with h3(1) have sub: "dom (schema_view s0 h2) \<subseteq> dom (schema_view s0 h3)" by (simp add: extends_dom)
  have "startup_tables A h = (Inr (), h3)"
    using h1(1) h2(1) h3(1) by (simp add: startup_tables_def bind_io_def try_io_def seq_io_def ret_def del: ensure_tables.simps list.map)
  moreover have "ts_name ` set PLATFORM_TABLES \<subseteq> {INSTANCES, BINDINGS} \<union> ts_name ` set ?ts \<union> {ts_name catalog_table}"
    by (auto simp: PLATFORM_TABLES_def table_defs)
  moreover have "{INSTANCES, BINDINGS} \<subseteq> dom (schema_view s0 h3)"
    by (rule subset_trans [OF subset_trans [OF h1(2) extends_dom [OF h2(3)]] sub])
  moreover have "ts_name ` set ?ts \<subseteq> dom (schema_view s0 h3)" by (rule subset_trans [OF h2(2) sub])
  ultimately show ?thesis using h3(2) by (meson Un_least empty_subsetI insert_subset subset_trans)
qed

text \<open>A second run creates nothing: it lists the tables and returns.\<close>

lemma ensure_table_again:
  assumes "admin_up A s0" "admin_reports A s0" "ts_name t \<in> dom (schema_view s0 h)"
  shows "\<exists>ns. ensure_table A t h = (Inr (), h @ [TablesListed (Inr ns)])"
proof -
  obtain ns where l: "ad_list A h = Inr ns" using assms(1) unfolding admin_up_def by blast
  with assms(2) have "set ns = dom (schema_view s0 h)" unfolding admin_reports_def by blast
  with l assms(3) show ?thesis by (simp add: ensure_table_def bind_io_def list_tables_def ret_def)
qed

text \<open>The names differ, and every table defines exactly the attributes its key and indexes use.\<close>

definition table_ok :: "table_spec \<Rightarrow> bool" where
  "table_ok t = (distinct (map fst (ts_attributes t)) \<and> set (map fst (ts_attributes t)) = set (ts_key t) \<union> set (map ix_hash (ts_indexes t)) \<and>
     length (ts_key t) \<in> {1, 2} \<and> distinct (ts_key t))"

lemma platform_tables_ok: "list_all table_ok PLATFORM_TABLES" "distinct (map ts_name PLATFORM_TABLES)"
  by (auto simp: PLATFORM_TABLES_def table_defs table_ok_def org_index_spec_def)

lemma get_store_retries:
  "\<exists>st' h'. get_store A st h = (Inr st', h') \<and> ms_store st' \<and> (ms_table_ensured st \<longrightarrow> st' = st\<lparr>ms_store := True\<rparr> \<and> h' = h)"
  by (cases "ensure_table A usage_table h") (auto simp: get_store_def Let_def bind_io_def try_io_def ret_def split: sum.split)

end
