(* ===== verification/Evidence.thy ===== *)
theory Evidence
  imports Migrations
begin

text \<open>
  Model of the three documentation scripts: \<open>scripts/changelog_extract.py\<close>, \<open>scripts/ssp_validate.py\<close> and
  \<open>scripts/crosswalk_validate.py\<close>. The regular expressions are written out as scanners with the backtracking
  they need; the files and the test for existence are parameters. Shown: the changelog loop returns
  exactly the section between two headings; the evidence check fails exactly when some cited path does
  not exist; and the control scanner never sees the number of a control enhancement, because the
  pattern ends in a word boundary that a closing parenthesis does not make.
\<close>

section \<open>Characters and lines\<close>

definition is_cap :: "char \<Rightarrow> bool" where
  "is_cap c = (let n = (of_char c :: nat) in 65 \<le> n \<and> n \<le> 90)"

text \<open>\<open>\w\<close> on ASCII.\<close>

definition is_word :: "char \<Rightarrow> bool" where
  "is_word c = (is_digit c \<or> is_cap c \<or> (let n = (of_char c :: nat) in 97 \<le> n \<and> n \<le> 122) \<or> c = CHR ''_'')"

text \<open>\<open>str.splitlines\<close> on ASCII: a carriage return before a line feed belongs to it, and a last line without
  a break is kept.\<close>

definition is_break :: "char \<Rightarrow> bool" where
  "is_break c = (let n = (of_char c :: nat) in n \<in> {10, 11, 12, 13, 28, 29, 30})"

definition skip_feed :: "string \<Rightarrow> string" where
  "skip_feed s = (case s of c # cs \<Rightarrow> if c = CHR 0x0A then cs else s | [] \<Rightarrow> [])"

function splitlines_from :: "string \<Rightarrow> string \<Rightarrow> string list" where
  "splitlines_from line [] = (if line = [] then [] else [line])"
| "splitlines_from line (c # cs) = (if is_break c
     then line # splitlines_from [] (if c = CHR 0x0D then skip_feed cs else cs)
     else splitlines_from (line @ [c]) cs)"
  by pat_completeness auto
termination by (relation "measure (length \<circ> snd)") (auto simp: skip_feed_def split: list.split)

definition splitlines :: "string \<Rightarrow> string list" where
  "splitlines s = splitlines_from [] s"

text \<open>\<open>$\<close>: at the end, or before a last line feed.\<close>

definition at_end :: "string \<Rightarrow> bool" where
  "at_end s \<longleftrightarrow> s = [] \<or> s = [CHR 0x0A]"

text \<open>\<open>\d+\<close>: the digits and the rest; \<open>None\<close> when there is none.\<close>

definition digits :: "string \<Rightarrow> (string \<times> string) option" where
  "digits s = (if takeWhile is_digit s = [] then None else Some (takeWhile is_digit s, dropWhile is_digit s))"

definition lit :: "char \<Rightarrow> string \<Rightarrow> string option" where
  "lit c s = (case s of d # ds \<Rightarrow> if d = c then Some ds else None | [] \<Rightarrow> None)"

section \<open>Changelog\<close>

text \<open>The release number of a version: its text and what follows.\<close>

definition release_of :: "string \<Rightarrow> (string \<times> string) option" where
  "release_of v = Option.bind (digits v) (\<lambda>(a, r1). Option.bind (lit (CHR ''.'') r1) (\<lambda>r2.
     Option.bind (digits r2) (\<lambda>(b, r3). Option.bind (lit (CHR ''.'') r3) (\<lambda>r4.
     Option.bind (digits r4) (\<lambda>(c, r5). Some (a @ ''.'' @ b @ ''.'' @ c, r5))))))"

definition pre_number :: "string \<Rightarrow> string \<Rightarrow> bool" where
  "pre_number tag r = (startswith r tag \<and> (case digits (drop (length tag) r) of Some (_, r') \<Rightarrow> at_end r' | None \<Rightarrow> False))"

definition changelog_heading_version :: "string \<Rightarrow> string" where
  "changelog_heading_version v = (case release_of v of
     None \<Rightarrow> v
   | Some (base, r) \<Rightarrow> if at_end r then base
       else if pre_number ''a'' r then base @ ''-alpha''
       else if pre_number ''b'' r then base @ ''-beta''
       else if pre_number ''rc'' r then base @ ''-rc''
       else v)"

fun extract_loop :: "string \<Rightarrow> bool \<Rightarrow> string list \<Rightarrow> string list" where
  "extract_loop heading capturing [] = []"
| "extract_loop heading capturing (line # lines) =
     (if startswith line ''## ''
      then (if capturing then [] else extract_loop heading (contains line (''['' @ heading @ '']'')) lines)
      else if capturing then line # extract_loop heading capturing lines
      else extract_loop heading capturing lines)"

definition extract_section :: "string \<Rightarrow> string \<Rightarrow> string" where
  "extract_section version changelog = strip (join [CHR 0x0A] (extract_loop (changelog_heading_version version) False (splitlines changelog)))"

definition changelog_main :: "string \<Rightarrow> string list \<Rightarrow> int \<times> string" where
  "changelog_main changelog args = (case args of
     [version] \<Rightarrow> (let body = extract_section version changelog in if body = [] then (1, []) else (0, body))
   | _ \<Rightarrow> (2, []))"

section \<open>Control tables\<close>

record ControlRow =
  cw_control :: string
  cw_status :: string
  cw_evidence_paths :: "string list"
  cw_source :: string

record Report =
  rp_rows :: "ControlRow list"
  rp_missing :: "(string \<times> string \<times> string) list"

text \<open>The end of a match before \<open>rest\<close>, whose last character is a word character or not: a word boundary.\<close>

definition boundary :: "bool \<Rightarrow> string \<Rightarrow> bool" where
  "boundary word_before rest \<longleftrightarrow> word_before \<noteq> (case rest of c # _ \<Rightarrow> is_word c | [] \<Rightarrow> False)"

text \<open>\<open>(\<dots>\d+\<dots>)\<close>: an enhancement in parentheses.\<close>

definition enhancement :: "string \<Rightarrow> (string \<times> string) option" where
  "enhancement s = Option.bind (lit (CHR ''('') s) (\<lambda>r1. Option.bind (digits r1) (\<lambda>(ds, r2).
     Option.bind (lit (CHR '')'') r2) (\<lambda>r3. Some (''('' @ ds @ '')'', r3))))"

text \<open>The pattern at one position: two capitals, a dash, digits, and an enhancement if the match can end after it.\<close>

definition control_here :: "string \<Rightarrow> string option" where
  "control_here s = (case s of
     a # b # d # r \<Rightarrow> if is_cap a \<and> is_cap b \<and> d = CHR ''-'' then Option.bind (digits r) (\<lambda>(ds, r1).
         case enhancement r1 of
           Some (e, r2) \<Rightarrow> if boundary False r2 then Some (a # b # d # ds @ e)
             else if boundary True r1 then Some (a # b # d # ds) else None
         | None \<Rightarrow> if boundary True r1 then Some (a # b # d # ds) else None)
       else None
   | _ \<Rightarrow> None)"

fun control_search :: "bool \<Rightarrow> string \<Rightarrow> string option" where
  "control_search word_before [] = None"
| "control_search word_before (c # cs) = (case if word_before then None else control_here (c # cs) of
     Some m \<Rightarrow> Some m
   | None \<Rightarrow> control_search (is_word c) cs)"

definition control_id :: "string \<Rightarrow> string option" where
  "control_id cell = control_search False cell"

text \<open>The spans between two backticks.\<close>

function backtick_spans :: "string \<Rightarrow> string list" where
  "backtick_spans s = (case dropWhile (\<lambda>c. c \<noteq> CHR ''`'') s of
     [] \<Rightarrow> []
   | _ # r \<Rightarrow> (let body = takeWhile (\<lambda>c. c \<noteq> CHR ''`'') r in
       case dropWhile (\<lambda>c. c \<noteq> CHR ''`'') r of
         [] \<Rightarrow> []
       | q # r' \<Rightarrow> if body = [] then backtick_spans r else body # backtick_spans r'))"
  by pat_completeness auto
termination
proof (relation "measure length")
  fix s c r
  assume "dropWhile (\<lambda>c. c \<noteq> CHR ''`'') s = c # r"
  then show "(r, s) \<in> measure length" using length_dropWhile_le [of "\<lambda>c. c \<noteq> CHR ''`''" s] by simp
next
  fix s c r b q r'
  assume "dropWhile (\<lambda>c. c \<noteq> CHR ''`'') s = c # r" "dropWhile (\<lambda>c. c \<noteq> CHR ''`'') r = q # r'"
  then show "(r', s) \<in> measure length"
    using length_dropWhile_le [of "\<lambda>c. c \<noteq> CHR ''`''" s] length_dropWhile_le [of "\<lambda>c. c \<noteq> CHR ''`''" r] by simp
qed simp

text \<open>\<open>[\w./-]+\.\w+\<close> over the whole token: the last dot separates a word from a part that is not empty.\<close>

definition path_like :: "string \<Rightarrow> bool" where
  "path_like t = (list_all (\<lambda>c. is_word c \<or> c \<in> set ''./-'') t \<and>
     (let ext = takeWhile (\<lambda>c. c \<noteq> CHR ''.'') (rev t) in ext \<noteq> [] \<and> list_all is_word ext \<and> length ext + 1 < length t))"

text \<open>\<open>span.split("::", 1)[0]\<close>\<close>

fun before_colons :: "string \<Rightarrow> string" where
  "before_colons [] = []"
| "before_colons (c # cs) = (if startswith (c # cs) ''::'' then [] else c # before_colons cs)"

definition evidence_paths :: "string \<Rightarrow> string list" where
  "evidence_paths cell = filter (\<lambda>t. path_like t \<and> CHR ''/'' \<in> set t) (map (\<lambda>s. strip (before_colons s)) (backtick_spans cell))"

definition table_cells :: "string \<Rightarrow> string list" where
  "table_cells line = map strip (split_on (CHR ''|'') (rstrip_if (\<lambda>c. c = CHR ''|'') (lstrip_if (\<lambda>c. c = CHR ''|'') (strip line))))"

definition parse_row :: "string \<Rightarrow> string \<Rightarrow> ControlRow option" where
  "parse_row source line = (if \<not> startswith (lstrip_if is_space line) ''|'' then None
     else case table_cells line of
       c0 # c1 # c2 # c3 # _ \<Rightarrow> (case control_id c0 of
         None \<Rightarrow> None
       | Some c \<Rightarrow> if lower c1 \<in> {''status'', ''---'', '':---''} then None
           else Some \<lparr>cw_control = c, cw_status = c1, cw_evidence_paths = evidence_paths c3, cw_source = source\<rparr>)
     | _ \<Rightarrow> None)"

definition parse_file :: "string \<Rightarrow> string \<Rightarrow> ControlRow list" where
  "parse_file name text = List.map_filter (parse_row name) (splitlines text)"

definition status_bucket :: "string \<Rightarrow> string" where
  "status_bucket status = (let s = lower status in
     if contains s ''implement'' then ''implemented''
     else if contains s ''inherit'' then ''inherited''
     else if contains s ''planned'' \<or> contains s ''partial'' \<or> contains s ''todo'' then ''planned''
     else ''other'')"

definition by_status :: "Report \<Rightarrow> (string \<times> nat) list" where
  "by_status r = foldl (\<lambda>counts row. let k = status_bucket (cw_status row)
     in AList.update k (Suc (case map_of counts k of Some n \<Rightarrow> n | None \<Rightarrow> 0)) counts) [] (rp_rows r)"

definition missing_of :: "(string \<Rightarrow> bool) \<Rightarrow> ControlRow \<Rightarrow> (string \<times> string \<times> string) list" where
  "missing_of exist row = map (\<lambda>p. (cw_control row, p, cw_source row)) (filter (\<lambda>p. \<not> exist p) (cw_evidence_paths row))"

text \<open>The control files in the order of their names.\<close>

definition ssp_validate :: "(string \<Rightarrow> bool) \<Rightarrow> (string \<times> string) list \<Rightarrow> Report" where
  "ssp_validate exist files = (let rows = concat (map (\<lambda>(name, text). if name = ''README.md'' then [] else parse_file name text) (sort_key fst files))
     in \<lparr>rp_rows = rows, rp_missing = concat (map (missing_of exist) rows)\<rparr>)"

definition ssp_main :: "(string \<Rightarrow> bool) \<Rightarrow> (string \<times> string) list \<Rightarrow> int" where
  "ssp_main exist files = (if rp_missing (ssp_validate exist files) \<noteq> [] then 1 else 0)"

section \<open>Crosswalk\<close>

text \<open>\<open>A.[5678].\d{1,2}\<close>, up to a last line feed.\<close>

definition iso_id :: "string \<Rightarrow> bool" where
  "iso_id s = (case s of
     a # d1 # t # d2 # r \<Rightarrow> a = CHR ''A'' \<and> d1 = CHR ''.'' \<and> t \<in> set ''5678'' \<and> d2 = CHR ''.'' \<and>
       (case digits r of Some (ds, r') \<Rightarrow> length ds \<le> 2 \<and> at_end r' | None \<Rightarrow> False)
   | _ \<Rightarrow> False)"

definition iso_problem :: "string \<Rightarrow> json \<Rightarrow> exn + string list" where
  "iso_problem nist target = (case target of
     JStr s \<Rightarrow> Inr (if iso_id s then [] else [nist @ '': malformed Annex A id '' @ py_repr s])
   | _ \<Rightarrow> Inl (TypeError ''expected string''))"

fun concat_res :: "(exn + string list) list \<Rightarrow> exn + string list" where
  "concat_res [] = Inr []"
| "concat_res (r # rs) = (case r of Inl x \<Rightarrow> Inl x | Inr a \<Rightarrow> map_sum id (\<lambda>b. a @ b) (concat_res rs))"

text \<open>The problems of one mapping; the targets are a list.\<close>

definition mapping_problems :: "string set \<Rightarrow> string \<times> json \<Rightarrow> exn + string list" where
  "mapping_problems ssp_ids m = (case m of (nist, targets) \<Rightarrow> (case targets of
     JList isos \<Rightarrow> concat_res (Inr (if nist \<in> ssp_ids then [] else [nist @ '': not a documented SSP control'']) #
       Inr (if isos = [] then [nist @ '': no target controls''] else []) # map (iso_problem nist) isos)
   | _ \<Rightarrow> Inl (TypeError ''not iterable'')))"

definition crosswalk_validate :: "string set \<Rightarrow> dict \<Rightarrow> exn + string list" where
  "crosswalk_validate ssp_ids data = (case jget_or data ''mappings'' (JObj []) of
     JObj ms \<Rightarrow> concat_res (map (mapping_problems ssp_ids) ms)
   | _ \<Rightarrow> Inl (AttributeError ''items''))"

definition crosswalk_main :: "(string \<Rightarrow> bool) \<Rightarrow> (string \<times> string) list \<Rightarrow> dict \<Rightarrow> exn + int" where
  "crosswalk_main exist files data = map_sum id (\<lambda>ps. if ps = [] then 0 else 1)
     (crosswalk_validate (set (map cw_control (rp_rows (ssp_validate exist files)))) data)"

section \<open>The section between two headings\<close>

lemma extract_captured: "extract_loop h True ls = takeWhile (\<lambda>l. \<not> startswith l ''## '') ls"
  by (induction ls) auto

lemma extract_loop_spec:
  "extract_loop h False ls = takeWhile (\<lambda>l. \<not> startswith l ''## '')
     (tl (dropWhile (\<lambda>l. \<not> (startswith l ''## '' \<and> contains l (''['' @ h @ '']''))) ls))"
proof (induction ls)
  case (Cons l ls)
  show ?case
  proof (cases "startswith l ''## '' \<and> contains l (''['' @ h @ '']'')")
    case True
    then show ?thesis using extract_captured [of h ls] by simp
  next
    case False
    then show ?thesis using Cons by (cases "startswith l ''## ''") auto
  qed
qed simp

section \<open>The evidence check\<close>

lemma missing_empty: "concat (map (missing_of exist) rows) = [] \<longleftrightarrow> (\<forall>row\<in>set rows. \<forall>p\<in>set (cw_evidence_paths row). exist p)"
  by (auto simp: missing_of_def filter_empty_conv)

lemma ssp_main_exit:
  "ssp_main exist files = 0 \<longleftrightarrow> (\<forall>(name, text)\<in>set files. name \<noteq> ''README.md'' \<longrightarrow>
     (\<forall>row\<in>set (parse_file name text). \<forall>p\<in>set (cw_evidence_paths row). exist p))"
proof -
  let ?rows = "\<lambda>(name, text). if name = ''README.md'' then [] else parse_file name text"
  have "ssp_main exist files = 0 \<longleftrightarrow> (\<forall>row\<in>set (concat (map ?rows (sort_key fst files))). \<forall>p\<in>set (cw_evidence_paths row). exist p)"
    unfolding missing_empty [symmetric] ssp_main_def ssp_validate_def Let_def by (simp only: Report.simps if_bool_eq_conj) auto
  also have "\<dots> \<longleftrightarrow> (\<forall>f\<in>set files. \<forall>row\<in>set (?rows f). \<forall>p\<in>set (cw_evidence_paths row). exist p)"
    by (simp only: set_concat set_map set_sort ball_UN ball_simps)
  finally show ?thesis by (auto simp: case_prod_beta)
qed

text \<open>Every cited path has a directory part and is built of path characters only.\<close>

lemma evidence_paths_shape: "p \<in> set (evidence_paths cell) \<Longrightarrow> path_like p \<and> CHR ''/'' \<in> set p"
  by (simp add: evidence_paths_def)

section \<open>Enhancements are cut off\<close>

lemma digits_append: "list_all is_digit ds \<Longrightarrow> ds \<noteq> [] \<Longrightarrow> (case r of c # _ \<Rightarrow> \<not> is_digit c | [] \<Rightarrow> True) \<Longrightarrow> digits (ds @ r) = Some (ds, r)"
proof -
  assume "list_all is_digit ds" and ne: "ds \<noteq> []" and r: "case r of c # _ \<Rightarrow> \<not> is_digit c | [] \<Rightarrow> True"
  then have all: "\<And>x. x \<in> set ds \<Longrightarrow> is_digit x" by (simp add: list_all_iff)
  from r have "takeWhile is_digit r = []" "dropWhile is_digit r = r" by (cases r; simp)+
  with all ne show ?thesis by (simp add: digits_def takeWhile_append2 dropWhile_append2)
qed

lemma enhancement_append:
  assumes "list_all is_digit es" "es \<noteq> []"
  shows "enhancement (''('' @ es @ '')'' @ r) = Some (''('' @ es @ '')'', r)"
proof -
  have "digits (es @ '')'' @ r) = Some (es, '')'' @ r)"
    using digits_append [OF assms, of "'')'' @ r"] by (simp add: is_digit_def)
  then show ?thesis by (simp add: enhancement_def lit_def)
qed

lemma control_id_base:
  assumes "is_cap a" "is_cap b" "list_all is_digit ds" "ds \<noteq> []" "list_all is_digit es" "es \<noteq> []"
    and "case r of c # _ \<Rightarrow> \<not> is_word c | [] \<Rightarrow> True"
  shows "control_id (a # b # CHR ''-'' # ds @ ''('' @ es @ '')'' @ r) = Some (a # b # CHR ''-'' # ds)"
proof -
  have d: "digits (ds @ ''('' @ es @ '')'' @ r) = Some (ds, ''('' @ es @ '')'' @ r)"
    using digits_append [OF assms(3,4), of "''('' @ es @ '')'' @ r"] by (simp add: is_digit_def)
  have "\<not> boundary False r" using assms(7) by (cases r) (auto simp: boundary_def)
  moreover have "boundary True (''('' @ es @ '')'' @ r)" by (simp add: boundary_def is_word_def is_digit_def is_cap_def)
  ultimately have "control_here (a # b # CHR ''-'' # ds @ ''('' @ es @ '')'' @ r) = Some (a # b # CHR ''-'' # ds)"
    unfolding control_here_def using assms(1,2) d enhancement_append [OF assms(5,6), of r] by simp
  then show ?thesis by (simp add: control_id_def)
qed

end
