(* ===== verification/Periodic.thy ===== *)
theory Periodic
  imports Reconciliation
begin

text \<open>
  Model of \<open>_periodic_reconciler\<close> of \<open>apps/broker/app/main.py\<close> and of \<open>mint_dev_token\<close>
  (\<open>libs/common/sovereign/tenancy/jwt_auth.py\<close>). The loop never ends, so it is a step relation: a pass, or
  anything the rest of the platform does meanwhile. Shown: no pass ends the loop, and over its whole
  life the loop itself deletes nothing and writes the instance table only. A minted token is read back
  as the user it was minted for.
\<close>

section \<open>The loop\<close>

definition periodic_enabled :: "env \<Rightarrow> bool" where
  "periodic_enabled E \<longleftrightarrow> 0 < cfg_reconcile_interval_seconds (cfg E)"

text \<open>One round after the sleep: every exception of the pass is logged.\<close>

definition periodic_round :: "env \<Rightarrow> (nat \<times> nat) option prog" where
  "periodic_round E = bind_io (try_io (reconcile_pass E True)) (\<lambda>r. ret (case r of Inr summary \<Rightarrow> Some summary | Inl _ \<Rightarrow> None))"

text \<open>The states of the loop: the rounds done, the events of the loop itself, and the whole trace.\<close>

inductive reconciler_at :: "env \<Rightarrow> nat \<Rightarrow> event list \<Rightarrow> event list \<Rightarrow> bool" for E where
  started: "periodic_enabled E \<Longrightarrow> reconciler_at E 0 [] h"
| others: "reconciler_at E n own h \<Longrightarrow> reconciler_at E n own (h @ es)"
| round: "reconciler_at E n own h \<Longrightarrow> periodic_round E h = (Inr s, h @ es) \<Longrightarrow> reconciler_at E (Suc n) (own @ es) (h @ es)"

text \<open>What one pass may do: requests, reads, and writes of the instance table.\<close>

fun reconciler_event :: "event \<Rightarrow> bool" where
  "reconciler_event (EvPut t _ _) = (t = INSTANCES)"
| "reconciler_event (EvDelete _ _ _) = False"
| "reconciler_event (EvS3Put _ _ _ _ _) = False"
| "reconciler_event (EvS3Delete _ _ _) = False"
| "reconciler_event (EvRun _ _) = False"
| "reconciler_event _ = True"

lemma emits_try_put: "emits reconciler_event (try_put_instance E i)"
  unfolding try_put_instance_def by (intro emits_rules) auto

lemma emits_reconciler_audit: "emits reconciler_event (broker_audit E a rid details c tid d md)"
  by (intro emits_rules) auto

lemma emits_finalize: "emits reconciler_event (finalize_provision E c tid m a i)"
  unfolding finalize_provision_def finalize_failed_def finalize_succeeded_def emit_usage_def provision_failed_audit_def provisioned_audit_def
  by (intro emits_rules emits_try_put emits_reconciler_audit) auto

lemma emits_refresh: "emits reconciler_event (refresh_drift E i)"
  unfolding refresh_drift_def broker_diff_def
  by (intro emits_rules emits_try_put; auto split: json.split intro!: emits_rules emits_try_put)

lemma emits_listing: "emits reconciler_event (list_instances E org limit)"
  unfolding list_instances_def Let_def by (intro emits_rules) (auto split: exn.split intro!: emits_rules)

lemma emits_reconcile_instance: "emits reconciler_event (reconcile_instance E refresh i)"
  unfolding reconcile_instance_def by (intro emits_rules emits_refresh emits_try_put emits_finalize)

lemma emits_round: "emits reconciler_event (periodic_round E)"
  unfolding periodic_round_def reconcile_pass_def
  by (intro emits_rules emits_listing emits_reconcile_instance)

lemma periodic_round_total: "\<exists>s es. periodic_round E h = (Inr s, h @ es) \<and> list_all reconciler_event es"
proof -
  obtain s h' where run: "periodic_round E h = (Inr s, h')"
    by (cases "reconcile_pass E True h") (auto simp: periodic_round_def bind_io_def try_io_def ret_def)
  with emitsD [OF emits_round run] show ?thesis by auto
qed

text \<open>Whatever happened before, the loop can do its next round.\<close>

lemma reconciler_goes_on:
  assumes "reconciler_at E n own h"
  shows "\<exists>es. reconciler_at E (Suc n) (own @ es) (h @ es)"
  using periodic_round_total [of E h] reconciler_at.round [OF assms] by blast

lemma reconciler_own_events:
  "reconciler_at E n own h \<Longrightarrow> periodic_enabled E \<and> list_all reconciler_event own"
proof (induction rule: reconciler_at.induct)
  case (round n own h s es)
  obtain s' es' where "periodic_round E h = (Inr s', h @ es')" "list_all reconciler_event es'" using periodic_round_total by blast
  with round show ?case by simp
qed auto

section \<open>Development tokens\<close>

definition dev_claims :: "string \<Rightarrow> string option \<Rightarrow> string list \<Rightarrow> dict \<Rightarrow> dict" where
  "dev_claims sub tid groups extra = merge_dict ([(''sub'', JStr sub), (''groups'', jstrs groups)] @
     (if truthy tid then [(''tid'', JStr (the tid))] else [])) extra"

definition mint_dev_token :: "(dict \<Rightarrow> string \<Rightarrow> string) \<Rightarrow> settings \<Rightarrow> string \<Rightarrow> string option \<Rightarrow> string list \<Rightarrow> dict \<Rightarrow> string" where
  "mint_dev_token encode s sub tid groups extra = encode (dev_claims sub tid groups extra) (cfg_dev_jwt_secret s)"

lemma minted_token_read_back:
  assumes jwt: "env_jwt_decode E (mint_dev_token encode (cfg E) sub tid groups []) (cfg_dev_jwt_secret (cfg E)) = Inr (dev_claims sub tid groups [])"
    and plain: "strip (mint_dev_token encode (cfg E) sub tid groups []) = mint_dev_token encode (cfg E) sub tid groups []"
      "\<not> startswith (mint_dev_token encode (cfg E) sub tid groups []) ''bearer ''"
    and dev: "cfg_oidc_issuer_url (cfg E) = []" "\<not> cfg_require_oidc (cfg E)" and "sub \<noteq> []"
  shows "require_user E (Some (''Bearer '' @ mint_dev_token encode (cfg E) sub tid groups [])) h =
    (Inr \<lparr>tu_principal = sub, tu_tenant_id = (if truthy tid then JStr (the tid) else JNull), tu_groups = map JStr groups,
       tu_raw = dev_claims sub tid groups []\<rparr>, h)"
proof -
  let ?t = "mint_dev_token encode (cfg E) sub tid groups []"
  have "lower ''Bearer '' = ''bearer ''" by code_simp
  then have bearer: "startswith (lower (''Bearer '' @ ?t)) ''bearer ''" by (simp add: startswith_def lower_def)
  have "removeprefix (''Bearer '' @ ?t) ''Bearer '' = ?t" by (rule removeprefix_append)
  moreover have "removeprefix ?t ''bearer '' = ?t" using plain(2) by (simp add: removeprefix_def)
  ultimately have "strip_bearer (''Bearer '' @ ?t) = ?t" using plain(1) by (simp only: strip_bearer_def)
  then have claims: "decode_token E (strip_bearer (''Bearer '' @ ?t)) h = (Inr (dev_claims sub tid groups []), h)"
    using jwt dev by (simp add: decode_token_def catch_io_def lift_res_def ret_def)
  have fields: "jget (dev_claims sub tid groups []) ''sub'' = JStr sub" "jget_or (dev_claims sub tid groups []) ''groups'' (JList []) = jstrs groups"
      "jget (dev_claims sub tid groups []) ''tid'' = (if truthy tid then JStr (the tid) else JNull)"
    by (auto simp: dev_claims_def jget_def jget_or_def)
  have "py_tuple (jstrs groups) = Inr (map JStr groups)" by (cases groups) (auto simp: py_tuple_def jstrs_def)
  then show ?thesis using bearer claims \<open>sub \<noteq> []\<close> fields
    by (simp add: require_user_def bind_io_def user_of_claims_def py_str_def lift_res_def ret_def)
qed

end
