(* ===== verification/RowWrites.thy ===== *)
theory RowWrites
  imports Periodic
begin

text \<open>
  The rows of the instance table, for any set of instances that the operation state machine keeps. The
  locale \<open>instance_family\<close> states what such a set promises: beginning, failing, finishing, refreshing
  and retrying an operation stay inside it. Proved once from that: which rows each route and the
  reconciler write. Theory Platform interprets it on the sound instances, theory RegistryRefinement on
  the instances with the desired state of a registry.
\<close>

section \<open>Writes of the instance table\<close>

text \<open>Rows are written from instances of \<open>S\<close> only; \<open>row_kept\<close>: and none is deleted.\<close>

fun row_write :: "ServiceInstance set \<Rightarrow> event \<Rightarrow> bool" where
  "row_write S (EvPut t row r) = (t = INSTANCES \<longrightarrow> row \<in> instance_item ` S)"
| "row_write S _ = True"

fun row_kept :: "ServiceInstance set \<Rightarrow> event \<Rightarrow> bool" where
  "row_kept S (EvPut t row r) = (t = INSTANCES \<longrightarrow> row \<in> instance_item ` S)"
| "row_kept S (EvDelete t k r) = (t \<noteq> INSTANCES)"
| "row_kept S _ = True"

lemma row_write_quiet: "\<not> writes_table INSTANCES e \<Longrightarrow> row_write S e"
  by (cases e) auto

lemma row_kept_quiet: "\<not> writes_table INSTANCES e \<Longrightarrow> row_kept S e"
  by (cases e) auto

lemma row_kept_write: "row_kept S e \<Longrightarrow> row_write S e"
  by (cases e) auto

lemma row_write_mono: "row_write S e \<Longrightarrow> S \<subseteq> S' \<Longrightarrow> row_write S' e"
  by (cases e) auto

text \<open>A continuation may use what the first program returns.\<close>

lemma emits_bind_returns:
  assumes "emits P m" and "\<And>h a h'. m h = (Inr a, h') \<Longrightarrow> emits P (k a)"
  shows "emits P (bind_io m k)"
  unfolding emits_def
proof
  fix h
  obtain r h1 where m: "m h = (r, h1)" by (cases "m h")
  with assms(1) obtain es where es: "h1 = h @ es" "list_all P es" by (rule emitsD)
  show "\<exists>es. snd (bind_io m k h) = h @ es \<and> list_all P es"
  proof (cases r)
    case (Inr a)
    obtain r2 h2 where k: "k a h1 = (r2, h2)" by (cases "k a h1")
    have "emits P (k a)" using assms(2) m Inr by simp
    from this k obtain es2 where "h2 = h1 @ es2" "list_all P es2" by (rule emitsD)
    with Inr m es k show ?thesis by (auto simp: bind_io_def)
  qed (use m es in \<open>auto simp: bind_io_def\<close>)
qed

lemma emits_map_set: "(\<And>x. x \<in> set xs \<Longrightarrow> emits P (f x)) \<Longrightarrow> emits P (map_io f xs)"
  by (induction xs) (auto intro!: emits_rules)

section \<open>Programs that leave the table alone\<close>

lemma emits_quiet_rows: "emits quiet_event m \<Longrightarrow> emits (row_kept S) m"
  by (erule emits_weaken) (auto intro!: row_kept_quiet simp: quiet_event_def dest: writes_table_is_write)

lemma emits_audit_rows: "emits (row_kept S) (broker_audit E a rid details c tid d md)"
  by (intro emits_rules) auto

lemma emits_usage_rows: "emits (row_kept S) (emit_usage E tid iid st plan)"
  by (rule emits_quiet_rows [OF emits_quiet_usage])

lemma emits_render_rows: "emits (row_kept S) (broker_render E i)"
  by (intro emits_rules) auto

lemma emits_rbac_rows: "emits (row_kept S) (enforce_rbac E c tid action)"
  by (rule emits_weaken [OF enforce_rbac_quiet]) (rule row_kept_quiet)

text \<open>The routes other than provision, update, deprovision and reconcile.\<close>

lemma emits_other_rows:
  "emits (row_kept S) (bind_route E c iid bid req)" "emits (row_kept S) (unbind_route E c iid bid)"
  "emits (row_kept S) (last_operation E c iid)" "emits (row_kept S) (get_usage E c tid)"
  "emits (row_kept S) (list_instances E org limit)" "emits (row_kept S) (list_instances_route E c tenant limit)"
proof -
  show l: "emits (row_kept S) (list_instances E org limit)" for org
    unfolding list_instances_def Let_def by (intro emits_rules) (auto split: exn.split intro!: emits_rules)
  show "emits (row_kept S) (list_instances_route E c tenant limit)"
    unfolding list_instances_route_def by (intro emits_rules emits_rbac_rows l)
  show "emits (row_kept S) (get_usage E c tid)"
    unfolding get_usage_def usage_summary_def list_for_tenant_def Let_def by (intro emits_rules emits_rbac_rows) auto
  show "emits (row_kept S) (bind_route E c iid bid req)" unfolding bind_route_def put_binding_def Let_def
    by (intro emits_rules emits_rbac_rows; simp)
  show "emits (row_kept S) (unbind_route E c iid bid)" unfolding unbind_route_def delete_binding_def Let_def
    by (intro emits_rules emits_rbac_rows; simp)
  show "emits (row_kept S) (last_operation E c iid)" unfolding last_operation_def Let_def
    by (intro emits_rules emits_rbac_rows; simp)
qed

text \<open>The teardown of a renderer leaves the instance table alone.\<close>

definition teardowns_keep_rows :: "renderers \<Rightarrow> bool" where
  "teardowns_keep_rows rs \<longleftrightarrow> (\<forall>st r E i. get_renderer rs st = Some r \<longrightarrow> emits (\<lambda>e. \<not> writes_table INSTANCES e) (rd_teardown r E i))"

text \<open>So a deprovision writes no row, and deletes its own at most.\<close>

definition row_deleted :: "string \<Rightarrow> event \<Rightarrow> bool" where
  "row_deleted iid e \<longleftrightarrow> (writes_table INSTANCES e \<longrightarrow> (\<exists>r. e = EvDelete INSTANCES [iid] r))"

lemma row_deleted_write: "row_deleted iid e \<Longrightarrow> row_write S e"
  by (cases e) (auto simp: row_deleted_def)

lemma emits_deprovision_rows:
  assumes "teardowns_keep_rows rs"
  shows "emits (row_deleted iid) (deprovision rs E c iid)"
proof -
  have "emits (row_deleted iid) (rd_teardown r E i)" if "get_renderer rs st = Some r" for r st i
  proof (rule emits_weaken)
    show "emits (\<lambda>e. \<not> writes_table INSTANCES e) (rd_teardown r E i)" using assms that unfolding teardowns_keep_rows_def by blast
  qed (simp add: row_deleted_def)
  then have "emits (row_deleted iid) (teardown_instance rs E c tid i)" for tid i
    unfolding teardown_instance_def by (intro emits_rules) (auto simp: row_deleted_def)
  moreover have "emits (row_deleted iid) (enforce_rbac E c tid a)" for tid a
    by (rule emits_weaken [OF enforce_rbac_quiet [where t = INSTANCES]]) (simp add: row_deleted_def)
  ultimately show ?thesis
    unfolding deprovision_def deprovision_found_def delete_instance_def by (intro emits_rules) (auto simp: row_deleted_def)
qed

section \<open>Reads of the instance table\<close>

text \<open>Rows are instances of \<open>A\<close> under their own ids.\<close>

definition rows_in :: "ServiceInstance set \<Rightarrow> contents \<Rightarrow> bool" where
  "rows_in A c \<longleftrightarrow> (\<forall>k row. c INSTANCES k = Some row \<longrightarrow> (\<exists>i\<in>A. row = instance_item i \<and> k = [si_instance_id i]))"

lemma rows_in_view: "rows_in A c \<Longrightarrow> list_all (row_write A) es \<Longrightarrow> rows_in A (table_view c es)"
proof (induction es arbitrary: c)
  case (Cons e es)
  have "rows_in A (apply_event e c)"
    using Cons.prems by (cases "(e, c)" rule: apply_event.cases) (auto simp: rows_in_def)
  with Cons show ?case by simp
qed simp

lemma rows_in_mono: "rows_in A c \<Longrightarrow> A \<subseteq> B \<Longrightarrow> rows_in B c"
  unfolding rows_in_def by blast

text \<open>What is documented of a scan or a query: it returns rows that are in the table.\<close>

definition ddb_lists_rows :: "env \<Rightarrow> contents \<Rightarrow> bool" where
  "ddb_lists_rows E c0 \<longleftrightarrow> (\<forall>h t s rows. env_scan E h t s = Inr rows \<longrightarrow> set rows \<subseteq> ran (table_view c0 h t)) \<and>
     (\<forall>h t q rows. env_query E h t q = Inr rows \<longrightarrow> set rows \<subseteq> ran (table_view c0 h t))"

text \<open>The reads of a state whose rows are in \<open>A\<close>.\<close>

definition reads_in :: "env \<Rightarrow> ServiceInstance set \<Rightarrow> event list \<Rightarrow> bool" where
  "reads_in E A h \<longleftrightarrow> (\<forall>iid. wp (get_instance E iid) (\<lambda>r _. set_option r \<subseteq> A) (\<lambda>_ _. True) h) \<and>
     (\<forall>org limit. wp (list_instances E org limit) (\<lambda>is _. set is \<subseteq> A) (\<lambda>_ _. True) h)"

lemma decoded_row:
  assumes "rows_in A c" "Ball A ok_instance" "c INSTANCES k = Some row" "pydantic_exact E" "decode_instance E now row = Inr i"
  shows "i \<in> A \<and> k = [si_instance_id i]"
proof -
  from assms(1,3) obtain j where j: "j \<in> A" "row = instance_item j" "k = [si_instance_id j]" unfolding rows_in_def by blast
  then have "ok_instance j" using assms(2) by blast
  with j assms(4,5) show ?thesis by (simp add: decode_instance_item)
qed

lemma get_instance_in:
  assumes "ddb_reads_back E c0" "pydantic_exact E" "rows_in A (table_view c0 h)" "Ball A ok_instance"
  shows "wp (get_instance E iid) (\<lambda>r _. set_option r \<subseteq> {i\<in>A. si_instance_id i = iid}) (\<lambda>_ _. True) h"
proof -
  have "i \<in> A \<and> si_instance_id i = iid" if "env_get_item E h INSTANCES [iid] = Inr (Some row)" "decode_instance E now row = Inr i" for row now i
    using decoded_row [OF assms(3,4) _ assms(2) that(2), of "[iid]"] assms(1) that(1) unfolding ddb_reads_back_def by (metis list.inject)
  then show ?thesis unfolding get_instance_def by (auto simp: wp_simps split: sum.split option.split)
qed

lemma collect_decoded:
  "collect_instances dec org limit items rows = Inr is \<Longrightarrow> i \<in> set is \<Longrightarrow> i \<in> set items \<or> (\<exists>row\<in>set rows. dec row = Inr i)"
proof (induction rows arbitrary: items)
  case (Cons row rows)
  show ?case
  proof (cases "is_text (it_payload row)")
    case True
    with Cons.prems obtain j where j: "dec row = Inr j" by (auto split: sum.splits)
    with True Cons.prems Cons.IH [of items] Cons.IH [of "items @ [j]"] show ?thesis by (auto split: if_splits)
  qed (use Cons in auto)
qed simp

lemma list_instances_in:
  assumes "ddb_lists_rows E c0" "pydantic_exact E" and inv: "rows_in A (table_view c0 h)" "Ball A ok_instance"
  shows "wp (list_instances E org limit) (\<lambda>is _. set is \<subseteq> A) (\<lambda>_ _. True) h"
proof -
  have collected: "x \<in> A" if "collect_instances (decode_instance E now) g limit [] rows = Inr is" "x \<in> set is"
      "set rows \<subseteq> ran (table_view c0 h INSTANCES)" for rows now "is" g x
    using collect_decoded [OF that(1,2)] that(3) decoded_row [OF inv _ assms(2)] by (fastforce simp: ran_def)
  have scanned: "x \<in> A" if "collect_instances (decode_instance E now) g limit [] rows = Inr is"
      "env_scan E h' INSTANCES s = Inr rows" "x \<in> set is" "table_view c0 h' = table_view c0 h" for rows now "is" g x h' s
    using collected [OF that(1,3)] assms(1) that(2,4) unfolding ddb_lists_rows_def by metis
  have queried: "x \<in> A" if "collect_instances (decode_instance E now) g limit [] rows = Inr is"
      "env_query E h INSTANCES q = Inr rows" "x \<in> set is" for rows now "is" g x q
    using collected [OF that(1,3)] assms(1) that(2) unfolding ddb_lists_rows_def by metis
  show ?thesis
    unfolding list_instances_def Let_def
    by (cases org) (auto simp: wp_simps elim: scanned queried split: sum.split exn.split)
qed

lemma reads_inI:
  assumes "ddb_reads_back E c0" "ddb_lists_rows E c0" "pydantic_exact E" "rows_in A (table_view c0 h)" "Ball A ok_instance"
  shows "reads_in E A h"
proof -
  have "wp (get_instance E iid) (\<lambda>r _. set_option r \<subseteq> A) (\<lambda>_ _. True) h" for iid
    by (rule wp_mono [OF get_instance_in [OF assms(1,3,4,5)]]) auto
  then show ?thesis unfolding reads_in_def using list_instances_in [OF assms(2-5)] by simp
qed

section \<open>Families of instances\<close>

text \<open>A program that only does \<open>P\<close>, started with the history \<open>h\<close>.\<close>

abbreviation only_does :: "(event \<Rightarrow> bool) \<Rightarrow> 'a prog \<Rightarrow> event list \<Rightarrow> bool" where
  "only_does P m h \<equiv> guarded_from (\<lambda>_. False) (\<lambda>e. \<not> P e) m h"

lemma only_doesI: "emits P m \<Longrightarrow> only_does P m h"
  by (rule guarded_from_quiet) simp

lemma only_doesD:
  assumes "only_does P m h" "m h = (r, h')"
  obtains es where "h' = h @ es" "list_all P es"
proof -
  from assms obtain es where es: "h' = h @ es" "\<And>pre e post. es = pre @ e # post \<Longrightarrow> P e"
    unfolding guarded_from_def by auto
  then have "list_all P es" by (metis in_set_conv_decomp list_all_iff)
  with es that show ?thesis by blast
qed

lemma only_does_weaken: "only_does P m h \<Longrightarrow> (\<And>e. P e \<Longrightarrow> Q e) \<Longrightarrow> only_does Q m h"
  unfolding guarded_from_def by blast

lemma only_does_seq: "only_does P m h \<Longrightarrow> only_does P (seq_io m (ret a)) h"
  by (rule guarded_from_seq) (auto intro!: wp_of_run only_doesI emits_rules)

lemma guarded_from_try: "guarded_from G W m h \<Longrightarrow> guarded_from G W (try_io m) h"
  by (auto simp: guarded_from_def try_io_def split: prod.split)

lemma writes_get: "only_does (row_kept S) (get_instance E iid) h"
  by (intro only_doesI emits_rules) simp

text \<open>\<open>B\<close>: the instances an operation may start from, \<open>S\<close>: those that are stored.\<close>

locale instance_family =
  fixes B S :: "ServiceInstance set"
  assumes stored_based: "i \<in> S \<Longrightarrow> i \<in> B"
    and stamped: "i \<in> S \<Longrightarrow> i\<lparr>si_updated_at := now\<rparr> \<in> S"
    and begun: "i \<in> B \<Longrightarrow> begin_operation op i \<in> S"
    and failed: "i \<in> B \<Longrightarrow> mark_operation_failed now reason step (i\<lparr>si_status := status_failed\<rparr>) \<in> S"
    and succeeded: "i \<in> B \<Longrightarrow> mark_operation_succeeded now artifact (i\<lparr>si_status := status_succeeded\<rparr>) = Inr j \<Longrightarrow> j \<in> S"
    and refreshed: "i \<in> S \<Longrightarrow> si_status i = status_succeeded \<Longrightarrow> i\<lparr>si_drift_status := d, si_last_reconciled_at := l\<rparr> \<in> S"
    and retried: "i \<in> S \<Longrightarrow> i\<lparr>si_reconcile_attempts := n\<rparr> \<in> B"
begin

lemma put_rows: "i \<in> S \<Longrightarrow> emits (row_kept S) (put_instance E i)"
  using stamped
  by (auto simp: emits_def put_instance_def bind_io_def now_io_def seq_io_def put_item_def Let_def split: sum.split)

lemma try_put_rows: "i \<in> S \<Longrightarrow> emits (row_kept S) (try_put_instance E i)"
  unfolding try_put_instance_def by (intro emits_rules put_rows) (auto intro!: emits_rules)

lemma finalize_rows:
  assumes "i \<in> B"
  shows "emits (row_kept S) (finalize_provision E c tid metered action i)"
proof -
  have failed: "emits (row_kept S) (finalize_failed E c tid x j)" if "j \<in> B" for x j
    unfolding finalize_failed_def provision_failed_audit_def
    by (intro emits_rules try_put_rows failed that) auto
  have succeeded: "emits (row_kept S) (finalize_succeeded E c tid metered action a j)" if "j \<in> B" for a j
    unfolding finalize_succeeded_def provisioned_audit_def
    by (intro emits_rules try_put_rows emits_usage_rows) (auto intro: succeeded that)
  have "(if si_operation_state i = None then begin_operation ''provision'' i else i) \<in> B"
    using assms stored_based [OF begun [OF assms]] by simp
  then show ?thesis unfolding finalize_provision_def
    by (intro emits_rules failed succeeded) auto
qed

text \<open>After a write the program goes on with the stamped instance.\<close>

lemma put_then_rows:
  assumes "i \<in> S" "\<And>j. j \<in> S \<Longrightarrow> emits (row_kept S) (k j)"
  shows "emits (row_kept S) (bind_io (put_instance E i) k)"
  using assms stamped by (auto intro!: emits_bind_returns [OF put_rows] simp: put_instance_run)

lemma catch_put_then_rows:
  assumes "i \<in> S" "\<And>j. j \<in> S \<Longrightarrow> emits (row_kept S) (k j)"
  shows "emits (row_kept S) (bind_io (catch_io (put_instance E i) (\<lambda>x. throw (f x))) k)"
proof (rule emits_bind_returns)
  fix h j h' assume "catch_io (put_instance E i) (\<lambda>x. throw (f x)) h = (Inr j, h')"
  then have "put_instance E i h = (Inr j, h')" by (auto simp: catch_io_def split: prod.splits sum.splits)
  with assms stamped show "emits (row_kept S) (k j)" by (simp add: put_instance_run)
qed (intro emits_rules put_rows assms(1))

lemma try_put_then_rows:
  assumes "i \<in> S" "\<And>err j. j \<in> S \<Longrightarrow> emits (row_kept S) (k (err, j))"
  shows "emits (row_kept S) (bind_io (try_put_instance E i) k)"
  using assms stamped by (auto intro!: emits_bind_returns [OF try_put_rows] dest!: try_put_instance_same)

lemma provision_rows:
  assumes "\<And>now. new_instance now iid req \<in> B"
  shows "emits (row_kept S) (provision E c iid req ai)"
proof -
  have "emits (row_kept S) (provision_admitted E c iid req ai tid)" for tid
    unfolding provision_admitted_def provision_answer_def
    by (rule emits_bind [OF emits_now], rule catch_put_then_rows [OF begun [OF assms]])
       (intro emits_rules finalize_rows stored_based)
  moreover have "emits (row_kept S) (provision_gates E c iid req)"
    by (rule emits_quiet_rows [OF emits_provision_gates])
  ultimately show ?thesis unfolding provision_def by (intro emits_rules) auto
qed

lemma update_render_rows:
  assumes "i \<in> B"
  shows "emits (row_kept S) (update_render E c tid i)"
  unfolding update_render_def
  by (intro emits_rules emits_bind_returns [where m = "lift_res r" for r] put_rows failed assms)
     (auto intro: succeeded [OF assms])

lemma update_rows:
  assumes "updated_instance req i \<in> S"
  shows "emits (row_kept S) (update_found E c iid req i)"
  unfolding update_found_def Let_def
  by (rule emits_bind [OF emits_resolve_tenant_id], rule emits_seq [OF emits_rbac_rows],
      rule emits_seq [OF emits_quiet_rows [OF emits_evaluate_policy]], rule put_then_rows [OF assms])
     (intro emits_rules update_render_rows stored_based)

lemma refresh_rows:
  assumes "i \<in> S" "si_status i = status_succeeded"
  shows "emits (row_kept S) (refresh_drift E i)"
  unfolding refresh_drift_def
  by (intro emits_rules emits_quiet_rows [OF emits_broker_diff])
     (auto split: json.split intro!: emits_rules try_put_rows refreshed assms)

lemma refresh_returns:
  assumes "refresh_drift E i h = (Inr j, h')" "i \<in> S" "si_status i = status_succeeded"
  shows "j \<in> S"
  using stamped [OF refreshed [OF assms(2,3)]] refresh_drift_run [OF assms(1)] unfolding same_but_drift_def by metis

lemma reconcile_rows:
  assumes "i \<in> S"
  shows "emits (row_kept S) (reconcile_instance E refresh i)"
proof -
  have start: "emits (row_kept S) (if refresh \<and> si_status i = status_succeeded then refresh_drift E i else ret i)"
    using assms by (auto intro: refresh_rows emits_rules)
  have "j \<in> S" if "(if refresh \<and> si_status i = status_succeeded then refresh_drift E i else ret i) h = (Inr j, h')" for h j h'
    using that assms refresh_returns by (auto split: if_splits)
  then show ?thesis unfolding reconcile_instance_def Let_def
    by (intro emits_bind_returns [OF start] emits_if emits_ret try_put_then_rows begun retried)
       (auto intro!: emits_rules finalize_rows stored_based)
qed

text \<open>The reconciler works on what it reads.\<close>

lemma writes_each:
  "set is \<subseteq> S \<Longrightarrow> only_does (row_kept S) (bind_io (map_io (reconcile_instance E refresh) is) (\<lambda>rs. ret (f rs))) h"
  by (intro only_doesI emits_bind emits_map_set reconcile_rows emits_ret) blast

lemma reconcile_pass_writes:
  assumes "reads_in E S h"
  shows "only_does (row_kept S) (reconcile_pass E refresh) h"
  unfolding reconcile_pass_def
proof (rule guarded_from_bind)
  have list: "wp (list_instances E None limit) (\<lambda>is _. set is \<subseteq> S) (\<lambda>_ _. True) h" for limit
    using assms unfolding reads_in_def by blast
  show "wp (catch_io (bind_io (list_instances E None (cfg_reconcile_batch_limit (cfg E))) (\<lambda>is. ret (Some is)))
        (\<lambda>x. if is_ClientError x then ret None else throw x))
      (\<lambda>a h'. only_does (row_kept S) (case a of None \<Rightarrow> ret (0, 0) | Some is \<Rightarrow>
         bind_io (map_io (reconcile_instance E refresh) is) (\<lambda>rs. ret (length is, length (filter (is_change \<circ> fst) rs)))) h') (\<lambda>_ _. True) h"
    unfolding wp_simps by (rule wp_mono [OF list]) (auto intro: writes_each only_doesI emits_ret)
qed (intro only_doesI emits_rules emits_other_rows)

lemma periodic_round_writes: "reads_in E S h \<Longrightarrow> only_does (row_kept S) (periodic_round E) h"
  unfolding periodic_round_def
  by (intro guarded_from_bind guarded_from_try reconcile_pass_writes wp_of_run only_doesI emits_rules) simp_all

lemma reconcile_route_writes:
  assumes "reads_in E S h"
  shows "only_does (row_kept S) (reconcile_route E c iid limit) h"
proof -
  let ?read = "if truthy iid then bind_io (get_instance E (the iid)) (\<lambda>i. ret (case i of Some x \<Rightarrow> [x] | None \<Rightarrow> []))
         else list_instances E None limit"
  have "wp (get_instance E k) (\<lambda>r. wp (ret (case r of Some x \<Rightarrow> [x] | None \<Rightarrow> [])) (\<lambda>is _. set is \<subseteq> S) (\<lambda>_ _. True)) (\<lambda>_ _. True) h" for k
  proof (rule wp_mono)
    show "wp (get_instance E k) (\<lambda>r _. set_option r \<subseteq> S) (\<lambda>_ _. True) h" using assms unfolding reads_in_def by blast
  qed (auto simp: wp_simps split: option.split)
  then have "wp ?read (\<lambda>is _. set is \<subseteq> S) (\<lambda>_ _. True) h"
    using assms unfolding reads_in_def by (auto simp: wp_bind)
  then have "wp ?read (\<lambda>is h'. only_does (row_kept S) (bind_io (map_io (reconcile_instance E False) is) (\<lambda>rs.
      ret (length is, length (filter (is_change \<circ> fst) rs), map fst rs))) h') (\<lambda>_ _. True) h"
    by (rule wp_mono) (auto intro: writes_each)
  moreover have "only_does (row_kept S) ?read h" by (intro only_doesI emits_rules emits_other_rows) simp
  ultimately show ?thesis unfolding reconcile_route_def
    by (auto intro: guarded_from_bind only_doesI emits_rules)
qed

end

end
