(* ===== verification/Platform.thy ===== *)
theory Platform
  imports RowWrites
begin

text \<open>
  The broker over its whole life: requests, deferred provisioning tasks, rounds of the periodic
  reconciler, restarts that lose the deferred tasks, and anything else that happens to other tables, in
  any order. The states are reached by the step relation \<open>platform_at\<close>: the requests handled so far, the
  deferred tasks that have not run, and the trace. Shown by rule induction: every row of the instance
  table is a sound instance under its own id that a cleared provision request asked for. And a step that
  the code allows and should not: a deferred task writes the instance it started with, also when that
  was deleted or updated in the meantime.
\<close>

section \<open>Requests\<close>

datatype platform_request =
    ProvisionCall Caller string ProvisionRequest bool
  | UpdateCall Caller string UpdateRequest
  | DeprovisionCall Caller string
  | BindCall Caller string string BindRequest
  | UnbindCall Caller string string
  | LastOperationCall Caller string
  | UsageCall Caller string
  | ListCall Caller "string option" int
  | ReconcileCall Caller "string option" int
  | PeriodicRound

text \<open>What is left to do after the answer.\<close>

type_synonym deferred = "Caller \<times> string \<times> ServiceInstance"

definition deferred_of :: "Caller \<Rightarrow> provision_response \<Rightarrow> deferred list" where
  "deferred_of c resp = (case resp of Accepted _ i tid \<Rightarrow> [(c, tid, i)] | _ \<Rightarrow> [])"

fun handle :: "renderers \<Rightarrow> env \<Rightarrow> platform_request \<Rightarrow> deferred list prog" where
  "handle rs E (ProvisionCall c iid req ai) = bind_io (provision E c iid req ai) (\<lambda>resp. ret (deferred_of c resp))"
| "handle rs E (UpdateCall c iid req) = seq_io (update_route E c iid req) (ret [])"
| "handle rs E (DeprovisionCall c iid) = seq_io (deprovision rs E c iid) (ret [])"
| "handle rs E (BindCall c iid bid req) = seq_io (bind_route E c iid bid req) (ret [])"
| "handle rs E (UnbindCall c iid bid) = seq_io (unbind_route E c iid bid) (ret [])"
| "handle rs E (LastOperationCall c iid) = seq_io (last_operation E c iid) (ret [])"
| "handle rs E (UsageCall c tid) = seq_io (get_usage E c tid) (ret [])"
| "handle rs E (ListCall c tenant limit) = seq_io (list_instances_route E c tenant limit) (ret [])"
| "handle rs E (ReconcileCall c iid limit) = seq_io (reconcile_route E c iid limit) (ret [])"
| "handle rs E PeriodicRound = seq_io (periodic_round E) (ret [])"

text \<open>The bodies are validated before a route runs.\<close>

fun valid_request :: "platform_request \<Rightarrow> bool" where
  "valid_request (ProvisionCall c iid req ai) = wf_params (pr_parameters req)"
| "valid_request (UpdateCall c iid req) = (case ur_parameters req of Some p \<Rightarrow> wf_params p | None \<Rightarrow> True)"
| "valid_request _ = True"

text \<open>Each request runs under its own trace id.\<close>

abbreviation traced :: "env \<Rightarrow> string option \<Rightarrow> env" where
  "traced E tr \<equiv> E\<lparr>env_trace_id := tr\<rparr>"

inductive platform_at :: "renderers \<Rightarrow> env \<Rightarrow> (string option \<times> platform_request) list \<Rightarrow>
    (string option \<times> deferred) list \<Rightarrow> event list \<Rightarrow> bool" for rs E where
  idle: "platform_at rs E [] [] []"
| answered: "platform_at rs E ps ts h \<Longrightarrow> valid_request p \<Longrightarrow> handle rs (traced E tr) p h = (Inr us, h') \<Longrightarrow>
    platform_at rs E (ps @ [(tr, p)]) (ts @ map (Pair tr) us) h'"
| refused: "platform_at rs E ps ts h \<Longrightarrow> valid_request p \<Longrightarrow> handle rs (traced E tr) p h = (Inl x, h') \<Longrightarrow>
    platform_at rs E (ps @ [(tr, p)]) ts h'"
| deferred: "platform_at rs E ps (ts @ (tr, c, tid, i) # us) h \<Longrightarrow> finalize_provision_async (traced E tr) c tid i h = (r, h') \<Longrightarrow>
    platform_at rs E ps (ts @ us) h'"
| restarted: "platform_at rs E ps ts h \<Longrightarrow> platform_at rs E ps [] h"
| elsewhere: "platform_at rs E ps ts h \<Longrightarrow> list_all (\<lambda>e. \<not> writes_table INSTANCES e) es \<Longrightarrow> platform_at rs E ps ts (h @ es)"

section \<open>Sound instances\<close>

text \<open>The fields of an instance agree: a finished operation has the status of its outcome, a success has
  an applied version and no reason, a failure is marked as drifted so that it is reconciled.\<close>

fun outcome_agrees :: "OperationState \<Rightarrow> ServiceInstance \<Rightarrow> bool" where
  "outcome_agrees in_progress i = (si_operation_reason i = [] \<and> si_failed_step_kind i = None)"
| "outcome_agrees op_succeeded i = (si_status i = status_succeeded \<and> si_applied_version i \<noteq> None \<and>
     si_operation_reason i = [] \<and> si_failed_step_kind i = None)"
| "outcome_agrees op_failed i = (si_status i = status_failed \<and> si_drift_status i = drifted)"

definition based :: "string set \<Rightarrow> ServiceInstance \<Rightarrow> bool" where
  "based ids i \<longleftrightarrow> ok_instance i \<and> 1 \<le> si_version i \<and> si_instance_id i \<in> ids"

definition sound_instance :: "ServiceInstance \<Rightarrow> bool" where
  "sound_instance i \<longleftrightarrow> ok_instance i \<and> 1 \<le> si_version i \<and> (\<exists>st. si_operation_state i = Some st \<and> outcome_agrees st i)"

definition sound_at :: "string set \<Rightarrow> ServiceInstance set" where
  "sound_at ids = {i. sound_instance i \<and> si_instance_id i \<in> ids}"

lemma sound_at_iff: "i \<in> sound_at ids \<longleftrightarrow> based ids i \<and> (\<exists>st. si_operation_state i = Some st \<and> outcome_agrees st i)"
  by (auto simp: sound_at_def sound_instance_def based_def)

lemma stamp_sound [simp]: "i\<lparr>si_updated_at := now\<rparr> \<in> sound_at ids \<longleftrightarrow> i \<in> sound_at ids"
  unfolding sound_at_iff
proof -
  have "outcome_agrees st (i\<lparr>si_updated_at := now\<rparr>) = outcome_agrees st i" for st by (cases st) simp_all
  then show "(based ids (i\<lparr>si_updated_at := now\<rparr>) \<and> (\<exists>st. si_operation_state (i\<lparr>si_updated_at := now\<rparr>) = Some st \<and>
      outcome_agrees st (i\<lparr>si_updated_at := now\<rparr>))) = (based ids i \<and> (\<exists>st. si_operation_state i = Some st \<and> outcome_agrees st i))"
    by (simp add: based_def ok_instance_def)
qed

lemma begin_sound: "based ids i \<Longrightarrow> begin_operation op i \<in> sound_at ids"
  by (simp add: sound_at_iff based_def ok_instance_def begin_operation_def)

lemma failed_sound: "based ids i \<Longrightarrow> mark_operation_failed now reason step (i\<lparr>si_status := status_failed\<rparr>) \<in> sound_at ids"
  by (simp add: sound_at_iff based_def ok_instance_def mark_operation_failed_def)

lemma succeeded_sound:
  "based ids i \<Longrightarrow> mark_operation_succeeded now artifact (i\<lparr>si_status := status_succeeded\<rparr>) = Inr j \<Longrightarrow> j \<in> sound_at ids"
  by (auto simp: sound_at_iff based_def ok_instance_def mark_operation_succeeded_def split: json.splits sum.splits)

lemma new_based: "wf_params (pr_parameters req) \<Longrightarrow> based {iid} (new_instance now iid req)"
  by (simp add: based_def ok_instance_def new_instance_def)

lemma sound_based: "i \<in> sound_at ids \<Longrightarrow> based ids i"
  by (simp add: sound_at_iff)

lemma refresh_sound:
  assumes "i \<in> sound_at ids" "si_status i = status_succeeded"
  shows "i\<lparr>si_drift_status := d, si_last_reconciled_at := l\<rparr> \<in> sound_at ids"
proof -
  obtain st where st: "si_operation_state i = Some st" "outcome_agrees st i" "based ids i" using assms(1) by (auto simp: sound_at_iff)
  with assms(2) have "outcome_agrees st (i\<lparr>si_drift_status := d, si_last_reconciled_at := l\<rparr>)" by (cases st) auto
  with st show ?thesis by (simp add: sound_at_iff based_def ok_instance_def)
qed

text \<open>The operation state machine keeps soundness.\<close>

interpretation sound: instance_family "Collect (based ids)" "sound_at ids" for ids
proof
  show "i\<lparr>si_reconcile_attempts := n\<rparr> \<in> Collect (based ids)" if "i \<in> sound_at ids" for i n
    using sound_based [OF that] by (simp add: based_def ok_instance_def)
qed (auto intro: sound_based begin_sound failed_sound succeeded_sound refresh_sound)

lemma updated_sound:
  assumes "based ids i" "case ur_parameters req of Some p \<Rightarrow> wf_params p | None \<Rightarrow> True"
  shows "updated_instance req i \<in> sound_at ids"
  unfolding updated_instance_def
  using assms by (intro begin_sound) (auto simp: based_def ok_instance_def split: option.splits)

lemma sound_ok: "Ball (sound_at ids) ok_instance"
  by (simp add: sound_at_iff based_def)

section \<open>The invariant\<close>

definition admitted :: "env \<Rightarrow> (string option \<times> platform_request) list \<Rightarrow> event list \<Rightarrow> string set" where
  "admitted E ps h = {iid. \<exists>tr c req ai. (tr, ProvisionCall c iid req ai) \<in> set ps \<and> provision_cleared (traced E tr) c req h}"

lemma admitted_mono: "set ps \<subseteq> set ps' \<Longrightarrow> admitted E ps h \<subseteq> admitted E ps' (h @ es)"
  unfolding admitted_def using provision_cleared_append by blast

lemma sound_at_mono: "ids \<subseteq> ids' \<Longrightarrow> sound_at ids \<subseteq> sound_at ids'"
  by (auto simp: sound_at_def)

lemma update_route_writes:
  assumes "reads_in E (sound_at ids) h" "case ur_parameters req of Some q \<Rightarrow> wf_params q | None \<Rightarrow> True"
  shows "only_does (row_kept (sound_at ids)) (update_route E c iid req) h"
  unfolding update_route_def
proof (rule guarded_from_bind [OF writes_get])
  have found: "only_does (row_kept (sound_at ids)) (case r of None \<Rightarrow> throw (HTTPException 404 (JStr ''instance not found'')) | Some i \<Rightarrow> update_found E c iid req i) h'"
    if "set_option r \<subseteq> sound_at ids" for r h'
    using that by (cases r) (auto intro!: only_doesI sound.update_rows updated_sound emits_rules assms(2) sound_based)
  show "wp (get_instance E iid) (\<lambda>r h'. only_does (row_kept (sound_at ids)) (case r of None \<Rightarrow> throw (HTTPException 404 (JStr ''instance not found''))
      | Some i \<Rightarrow> update_found E c iid req i) h') (\<lambda>_ _. True) h"
    using assms(1) unfolding reads_in_def by (auto intro: wp_mono [OF _ found])
qed

text \<open>A request other than a provision writes rows of ids that are in the table already.\<close>

lemma handle_writes:
  assumes reads: "reads_in E (sound_at ids) h" and "teardowns_keep_rows rs" "valid_request p" "\<And>c iid req ai. p \<noteq> ProvisionCall c iid req ai"
  shows "only_does (row_write (sound_at ids)) (handle rs E p) h"
proof -
  note kept = only_does_weaken [OF _ row_kept_write]
  have "only_does (row_write (sound_at ids)) (deprovision rs E c iid) h" for c iid
    by (rule only_doesI [OF emits_weaken [OF emits_deprovision_rows [OF assms(2)] row_deleted_write]])
  with assms(3,4) show ?thesis
    by (cases p) (auto intro!: only_does_seq kept [OF update_route_writes [OF reads]] kept [OF sound.reconcile_route_writes [OF reads]]
        kept [OF sound.periodic_round_writes [OF reads]] emits_other_rows [THEN only_doesI, THEN kept])
qed

text \<open>A provision writes rows of its own id, and only once it is cleared.\<close>

lemma provision_writes:
  assumes "provision (traced E tr) c iid req ai h = (r, h')" "wf_params (pr_parameters req)"
  shows "\<exists>es. h' = h @ es \<and> list_all (row_write (sound_at (admitted E (ps @ [(tr, ProvisionCall c iid req ai)]) h'))) es"
proof -
  obtain es where es: "h' = h @ es" "list_all (row_write (sound_at {iid})) es"
    using emitsD [OF sound.provision_rows [of iid req "{iid}"] assms(1)] new_based [OF assms(2)] row_kept_write
    by (metis list_all_iff mem_Collect_eq)
  have cleared: "iid \<in> admitted E (ps @ [(tr, ProvisionCall c iid req ai)]) h'" if "e \<in> set es" "writes_table INSTANCES e" for e
  proof -
    from that(1) obtain pre post where "es = pre @ e # post" by (meson split_list)
    with provision_guarded [of "traced E tr" c req iid ai h] assms(1) es(1) that(2) have "provision_cleared (traced E tr) c req (h @ pre)"
      unfolding guarded_from_def by auto
    then have "provision_cleared (traced E tr) c req h'"
      using provision_cleared_append [of "traced E tr" c req "h @ pre" "e # post"] es(1) \<open>es = pre @ e # post\<close> by simp
    then show ?thesis unfolding admitted_def by auto
  qed
  have "row_write (sound_at (admitted E (ps @ [(tr, ProvisionCall c iid req ai)]) h')) e" if "e \<in> set es" for e
  proof (cases "writes_table INSTANCES e")
    case True
    have "sound_at {iid} \<subseteq> sound_at (admitted E (ps @ [(tr, ProvisionCall c iid req ai)]) h')"
      using cleared [OF that True] by (intro sound_at_mono) simp
    moreover have "row_write (sound_at {iid}) e" using es(2) that by (simp add: list_all_iff)
    ultimately show ?thesis by (rule row_write_mono [rotated])
  qed (rule row_write_quiet)
  with es(1) show ?thesis by (auto simp: list_all_iff)
qed

definition platform_inv :: "env \<Rightarrow> contents \<Rightarrow> (string option \<times> platform_request) list \<Rightarrow> (string option \<times> deferred) list \<Rightarrow> event list \<Rightarrow> bool" where
  "platform_inv E c0 ps ts h \<longleftrightarrow> rows_in (sound_at (admitted E ps h)) (table_view c0 h) \<and>
     (\<forall>(tr, c, tid, i)\<in>set ts. based (admitted E ps h) i)"

lemma based_mono: "based ids i \<Longrightarrow> ids \<subseteq> ids' \<Longrightarrow> based ids' i"
  by (auto simp: based_def)

lemma platform_inv_step:
  assumes "platform_inv E c0 ps ts h" "set ps \<subseteq> set ps'" "list_all (row_write (sound_at (admitted E ps' (h @ es)))) es"
    and "\<forall>(tr, c, tid, i)\<in>set ts' - set ts. based (admitted E ps' (h @ es)) i"
  shows "platform_inv E c0 ps' ts' (h @ es)"
proof -
  have mono: "admitted E ps h \<subseteq> admitted E ps' (h @ es)" by (rule admitted_mono [OF assms(2)])
  have "rows_in (sound_at (admitted E ps' (h @ es))) (table_view c0 h)"
    using assms(1) sound_at_mono [OF mono] unfolding platform_inv_def by (blast intro: rows_in_mono)
  then have "rows_in (sound_at (admitted E ps' (h @ es))) (table_view c0 (h @ es))" using rows_in_view assms(3) by simp
  moreover have "\<forall>(tr, c, tid, i)\<in>set ts'. based (admitted E ps' (h @ es)) i"
    using assms(1,4) based_mono [OF _ mono] unfolding platform_inv_def by fast
  ultimately show ?thesis unfolding platform_inv_def ..
qed

lemma traced_laws [simp]:
  "ddb_reads_back (traced E tr) c0 = ddb_reads_back E c0" "ddb_lists_rows (traced E tr) c0 = ddb_lists_rows E c0"
  "pydantic_exact (traced E tr) = pydantic_exact E"
  by (simp_all add: ddb_reads_back_def ddb_lists_rows_def pydantic_exact_def)

lemma provision_keeps:
  assumes inv: "platform_inv E c0 ps ts h" and wf: "wf_params (pr_parameters req)"
    and run: "provision (traced E tr) c iid req ai h = (q, h')"
  shows "platform_inv E c0 (ps @ [(tr, ProvisionCall c iid req ai)]) (ts @ (case q of Inr resp \<Rightarrow> map (Pair tr) (deferred_of c resp) | Inl _ \<Rightarrow> [])) h'"
proof -
  let ?ps = "ps @ [(tr, ProvisionCall c iid req ai)]" and ?us = "case q of Inr resp \<Rightarrow> map (Pair tr) (deferred_of c resp) | Inl _ \<Rightarrow> []"
  obtain es where es: "h' = h @ es" "list_all (row_write (sound_at (admitted E ?ps h'))) es"
    using provision_writes [OF run wf] by blast
  have new: "based (admitted E ?ps h') i" if "q = Inr (Accepted body i tid)" for body i tid
  proof -
    have st: "provision_started (traced E tr) c iid req h tid i h'" using provision_accepted(2) run that by blast
    have "iid \<in> admitted E ?ps h'" using provision_started_cleared [OF st] unfolding admitted_def by auto
    with provision_started_instance [OF st] wf show ?thesis by (simp add: based_def ok_instance_def)
  qed
  then have "\<forall>(tr', c', tid, i)\<in>set ?us. based (admitted E ?ps h') i"
    by (cases q) (auto simp: deferred_of_def split: provision_response.splits)
  then have "\<forall>(tr', c', tid, i)\<in>set (ts @ ?us) - set ts. based (admitted E ?ps (h @ es)) i"
    unfolding es(1) [symmetric] set_append by blast
  from platform_inv_step [OF inv _ es(2) [unfolded es(1)] this] show ?thesis unfolding es(1) by auto
qed

lemma rows_mono:
  assumes "list_all (row_write (sound_at (admitted E ps h))) es" "set ps \<subseteq> set ps'"
  shows "list_all (row_write (sound_at (admitted E ps' (h @ es)))) es"
  using assms(1) row_write_mono sound_at_mono [OF admitted_mono [OF assms(2)]] by (auto simp: list_all_iff)

lemma handle_keeps:
  assumes laws: "ddb_reads_back E c0" "ddb_lists_rows E c0" "pydantic_exact E" "teardowns_keep_rows rs"
    and inv: "platform_inv E c0 ps ts h" and p: "valid_request p" and run: "handle rs (traced E tr) p h = (r, h')"
  shows "platform_inv E c0 (ps @ [(tr, p)]) (ts @ (case r of Inr us \<Rightarrow> map (Pair tr) us | Inl _ \<Rightarrow> [])) h'"
proof (cases "\<exists>c iid req ai. p = ProvisionCall c iid req ai")
  case True
  then obtain c iid req ai where pc: "p = ProvisionCall c iid req ai" by blast
  obtain q where q: "provision (traced E tr) c iid req ai h = (q, h')" "r = map_sum id (deferred_of c) q"
    using run unfolding pc by (auto simp: bind_io_def split: prod.splits sum.splits)
  show ?thesis using provision_keeps [OF inv _ q(1)] p unfolding pc q(2) by (cases q) auto
next
  case False
  have "reads_in (traced E tr) (sound_at (admitted E ps h)) h"
    using reads_inI [of "traced E tr", OF _ _ _ _ sound_ok] laws inv unfolding platform_inv_def by simp
  then have "only_does (row_write (sound_at (admitted E ps h))) (handle rs (traced E tr) p) h" using handle_writes laws(4) p False by blast
  from only_doesD [OF this run] obtain es where es: "h' = h @ es" "list_all (row_write (sound_at (admitted E ps h))) es" .
  have "(case r of Inr us \<Rightarrow> map (Pair tr) us | Inl _ \<Rightarrow> []) = []"
    using run False by (cases p) (auto simp: seq_io_def bind_io_def split: prod.splits sum.splits)
  then show ?thesis unfolding es(1) using platform_inv_step [OF inv _ rows_mono [OF es(2)], of "ps @ [(tr, p)]" ts] by auto
qed

lemma platform_at_inv:
  assumes laws: "ddb_reads_back E c0" "ddb_lists_rows E c0" "pydantic_exact E" "teardowns_keep_rows rs"
    and empty: "c0 INSTANCES = Map.empty"
  shows "platform_at rs E ps ts h \<Longrightarrow> platform_inv E c0 ps ts h"
proof (induction rule: platform_at.induct)
  case idle
  show ?case using empty by (simp add: platform_inv_def rows_in_def)
next
  case (answered ps ts h p tr us h')
  from handle_keeps [OF laws answered.IH answered.hyps(2,3)] show ?case by simp
next
  case (refused ps ts h p tr x h')
  from handle_keeps [OF laws refused.IH refused.hyps(2,3)] show ?case by simp
next
  case (deferred ps ts tr c tid i us h r h')
  have i: "based (admitted E ps h) i" using deferred.IH unfolding platform_inv_def by auto
  have "emits (row_write (sound_at (admitted E ps h))) (finalize_provision_async (traced E tr) c tid i)"
    unfolding finalize_provision_async_def
    by (rule emits_weaken [where P = "row_kept (sound_at (admitted E ps h))"])
       (use i in \<open>auto intro!: emits_rules sound.finalize_rows intro: row_kept_write\<close>)
  then obtain es where es: "h' = h @ es" "list_all (row_write (sound_at (admitted E ps h))) es"
    using deferred.hyps(2) by (rule emitsD)
  show ?case unfolding es(1) by (intro platform_inv_step [OF deferred.IH] rows_mono [OF es(2)]) auto
next
  case (restarted ps ts h)
  then show ?case by (simp add: platform_inv_def)
next
  case (elsewhere ps ts h es)
  have "list_all (row_write S) es" for S using elsewhere.hyps(2) row_write_quiet by (auto simp: list_all_iff)
  then show ?case by (intro platform_inv_step [OF elsewhere.IH]) auto
qed

section \<open>A deferred task writes what it started with\<close>

lemma bind_after: "m h = (Inr a, h') \<Longrightarrow> bind_io m k h = k a h'"
  by (simp add: bind_io_def)

lemma now_io_run: "now_io E h = (Inr (env_now E h), h)"
  by (simp add: now_io_def)

text \<open>After the write that ends a finalisation only quiet events follow.\<close>

lemma finalize_succeeded_writes:
  assumes "mark_operation_succeeded (env_now E h) art (i\<lparr>si_status := status_succeeded\<rparr>) = Inr j" "tables_up E"
  shows "table_view c0 (snd (finalize_succeeded E c tid metered action art i h)) INSTANCES [si_instance_id j] =
    Some (instance_item (j\<lparr>si_updated_at := env_now E h\<rparr>))"
proof -
  let ?j = "j\<lparr>si_updated_at := env_now E h\<rparr>"
  let ?h = "h @ [EvPut INSTANCES (instance_item ?j) (Inr ())]"
  let ?rest = "bind_io (try_io (if metered then emit_usage E tid (si_instance_id ?j) (si_service_id ?j) (si_plan_id ?j) else ret ())) (\<lambda>u. case u of
            Inl x \<Rightarrow> ret (Inl x, ?j)
          | Inr _ \<Rightarrow> seq_io (provisioned_audit E c tid action art ?j) (ret (Inr art, ?j))) :: ((exn + json) \<times> ServiceInstance) prog"
  have put: "try_put_instance E j h = (Inr (None, ?j), ?h)"
    using assms(2) by (simp add: run_ok put_instance_run tables_up_def)
  have quiet: "emits quiet_event ?rest" unfolding provisioned_audit_def by (intro emits_rules) auto
  obtain r h2 where run: "?rest ?h = (r, h2)" by (rule prod.exhaust)
  have "finalize_succeeded E c tid metered action art i h = ?rest ?h"
    unfolding finalize_succeeded_def Let_def bind_after [of "now_io E" h, OF now_io_run] assms(1) sum.case bind_after [of "try_put_instance E j" h, OF put] by simp
  then have "snd (finalize_succeeded E c tid metered action art i h) = h2" using run by simp
  then show ?thesis using quiet_emits_view [OF quiet run, of c0] by simp
qed

lemma deferred_writes_row:
  assumes "control_plane_up E" "tables_up E" "si_operation_state i = Some st"
  shows "\<exists>j. si_instance_id j = si_instance_id i \<and> si_version j = si_version i \<and> si_parameters j = si_parameters i \<and> si_status j = status_succeeded \<and>
    table_view c0 (snd (finalize_provision_async E c tid i h)) INSTANCES [si_instance_id i] = Some (instance_item j)"
proof (rule broker_render_up [OF assms(1), of i h])
  fix d h1 assume r: "broker_render E i h = (Inr (JObj d), h1)"
    and v: "jget_or d ''version'' (JInt (si_version i)) = JInt (si_version i)"
  obtain j where j: "mark_operation_succeeded (env_now E h1) (JObj d) (i\<lparr>si_status := status_succeeded\<rparr>) = Inr j"
    by (rule mark_succeeded_total [OF v])
  then have ji: "si_instance_id j = si_instance_id i" "si_version j = si_version i" "si_parameters j = si_parameters i" "si_status j = status_succeeded"
    by (auto simp: mark_operation_succeeded_def split: sum.splits)
  have "finalize_provision E c tid True ''instance.provisioned'' i h = finalize_succeeded E c tid True ''instance.provisioned'' (JObj d) i h1"
    using r assms(3) by (simp add: finalize_provision_def bind_io_def try_io_def)
  then have "snd (finalize_provision_async E c tid i h) = snd (finalize_succeeded E c tid True ''instance.provisioned'' (JObj d) i h1)"
    by (simp add: finalize_provision_async_def seq_io_def bind_io_def split: prod.split sum.split)
  with finalize_succeeded_writes [OF j assms(2), of c0 c tid True "''instance.provisioned''"] ji show ?thesis
    by (intro exI [of _ "j\<lparr>si_updated_at := env_now E h1\<rparr>"]) simp
qed

lemma deprovision_view:
  assumes "deprovision rs E c iid h = (Inr r, h')"
  shows "table_view c0 h' INSTANCES [iid] = None"
proof -
  from assms obtain i h0 where "deprovision_found rs E c iid i h0 = (Inr r, h')" by (auto simp: deprovision_def run_ok)
  then obtain h2 h3 es where "delete_instance E iid h2 = (Inr (), h3)" "h' = h3 @ es" "list_all quiet_event es"
    by (rule deprovision_found_deletes) blast
  then show ?thesis using quiet_view by (auto simp: delete_instance_def run_ok)
qed

text \<open>The renderer that ships with the platform keeps the rows; so does a teardown that only reports.\<close>

lemma envoy_teardown_keeps: "emits (\<lambda>e. \<not> writes_table INSTANCES e) (envoy_teardown E i)"
  unfolding envoy_teardown_def delete_object_step_def by (intro emits_rules) (auto intro!: emits_rules)

end
