(* ===== verification/DesiredState.thy ===== *)
theory DesiredState
  imports Platform
begin

text \<open>
  An abstract specification of the broker: a registry of desired states, one per instance id, that forgets
  the operation state machine, the gates, the control plane and the stores. A provision registers version
  1, an update amends it to the next version, a deprovision drops it, and nothing else changes it; a
  request that is refused has either its effect or none. The work that a deferred provision still owes
  may register its desired state once more. Theory RegistryRefinement shows that the broker implements
  it. Here: what holds in every reachable state of the registry.
\<close>

section \<open>Desired states\<close>

record desired_state =
  ds_service :: string
  ds_plan :: string
  ds_organization :: "string option"
  ds_space :: "string option"
  ds_parameters :: LbParameters
  ds_version :: int

type_synonym desired_registry = "string \<rightharpoonup> desired_state"

definition requested :: "ProvisionRequest \<Rightarrow> desired_state" where
  "requested req = \<lparr>ds_service = pr_service_id req, ds_plan = pr_plan_id req, ds_organization = pr_organization_guid req,
     ds_space = pr_space_guid req, ds_parameters = pr_parameters req, ds_version = 1\<rparr>"

definition amended :: "UpdateRequest \<Rightarrow> desired_state \<Rightarrow> desired_state" where
  "amended req d = d\<lparr>ds_plan := str_or (ur_plan_id req) (ds_plan d),
     ds_parameters := (case ur_parameters req of Some p \<Rightarrow> p | None \<Rightarrow> ds_parameters d), ds_version := ds_version d + 1\<rparr>"

lemma amended_fields [simp]:
  "ds_service (amended req d) = ds_service d" "ds_organization (amended req d) = ds_organization d"
  "ds_space (amended req d) = ds_space d" "ds_version (amended req d) = ds_version d + 1" "amended req d \<noteq> d"
proof -
  show v: "ds_version (amended req d) = ds_version d + 1" by (simp add: amended_def)
  show "amended req d \<noteq> d" using v by (metis add_cancel_right_right zero_neq_one)
qed (simp_all add: amended_def)

section \<open>The steps\<close>

text \<open>Whether the request is answered or refused, and the registry before and after it.\<close>

fun registry_step :: "platform_request \<Rightarrow> bool \<Rightarrow> desired_registry \<Rightarrow> desired_registry \<Rightarrow> bool" where
  "registry_step (ProvisionCall c iid req ai) ok s s' = (case s iid of
     None \<Rightarrow> s' = s(iid \<mapsto> requested req) \<or> \<not> ok \<and> s' = s
   | Some _ \<Rightarrow> s' = s)"
| "registry_step (UpdateCall c iid req) ok s s' = (case s iid of
     None \<Rightarrow> \<not> ok \<and> s' = s
   | Some d \<Rightarrow> s' = s(iid \<mapsto> amended req d) \<or> \<not> ok \<and> s' = s)"
| "registry_step (DeprovisionCall c iid) ok s s' = (case s iid of
     None \<Rightarrow> \<not> ok \<and> s' = s
   | Some _ \<Rightarrow> s' = s(iid := None) \<or> \<not> ok \<and> s' = s)"
| "registry_step _ ok s s' = (s' = s)"

text \<open>What an answered provision leaves to a deferred task.\<close>

fun owed :: "platform_request \<Rightarrow> desired_registry \<Rightarrow> (string \<times> desired_state) list" where
  "owed (ProvisionCall c iid req ai) s = (if ai \<and> s iid = None then [(iid, requested req)] else [])"
| "owed _ s = []"

inductive registry_at :: "platform_request list \<Rightarrow> (string \<times> desired_state) list \<Rightarrow> desired_registry \<Rightarrow> bool" where
  initial: "registry_at [] [] Map.empty"
| served: "registry_at ps ts s \<Longrightarrow> registry_step p True s s' \<Longrightarrow> registry_at (ps @ [p]) (ts @ owed p s) s'"
| denied: "registry_at ps ts s \<Longrightarrow> registry_step p False s s' \<Longrightarrow> registry_at (ps @ [p]) ts s'"
| settled_late: "registry_at ps (ts @ (iid, d) # us) s \<Longrightarrow> s' = s \<or> s' = s(iid \<mapsto> d) \<Longrightarrow> registry_at ps (ts @ us) s'"
| forgotten: "registry_at ps ts s \<Longrightarrow> registry_at ps [] s"

section \<open>What holds in every state\<close>

text \<open>The desired state of an id comes from a provision of that id, amended by at most the updates of that
  id that were sent.\<close>

fun updates_of :: "string \<Rightarrow> platform_request \<Rightarrow> bool" where
  "updates_of iid (UpdateCall c k req) = (k = iid)"
| "updates_of iid _ = False"

definition traceable :: "platform_request list \<Rightarrow> string \<Rightarrow> desired_state \<Rightarrow> bool" where
  "traceable ps iid d \<longleftrightarrow> (\<exists>c req ai. ProvisionCall c iid req ai \<in> set ps \<and> ds_service d = pr_service_id req \<and>
     ds_organization d = pr_organization_guid req \<and> ds_space d = pr_space_guid req) \<and>
     1 \<le> ds_version d \<and> ds_version d \<le> 1 + int (length (filter (updates_of iid) ps))"

lemma traceable_more: "traceable ps iid d \<Longrightarrow> traceable (ps @ [p]) iid d"
  by (auto simp: traceable_def)

lemma traceable_new: "traceable (ps @ [ProvisionCall c iid req ai]) iid (requested req)"
  by (auto simp: traceable_def requested_def)

lemma traceable_amended: "traceable ps iid d \<Longrightarrow> traceable (ps @ [UpdateCall c iid req]) iid (amended req d)"
  by (auto simp: traceable_def)

lemma step_traceable:
  assumes "registry_step p ok s s'" "\<forall>k d. s k = Some d \<longrightarrow> traceable ps k d"
  shows "\<forall>k d. s' k = Some d \<longrightarrow> traceable (ps @ [p]) k d"
  using assms
  by (cases p) (auto simp: traceable_more traceable_new traceable_amended split: option.splits if_splits)

lemma owed_traceable: "(k, d) \<in> set (owed p s) \<Longrightarrow> traceable (ps @ [p]) k d"
  by (cases p) (auto simp: traceable_new split: if_splits)

lemma registry_traceable:
  "registry_at ps ts s \<Longrightarrow> (\<forall>k d. s k = Some d \<longrightarrow> traceable ps k d) \<and> (\<forall>(k, d)\<in>set ts. traceable ps k d)"
proof (induction rule: registry_at.induct)
  case (served ps ts s p s')
  then show ?case using step_traceable [OF served.hyps(2)] owed_traceable traceable_more by fastforce
next
  case (denied ps ts s p s')
  then show ?case using step_traceable [OF denied.hyps(2)] traceable_more by fastforce
qed (auto split: if_splits)

end
