(* ===== verification/RegistryRefinement.thy ===== *)
theory RegistryRefinement
  imports DesiredState
begin

text \<open>
  The broker implements the registry of theory DesiredState. The abstraction reads the desired state off the
  decoded row of the instance table; one lemma per kind of request shows that what the route writes is a
  step of the registry, and rule induction carries it over the whole life of the broker.
\<close>

section \<open>The abstraction\<close>

definition desired :: "ServiceInstance \<Rightarrow> desired_state" where
  "desired i = \<lparr>ds_service = si_service_id i, ds_plan = si_plan_id i, ds_organization = si_organization_guid i,
     ds_space = si_space_guid i, ds_parameters = si_parameters i, ds_version = si_version i\<rparr>"

definition registry_of :: "env \<Rightarrow> contents \<Rightarrow> desired_registry" where
  "registry_of E c iid = (case c INSTANCES [iid] of
     None \<Rightarrow> None
   | Some row \<Rightarrow> (case decode_instance E [] row of Inl _ \<Rightarrow> None | Inr i \<Rightarrow> Some (desired i)))"

lemma desired_keeps [simp]:
  "desired (i\<lparr>si_updated_at := now\<rparr>) = desired i" "desired (begin_operation op i) = desired i"
  "desired (i\<lparr>si_reconcile_attempts := n\<rparr>) = desired i" "desired (i\<lparr>si_status := st\<rparr>) = desired i"
  "desired (mark_operation_failed now reason step i) = desired i"
  "desired (i\<lparr>si_drift_status := d, si_last_reconciled_at := l\<rparr>) = desired i"
  "desired (new_instance now iid req) = requested req"
  "desired (updated_instance upd i) = amended upd (desired i)"
  by (simp_all add: desired_def begin_operation_def mark_operation_failed_def new_instance_def requested_def
      updated_instance_def amended_def split: option.split)

lemma desired_succeeded: "mark_operation_succeeded now artifact i = Inr j \<Longrightarrow> desired j = desired i \<and> si_instance_id j = si_instance_id i \<and> (ok_instance j = ok_instance i)"
  by (auto simp: mark_operation_succeeded_def desired_def ok_instance_def split: json.splits sum.splits)

text \<open>The instances that agree with a registry. The operation state machine keeps the desired state.\<close>

definition agreeing :: "desired_registry \<Rightarrow> ServiceInstance set" where
  "agreeing s = {i. ok_instance i \<and> s (si_instance_id i) = Some (desired i)}"

lemma ok_keeps [simp]:
  "ok_instance (i\<lparr>si_updated_at := now\<rparr>) = ok_instance i" "ok_instance (begin_operation op i) = ok_instance i"
  "ok_instance (i\<lparr>si_reconcile_attempts := n\<rparr>) = ok_instance i" "ok_instance (i\<lparr>si_status := st\<rparr>) = ok_instance i"
  "ok_instance (mark_operation_failed now reason step i) = ok_instance i"
  "ok_instance (i\<lparr>si_drift_status := d, si_last_reconciled_at := l\<rparr>) = ok_instance i"
  by (simp_all add: ok_instance_def begin_operation_def mark_operation_failed_def)

lemma id_keeps [simp]:
  "si_instance_id (begin_operation op i) = si_instance_id i" "si_instance_id (mark_operation_failed now reason step i) = si_instance_id i"
  "si_instance_id (new_instance now iid req) = iid" "si_instance_id (updated_instance upd i) = si_instance_id i"
  by (simp_all add: begin_operation_def mark_operation_failed_def new_instance_def updated_instance_def)

interpretation agreeing: instance_family "agreeing s" "agreeing s" for s
  by unfold_locales (auto simp: agreeing_def dest: desired_succeeded)

section \<open>What a write does to the registry\<close>

lemma registry_put:
  assumes "pydantic_exact E" "i \<in> agreeing s"
  shows "registry_of E (apply_event (EvPut INSTANCES (instance_item i) (Inr ())) c) = (registry_of E c)(si_instance_id i \<mapsto> desired i)"
  using assms by (auto simp: registry_of_def agreeing_def decode_instance_item fun_eq_iff)

lemma registry_kept:
  assumes "pydantic_exact E"
  shows "list_all (row_kept (agreeing s)) es \<Longrightarrow>
    registry_of E (table_view c es) k = registry_of E c k \<or> registry_of E (table_view c es) k = s k"
proof (induction es arbitrary: c)
  case (Cons e es)
  have "registry_of E (apply_event e c) k = registry_of E c k \<or> registry_of E (apply_event e c) k = s k"
  proof (cases "\<exists>row. e = EvPut INSTANCES row (Inr ())")
    case True
    then obtain i where i: "e = EvPut INSTANCES (instance_item i) (Inr ())" "i \<in> agreeing s" using Cons.prems by auto
    then show ?thesis using registry_put [OF assms i(2), of c] unfolding i(1) by (auto simp: agreeing_def)
  next
    case False
    have "apply_event e c INSTANCES = c INSTANCES"
      using Cons.prems False by (cases "(e, c)" rule: apply_event.cases) auto
    then show ?thesis by (simp add: registry_of_def)
  qed
  with Cons.IH [of "apply_event e c"] Cons.prems show ?case by auto
qed simp

lemma registry_stutters:
  assumes "pydantic_exact E" "list_all (row_kept (agreeing s)) es" "registry_of E c = s"
  shows "registry_of E (table_view c es) = s"
  using registry_kept [OF assms(1,2), of c] assms(3) by auto

lemma registry_writes_one:
  assumes "pydantic_exact E" "list_all (row_kept (agreeing (s(iid \<mapsto> d)))) es" "registry_of E c = s"
  shows "registry_of E (table_view c es) = s \<or> registry_of E (table_view c es) = s(iid \<mapsto> d)"
proof -
  have all: "registry_of E (table_view c es) k = s k \<or> registry_of E (table_view c es) k = (s(iid \<mapsto> d)) k" for k
    using registry_kept [OF assms(1,2), of c k] assms(3) by simp
  have others: "registry_of E (table_view c es) k = s k" if "k \<noteq> iid" for k using all [of k] that by simp
  show ?thesis
  proof (cases "registry_of E (table_view c es) iid = s iid")
    case True
    then show ?thesis using others by (metis ext)
  next
    case False
    with all [of iid] have "registry_of E (table_view c es) iid = Some d" by auto
    then have "registry_of E (table_view c es) = s(iid \<mapsto> d)" using others by (auto simp: fun_eq_iff)
    then show ?thesis ..
  qed
qed

lemma registry_deletes_one:
  assumes "list_all (row_deleted iid) es"
  shows "registry_of E (table_view c es) = registry_of E c \<or> registry_of E (table_view c es) = (registry_of E c)(iid := None)"
  using assms
proof (induction es arbitrary: c)
  case (Cons e es)
  have "registry_of E (apply_event e c) = registry_of E c \<or> registry_of E (apply_event e c) = (registry_of E c)(iid := None)"
    using Cons.prems by (cases "(e, c)" rule: apply_event.cases) (auto simp: registry_of_def row_deleted_def fun_eq_iff)
  with Cons.IH [of "apply_event e c"] Cons.prems show ?case by auto
qed simp

section \<open>What a read tells of the registry\<close>

text \<open>Reads of the instance table are answered.\<close>

definition instance_reads_up :: "env \<Rightarrow> bool" where
  "instance_reads_up E \<longleftrightarrow> (\<forall>h k. \<exists>v. env_get_item E h INSTANCES [k] = Inr v)"

lemma rows_agree:
  assumes "rows_in A c" "Ball A ok_instance" "pydantic_exact E"
  shows "rows_in (agreeing (registry_of E c)) c"
  unfolding rows_in_def
proof (intro allI impI)
  fix k row assume row: "c INSTANCES k = Some row"
  with assms(1) obtain i where i: "i \<in> A" "row = instance_item i" "k = [si_instance_id i]" unfolding rows_in_def by blast
  with row assms(2,3) have "i \<in> agreeing (registry_of E c)" by (simp add: agreeing_def registry_of_def decode_instance_item)
  with i show "\<exists>i\<in>agreeing (registry_of E c). row = instance_item i \<and> k = [si_instance_id i]" by blast
qed

lemma row_registered:
  assumes "rows_in A c" "Ball A ok_instance" "pydantic_exact E" "c INSTANCES [iid] = Some row"
  shows "registry_of E c iid \<noteq> None"
proof -
  from assms(1,4) obtain i where "i \<in> A" "row = instance_item i" unfolding rows_in_def by blast
  with assms(2-4) show ?thesis by (simp add: registry_of_def decode_instance_item)
qed

lemma agreeing_ok: "Ball (agreeing s) ok_instance"
  by (simp add: agreeing_def)

text \<open>The state of the broker in which a request starts.\<close>

definition implements :: "env \<Rightarrow> contents \<Rightarrow> event list \<Rightarrow> desired_registry \<Rightarrow> bool" where
  "implements E c0 h s \<longleftrightarrow> rows_in (agreeing s) (table_view c0 h) \<and> registry_of E (table_view c0 h) = s"

lemma read_registry:
  assumes "ddb_reads_back F c0" "pydantic_exact F" "instance_reads_up F" "implements E c0 h s"
  obtains (absent) h0 where "s iid = None" "get_instance F iid h = (Inr None, h0)" "table_view c0 h0 = table_view c0 h"
  | (present) i h0 where "s iid = Some (desired i)" "get_instance F iid h = (Inr (Some i), h0)" "table_view c0 h0 = table_view c0 h"
      "si_instance_id i = iid" "ok_instance i"
proof -
  let ?v = "table_view c0 h INSTANCES [iid]"
  have get: "env_get_item F h INSTANCES [iid] = Inr ?v"
    using assms(1,3) unfolding ddb_reads_back_def instance_reads_up_def by metis
  show thesis
  proof (cases ?v)
    case None
    then have "s iid = None" using assms(4) by (auto simp: implements_def registry_of_def)
    moreover have "get_instance F iid h = (Inr None, h @ [EvGet INSTANCES [iid] (Inr None)])"
      using get None by (simp add: get_instance_def catch_io_def bind_io_def call_defs Let_def)
    ultimately show ?thesis using absent by simp
  next
    case (Some row)
    with assms(4) obtain i where i: "i \<in> agreeing s" "row = instance_item i" "si_instance_id i = iid"
      unfolding implements_def rows_in_def by auto
    then have "get_instance F iid h = (Inr (Some i), h @ [EvGet INSTANCES [iid] (Inr ?v)])"
      using get_instance_stored [OF assms(1,2), of h i] Some get by (simp add: agreeing_def)
    with i show ?thesis using present by (simp add: agreeing_def)
  qed
qed

section \<open>One request is one step\<close>

lemma provision_simulates:
  assumes laws: "ddb_reads_back F c0" "pydantic_exact F" "instance_reads_up F" "pydantic_exact E"
    and start: "implements E c0 h s" and wf: "wf_params (pr_parameters req)"
    and run: "provision F c iid req ai h = (r, h')" and after: "rows_in A (table_view c0 h')" "Ball A ok_instance"
  shows "registry_step (ProvisionCall c iid req ai) (\<not> isl r) s (registry_of E (table_view c0 h'))"
proof (cases rule: read_registry [OF laws(1,2,3) start, of iid, case_names absent present])
  case (present i h0)
  then have "h' = h0" using run by (simp add: provision_def bind_io_def catch_io_def)
  then show ?thesis using present start by (simp add: implements_def)
next
  case (absent h0)
  have "new_instance now iid req \<in> agreeing (s(iid \<mapsto> requested req))" for now
    using wf by (simp add: agreeing_def ok_instance_def new_instance_def [of now iid req] flip: desired_keeps(7) [of now iid req])
  then obtain es where es: "h' = h @ es" "list_all (row_kept (agreeing (s(iid \<mapsto> requested req)))) es"
    using emitsD [OF agreeing.provision_rows run] by blast
  have one: "registry_of E (table_view c0 h') = s \<or> registry_of E (table_view c0 h') = s(iid \<mapsto> requested req)"
    using registry_writes_one [OF laws(4) es(2)] start unfolding es(1) implements_def by simp
  have "registry_of E (table_view c0 h') iid \<noteq> None" if "r = Inr resp" for resp
  proof -
    have "\<exists>row. table_view c0 h' INSTANCES [iid] = Some row"
    proof (cases resp)
      case (Created body)
      from provision_created_settled [of F c iid req ai h body h' c0] run that this show ?thesis by blast
    next
      case (Accepted body i tid)
      from provision_started_instance(8) [OF provision_accepted(2)] run that this show ?thesis by blast
    next
      case (AlreadyExists body)
      then show ?thesis using run that absent
        by (auto simp: provision_def provision_admitted_def provision_answer_def run_ok map_sum_Inr_iff split: if_splits option.splits)
    qed
    then show ?thesis using row_registered [OF after laws(4)] by blast
  qed
  then show ?thesis using one absent by (cases r) auto
qed

lemma update_simulates:
  assumes laws: "ddb_reads_back F c0" "pydantic_exact F" "instance_reads_up F" "pydantic_exact E"
    and start: "implements E c0 h s" and wf: "case ur_parameters req of Some p \<Rightarrow> wf_params p | None \<Rightarrow> True"
    and run: "update_route F c iid req h = (r, h')"
  shows "registry_step (UpdateCall c iid req) (\<not> isl r) s (registry_of E (table_view c0 h'))"
proof (cases rule: read_registry [OF laws(1,2,3) start, of iid, case_names absent present])
  case (absent h0)
  then have "r = Inl (HTTPException 404 (JStr ''instance not found''))" "h' = h0"
    using run by (simp_all add: update_route_def bind_io_def)
  then show ?thesis using absent start by (simp add: implements_def)
next
  case (present i h0)
  let ?s = "s(iid \<mapsto> amended req (desired i))"
  have "ok_instance (updated_instance req i)"
    using present(5) wf by (simp add: updated_instance_def ok_instance_def begin_operation_def split: option.splits)
  then have next_ok: "updated_instance req i \<in> agreeing ?s" using present(4) by (simp add: agreeing_def)
  have found: "update_found F c iid req i h0 = (r, h')" using run present(2) by (simp add: update_route_def bind_io_def)
  obtain es where es: "h' = h0 @ es" "list_all (row_kept (agreeing ?s)) es"
    by (rule emitsD [OF agreeing.update_rows [OF next_ok] found])
  have one: "registry_of E (table_view c0 h') = s \<or> registry_of E (table_view c0 h') = ?s"
    using registry_writes_one [OF laws(4) es(2)] start present(3) unfolding es(1) implements_def by simp
  have "registry_of E (table_view c0 h') = ?s" if "r = Inr d" for d
  proof (rule update_answered [of F c iid req h d h'])
    show "update_route F c iid req h = (Inr d, h')" using run that by simp
  next
    fix i0 tid i1 h1 artifact assume st: "update_started F c iid req h i0 tid i1 h1" and render: "update_render F c tid i1 h1 = (Inr artifact, h')"
    have "i0 = i" using st present(2) by (auto simp: update_started_def)
    with st obtain h3 where put: "put_instance F (updated_instance req i) h3 = (Inr i1, h1)" by (auto simp: update_started_def)
    then have i1: "i1 \<in> agreeing ?s" "si_instance_id i1 = iid" "desired i1 = amended req (desired i)"
      using agreeing.stamped [OF next_ok] present(4) by (auto simp: put_instance_run)
    then have row: "registry_of E (table_view c0 h1) iid = ?s iid"
      using put_instance_view [OF put, of c0] present(4) laws(4) by (simp add: registry_of_def agreeing_def decode_instance_item)
    obtain es' where es': "h' = h1 @ es'" "list_all (row_kept (agreeing ?s)) es'"
      by (rule emitsD [OF agreeing.update_render_rows [OF i1(1)] render])
    have "registry_of E (table_view c0 h') iid = ?s iid"
      using registry_kept [OF laws(4) es'(2), of "table_view c0 h1" iid] row unfolding es'(1) by auto
    then show ?thesis using one by (metis amended_fields(5) fun_upd_same option.inject present(1))
  qed
  then show ?thesis using one present(1) by (cases r) auto
qed

lemma deprovision_simulates:
  assumes laws: "ddb_reads_back F c0" "pydantic_exact F" "instance_reads_up F" "teardowns_keep_rows rs"
    and start: "implements E c0 h s" and run: "deprovision rs F c iid h = (r, h')"
  shows "registry_step (DeprovisionCall c iid) (\<not> isl r) s (registry_of E (table_view c0 h'))"
proof (cases rule: read_registry [OF laws(1,2,3) start, of iid, case_names absent present])
  case (absent h0)
  then have "r = Inl (HTTPException 410 (JStr ''instance already absent''))" "h' = h0"
    using run by (simp_all add: deprovision_def bind_io_def)
  then show ?thesis using absent start by (simp add: implements_def)
next
  case (present i h0)
  obtain es where es: "h' = h @ es" "list_all (row_deleted iid) es"
    by (rule emitsD [OF emits_deprovision_rows [OF laws(4)] run])
  have one: "registry_of E (table_view c0 h') = s \<or> registry_of E (table_view c0 h') = s(iid := None)"
    using registry_deletes_one [OF es(2), of E "table_view c0 h"] start unfolding es(1) implements_def by simp
  have "registry_of E (table_view c0 h') iid = None" if "r = Inr d" for d
    using deprovision_view [of rs F c iid h d h' c0] run that by (simp add: registry_of_def)
  then show ?thesis using one present(1) by (cases r) auto
qed

lemma stutter_simulates:
  assumes "only_does (row_kept (agreeing s)) m h" "m h = (r, h')" "implements E c0 h s" "pydantic_exact E"
  shows "registry_of E (table_view c0 h') = s"
proof -
  obtain es where "h' = h @ es" "list_all (row_kept (agreeing s)) es" by (rule only_doesD [OF assms(1,2)])
  with registry_stutters [OF assms(4)] assms(3) show ?thesis by (simp add: implements_def)
qed

lemma seq_ret_run: "seq_io m (ret a) h = (r, h') \<Longrightarrow> \<exists>q. m h = (q, h') \<and> isl q = isl r"
  by (auto simp: seq_io_def bind_io_def split: prod.splits sum.splits)

lemma handle_simulates:
  assumes laws: "ddb_reads_back F c0" "ddb_lists_rows F c0" "pydantic_exact F" "instance_reads_up F" "teardowns_keep_rows rs" "pydantic_exact E"
    and start: "implements E c0 h s" and p: "valid_request p" and run: "handle rs F p h = (r, h')"
    and after: "rows_in A (table_view c0 h')" "Ball A ok_instance"
  shows "registry_step p (\<not> isl r) s (registry_of E (table_view c0 h'))"
proof -
  have reads: "reads_in F (agreeing s) h"
    using reads_inI [OF laws(1,2,3) _ agreeing_ok] start unfolding implements_def by blast
  note quiet = emits_other_rows [THEN only_doesI]
  show ?thesis
  proof (cases p)
    case (ProvisionCall c iid req ai)
    then obtain q where "provision F c iid req ai h = (q, h')" "isl q = isl r"
      using run by (auto simp: bind_io_def split: prod.splits sum.splits)
    with provision_simulates [OF laws(1,3,4,6) start _ _ after] ProvisionCall p show ?thesis by fastforce
  next
    case (UpdateCall c iid req)
    then obtain q where "update_route F c iid req h = (q, h')" "isl q = isl r" using run seq_ret_run by fastforce
    with update_simulates [OF laws(1,3,4,6) start] UpdateCall p show ?thesis by fastforce
  next
    case (DeprovisionCall c iid)
    then obtain q where "deprovision rs F c iid h = (q, h')" "isl q = isl r" using run seq_ret_run by fastforce
    with deprovision_simulates [OF laws(1,3,4,5) start] DeprovisionCall show ?thesis by fastforce
  qed (use run laws(6) start in \<open>auto dest!: seq_ret_run intro: stutter_simulates quiet
      agreeing.reconcile_route_writes [OF reads] agreeing.periodic_round_writes [OF reads]\<close>)
qed

section \<open>The whole life of the broker\<close>

fun task_of :: "string option \<times> deferred \<Rightarrow> string \<times> desired_state" where
  "task_of (tr, c, tid, i) = (si_instance_id i, desired i)"

lemma started_desired: "provision_started F c iid req h tid i h' \<Longrightarrow> si_instance_id i = iid \<and> desired i = requested req"
  by (auto simp: provision_started_def put_instance_run)

lemma handle_owes:
  assumes laws: "ddb_reads_back F c0" "pydantic_exact F" "instance_reads_up F" and start: "implements E c0 h s"
    and run: "handle rs F p h = (Inr us, h')"
  shows "map (\<lambda>u. task_of (tr, u)) us = owed p s"
proof (cases "\<exists>c iid req ai. p = ProvisionCall c iid req ai")
  case True
  then obtain c iid req ai where p: "p = ProvisionCall c iid req ai" by blast
  with run obtain resp where resp: "provision F c iid req ai h = (Inr resp, h')" "us = deferred_of c resp"
    by (auto simp: bind_io_def split: prod.splits sum.splits)
  show ?thesis
  proof (cases rule: read_registry [OF laws start, of iid, case_names absent present])
    case (present i h0)
    then have "resp = AlreadyExists [dashboard iid, (''operation'', JStr ''already_exists'')]"
      using resp(1) by (simp add: provision_def bind_io_def catch_io_def)
    then show ?thesis using p present(1) resp(2) by (simp add: deferred_of_def)
  next
    case (absent h0)
    show ?thesis
    proof (cases resp)
      case (Accepted body i tid)
      from provision_accepted [OF resp(1) [unfolded this]] started_desired p absent(1) resp(2) Accepted show ?thesis
        by (fastforce simp: deferred_of_def)
    next
      case (Created body)
      from provision_created [OF resp(1) [unfolded this]] have "\<not> ai" by blast
      then show ?thesis using p resp(2) Created by (simp add: deferred_of_def)
    next
      case (AlreadyExists body)
      then have False using resp(1) absent(2)
        by (auto simp: provision_def provision_admitted_def provision_answer_def run_ok map_sum_Inr_iff catch_io_def bind_io_def
            split: if_splits option.splits prod.splits sum.splits)
      then show ?thesis ..
    qed
  qed
next
  case False
  with run show ?thesis by (cases p) (auto simp: seq_io_def bind_io_def split: prod.splits sum.splits)
qed

lemma deferred_simulates:
  assumes "implements E c0 h s" "ok_instance i" "pydantic_exact E" "finalize_provision_async F c tid i h = (r, h')"
  shows "registry_of E (table_view c0 h') = s \<or> registry_of E (table_view c0 h') = s(si_instance_id i \<mapsto> desired i)"
proof -
  let ?s = "s(si_instance_id i \<mapsto> desired i)"
  have "i \<in> agreeing ?s" using assms(2) by (simp add: agreeing_def)
  then have "emits (row_kept (agreeing ?s)) (finalize_provision_async F c tid i)"
    unfolding finalize_provision_async_def by (auto intro!: emits_rules agreeing.finalize_rows)
  from emitsD [OF this assms(4)] obtain es where "h' = h @ es" "list_all (row_kept (agreeing ?s)) es" .
  with registry_writes_one [OF assms(3)] assms(1) show ?thesis by (simp add: implements_def)
qed

lemma traced_reads_up [simp]: "instance_reads_up (traced E tr) = instance_reads_up E"
  by (simp add: instance_reads_up_def)

lemma inv_implements:
  assumes "platform_inv E c0 ps ts h" "pydantic_exact E"
  shows "implements E c0 h (registry_of E (table_view c0 h))"
  using rows_agree [OF _ sound_ok assms(2)] assms(1) unfolding implements_def platform_inv_def by blast

text \<open>A request that is handled in a reachable state is one step of the registry.\<close>

lemma reachable_simulates:
  assumes laws: "ddb_reads_back E c0" "ddb_lists_rows E c0" "pydantic_exact E" "teardowns_keep_rows rs" "instance_reads_up E"
    and empty: "c0 INSTANCES = Map.empty" and at: "platform_at rs E ps ts h"
    and p: "valid_request p" and run: "handle rs (traced E tr) p h = (r, h')"
  shows "registry_step p (\<not> isl r) (registry_of E (table_view c0 h)) (registry_of E (table_view c0 h'))"
proof -
  note inv = platform_at_inv [OF laws(1-4) empty at]
  have "rows_in (sound_at (admitted E (ps @ [(tr, p)]) h')) (table_view c0 h')"
    using handle_keeps [OF laws(1-4) inv p run] unfolding platform_inv_def ..
  from handle_simulates [OF _ _ _ _ laws(4,3) inv_implements [OF inv laws(3)] p run this sound_ok] laws show ?thesis by simp
qed

lemma platform_refines:
  assumes laws: "ddb_reads_back E c0" "ddb_lists_rows E c0" "pydantic_exact E" "teardowns_keep_rows rs" "instance_reads_up E"
    and empty: "c0 INSTANCES = Map.empty"
  shows "platform_at rs E ps ts h \<Longrightarrow> registry_at (map snd ps) (map task_of ts) (registry_of E (table_view c0 h))"
proof (induction rule: platform_at.induct)
  case idle
  have "registry_of E c0 = Map.empty" using empty by (simp add: registry_of_def fun_eq_iff)
  then show ?case using registry_at.initial by simp
next
  case (answered ps ts h p tr us h')
  note impl = inv_implements [OF platform_at_inv [OF laws(1-4) empty answered.hyps(1)] laws(3)]
  have "map task_of (map (Pair tr) us) = owed p (registry_of E (table_view c0 h))"
    using handle_owes [OF _ _ _ impl answered.hyps(3), of tr] laws by (simp add: comp_def)
  then show ?case using registry_at.served [OF answered.IH] reachable_simulates [OF laws empty answered.hyps] by fastforce
next
  case (refused ps ts h p tr x h')
  then show ?case using registry_at.denied [OF refused.IH] reachable_simulates [OF laws empty refused.hyps] by simp
next
  case (deferred ps ts tr c tid i us h r h')
  have inv: "platform_inv E c0 ps (ts @ (tr, c, tid, i) # us) h" by (rule platform_at_inv [OF laws(1-4) empty deferred.hyps(1)])
  then have "ok_instance i" unfolding platform_inv_def based_def by auto
  from deferred_simulates [OF inv_implements [OF inv laws(3)] this laws(3) deferred.hyps(2)] deferred.IH
  show ?case using registry_at.settled_late [of "map snd ps" "map task_of ts" "si_instance_id i" "desired i" "map task_of us"] by simp
next
  case (restarted ps ts h)
  then show ?case using registry_at.forgotten by simp
next
  case (elsewhere ps ts h es)
  then have "table_view c0 (h @ es) INSTANCES = table_view c0 h INSTANCES" using table_view_frame by simp
  with elsewhere.IH show ?case by (simp add: registry_of_def [abs_def])
qed

text \<open>What holds of the registry holds of the rows.\<close>

lemma stored_traceable:
  assumes laws: "ddb_reads_back E c0" "ddb_lists_rows E c0" "pydantic_exact E" "teardowns_keep_rows rs" "instance_reads_up E"
    and empty: "c0 INSTANCES = Map.empty" and at: "platform_at rs E ps ts h"
    and row: "table_view c0 h INSTANCES [iid] = Some row" "decode_instance E now row = Inr i"
  shows "traceable (map snd ps) iid (desired i)"
proof -
  have "rows_in (sound_at (admitted E ps h)) (table_view c0 h)"
    using platform_at_inv [OF laws(1-4) empty at] unfolding platform_inv_def ..
  with row obtain j where j: "j \<in> sound_at (admitted E ps h)" "row = instance_item j" unfolding rows_in_def by blast
  then have "ok_instance j" using sound_ok by blast
  with j row laws(3) have "registry_of E (table_view c0 h) iid = Some (desired i)" by (simp add: registry_of_def decode_instance_item)
  then show ?thesis using registry_traceable [OF platform_refines [OF laws empty at]] by blast
qed

end
