(* ===== verification/Composition.thy ===== *)
theory Composition
  imports RegistryRefinement ControlPlane
begin

text \<open>
  The broker and the control plane together. \<open>serve_render\<close> is the whole \<open>/render\<close> endpoint of
  \<open>apps/control-plane/app/main.py\<close> as a peer sees it: the bearer check, the validation of the body, the
  route, and the problem-detail answers of \<open>libs/common/sovereign/errors.py\<close>. Shown: what the broker
  takes for a success is a run of the control plane on the very instance the broker sent, whose artifact
  validated and was applied completely.
\<close>

section \<open>The endpoint\<close>

text \<open>The handler of a request whose body fails validation; \<open>errors\<close> is what pydantic reports.\<close>

definition validation_response :: "env \<Rightarrow> string \<Rightarrow> json \<Rightarrow> int \<times> dict" where
  "validation_response E service errors = (422, problem E 422 ''unprocessable entity'' (JStr ''request body failed validation'') service @
     [(''errors'', errors)])"

text \<open>\<open>RenderRequest\<close>: an object with a valid \<open>instance\<close>.\<close>

definition validate_render_request :: "env \<Rightarrow> string \<Rightarrow> json \<Rightarrow> ServiceInstance option" where
  "validate_render_request E now body = (case body of
     JObj d \<Rightarrow> (case map_of d ''instance'' of Some (JObj i) \<Rightarrow> validate_instance E now i | _ \<Rightarrow> None)
   | _ \<Rightarrow> None)"

definition json_answer :: "env \<Rightarrow> int \<times> dict \<Rightarrow> http_response" where
  "json_answer E a = \<lparr>rs_status = fst a, rs_json = Some (JObj (snd a)), rs_text = env_json_dumps E (JObj (snd a))\<rparr>"

text \<open>The client certificate header is set by the mesh, so it is not a header of the peer's request.\<close>

definition serve_render :: "renderers \<Rightarrow> env \<Rightarrow> (json \<Rightarrow> json) \<Rightarrow> string option \<Rightarrow> http_request \<Rightarrow> event list \<Rightarrow> http_response \<times> event list" where
  "serve_render rs E errors xfcc rq h =
     (case require_bearer E (map_of (rq_headers rq) ''Authorization'') (map_of (rq_headers rq) WORKLOAD_IDENTITY_HEADER)
         (map_of (rq_headers rq) ''X-SPIFFE-ID'') xfcc h of
        (Inl x, h1) \<Rightarrow> (json_answer E (problem_response E ''control-plane'' x), h1)
      | (Inr _, h1) \<Rightarrow> (case validate_render_request E (env_now E h1) (rq_body rq) of
          None \<Rightarrow> (json_answer E (validation_response E ''control-plane'' (errors (rq_body rq))), h1)
        | Some i \<Rightarrow> (case cp_render rs E i h1 of
            (Inl x, h2) \<Rightarrow> (json_answer E (problem_response E ''control-plane'' x), h2)
          | (Inr out, h2) \<Rightarrow> (json_answer E (200, out), h2))))"

section \<open>Errors are not answered as successes\<close>

definition answers_success :: "int \<Rightarrow> bool" where
  "answers_success st \<longleftrightarrow> 200 \<le> st \<and> st < 300"

lemma problem_status: "fst (problem_response E s x) = (case x of HTTPException st _ \<Rightarrow> st | _ \<Rightarrow> 500)"
  by (simp add: problem_response_def split: exn.split)

fun error_exn :: "exn \<Rightarrow> bool" where
  "error_exn (HTTPException st _) = (\<not> answers_success st)"
| "error_exn _ = True"

lemma error_exn_status: "error_exn x \<Longrightarrow> \<not> answers_success (fst (problem_response E s x))"
  by (cases x) (auto simp: problem_status answers_success_def)

text \<open>A program that raises exceptions of \<open>P\<close> only.\<close>

definition raises_only :: "(exn \<Rightarrow> bool) \<Rightarrow> 'a prog \<Rightarrow> bool" where
  "raises_only P m \<longleftrightarrow> (\<forall>h. wp m (\<lambda>_ _. True) (\<lambda>x _. P x) h)"

lemma raises_onlyD: "raises_only P m \<Longrightarrow> m h = (Inl x, h') \<Longrightarrow> P x"
  unfolding raises_only_def wp_def by (metis (mono_tags, lifting) case_prod_conv old.sum.simps(5))

lemma raises_only_weaken: "raises_only P m \<Longrightarrow> (\<And>x. P x \<Longrightarrow> Q x) \<Longrightarrow> raises_only Q m"
  unfolding raises_only_def by (auto intro: wp_mono)

lemma raises_ret: "raises_only P (ret a)"
  by (simp add: raises_only_def wp_simps)

lemma raises_throw: "P x \<Longrightarrow> raises_only P (throw x)"
  by (simp add: raises_only_def wp_simps)

lemma raises_lift: "(\<And>x. r = Inl x \<Longrightarrow> P x) \<Longrightarrow> raises_only P (lift_res r)"
  by (auto simp: raises_only_def wp_simps split: sum.split)

lemma raises_bind: "raises_only P m \<Longrightarrow> (\<And>a. raises_only P (k a)) \<Longrightarrow> raises_only P (bind_io m k)"
  unfolding raises_only_def wp_bind by (auto intro: wp_mono)

lemma raises_bind_returns:
  assumes "raises_only P m" "\<And>h a h'. m h = (Inr a, h') \<Longrightarrow> raises_only P (k a)"
  shows "raises_only P (bind_io m k)"
  unfolding raises_only_def wp_bind
proof
  fix h
  show "wp m (\<lambda>a. wp (k a) (\<lambda>_ _. True) (\<lambda>x _. P x)) (\<lambda>x _. P x) h"
  proof (rule wp_of_run)
    fix a h' assume "m h = (Inr a, h')"
    then show "wp (k a) (\<lambda>_ _. True) (\<lambda>x _. P x) h'" using assms(2) unfolding raises_only_def by blast
  qed (rule raises_onlyD [OF assms(1)])
qed

lemma raises_seq: "raises_only P m \<Longrightarrow> raises_only P n \<Longrightarrow> raises_only P (seq_io m n)"
  unfolding raises_only_def wp_seq by (auto intro: wp_mono)

lemma raises_if: "(b \<Longrightarrow> raises_only P m) \<Longrightarrow> (\<not> b \<Longrightarrow> raises_only P n) \<Longrightarrow> raises_only P (if b then m else n)"
  by simp

lemma raises_catch: "raises_only R m \<Longrightarrow> (\<And>x. R x \<Longrightarrow> raises_only P (f x)) \<Longrightarrow> raises_only P (catch_io m f)"
  unfolding raises_only_def wp_catch by (blast intro: wp_mono)

lemma raises_any: "raises_only (\<lambda>_. True) m"
  unfolding raises_only_def wp_def by (simp split: prod.split sum.split)

lemma raises_audit: "raises_only P (audit_emit E sv a r d p t dc md)"
  unfolding raises_only_def by (auto intro: wp_audit_emit)

lemma raises_now: "raises_only P (now_io E)"
  by (simp add: raises_only_def wp_def now_io_def)

lemmas raises_rules = raises_ret raises_throw raises_lift raises_seq raises_bind raises_if raises_audit raises_now

lemma bearer_raises: "raises_only error_exn (require_bearer E a w s x)"
proof -
  have "raises_only error_exn (oidc_subject E b)" for b
    unfolding oidc_subject_def by (intro raises_rules raises_catch [OF raises_any]) (simp_all add: answers_success_def)
  moreover have "raises_only error_exn (shared_bearer E a)"
    unfolding shared_bearer_def by (intro raises_rules) (auto simp: answers_success_def compare_digest_def split: if_splits)
  ultimately show ?thesis unfolding require_bearer_def Let_def
    by (auto simp: answers_success_def not_allowed_def intro!: raises_rules split: option.split)
qed

text \<open>What renderers promise: they raise their own exceptions, never an HTTP answer.\<close>

definition renderers_raise_errors :: "renderers \<Rightarrow> env \<Rightarrow> bool" where
  "renderers_raise_errors rs E \<longleftrightarrow> (\<forall>st r i a. get_renderer rs st = Some r \<longrightarrow>
     raises_only (\<lambda>x. \<not> is_HTTPException x) (rd_render r E i) \<and> raises_only (\<lambda>x. \<not> is_HTTPException x) (rd_validate r E a) \<and>
     raises_only (\<lambda>x. \<not> is_HTTPException x) (rd_apply r E a))"

lemma not_http_error: "\<not> is_HTTPException x \<Longrightarrow> error_exn x"
  by (cases x) auto

lemma cp_render_raises:
  assumes "renderers_raise_errors rs E"
  shows "raises_only error_exn (cp_render rs E i)"
proof (cases "get_renderer rs (si_service_id i)")
  case None
  then show ?thesis using cp_render_no_renderer by (simp add: raises_only_def wp_def no_renderer_def answers_success_def)
next
  case (Some r)
  have r: "raises_only (\<lambda>x. \<not> is_HTTPException x) (rd_render r E i)" "raises_only (\<lambda>x. \<not> is_HTTPException x) (rd_validate r E a)"
      "raises_only (\<lambda>x. \<not> is_HTTPException x) (rd_apply r E a)" for a
    using assms Some unfolding renderers_raise_errors_def by blast+
  have art: "raises_only error_exn (cp_render_artifact rs E i)"
    unfolding cp_render_artifact_def require_renderer_def Some option.case sum.case
    by (intro raises_rules raises_catch [OF r(1)]) (auto simp: answers_success_def not_http_error)
  have same: "r' = r" if "cp_render_artifact rs E i h = (Inr (r', a), h')" for r' a h h'
    using that Some by (auto simp: cp_render_artifact_def require_renderer_def run_ok)
  note steps = raises_only_weaken [OF r(2) not_http_error] raises_only_weaken [OF r(3) not_http_error]
  show ?thesis unfolding cp_render_def Let_def
  proof (rule raises_bind_returns [OF art], clarify)
    fix h r' a h' assume "cp_render_artifact rs E i h = (Inr (r', a), h')"
    then have "r' = r" by (rule same)
    then show "raises_only error_exn (bind_io (rd_validate r' E a) (\<lambda>vr. if \<not> vr_ok vr
        then throw (HTTPException 422 (JStr (''artifact validation failed: '' @ py_repr_list (vr_errors vr))))
        else bind_io (rd_apply r' E a) (\<lambda>ar. if \<not> ar_ok ar then throw (apply_failed_exn ar)
          else seq_io (audit_emit E ''control-plane'' ''config.rendered'' (si_instance_id i) (s3_key i (ar_applied_steps ar)) None ''default'' ''allow''
           (merge_dict [(''service_type'', JStr (ra_service_type a)), (''version'', JInt (ra_version a)),
              (''bucket'', JStr (cfg_config_bucket (cfg E)))] (ra_metadata a)))
         (ret [(''bucket'', JStr (cfg_config_bucket (cfg E))), (''key'', JStr (s3_key i (ar_applied_steps ar))), (''version'', JInt (ra_version a)),
               (''service_type'', JStr (ra_service_type a)), (''manifest'', JList (map dump_step (ar_applied_steps ar)))]))))"
      using steps by (auto intro!: raises_rules simp: answers_success_def apply_failed_exn_def)
  qed
qed

section \<open>What the broker takes for a success\<close>

text \<open>A success that the broker receives from \<open>/render\<close> is an answer of the control plane to this very
  request, given in some state of the control plane's own environment.\<close>

definition render_answered_by :: "renderers \<Rightarrow> env \<Rightarrow> (json \<Rightarrow> json) \<Rightarrow> env \<Rightarrow> bool" where
  "render_answered_by rs C errors E \<longleftrightarrow> (\<forall>h rq resp. env_http E h rq = Inr resp \<longrightarrow>
     rq_url rq = cfg_control_plane_url (cfg E) @ ''/render'' \<longrightarrow> answers_success (rs_status resp) \<longrightarrow>
     (\<exists>xfcc hc. fst (serve_render rs C errors xfcc rq hc) = resp))"

lemma serve_render_success:
  assumes "renderers_raise_errors rs C" "answers_success (rs_status (fst (serve_render rs C errors xfcc rq hc)))"
  obtains i out h1 h2 where "validate_render_request C (env_now C h1) (rq_body rq) = Some i" "cp_render rs C i h1 = (Inr out, h2)"
    "rs_json (fst (serve_render rs C errors xfcc rq hc)) = Some (JObj out)"
proof -
  obtain b h1 where b: "require_bearer C (map_of (rq_headers rq) ''Authorization'') (map_of (rq_headers rq) WORKLOAD_IDENTITY_HEADER)
         (map_of (rq_headers rq) ''X-SPIFFE-ID'') xfcc hc = (b, h1)" by (rule prod.exhaust)
  show thesis
  proof (cases b)
    case (Inl x)
    then have "error_exn x" using raises_onlyD [OF bearer_raises] b by blast
    then show ?thesis using assms(2) b Inl error_exn_status by (auto simp: serve_render_def json_answer_def)
  next
    case (Inr who)
    show ?thesis
    proof (cases "validate_render_request C (env_now C h1) (rq_body rq)")
      case None
      then show ?thesis using assms(2) b Inr by (auto simp: serve_render_def json_answer_def validation_response_def answers_success_def)
    next
      case (Some i)
      obtain q h2 where q: "cp_render rs C i h1 = (q, h2)" by (rule prod.exhaust)
      show ?thesis
      proof (cases q)
        case (Inl x)
        then have "error_exn x" using raises_onlyD [OF cp_render_raises [OF assms(1)]] q by blast
        then show ?thesis using assms(2) b Inr Some q Inl error_exn_status by (auto simp: serve_render_def json_answer_def)
      next
        case (Inr out)
        then show ?thesis using that [OF Some] b \<open>b = Inr who\<close> Some q by (auto simp: serve_render_def json_answer_def)
      qed
    qed
  qed
qed

lemma broker_render_applied:
  assumes "broker_render E i h = (Inr art, h')" "render_answered_by rs C errors E" "renderers_raise_errors rs C"
    "pydantic_exact C" "wf_params (si_parameters i)"
  obtains out hc hc' where "art = JObj out" "cp_render rs C i hc = (Inr out, hc')"
proof -
  obtain hs where hs: "service_auth_headers E h = (Inr hs, h)" using service_auth_headers_run by blast
  let ?rq = "\<lparr>rq_method = ''POST'', rq_url = cfg_control_plane_url (cfg E) @ ''/render'', rq_headers = hs,
        rq_body = JObj [(''instance'', JObj (dump_instance i))]\<rparr>"
  from assms(1) obtain resp where resp: "env_http E h ?rq = Inr resp" "answers_success (rs_status resp)" "rs_json resp = Some art"
    by (auto simp: broker_render_def cp_call_def catch_io_def bind_io_def hs http_io_def Let_def answers_success_def
        split: prod.splits sum.splits if_splits option.splits)
  with assms(2) obtain xfcc hc where served: "fst (serve_render rs C errors xfcc ?rq hc) = resp" unfolding render_answered_by_def by fastforce
  with resp(2) have "answers_success (rs_status (fst (serve_render rs C errors xfcc ?rq hc)))" by simp
  then obtain j out h1 h2 where j: "validate_render_request C (env_now C h1) (rq_body ?rq) = Some j" "cp_render rs C j h1 = (Inr out, h2)"
    "rs_json (fst (serve_render rs C errors xfcc ?rq hc)) = Some (JObj out)"
    by (rule serve_render_success [OF assms(3)])
  moreover have "j = i" using j(1) validate_instance_dump [OF assms(4,5)] by (simp add: validate_render_request_def)
  ultimately show ?thesis using that served resp(3) by simp
qed

text \<open>What the broker stores once the control plane answered.\<close>

lemma finalize_applied:
  assumes fin: "finalize_provision E c tid metered action i h = (Inr (Inr art, j), h')" and "si_operation_state i \<noteq> None"
    and peer: "render_answered_by rs C errors E" "renderers_raise_errors rs C" "pydantic_exact C" "wf_params (si_parameters i)"
  obtains r a vr ar hc h1 h2 h3 where "get_renderer rs (si_service_id i) = Some r" "rd_render r C i hc = (Inr a, h1)"
    "rd_validate r C a h1 = (Inr vr, h2)" "vr_ok vr" "rd_apply r C a h2 = (Inr ar, h3)" "ar_ok ar"
    "si_applied_version j = Some (ra_version a)"
    "map_of (si_apply_outputs j) ''manifest'' = Some (JList (map dump_step (ar_applied_steps ar)))"
proof -
  obtain h0 where render: "broker_render E i h = (Inr art, h0)" and suc: "finalize_succeeded E c tid metered action art i h0 = (Inr (Inr art, j), h')"
    by (rule finalize_provision_succeeded [OF fin assms(2)])
  obtain out hc hc' where out: "art = JObj out" "cp_render rs C i hc = (Inr out, hc')" by (rule broker_render_applied [OF render peer])
  from suc obtain i2 h1 where mark: "mark_operation_succeeded (env_now E h0) art (i\<lparr>si_status := status_succeeded\<rparr>) = Inr i2"
    and put: "put_instance E i2 h0 = (Inr j, h1)" by (auto simp: finalize_succeeded_def Let_def run_ok)
  show thesis
  proof (rule cp_render_ok [OF out(2)])
    fix r a vr ar h1 h2 h3 assume run: "get_renderer rs (si_service_id i) = Some r" "rd_render r C i hc = (Inr a, h1)"
      "rd_validate r C a h1 = (Inr vr, h2)" "vr_ok vr" "rd_apply r C a h2 = (Inr ar, h3)" "ar_ok ar"
      and ans: "map_of out ''manifest'' = Some (JList (map dump_step (ar_applied_steps ar)))" "map_of out ''version'' = Some (JInt (ra_version a))"
    have "si_applied_version j = Some (ra_version a)" "map_of (si_apply_outputs j) ''manifest'' = Some (JList (map dump_step (ar_applied_steps ar)))"
      using mark put ans unfolding out(1) by (auto simp: mark_operation_succeeded_def jget_or_def put_instance_run)
    with run that show thesis by blast
  qed
qed

lemma finalize_desired:
  assumes "finalize_provision E c tid metered action i h = (Inr (Inr art, j), h')" "si_operation_state i \<noteq> None"
  shows "desired j = desired i"
proof (rule finalize_provision_succeeded [OF assms])
  fix h0 assume "finalize_succeeded E c tid metered action art i h0 = (Inr (Inr art, j), h')"
  then obtain now i2 h1 where "mark_operation_succeeded now art (i\<lparr>si_status := status_succeeded\<rparr>) = Inr i2"
    "put_instance E i2 h0 = (Inr j, h1)" by (auto simp: finalize_succeeded_def Let_def run_ok)
  then show ?thesis using desired_succeeded by (auto simp: put_instance_run)
qed

lemma provision_applied:
  assumes created: "provision E c iid req ai h = (Inr (Created body), h')" and wf_req: "wf_params (pr_parameters req)"
    and peer: "render_answered_by rs C errors E" "renderers_raise_errors rs C" "pydantic_exact C"
  obtains i d j r a vr ar hc h1 h2 h3 where "si_instance_id i = iid" "desired i = requested req" "settled i d j" "desired j = requested req"
    "table_view c0 h' INSTANCES [iid] = Some (instance_item j)"
    "get_renderer rs (pr_service_id req) = Some r" "rd_render r C i hc = (Inr a, h1)"
    "rd_validate r C a h1 = (Inr vr, h2)" "vr_ok vr" "rd_apply r C a h2 = (Inr ar, h3)" "ar_ok ar"
    "si_applied_version j = Some (ra_version a)"
    "map_of (si_apply_outputs j) ''manifest'' = Some (JList (map dump_step (ar_applied_steps ar)))"
proof (rule provision_created [OF created])
  fix tid i art j h1
  assume st: "provision_started E c iid req h tid i h1"
    and fin: "finalize_provision E c tid True ''instance.provisioned'' i h1 = (Inr (Inr art, j), h')"
  note i = provision_started_instance [OF st] started_desired [OF st]
  have wf: "wf_params (si_parameters i)" and op: "si_operation_state i \<noteq> None" using i wf_req by simp_all
  obtain d where d: "settled i d j" "table_view c0 h' INSTANCES [si_instance_id i] = Some (instance_item j)"
    by (rule finalize_settles [OF fin op])
  have same: "desired j = requested req" using finalize_desired [OF fin op] i(9) by simp
  have svc: "si_service_id i = pr_service_id req" using i(9) by (simp add: desired_def requested_def)
  show ?thesis
    by (rule finalize_applied [OF fin op peer wf]) (rule that [of i d j], use i d same svc in simp_all)
qed

section \<open>The renderer that ships with the control plane\<close>

lemma aws_exn_not_http [simp]: "\<not> is_HTTPException (aws_exn y)"
  by (cases y) simp_all

lemma build_doc_raises: "build_doc s i = Inl x \<Longrightarrow> \<not> is_HTTPException x"
  by (auto dest: build_doc_Inl)

lemma envoy_apply_raises: "raises_only (\<lambda>x. \<not> is_HTTPException x) (envoy_apply_loop E a applied steps)"
proof (induction steps arbitrary: applied)
  case (Cons st steps)
  have put: "raises_only (\<lambda>x. \<not> is_HTTPException x) (s3_put E b k body ct)" for b k body ct
    unfolding raises_only_def wp_def s3_put_def by (auto simp: Let_def map_sum_Inl_iff split: prod.splits sum.splits)
  have param: "raises_only (\<lambda>x. \<not> is_HTTPException x) (s3_param j)" for j
    unfolding s3_param_def by (cases j) (auto intro!: raises_rules)
  show ?case
    using Cons by (auto intro!: raises_rules raises_catch [where R = "\<lambda>x. \<not> is_HTTPException x"] put param split: option.split)
qed (simp add: raises_ret)

lemma envoy_raises_errors: "renderers_raise_errors [(''sovereign-envoy-lb'', EnvoyRenderer L reg)] E"
proof -
  have "raises_only (\<lambda>x. \<not> is_HTTPException x) (envoy_render L E i)" for i
    unfolding envoy_render_def new_artifact_def
    by (auto intro!: raises_rules dest: build_doc_raises split: sum.split)
  moreover have "raises_only (\<lambda>x. \<not> is_HTTPException x) (envoy_validate L E a)" for a
    unfolding envoy_validate_def by (auto intro!: raises_rules split: option.split sum.split)
  ultimately show ?thesis
    by (auto simp: renderers_raise_errors_def get_renderer_def EnvoyRenderer_def envoy_apply_def envoy_apply_raises split: if_splits)
qed

end
