(* ===== verification/Deployed.thy ===== *)
theory Deployed
  imports Composition CatalogRoutes
begin

text \<open>
  The control plane as it starts: the Envoy renderer, the renderers of whichever shipped packs are
  installed, in any order, and the default executors. Shown: none of them raises an HTTP answer of its
  own, each renders the version of the instance, and so a provision that the broker answers with 201 is
  applied at exactly the version that was asked for.
\<close>

section \<open>The default executors\<close>

abbreviation own_errors :: "'a prog \<Rightarrow> bool" where
  "own_errors m \<equiv> raises_only (\<lambda>x. \<not> is_HTTPException x) m"

lemma http_own: "own_errors (http_io E rq)"
  by (auto simp: raises_only_def wp_def http_io_def Let_def map_sum_Inl_iff split: prod.split sum.split)

lemma tool_own: "own_errors (run_tool E cmd)"
proof -
  have "own_errors (run_cli E cmd)" by (auto simp: raises_only_def wp_def run_cli_def Let_def map_sum_Inl_iff split: prod.split sum.split)
  moreover have "own_errors (token_hex_io E n)" for n by (simp add: raises_only_def wp_def token_hex_io_def)
  ultimately show ?thesis unfolding run_tool_def subprocess_trace_env_def current_or_new_trace_id_def by (intro raises_rules)
qed

lemma arg_own: "own_errors (cli_arg j)"
  unfolding cli_arg_def by (cases j) (auto intro!: raises_rules)

lemma default_executors_own:
  "own_errors (noop_execute E st)" "own_errors (k8s_execute E st)" "own_errors (helm_execute E st)"
  "own_errors (terraform_execute E st)" "own_errors (webhook_execute E st)"
proof -
  show "own_errors (noop_execute E st)" unfolding noop_execute_def by (intro raises_rules)
  show "own_errors (k8s_execute E st)" unfolding k8s_execute_def Let_def
    by (intro raises_rules arg_own tool_own) (auto intro!: raises_rules)
  show "own_errors (helm_execute E st)" unfolding helm_execute_def Let_def
    by (intro raises_rules arg_own tool_own) (auto intro!: raises_rules)
  show "own_errors (terraform_execute E st)" unfolding terraform_execute_def Let_def
    by (intro raises_rules tool_own) (auto intro!: raises_rules tool_own split: json.split)
  show "own_errors (webhook_execute E st)" unfolding webhook_execute_def
    by (intro raises_rules raises_catch [OF raises_bind [OF http_own]]) (auto intro!: raises_rules)
qed

definition executors_own_errors :: "executors \<Rightarrow> env \<Rightarrow> bool" where
  "executors_own_errors reg E \<longleftrightarrow> (\<forall>k x st. get_executor reg k = Some x \<longrightarrow> own_errors (ex_execute x E st))"

lemma registered_executors_own:
  assumes "register_default_executors [] = Inr reg"
  shows "executors_own_errors reg E"
proof -
  have "x \<in> {NoopExecutor, KubernetesExecutor, HelmExecutor, TerraformExecutor, WebhookExecutor}" if "get_executor reg k = Some x" for k x
    using executor_registry.lookup_register_all [OF assms [unfolded register_default_executors_def], of k] that
    by (auto simp: get_executor_def split: if_splits)
  then show ?thesis unfolding executors_own_errors_def
    using default_executors_own
    by (fastforce simp: NoopExecutor_def KubernetesExecutor_def HelmExecutor_def TerraformExecutor_def WebhookExecutor_def)
qed

lemma apply_manifest_own: "executors_own_errors reg E \<Longrightarrow> own_errors (apply_manifest reg E steps)"
proof -
  assume own: "executors_own_errors reg E"
  have "own_errors (apply_loop reg E applied steps)" for applied
  proof (induction steps arbitrary: applied)
    case (Cons st steps)
    then show ?case using own by (auto simp: executors_own_errors_def intro!: raises_rules split: option.split)
  qed (simp add: raises_ret)
  then show ?thesis by (simp add: apply_manifest_def)
qed

section \<open>The renderers of the packs\<close>

lemma artifact_own: "own_errors (new_artifact E i st files meta man)"
  unfolding new_artifact_def by (auto intro!: raises_rules)

lemma params_own: "own_errors (validated_params cls p)"
  unfolding validated_params_def by (cases p) (auto intro!: raises_rules)

lemma py_int_error: "py_int v = Inl x \<Longrightarrow> \<not> is_HTTPException x"
  by (cases v) (auto split: option.splits)

lemma coerce_ints_own: "coerce_ints ks d = Inl x \<Longrightarrow> \<not> is_HTTPException x"
  by (induction ks d rule: coerce_ints.induct) (auto split: option.splits sum.splits dest: py_int_error)

lemma yaml_validate_own: "own_errors (yaml_validate L file kind E a)"
  unfolding yaml_validate_def kind_check_def by (auto intro!: raises_rules split: option.split sum.split json.split)

lemma json_validate_own: "own_errors (json_validate L file msg E a)"
  unfolding json_validate_def resource_check_def Let_def by (auto intro!: raises_rules split: option.split sum.split json.split)

lemma pack_params_own:
  "own_errors (database_params E i)" "own_errors (vector_db_params E i)" "own_errors (cloud_account_params E i)"
  "own_errors (landing_zone_params E i)" "own_errors (idp_broker_params E i)" "own_errors (scim_params E i)"
  "own_errors (email_params E i)" "own_errors (chat_params E i)" "own_errors (inference_params E i)" "own_errors (rag_params E i)"
  "own_errors (siem_params E i)" "own_errors (pipeline_params E i)" "own_errors (edge_node_params E i)"
  "own_errors (edge_cluster_params E i)" "own_errors (ledger_params E i)"
  unfolding config_params_defs workload_params_defs
  by (intro raises_lift raises_bind params_own; erule coerce_ints_own)+

lemmas pack_render_defs = database_render_def vector_db_render_def cloud_account_render_def landing_zone_render_def idp_broker_render_def
  scim_render_def email_render_def chat_render_def inference_render_def rag_render_def siem_render_def pipeline_render_def
  edge_node_render_def edge_cluster_render_def ledger_render_def

lemma pack_render_own:
  "own_errors (database_render L E i)" "own_errors (vector_db_render L E i)" "own_errors (cloud_account_render L E i)"
  "own_errors (landing_zone_render L E i)" "own_errors (idp_broker_render L E i)" "own_errors (scim_render L E i)"
  "own_errors (email_render L E i)" "own_errors (chat_render L E i)" "own_errors (inference_render L E i)" "own_errors (rag_render L E i)"
  "own_errors (siem_render L E i)" "own_errors (pipeline_render L E i)" "own_errors (edge_node_render L E i)"
  "own_errors (edge_cluster_render L E i)" "own_errors (ledger_render L E i)"
  unfolding pack_render_defs Let_def by (intro raises_bind pack_params_own artifact_own)+

definition renderer_own_errors :: "env \<Rightarrow> renderer \<Rightarrow> bool" where
  "renderer_own_errors E r \<longleftrightarrow> (\<forall>i a. own_errors (rd_render r E i) \<and> own_errors (rd_validate r E a) \<and> own_errors (rd_apply r E a))"

lemma pack_renderers_own:
  assumes "executors_own_errors reg E"
  shows "list_all (renderer_own_errors E) [InferenceEndpointRenderer L reg, RagWorkspaceRenderer L reg, SiemWorkspaceRenderer L reg,
    LogPipelineRenderer L reg, EdgeNodeRenderer L reg, EdgeClusterRenderer L reg, PermissionedLedgerRenderer L reg,
    ManagedDatabaseRenderer L reg, VectorDbRenderer L reg, CloudAccountRenderer L reg, LandingZoneRenderer L reg,
    IdpBrokerRenderer L reg, ScimBridgeRenderer L reg, SecureEmailRenderer L reg, SecureChatRenderer L reg]"
proof -
  have apply_own: "own_errors (pack_apply reg E a)" "own_errors (config_apply E a)" for a
    by (simp_all add: pack_apply_def config_apply_def apply_manifest_own [OF assms] raises_ret)
  show ?thesis
    by (simp add: renderer_own_errors_def pack_renderer_defs pack_render_own apply_own yaml_validate_own json_validate_own)
qed

section \<open>The control plane as deployed\<close>

text \<open>The module registers the Envoy renderer, start-up the executors and the packs.\<close>

definition initial_chassis :: "text_lib \<Rightarrow> executors \<Rightarrow> chassis" where
  "initial_chassis L reg = \<lparr>ch_renderers = [(''sovereign-envoy-lb'', EnvoyRenderer L reg)], ch_connectors = [], ch_packs = []\<rparr>"

definition deployed_renderers :: "text_lib \<Rightarrow> executors \<Rightarrow> (exn + pack) list \<Rightarrow> renderers" where
  "deployed_renderers L reg eps = ch_renderers (snd (discover_packs eps (initial_chassis L reg)))"

lemma registered_from:
  "get_renderer (fold (try_register register_renderer) ws rs) k = Some r \<Longrightarrow> r \<in> set ws \<or> get_renderer rs k = Some r"
proof (induction ws arbitrary: rs)
  case (Cons w ws)
  then have "r \<in> set ws \<or> get_renderer (try_register register_renderer w rs) k = Some r" by simp
  then show ?case by (auto simp: try_register_def register_renderer_def get_renderer_def update_conv split: if_splits sum.splits)
qed simp

lemma discovered_from:
  "get_renderer (ch_renderers (snd (discover_loop eps c ds))) k = Some r \<Longrightarrow>
     get_renderer (ch_renderers c) k = Some r \<or> (\<exists>p. Inr p \<in> set eps \<and> r \<in> set (pk_renderers p))"
proof (induction eps c ds rule: discover_loop.induct)
  case (3 p eps c ds)
  then have "get_renderer (ch_renderers (register_pack p c)) k = Some r \<or> (\<exists>p. Inr p \<in> set eps \<and> r \<in> set (pk_renderers p))" by simp
  then show ?case using registered_from [of "pk_renderers p" "ch_renderers c" k r] by (auto simp: register_pack_def pack_register_def)
qed auto

lemma deployed_from:
  assumes "get_renderer (deployed_renderers L reg eps) k = Some r" "\<forall>p. Inr p \<in> set eps \<longrightarrow> p \<in> set (shipped_packs L reg dir)"
  shows "r = EnvoyRenderer L reg \<or> (\<exists>p\<in>set (shipped_packs L reg dir). r \<in> set (pk_renderers p))"
  using discovered_from [of eps "initial_chassis L reg" "[]" k r] assms
  by (auto simp: deployed_renderers_def discover_packs_def initial_chassis_def get_renderer_def split: if_splits)

lemma shipped_own:
  assumes "executors_own_errors reg E" "p \<in> set (shipped_packs L reg dir)" "r \<in> set (pk_renderers p)"
  shows "renderer_own_errors E r"
  using pack_renderers_own [OF assms(1), of L] assms(2,3) by (auto simp: shipped_packs_def pack_defs)

lemma envoy_own: "renderer_own_errors E (EnvoyRenderer L reg)"
  using envoy_raises_errors [of L reg E] by (simp add: renderers_raise_errors_def renderer_own_errors_def get_renderer_def)

lemma deployed_raise_errors:
  assumes "register_default_executors [] = Inr reg" "\<forall>p. Inr p \<in> set eps \<longrightarrow> p \<in> set (shipped_packs L reg dir)"
  shows "renderers_raise_errors (deployed_renderers L reg eps) E"
  unfolding renderers_raise_errors_def
  using deployed_from [OF _ assms(2)] shipped_own [OF registered_executors_own [OF assms(1)]] envoy_own
  by (metis renderer_own_errors_def)

lemma deployed_version:
  assumes "\<forall>p. Inr p \<in> set eps \<longrightarrow> p \<in> set (shipped_packs L reg dir)" "get_renderer (deployed_renderers L reg eps) k = Some r"
    "rd_render r E i h = (Inr a, h')"
  shows "ra_version a = si_version i"
proof (rule disjE [OF deployed_from [OF assms(2,1)]])
  assume "r = EnvoyRenderer L reg"
  with assms(3) show ?thesis by (auto simp: EnvoyRenderer_def envoy_render_def run_ok new_artifact_run split: sum.splits)
next
  assume "\<exists>p\<in>set (shipped_packs L reg dir). r \<in> set (pk_renderers p)"
  then obtain resource where "pack_renderer L reg r resource" using shipped_contract by blast
  from pack_renderer.render_law [OF this assms(3)] show ?thesis by simp
qed

end
