(* ===== verification/Scenario.thy ===== *)
theory Scenario
  imports Reconciliation RateLimit Secrets Oidc CatalogRoutes Connectors AuditQuery Telemetry FinOps Backup Monitor Pilot Tables Evidence Deployed
    "HOL-Library.Countable"
begin

text \<open>
  A small deployment on which the hypotheses of the theorems are exercised: development settings,
  in-memory tables that read back what was written, peers that answer every request with 200, and a
  JSON reader that accepts exactly the declared types.
\<close>

definition sample_settings :: settings where
  "sample_settings = \<lparr>cfg_env = ''dev'', cfg_aws_region = ''r'', cfg_dynamodb_endpoint = None, cfg_s3_endpoint = None,
     cfg_s3_access_key = ''k'', cfg_s3_secret_key = ''s'', cfg_config_bucket = ''b'', cfg_clickhouse_host = ''c'',
     cfg_clickhouse_port = 8123, cfg_clickhouse_database = ''d'', cfg_control_plane_url = ''cp'', cfg_audit_service_url = ''au'',
     cfg_metering_service_url = ''me'', cfg_opa_url = ''opa'', cfg_opa_decision_path = ''p'', cfg_broker_username = ''u'',
     cfg_broker_password = ''w'', cfg_dev_bearer_token = ''t'', cfg_shared_bearer_auth_enabled = True,
     cfg_broker_trust_basic_auth = True, cfg_strict_secrets = False, cfg_dev_jwt_secret = ''j'', cfg_oidc_issuer_url = [],
     cfg_oidc_audience = [], cfg_require_oidc = False, cfg_oidc_jwks_cache_ttl_seconds = 300, cfg_oidc_jwks_stale_grace_seconds = 300,
     cfg_service_name = ''broker'', cfg_rate_limit_rps = 1, cfg_rate_limit_burst = 2, cfg_reconcile_interval_seconds = 30,
     cfg_reconcile_batch_limit = 100, cfg_audit_spool_path = [], cfg_audit_retention_days = 1, cfg_siem_webhook_url = [],
     cfg_siem_webhook_token = [], cfg_siem_webhook_timeout_seconds = 1, cfg_audit_signature_key_id = [],
     cfg_audit_signing_private_key_pem = [], cfg_require_audit_signing = False, cfg_secrets_provider = ''env'',
     cfg_secrets_prefix = [], cfg_secrets_ttl_seconds = 1, cfg_vault_addr = [], cfg_vault_token = [], cfg_vault_kv_mount = [],
     cfg_require_managed_secrets = False, cfg_workload_identity_enabled = False, cfg_allowed_workload_identities = [],
     cfg_mtls_required = False, cfg_workload_identity = [], cfg_mesh_sds_enabled = False, cfg_mesh_sds_socket_path = [],
     cfg_mesh_mtls_strict = False, cfg_portal_origins = []\<rparr>"

definition sample_response :: http_response where
  "sample_response = \<lparr>rs_status = 200, rs_json = Some (JObj [(''result'', JObj [(''allow'', JBool True)])]), rs_text = []\<rparr>"

definition sample_env :: env where
  "sample_env = \<lparr>env_settings = sample_settings, env_trace_id = None, env_now = (\<lambda>_. ''t0''), env_token_hex = (\<lambda>_ _. ''ab''),
     env_get_item = (\<lambda>h t k. Inr (table_view (\<lambda>_. Map.empty) h t k)), env_put_item = (\<lambda>_ _ _. Inr ()),
     env_delete_item = (\<lambda>_ _ _. Inr ()), env_query = (\<lambda>_ _ _. Inr []), env_scan = (\<lambda>_ _ _. Inr []),
     env_http = (\<lambda>_ _. Inr sample_response), env_s3_put = (\<lambda>_ _ _ _ _. Inr ()), env_s3_get = (\<lambda>_ _ _. Inr []),
     env_s3_list = (\<lambda>_ _ _. ([], None)), env_s3_delete = (\<lambda>_ _ _. Inr ()), env_which = (\<lambda>_. False),
     env_run = (\<lambda>_ _. Inl []), env_oidc_verify = (\<lambda>_ _ _ _. Inl (InvalidTokenError [])),
     env_jwt_decode = (\<lambda>_ _. Inl (InvalidTokenError [])), env_str_exn = (\<lambda>_. ''x''), env_str_json = (\<lambda>_. ''j''),
     env_json_dumps = (\<lambda>_. ''j''), env_pyd_int = (\<lambda>j. case j of JInt i \<Rightarrow> Some i | _ \<Rightarrow> None),
     env_pyd_float = (\<lambda>j. case j of JFloat r \<Rightarrow> Some r | _ \<Rightarrow> None),
     env_pyd_str = (\<lambda>j. case j of JStr s \<Rightarrow> Some s | _ \<Rightarrow> None),
     env_pyd_bool = (\<lambda>j. case j of JBool b \<Rightarrow> Some b | _ \<Rightarrow> None),
     env_pyd_datetime = (\<lambda>j. case j of JStr s \<Rightarrow> Some s | _ \<Rightarrow> None), env_dump_datetime = (\<lambda>t. t)\<rparr>"

definition sample_request :: ProvisionRequest where
  "sample_request = \<lparr>pr_service_id = ''lb'', pr_plan_id = ''p'', pr_organization_guid = Some ''org'',
     pr_space_guid = None, pr_parameters = \<lparr>lb_region = ''r'', lb_listeners = [], lb_routes = [], lb_clusters = [], lb_mtls_enabled = False, lb_sidecar_mode = False, lb_tags = []\<rparr>\<rparr>"

lemma sample_env_simps [simp]:
  "env_settings sample_env = sample_settings" "env_now sample_env h = ''t0''"
  "env_get_item sample_env h t k = Inr (table_view (\<lambda>_. Map.empty) h t k)" "env_put_item sample_env h t i = Inr ()"
  "env_delete_item sample_env h t k = Inr ()" "env_query sample_env h t q = Inr []" "env_scan sample_env h t sc = Inr []"
  "env_http sample_env h rq = Inr sample_response"
  by (simp_all add: sample_env_def)

lemma sample_env_ok:
  "ddb_reads_back sample_env (\<lambda>_. Map.empty)" "pydantic_exact sample_env" "tables_up sample_env"
  "control_plane_up sample_env"
  by (simp_all add: ddb_reads_back_def pydantic_exact_def tables_up_def control_plane_up_def sample_response_def
      jget_or_def, simp_all add: sample_env_def)

lemma sample_request_wf: "wf_params (pr_parameters sample_request)"
  by (simp add: wf_params_def sample_request_def)

text \<open>The sample request, provisioned at once: the deployment answers 201.\<close>

definition sample_run :: "(exn + provision_response) \<times> event list" where
  "sample_run = provision sample_env (basic_caller ''u'') ''i1'' sample_request False []"

lemma sample_run_created: "case fst sample_run of Inr (Created _) \<Rightarrow> True | _ \<Rightarrow> False"
  by code_simp

lemma sample_provision:
  obtains body where "provision sample_env (basic_caller ''u'') ''i1'' sample_request False [] = (Inr (Created body), snd sample_run)"
proof -
  from sample_run_created obtain body where "fst sample_run = Inr (Created body)"
    by (auto split: sum.splits provision_response.splits)
  then have "sample_run = (Inr (Created body), snd sample_run)" by (metis prod.collapse)
  with that show ?thesis unfolding sample_run_def by blast
qed

text \<open>Variants: a token caller with a role binding, a policy engine that is down, and a table that
  already holds an instance.\<close>

definition sample_user :: Caller where
  "sample_user = \<lparr>ca_user = \<lparr>tu_principal = ''p'', tu_tenant_id = JNull, tu_groups = [], tu_raw = []\<rparr>, ca_is_basic = False\<rparr>"

definition sample_binding :: RoleBinding where
  "sample_binding = \<lparr>rb_principal = ''p'', rb_tenant_id = ''org'', rb_role = program_team, rb_granted_at = ''t'',
     rb_granted_by = ''a'', rb_metadata = []\<rparr>"

definition role_env :: env where
  "role_env = sample_env\<lparr>env_query := (\<lambda>_ t _. Inr (if t = ROLE_BINDING_TABLE
     then [\<lparr>it_key = [''p'', ''org''], it_attrs = [], it_payload = PText (JObj (dump_role_binding sample_env sample_binding))\<rparr>]
     else []))\<rparr>"

definition policy_down_env :: env where
  "policy_down_env = sample_env\<lparr>env_http := (\<lambda>_ _. Inl ''down'')\<rparr>"

definition sample_instance :: ServiceInstance where
  "sample_instance = new_instance ''t0'' ''i1'' sample_request"

definition stored_contents :: contents where
  "stored_contents = (\<lambda>t. if t = INSTANCES then [[''i1''] \<mapsto> instance_item sample_instance] else Map.empty)"

definition stored_env :: env where
  "stored_env = sample_env\<lparr>env_get_item := (\<lambda>h t k. Inr (table_view stored_contents h t k))\<rparr>"

lemma trace_event:
  assumes "list_ex W (snd (m []))"
  obtains r pre e post where "m [] = (r, pre @ e # post)" "W e"
proof -
  from assms obtain e where "e \<in> set (snd (m []))" "W e" by (auto simp: list_ex_iff)
  then obtain pre post where "snd (m []) = pre @ e # post" by (meson split_list)
  with that [of "fst (m [])" pre e post] \<open>W e\<close> show ?thesis by (metis prod.collapse)
qed

definition cp_down_env :: env where
  "cp_down_env = sample_env\<lparr>env_http := (\<lambda>_ rq. if rq_url rq = ''cp/render'' then Inl ''down'' else Inr sample_response)\<rparr>"

lemma cp_down_render: "isl (fst (broker_render cp_down_env i h))"
proof -
  obtain hs where hs: "service_auth_headers cp_down_env h = (Inr hs, h)" using service_auth_headers_run by blast
  have env: "env_http cp_down_env h rq = (if rq_url rq = ''cp/render'' then Inl ''down'' else Inr sample_response)"
    "cfg cp_down_env = sample_settings" for rq by (simp_all add: cp_down_env_def)
  show ?thesis
    by (simp add: broker_render_def cp_call_def catch_io_def bind_io_def hs http_io_def Let_def env sample_settings_def)
qed

definition read_outage_env :: env where
  "read_outage_env = stored_env\<lparr>env_get_item := (\<lambda>h t k. if t = INSTANCES then Inl (AwsClient ''Throttling'' []) else Inr None)\<rparr>"

lemma role_env_snapshots: "roles_snapshot role_env ''p'' [sample_binding]" "tenants_snapshot role_env []"
proof -
  have "decode_role_binding role_env ''t0'' \<lparr>it_key = [''p'', ''org''], it_attrs = [],
     it_payload = PText (JObj (dump_role_binding sample_env sample_binding))\<rparr> = Inr sample_binding" by code_simp
  then show "roles_snapshot role_env ''p'' [sample_binding]"
    by (simp add: roles_snapshot_def roles_for_def client_error_as_runtime_def bind_io_def catch_io_def
        query_items_def now_io_def role_env_def Let_def)
  show "tenants_snapshot role_env []"
    by (simp add: tenants_snapshot_def list_all_tenants_def client_error_as_runtime_def bind_io_def catch_io_def
        scan_items_def now_io_def role_env_def Let_def)
qed

definition sync_user :: TokenUser where
  "sync_user = \<lparr>tu_principal = ''p'', tu_tenant_id = JStr ''org'', tu_groups = [JStr ''a'', JStr ''b''], tu_raw = []\<rparr>"

abbreviation "sample_sync \<equiv> sync_groups_to_roles sample_env sync_user None (Some [(''a'', auditor), (''b'', program_team)]) [] ''idp''"

definition quota_env :: env where
  "quota_env = sample_env\<lparr>env_get_item := (\<lambda>h t k. Inr (if t = QUOTA_TABLE then Some \<lparr>it_key = k, it_attrs = [],
     it_payload = PText (JObj (dump_quota sample_env \<lparr>qt_tenant_id = ''org'', qt_scope = ''s'', qt_max_instances = Some 2000,
       qt_max_compute_units = None, qt_period = lifetime, qt_metadata = [], qt_updated_at = ''t''\<rparr>))\<rparr> else None))\<rparr>"

definition sample_audit :: audit_world where
  "sample_audit = \<lparr>aw_env = sample_env, aw_sha256 = (\<lambda>s. ''h'' @ s), aw_canonical = (\<lambda>_. ''c''),
     aw_sign = (\<lambda>_ _. Inr ''s''), aw_connect = (\<lambda>_. True), aw_insert = (\<lambda>_. True), aw_append = (\<lambda>_. True),
     aw_read = (\<lambda>_. True), aw_unlink = (\<lambda>_. True)\<rparr>"

definition sample_event :: AuditEvent where
  "sample_event = audit_event ''broker'' ''t'' ''a'' ''r'' [] None ''org'' ''allow'' []"

definition managed_settings :: settings where
  "managed_settings = sample_settings\<lparr>cfg_env := ''prod'', cfg_broker_trust_basic_auth := False,
     cfg_shared_bearer_auth_enabled := False, cfg_mtls_required := True\<rparr>"

section \<open>Text formats\<close>

text \<open>A codec that writes every JSON value as a text of its own.\<close>

instance json :: countable
  by countable_datatype

definition sample_text :: text_lib where
  "sample_text = \<lparr>tl_yaml_dump = \<lambda>j. replicate (to_nat j) CHR ''x'', tl_yaml_load = \<lambda>s. Inr (from_nat (length s)),
     tl_json_dumps = \<lambda>j. replicate (to_nat j) CHR ''x'', tl_json_loads = \<lambda>s. Inr (from_nat (length s))\<rparr>"

lemma sample_text_exact: "text_lib_exact sample_text"
  by (simp add: text_lib_exact_def sample_text_def)

definition sample_params :: "bool \<Rightarrow> string \<Rightarrow> (string \<times> string) list \<Rightarrow> LbParameters" where
  "sample_params mtls endpoint tags = \<lparr>lb_region = ''us-gov-west-1'', lb_listeners = default_listeners,
     lb_routes = [\<lparr>rt_host = ''app.example'', rt_prefix = ''/'', rt_cluster = ''web''\<rparr>],
     lb_clusters = [\<lparr>cl_name = ''web'', cl_endpoints = [endpoint]\<rparr>], lb_mtls_enabled = mtls, lb_sidecar_mode = False, lb_tags = tags\<rparr>"

definition mtls_instance :: ServiceInstance where
  "mtls_instance = sample_instance\<lparr>si_parameters := sample_params True ''10.0.0.1:8080'' []\<rparr>"

definition portless_instance :: ServiceInstance where
  "portless_instance = sample_instance\<lparr>si_service_id := ''sovereign-envoy-lb'', si_parameters := sample_params False ''backend'' []\<rparr>"

definition inference_instance :: ServiceInstance where
  "inference_instance = sample_instance\<lparr>si_service_id := ''inference-endpoint'',
     si_parameters := sample_params False ''10.0.0.1:8080'' [(''model_id'', ''llama'')]\<rparr>"

lemma inference_instance_renders:
  "\<exists>a. rd_render (InferenceEndpointRenderer sample_text []) sample_env inference_instance [] = (Inr a, [])"
proof -
  have "\<not> isl (fst (inference_params sample_env inference_instance []))" by code_simp
  then obtain p where "inference_params sample_env inference_instance [] = (Inr p, [])"
    using silentD [OF workload_params_silent(1)] by (metis isl_def prod.collapse sum.exhaust)
  moreover have "\<not> si_version inference_instance < 1" by code_simp
  ultimately show ?thesis
    by (simp add: InferenceEndpointRenderer_def inference_render_def bind_io_def new_artifact_def now_io_def Let_def)
qed

text \<open>A parameter store whose secret is rotated at time 50, behind a cache of one minute.\<close>

definition rotated_world :: secret_world where
  "rotated_world = \<lparr>sw_environ = (\<lambda>_. None), sw_asm = (\<lambda>_ _. Inl (AwsBoto [])),
     sw_ssm = (\<lambda>t _. Inr [(''Parameter'', JObj [(''Value'', JStr (if t < 50 then ''old'' else ''new''))])]),
     sw_vault = (\<lambda>_ _ _. Inl []), sw_str = (\<lambda>v. case v of JStr w \<Rightarrow> w | _ \<Rightarrow> []), sw_utf8 = Inr, sw_b64 = Inr\<rparr>"

definition ssm_settings :: settings where
  "ssm_settings = sample_settings\<lparr>cfg_secrets_provider := ''ssm'', cfg_secrets_ttl_seconds := 60\<rparr>"

lemma ssm_provider: "build_provider ssm_settings = Inr (RotatingSecretsProvider (AwsSsmParameterProvider []) 60 [])"
  by code_simp

text \<open>An identity provider that serves one document, allowed to be cached for 20 seconds, as both the
  discovery document and the key set; the clock advances with every event.\<close>

definition idp_document :: json where
  "idp_document = JObj [(''jwks_uri'', JStr ''u''), (''keys'', JList [])]"

definition idp_env :: env where
  "idp_env = sample_env\<lparr>env_http := (\<lambda>_ _. Inr \<lparr>rs_status = 200, rs_json = Some idp_document, rs_text = []\<rparr>),
     env_settings := sample_settings\<lparr>cfg_oidc_issuer_url := ''https://idp/''\<rparr>\<rparr>"

definition idp_lib :: oidc_lib where
  "idp_lib = \<lparr>ol_time = (\<lambda>h. of_nat (length h)), ol_cache_control = (\<lambda>_. ''public, max-age=20''), 
     ol_key_plan = (\<lambda>_. FetchKeys (\<lambda>j. if j = idp_document then UseKey ''key'' else FailKey (InvalidTokenError ''kid''))),
     ol_jwt_decode = (\<lambda>t k alg iss aud. if iss = ''https://idp'' then Inr [] else Inl (InvalidTokenError ''issuer''))\<rparr>"

text \<open>A chassis with nothing registered.\<close>

definition sample_chassis :: chassis where
  "sample_chassis = \<lparr>ch_renderers = [], ch_connectors = [], ch_packs = []\<rparr>"

lemma sample_chassis_keyed: "keyed_renderers (ch_renderers sample_chassis)"
  by (simp add: keyed_renderers_def sample_chassis_def get_renderer_def)

lemma sample_chassis_discovers:
  "get_renderer (ch_renderers (snd (discover_packs [Inl (RuntimeError ''broken''), Inr (ai_pack sample_text [] ''policies'')] sample_chassis)))
      (sc_service_type InferenceEndpointRenderer_entry) = Some (InferenceEndpointRenderer sample_text [])"
  "catalog_entry_of (InferenceEndpointRenderer sample_text []) = Some InferenceEndpointRenderer_entry"
  by (simp add: discover_packs_def register_pack_def pack_register_def ai_pack_def chassis_pack_def sample_chassis_def
      try_register_def register_renderer_def get_renderer_def InferenceEndpointRenderer_def RagWorkspaceRenderer_def Let_def InferenceEndpointRenderer_entry_def)
    (simp add: catalog_entry_of_def service_entries_def entry_defs InferenceEndpointRenderer_def)

text \<open>Two tables in pages of two rows, whose snapshot is the only JSON text there is, and a bucket that
  reads back.\<close>

definition sample_row :: "string \<Rightarrow> item" where
  "sample_row k = \<lparr>it_key = [k], it_attrs = [], it_payload = PText JNull\<rparr>"

definition sample_rows :: "string \<Rightarrow> item list" where
  "sample_rows t = (if t = ''sovereign_instances'' then [sample_row ''a'', sample_row ''b'', sample_row ''c''] else [])"

definition sample_contents :: contents where
  "sample_contents t k = map_of (map (\<lambda>i. (it_key i, i)) (sample_rows t)) k"

definition sample_snapshot :: snapshot where
  "sample_snapshot = \<lparr>sn_format_version = 1, sn_tables = map (\<lambda>t. (t, sample_rows t)) SNAPSHOT_TABLES\<rparr>"

definition sample_backup :: backup_lib where
  "sample_backup = \<lparr>bl_scan = (\<lambda>t s h. (Inr (paged_scan 2 (sample_rows t) s), h)),
     bl_batch = (\<lambda>t items h. (Inr (), h @ map (\<lambda>i. EvPut t i (Inr ())) items)),
     bl_dumps = (\<lambda>s. if s = sample_snapshot then Inr ''snapshot'' else Inl (TypeError [])), bl_loads = (\<lambda>_. Inr sample_snapshot)\<rparr>"

definition backup_env :: env where
  "backup_env = sample_env\<lparr>env_s3_get := \<lambda>h b k. case fold apply_s3 h Map.empty (b, k) of Some body \<Rightarrow> Inr body | None \<Rightarrow> Inl (AwsClient ''NoSuchKey'' [])\<rparr>"

definition sample_backup_run :: "event list" where
  "sample_backup_run = [EvS3Put ''b'' ''k'' ''snapshot'' ''application/json'' (Inr ())]"

lemma sample_scan: "scan_all sample_backup t None h = Some (Inr (sample_rows t), h)"
  by (rule paged_scan_all [where n = 2]) (auto simp: sample_backup_def sample_row_def sample_rows_def split: if_splits)

lemma sample_backup_runs: "backup_main sample_backup backup_env BackupAction ''b'' ''k'' [] = Some (Inr 0, sample_backup_run)"
proof -
  have x: "export_snapshot sample_backup SNAPSHOT_TABLES [] = Some (Inr sample_snapshot, [])"
    by (simp add: export_snapshot_def SNAPSHOT_TABLES_def sample_scan sample_snapshot_def SNAPSHOT_FORMAT_VERSION_def)
  have d: "bl_dumps sample_backup sample_snapshot = Inr ''snapshot''" by (simp add: sample_backup_def)
  have p: "env_s3_put backup_env h b k body ct = Inr ()" for h b k body ct by (simp add: backup_env_def sample_env_def)
  show ?thesis by (simp add: backup_main_def x write_snapshot_to_s3_def d seq_io_def bind_io_def ret_def s3_put_def p sample_backup_run_def)
qed

lemma sample_restore_runs:
  "\<exists>h2. backup_main sample_backup backup_env RestoreAction ''b'' ''k'' (sample_backup_run @ [EvDelete ''sovereign_instances'' [''a''] (Inr ())]) = Some (Inr 0, h2)"
    (is "\<exists>h2. backup_main _ _ _ _ _ ?h = _")
proof -
  have g: "env_s3_get backup_env ?h ''b'' ''k'' = Inr ''snapshot''" by (simp add: backup_env_def sample_backup_run_def)
  have l: "bl_loads sample_backup body = Inr sample_snapshot" for body by (simp add: sample_backup_def)
  have "\<exists>cs h'. restore_tables sample_backup None tis h = (Inr cs, h')" for tis h
  proof (induction tis arbitrary: h)
    case (Cons p tis)
    obtain t items where p: "p = (t, items)" by (cases p)
    obtain cs h' where "restore_tables sample_backup None tis (h @ map (\<lambda>i. EvPut t i (Inr ())) items) = (Inr cs, h')" using Cons by blast
    moreover have "bl_batch sample_backup t items h = (Inr (), h @ map (\<lambda>i. EvPut t i (Inr ())) items)" by (simp add: sample_backup_def)
    ultimately show ?case by (simp add: p seq_io_def bind_io_def ret_def)
  qed (simp add: ret_def)
  then obtain cs h' where "restore_tables sample_backup None (sn_tables sample_snapshot) (?h @ [EvS3Get ''b'' ''k'' (Inr ''snapshot'')]) = (Inr cs, h')"
    by blast
  then show ?thesis by (simp add: backup_main_def read_snapshot_from_s3_def s3_get_def g l seq_io_def bind_io_def ret_def restore_snapshot_def)
qed

lemma sample_contents_a: "sample_contents ''sovereign_instances'' [''a''] = Some (sample_row ''a'')"
  by (simp add: sample_contents_def sample_rows_def sample_row_def)

lemma sample_backup_rows:
  assumes "t \<in> set SNAPSHOT_TABLES" "scan_pages sample_backup t None h items h'"
  shows "rows_of (sample_contents t) items"
proof -
  from assms(2) have "items = sample_rows t" using sample_scan [of t h] by (simp add: scan_all_iff [symmetric])
  then show ?thesis by (auto simp: rows_of_def sample_contents_def sample_rows_def sample_row_def split: if_splits)
qed

lemma sample_backup_ok:
  "batch_writes sample_backup" "s3_reads_back backup_env Map.empty"
  "bl_dumps sample_backup snap = Inr body \<Longrightarrow> bl_loads sample_backup body = Inr snap"
  by (auto simp: batch_writes_def sample_backup_def s3_reads_back_def backup_env_def split: if_splits option.splits)

definition sample_monitor :: monitor_lib where
  "sample_monitor = \<lparr>ml_environ = (\<lambda>_. None), ml_since = (\<lambda>_ _. []), ml_loads = (\<lambda>_. Inl []), ml_int = (\<lambda>_. Inr 15), ml_float = (\<lambda>_. Inr 0),
     ml_fixed1 = (\<lambda>_. []), ml_root = ''root'', ml_boto3 = True, ml_head = (\<lambda>_ _ _. True), ml_reports = None\<rparr>"

section \<open>A deferred provision\<close>

definition sample_renderers :: renderers where
  "sample_renderers = [(''sovereign-envoy-lb'', EnvoyRenderer sample_text [])]"

lemma sample_renderers_keep: "teardowns_keep_rows sample_renderers"
  by (simp add: teardowns_keep_rows_def sample_renderers_def get_renderer_def EnvoyRenderer_def envoy_teardown_keeps)

lemma sample_env_untraced [simp]: "sample_env\<lparr>env_trace_id := None\<rparr> = sample_env"
  by (simp add: sample_env_def)

lemma sample_env_lists: "ddb_lists_rows sample_env c0"
  by (simp add: ddb_lists_rows_def)

lemma sample_deferred_accepted:
  "case provision sample_env (basic_caller ''u'') ''i1'' sample_request True [] of (Inr (Accepted body i tid), h1) \<Rightarrow> True | _ \<Rightarrow> False"
  by code_simp

lemma sample_deferred:
  obtains body i tid h1 where "provision sample_env (basic_caller ''u'') ''i1'' sample_request True [] = (Inr (Accepted body i tid), h1)"
    "si_instance_id i = ''i1''" "si_operation_state i = Some in_progress"
proof -
  from sample_deferred_accepted obtain body i tid h1
    where run: "provision sample_env (basic_caller ''u'') ''i1'' sample_request True [] = (Inr (Accepted body i tid), h1)"
    by (auto split: prod.splits sum.splits provision_response.splits)
  with provision_started_instance [OF provision_accepted(2) [OF run]] that show ?thesis by blast
qed

text \<open>The state of the broker after that request.\<close>

lemma sample_accepted_at:
  assumes "provision sample_env (basic_caller ''u'') ''i1'' sample_request True [] = (Inr (Accepted body i tid), h1)"
  shows "platform_at sample_renderers sample_env [(None, ProvisionCall (basic_caller ''u'') ''i1'' sample_request True)]
    [(None, basic_caller ''u'', tid, i)] h1"
proof -
  let ?p = "ProvisionCall (basic_caller ''u'') ''i1'' sample_request True"
  have "handle sample_renderers (traced sample_env None) ?p [] = (Inr [(basic_caller ''u'', tid, i)], h1)"
    using assms by (simp add: bind_io_def deferred_of_def sample_env_untraced)
  from platform_at.answered [OF platform_at.idle _ this] sample_request_wf show ?thesis by simp
qed

lemma sample_deferred_deleted:
  "case provision sample_env (basic_caller ''u'') ''i1'' sample_request True [] of
     (Inr (Accepted body i tid), h1) \<Rightarrow> \<not> isl (fst (deprovision sample_renderers sample_env (basic_caller ''u'') ''i1'' h1)) | _ \<Rightarrow> False"
  by code_simp

definition sample_update :: UpdateRequest where
  "sample_update = \<lparr>ur_service_id = None, ur_plan_id = Some ''q'', ur_parameters = None\<rparr>"

lemma sample_deferred_updated:
  "case provision sample_env (basic_caller ''u'') ''i1'' sample_request True [] of
     (Inr (Accepted body i tid), h1) \<Rightarrow> \<not> isl (fst (update_route sample_env (basic_caller ''u'') ''i1'' sample_update h1)) \<and>
       fst (get_instance sample_env ''i1'' h1) = Inr (Some i) | _ \<Rightarrow> False"
  by code_simp

lemma sample_reads_up: "instance_reads_up sample_env"
  by (simp add: instance_reads_up_def)

section \<open>A broker linked to a control plane\<close>

text \<open>A text library whose documents all read as the empty bootstrap, the Envoy renderer on it, and a broker
  whose render requests the control plane answers.\<close>

definition linked_text :: text_lib where
  "linked_text = sample_text\<lparr>tl_yaml_dump := \<lambda>_. ''doc'', tl_yaml_load := \<lambda>_. Inr (bootstrap_doc [] [] ''0.0.0.0'')\<rparr>"

definition linked_executors :: executors where
  "linked_executors = (case register_default_executors [] of Inr xs \<Rightarrow> xs | Inl _ \<Rightarrow> [])"

definition linked_chassis :: chassis where
  "linked_chassis = initial_chassis linked_text linked_executors"

lemma linked_starts:
  "cp_startup (ret ()) (ret ()) [] [] (initial_chassis linked_text linked_executors) [] = (Inr (linked_executors, linked_chassis), [])"
proof -
  obtain xs where "register_default_executors [] = Inr xs" using default_executors_ok by blast
  then show ?thesis
    by (simp add: cp_startup_def linked_executors_def linked_chassis_def discover_packs_def Let_def lift_res_def bind_io_def seq_io_def catch_io_def ret_def)
qed

definition linked_env :: env where
  "linked_env = sample_env\<lparr>env_http := \<lambda>h rq. if rq_url rq = cfg_control_plane_url sample_settings @ ''/render''
     then Inr (fst (serve_render (ch_renderers linked_chassis) sample_env id None rq [])) else Inr sample_response\<rparr>"

definition linked_request :: ProvisionRequest where
  "linked_request = sample_request\<lparr>pr_service_id := ''sovereign-envoy-lb''\<rparr>"

lemma linked_text_simps [simp, code_unfold]:
  "tl_yaml_dump linked_text j = ''doc''" "tl_yaml_load linked_text s = Inr (bootstrap_doc [] [] ''0.0.0.0'')"
  by (simp_all add: linked_text_def)

lemma linked_answers: "render_answered_by (ch_renderers linked_chassis) sample_env id linked_env"
  by (auto simp: render_answered_by_def linked_env_def)

lemma linked_created:
  "case fst (provision linked_env (basic_caller ''u'') ''i1'' linked_request False []) of Inr (Created _) \<Rightarrow> True | _ \<Rightarrow> False"
  by code_simp

end
