(* ===== verification/FurtherResults.thy ===== *)
theory FurtherResults
  imports Scenario
begin

text \<open>
Results beside the main properties, on the same definitions: trace headers, the invariant of the
  rate limiter, manifests, mutual TLS, migrations, service credentials, drift refresh, what happens
  to an endpoint without a port, the files of the packs, the policy client, the page limits of
  quotas, spool and group synchronisation, strict sidecars, the blind spot of the drift
  monitor, the request counter, the fixed text of the audit
  queries, reading back a stored instance, the histograms, the published catalog, and the backup
  scan. Each has its concrete instance right after it.
\<close>

text \<open>A trace id survives the header. Formatting a well-formed trace and span id and parsing the header gives
  them back, with the sampled flag on or off.\<close>

theorem traceparent_survives:
  assumes "hex_field 32 t" and "hex_field 16 s" and "t \<noteq> replicate 32 (CHR ''0'')" and "s \<noteq> replicate 16 (CHR ''0'')"
  shows "parse_traceparent (Some (format_traceparent t s b)) = Some (t, s)"
  by (rule traceparent_round_trip [OF assms])

theorem traceparent_survives_witness:
  "parse_traceparent (Some (format_traceparent (replicate 32 (CHR ''a'')) (replicate 16 (CHR ''1'')) True)) =
     Some (replicate 32 (CHR ''a''), replicate 16 (CHR ''1''))"
  by (rule traceparent_survives) code_simp+

text \<open>The rate limiter keeps its invariant and isolates its callers. A request leaves at most 10000 buckets,
  one per caller, each between empty and full with the configured burst and rate; the verdict is that of
  the caller's own bucket, and every other caller's bucket is untouched or evicted.\<close>

theorem limiter_invariant:
  assumes "limiter_ok l" and "0 \<le> rl_burst l" and "limiter_allow l key ts = (a, l')"
  shows "limiter_ok l' \<and> length (rl_buckets l') \<le> 10000 \<and>
    (rl_enabled l \<longrightarrow> a = fst (bucket_allow (case map_of (rl_buckets l) key of
        None \<Rightarrow> new_bucket (rl_burst l) (rl_rps l) ts | Some b \<Rightarrow> b) ts 1)) \<and>
    (\<forall>k. k \<noteq> key \<longrightarrow> map_of (rl_buckets l') k \<in> {None, map_of (rl_buckets l) k})"
proof -
  have "limiter_ok l'" using limiter_allow_ok [OF assms] by simp
  then have "length (rl_buckets l') \<le> 10000" by (simp add: limiter_ok_def MAX_BUCKETS_def)
  with \<open>limiter_ok l'\<close> limiter_allow_own_bucket [OF _ assms(3)] limiter_allow_frame [OF assms(1,3)] show ?thesis by simp
qed

theorem limiter_invariant_witness:
  "\<exists>a l'. limiter_allow (new_limiter 1 2) ''k'' 0 = (a, l') \<and> limiter_ok l' \<and> length (rl_buckets l') \<le> 10000"
proof -
  obtain a l' where run: "limiter_allow (new_limiter 1 2) ''k'' 0 = (a, l')" by fastforce
  from run limiter_invariant [OF new_limiter_ok _ run] show ?thesis by (simp add: new_limiter_def)
qed

text \<open>A manifest diff is sound. It reports drift only when the executor of some step checked and found a
  difference, and it is known only when every step was checked, with every difference found reported;
  there is one detail line per step.\<close>

theorem diff_manifest_sound:
  assumes "diff_manifest reg E steps h = (Inr md, h')"
  shows "(md_drifted md \<longrightarrow> (\<exists>s\<in>set steps. \<exists>d. step_diff reg E s d \<and> dr_checked d \<and> dr_drifted d)) \<and>
    (\<not> md_unknown md \<longrightarrow> (\<forall>s\<in>set steps. \<exists>d. step_diff reg E s d \<and> dr_checked d \<and> (dr_drifted d \<longrightarrow> md_drifted md))) \<and>
    length (md_details md) = length steps"
  using assms diff_loop_sound unfolding diff_manifest_def by fastforce

theorem diff_manifest_sound_witness:
  "\<exists>md h'. diff_manifest [] sample_env [] [] = (Inr md, h') \<and> length (md_details md) = 0"
proof -
  have "\<not> isl (fst (diff_manifest [] sample_env [] []))" by code_simp
  then obtain md h' where run: "diff_manifest [] sample_env [] [] = (Inr md, h')" by (metis isl_def prod.collapse sum.exhaust)
  from run diff_manifest_sound [OF run] show ?thesis by auto
qed

text \<open>Under mutual TLS only the verified certificate counts. The outcome of the authentication does not
  depend on the authorization and identity headers a caller can set, and an accepted caller has the
  identity of the forwarded certificate, which is on the allow list.\<close>

theorem mtls_ignores_caller_headers:
  assumes "cfg_mtls_required (cfg E)"
  shows "require_bearer E auth wid spiffe xfcc = require_bearer E auth' wid' spiffe' xfcc \<and>
    (\<forall>h p h'. require_bearer E auth wid spiffe xfcc h = (Inr p, h') \<longrightarrow> parse_xfcc_identity xfcc = Some p \<and>
       workload_identity_allowed p (allowed_identities (cfg_allowed_workload_identities (cfg E))))"
  unfolding require_bearer_mtls [OF assms] by (auto split: option.splits if_splits)

theorem mtls_ignores_caller_headers_witness:
  "require_bearer (sample_env\<lparr>env_settings := sample_settings\<lparr>cfg_mtls_required := True\<rparr>\<rparr>) None None None None =
   require_bearer (sample_env\<lparr>env_settings := sample_settings\<lparr>cfg_mtls_required := True\<rparr>\<rparr>) (Some ''Bearer t'') (Some ''w'') None None"
proof -
  have "cfg_mtls_required (cfg (sample_env\<lparr>env_settings := sample_settings\<lparr>cfg_mtls_required := True\<rparr>\<rparr>))" by simp
  from mtls_ignores_caller_headers [OF this] show ?thesis by blast
qed

text \<open>A payload migrates through every version in between. When a step is registered for every version from
  the payload's to the current one, the result is the steps applied in ascending order, stamped with the
  current version; when one is missing, or the payload is newer than the code, the migration fails, and
  it never stops half way.\<close>

theorem migration_runs_every_step:
  assumes "map_of versions kind = Some current" and "py_int (jget_or raw ''schema_version'' (JInt 1)) = Inr version"
  shows "if current < version then \<exists>m. migrate_payload_with versions ms kind raw = Inl (SchemaMigrationError m)
    else if \<exists>v. version \<le> v \<and> v < current \<and> map_of (case map_of ms kind of Some st \<Rightarrow> st | None \<Rightarrow> []) v = None
    then \<exists>x. migrate_payload_with versions ms kind raw = Inl x
    else migrate_payload_with versions ms kind raw = map_sum id (AList.update ''schema_version'' (JInt current))
      (apply_steps (map (\<lambda>v. the (map_of (case map_of ms kind of Some st \<Rightarrow> st | None \<Rightarrow> []) v)) [version..current - 1]) raw)"
proof -
  let ?steps = "case map_of ms kind of Some st \<Rightarrow> st | None \<Rightarrow> []"
  show ?thesis
  proof (cases "current < version")
    case False
    show ?thesis
    proof (cases "\<exists>v. version \<le> v \<and> v < current \<and> map_of ?steps v = None")
      case True
      then obtain x where "migrate_loop kind ?steps current version raw = Inl x"
        using migrate_loop_missing [of kind ?steps current version raw] by (metis sumE)
      with True assms False show ?thesis by (simp add: migrate_payload_with_def)
    next
      case all: False
      then have "migrate_loop kind ?steps current version raw = apply_steps (map (\<lambda>v. the (map_of ?steps v)) [version..current - 1]) raw"
        by (intro migrate_loop_chain) auto
      with all assms False show ?thesis by (simp add: migrate_payload_with_def split: sum.split)
    qed
  qed (use assms in \<open>simp add: migrate_payload_with_def\<close>)
qed

theorem migration_runs_every_step_witness:
  "migrate_payload_with [(''k'', 3)] [(''k'', [(1, \<lambda>d. Inr (AList.update ''a'' (JInt 1) d)), (2, \<lambda>d. Inr (AList.update ''b'' (JInt 2) d))])]
     ''k'' [] = Inr [(''a'', JInt 1), (''b'', JInt 2), (''schema_version'', JInt 3)]"
proof -
  have "[1..3 - 1] = [1, 2 :: int]" by (simp add: upto_rec1)
  moreover have "\<not> (\<exists>v::int. 1 \<le> v \<and> v < 3 \<and> v \<noteq> 1 \<and> v \<noteq> 2)" by presburger
  ultimately show ?thesis
    using migration_runs_every_step [of "[(''k'', 3)]" "''k''" 3 "[]" 1
      "[(''k'', [(1, \<lambda>d. Inr (AList.update ''a'' (JInt 1) d)), (2, \<lambda>d. Inr (AList.update ''b'' (JInt 2) d))])]"]
    by (auto simp: jget_or_def split: if_splits)
qed

text \<open>Services accept each other's credentials. Outside mutual TLS, the headers one service attaches to an
  outbound call authenticate it at a peer with the same settings: by workload identity when that is
  enabled and the identity is on the allow list, and by the shared bearer token (ASCII, without spaces at
  its ends) when only that is enabled and no token issuer is configured.\<close>

theorem service_credentials_accepted:
  assumes "\<not> cfg_mtls_required (cfg E)"
    and "if cfg_workload_identity_enabled (cfg E)
      then asserted_workload_identity (cfg E) \<noteq> [] \<and>
        workload_identity_allowed (asserted_workload_identity (cfg E)) (allowed_identities (cfg_allowed_workload_identities (cfg E)))
      else cfg_shared_bearer_auth_enabled (cfg E) \<and> \<not> cfg_require_oidc (cfg E) \<and> cfg_oidc_issuer_url (cfg E) = [] \<and>
        list_all (\<lambda>c. (of_char c :: nat) < 128) (cfg_dev_bearer_token (cfg E)) \<and>
        strip (cfg_dev_bearer_token (cfg E)) = cfg_dev_bearer_token (cfg E)"
  shows "\<exists>hs. service_auth_headers E h = (Inr hs, h) \<and>
    require_bearer E (map_of hs ''Authorization'') (map_of hs WORKLOAD_IDENTITY_HEADER) None None h' =
      (Inr (if cfg_workload_identity_enabled (cfg E) then asserted_workload_identity (cfg E) else ''shared-bearer''), h')"
proof -
  obtain hs where hs: "service_auth_headers E h = (Inr hs, h)"
    "map_of hs WORKLOAD_IDENTITY_HEADER = (if cfg_workload_identity_enabled (cfg E)
       then Some (asserted_workload_identity (cfg E)) else None)"
    "map_of hs ''Authorization'' = (if cfg_shared_bearer_auth_enabled (cfg E)
       then Some (''Bearer '' @ cfg_dev_bearer_token (cfg E)) else None)"
    using service_auth_headers_run by blast
  have strip: "removeprefix (''Bearer '' @ t) ''Bearer '' = t" "is_bearer (Some (''Bearer '' @ t))" for t
    using removeprefix_append startswith_append by (simp_all only: is_bearer_def option.case)
  show ?thesis
  proof (cases "cfg_workload_identity_enabled (cfg E)")
    case True
    with assms hs show ?thesis by (simp add: require_bearer_def Let_def or_str_def)
  next
    case False
    with assms hs strip show ?thesis
      by (simp add: require_bearer_def Let_def or_str_def shared_bearer_def compare_digest_def bind_io_def
          del: append_Cons append_Nil)
  qed
qed

theorem service_credentials_accepted_witness:
  "\<exists>hs. service_auth_headers sample_env [] = (Inr hs, []) \<and>
    require_bearer sample_env (map_of hs ''Authorization'') (map_of hs WORKLOAD_IDENTITY_HEADER) None None [] = (Inr ''shared-bearer'', [])"
proof -
  have a: "\<not> cfg_mtls_required (cfg sample_env)" "\<not> cfg_workload_identity_enabled (cfg sample_env)"
    "cfg_shared_bearer_auth_enabled (cfg sample_env)" "\<not> cfg_require_oidc (cfg sample_env)" "cfg_oidc_issuer_url (cfg sample_env) = []"
    "list_all (\<lambda>c. (of_char c :: nat) < 128) (cfg_dev_bearer_token (cfg sample_env))"
    "strip (cfg_dev_bearer_token (cfg sample_env)) = cfg_dev_bearer_token (cfg sample_env)" by code_simp+
  from service_credentials_accepted [of sample_env "[]" "[]"] a show ?thesis by simp
qed

text \<open>A drift refresh is fail-safe. It changes nothing of an instance but its drift status and two
  timestamps; when the control plane cannot be reached or cannot tell, the instance is unchanged and no
  table is written; otherwise the drift status is the verdict.\<close>

theorem refresh_drift_fail_safe:
  assumes "refresh_drift E i h = (Inr j, h')"
  shows "same_but_drift i j \<and> (\<exists>v h1. broker_diff E i h = (Inr v, h1) \<and> (case drift_verdict v of
      None \<Rightarrow> j = i \<and> table_view c0 h' = table_view c0 h
    | Some b \<Rightarrow> si_drift_status j = (if b then drifted else in_sync)))"
proof (rule refresh_drift_run [OF assms])
  fix v h1 assume v: "broker_diff E i h = (Inr v, h1)" "same_but_drift i j"
    "case drift_verdict v of None \<Rightarrow> j = i \<and> h' = h1 | Some b \<Rightarrow> si_drift_status j = (if b then drifted else in_sync)"
  have "table_view c0 h1 = table_view c0 h" by (rule quiet_emits_view [OF emits_broker_diff v(1)])
  with v show ?thesis by (auto split: option.splits)
qed

theorem refresh_drift_fail_safe_witness:
  "\<exists>j h'. refresh_drift policy_down_env sample_instance [] = (Inr j, h') \<and> same_but_drift sample_instance j"
proof -
  have "\<not> isl (fst (refresh_drift policy_down_env sample_instance []))" by code_simp
  then obtain j h' where run: "refresh_drift policy_down_env sample_instance [] = (Inr j, h')"
    by (metis isl_def prod.collapse sum.exhaust)
  from run refresh_drift_fail_safe [OF run, of "\<lambda>_. Map.empty"] show ?thesis by blast
qed

text \<open>An endpoint without a port, which the parameter schema accepts, ends in an exception that the
  control plane does not translate: the answer is 500, although the renderer interface promises that
  invalid inputs become 422.\<close>

theorem endpoint_without_port_is_500:
  assumes "get_renderer rs (si_service_id i) = Some (EnvoyRenderer L reg)"
    and "c \<in> set (lb_clusters (si_parameters i))" "ep \<in> set (cl_endpoints c)" "CHR '':'' \<notin> set ep"
  shows "\<exists>x. cp_render rs E i h = (Inl x, h) \<and> fst (problem_response E ''control-plane'' x) = 500"
proof -
  from bad_endpoint_fails [OF assms(2,3) no_colon_no_port [OF assms(4)]]
  obtain x where x: "build_doc (cfg E) i = Inl x" by blast
  then have "cp_render rs E i h = (Inl x, h)"
    using build_doc_Inl [OF x] assms(1)
    by (auto simp: cp_render_def cp_render_artifact_def require_renderer_def EnvoyRenderer_def envoy_render_def
        bind_io_def catch_io_def)
  with build_doc_Inl [OF x] show ?thesis by (auto simp: problem_response_def)
qed

theorem endpoint_without_port_is_500_witness:
  "\<exists>x. cp_render [(''sovereign-envoy-lb'', EnvoyRenderer sample_text [])] sample_env portless_instance [] = (Inl x, []) \<and>
     fst (problem_response sample_env ''control-plane'' x) = 500"
proof (rule endpoint_without_port_is_500)
  show "get_renderer [(''sovereign-envoy-lb'', EnvoyRenderer sample_text [])] (si_service_id portless_instance) =
      Some (EnvoyRenderer sample_text [])" by (simp add: get_renderer_def portless_instance_def)
  show "\<lparr>cl_name = ''web'', cl_endpoints = [''backend'']\<rparr> \<in> set (lb_clusters (si_parameters portless_instance))"
    by (simp add: portless_instance_def sample_params_def)
  show "''backend'' \<in> set (cl_endpoints \<lparr>cl_name = ''web'', cl_endpoints = [''backend'']\<rparr>)" by simp
  show "CHR '':'' \<notin> set ''backend''" by simp
qed

text \<open>The files a shipped pack renders never leave the control plane: rendering performs no external call
  and the apply does the same whatever the files contain, so the path the deployment step names is
  never written.\<close>

theorem pack_files_never_shipped:
  assumes "p \<in> set (shipped_packs L reg dir)" "r \<in> set (pk_renderers p)" "rd_render r E i h = (Inr a, h')"
  shows "h' = h \<and> rd_apply r E (a\<lparr>ra_config_files := files\<rparr>) h' = rd_apply r E a h'"
proof -
  from shipped_contract [OF assms(1,2)] obtain res where r: "pack_renderer L reg r res" ..
  show ?thesis using pack_renderer.files_stay_local [OF r assms(3)] by simp
qed

theorem pack_files_never_shipped_witness:
  "\<exists>a. rd_render (InferenceEndpointRenderer sample_text []) sample_env inference_instance [] = (Inr a, []) \<and>
     rd_apply (InferenceEndpointRenderer sample_text []) sample_env (a\<lparr>ra_config_files := []\<rparr>) [] =
     rd_apply (InferenceEndpointRenderer sample_text []) sample_env a []"
proof -
  obtain a where a: "rd_render (InferenceEndpointRenderer sample_text []) sample_env inference_instance [] = (Inr a, [])"
    using inference_instance_renders by blast
  have "ai_pack sample_text [] (id ''ai'') \<in> set (shipped_packs sample_text [] id)" by (simp add: shipped_packs_def)
  moreover have "InferenceEndpointRenderer sample_text [] \<in> set (pk_renderers (ai_pack sample_text [] (id ''ai'')))"
    by (simp add: pack_defs)
  ultimately show ?thesis using pack_files_never_shipped [OF _ _ a] a by blast
qed

text \<open>Applying a manifest stops at the first step that fails. The outcome lists exactly the steps before the
  failed one, names that step, and is the same whatever steps come after it; on success every step was
  applied, in order.\<close>

theorem apply_manifest_prefix:
  assumes "apply_manifest reg E steps h = (Inr r, h')"
  shows "if ar_ok r then ar_applied_steps r = steps \<and> ar_failed_step r = None
    else (\<exists>s later. steps = ar_applied_steps r @ s # later \<and> ar_failed_step r = Some s \<and>
      (\<forall>later'. apply_manifest reg E (ar_applied_steps r @ s # later') h = (Inr r, h')))"
proof -
  from assms have run: "apply_loop reg E [] steps h = (Inr r, h')" by (simp add: apply_manifest_def)
  from apply_loop_outcome [OF run] show ?thesis
  proof (cases "ar_ok r")
    case False
    with apply_loop_outcome [OF run] obtain s later where
      s: "steps = ar_applied_steps r @ s # later" "ar_failed_step r = Some s" by (auto simp: apply_outcome_def)
    have "apply_loop reg E [] (ar_applied_steps r @ s # later') h = (Inr r, h')" for later'
      using apply_loop_stops [of reg E "[]" "ar_applied_steps r" s later h r h'] run s(1) False by simp
    with s False show ?thesis by (auto simp: apply_manifest_def)
  qed (auto simp: apply_outcome_def)
qed

theorem apply_manifest_prefix_witness:
  "\<exists>r h'. apply_manifest [] sample_env [] [] = (Inr r, h') \<and> ar_ok r \<and> ar_applied_steps r = []"
proof -
  have "case fst (apply_manifest [] sample_env [] []) of Inr r \<Rightarrow> ar_ok r | _ \<Rightarrow> False" by code_simp
  then obtain r h' where run: "apply_manifest [] sample_env [] [] = (Inr r, h')" "ar_ok r"
    by (cases "apply_manifest [] sample_env [] []") (auto split: sum.splits)
  from run apply_manifest_prefix [OF run(1)] show ?thesis by auto
qed

text \<open>The policy client fails closed. Whatever the policy engine answers, or if it does not answer, a client
  in its default mode allows a request only when the engine returned status 200 and a result object whose
  \<open>allow\<close> is true; the evaluation makes exactly one call.\<close>

theorem policy_client_fails_closed:
  assumes "policy_evaluate E (new_policy_client s base path True) inp h = (Inr d, h')" and "pd_allow d"
  shows "\<exists>rs. h' = h @ [EvHttp (opa_request (new_policy_client s base path True) inp) (Inr rs)] \<and> rs_status rs = 200 \<and>
    (\<exists>body res. rs_json rs = Some (JObj body) \<and> jget body ''result'' = JObj res \<and> jtruthy (jget_or res ''allow'' (JBool False)))"
proof -
  have "pc_fail_closed (new_policy_client s base path True)" by (simp add: new_policy_client_def)
  from policy_fails_closed [OF this assms] show ?thesis unfolding opa_allow_event_def opa_allows_def by blast
qed

theorem policy_client_fails_closed_witness:
  "\<exists>d h'. policy_evaluate sample_env (new_policy_client sample_settings None None True) [] [] = (Inr d, h') \<and> pd_allow d \<and> length h' = 1"
proof -
  have "case fst (policy_evaluate sample_env (new_policy_client sample_settings None None True) [] []) of Inr d \<Rightarrow> pd_allow d | _ \<Rightarrow> False"
    by code_simp
  then obtain d h' where run: "policy_evaluate sample_env (new_policy_client sample_settings None None True) [] [] = (Inr d, h')" "pd_allow d"
    by (cases "policy_evaluate sample_env (new_policy_client sample_settings None None True) [] []") (auto split: sum.splits)
  from run policy_client_fails_closed [OF run] show ?thesis by auto
qed

text \<open>A cap above one thousand is never enforced. Usage is counted over one page of at most 1000 records,
  so when a query answers no more than its limit, a service whose quota allows more than 1000 instances
  is admitted, however many instances the tenant has.\<close>

theorem quota_above_page_never_rejects:
  assumes "check_provision E tid st None h = (Inr r, h')" and "ddb_limit E"
    and "\<And>q h1. get_quota E (tid, service_type_scope st) h = (Inr (Some q), h1) \<Longrightarrow>
       (case qt_max_instances q of None \<Rightarrow> True | Some m \<Rightarrow> 1000 < m)"
  shows "qc_allow r"
proof -
  from assms(1) obtain e where e: "compute_usage E tid (service_type_scope st) (Some st) None h = (Inr e, h')"
    and r: "qc_breakdown r = [e]"
    by (auto simp: check_provision_def run_ok Let_def)
  obtain q us h1 where q: "get_quota E (tid, service_type_scope st) h = (Inr q, h1)"
    and us: "query_usage E tid None None None None 1000 h1 = (Inr us, h')"
    and e': "e = quota_entry (service_type_scope st) (Some st) None q us"
    by (rule compute_usage_run [OF e])
  have "length us \<le> 1000" by (rule query_usage_limit [OF assms(2) us])
  then have "qe_used_instances e \<le> 1000"
    using le_trans [OF length_filter_le] by (fastforce simp: e' quota_entry_used)
  then have "\<not> at_limit e"
    using assms(3) q unfolding at_limit_def e' quota_entry_max by (fastforce split: option.splits)
  with check_provision_allow(1) [OF assms(1)] r show ?thesis by simp
qed

theorem quota_above_page_never_rejects_witness:
  "\<exists>r h'. check_provision quota_env ''org'' ''lb'' None [] = (Inr r, h') \<and> qc_allow r"
proof -
  have "\<not> isl (fst (check_provision quota_env ''org'' ''lb'' None []))" by code_simp
  then obtain r h' where run: "check_provision quota_env ''org'' ''lb'' None [] = (Inr r, h')"
    by (metis isl_def prod.collapse sum.exhaust)
  have lim: "ddb_limit quota_env" by (simp add: ddb_limit_def quota_env_def)
  have "case fst (get_quota quota_env (''org'', service_type_scope ''lb'') []) of
      Inr (Some q) \<Rightarrow> qt_max_instances q = Some 2000 | _ \<Rightarrow> False" by code_simp
  then have "qc_allow r" by (intro quota_above_page_never_rejects [OF run lim]) simp
  with run show ?thesis by blast
qed

text \<open>Draining a long spool drops the oldest events. The drain appends the spooled events to a buffer of
  bounded length: of the buffer and the spool together, the last 1000 remain and the older ones vanish.\<close>

theorem spool_drain_keeps_last:
  assumes "as_spool st = Some es" and "aw_read W (as_tick st)" and "length (as_buffer st) \<le> BUFFER_CAP"
  shows "as_buffer (drain_spool_into_buffer W st) = drop (length (as_buffer st @ es) - 1000) (as_buffer st @ es)"
proof -
  have "as_buffer (drain_spool_into_buffer W st) = fold (deque_append BUFFER_CAP) es (as_buffer st)"
    using assms(1,2) by (simp add: drain_spool_into_buffer_def spool_drain_def)
  also have "\<dots> = drop (length (as_buffer st @ es) - BUFFER_CAP) (as_buffer st @ es)"
    by (rule deque_fold_last [OF assms(3)])
  finally show ?thesis by (simp only: BUFFER_CAP_def)
qed

theorem spool_drain_keeps_last_witness:
  "as_buffer (drain_spool_into_buffer sample_audit ((initial_audit_state sample_settings)\<lparr>as_spool := Some (replicate 1001 sample_event)\<rparr>)) =
     replicate 1000 sample_event"
  using spool_drain_keeps_last [of "(initial_audit_state sample_settings)\<lparr>as_spool := Some (replicate 1001 sample_event)\<rparr>"
      "replicate 1001 sample_event" sample_audit]
  by (simp add: initial_audit_state_def sample_audit_def BUFFER_CAP_def)

text \<open>Group synchronisation keeps one role per principal and tenant. After a sync, the row of a tenant is
  that of the last binding written for it; roles of earlier groups mapped to the same tenant are gone.\<close>

theorem group_sync_last_wins:
  assumes "sync_groups_to_roles E user dflt grm tm gb h = (Inr ws, h')"
  shows "table_view c0 h' ROLE_BINDING_TABLE [tu_principal user, tid] =
    (case rev (filter (\<lambda>b. rb_tenant_id b = tid) ws) of
       [] \<Rightarrow> table_view c0 h ROLE_BINDING_TABLE [tu_principal user, tid]
     | b # _ \<Rightarrow> Some \<lparr>it_key = [tu_principal user, tid], it_attrs = [], it_payload = PText (JObj (dump_role_binding E b))\<rparr>)"
proof -
  from sync_groups_run [OF assms] have h': "h' = h @ map (role_put E) ws"
    and p: "\<forall>b\<in>set ws. rb_principal b = tu_principal user" by auto
  have "filter (\<lambda>b. rb_principal b = tu_principal user \<and> rb_tenant_id b = tid) ws = filter (\<lambda>b. rb_tenant_id b = tid) ws"
    using p by (intro filter_cong) auto
  then show ?thesis unfolding h' table_view_append role_puts_view by simp
qed

theorem group_sync_last_wins_witness:
  "\<exists>ws h' b. sample_sync [] = (Inr ws, h') \<and> map rb_role ws = [auditor, program_team] \<and> rb_role b = program_team \<and>
     table_view (\<lambda>_. Map.empty) h' ROLE_BINDING_TABLE [''p'', ''org''] =
       Some \<lparr>it_key = [''p'', ''org''], it_attrs = [], it_payload = PText (JObj (dump_role_binding sample_env b))\<rparr>"
proof -
  have "case fst (sample_sync []) of Inl _ \<Rightarrow> False
      | Inr ws \<Rightarrow> map (\<lambda>b. (rb_tenant_id b, rb_role b)) ws = [(''org'', auditor), (''org'', program_team)]" by code_simp
  then obtain ws h' where run: "sample_sync [] = (Inr ws, h')"
    and ws: "map (\<lambda>b. (rb_tenant_id b, rb_role b)) ws = [(''org'', auditor), (''org'', program_team)]"
    by (cases "sample_sync []") (auto split: sum.splits)
  then obtain b1 b2 where b: "ws = [b1, b2]" "rb_tenant_id b1 = ''org''" "rb_tenant_id b2 = ''org''"
    "rb_role b1 = auditor" "rb_role b2 = program_team" by auto
  from group_sync_last_wins [OF run, of "\<lambda>_. Map.empty" "''org''"] run b show ?thesis
    by (auto simp: sync_user_def)
qed

text \<open>The inbound listener of a mesh sidecar authenticates every connection exactly when strict mTLS is
  configured; in the permissive posture it also has a chain that accepts plaintext.\<close>

theorem sidecar_strict_spec:
  "(\<forall>l\<in>set (doc_listeners (sidecar_doc s service_name app_port)).
      jpath [''name''] l = Some (JStr ''inbound_mtls'') \<longrightarrow> (\<forall>ch\<in>set (jlist [''filter_chains''] l). chain_authenticates ch)) \<longleftrightarrow>
    cfg_mesh_mtls_strict s"
  using inbound_chains_authenticate [of s service_name]
  by (simp add: sidecar_parts jlist_def) (auto simp: outbound_listener_def)

theorem sidecar_strict_spec_witness:
  "\<not> (\<forall>l\<in>set (doc_listeners (sidecar_doc sample_settings ''broker'' 8080)).
      jpath [''name''] l = Some (JStr ''inbound_mtls'') \<longrightarrow> (\<forall>ch\<in>set (jlist [''filter_chains''] l). chain_authenticates ch))"
proof -
  have "\<not> cfg_mesh_mtls_strict sample_settings" by code_simp
  then show ?thesis using sidecar_strict_spec [of sample_settings "''broker''" 8080] by simp
qed

text \<open>The drift monitor cannot see an outage of the instance table. While every scan of DynamoDB fails with
  a client error, the monitor run on its drift check reports that the check passed and exits with
  zero, because the store answers a failed listing with an empty one; the branch of the check that
  reports a failed read is not reached.\<close>

theorem monitor_blind_to_outage:
  assumes "ml_boto3 M" and "\<And>h t q. \<exists>code m. env_scan E h t q = Inl (AwsClient code m)"
  shows "\<exists>r h'. monitor_main M E (Some [''state_drift'']) h = (Inr ([r], 0), h') \<and> mc_status r = PASS"
proof -
  from drift_passes_blind [OF assms] obtain r h' where "check_state_drift M E h = (Inr r, h')" "mc_status r = PASS" by blast
  then show ?thesis
    by (simp add: monitor_main_def bind_io_def ret_def run_monitor_check_def catch_io_def CHECKS_def)
qed

theorem monitor_blind_to_outage_witness:
  "\<exists>r h'. monitor_main sample_monitor (sample_env\<lparr>env_scan := \<lambda>_ _ _. Inl (AwsClient ''Throttled'' [])\<rparr>) (Some [''state_drift'']) [] =
     (Inr ([r], 0), h') \<and> mc_status r = PASS"
  by (rule monitor_blind_to_outage) (simp_all add: sample_monitor_def)

text \<open>The counter of requests counts every request once. The middleware turns every outcome of a handler
  into a response or the exception it re-raises, and counts it either way: a service that starts with
  the installed instruments and handles any sequence of requests gets to its end, and then the
  counter's label sets are distinct and their values add up to the number of requests.\<close>

theorem requests_counted:
  "\<exists>r' h' c. serve_all E clock service rs (install_middleware empty_registry) h = (Inr r', h') \<and>
     map_of (mr_counters r') REQUESTS_TOTAL = Some c \<and> distinct (map fst (ct_values c)) \<and>
     sum_list (map snd (ct_values c)) = of_nat (length rs)"
  using serve_all_counts [OF installed_counter, of E clock service rs h] by (auto simp: counter_ok_def)

text \<open>A stored instance is read back. After a write that succeeded, and events that do not write the
  instance table, a read of the same id that is answered returns the instance written, stamped with the
  time of the write; a write touches no other row.\<close>

theorem instance_store_round_trip:
  assumes "put_instance E i h = (Inr b, h1)" and "wf_params (si_parameters i)" and "si_schema_version i = 1"
    and "ddb_reads_back E c0" and "pydantic_exact E"
    and "list_all (\<lambda>e. \<not> writes_table INSTANCES e) es" and "env_get_item E (h1 @ es) INSTANCES [si_instance_id i] = Inr v"
  shows "fst (get_instance E (si_instance_id i) (h1 @ es)) = Inr (Some (i\<lparr>si_updated_at := env_now E h\<rparr>)) \<and>
    ((t, k) \<noteq> (INSTANCES, [si_instance_id i]) \<longrightarrow> table_view c0 h1 t k = table_view c0 h t k)"
  using instances.get_after_put [OF assms(4,5) _ assms(1,6,7)] instances.put_frame [OF assms(1)] assms(2,3)
  by (simp add: ok_instance_def)

theorem instance_store_round_trip_witness:
  "\<exists>b h1. put_instance sample_env sample_instance [] = (Inr b, h1) \<and>
     fst (get_instance sample_env ''i1'' h1) = Inr (Some (sample_instance\<lparr>si_updated_at := ''t0''\<rparr>))"
proof -
  have i: "si_instance_id sample_instance = ''i1''" "si_schema_version sample_instance = 1"
    "si_parameters sample_instance = pr_parameters sample_request"
    by (simp_all add: sample_instance_def new_instance_def)
  obtain b h1 where put: "put_instance sample_env sample_instance [] = (Inr b, h1)" by (simp add: put_instance_run)
  from put instance_store_round_trip [OF put _ _ sample_env_ok(1,2), of "[]" "table_view (\<lambda>_. Map.empty) h1 INSTANCES [''i1'']"]
    sample_request_wf i show ?thesis by simp
qed

text \<open>No filter value of a caller reaches the text of an audit query. Replacing every given filter value
  by any other leaves the SQL text as it is; the values travel as the bound parameters, each under the
  name of its own column and with its type, and a parameter is bound exactly when its filter is given.\<close>

theorem audit_query_text_fixed:
  "audit_sql db (blank w f) = audit_sql db f \<and>
   map_of (audit_params f) ''tenant_id'' = map_option ChString (aq_tenant_id f) \<and>
   map_of (audit_params f) ''actor'' = map_option ChString (aq_actor f) \<and>
   map_of (audit_params f) ''action'' = map_option ChString (aq_action f) \<and>
   map_of (audit_params f) ''resource'' = map_option ChString (aq_resource f) \<and>
   map_of (audit_params f) ''decision'' = map_option ChString (aq_decision f) \<and>
   map_of (audit_params f) ''since'' = map_option ChDateTime (aq_since f) \<and>
   map_of (audit_params f) ''until'' = map_option ChDateTime (aq_until f)"
  by (simp add: audit_sql_blank audit_params_lookup)

text \<open>What a histogram exposes is what was observed. For every label set that was observed, after any
  sequence of observations, in whatever order the buckets were declared, the line of a bucket states
  how many of the values are at most its bound, the bucket without bound and the count line state how
  many there are, and the sum line states their sum, although the histogram only keeps one counter
  for the values between two bounds.\<close>

theorem histogram_series_exact:
  assumes "observed k obs \<noteq> []"
  shows "histogram_lines rf (observe_all obs (new_histogram name help_text buckets)) k =
    (let h = new_histogram name help_text buckets; vs = observed k obs in
     map (\<lambda>e. bucket_line h k (fmt rf e) (length (filter (\<lambda>v. v \<le> e) vs))) (sort buckets) @
     [bucket_line h k ''+Inf'' (length vs),
      sanitize name @ ''_sum'' @ render_labels k None @ '' '' @ fmt rf (sum_list vs),
      sanitize name @ ''_count'' @ render_labels k None @ '' '' @ str_of_nat (length vs)])"
  using histogram_lines_spec [OF assms] by (simp add: at_most_def)

theorem histogram_series_exact_witness:
  "histogram_lines (\<lambda>_. ''q'') (observe_all [(1, []), (3, []), (2, [])] (new_histogram ''d'' [] [4, 2])) [] =
     [''d_bucket{le='' @ quoted ''2'' @ ''} 2'', ''d_bucket{le='' @ quoted ''4'' @ ''} 3'',
      ''d_bucket{le='' @ quoted ''+Inf'' @ ''} 3'', ''d_sum 6'', ''d_count 3'']"
proof -
  have "observed [] [(1, []), (3, []), (2, [])] = [1, 3, 2]" by code_simp
  then have "observed [] [(1, []), (3, []), (2, [])] \<noteq> []" by simp
  from histogram_series_exact [OF this, of "\<lambda>_. ''q''" "''d''" "[]" "[4, 2]"] show ?thesis by (simp only:) code_simp
qed

text \<open>Start-up publishes the catalog. When the catalog table can be created and written, the broker starts
  with whatever packs the entry points yield, even packs that fail to load, and afterwards the
  catalog table holds, for every service type that has a registered renderer with an entry, exactly
  that entry.\<close>

theorem catalog_seeded:
  assumes "\<And>h i. env_put_item E h CATALOG_TABLE i = Inr ()" and "\<And>h. \<exists>h0. ensure_catalog h = (Inr (), h0)"
    and "keyed_renderers (ch_renderers c)"
  shows "\<exists>xs' c' h'. broker_startup E ensure_store ensurers ensure_catalog eps xs c h = (Inr (xs', c'), h') \<and>
    c' = snd (discover_packs eps c) \<and>
    (\<forall>r e. get_renderer (ch_renderers c') (sc_service_type e) = Some r \<longrightarrow> catalog_entry_of r = Some e \<longrightarrow>
       table_view c0 h' CATALOG_TABLE [''service'', sc_service_type e] = Some (service_row E e))"
proof -
  let ?c = "snd (discover_packs eps c)"
  have keyed: "keyed_renderers (ch_renderers ?c)" using assms(3) by (rule keyed_discover)
  obtain xs' where xs: "register_default_executors xs = Inr xs'" using default_executors_ok by blast
  obtain r h1 where s: "(try_io ensure_store :: (exn + unit) prog) h = (Inr r, h1)"
    by (cases "ensure_store h") (auto simp: try_io_def)
  obtain h2 where t: "ensure_tables ensurers h1 = (Inr (), h2)" using ensure_tables_total by blast
  obtain h3 where "ensure_catalog h2 = (Inr (), h3)" using assms(2) by blast
  from seed_catalog_rows [where E = E and ensure = ensure_catalog, OF assms(1) this keyed, of c0] obtain q h' where
    q: "seed_catalog E ensure_catalog ?c h2 = (Inr q, h')" and
    rows: "\<forall>e\<in>set (live_services (ch_renderers ?c)). table_view c0 h' CATALOG_TABLE [''service'', sc_service_type e] = Some (service_row E e)"
    by blast
  have "broker_startup E ensure_store ensurers ensure_catalog eps xs c h = (Inr (xs', ?c), h')"
    using xs s t q by (simp add: broker_startup_def bind_io_def seq_io_def ret_def lift_res_def Let_def)
  moreover have "table_view c0 h' CATALOG_TABLE [''service'', sc_service_type e] = Some (service_row E e)"
    if "get_renderer (ch_renderers ?c) (sc_service_type e) = Some r" "catalog_entry_of r = Some e" for r e
    using rows that live_services_iff [OF keyed, of e] by blast
  ultimately show ?thesis by blast
qed

theorem catalog_seeded_witness:
  "\<exists>xs' c' h'. broker_startup sample_env (ret ()) [] (ret ()) [Inl (RuntimeError ''broken''), Inr (ai_pack sample_text [] ''policies'')]
       [] sample_chassis [] = (Inr (xs', c'), h') \<and>
     table_view (\<lambda>_. Map.empty) h' CATALOG_TABLE [''service'', ''inference-endpoint''] = Some (service_row sample_env InferenceEndpointRenderer_entry)"
proof -
  let ?eps = "[Inl (RuntimeError ''broken''), Inr (ai_pack sample_text [] ''policies'')]"
  have put: "env_put_item sample_env h CATALOG_TABLE i = Inr ()" for h i by simp
  have ens: "\<exists>h0. (ret () :: unit prog) h = (Inr (), h0)" for h by (simp add: ret_def)
  have keyed: "keyed_renderers (ch_renderers sample_chassis)" by (rule sample_chassis_keyed)
  from catalog_seeded [where c = sample_chassis and eps = ?eps and ?c0.0 = "\<lambda>_. Map.empty" and ensurers = "[]" and
      ensure_store = "ret ()" and ensure_catalog = "ret ()" and xs = "[]" and h = "[]", OF put ens keyed] obtain xs' c' h' where
    run: "broker_startup sample_env (ret ()) [] (ret ()) ?eps [] sample_chassis [] = (Inr (xs', c'), h')"
    and c': "c' = snd (discover_packs ?eps sample_chassis)" and
    rows: "\<And>r e. get_renderer (ch_renderers c') (sc_service_type e) = Some r \<Longrightarrow> catalog_entry_of r = Some e \<Longrightarrow>
       table_view (\<lambda>_. Map.empty) h' CATALOG_TABLE [''service'', sc_service_type e] = Some (service_row sample_env e)" by blast
  have "sc_service_type InferenceEndpointRenderer_entry = ''inference-endpoint''" by (simp add: InferenceEndpointRenderer_entry_def)
  with rows [OF sample_chassis_discovers [folded c']] run show ?thesis by auto
qed

text \<open>The backup scan of a table ends and returns every row once. When the table serves its rows in pages of
  any positive size, each page starting after the key the page before ended with, the loop, which has
  no bound of its own, returns exactly the rows in the table's order.\<close>

theorem scan_returns_all:
  assumes "\<And>s h. bl_scan L t s h = (Inr (paged_scan n rows s), h)" and "0 < n"
    and "distinct (map it_key rows)" and "\<forall>i\<in>set rows. it_key i \<noteq> []"
  shows "scan_all L t None h = Some (Inr rows, h)"
  by (rule paged_scan_all [OF assms])

theorem scan_returns_all_witness:
  "scan_all sample_backup ''sovereign_instances'' None [] = Some (Inr [sample_row ''a'', sample_row ''b'', sample_row ''c''], [])"
  by (rule scan_returns_all [where n = 2])
    (auto simp: sample_backup_def sample_row_def sample_rows_def)

end
