(* ===== verification/Spec2Isabelle.thy ===== *)
theory Spec2Isabelle
  imports FurtherResults
begin

text \<open>
The sovereign platform is a service broker with its supporting services. A caller (Basic
  credentials, an OIDC token, or a mesh workload) asks the broker (apps/broker/app/main.py) to
  provision, update, bind or delete a service instance. The broker identifies the caller, checks
  role bindings over the tenant tree, the quota of the tenant and the answer of the policy engine
  with its obligations, stores the instance in DynamoDB and has the control plane
  (apps/control-plane/app/main.py) render and apply it through a renderer and, for most renderers,
  the executors. Audit and usage events go to the audit service and the metering service. A
  background pass reconciles failed or drifted instances.

  \<^bold>\<open>How programs are modelled.\<close> A Python function without effects is a HOL function. A function
  with effects is a program \<open>event list \<Rightarrow> (exn + 'a) \<times> event list\<close> (theory Prelude): it raises or
  returns, and extends the trace of the external calls made so far. What the platform calls and
  does not contain (DynamoDB, S3, HTTP peers, command-line tools, token verification, clocks,
  random identifiers, pydantic's conversion of JSON leaves) is the record \<open>env\<close> of functions that
  may inspect the whole trace, so failures and arbitrary schedules of the outside are instances of
  it; the hypotheses a theorem needs of it (for example that a successful write is what a later
  read returns) are the named predicates at the end of theory Environment. Python ints are
  \<open>int\<close>, floats are rationals, strings are lists of ASCII characters, dictionaries are
  association lists in insertion order. All definitions are executable, and no fuel is used:
  loops are structural recursions or \<open>function\<close>s with a termination proof, except the backup scan
  and the polling of the pilot script, whose loops have no bound of their own: they are partial functions,
  and that they return is proved. The endless reconcile loop is a step relation.

  \<^bold>\<open>Theories and the code they model\<close> (paths below src/, sov = libs/common/sovereign).
  \<^item> Prelude: strings, dictionaries, JSON, programs, weakest preconditions (\<open>wp\<close>), the judgement
    \<open>emits\<close> (which events a program may perform) and \<open>guarded_from\<close> (what has happened before an event).
  \<^item> Settings: sov/settings.py, the settings read from the environment and the refusals at start-up.
  \<^item> Environment: the outside and the contents of a table read off a trace.
  \<^item> Models, Migrations: sov/models.py and sov/migrations.py, records, dumps, validation, payload upgrades.
  \<^item> Stores, Tenancy, Quotas, Catalog: sov/store.py, sov/usage_store.py, sov/tenancy, sov/quotas and
    sov/catalog. The locale \<open>record_store\<close> (and \<open>payload_store\<close> below it) is the contract of a table of
    records (what a lookup returns after a write or a delete); six stores interpret it.
  \<^item> Authz, Policy: sov/tenancy/authz.py, sov/tenancy/jwt_auth.py, sov/idp/group_sync.py and sov/policy.py.
  \<^item> Secrets, Oidc: sov/secrets.py, sov/rotation.py and sov/idp/oidc.py, the secrets providers with their
    rotating cache and the token verifier with its caches. \<open>provider_at\<close> and \<open>verifier_at\<close> are their
    reachable states over any history; the invariants are proved by rule induction.
  \<^item> Mtls, Security, RateLimit: sov/mtls.py, sov/security.py, sov/tracing.py, sov/apiversion.py, sov/ratelimit.py.
  \<^item> AuditTrail: sov/audit.py, sov/metering.py, sov/audit_signing.py, sov/audit_spool.py and apps/audit-service.
  \<^item> Executors, Renderers: sov/executors and sov/renderers; the locale \<open>registry\<close> is the contract of the registries.
  \<^item> Envoy: sov/render.py and sov/envoy_v3.py, the Envoy bootstrap document of an instance or of a mesh
    sidecar and the schema it is validated against. YAML and JSON texts are the parameter \<open>text_lib\<close>.
  \<^item> PackSupport, WorkloadPacks, ConfigPacks, Packs: packs/*/sovereign_*/, sov/packs and the registry of
    sov/connectors. The locale \<open>pack_renderer\<close> is what a renderer of a pack promises (what it renders
    validates, its steps, what teardown reports); all fifteen renderers interpret it.
  \<^item> ControlPlane: apps/control-plane, apps/metering-service and sov/errors.py.
  \<^item> Broker: apps/broker/app/main.py. Lifecycle, Operations and Reconciliation hold the lemmas about its
    routes; the locale \<open>gate\<close> is the contract of a check that may refuse but writes no table.
  \<^item> CatalogEntries, CatalogRoutes: the \<open>catalog_entry\<close> of every renderer and connector, and the start-up,
    catalog seeding, catalog route and health answers of the broker and the control plane.
  \<^item> Connectors: sov/connectors (types, S3, GitHub). The locale \<open>ingester\<close> is what an ingest promises;
    both connectors interpret it.
  \<^item> AuditQuery: the query route, gauges, health answer, table statements and rows of apps/audit-service.
  \<^item> Telemetry: sov/metrics.py, sov/observability.py, sov/health.py and sov/cors.py.
  \<^item> FinOps: packs/finops/sovereign_finops/models.py, prices, chargeback and budgets.
  \<^item> Backup: sov/backup.py. Monitor: scripts/continuous_monitor.py.
  \<^item> Tables: the creation of the DynamoDB tables by every store and by start-up, and the lazily created
    store of the metering service: no call drops a table, and when DynamoDB answers all tables exist.
  \<^item> Periodic: the loop around the reconcile pass and the development tokens of sov/tenancy/jwt_auth.py.
  \<^item> Platform: the broker over its whole life. The step relation \<open>platform_at\<close> interleaves requests, deferred
    provisioning tasks, reconcile rounds, restarts and whatever happens to other tables; its invariant is
    proved by rule induction. RowWrites, below it, holds what each route and the reconciler write, once for
    any set of instances that the operation state machine keeps (the locale \<open>instance_family\<close>); it is
    interpreted on the sound instances and, in RegistryRefinement, on those with the desired state of a registry.
  \<^item> DesiredState, RegistryRefinement: an abstract specification of the broker, a registry of desired states
    with its own steps and reachable states, and the simulation that shows that the broker implements it.
  \<^item> Composition: the \<open>/render\<close> endpoint of the control plane as its peers see it (bearer check, validation of
    the body, route, problem details of sov/errors.py) and what its answers mean for the broker.
  \<^item> Deployed: the control plane as it starts, with the Envoy renderer, any of the shipped packs and the default
    executors: none of them raises an HTTP answer of its own, and each renders the version of the instance.
  \<^item> Pilot: scripts/ws1_pilot.py, the phases that drive a deployed broker, its polling loop and clients.
  \<^item> Evidence: scripts/changelog_extract.py, scripts/ssp_validate.py and scripts/crosswalk_validate.py.
  \<^item> FurtherResults: results beside the properties of this theory, on the same definitions.
  \<^item> Scenario: a concrete environment with a small DynamoDB, on which the witnesses run whole routes.

  \<^bold>\<open>What is shown\<close>, in the order of the properties below: no instance is written before the policy
  engine allowed it, its obligations were honoured and the role check passed; over the whole life of the
  broker every stored instance is sound and was admitted, and a deferred task undoes a deletion or
  an update that happened meanwhile; the broker refines a registry of desired states, so that every stored
  state can be traced to the requests; a provision answered 201 was validated and completely applied by the
  control plane; a refused request changes nothing; the state an operation leaves on success and on failure; deferred and immediate
  provisioning agree; repeated provisioning and deletion; obligations and authentication fail
  closed; listings are scoped; one reconcile pass converges; the role computation equals its
  declarative meaning over the tenant tree and the tree walks terminate; quotas; the Envoy document
  is schema-valid, authenticated in mesh mode and refused otherwise; what every pack renderer
  promises, and what its teardown does not do; mesh identity, rate limits, the audit chain,
  identity-provider keys and managed secrets; the shipped catalog is well formed; chargeback reports account
  for the usage; an ingest reports what it did; a backup can be restored; start-up. Theory FurtherResults adds,
  among others, that start-up publishes the catalog, that the histograms state what was observed, and that a
  backup scan ends with every row. Where the code departs from its documentation the theorem states what the
  code does.

  \<^bold>\<open>Not modelled.\<close> JWT signature checking (a library), logging, printed output, the construction of
  the clients of boto3, httpx and ClickHouse, and the wiring of the FastAPI applications. The routes call token
  verification through \<open>env\<close>, where its outcome is arbitrary; theory Oidc models it on its own,
  because it keeps state between requests. Theory Platform interleaves whole requests and
  deferred tasks; concurrent requests inside one route are covered through the environment only:
  between two calls of a route the tables may change arbitrarily, because an answer of the
  environment may depend on the trace in any way.
\<close>

section \<open>Gates before writes\<close>

text \<open>C1: Provisioning writes an instance row only after the policy engine allowed exactly this request.
  In any run of the request together with its background task, an event that writes the instance
  table is preceded by a call to the policy engine, built from the caller, the requested service, plan,
  parameters and the resolved tenant, that was answered with status 200 and a true \<open>allow\<close>.\<close>

theorem provision_needs_policy:
  assumes "provision_and_background E c iid req ai [] = (r, pre @ e # post)" and "writes_table INSTANCES e"
  shows "\<exists>tid overrides. fst (resolve_tenant_id c (pr_organization_guid req) []) = Inr tid \<and>
    (\<exists>rs. EvHttp (opa_request (policy_client E) (broker_policy_input c (pr_service_id req) (pr_plan_id req)
        (dump_params (pr_parameters req)) tid ''provision'' overrides)) (Inr rs) \<in> set pre \<and> opa_allows rs)"
  using provision_write_cleared [OF assms]
  unfolding provision_cleared_def gates_passed_def policy_cleared_def opa_allow_event_def by blast

theorem provision_needs_policy_witness:
  "\<exists>r pre e post tid overrides rs. provision_and_background sample_env (basic_caller ''u'') ''i1'' sample_request False [] = (r, pre @ e # post) \<and>
     writes_table INSTANCES e \<and> fst (resolve_tenant_id (basic_caller ''u'') (Some ''org'') []) = Inr tid \<and>
     EvHttp (opa_request (policy_client sample_env) (broker_policy_input (basic_caller ''u'') ''lb'' ''p''
        (dump_params (pr_parameters sample_request)) tid ''provision'' overrides)) (Inr rs) \<in> set pre \<and> opa_allows rs"
proof -
  have "list_ex (writes_table INSTANCES) (snd (provision_and_background sample_env (basic_caller ''u'') ''i1'' sample_request False []))"
    by code_simp
  then obtain r pre e post where run:
    "provision_and_background sample_env (basic_caller ''u'') ''i1'' sample_request False [] = (r, pre @ e # post)"
    "writes_table INSTANCES e" by (rule trace_event)
  from run provision_needs_policy [OF run] show ?thesis
    by (simp add: sample_request_def) blast
qed

text \<open>C2: Provisioning by a caller who is not a trusted Basic caller writes an instance row only when the
  caller holds a role with the provision action. Some binding of the principal, returned by a role query
  of this request, grants a role whose actions contain \<open>provision\<close>, at the tenant itself, at an ancestor
  of it in the tenant tree read by this request, or as platform administrator.\<close>

theorem provision_needs_role:
  assumes "provision_and_background E c iid req ai [] = (r, pre @ e # post)" and "writes_table INSTANCES e"
    and "\<not> (ca_is_basic c \<and> cfg_broker_trust_basic_auth (cfg E))"
  shows "\<exists>tid b ts. fst (resolve_tenant_id c (pr_organization_guid req) []) = Inr tid \<and>
    role_read E (tu_principal (ca_user c)) pre b \<and> tenants_read E pre ts \<and> grants ts tid b \<and>
    ACTION_PROVISION \<in> DEFAULT_ROLE_ACTIONS (rb_role b)"
  using provision_write_cleared [OF assms(1,2)] assms(3)
  unfolding provision_cleared_def gates_passed_def rbac_cleared_def role_grounded_def by blast

theorem provision_needs_role_witness:
  "\<exists>r pre e post tid b ts. provision_and_background role_env sample_user ''i1'' sample_request False [] = (r, pre @ e # post) \<and>
     writes_table INSTANCES e \<and> role_read role_env ''p'' pre b \<and> tenants_read role_env pre ts \<and> grants ts tid b \<and>
     fst (resolve_tenant_id sample_user (Some ''org'') []) = Inr tid \<and> ACTION_PROVISION \<in> DEFAULT_ROLE_ACTIONS (rb_role b)"
proof -
  have "list_ex (writes_table INSTANCES) (snd (provision_and_background role_env sample_user ''i1'' sample_request False []))"
    by code_simp
  then obtain r pre e post where run:
    "provision_and_background role_env sample_user ''i1'' sample_request False [] = (r, pre @ e # post)"
    "writes_table INSTANCES e" by (rule trace_event)
  have "\<not> (ca_is_basic sample_user \<and> cfg_broker_trust_basic_auth (cfg role_env))" by (simp add: sample_user_def)
  from run provision_needs_role [OF run this] show ?thesis
    by (simp add: sample_request_def sample_user_def) blast
qed

text \<open>C3: An update writes the instance table only after RBAC and the policy engine allowed the new plan
  and parameters, for the tenant of the stored instance.\<close>

theorem update_needs_clearance:
  assumes "fst (get_instance E iid []) = Inr (Some i)"
    and "update_route E c iid req [] = (r, pre @ e # post)" and "writes_table INSTANCES e"
  shows "\<exists>tid. fst (resolve_tenant_id c (si_organization_guid i) []) = Inr tid \<and>
    rbac_cleared E c tid ACTION_UPDATE pre \<and>
    policy_cleared E c (si_service_id i) (si_plan_id (updated_instance req i))
      (dump_params (si_parameters (updated_instance req i))) tid ''update'' pre"
  using update_write_cleared [OF assms] unfolding update_cleared_def .

theorem update_needs_clearance_witness:
  "\<exists>r pre e post tid. update_route stored_env (basic_caller ''u'') ''i1''
       \<lparr>ur_service_id = None, ur_plan_id = Some ''q'', ur_parameters = None\<rparr> [] = (r, pre @ e # post) \<and>
     writes_table INSTANCES e \<and> rbac_cleared stored_env (basic_caller ''u'') tid ACTION_UPDATE pre \<and>
     policy_cleared stored_env (basic_caller ''u'') ''lb'' ''q'' (dump_params (pr_parameters sample_request)) tid ''update'' pre"
proof -
  let ?req = "\<lparr>ur_service_id = None, ur_plan_id = Some ''q'', ur_parameters = None\<rparr>"
  have get: "fst (get_instance stored_env ''i1'' []) = Inr (Some sample_instance)" by code_simp
  have "list_ex (writes_table INSTANCES) (snd (update_route stored_env (basic_caller ''u'') ''i1'' ?req []))" by code_simp
  then obtain r pre e post where run: "update_route stored_env (basic_caller ''u'') ''i1'' ?req [] = (r, pre @ e # post)"
    "writes_table INSTANCES e" by (rule trace_event)
  have i: "si_service_id sample_instance = ''lb''" "si_plan_id (updated_instance ?req sample_instance) = ''q''"
    "si_parameters (updated_instance ?req sample_instance) = pr_parameters sample_request" by code_simp+
  from run update_needs_clearance [OF get run] show ?thesis unfolding i by blast
qed

section \<open>The broker over its whole life\<close>





text \<open>C6: An update that answers has stored the next version of the instance it read. The row has the version
  after the one read, the requested plan and parameters (or the old ones where the request names none), the
  same service, organisation and creation time, status and operation \<open>succeeded\<close>, no failure reason and
  drift \<open>in_sync\<close>; the reconciler leaves it alone when the control plane reported that version.\<close>

theorem update_stored_state:
  assumes "update_route E c iid req h = (Inr d, h')"
  shows "\<exists>i a j. fst (get_instance E iid h) = Inr (Some i) \<and> d = [(''operation'', JStr ''updated''), (''config'', JObj a)] \<and>
    table_view c0 h' INSTANCES [si_instance_id i] = Some (instance_item j) \<and> next_version req i j \<and>
    si_status j = status_succeeded \<and> si_operation_state j = Some op_succeeded \<and> si_operation_reason j = [] \<and> si_drift_status j = in_sync \<and>
    (jget_or a ''version'' (JInt (si_version j)) = JInt (si_version j) \<longrightarrow> \<not> needs_reconcile j)"
proof (rule update_settles [OF assms, where ?c0.0 = c0])
  fix i a i1 j
  assume *: "fst (get_instance E iid h) = Inr (Some i)" "next_version req i j" "settled i1 a j"
    "d = [(''operation'', JStr ''updated''), (''config'', JObj a)]" "table_view c0 h' INSTANCES [si_instance_id i] = Some (instance_item j)"
  then have "jget_or a ''version'' (JInt (si_version j)) = JInt (si_version j) \<longrightarrow> \<not> needs_reconcile j"
    using settled_reconciled [OF *(3)] by (simp add: settled_def)
  with * show ?thesis unfolding settled_def by blast
qed

theorem update_stored_state_witness:
  "\<exists>d h'. update_route stored_env (basic_caller ''u'') ''i1'' sample_update [] = (Inr d, h') \<and>
     (\<exists>i j. table_view stored_contents h' INSTANCES [si_instance_id i] = Some (instance_item j) \<and> next_version sample_update i j)"
proof -
  have "\<not> isl (fst (update_route stored_env (basic_caller ''u'') ''i1'' sample_update []))" by code_simp
  then obtain d h' where run: "update_route stored_env (basic_caller ''u'') ''i1'' sample_update [] = (Inr d, h')"
    by (metis isl_def prod.collapse sum.exhaust)
  with update_stored_state [OF run, of stored_contents] show ?thesis by blast
qed

section \<open>The broker implements a registry of desired states\<close>





section \<open>The broker and the control plane together\<close>



text \<open>C10: A provision request that a gate refuses changes no table. When no instance exists and RBAC,
  quota, policy or an obligation raises, the request ends with that error right there and the contents
  of every table are what they were.\<close>

theorem refused_provision_changes_nothing:
  assumes "get_instance E iid h = (Inr None, h1)" and "provision_gates E c iid req h1 = (Inl x, h2)"
  shows "provision_and_background E c iid req ai h = (Inl x, h2) \<and> table_view c0 h2 = table_view c0 h"
  using provision_gate_error [OF assms] by simp

theorem refused_provision_changes_nothing_witness:
  "\<exists>x h2. provision_and_background policy_down_env (basic_caller ''u'') ''i1'' sample_request True [] = (Inl x, h2) \<and>
     table_view (\<lambda>_. Map.empty) h2 = (\<lambda>_. Map.empty)"
proof -
  let ?h1 = "[EvGet INSTANCES [''i1''] (Inr None)]"
  have get: "get_instance policy_down_env ''i1'' [] = (Inr None, ?h1)" by code_simp
  have "isl (fst (provision_gates policy_down_env (basic_caller ''u'') ''i1'' sample_request ?h1))" by code_simp
  then obtain x h2 where "provision_gates policy_down_env (basic_caller ''u'') ''i1'' sample_request ?h1 = (Inl x, h2)"
    by (metis isl_def prod.collapse)
  from refused_provision_changes_nothing [OF get this, of True "\<lambda>_. Map.empty"] show ?thesis by auto
qed

section \<open>What an operation leaves behind\<close>

text \<open>C11: A synchronous provision that answers 201 has stored a finished instance. The row of the instance
  decodes to an instance with the requested parameters and organisation, version 1, status and operation
  \<open>succeeded\<close>, no failure reason and drift \<open>in_sync\<close>; the reconciler leaves it alone when the control
  plane reported version 1.\<close>

theorem provision_created_state:
  assumes "provision E c iid req ai h = (Inr (Created body), h')" and "pydantic_exact E" and "wf_params (pr_parameters req)"
  shows "\<exists>i d row. body = [dashboard iid, (''operation'', JStr ''provisioned''), (''config'', JObj d)] \<and>
    table_view c0 h' INSTANCES [iid] = Some row \<and> (\<forall>now. decode_instance E now row = Inr i) \<and>
    si_instance_id i = iid \<and> si_version i = 1 \<and> si_parameters i = pr_parameters req \<and>
    si_organization_guid i = pr_organization_guid req \<and> si_status i = status_succeeded \<and>
    si_operation_state i = Some op_succeeded \<and> si_operation_reason i = [] \<and> si_drift_status i = in_sync \<and>
    (jget_or d ''version'' (JInt 1) = JInt 1 \<longrightarrow> \<not> needs_reconcile i)"
proof (rule provision_created_settled [OF assms(1), of c0])
  fix i d j assume *: "settled i d j" "si_version i = 1" "si_instance_id j = iid" "si_parameters j = pr_parameters req"
    "si_schema_version j = 1" "si_organization_guid j = pr_organization_guid req"
    "body = [dashboard iid, (''operation'', JStr ''provisioned''), (''config'', JObj d)]"
    "table_view c0 h' INSTANCES [iid] = Some (instance_item j)"
  have "decode_instance E now (instance_item j) = Inr j" for now
    using * assms(2,3) by (intro decode_instance_item) (simp_all add: ok_instance_def)
  with * settled_reconciled [OF *(1)] show ?thesis
    by (intro exI [of _ j] exI [of _ d] exI [of _ "instance_item j"]) (auto simp: settled_def)
qed

theorem provision_created_state_witness:
  "\<exists>body h' i row. provision sample_env (basic_caller ''u'') ''i1'' sample_request False [] = (Inr (Created body), h') \<and>
     table_view (\<lambda>_. Map.empty) h' INSTANCES [''i1''] = Some row \<and> decode_instance sample_env [] row = Inr i \<and>
     si_instance_id i = ''i1'' \<and> si_status i = status_succeeded \<and> si_drift_status i = in_sync"
proof (rule sample_provision)
  fix body assume run: "provision sample_env (basic_caller ''u'') ''i1'' sample_request False [] = (Inr (Created body), snd sample_run)"
  from provision_created_state [OF run sample_env_ok(2) sample_request_wf, of "\<lambda>_. Map.empty"] obtain i row where
    "table_view (\<lambda>_. Map.empty) (snd sample_run) INSTANCES [''i1''] = Some row" "decode_instance sample_env [] row = Inr i"
    "si_instance_id i = ''i1''" "si_status i = status_succeeded" "si_drift_status i = in_sync" by blast
  with run show ?thesis by blast
qed



text \<open>C13: Deferred provisioning does exactly what immediate provisioning does. For every environment, request
  and history, the request with \<open>accepts_incomplete\<close> followed by its background task performs the same
  external calls, with the same answers, as the synchronous request.\<close>

theorem async_provision_equals_sync:
  "snd (provision_and_background E c iid req True h) = snd (provision_and_background E c iid req False h)"
  by (rule provision_async_trace)





text \<open>C16: Policy obligations fail closed. Enforcement returns exactly when every obligation has a handler,
  with one audit event each; otherwise it stops at the first obligation without one, after auditing it,
  with a 503 that names it.\<close>

theorem obligations_fail_closed:
  "case enforce_obligations E c iid st tid action obs h of
     (Inr _, h') \<Rightarrow> set obs \<subseteq> fst ` set OBLIGATION_HANDLERS \<and> length h' = length h + length obs
   | (Inl x, h') \<Rightarrow> (\<exists>ok ob rest. obs = ok @ ob # rest \<and> set ok \<subseteq> fst ` set OBLIGATION_HANDLERS \<and>
        ob \<notin> fst ` set OBLIGATION_HANDLERS \<and> length h' = length h + length ok + 1 \<and>
        x = HTTPException 503 (JObj [(''message'', JStr ''policy obligation could not be enforced''), (''obligation'', JStr ob)]))"
proof -
  have known: "map_of OBLIGATION_HANDLERS ob = Some True \<longleftrightarrow> ob \<in> fst ` set OBLIGATION_HANDLERS" for ob
    unfolding OBLIGATION_HANDLERS_def by (simp only: map_of_map_restrict [where f = "\<lambda>_. True"] restrict_map_def set_map image_image fst_conv image_ident) simp
  show ?thesis
    using enforce_obligations_run [of E c iid st tid action obs h] unfolding known wp_def subset_iff
    by (fastforce split: prod.splits sum.splits)
qed

section \<open>Identity\<close>

text \<open>C17: A state-changing route runs only for an authenticated caller. A Basic caller presented exactly the
  configured user name and password; any other caller presented a bearer token that was verified, with a
  \<open>sub\<close> claim, and acts as the principal of that claim, never as \<open>anonymous\<close>.\<close>

theorem state_change_authenticated:
  assumes "state_change_identify E authorization creds h = (Inr c, h')"
  shows "tu_principal (ca_user c) \<noteq> ''anonymous'' \<and>
    (if ca_is_basic c then creds = Some (cfg_broker_username (cfg E), cfg_broker_password (cfg E)) \<and>
        tu_principal (ca_user c) = ''broker:'' @ cfg_broker_username (cfg E)
     else (\<exists>claims. decode_token E (strip_bearer (the authorization)) h = (Inr claims, h') \<and>
        jtruthy (jget claims ''sub'') \<and> tu_principal (ca_user c) = py_str E (jget claims ''sub'')))"
proof -
  from assms have id: "identify E authorization creds h = (Inr c, h')" and p: "tu_principal (ca_user c) \<noteq> ''anonymous''"
    by (auto simp: state_change_identify_def run_ok split: if_splits)
  show ?thesis
  proof (cases "ca_is_basic c")
    case True
    with identify_basic [OF id] p show ?thesis
      by (auto simp: anonymous_def basic_caller_def compare_digest_def split: if_splits)
  next
    case False
    with identify_bearer [OF id] p show ?thesis by (auto simp: user_of_claims_def map_sum_Inr_iff)
  qed
qed

theorem state_change_authenticated_witness:
  "state_change_identify sample_env None (Some (''u'', ''w'')) [] = (Inr (basic_caller ''u''), []) \<and>
     tu_principal (ca_user (basic_caller ''u'')) \<noteq> ''anonymous''"
proof -
  have run: "state_change_identify sample_env None (Some (''u'', ''w'')) [] = (Inr (basic_caller ''u''), [])" by code_simp
  from run state_change_authenticated [OF run] show ?thesis by blast
qed


text \<open>C19: A token caller lists only instances of a tenant they may read. A listing that answers a caller without
  the Basic flag named a tenant, RBAC cleared \<open>read\<close> at it, every instance returned belongs to it, and
  there are at most as many as the limit (at least one).\<close>

theorem listing_is_tenant_scoped:
  assumes "list_instances_route E c tenant limit h = (Inr out, h')" and "\<not> ca_is_basic c"
  shows "\<exists>tid. tenant = Some tid \<and> rbac_cleared E c tid ACTION_READ h' \<and>
    (\<forall>i\<in>set out. si_organization_guid i = Some tid) \<and> int (length out) \<le> max limit 1"
proof -
  from assms obtain tid h1 where tid: "tenant = Some tid" "enforce_rbac E c tid ACTION_READ h = (Inr (), h1)"
    and out: "list_instances E (Some tid) limit h1 = (Inr out, h')"
    by (auto simp: list_instances_route_def run_ok split: option.splits)
  have "rbac_cleared E c tid ACTION_READ h1" by (rule wp_run [OF enforce_rbac_cleared tid(2)])
  moreover obtain es where "h' = h1 @ es" by (rule emitsD [OF emits_list_instances out])
  ultimately show ?thesis
    using list_instances_sound [OF out] rbac_cleared_append tid(1) by auto
qed

theorem listing_is_tenant_scoped_witness:
  "\<exists>out h'. list_instances_route role_env sample_user (Some ''org'') 5 [] = (Inr out, h') \<and>
     rbac_cleared role_env sample_user ''org'' ACTION_READ h' \<and> int (length out) \<le> 5"
proof -
  have "\<not> isl (fst (list_instances_route role_env sample_user (Some ''org'') 5 []))" by code_simp
  then obtain out h' where run: "list_instances_route role_env sample_user (Some ''org'') 5 [] = (Inr out, h')"
    by (metis isl_def prod.collapse sum.exhaust)
  have "\<not> ca_is_basic sample_user" by (simp add: sample_user_def)
  from listing_is_tenant_scoped [OF run this] run show ?thesis by fastforce
qed

section \<open>Reconciliation and drift\<close>





section \<open>Tenancy and roles\<close>

text \<open>C22: Authorisation follows the tenant tree. When the role and tenant tables answer alike during the
  request, a principal may perform an action at a tenant exactly when some binding of theirs grants a
  role with that action at the tenant itself, at a proper ancestor of it, or as platform administrator
  anywhere; the resolver never raises.\<close>

theorem authorisation_spec:
  assumes "roles_snapshot E prin bs" and "tenants_snapshot E ts"
  shows "fst (authz_can E prin tid action h) = Inr (\<exists>b\<in>set bs.
    (rb_tenant_id b = tid \<or> rb_role b = platform_admin \<or> (tid, rb_tenant_id b) \<in> (parent_rel (tenants_by_id ts))\<^sup>+) \<and>
    action \<in> DEFAULT_ROLE_ACTIONS (rb_role b))"
proof -
  have "wp (authz_can E prin tid action) (\<lambda>r _. r = (\<exists>b\<in>set bs. grants ts tid b \<and> action \<in> DEFAULT_ROLE_ACTIONS (rb_role b)))
      (\<lambda>_ _. False) h"
    unfolding authz_can_def wp_simps
    by (rule wp_mono [OF effective_roles_spec [OF assms]]) (auto simp: ea_can_def ea_actions_def)
  then show ?thesis unfolding grants_def by (auto simp: wp_def split: prod.splits sum.splits)
qed

theorem authorisation_spec_witness:
  "fst (authz_can role_env ''p'' ''org'' ACTION_PROVISION []) = Inr True"
  using authorisation_spec [OF role_env_snapshots, of "''org''" ACTION_PROVISION "[]"] by (simp add: sample_binding_def)

text \<open>C23: The walks over the tenant tree end and are exact, also when the parent links contain a cycle. The
  ancestors of a tenant are exactly the ids reachable by the parent relation, each once, the immediate
  parent first; its descendants are exactly the tenants below it, each once. Both functions are total.\<close>

theorem tree_walks_spec:
  "tn_tenant_id ` set (ancestors_of ts tid) = (parent_rel (tenants_by_id ts))\<^sup>+ `` {tid} \<and>
   distinct (map tn_tenant_id (ancestors_of ts tid)) \<and>
   (case map_of (tenants_by_id ts) tid of None \<Rightarrow> ancestors_of ts tid = [] | Some t \<Rightarrow> parent_chain t (ancestors_of ts tid)) \<and>
   tn_tenant_id ` set (descendants_of ts tid) = (child_rel ts)\<^sup>+ `` {tid} \<and>
   distinct (map tn_tenant_id (descendants_of ts tid))"
proof -
  have "parent_chain t (ancestors_of ts tid)" if "map_of (tenants_by_id ts) tid = Some t" for t
    using ancestors_walk_chain [OF tenants_by_id_keyed, of ts "[]" t "[]"] that by (auto simp: ancestors_of_def Let_def)
  then show ?thesis
    using ancestors_of_set ancestors_of_distinct descendants_of_set [of ts tid] descendants_of_distinct [of ts tid]
    by (auto simp: ancestors_of_def split: option.split)
qed

section \<open>Quotas\<close>



section \<open>Rendering\<close>



text \<open>C26: With mTLS enabled no hop of the rendered configuration is plaintext: every filter chain of every
  listener requires a client certificate and overwrites the forwarded client identity, every cluster
  originates TLS (the cluster of the local SPIRE agent aside), and when certificates come from the
  agent its cluster is in the document.\<close>

theorem envoy_mtls_everywhere:
  assumes "build_doc s i = Inr doc" "lb_mtls_enabled (si_parameters i)"
  shows "length (doc_listeners doc) = length (lb_listeners (si_parameters i)) \<and>
    (\<forall>l\<in>set (doc_listeners doc). jlist [''filter_chains''] l \<noteq> [] \<and>
       (\<forall>ch\<in>set (jlist [''filter_chains''] l). chain_authenticates ch)) \<and>
    (\<forall>c\<in>set (doc_clusters doc). upstream_tls c \<or> c = JObj (sds_cluster s)) \<and>
    (cfg_mesh_sds_enabled s \<longrightarrow> JObj (sds_cluster s) \<in> set (doc_clusters doc))"
proof (intro conjI)
  note ls = build_doc_listeners [OF assms(1)]
  have "jlist [''filter_chains''] (JObj (build_listener s i l)) \<noteq> []" for l
    by (simp add: build_listener_def Let_def jlist_def)
  then show "\<forall>l\<in>set (doc_listeners doc). jlist [''filter_chains''] l \<noteq> [] \<and>
       (\<forall>ch\<in>set (jlist [''filter_chains''] l). chain_authenticates ch)"
    using listener_authenticates [OF assms(2)] by (auto simp: ls)
qed (use build_doc_listeners [OF assms(1)] build_doc_clusters_tls [OF assms] build_doc_sds [OF assms] in auto)

theorem envoy_mtls_everywhere_witness:
  "\<exists>doc. build_doc sample_settings mtls_instance = Inr doc \<and> length (doc_listeners doc) = 1 \<and>
     (\<forall>c\<in>set (doc_clusters doc). upstream_tls c \<or> c = JObj (sds_cluster sample_settings))"
proof -
  have m: "lb_mtls_enabled (si_parameters mtls_instance)" "length (lb_listeners (si_parameters mtls_instance)) = 1"
    "params_renderable (si_parameters mtls_instance)" by code_simp+
  then obtain doc where "build_doc sample_settings mtls_instance = Inr doc" using renderable_builds by blast
  with envoy_mtls_everywhere [OF this m(1)] m(2) show ?thesis by auto
qed

section \<open>Service packs\<close>



text \<open>C28: Deleting an instance of a shipped pack removes nothing: the whole teardown is one audit event that
  reports the resource as torn down. No executor runs, although the renderers describe their
  result as an intent for the deletion path to execute.\<close>

theorem pack_teardown_only_reports:
  assumes "p \<in> set (shipped_packs L reg dir)" "r \<in> set (pk_renderers p)" "get_renderer rs (si_service_id i) = Some r"
  shows "\<exists>resource. teardown_instance rs E c tid i =
    broker_audit E ''instance.torn_down'' (si_instance_id i) [] c tid ''allow''
      [(''service_id'', JStr (si_service_id i)), (''removed'', jstrs [resource]), (''failed'', jstrs []), (''detail'', JStr [])]"
proof -
  from shipped_contract [OF assms(1,2)] obtain res where r: "pack_renderer L reg r res" ..
  have "teardown_instance rs E c tid i =
    broker_audit E ''instance.torn_down'' (si_instance_id i) [] c tid ''allow''
      [(''service_id'', JStr (si_service_id i)), (''removed'', jstrs [res (si_instance_id i)]), (''failed'', jstrs []), (''detail'', JStr [])]"
    by (simp add: teardown_instance_def assms(3) pack_renderer.teardown_law [OF r] intent_teardown_def try_io_def bind_io_def)
  then show ?thesis by blast
qed

theorem pack_teardown_only_reports_witness:
  "\<exists>resource. teardown_instance [(''inference-endpoint'', InferenceEndpointRenderer sample_text [])] sample_env (basic_caller ''ops'') ''t1'' inference_instance =
    broker_audit sample_env ''instance.torn_down'' (si_instance_id inference_instance) [] (basic_caller ''ops'') ''t1'' ''allow''
      [(''service_id'', JStr (si_service_id inference_instance)), (''removed'', jstrs [resource]), (''failed'', jstrs []), (''detail'', JStr [])]"
proof (rule pack_teardown_only_reports)
  show "ai_pack sample_text [] (id ''ai'') \<in> set (shipped_packs sample_text [] id)" by (simp add: shipped_packs_def)
  show "InferenceEndpointRenderer sample_text [] \<in> set (pk_renderers (ai_pack sample_text [] (id ''ai'')))"
    by (simp add: pack_defs)
  show "get_renderer [(''inference-endpoint'', InferenceEndpointRenderer sample_text [])] (si_service_id inference_instance) =
      Some (InferenceEndpointRenderer sample_text [])" by (simp add: get_renderer_def inference_instance_def)
qed

section \<open>Service authentication\<close>

text \<open>C29: The forwarded client certificate is read from the leaf. For a header whose first element carries the
  issuer, a quoted subject (with any characters, separators and quotes included) and the verified URI,
  the parsed identity is that URI, whatever further elements follow and whatever the subject contains.\<close>

theorem xfcc_identity_not_spoofable:
  assumes "plain_value i" and "i \<noteq> []" and "\<not> is_space (hd i)" and "\<not> is_space (last i)" and "plain_value b"
  shows "parse_xfcc_identity (Some (''By='' @ b @ '';Subject='' @ quote subj @ '';URI='' @ i @ '','' @ rest)) = Some i"
  by (rule parse_xfcc_leaf [OF assms])

theorem xfcc_identity_not_spoofable_witness:
  "parse_xfcc_identity (Some (''By='' @ ''spiffe://s/cp'' @ '';Subject='' @ quote ''x;URI=spiffe://evil,URI=e'' @
     '';URI='' @ ''spiffe://s/broker'' @ '','' @ ''URI=spiffe://evil'')) = Some ''spiffe://s/broker''"
  by (rule xfcc_identity_not_spoofable) code_simp+

section \<open>Rate limits\<close>

text \<open>C30: A token bucket bounds every burst. Over any non-decreasing sequence of arrival times, the number of
  requests a fresh bucket admits is at most its capacity plus the refill of the time that passed.\<close>

theorem bucket_bounds_bursts:
  assumes "0 \<le> capacity" and "0 \<le> rate" and "sorted (now # ts)"
  shows "of_nat (run_bucket (new_bucket capacity rate now) ts) \<le> capacity + (last (now # ts) - now) * rate"
  using run_bucket_bound [OF new_bucket_ok [OF assms(1,2)], of now ts] assms(3) by (simp add: new_bucket_def)

theorem bucket_bounds_bursts_witness:
  "of_nat (run_bucket (new_bucket 2 1 0) [0, 0, 0, 1]) \<le> (2 + (1 - 0) * 1 :: rat)"
  using bucket_bounds_bursts [of 2 1 0 "[0, 0, 0, 1]"] by simp

section \<open>Audit trail\<close>





text \<open>C33: No accepted audit event is lost while there is room. When the service's events are prepared and the
  buffer and spool together hold fewer than 1000, every event accepted is afterwards in the table, the
  buffer or the spool, together with everything held before, whether the insert, the flush or the drain
  succeeds; the chain head is the one the preparation set.\<close>

theorem audit_ingest_keeps_events:
  assumes "audit_world_ok W" and "audit_ok W st" and "length (as_buffer st) + length (spooled st) < BUFFER_CAP"
    and "ingest_event W event st = (Inr r, st')"
  shows "\<exists>e lh. prepare_event W event st = (Inr e, st\<lparr>as_last_hash := lh\<rparr>) \<and>
    add_mset (ae_event_hash e) (held st) \<subseteq># held st' \<and> audit_ok W st' \<and> as_last_hash st' = lh"
  by (rule ingest_conserves [OF assms]) blast

theorem audit_ingest_keeps_events_witness:
  "\<exists>r st' (e :: AuditEvent). ingest_event sample_audit sample_event (initial_audit_state sample_settings) = (Inr r, st') \<and>
     {#ae_event_hash e#} \<subseteq># held st' \<and> audit_ok sample_audit st'"
proof -
  let ?st = "initial_audit_state sample_settings"
  have "\<not> isl (fst (ingest_event sample_audit sample_event ?st))" by code_simp
  then obtain r st' where run: "ingest_event sample_audit sample_event ?st = (Inr r, st')" by (metis isl_def prod.collapse sum.exhaust)
  have w: "audit_world_ok sample_audit" by (simp add: audit_world_ok_def sample_audit_def)
  have ok: "audit_ok sample_audit ?st" "length (as_buffer ?st) + length (spooled ?st) < BUFFER_CAP" "held ?st = {#}"
    by (simp_all add: audit_ok_def initial_audit_state_def spooled_def BUFFER_CAP_def held_def split: option.split)
  from audit_ingest_keeps_events [OF w ok(1,2) run, unfolded ok(3)] obtain e :: AuditEvent where
    "{#ae_event_hash e#} \<subseteq># held st'" "audit_ok sample_audit st'" by blast
  with run show ?thesis by (intro exI conjI)
qed

section \<open>Credentials from outside\<close>

text \<open>C34: A token of the identity provider is accepted only under a key the provider served recently. Over any
  history of a verifier built from the settings, a token that is accepted was checked, with the configured
  algorithms, issuer and audience, against a key of a key set which is the body of a successful response (given
  that the JWT library ends with a key of the set it asked for last), and since that response was received less time has passed than its time to live (its maximal age, or the
  configured one) plus the configured grace period.\<close>

theorem oidc_accepts_recent_keys:
  assumes "verifier_at K E v h" and "verify K E token v h = (Inr (Inr claims, v'), h')"
    and "uses_fetched key_in None (ol_key_plan K token)"
    and "0 < cfg_oidc_jwks_cache_ttl_seconds (env_settings E)" and "0 \<le> cfg_oidc_jwks_stale_grace_seconds (env_settings E)"
  shows "\<exists>h0 h1 rq r jwks key. h' = h0 @ [EvHttp rq (Inr r)] @ h1 \<and> 200 \<le> rs_status r \<and> rs_status r < 300 \<and>
    rs_json r = Some jwks \<and> key_in jwks key \<and>
    ol_time K h' - ol_time K (h0 @ [EvHttp rq (Inr r)]) <
      jwks_ttl v (ol_cache_control K r) + cfg_oidc_jwks_stale_grace_seconds (env_settings E) \<and>
    ol_jwt_decode K token key [''RS256'', ''ES256''] (rstrip_if (\<lambda>c. c = CHR ''/'') (cfg_oidc_issuer_url (env_settings E)))
      (if cfg_oidc_audience (env_settings E) = [] then None else Some (cfg_oidc_audience (env_settings E))) = Inr claims"
proof -
  let ?s = "env_settings E"
  from verifier_at_inv [OF assms(1)] have served: "keys_served K h v"
    and conf: "same_config (fst (get_oidc_verifier ?s None)) v" by auto
  then have cfg: "ov_cache_ttl v = cfg_oidc_jwks_cache_ttl_seconds ?s" "ov_stale_grace v = cfg_oidc_jwks_stale_grace_seconds ?s"
      "ov_algorithms v = [''RS256'', ''ES256'']" "ov_issuer v = rstrip_if (\<lambda>c. c = CHR ''/'') (cfg_oidc_issuer_url ?s)"
      "ov_audience v = (if cfg_oidc_audience ?s = [] then None else Some (cfg_oidc_audience ?s))"
    by (auto simp: get_oidc_verifier_def Let_def new_verifier_def same_config_def)
  with assms(4,5) have "sane v" by (simp add: sane_def)
  from verify_accepts [OF assms(2) this assms(3)] obtain key jwks where same: "same_config v v'"
    and key: "key_in jwks key" and keys: "holds_keys K h' v' jwks"
    and dec: "ol_jwt_decode K token key (ov_algorithms v) (ov_issuer v) (ov_audience v) = Inr claims" by blast
  from keys obtain loaded ttl where jw: "ov_jwks v' = Some (jwks, loaded, ttl)"
    and fresh: "ol_time K h' - loaded < ttl + ov_stale_grace v'" by (auto simp: holds_keys_def)
  from verify_served [OF assms(2) served] jw have "served K h' v' jwks loaded ttl" by (simp add: keys_served_def)
  with same have "served K h' v jwks loaded ttl" using served_same [of v' v] by (simp add: same_config_def)
  then obtain h0 h1 rq r where "h' = h0 @ [EvHttp rq (Inr r)] @ h1" "rs_json r = Some jwks" "200 \<le> rs_status r" "rs_status r < 300"
      "loaded = ol_time K (h0 @ [EvHttp rq (Inr r)])" "ttl = jwks_ttl v (ol_cache_control K r)"
    by (auto simp: served_def)
  moreover have "ov_stale_grace v' = ov_stale_grace v" using same by (simp add: same_config_def)
  ultimately show ?thesis using fresh key dec unfolding cfg [symmetric] by metis
qed

theorem oidc_accepts_recent_keys_witness:
  "\<exists>v' h' h0 h1 rq r. verify idp_lib idp_env ''token'' (fst (get_oidc_verifier (env_settings idp_env) None)) [] = (Inr (Inr [], v'), h') \<and>
     h' = h0 @ [EvHttp rq (Inr r)] @ h1 \<and> rs_json r = Some idp_document \<and>
     ol_time idp_lib h' - ol_time idp_lib (h0 @ [EvHttp rq (Inr r)]) < 20 + 300"
proof -
  let ?v = "fst (get_oidc_verifier (env_settings idp_env) None)"
  have "case fst (verify idp_lib idp_env ''token'' ?v []) of Inr (Inr c, _) \<Rightarrow> c = [] | _ \<Rightarrow> False" by code_simp
  then obtain v' h' where run: "verify idp_lib idp_env ''token'' ?v [] = (Inr (Inr [], v'), h')"
    by (cases "verify idp_lib idp_env ''token'' ?v []") (auto split: sum.splits)
  have at: "verifier_at idp_lib idp_env ?v []" by (rule verifier_at.built) simp
  have sets: "0 < cfg_oidc_jwks_cache_ttl_seconds (env_settings idp_env)" "cfg_oidc_jwks_stale_grace_seconds (env_settings idp_env) = 300"
    by code_simp+
  have ttl: "jwks_ttl ?v (ol_cache_control idp_lib r) = 20" for r by (simp add: idp_lib_def) code_simp
  have plan: "uses_fetched (\<lambda>j k. j = idp_document \<and> k = ''key'') None (ol_key_plan idp_lib ''token'')"
    by (simp add: idp_lib_def)
  from oidc_accepts_recent_keys [OF at run plan sets(1)] obtain h0 h1 rq r where
    "h' = h0 @ [EvHttp rq (Inr r)] @ h1" "rs_json r = Some idp_document"
    "ol_time idp_lib h' - ol_time idp_lib (h0 @ [EvHttp rq (Inr r)]) < 20 + 300"
    unfolding sets(2) ttl by auto
  with run show ?thesis by blast
qed

text \<open>C35: A secret is never served longer than the time to live after it was rotated. Over any sequence of lookups
  and expiries of the provider built from the settings, at times that do not decrease, a lookup returns a value
  that the selected backend held either now or less than the configured time to live ago, and it fails only when
  the backend itself fails now, with the same exception.\<close>

theorem secret_cache_fresh:
  assumes "provider_at W s now p" and "now \<le> t" and "provider_get W t p name = (r, p')"
  shows "\<exists>b. selected_backend s = Inr b \<and> (case r of
      Inr v \<Rightarrow> \<exists>t0 \<le> t. (t0 = t \<or> t - t0 < of_int (cfg_secrets_ttl_seconds s)) \<and> fst (provider_get W t0 b name) = Inr v
    | Inl x \<Rightarrow> fst (provider_get W t b name) = Inl x)"
  using get_inv [OF provider_at_inv [OF assms(1)] assms(2,3)] by (auto simp: gave_def split: sum.split)

theorem secret_cache_fresh_witness:
  "\<exists>p q. provider_at rotated_world ssm_settings 40 p \<and>
     provider_get rotated_world 70 p ''k'' = (Inr ''old'', p) \<and> provider_get rotated_world 101 p ''k'' = (Inr ''new'', q) \<and>
     (\<exists>t0 \<le> 70. (t0 = 70 \<or> 70 - t0 < 60) \<and> fst (provider_get rotated_world t0 (AwsSsmParameterProvider []) ''k'') = Inr ''old'')"
proof -
  let ?p = "RotatingSecretsProvider (AwsSsmParameterProvider []) 60 [(''k'', (40, ''old''))]"
  have "provider_get rotated_world 40 (RotatingSecretsProvider (AwsSsmParameterProvider []) 60 []) ''k'' = (Inr ''old'', ?p)"
    by code_simp
  with provider_at.built [OF ssm_provider, of rotated_world 0] have at: "provider_at rotated_world ssm_settings 40 ?p"
    by (auto intro: provider_at.looked_up [of _ _ 0])
  have g: "provider_get rotated_world 70 ?p ''k'' = (Inr ''old'', ?p)" by code_simp
  have n: "provider_get rotated_world 101 ?p ''k'' =
      (Inr ''new'', RotatingSecretsProvider (AwsSsmParameterProvider []) 60 [(''k'', (101, ''new''))])" by code_simp
  have "selected_backend ssm_settings = Inr (AwsSsmParameterProvider [])" "cfg_secrets_ttl_seconds ssm_settings = 60"
    by code_simp+
  with secret_cache_fresh [OF at _ g]
  have "\<exists>t0 \<le> 70. (t0 = 70 \<or> 70 - t0 < 60) \<and> fst (provider_get rotated_world t0 (AwsSsmParameterProvider []) ''k'') = Inr ''old''"
    by (simp del: provider_get.simps)
  with at g n show ?thesis by blast
qed

section \<open>Catalog and start-up\<close>


section \<open>Chargeback\<close>


section \<open>Stored data: queries, connectors, backups\<close>

text \<open>C38: An ingest reports what it did, for both connectors. Without a client it raises before any call; a
  resource that is not a single object or file is refused before any call; and every run either
  stages nothing and does not report success, or ends with one write into the destination bucket of
  a body within the size limit, and reports success with the number of its bytes and its path exactly
  when that write succeeded.\<close>

theorem ingest_reports_truthfully:
  "(s3_client c \<or> (\<exists>m. s3_ingest L c r opts h = (Inl (RuntimeError m), h))) \<and>
   (rd_kind r = ''object'' \<or> (\<exists>m d. s3_ingest L c r opts h \<in> {(Inl (RuntimeError m), h), (Inr (ingest_failed d), h)})) \<and>
   ingest_outcome opts h (fst (s3_ingest L c r opts h)) (snd (s3_ingest L c r opts h)) \<and>
   (case gh_client g of None \<Rightarrow> \<exists>m. github_ingest E G g r opts h = (Inl (RuntimeError m), h) | Some _ \<Rightarrow> True) \<and>
   (rd_kind r = ''file'' \<or> (\<exists>m d. github_ingest E G g r opts h \<in> {(Inl (RuntimeError m), h), (Inr (ingest_failed d), h)})) \<and>
   ingest_outcome opts h (fst (github_ingest E G g r opts h)) (snd (github_ingest E G g r opts h))"
  using s3_ingester.refuses [of c L r opts h] github_ingester.refuses [of g E G r opts h] s3_ingest_outcome github_ingest_outcome
  by (cases "gh_client g") auto

text \<open>C39: A backup that succeeded can be restored. After a backup and a restore of the same object that both
  return, with anything in between that does not write that object, the exit codes are zero, every
  row the snapshot tables had is back as it was, and no other row of any table is touched. Assumed of
  the services: a scan yields the rows of its table, the batch writer puts every item it was given, S3 reads back
  what was written, and the JSON text of a snapshot reads back.\<close>

theorem backup_round_trip:
  assumes "backup_main L E BackupAction b k h = Some (Inr code, h1)"
    and "backup_main L E RestoreAction b k (h1 @ es) = Some (Inr code', h2)"
    and "list_all (\<lambda>e. \<not> writes_object b k e) es"
    and "\<And>t items h h'. t \<in> set SNAPSHOT_TABLES \<Longrightarrow> scan_pages L t None h items h' \<Longrightarrow> rows_of (c t) items"
    and "batch_writes L" and "s3_reads_back E s0" and "\<And>snap body. bl_dumps L snap = Inr body \<Longrightarrow> bl_loads L body = Inr snap"
  shows "code = 0 \<and> code' = 0 \<and> table_view c0 h2 t key = (if t \<in> set SNAPSHOT_TABLES
      then (case c t key of Some i \<Rightarrow> Some i | None \<Rightarrow> table_view c0 (h1 @ es) t key) else table_view c0 (h1 @ es) t key)"
  using backup_restore [where c = c, OF assms(1-3) _ assms(5,6)] assms(4,7) by blast

theorem backup_round_trip_witness:
  "\<exists>h1 h2. backup_main sample_backup backup_env BackupAction ''b'' ''k'' [] = Some (Inr 0, h1) \<and>
     backup_main sample_backup backup_env RestoreAction ''b'' ''k'' (h1 @ [EvDelete ''sovereign_instances'' [''a''] (Inr ())]) = Some (Inr 0, h2) \<and>
     table_view (\<lambda>_. Map.empty) h2 ''sovereign_instances'' [''a''] = Some (sample_row ''a'')"
proof -
  let ?es = "[EvDelete ''sovereign_instances'' [''a''] (Inr ())]"
  obtain h2 where r: "backup_main sample_backup backup_env RestoreAction ''b'' ''k'' (sample_backup_run @ ?es) = Some (Inr 0, h2)"
    using sample_restore_runs by blast
  have quiet: "list_all (\<lambda>e. \<not> writes_object ''b'' ''k'' e) ?es" by simp
  have "table_view (\<lambda>_. Map.empty) h2 ''sovereign_instances'' [''a''] = Some (sample_row ''a'')"
    using backup_round_trip [where c = sample_contents and t = "''sovereign_instances''" and key = "[''a'']" and ?c0.0 = "\<lambda>_. Map.empty",
        OF sample_backup_runs r quiet sample_backup_rows sample_backup_ok] sample_contents_a
    by (simp add: SNAPSHOT_TABLES_def)
  with sample_backup_runs r show ?thesis by blast
qed

section \<open>Stores, migrations, settings\<close>

text \<open>C40: A managed environment starts only in a secure posture. When start-up succeeds outside the development
  environments, the broker does not trust Basic callers, shared bearer authentication is off and OIDC or
  mutual TLS is on; with strict secrets no development sentinel is live, and when OIDC, managed secrets or
  audit signing are required they are configured.\<close>

theorem managed_start_is_secure:
  assumes "get_settings provider_for s0 = Inr s" and "assert_secure_posture s = Inr ()" and "\<not> is_development (cfg_env s0)"
  shows "\<not> cfg_broker_trust_basic_auth s \<and> \<not> cfg_shared_bearer_auth_enabled s \<and> (cfg_require_oidc s \<or> cfg_mtls_required s) \<and>
    (cfg_strict_secrets s \<longrightarrow> cfg_dev_bearer_token s \<noteq> ''dev-token'' \<and> cfg_broker_password s \<noteq> ''broker'' \<and>
       cfg_s3_secret_key s \<noteq> ''minioadmin'' \<and> cfg_dev_jwt_secret s \<noteq> ''dev-jwt-secret-replace-me-with-a-real-one'') \<and>
    (cfg_require_oidc s \<longrightarrow> cfg_oidc_issuer_url s \<noteq> [] \<and> cfg_oidc_audience s \<noteq> []) \<and>
    (cfg_require_managed_secrets s \<longrightarrow> secrets_kind s \<noteq> ''env'') \<and>
    (cfg_require_audit_signing s \<longrightarrow> cfg_audit_signature_key_id s \<noteq> [] \<and> cfg_audit_signing_private_key_pem s \<noteq> [])"
proof -
  from assms(1) have r: "resolve_managed_secrets provider_for s0 = Inr s"
    by (auto simp: get_settings_def split: sum.splits if_splits)
  have env: "requires_real_secrets (cfg_env s)"
    using resolve_managed_env [OF r] assms(3) by (simp add: requires_real_secrets_def)
  show ?thesis
    using assms(1,2) r env live_sentinels_empty_iff [of s]
    by (simp add: get_settings_def assert_secure_posture_def split: if_splits) blast
qed

theorem managed_start_is_secure_witness:
  "get_settings (\<lambda>_. Inl (RuntimeError [])) managed_settings = Inr managed_settings \<and> \<not> cfg_broker_trust_basic_auth managed_settings"
proof -
  have g: "get_settings (\<lambda>_. Inl (RuntimeError [])) managed_settings = Inr managed_settings"
    by (simp add: get_settings_def resolve_managed_secrets_def secrets_kind_def managed_settings_def sample_settings_def
        lower_def lower_char_def live_sentinels_def DEV_SENTINELS_def)
  have a: "assert_secure_posture managed_settings = Inr ()" "\<not> is_development (cfg_env managed_settings)" by code_simp+
  from g managed_start_is_secure [OF g a] show ?thesis by blast
qed

end
